(* ===== verification/Oc_Prelude.thy ===== *)
theory Oc_Prelude
  imports Main "HOL-Library.Sublist" "HOL-Library.Code_Target_Nat"
begin

text \<open>
  Shared vocabulary of the development. Rust text (\<open>String\<close>, \<open>&str\<close>) is the list of its
  UTF-8 bytes, so \<open>length\<close> is \<open>str::len\<close>; the operations of the Rust standard library that
  the sources use on text are defined here on those bytes: \<open>trim\<close> and the whitespace splits
  recognise every Unicode White_Space character in its UTF-8 encoding, ASCII case folding and
  integer parsing follow \<open>core::str\<close> and \<open>core::num\<close>. Fallible functions return a sum, the error on
  the left.
\<close>

named_theorems text_simps \<open>evaluation and shape lemmas for text\<close>

type_synonym str = string

type_synonym ('e, 'a) result = "'e + 'a"

abbreviation Err :: "'e \<Rightarrow> ('e, 'a) result" where "Err \<equiv> Inl"
abbreviation Ok :: "'a \<Rightarrow> ('e, 'a) result" where "Ok \<equiv> Inr"

text \<open>Rust's \<open>?\<close>: on a result, and in a function that returns the state beside its result.\<close>

definition and_then :: "('e, 'a) result \<Rightarrow> ('a \<Rightarrow> ('e, 'b) result) \<Rightarrow> ('e, 'b) result" where
  "and_then r k = (case r of Inl e \<Rightarrow> Inl e | Inr x \<Rightarrow> k x)"

definition try_in :: "'s \<Rightarrow> ('e, 'a) result \<Rightarrow> ('a \<Rightarrow> 's \<times> ('e, 'b) result) \<Rightarrow> 's \<times> ('e, 'b) result" where
  "try_in s r k = (case r of Inl e \<Rightarrow> (s, Inl e) | Inr x \<Rightarrow> k x)"

lemma and_then_simps [simp]: "and_then (Inl e) k = Inl e" "and_then (Inr x) k = k x"
  by (simp_all add: and_then_def)

lemma try_in_simps [simp]: "try_in s (Inl e) k = (s, Inl e)" "try_in s (Inr x) k = k x"
  by (simp_all add: try_in_def)

text \<open>A step that returns a value beside the new state, followed by the rest.\<close>

definition bind_in :: "'s \<times> ('e, 'a) result \<Rightarrow> ('a \<Rightarrow> 's \<Rightarrow> 's \<times> ('e, 'b) result) \<Rightarrow> 's \<times> ('e, 'b) result" where
  "bind_in r k = (case r of (s, Inl e) \<Rightarrow> (s, Inl e) | (s, Inr x) \<Rightarrow> k x s)"

lemma bind_in_simps [simp]: "bind_in (s, Inl e) k = (s, Inl e)" "bind_in (s, Inr x) k = k x s"
  by (simp_all add: bind_in_def)

lemma bind_in_keeps:
  assumes "q (fst r) = c" "\<And>x s. q s = c \<Longrightarrow> q (fst (k x s)) = c"
  shows "q (fst (bind_in r k)) = c"
  using assms by (cases r; cases "snd r") auto

lemma try_in_keeps:
  assumes "q s = c" "\<And>x. q (fst (k x)) = c"
  shows "q (fst (try_in s r k)) = c"
  using assms by (cases r) auto

lemma bind_in_Ok:
  assumes "bind_in r k = (s', Ok y)"
  obtains s x where "r = (s, Ok x)" "k x s = (s', Ok y)"
  using assms by (cases r; cases "snd r") auto

lemma and_then_Ok: "and_then r k = Inr y \<longleftrightarrow> (\<exists>x. r = Inr x \<and> k x = Inr y)"
  by (cases r) auto

text \<open>\<open>serde_json\<close> is a parameter wherever the sources write or read documents: a codec between values and
  bytes (of any type), with its errors as texts, the length of the bytes, and the empty file.\<close>

record ('b, 's) codec =
  encode :: "'s \<Rightarrow> (str, 'b) result"
  decode :: "'b \<Rightarrow> (str, 's) result"
  byte_len :: "'b \<Rightarrow> nat"
  no_bytes :: 'b

text \<open>Text in single quotes.\<close>

definition quoted :: "str \<Rightarrow> str" where
  "quoted s = [CHR 0x27] @ s @ [CHR 0x27]"

subsection \<open>Characters\<close>

definition cp :: "char \<Rightarrow> nat" where
  "cp c = of_char c"

definition is_ascii_digit :: "char \<Rightarrow> bool" where
  "is_ascii_digit c \<longleftrightarrow> 48 \<le> cp c \<and> cp c \<le> 57"

definition is_ascii_upper :: "char \<Rightarrow> bool" where
  "is_ascii_upper c \<longleftrightarrow> 65 \<le> cp c \<and> cp c \<le> 90"

definition ascii_lower :: "char \<Rightarrow> char" where
  "ascii_lower c = (if is_ascii_upper c then char_of (cp c + 32) else c)"

definition to_ascii_lowercase :: "str \<Rightarrow> str" where
  "to_ascii_lowercase s = map ascii_lower s"

definition eq_ignore_ascii_case :: "str \<Rightarrow> str \<Rightarrow> bool" where
  "eq_ignore_ascii_case a b \<longleftrightarrow> to_ascii_lowercase a = to_ascii_lowercase b"

text \<open>
  \<open>ws_len s\<close> is the number of bytes of the White_Space character \<open>s\<close> starts with, 0 when it
  starts with none: U+0009..U+000D, U+0020, U+0085, U+00A0, U+1680, U+2000..U+200A, U+2028, U+2029,
  U+202F, U+205F, U+3000.
\<close>

definition ascii_ws :: "char \<Rightarrow> bool" where
  "ascii_ws c \<longleftrightarrow> (9 \<le> cp c \<and> cp c \<le> 13) \<or> cp c = 32"

definition ws2 :: "nat \<Rightarrow> nat \<Rightarrow> bool" where
  "ws2 a b \<longleftrightarrow> a = 0xC2 \<and> (b = 0x85 \<or> b = 0xA0)"

definition ws3 :: "nat \<Rightarrow> nat \<Rightarrow> nat \<Rightarrow> bool" where
  "ws3 a b c \<longleftrightarrow>
     (a = 0xE1 \<and> b = 0x9A \<and> c = 0x80)
   \<or> (a = 0xE2 \<and> b = 0x80 \<and> (0x80 \<le> c \<and> c \<le> 0x8A \<or> c = 0xA8 \<or> c = 0xA9 \<or> c = 0xAF))
   \<or> (a = 0xE2 \<and> b = 0x81 \<and> c = 0x9F)
   \<or> (a = 0xE3 \<and> b = 0x80 \<and> c = 0x80)"

fun ws_len :: "str \<Rightarrow> nat" where
  "ws_len [] = 0"
| "ws_len [a] = (if ascii_ws a then 1 else 0)"
| "ws_len [a, b] = (if ascii_ws a then 1 else if ws2 (cp a) (cp b) then 2 else 0)"
| "ws_len (a # b # c # s) =
     (if ascii_ws a then 1
      else if ws2 (cp a) (cp b) then 2
      else if ws3 (cp a) (cp b) (cp c) then 3 else 0)"

text \<open>The same at the end of a text, on its reversed bytes.\<close>

fun ws_rlen :: "str \<Rightarrow> nat" where
  "ws_rlen [] = 0"
| "ws_rlen [a] = (if ascii_ws a then 1 else 0)"
| "ws_rlen [b, a] = (if ascii_ws b then 1 else if ws2 (cp a) (cp b) then 2 else 0)"
| "ws_rlen (c # b # a # s) =
     (if ascii_ws c then 1
      else if ws2 (cp b) (cp c) then 2
      else if ws3 (cp a) (cp b) (cp c) then 3 else 0)"

function drop_ws :: "(str \<Rightarrow> nat) \<Rightarrow> str \<Rightarrow> str" where
  "drop_ws w s = (if s = [] \<or> w s = 0 then s else drop_ws w (drop (w s) s))"
  by pat_completeness auto
termination by (relation "measure (\<lambda>(w, s). length s)") auto

declare drop_ws.simps [simp del]

definition trim_start :: "str \<Rightarrow> str" where
  "trim_start s = drop_ws ws_len s"

definition trim_end :: "str \<Rightarrow> str" where
  "trim_end s = rev (drop_ws ws_rlen (rev s))"

definition trim :: "str \<Rightarrow> str" where
  "trim s = trim_end (trim_start s)"

subsection \<open>Splitting\<close>

text \<open>
  A separator pattern gives the byte length of the separator a text starts with, 0 for none.
  \<open>split_pat\<close> is \<open>str::split\<close>: it keeps empty pieces and always yields at least one.
\<close>

definition byte_pat :: "(char \<Rightarrow> bool) \<Rightarrow> str \<Rightarrow> nat" where
  "byte_pat P s = (case s of [] \<Rightarrow> 0 | c # _ \<Rightarrow> if P c then 1 else 0)"

definition ws_or_pat :: "(char \<Rightarrow> bool) \<Rightarrow> str \<Rightarrow> nat" where
  "ws_or_pat P s = (if ws_len s = 0 then byte_pat P s else ws_len s)"

function split_go :: "(str \<Rightarrow> nat) \<Rightarrow> str \<Rightarrow> str \<Rightarrow> str list" where
  "split_go p acc s =
     (if s = [] then [rev acc]
      else if p s = 0 then split_go p (hd s # acc) (tl s)
      else rev acc # split_go p [] (drop (p s) s))"
  by pat_completeness auto
termination by (relation "measure (\<lambda>(p, acc, s). length s)") auto

declare split_go.simps [simp del]

definition split_pat :: "(str \<Rightarrow> nat) \<Rightarrow> str \<Rightarrow> str list" where
  "split_pat p s = split_go p [] s"

definition split_char :: "char \<Rightarrow> str \<Rightarrow> str list" where
  "split_char c s = split_pat (byte_pat (\<lambda>d. d = c)) s"

fun split_once :: "char \<Rightarrow> str \<Rightarrow> (str \<times> str) option" where
  "split_once c [] = None"
| "split_once c (d # s) =
     (if d = c then Some ([], s)
      else map_option (\<lambda>(a, b). (d # a, b)) (split_once c s))"

fun split_once_str :: "str \<Rightarrow> str \<Rightarrow> (str \<times> str) option" where
  "split_once_str sep [] = (if sep = [] then Some ([], []) else None)"
| "split_once_str sep (d # s) =
     (if prefix sep (d # s) then Some ([], drop (length sep) (d # s))
      else map_option (\<lambda>(a, b). (d # a, b)) (split_once_str sep s))"

definition split_first :: "char \<Rightarrow> str \<Rightarrow> str" where
  "split_first c s = takeWhile (\<lambda>d. d \<noteq> c) s"

definition contains_text :: "str \<Rightarrow> str \<Rightarrow> bool" where
  "contains_text s p \<longleftrightarrow> list_ex (\<lambda>t. prefix p t) (suffixes s)"

definition starts_with :: "str \<Rightarrow> str \<Rightarrow> bool" where
  "starts_with s p \<longleftrightarrow> prefix p s"

definition any_whitespace :: "str \<Rightarrow> bool" where
  "any_whitespace s \<longleftrightarrow> list_ex (\<lambda>t. 0 < ws_len t) (suffixes s)"

definition split_whitespace :: "str \<Rightarrow> str list" where
  "split_whitespace s = filter (\<lambda>w. w \<noteq> []) (split_pat ws_len s)"

fun join :: "str \<Rightarrow> str list \<Rightarrow> str" where
  "join sep [] = []"
| "join sep [x] = x"
| "join sep (x # y # xs) = x @ sep @ join sep (y # xs)"

subsection \<open>Numbers as text\<close>

definition digit_val :: "char \<Rightarrow> nat" where
  "digit_val c =
     (if is_ascii_digit c then cp c - 48
      else if 97 \<le> cp c \<and> cp c \<le> 122 then cp c - 87
      else if 65 \<le> cp c \<and> cp c \<le> 90 then cp c - 55 else 36)"

definition is_radix_digit :: "nat \<Rightarrow> char \<Rightarrow> bool" where
  "is_radix_digit r c \<longleftrightarrow> digit_val c < r"

definition digits_val :: "nat \<Rightarrow> str \<Rightarrow> nat" where
  "digits_val r ds = foldl (\<lambda>n c. n * r + digit_val c) 0 ds"

text \<open>\<open>str::parse\<close> for an unsigned integer type with largest value \<open>mx\<close>: an optional plus sign, then
  at least one decimal digit and nothing else, within range.\<close>

definition parse_uint :: "nat \<Rightarrow> str \<Rightarrow> nat option" where
  "parse_uint mx s =
     (let ds = (case s of CHR ''+'' # r \<Rightarrow> r | _ \<Rightarrow> s)
      in if ds = [] \<or> \<not> list_all is_ascii_digit ds \<or> digits_val 10 ds > mx then None
         else Some (digits_val 10 ds))"

abbreviation parse_u8 :: "str \<Rightarrow> nat option" where "parse_u8 \<equiv> parse_uint 255"
abbreviation parse_u32 :: "str \<Rightarrow> nat option" where "parse_u32 \<equiv> parse_uint 4294967295"

definition digit_char :: "nat \<Rightarrow> char" where
  "digit_char n = (if n < 10 then char_of (48 + n) else char_of (87 + n))"

function show_radix :: "nat \<Rightarrow> nat \<Rightarrow> str" where
  "show_radix r n = (if n < r \<or> r < 2 then [digit_char n] else show_radix r (n div r) @ [digit_char (n mod r)])"
  by pat_completeness auto
termination by (relation "measure snd") auto

declare show_radix.simps [simp del]

abbreviation show_dec :: "nat \<Rightarrow> str" where "show_dec \<equiv> show_radix 10"
abbreviation show_hex :: "nat \<Rightarrow> str" where "show_hex \<equiv> show_radix 16"

text \<open>\<open>as i32\<close> of an unsigned 32-bit number.\<close>

definition as_i32 :: "nat \<Rightarrow> int" where
  "as_i32 n = (if n < 2147483648 then int n else int n - 4294967296)"

subsection \<open>Lists\<close>

text \<open>\<open>retain\<close> with a \<open>HashSet\<close> of the elements seen: the first occurrence of each is kept.\<close>

fun dedup_go :: "'a set \<Rightarrow> 'a list \<Rightarrow> 'a list" where
  "dedup_go seen [] = []"
| "dedup_go seen (x # xs) =
     (if x \<in> seen then dedup_go seen xs else x # dedup_go (insert x seen) xs)"

definition dedup :: "'a list \<Rightarrow> 'a list" where
  "dedup xs = dedup_go {} xs"

definition filter_map :: "('a \<Rightarrow> 'b option) \<Rightarrow> 'a list \<Rightarrow> 'b list" where
  "filter_map f xs = List.map_filter f xs"

lemma filter_map_eq: "filter_map f xs = map (\<lambda>x. the (f x)) (filter (\<lambda>x. f x \<noteq> None) xs)"
  by (simp add: filter_map_def List.map_filter_def)

lemma filter_map_simps [simp]:
  "filter_map f [] = []"
  "filter_map f (x # xs) = (case f x of None \<Rightarrow> filter_map f xs | Some y \<Rightarrow> y # filter_map f xs)"
  by (auto simp: filter_map_eq split: option.splits)

lemma set_filter_map: "set (filter_map f xs) = {y. \<exists>x \<in> set xs. f x = Some y}"
  by (induction xs) (auto split: option.splits)

lemma filter_map_id: "(\<And>x. x \<in> set xs \<Longrightarrow> f x = Some x) \<Longrightarrow> filter_map f xs = xs"
  by (induction xs) auto

lemma set_dedup_go: "set (dedup_go seen xs) = set xs - seen"
  by (induction seen xs rule: dedup_go.induct) auto

lemma distinct_dedup_go: "distinct (dedup_go seen xs)"
  by (induction seen xs rule: dedup_go.induct) (auto simp: set_dedup_go)

lemma dedup_go_id: "distinct xs \<Longrightarrow> set xs \<inter> seen = {} \<Longrightarrow> dedup_go seen xs = xs"
  by (induction seen xs rule: dedup_go.induct) auto

lemma set_dedup [simp]: "set (dedup xs) = set xs"
  by (simp add: dedup_def set_dedup_go)

lemma distinct_dedup [simp]: "distinct (dedup xs)"
  by (simp add: dedup_def distinct_dedup_go)

lemma dedup_id [simp]: "distinct xs \<Longrightarrow> dedup xs = xs"
  by (simp add: dedup_def dedup_go_id)

lemma dedup_Nil_iff [simp]: "dedup xs = [] \<longleftrightarrow> xs = []"
  by (metis set_dedup set_empty)

subsection \<open>Facts on text\<close>

text \<open>A graphic ASCII character is never part of white space, so \<open>trim\<close> keeps a text made of them.\<close>

definition plain :: "char \<Rightarrow> bool" where
  "plain c \<longleftrightarrow> 33 \<le> cp c \<and> cp c \<le> 126"

lemma plain_not_ws: "plain c \<Longrightarrow> \<not> ascii_ws c"
  by (auto simp: plain_def ascii_ws_def)

lemma plain_ws2: "plain c \<Longrightarrow> \<not> ws2 (cp c) b" "plain c \<Longrightarrow> \<not> ws2 a (cp c)"
  by (auto simp: plain_def ws2_def)

lemma plain_ws3: "plain c \<Longrightarrow> \<not> ws3 (cp c) a b" "plain c \<Longrightarrow> \<not> ws3 a b (cp c)"
  by (auto simp: plain_def ws3_def)

lemma ws_len_plain: "plain c \<Longrightarrow> ws_len (c # s) = 0"
  by (cases "c # s" rule: ws_len.cases) (auto simp: plain_not_ws plain_ws2 plain_ws3)

lemma ws_rlen_plain: "plain c \<Longrightarrow> ws_rlen (c # s) = 0"
  by (cases "c # s" rule: ws_rlen.cases) (auto simp: plain_not_ws plain_ws2 plain_ws3)

lemma trim_Nil [simp]: "trim [] = []"
  by (simp add: trim_def trim_start_def trim_end_def drop_ws.simps)

lemma trim_plain_ends:
  assumes "plain c" "plain (last (c # s))"
  shows "trim (c # s) = c # s"
proof -
  have 1: "trim_start (c # s) = c # s"
    using assms(1) by (subst trim_start_def, subst drop_ws.simps) (simp add: ws_len_plain)
  have 2: "rev (c # s) = last (c # s) # rev (butlast (c # s))"
    by (metis append_butlast_last_id list.distinct(1) rev_eq_Cons_iff rev_rev_ident)
  have "drop_ws ws_rlen (rev (c # s)) = rev (c # s)"
    unfolding 2 using assms(2) by (subst drop_ws.simps) (simp add: ws_rlen_plain)
  with 1 show ?thesis by (simp add: trim_def trim_end_def)
qed

lemma trim_plain: "list_all plain s \<Longrightarrow> trim s = s"
  by (cases s) (auto simp: list_all_iff intro!: trim_plain_ends)

lemma drop_ws_stops: "w (drop_ws w s) = 0 \<or> drop_ws w s = []"
  by (induction w s rule: drop_ws.induct) (subst (1 2) drop_ws.simps, auto)

lemma drop_ws_fixed: "w s = 0 \<or> s = [] \<Longrightarrow> drop_ws w s = s"
  by (subst drop_ws.simps) auto

lemma drop_ws_suffix: "suffix (drop_ws w s) s"
proof (induction w s rule: drop_ws.induct)
  case (1 w s)
  then show ?case by (subst drop_ws.simps) (auto intro: suffix_order.trans suffix_drop)
qed

lemma ws_len_prefix: "ws_len (a @ b) = 0 \<Longrightarrow> ws_len a = 0"
  by (cases a rule: ws_len.cases; cases b rule: ws_len.cases) (auto split: if_splits)

lemma trim_trim [simp]: "trim (trim s) = trim s"
proof -
  let ?t = "trim_start s"
  have start: "ws_len ?t = 0" using drop_ws_stops [of ws_len s] by (auto simp: trim_start_def)
  have "prefix (trim_end ?t) ?t" using drop_ws_suffix [of ws_rlen "rev ?t"] by (simp add: trim_end_def suffix_to_prefix)
  then obtain z where "?t = trim_end ?t @ z" by (auto simp: prefix_def)
  then have "ws_len (trim_end ?t) = 0" using start ws_len_prefix [of "trim_end ?t" z] by simp
  then have 1: "trim_start (trim_end ?t) = trim_end ?t" by (simp add: trim_start_def drop_ws_fixed)
  have "drop_ws ws_rlen (rev (trim_end ?t)) = rev (trim_end ?t)"
    unfolding trim_end_def rev_rev_ident by (rule drop_ws_fixed) (use drop_ws_stops [of ws_rlen "rev ?t"] in auto)
  then have "trim_end (trim_end ?t) = trim_end ?t" by (simp add: trim_end_def)
  with 1 show ?thesis by (simp add: trim_def)
qed

lemma split_once_append: "c \<notin> set a \<Longrightarrow> split_once c (a @ c # b) = Some (a, b)"
  by (induction a) auto

lemma split_once_Some: "split_once c s = Some (a, b) \<longleftrightarrow> s = a @ c # b \<and> c \<notin> set a"
proof
  show "split_once c s = Some (a, b) \<Longrightarrow> s = a @ c # b \<and> c \<notin> set a"
    by (induction s arbitrary: a) (auto split: if_splits)
qed (simp add: split_once_append)

lemma split_once_None: "split_once c s = None \<longleftrightarrow> c \<notin> set s"
  by (induction s) auto

subsection \<open>Facts on numbers as text\<close>

lemma digit_val_char: "n < 16 \<Longrightarrow> digit_val (digit_char n) = n"
  by (auto simp: digit_val_def digit_char_def is_ascii_digit_def cp_def)

lemma cp_digit_char:
  "n < 10 \<Longrightarrow> cp (digit_char n) = 48 + n"
  "10 \<le> n \<Longrightarrow> n < 16 \<Longrightarrow> cp (digit_char n) = 87 + n"
  by (auto simp: digit_char_def cp_def)

lemma plain_digit_char: "n < 16 \<Longrightarrow> plain (digit_char n)"
  by (cases "n < 10") (auto simp: plain_def cp_digit_char)

lemma show_radix_small: "n < r \<Longrightarrow> show_radix r n = [digit_char n]"
  by (simp add: show_radix.simps)

lemma show_radix_digits:
  "2 \<le> r \<Longrightarrow> \<forall>c \<in> set (show_radix r n). \<exists>d < r. c = digit_char d"
proof (induction r n rule: show_radix.induct)
  case (1 r n)
  show ?case
  proof (cases "n < r")
    case True
    then show ?thesis by (auto simp: show_radix_small)
  next
    case False
    with 1 show ?thesis by (subst show_radix.simps) (auto intro!: exI [of _ "n mod r"])
  qed
qed

lemma show_radix_not_Nil [simp]: "show_radix r n \<noteq> []"
  by (subst show_radix.simps) simp

lemma digits_val_show:
  "2 \<le> r \<Longrightarrow> r \<le> 16 \<Longrightarrow> digits_val r (show_radix r n) = n"
proof (induction r n rule: show_radix.induct)
  case (1 r n)
  show ?case
  proof (cases "n < r")
    case True
    with 1 show ?thesis by (simp add: show_radix_small digits_val_def digit_val_char)
  next
    case False
    with 1 have "digits_val r (show_radix r (n div r)) = n div r" by simp
    moreover have "digit_val (digit_char (n mod r)) = n mod r"
      using 1 by (intro digit_val_char) (meson less_le_trans mod_less_divisor order_less_le_trans zero_less_numeral)
    ultimately show ?thesis
      using False 1 by (subst show_radix.simps) (simp add: digits_val_def)
  qed
qed

lemma length_show_radix:
  "2 \<le> r \<Longrightarrow> n < r ^ k \<Longrightarrow> 0 < k \<Longrightarrow> length (show_radix r n) \<le> k"
proof (induction r n arbitrary: k rule: show_radix.induct)
  case (1 r n)
  show ?case
  proof (cases "n < r")
    case True
    with 1 show ?thesis by (simp add: show_radix_small)
  next
    case False
    then obtain j where k: "k = Suc j" "0 < j"
      using "1.prems" by (cases k; cases "k - 1") auto
    then have "n div r < r ^ j" using "1.prems" by (simp add: less_mult_imp_div_less mult.commute)
    then have "length (show_radix r (n div r)) \<le> j" using 1 False k by simp
    then show ?thesis using False k "1.prems" by (subst show_radix.simps) simp
  qed
qed

lemma hd_show_radix:
  "2 \<le> r \<Longrightarrow> r \<le> 16 \<Longrightarrow> 0 < n \<Longrightarrow> hd (show_radix r n) \<noteq> CHR ''0''"
proof (induction r n rule: show_radix.induct)
  case (1 r n)
  have z: "digit_val (CHR ''0'') = 0" by (simp add: digit_val_def is_ascii_digit_def cp_def)
  show ?case
  proof (cases "n < r")
    case True
    with 1 have "digit_val (digit_char n) = n" by (intro digit_val_char) simp
    with z 1 True show ?thesis by (auto simp: show_radix_small)
  next
    case False
    with 1 have "hd (show_radix r (n div r)) \<noteq> CHR ''0''"
      by (metis div_greater_zero_iff not_less zero_less_numeral less_le_trans)
    with False 1 show ?thesis by (subst show_radix.simps) simp
  qed
qed

lemma show_dec_digits: "c \<in> set (show_dec n) \<Longrightarrow> is_ascii_digit c"
  using show_radix_digits [of 10 n] by (auto simp: is_ascii_digit_def cp_digit_char)

lemma parse_uint_show: "n \<le> mx \<Longrightarrow> parse_uint mx (show_dec n) = Some n"
proof -
  assume n: "n \<le> mx"
  have "\<not> is_ascii_digit (CHR ''+'')" by (simp add: is_ascii_digit_def cp_def)
  then have hd: "show_dec n \<noteq> CHR ''+'' # r" for r
    using show_dec_digits [of "CHR ''+''" n] by auto
  have "(case show_dec n of CHR ''+'' # r \<Rightarrow> r | _ \<Rightarrow> show_dec n) = show_dec n"
    using hd by (auto split: list.splits char.splits bool.splits)
  then show ?thesis
    using n show_dec_digits [of _ n] by (simp add: parse_uint_def Let_def digits_val_show list_all_iff)
qed

subsection \<open>Splitting at a byte\<close>

lemma split_go_byte:
  "split_go (byte_pat P) acc [] = [rev acc]"
  "split_go (byte_pat P) acc (d # s) =
     (if P d then rev acc # split_go (byte_pat P) [] s else split_go (byte_pat P) (d # acc) s)"
  by (subst split_go.simps, simp add: byte_pat_def)+

lemma split_go_free:
  "\<forall>d \<in> set a. \<not> P d \<Longrightarrow> split_go (byte_pat P) acc (a @ s) = split_go (byte_pat P) (rev a @ acc) s"
  by (induction a arbitrary: acc) (auto simp: split_go_byte)

lemma split_char_single: "c \<notin> set a \<Longrightarrow> split_char c a = [a]"
  using split_go_free [of a "\<lambda>d. d = c" "[]" "[]"]
  by (auto simp: split_char_def split_pat_def split_go_byte)

lemma split_char_append: "c \<notin> set a \<Longrightarrow> split_char c (a @ c # s) = a # split_char c s"
  using split_go_free [of a "\<lambda>d. d = c" "[]" "c # s"]
  by (auto simp: split_char_def split_pat_def split_go_byte)

end
