(* ===== verification/Oc_Model.thy ===== *)
theory Oc_Model
  imports Oc_Prelude
begin

text \<open>
  The data model of \<open>crates/hopenconnect_core/src/model.rs\<close>: the connection lifecycle, the
  profile, the network snapshot of a session, authentication forms, the system VPN options, and
  the operations of these types that do not touch routes (those are in \<open>Oc_Routes\<close>). Record fields
  keep the Rust names behind a prefix of two or three letters; unsigned integers that only get compared are
  \<open>nat\<close>, \<open>i32\<close> is \<open>int\<close>.
\<close>

subsection \<open>Connection lifecycle\<close>

datatype connection_lifecycle =
  Disconnected | Connecting | Authenticating | Establishing | Connected | Disconnecting | Failed

fun lifecycle_as_str :: "connection_lifecycle \<Rightarrow> str" where
  "lifecycle_as_str Disconnected = ''disconnected''"
| "lifecycle_as_str Connecting = ''connecting''"
| "lifecycle_as_str Authenticating = ''authenticating''"
| "lifecycle_as_str Establishing = ''establishing''"
| "lifecycle_as_str Connected = ''connected''"
| "lifecycle_as_str Disconnecting = ''disconnecting''"
| "lifecycle_as_str Failed = ''failed''"

definition is_busy :: "connection_lifecycle \<Rightarrow> bool" where
  "is_busy l \<longleftrightarrow> l \<in> {Connecting, Authenticating, Establishing, Disconnecting}"

definition is_active :: "connection_lifecycle \<Rightarrow> bool" where
  "is_active l \<longleftrightarrow> l = Connected"

definition should_auto_reconnect_to ::
    "connection_lifecycle \<Rightarrow> connection_lifecycle \<Rightarrow> bool \<Rightarrow> bool \<Rightarrow> bool \<Rightarrow> bool" where
  "should_auto_reconnect_to previous current user_disconnect dry_run connect_on_demand \<longleftrightarrow>
     \<not> user_disconnect \<and> \<not> dry_run \<and> connect_on_demand \<and> is_active previous
     \<and> current \<in> {Disconnected, Failed}"

subsection \<open>Profile enumerations\<close>

datatype protocol_kind =
  AnyConnect | Ssl | Ipsec | Juniper | GlobalProtect | Pulse | F5 | Fortinet | Array

fun as_openconnect :: "protocol_kind \<Rightarrow> str" where
  "as_openconnect AnyConnect = ''anyconnect''"
| "as_openconnect Ssl = ''anyconnect''"
| "as_openconnect Ipsec = ''anyconnect''"
| "as_openconnect Juniper = ''nc''"
| "as_openconnect GlobalProtect = ''gp''"
| "as_openconnect Pulse = ''pulse''"
| "as_openconnect F5 = ''f5''"
| "as_openconnect Fortinet = ''fortinet''"
| "as_openconnect Array = ''array''"

fun protocol_as_label :: "protocol_kind \<Rightarrow> str" where
  "protocol_as_label AnyConnect = ''AnyConnect''"
| "protocol_as_label Ssl = ''AnyConnect''"
| "protocol_as_label Ipsec = ''IPsec''"
| "protocol_as_label Juniper = ''Juniper NC''"
| "protocol_as_label GlobalProtect = ''GlobalProtect''"
| "protocol_as_label Pulse = ''Pulse''"
| "protocol_as_label F5 = ''F5''"
| "protocol_as_label Fortinet = ''Fortinet''"
| "protocol_as_label Array = ''Array''"

definition protocol_from_label :: "str \<Rightarrow> protocol_kind" where
  "protocol_from_label label =
     (let l = to_ascii_lowercase label
      in if l = ''ipsec'' then Ipsec
         else if l \<in> {''nc'', ''juniper'', ''juniper nc''} then Juniper
         else if l \<in> {''gp'', ''globalprotect''} then GlobalProtect
         else if l = ''pulse'' then Pulse
         else if l = ''f5'' then F5
         else if l = ''fortinet'' then Fortinet
         else if l = ''array'' then Array
         else if l \<in> {''ssl'', ''anyconnect''} then AnyConnect
         else AnyConnect)"

definition protocol_all :: "protocol_kind list" where
  "protocol_all = [AnyConnect]"

datatype software_token = Disabled | SecurId | Totp

fun token_as_label :: "software_token \<Rightarrow> str" where
  "token_as_label Disabled = ''Disabled''"
| "token_as_label SecurId = ''RSA SecurID''"
| "token_as_label Totp = ''TOTP''"

definition token_from_label :: "str \<Rightarrow> software_token" where
  "token_from_label label =
     (let l = to_ascii_lowercase label
      in if l \<in> {''securid'', ''rsa securid'', ''stoken''} then SecurId
         else if l = ''totp'' then Totp
         else Disabled)"

definition token_all :: "software_token list" where
  "token_all = [Disabled, Totp]"

datatype split_tunnel_mode = Auto | OnVpnDns | OnUplinkDns

fun split_mode_as_label :: "split_tunnel_mode \<Rightarrow> str" where
  "split_mode_as_label Auto = ''Auto''"
| "split_mode_as_label OnVpnDns = ''Split + tunnel DNS''"
| "split_mode_as_label OnUplinkDns = ''Split + uplink DNS''"

definition split_mode_from_label :: "str \<Rightarrow> split_tunnel_mode" where
  "split_mode_from_label label =
     (let l = to_ascii_lowercase label
      in if l \<in> {''on_vpn_dns'', ''split + vpn dns'', ''split + tunnel dns'', ''onvpndns''} then OnVpnDns
         else if l \<in> {''on_uplink_dns'', ''split + uplink dns'', ''onuplinkdns''} then OnUplinkDns
         else Auto)"

datatype auth_method = Password | Certificate | PasswordAndCertificate | Saml

fun auth_method_as_label :: "auth_method \<Rightarrow> str" where
  "auth_method_as_label Password = ''Password''"
| "auth_method_as_label Certificate = ''Certificate''"
| "auth_method_as_label PasswordAndCertificate = ''Password+Cert''"
| "auth_method_as_label Saml = ''SAML''"

subsection \<open>Profiles\<close>

record connection_profile =
  pf_id :: str
  pf_name :: str
  pf_server :: str
  pf_group :: str
  pf_username :: str
  pf_password :: str
  pf_protocol :: protocol_kind
  pf_auth_method :: auth_method
  pf_certificate :: str
  pf_private_key :: str
  pf_secondary_certificate :: str
  pf_secondary_private_key :: str
  pf_ca_certificate :: str
  pf_key_password :: str
  pf_secondary_key_password :: str
  pf_http_proxy :: str
  pf_server_cert_hash :: str
  pf_backup_servers :: str
  pf_strict_certificate_trust :: bool
  pf_block_untrusted_servers :: bool
  pf_allow_local_lan :: bool
  pf_force_global :: bool
  pf_split_tunnel_mode :: split_tunnel_mode
  pf_split_tunnel_networks :: str
  pf_connect_on_demand :: bool
  pf_external_browser_auth :: bool
  pf_fips_mode :: bool
  pf_allow_insecure_crypto :: bool
  pf_use_dtls :: bool
  pf_reported_os :: str
  pf_user_agent :: str
  pf_client_version :: str
  pf_sni :: str
  pf_require_pfs :: bool
  pf_disable_xml_post :: bool
  pf_dpd_seconds :: nat
  pf_software_token :: software_token
  pf_token_string :: str
  pf_csd_wrapper :: str
  pf_trusted_applications :: str
  pf_blocked_applications :: str
  pf_mtu :: nat
  pf_favorite :: bool

definition default_reported_os :: str where
  "default_reported_os = ''OpenHarmony''"

definition new_draft :: connection_profile where
  "new_draft = \<lparr>
     pf_id = '''',
     pf_name = '''',
     pf_server = '''',
     pf_group = '''',
     pf_username = '''',
     pf_password = '''',
     pf_protocol = AnyConnect,
     pf_auth_method = Password,
     pf_certificate = '''',
     pf_private_key = '''',
     pf_secondary_certificate = '''',
     pf_secondary_private_key = '''',
     pf_ca_certificate = '''',
     pf_key_password = '''',
     pf_secondary_key_password = '''',
     pf_http_proxy = '''',
     pf_server_cert_hash = '''',
     pf_backup_servers = '''',
     pf_strict_certificate_trust = True,
     pf_block_untrusted_servers = True,
     pf_allow_local_lan = False,
     pf_force_global = False,
     pf_split_tunnel_mode = Auto,
     pf_split_tunnel_networks = '''',
     pf_connect_on_demand = False,
     pf_external_browser_auth = False,
     pf_fips_mode = False,
     pf_allow_insecure_crypto = False,
     pf_use_dtls = True,
     pf_reported_os = default_reported_os,
     pf_user_agent = '''',
     pf_client_version = '''',
     pf_sni = '''',
     pf_require_pfs = False,
     pf_disable_xml_post = False,
     pf_dpd_seconds = 0,
     pf_software_token = Disabled,
     pf_token_string = '''',
     pf_csd_wrapper = '''',
     pf_trusted_applications = '''',
     pf_blocked_applications = '''',
     pf_mtu = 0,
     pf_favorite = False\<rparr>"

text \<open>The splits on white space and on the two list separators.\<close>

definition list_pat :: "str \<Rightarrow> nat" where
  "list_pat = ws_or_pat (\<lambda>c. c = CHR '','' \<or> c = CHR '';'')"

definition split_package_list :: "str \<Rightarrow> str list" where
  "split_package_list raw = filter (\<lambda>s. s \<noteq> []) (map trim (split_pat list_pat raw))"

definition has_scheme :: "str \<Rightarrow> bool" where
  "has_scheme server \<longleftrightarrow> starts_with server ''https://'' \<or> starts_with server ''http://''"

definition split_server_list :: "str \<Rightarrow> str list" where
  "split_server_list raw =
     map (\<lambda>server. if has_scheme server then server else ''https://'' @ server)
       (filter (\<lambda>s. s \<noteq> []) (map trim (split_pat list_pat raw)))"

definition server_url :: "connection_profile \<Rightarrow> str" where
  "server_url p =
     (let server = trim (pf_server p)
      in if has_scheme server then server
         else if server = [] then []
         else ''https://'' @ server)"

definition summary_auth :: "connection_profile \<Rightarrow> str" where
  "summary_auth p =
     (case pf_auth_method p of
        Password \<Rightarrow> if pf_username p = [] then ''Password''
                    else ''Password '' @ [CHR 0xC2, CHR 0xB7] @ '' '' @ pf_username p
      | Certificate \<Rightarrow> if pf_certificate p = [] then ''Certificate''
                       else ''Cert '' @ [CHR 0xC2, CHR 0xB7] @ '' '' @ pf_certificate p
      | PasswordAndCertificate \<Rightarrow> ''Password + Certificate''
      | Saml \<Rightarrow> ''SAML'')"

subsection \<open>Session data\<close>

record session_stats =
  ss_bytes_sent :: nat
  ss_bytes_received :: nat
  ss_packets_sent :: nat
  ss_packets_received :: nat
  ss_connected_seconds :: nat
  ss_assigned_ip :: str
  ss_gateway :: str
  ss_mtu :: nat

definition session_stats_default :: session_stats where
  "session_stats_default = \<lparr>ss_bytes_sent = 0, ss_bytes_received = 0, ss_packets_sent = 0,
     ss_packets_received = 0, ss_connected_seconds = 0, ss_assigned_ip = [], ss_gateway = [], ss_mtu = 0\<rparr>"

record network_snapshot =
  net_address :: "str option"
  net_netmask :: "str option"
  net_address_v6 :: "str option"
  net_netmask_v6 :: "str option"
  net_gateway :: "str option"
  net_dns :: "str list"
  net_mtu :: int
  net_routes :: "str list"
  net_split_excludes :: "str list"
  net_domain :: "str option"
  net_split_dns :: "str list"

definition network_default :: network_snapshot where
  "network_default = \<lparr>net_address = None, net_netmask = None, net_address_v6 = None,
     net_netmask_v6 = None, net_gateway = None, net_dns = [], net_mtu = 0, net_routes = [],
     net_split_excludes = [], net_domain = None, net_split_dns = []\<rparr>"

subsection \<open>Authentication forms\<close>

datatype auth_field_kind = KText | KPassword | KSelect | KToken | KHidden | KUnknown

record auth_field_choice =
  ch_name :: str
  ch_label :: str

record auth_group_discovery =
  gd_selected :: "str option"
  gd_groups :: "auth_field_choice list"

record auth_field_key =
  fk_form_id :: "str option"
  fk_option_index :: nat
  fk_option_digest :: str

record auth_field =
  af_key :: auth_field_key
  af_name :: str
  af_label :: str
  af_kind :: auth_field_kind
  af_value :: str
  af_choices :: "auth_field_choice list"
  af_auth_group :: bool
  af_second_auth :: bool
  af_required :: bool

record auth_challenge =
  ac_id :: nat
  ac_round :: nat
  ac_banner :: "str option"
  ac_message :: "str option"
  ac_error :: "str option"
  ac_form_id :: "str option"
  ac_method :: "str option"
  ac_fields :: "auth_field list"

record auth_field_value =
  fv_key :: auth_field_key
  fv_value :: str

record auth_challenge_reply =
  ar_id :: nat
  ar_values :: "auth_field_value list"
  ar_cancelled :: bool

subsection \<open>Snapshots and VPN options\<close>

record diagnostic_entry =
  de_level :: str
  de_message :: str
  de_timestamp :: str

record session_snapshot =
  sn_lifecycle :: connection_lifecycle
  sn_active_connection_id :: "str option"
  sn_connections :: "connection_profile list"
  sn_stats :: session_stats
  sn_network :: network_snapshot
  sn_last_error :: "str option"
  sn_diagnostics :: "diagnostic_entry list"
  sn_app_version :: str
  sn_sdk_ready :: bool
  sn_anyconnect_version :: "str option"
  sn_backend :: str
  sn_pending_auth :: "auth_challenge option"

record vpn_options =
  vo_addresses :: "str list"
  vo_routes :: "str list"
  vo_excluded_routes :: "str list"
  vo_dns_addresses :: "str list"
  vo_search_domains :: "str list"
  vo_mtu :: nat
  vo_allow_bypass :: bool
  vo_allow_local_lan :: bool
  vo_force_global :: bool
  vo_server :: "str option"
  vo_username :: "str option"
  vo_password :: "str option"
  vo_group :: "str option"
  vo_cookie :: "str option"
  vo_accept_untrusted :: bool
  vo_external_auth_allowed :: bool
  vo_mobile_unique_id :: str
  vo_backup_servers :: "str list"
  vo_use_dtls :: bool
  vo_reported_os :: str
  vo_sni :: str
  vo_require_pfs :: bool
  vo_disable_xml_post :: bool
  vo_dpd_seconds :: nat
  vo_vpn_protocol :: str
  vo_user_agent :: str
  vo_client_version :: str
  vo_allow_insecure_crypto :: bool
  vo_fips_mode :: bool
  vo_ca_certificate :: str
  vo_certificate :: str
  vo_private_key :: str
  vo_secondary_certificate :: str
  vo_secondary_private_key :: str
  vo_key_password :: str
  vo_secondary_key_password :: str
  vo_http_proxy :: str
  vo_server_cert_hash :: str
  vo_csd_wrapper :: str
  vo_software_token :: software_token
  vo_token_string :: str
  vo_split_tunnel_mode :: split_tunnel_mode
  vo_split_tunnel_networks :: str
  vo_trusted_applications :: "str list"
  vo_blocked_applications :: "str list"

definition vpn_options_default :: vpn_options where
  "vpn_options_default = \<lparr>
     vo_addresses = [],
     vo_routes = [],
     vo_excluded_routes = [],
     vo_dns_addresses = [],
     vo_search_domains = [],
     vo_mtu = 0,
     vo_allow_bypass = False,
     vo_allow_local_lan = False,
     vo_force_global = False,
     vo_server = None,
     vo_username = None,
     vo_password = None,
     vo_group = None,
     vo_cookie = None,
     vo_accept_untrusted = False,
     vo_external_auth_allowed = False,
     vo_mobile_unique_id = [],
     vo_backup_servers = [],
     vo_use_dtls = False,
     vo_reported_os = [],
     vo_sni = [],
     vo_require_pfs = False,
     vo_disable_xml_post = False,
     vo_dpd_seconds = 0,
     vo_vpn_protocol = [],
     vo_user_agent = [],
     vo_client_version = [],
     vo_allow_insecure_crypto = False,
     vo_fips_mode = False,
     vo_ca_certificate = [],
     vo_certificate = [],
     vo_private_key = [],
     vo_secondary_certificate = [],
     vo_secondary_private_key = [],
     vo_key_password = [],
     vo_secondary_key_password = [],
     vo_http_proxy = [],
     vo_server_cert_hash = [],
     vo_csd_wrapper = [],
     vo_software_token = Disabled,
     vo_token_string = [],
     vo_split_tunnel_mode = Auto,
     vo_split_tunnel_networks = [],
     vo_trusted_applications = [],
     vo_blocked_applications = []\<rparr>"

end
