(* ===== verification/Oc_Net.thy ===== *)
theory Oc_Net
  imports Oc_Prelude "HOL-Library.Word"
begin

text \<open>
  Internet addresses as \<open>std::net\<close> has them: \<open>Ipv4Addr\<close> is its 32-bit value, \<open>Ipv6Addr\<close> its
  128-bit value. The parser follows \<open>core::net::parser\<close> (strict dotted decimals without leading
  zeros, IPv6 groups with one \<open>::\<close> and an optional embedded IPv4 tail), the printer follows
  \<open>Display\<close> (IPv4-mapped addresses in mixed notation, the first longest run of at least two zero
  groups compressed). The lemmas show that the printer's output parses back.
\<close>

type_synonym ipv4_addr = "32 word"
type_synonym ipv6_addr = "128 word"

datatype ip_addr = IpV4 ipv4_addr | IpV6 ipv6_addr

subsection \<open>Parsing\<close>

type_synonym 'a reader = "str \<Rightarrow> ('a \<times> str) option"

definition read_number :: "nat \<Rightarrow> nat \<Rightarrow> bool \<Rightarrow> nat \<Rightarrow> nat reader" where
  "read_number r max_digits allow_zero_prefix mx s =
     (let ds = takeWhile (is_radix_digit r) s; v = digits_val r ds
      in if length ds > max_digits \<or> ds = [] \<or>
            (\<not> allow_zero_prefix \<and> hd ds = CHR ''0'' \<and> length ds > 1) \<or> v > mx
         then None
         else Some (v, dropWhile (is_radix_digit r) s))"

definition read_given_char :: "char \<Rightarrow> str \<Rightarrow> str option" where
  "read_given_char c s = (case s of d # r \<Rightarrow> if d = c then Some r else None | [] \<Rightarrow> None)"

definition read_separator :: "char \<Rightarrow> nat \<Rightarrow> 'a reader \<Rightarrow> 'a reader" where
  "read_separator c i p s =
     (if i > 0 then (case read_given_char c s of None \<Rightarrow> None | Some r \<Rightarrow> p r) else p s)"

definition of_octets :: "nat \<Rightarrow> nat \<Rightarrow> nat \<Rightarrow> nat \<Rightarrow> ipv4_addr" where
  "of_octets a b c d = word_of_nat (((a * 256 + b) * 256 + c) * 256 + d)"

abbreviation read_octet :: "nat \<Rightarrow> nat reader" where
  "read_octet i \<equiv> read_separator (CHR ''.'') i (read_number 10 3 False 255)"

definition read_ipv4_addr :: "ipv4_addr reader" where
  "read_ipv4_addr s =
     (case read_octet 0 s of None \<Rightarrow> None | Some (a, s1) \<Rightarrow>
       (case read_octet 1 s1 of None \<Rightarrow> None | Some (b, s2) \<Rightarrow>
         (case read_octet 2 s2 of None \<Rightarrow> None | Some (c, s3) \<Rightarrow>
           (case read_octet 3 s3 of None \<Rightarrow> None | Some (d, s4) \<Rightarrow> Some (of_octets a b c d, s4)))))"

text \<open>\<open>read_groups n i\<close> fills the \<open>n\<close> group slots that are left, the next one being slot \<open>i\<close>; the
  flag says that an embedded IPv4 address ended it.\<close>

fun read_groups :: "nat \<Rightarrow> nat \<Rightarrow> str \<Rightarrow> nat list \<times> bool \<times> str" where
  "read_groups 0 i s = ([], False, s)"
| "read_groups (Suc n) i s =
     (case (if 0 < n then read_separator (CHR '':'') i read_ipv4_addr s else None) of
        Some (w, r) \<Rightarrow> ([unat w div 65536, unat w mod 65536], True, r)
      | None \<Rightarrow>
         (case read_separator (CHR '':'') i (read_number 16 4 True 65535) s of
            None \<Rightarrow> ([], False, s)
          | Some (g, r) \<Rightarrow> (case read_groups n (Suc i) r of (gs, b, r') \<Rightarrow> (g # gs, b, r'))))"

lemma read_groups_numeral:
  "read_groups (numeral k) i s =
     (case (if 0 < (pred_numeral k :: nat) then read_separator (CHR '':'') i read_ipv4_addr s else None) of
        Some (w, r) \<Rightarrow> ([unat w div 65536, unat w mod 65536], True, r)
      | None \<Rightarrow>
         (case read_separator (CHR '':'') i (read_number 16 4 True 65535) s of
            None \<Rightarrow> ([], False, s)
          | Some (g, r) \<Rightarrow> (case read_groups (pred_numeral k) (Suc i) r of (gs, b, r') \<Rightarrow> (g # gs, b, r'))))"
  by (simp only: numeral_eq_Suc read_groups.simps)

definition nat_of_segments :: "nat list \<Rightarrow> nat" where
  "nat_of_segments gs = foldl (\<lambda>a g. a * 65536 + g) 0 gs"

definition of_segments :: "nat list \<Rightarrow> ipv6_addr" where
  "of_segments gs = word_of_nat (nat_of_segments gs)"

definition read_ipv6_addr :: "ipv6_addr reader" where
  "read_ipv6_addr s =
     (case read_groups 8 0 s of (h, h4, r) \<Rightarrow>
        if length h = 8 then Some (of_segments h, r)
        else if h4 then None
        else (case read_given_char (CHR '':'') r of None \<Rightarrow> None | Some r1 \<Rightarrow>
          (case read_given_char (CHR '':'') r1 of None \<Rightarrow> None | Some r2 \<Rightarrow>
            (case read_groups (8 - (length h + 1)) 0 r2 of (t, t4, r3) \<Rightarrow>
              Some (of_segments (h @ replicate (8 - length h - length t) 0 @ t), r3)))))"

definition parse_ipv6_addr :: "str \<Rightarrow> ipv6_addr option" where
  "parse_ipv6_addr s = (case read_ipv6_addr s of Some (w, []) \<Rightarrow> Some w | _ \<Rightarrow> None)"

definition parse_ip_addr :: "str \<Rightarrow> ip_addr option" where
  "parse_ip_addr s =
     (case read_ipv4_addr s of
        Some (w, r) \<Rightarrow> if r = [] then Some (IpV4 w) else None
      | None \<Rightarrow> map_option IpV6 (parse_ipv6_addr s))"

subsection \<open>Printing\<close>

definition show_ipv4 :: "ipv4_addr \<Rightarrow> str" where
  "show_ipv4 w =
     (let n = unat w
      in show_dec (n div 16777216) @ ''.'' @ show_dec (n div 65536 mod 256) @ ''.'' @
         show_dec (n div 256 mod 256) @ ''.'' @ show_dec (n mod 256))"

definition segments :: "ipv6_addr \<Rightarrow> nat list" where
  "segments w = map (\<lambda>i. unat w div 65536 ^ i mod 65536) [7, 6, 5, 4, 3, 2, 1, 0]"

text \<open>The first longest run of zero groups: its start and its length. The state is the longest run so
  far and the run that ends at the current group.\<close>

fun zero_run :: "nat \<Rightarrow> (nat \<times> nat) \<Rightarrow> (nat \<times> nat) \<Rightarrow> nat list \<Rightarrow> nat \<times> nat" where
  "zero_run i longest current [] = longest"
| "zero_run i longest current (g # gs) =
     (if g = 0
      then let current' = ((if snd current = 0 then i else fst current), Suc (snd current))
           in zero_run (Suc i) (if snd current' > snd longest then current' else longest) current' gs
      else zero_run (Suc i) longest (0, 0) gs)"

definition show_groups :: "nat list \<Rightarrow> str" where
  "show_groups gs = join '':'' (map show_hex gs)"

definition show_segments :: "nat list \<Rightarrow> str" where
  "show_segments gs =
     (case zero_run 0 (0, 0) (0, 0) gs of (start, len) \<Rightarrow>
        if len > 1
        then show_groups (take start gs) @ ''::'' @ show_groups (drop (start + len) gs)
        else show_groups gs)"

definition to_ipv4_mapped :: "ipv6_addr \<Rightarrow> ipv4_addr option" where
  "to_ipv4_mapped w =
     (if take 6 (segments w) = [0, 0, 0, 0, 0, 65535] then Some (ucast w) else None)"

definition show_ipv6 :: "ipv6_addr \<Rightarrow> str" where
  "show_ipv6 w =
     (case to_ipv4_mapped w of
        Some v \<Rightarrow> ''::ffff:'' @ show_ipv4 v
      | None \<Rightarrow> show_segments (segments w))"

definition show_ip_addr :: "ip_addr \<Rightarrow> str" where
  "show_ip_addr a = (case a of IpV4 w \<Rightarrow> show_ipv4 w | IpV6 w \<Rightarrow> show_ipv6 w)"

subsection \<open>Numbers read back\<close>

lemma is_radix_digit_char: "d < r \<Longrightarrow> r \<le> 16 \<Longrightarrow> is_radix_digit r (digit_char d)"
  by (simp add: is_radix_digit_def digit_val_char)

lemma show_radix_radix_digits:
  "2 \<le> r \<Longrightarrow> r \<le> 16 \<Longrightarrow> c \<in> set (show_radix r n) \<Longrightarrow> is_radix_digit r c"
  using show_radix_digits [of r n] by (auto simp: is_radix_digit_char)

definition stops :: "nat \<Rightarrow> str \<Rightarrow> bool" where
  "stops r s \<longleftrightarrow> (case s of [] \<Rightarrow> True | c # _ \<Rightarrow> \<not> is_radix_digit r c)"

lemma stops_simps [simp]:
  "stops r []" "stops r (c # s) \<longleftrightarrow> \<not> is_radix_digit r c"
  by (simp_all add: stops_def)

lemma takeWhile_stops:
  assumes "\<forall>c \<in> set a. is_radix_digit r c" "stops r b"
  shows "takeWhile (is_radix_digit r) (a @ b) = a" "dropWhile (is_radix_digit r) (a @ b) = b"
  using assms by (auto simp: stops_def takeWhile_eq_all_conv split: list.splits)

lemma read_number_show:
  assumes r: "2 \<le> r" "r \<le> 16" and v: "v \<le> mx" "length (show_radix r v) \<le> k" and s: "stops r rest"
  shows "read_number r k az mx (show_radix r v @ rest) = Some (v, rest)"
proof -
  have d: "\<forall>c \<in> set (show_radix r v). is_radix_digit r c"
    using r show_radix_radix_digits by blast
  have z: "hd (show_radix r v) = CHR ''0'' \<Longrightarrow> length (show_radix r v) = 1"
    using r hd_show_radix [of r v] by (cases "v = 0") (auto simp: show_radix_small)
  show ?thesis
    using v z by (simp add: read_number_def Let_def takeWhile_stops [OF d s] digits_val_show [OF r])
qed

lemma read_number_stops: "stops r s \<Longrightarrow> read_number r k az mx s = None"
  by (cases s) (simp_all add: read_number_def)

lemma separators_not_digits [text_simps, simp]:
  "\<not> is_radix_digit 10 (CHR ''.'')" "\<not> is_radix_digit 10 (CHR '':'')" "\<not> is_radix_digit 16 (CHR '':'')"
  "\<not> is_radix_digit 16 (CHR ''.'')" "\<not> is_radix_digit 10 (CHR ''/'')"
  by (simp_all add: is_radix_digit_def digit_val_def is_ascii_digit_def cp_def)

lemma read_given_char_simps [simp]:
  "read_given_char c [] = None" "read_given_char c (d # s) = (if d = c then Some s else None)"
  by (simp_all add: read_given_char_def)

subsection \<open>IPv4 addresses read back\<close>

lemma octets_nat:
  "((n div 16777216 * 256 + n div 65536 mod 256) * 256 + n div 256 mod 256) * 256 + n mod 256 = (n :: nat)"
proof -
  have 1: "n div 16777216 = n div 65536 div 256" and 2: "n div 65536 = n div 256 div 256"
    by (simp_all add: div_mult2_eq [symmetric])
  show ?thesis by (simp only: 1 div_mult_mod_eq) (simp only: 2 div_mult_mod_eq)
qed

lemma of_octets_of:
  "of_octets (unat w div 16777216) (unat w div 65536 mod 256) (unat w div 256 mod 256) (unat w mod 256) = w"
  unfolding of_octets_def octets_nat by simp

lemma length_show_octet: "v < 256 \<Longrightarrow> length (show_dec v) \<le> 3"
  by (rule length_show_radix) auto

lemma read_octet_show:
  assumes "v < 256" "stops 10 rest"
  shows "read_number 10 3 False 255 (show_dec v @ rest) = Some (v, rest)"
  by (rule read_number_show) (use assms in \<open>auto intro: length_show_octet\<close>)

lemma read_ipv4_show:
  assumes "stops 10 rest"
  shows "read_ipv4_addr (show_ipv4 w @ rest) = Some (w, rest)"
proof -
  have "unat w < 2 ^ LENGTH(32)" by (rule unsigned_less)
  then have hi: "unat w div 16777216 < 256" by simp
  show ?thesis
    by (simp add: read_ipv4_addr_def show_ipv4_def Let_def read_separator_def
        read_octet_show hi assms of_octets_of)
qed

lemma read_number_suffix: "read_number r k az mx s = Some (v, t) \<Longrightarrow> set t \<subseteq> set s"
  by (auto simp: read_number_def Let_def split: if_splits dest: set_dropWhileD)

lemma read_given_char_Some: "read_given_char c s = Some t \<longleftrightarrow> s = c # t"
  by (cases s) auto

lemma read_ipv4_dot: "read_ipv4_addr s = Some (w, t) \<Longrightarrow> CHR ''.'' \<in> set s"
  by (auto simp: read_ipv4_addr_def read_separator_def read_given_char_Some
      split: option.splits prod.splits if_splits dest!: read_number_suffix)

lemma read_ipv4_no_dot: "CHR ''.'' \<notin> set s \<Longrightarrow> read_ipv4_addr s = None"
  using read_ipv4_dot by (cases "read_ipv4_addr s") auto

lemma read_ipv4_stops: "stops 10 s \<Longrightarrow> read_ipv4_addr s = None"
  by (simp add: read_ipv4_addr_def read_separator_def read_number_stops)

subsection \<open>IPv6 addresses read back\<close>

text \<open>The groups as the reader meets them: all but the first follow a colon.\<close>

fun group_text :: "nat \<Rightarrow> nat list \<Rightarrow> str" where
  "group_text i [] = []"
| "group_text i (g # gs) = (if 0 < i then '':'' else []) @ show_hex g @ group_text (Suc i) gs"

lemma group_text_later: "0 < i \<Longrightarrow> gs \<noteq> [] \<Longrightarrow> group_text i gs = CHR '':'' # join '':'' (map show_hex gs)"
proof (induction gs arbitrary: i)
  case (Cons g gs)
  show ?case
    using Cons.IH [of "Suc i"] Cons.prems by (cases gs) auto
qed simp

lemma show_groups_text: "show_groups gs = group_text 0 gs"
proof (cases gs)
  case (Cons g rest)
  show ?thesis
    using group_text_later [of 1 rest] Cons by (cases rest) (auto simp: show_groups_def)
qed (simp add: show_groups_def)

definition group_stop :: "nat \<Rightarrow> str \<Rightarrow> bool" where
  "group_stop i s \<longleftrightarrow> read_separator (CHR '':'') i (read_number 16 4 True 65535) s = None"

lemma length_show_group: "g < 65536 \<Longrightarrow> length (show_hex g) \<le> 4"
  by (rule length_show_radix) auto

lemma read_group_show:
  "g < 65536 \<Longrightarrow> stops 16 rest \<Longrightarrow> read_number 16 4 True 65535 (show_hex g @ rest) = Some (g, rest)"
  by (rule read_number_show) (auto intro: length_show_group)

lemma stops_group_text: "0 < i \<Longrightarrow> stops 16 rest \<Longrightarrow> stops 16 (group_text i gs @ rest)"
  by (cases gs) auto

lemma read_separator_no_dot:
  "CHR ''.'' \<notin> set s \<Longrightarrow> read_separator c i read_ipv4_addr s = None"
  by (cases s) (auto simp: read_separator_def read_ipv4_no_dot)

lemma read_groups_show:
  assumes "\<forall>g \<in> set gs. g < 65536" "CHR ''.'' \<notin> set (group_text i gs @ rest)" "stops 16 rest"
    "length gs \<le> n" "length gs = n \<or> group_stop (i + length gs) rest"
  shows "read_groups n i (group_text i gs @ rest) = (gs, False, rest)"
  using assms
proof (induction gs arbitrary: n i)
  case Nil
  then show ?case by (cases n) (auto simp: read_separator_no_dot group_stop_def)
next
  case (Cons g gs)
  then obtain m where n: "n = Suc m" by (cases n) auto
  have st: "stops 16 (group_text (Suc i) gs @ rest)" using Cons.prems by (intro stops_group_text) auto
  have "read_separator (CHR '':'') i (read_number 16 4 True 65535) (group_text i (g # gs) @ rest)
      = Some (g, group_text (Suc i) gs @ rest)"
    using Cons.prems st by (auto simp: read_separator_def read_group_show)
  moreover have "read_groups m (Suc i) (group_text (Suc i) gs @ rest) = (gs, False, rest)"
    using Cons.prems n by (intro Cons.IH) auto
  moreover have "(if 0 < m then read_separator (CHR '':'') i read_ipv4_addr (group_text i (g # gs) @ rest) else None) = None"
    using Cons.prems(2) by (simp add: read_separator_no_dot)
  ultimately show ?case by (simp only: n read_groups.simps option.case prod.case)
qed

lemma group_stop_ends: "group_stop i []" "group_stop i (CHR '':'' # CHR '':'' # s)"
  by (auto simp: group_stop_def read_separator_def read_number_stops)

subsubsection \<open>The compressed run\<close>

definition is_zero_run :: "nat list \<Rightarrow> nat \<times> nat \<Rightarrow> bool" where
  "is_zero_run gs r \<longleftrightarrow> fst r + snd r \<le> length gs \<and> take (snd r) (drop (fst r) gs) = replicate (snd r) 0"

lemma zero_run_sound:
  assumes "is_zero_run (pre @ gs) longest" "is_zero_run (pre @ gs) current"
    "snd current > 0 \<Longrightarrow> fst current + snd current = length pre" "i = length pre"
  shows "is_zero_run (pre @ gs) (zero_run i longest current gs)"
  using assms
proof (induction gs arbitrary: pre longest current i)
  case (Cons g gs)
  let ?c = "((if snd current = 0 then i else fst current), Suc (snd current))"
  show ?case
  proof (cases "g = 0")
    case True
    have c: "is_zero_run ((pre @ [g]) @ gs) ?c"
    proof (cases "snd current = 0")
      case z: True
      then show ?thesis using True Cons.prems(4) by (auto simp: is_zero_run_def)
    next
      case False
      with Cons.prems(3,4) have f: "fst current + snd current = length pre" by simp
      then have "fst current \<le> length pre" by simp
      with Cons.prems(2) f have "drop (fst current) pre = replicate (snd current) 0"
        by (simp add: is_zero_run_def)
      with f False True show ?thesis
        by (simp add: is_zero_run_def replicate_append_same)
    qed
    have e: "fst ?c + snd ?c = length (pre @ [g])"
      using Cons.prems(3,4) by auto
    have "is_zero_run ((pre @ [g]) @ gs) (zero_run (Suc i) (if snd ?c > snd longest then ?c else longest) ?c gs)"
      using Cons.prems c e by (intro Cons.IH) auto
    with True show ?thesis by (simp add: Let_def)
  next
    case False
    have "is_zero_run ((pre @ [g]) @ gs) (zero_run (Suc i) longest (0, 0) gs)"
      using Cons.prems by (intro Cons.IH) (auto simp: is_zero_run_def)
    with False show ?thesis by simp
  qed
qed simp

lemma zero_run_split:
  assumes "zero_run 0 (0, 0) (0, 0) gs = (s, l)"
  shows "s + l \<le> length gs" "take s gs @ replicate l 0 @ drop (s + l) gs = gs"
proof -
  have r: "is_zero_run gs (s, l)"
    using zero_run_sound [of "[]" gs "(0, 0)" "(0, 0)" 0] assms by (simp add: is_zero_run_def)
  then show "s + l \<le> length gs" by (simp add: is_zero_run_def)
  from r have "replicate l 0 = take l (drop s gs)" by (simp add: is_zero_run_def)
  then show "take s gs @ replicate l 0 @ drop (s + l) gs = gs"
    by (simp add: add.commute [of s l] flip: drop_drop)
qed

subsubsection \<open>Segments and the whole address\<close>

lemma length_segments [simp]: "length (segments w) = 8"
  by (simp add: segments_def)

lemma segments_less: "g \<in> set (segments w) \<Longrightarrow> g < 65536"
  by (auto simp: segments_def)

lemma nat_of_segments_step: "nat_of_segments (gs @ [g]) = nat_of_segments gs * 65536 + g"
  by (simp add: nat_of_segments_def)

lemma nat_of_segments_div:
  "nat_of_segments (map (\<lambda>i. n div 65536 ^ i mod 65536) (rev [k..<k + j])) = n div 65536 ^ k mod 65536 ^ j"
proof (induction j arbitrary: k)
  case (Suc j)
  have "[k..<k + Suc j] = k # [Suc k..<Suc k + j]" by (simp add: upt_conv_Cons)
  then have "nat_of_segments (map (\<lambda>i. n div 65536 ^ i mod 65536) (rev [k..<k + Suc j]))
      = n div 65536 ^ Suc k mod 65536 ^ j * 65536 + n div 65536 ^ k mod 65536"
    using Suc.IH [of "Suc k"] by (simp add: nat_of_segments_step del: upt_Suc)
  also have "n div 65536 ^ Suc k = n div 65536 ^ k div 65536"
    by (simp only: power_Suc2 div_mult2_eq)
  also have "n div 65536 ^ k div 65536 mod 65536 ^ j * 65536 + n div 65536 ^ k mod 65536
      = n div 65536 ^ k mod 65536 ^ Suc j"
    by (simp add: mod_mult2_eq)
  finally show ?case .
qed (simp add: nat_of_segments_def)

lemma segments_rev: "segments w = map (\<lambda>i. unat w div 65536 ^ i mod 65536) (rev [0..<8])"
  by (simp add: segments_def upt_rec)

lemma of_segments_of [simp]: "of_segments (segments w) = w"
proof -
  have "unat w < 2 ^ LENGTH(128)" by (rule unsigned_less)
  then have "nat_of_segments (segments w) = unat w"
    using nat_of_segments_div [of "unat w" 0 8] by (simp add: segments_rev)
  then show ?thesis by (simp add: of_segments_def)
qed

lemma dot_not_hex: "CHR ''.'' \<notin> set (show_hex g)"
  using show_radix_radix_digits [of 16 "CHR ''.''" g] by auto

lemma dot_not_group_text: "CHR ''.'' \<notin> set (group_text i gs)"
  by (induction gs arbitrary: i) (auto simp: dot_not_hex)

lemma dot_not_segments: "CHR ''.'' \<notin> set (show_segments gs)"
  by (auto simp: show_segments_def show_groups_text dot_not_group_text split: prod.splits)

lemma read_ipv6_show_segments:
  assumes "length gs = 8" "\<forall>g \<in> set gs. g < 65536"
  shows "read_ipv6_addr (show_segments gs) = Some (of_segments gs, [])"
proof (cases "zero_run 0 (0, 0) (0, 0) gs")
  case (Pair s l)
  note sp = zero_run_split [OF Pair]
  show ?thesis
  proof (cases "l > 1")
    case False
    have "read_groups 8 0 (group_text 0 gs @ []) = (gs, False, [])"
      using assms by (intro read_groups_show) (auto simp: dot_not_group_text)
    with False Pair assms show ?thesis
      by (simp add: show_segments_def show_groups_text read_ipv6_addr_def)
  next
    case True
    let ?h = "take s gs" and ?t = "drop (s + l) gs"
    have len: "length ?h = s" "length ?t = 8 - (s + l)" using sp(1) assms(1) by auto
    have s8: "s < 8" using sp(1) True assms(1) by simp
    have h: "read_groups 8 0 (group_text 0 ?h @ ''::'' @ group_text 0 ?t) = (?h, False, ''::'' @ group_text 0 ?t)"
      using assms s8 by (intro read_groups_show)
        (auto simp: dot_not_group_text group_stop_ends dest: in_set_takeD)
    have t: "read_groups (8 - (s + 1)) 0 (group_text 0 ?t @ []) = (?t, False, [])"
      using assms len True by (intro read_groups_show)
        (auto simp: dot_not_group_text group_stop_ends dest: in_set_dropD)
    have "8 - s - (8 - (s + l)) = l" using sp(1) assms(1) by simp
    then have "?h @ replicate (8 - s - length ?t) 0 @ ?t = gs" using sp(2) len(2) by simp
    with h t s8 True Pair len(1) show ?thesis
      by (simp add: show_segments_def show_groups_text read_ipv6_addr_def)
  qed
qed

lemma mapped_segments:
  assumes "to_ipv4_mapped w = Some v"
  shows "segments w = [0, 0, 0, 0, 0, 65535, unat v div 65536, unat v mod 65536]"
proof -
  have v: "v = ucast w" and t: "take 6 (segments w) = [0, 0, 0, 0, 0, 65535]"
    using assms by (auto simp: to_ipv4_mapped_def split: if_splits)
  have u: "unat v = unat w mod 2 ^ 32"
    unfolding v by (simp add: unsigned_ucast_eq take_bit_eq_mod)
  have d: "drop 6 (segments w) = [unat w div 65536 mod 65536, unat w mod 65536]"
    by (simp add: segments_def)
  have 1: "unat w mod 2 ^ 32 div 65536 = unat w div 65536 mod 65536"
    using div_mult_mod_eq mod_mult2_eq [of "unat w" 65536 65536] by simp
  have 2: "unat w mod 2 ^ 32 mod 65536 = unat w mod 65536"
    by (simp add: mod_mod_cancel)
  have "segments w = take 6 (segments w) @ drop 6 (segments w)" by simp
  then show ?thesis unfolding t d u 1 2 by simp
qed

lemma read_ipv6_mapped: "read_ipv6_addr (''::ffff:'' @ show_ipv4 v) =
    Some (of_segments [0, 0, 0, 0, 0, 65535, unat v div 65536, unat v mod 65536], [])"
proof -
  have hx: "read_number 16 4 True 65535 (CHR ''f'' # CHR ''f'' # CHR ''f'' # CHR ''f'' # CHR '':'' # s)
      = Some (65535, CHR '':'' # s)" for s
    by (simp add: read_number_def Let_def is_radix_digit_def digit_val_def is_ascii_digit_def cp_def digits_val_def)
  have f: "\<not> is_radix_digit 10 (CHR ''f'')"
    by (simp add: is_radix_digit_def digit_val_def is_ascii_digit_def cp_def)
  have v4: "read_ipv4_addr (show_ipv4 v) = Some (v, [])"
    using read_ipv4_show [of "[]" v] by simp
  have h: "read_groups 8 0 (''::ffff:'' @ show_ipv4 v) = ([], False, ''::ffff:'' @ show_ipv4 v)"
    by (simp add: read_groups_numeral read_separator_def read_ipv4_stops read_number_stops)
  have t: "read_groups 7 0 (''ffff:'' @ show_ipv4 v) = ([65535, unat v div 65536, unat v mod 65536], True, [])"
    by (simp add: read_groups_numeral read_separator_def read_ipv4_stops f hx v4)
  have "replicate 5 (0 :: nat) = [0, 0, 0, 0, 0]" by (simp add: numeral_eq_Suc)
  with h t show ?thesis by (simp add: read_ipv6_addr_def)
qed

lemma parse_ipv6_show [simp]: "parse_ipv6_addr (show_ipv6 w) = Some w"
proof (cases "to_ipv4_mapped w")
  case None
  then show ?thesis
    by (simp add: show_ipv6_def parse_ipv6_addr_def read_ipv6_show_segments segments_less)
next
  case (Some v)
  then show ?thesis
    using read_ipv6_mapped [of v]
    by (simp add: show_ipv6_def parse_ipv6_addr_def flip: mapped_segments)
qed

lemma read_ipv4_show_ipv6: "read_ipv4_addr (show_ipv6 w) = None"
  by (cases "to_ipv4_mapped w")
    (simp_all add: show_ipv6_def read_ipv4_no_dot dot_not_segments read_ipv4_stops)

lemma parse_show_ip [simp]: "parse_ip_addr (show_ip_addr a) = Some a"
proof (cases a)
  case (IpV4 w)
  then show ?thesis using read_ipv4_show [of "[]" w] by (simp add: show_ip_addr_def parse_ip_addr_def)
next
  case (IpV6 w)
  then show ?thesis by (simp add: show_ip_addr_def parse_ip_addr_def read_ipv4_show_ipv6)
qed

end
