(* ===== verification/Oc_Prefix.thy ===== *)
theory Oc_Prefix
  imports Oc_Net
begin

unbundle bit_operations_syntax

text \<open>
  \<open>IpPrefix\<close> of \<open>model.rs\<close>: CIDR prefixes of both address families on machine words, their
  containment, the subtraction of one prefix from another, and their canonical text. A prefix length
  is a \<open>u8\<close> that never exceeds 128 (the parser's bound), so it is a natural number here; the one
  arithmetic step that could leave the range (\<open>children\<close> of a full-length prefix) is the result
  \<open>None\<close>. The interface \<open>prefix_algebra\<close> states what route policies rely on, and is interpreted on
  these definitions.
\<close>

subsection \<open>The code\<close>

datatype ip_prefix = V4 "32 word" nat | V6 "128 word" nat

definition prefix_mask_v4 :: "nat \<Rightarrow> 32 word" where
  "prefix_mask_v4 bits = (if bits = 0 then 0 else push_bit (32 - bits) (- 1))"

definition prefix_mask_v6 :: "nat \<Rightarrow> 128 word" where
  "prefix_mask_v6 bits = (if bits = 0 then 0 else push_bit (128 - bits) (- 1))"

definition ip_prefix_parse :: "str \<Rightarrow> ip_prefix option" where
  "ip_prefix_parse value =
     (case split_once (CHR ''/'') (trim value) of None \<Rightarrow> None | Some (address, pfx) \<Rightarrow>
       (case parse_ip_addr address of
          None \<Rightarrow> None
        | Some (IpV4 a) \<Rightarrow>
            (case parse_u8 pfx of None \<Rightarrow> None | Some bits \<Rightarrow>
               if bits > 32 then None else Some (V4 (a AND prefix_mask_v4 bits) bits))
        | Some (IpV6 a) \<Rightarrow>
            (case parse_u8 pfx of None \<Rightarrow> None | Some bits \<Rightarrow>
               if bits > 128 then None else Some (V6 (a AND prefix_mask_v6 bits) bits))))"

fun family :: "ip_prefix \<Rightarrow> nat" where
  "family (V4 _ _) = 4"
| "family (V6 _ _) = 6"

fun prefix_len :: "ip_prefix \<Rightarrow> nat" where
  "prefix_len (V4 _ bits) = bits"
| "prefix_len (V6 _ bits) = bits"

fun pfx_contains :: "ip_prefix \<Rightarrow> ip_prefix \<Rightarrow> bool" where
  "pfx_contains (V4 network bits) (V4 other _) \<longleftrightarrow> other AND prefix_mask_v4 bits = network"
| "pfx_contains (V6 network bits) (V6 other _) \<longleftrightarrow> other AND prefix_mask_v6 bits = network"
| "pfx_contains _ _ \<longleftrightarrow> False"

text \<open>\<open>None\<close>: the shift amount \<open>width - (bits + 1)\<close> underflows.\<close>

fun children :: "ip_prefix \<Rightarrow> (ip_prefix \<times> ip_prefix) option" where
  "children (V4 network bits) =
     (let child_bits = bits + 1
      in if child_bits > 32 then None
         else Some (V4 network child_bits, V4 (network OR push_bit (32 - child_bits) 1) child_bits))"
| "children (V6 network bits) =
     (let child_bits = bits + 1
      in if child_bits > 128 then None
         else Some (V6 network child_bits, V6 (network OR push_bit (128 - child_bits) 1) child_bits))"

lemma children_longer:
  "children p = Some (l, r) \<Longrightarrow> 128 - prefix_len l < 128 - prefix_len p \<and> 128 - prefix_len r < 128 - prefix_len p"
  by (cases p) (auto simp: Let_def split: if_splits)

function subtract :: "ip_prefix \<Rightarrow> ip_prefix \<Rightarrow> ip_prefix list option" where
  "subtract p exclusion =
     (if family p \<noteq> family exclusion then Some [p]
      else if prefix_len exclusion \<le> prefix_len p \<and> pfx_contains exclusion p then Some []
      else if \<not> pfx_contains p exclusion then Some [p]
      else (case children p of
              None \<Rightarrow> None
            | Some (left, right) \<Rightarrow>
                (case (if pfx_contains left exclusion then subtract left exclusion else Some [left]) of
                   None \<Rightarrow> None
                 | Some ls \<Rightarrow>
                     (case (if pfx_contains right exclusion then subtract right exclusion else Some [right]) of
                        None \<Rightarrow> None
                      | Some rs \<Rightarrow> Some (ls @ rs)))))"
  by pat_completeness auto
termination
  by (relation "measure (\<lambda>(p, e). 128 - prefix_len p)") (auto dest!: children_longer)

declare subtract.simps [simp del]

fun to_cidr :: "ip_prefix \<Rightarrow> str" where
  "to_cidr (V4 network bits) = show_ipv4 network @ ''/'' @ show_dec bits"
| "to_cidr (V6 network bits) = show_ipv6 network @ ''/'' @ show_dec bits"

subsection \<open>Masks\<close>

text \<open>The two masks are one function of the word length.\<close>

definition net_mask :: "nat \<Rightarrow> 'a::len word" where
  "net_mask b = (if b = 0 then 0 else push_bit (LENGTH('a) - b) (- 1))"

lemma prefix_mask_v4_net: "prefix_mask_v4 = net_mask"
  by (simp add: prefix_mask_v4_def net_mask_def fun_eq_iff)

lemma prefix_mask_v6_net: "prefix_mask_v6 = net_mask"
  by (simp add: prefix_mask_v6_def net_mask_def fun_eq_iff)

lemma bit_net_mask:
  "b \<le> LENGTH('a) \<Longrightarrow> bit (net_mask b :: 'a::len word) i \<longleftrightarrow> LENGTH('a) - b \<le> i \<and> i < LENGTH('a)"
  by (auto simp: net_mask_def bit_simps)

lemma net_mask_0 [simp]: "net_mask 0 = 0"
  by (simp add: net_mask_def)

lemma net_mask_full [simp]: "net_mask LENGTH('a) = (- 1 :: 'a::len word)"
  by (simp add: net_mask_def)

lemma net_mask_absorb:
  "b \<le> c \<Longrightarrow> c \<le> LENGTH('a) \<Longrightarrow> (net_mask c :: 'a::len word) AND net_mask b = net_mask b"
  by (rule bit_word_eqI) (auto simp: bit_and_iff bit_net_mask)

lemma net_mask_Suc:
  "b < LENGTH('a) \<Longrightarrow> (net_mask (Suc b) :: 'a::len word) = net_mask b OR 2 ^ (LENGTH('a) - Suc b)"
  by (rule bit_word_eqI) (auto simp: bit_or_iff bit_net_mask bit_exp_iff)

lemma net_mask_push: "b < LENGTH('a) \<Longrightarrow> (2 ^ (LENGTH('a) - Suc b) :: 'a::len word) AND net_mask b = 0"
  by (rule bit_word_eqI) (auto simp: bit_and_iff bit_net_mask bit_exp_iff)

lemma masked_shorter:
  fixes x y :: "'a::len word"
  assumes "b \<le> c" "c \<le> LENGTH('a)" "x AND net_mask c = y AND net_mask c"
  shows "x AND net_mask b = y AND net_mask b"
proof -
  have "z AND net_mask b = (z AND net_mask c) AND net_mask b" for z :: "'a word"
    using assms(1,2) by (simp add: and.assoc net_mask_absorb)
  with assms(3) show ?thesis by metis
qed

text \<open>Evaluation computes a mask as a difference of two powers.\<close>

lemma net_mask_diff:
  assumes "b \<le> LENGTH('a)"
  shows "(net_mask b :: 'a::len word) = word_of_int (2 ^ LENGTH('a) - 2 ^ (LENGTH('a) - b))"
proof -
  have "(word_of_int (2 ^ LENGTH('a) - 2 ^ n) :: 'a word) = push_bit n (- 1)" for n
    by (simp add: push_bit_eq_mult)
  then show ?thesis using assms by (simp add: net_mask_def)
qed

lemma prefix_mask_v4_code [code]:
  "prefix_mask_v4 b = (if b \<le> 32 then word_of_int (4294967296 - 2 ^ (32 - b)) else push_bit (32 - b) (- 1))"
proof (cases "b \<le> 32")
  case True
  then have "prefix_mask_v4 b = word_of_int (2 ^ 32 - 2 ^ (32 - b))"
    using net_mask_diff [where 'a = 32, of b] unfolding prefix_mask_v4_net by simp
  with True show ?thesis by simp
next
  case False
  then show ?thesis unfolding prefix_mask_v4_def by simp
qed

lemma prefix_mask_v6_code [code]:
  "prefix_mask_v6 b = (if b \<le> 128 then word_of_int (2 ^ 128 - 2 ^ (128 - b)) else push_bit (128 - b) (- 1))"
proof (cases "b \<le> 128")
  case True
  then have "prefix_mask_v6 b = word_of_int (2 ^ 128 - 2 ^ (128 - b))"
    using net_mask_diff [where 'a = 128, of b] unfolding prefix_mask_v6_net by simp
  with True show ?thesis by simp
next
  case False
  then show ?thesis unfolding prefix_mask_v6_def by simp
qed

lemma children_code [code]:
  "children (V4 network bits) =
     (if bits + 1 > 32 then None
      else Some (V4 network (bits + 1), V4 (network OR word_of_int (2 ^ (32 - (bits + 1)))) (bits + 1)))"
  "children (V6 network6 bits) =
     (if bits + 1 > 128 then None
      else Some (V6 network6 (bits + 1), V6 (network6 OR word_of_int (2 ^ (128 - (bits + 1)))) (bits + 1)))"
  by (simp_all add: Let_def)

text \<open>A prefix splits into its two children.\<close>

lemma and_two_power: "(x :: 'a::len word) AND 2 ^ k = (if bit x k then 2 ^ k else 0)"
  by (rule bit_word_eqI) (auto simp: bit_and_iff bit_exp_iff)

lemma masked_children:
  fixes x n :: "'a::len word"
  assumes "b < LENGTH('a)" "n AND net_mask b = n"
  shows "x AND net_mask b = n \<longleftrightarrow>
     x AND net_mask (Suc b) = n \<or> x AND net_mask (Suc b) = n OR 2 ^ (LENGTH('a) - Suc b)"
    (is "_ \<longleftrightarrow> ?l \<or> ?r")
proof
  assume "x AND net_mask b = n"
  moreover have "x AND net_mask (Suc b) = (x AND net_mask b) OR (x AND 2 ^ (LENGTH('a) - Suc b))"
    by (simp add: net_mask_Suc [OF assms(1)] bit.conj_disj_distrib)
  ultimately show "?l \<or> ?r" by (simp add: and_two_power)
next
  have *: "x AND net_mask b = (x AND net_mask (Suc b)) AND net_mask b"
    using assms(1) by (simp add: and.assoc net_mask_absorb)
  assume "?l \<or> ?r"
  then consider "x AND net_mask (Suc b) = n" | "x AND net_mask (Suc b) = n OR 2 ^ (LENGTH('a) - Suc b)"
    by blast
  then show "x AND net_mask b = n"
    unfolding * by cases (simp_all add: assms(2) bit.conj_disj_distrib2 net_mask_push [OF assms(1)])
qed

lemma child_masked:
  fixes n :: "'a::len word"
  assumes "b < LENGTH('a)" "n AND net_mask b = n"
  shows "n AND net_mask (Suc b) = n"
    "(n OR 2 ^ (LENGTH('a) - Suc b)) AND net_mask (Suc b) = n OR 2 ^ (LENGTH('a) - Suc b)"
proof -
  have "n AND net_mask (Suc b) = (n AND net_mask b) AND net_mask (Suc b)" by (simp add: assms(2))
  also have "\<dots> = n AND net_mask b"
    using assms(1) by (metis Suc_leI and.assoc and.commute le_add2 net_mask_absorb plus_1_eq_Suc)
  finally show n: "n AND net_mask (Suc b) = n" by (simp add: assms(2))
  show "(n OR 2 ^ (LENGTH('a) - Suc b)) AND net_mask (Suc b) = n OR 2 ^ (LENGTH('a) - Suc b)"
    by (simp add: bit.conj_disj_distrib2 n) (simp add: net_mask_Suc [OF assms(1)])
qed

subsection \<open>Well-formed prefixes and the addresses they match\<close>

fun wf_prefix :: "ip_prefix \<Rightarrow> bool" where
  "wf_prefix (V4 network bits) \<longleftrightarrow> bits \<le> 32 \<and> network AND prefix_mask_v4 bits = network"
| "wf_prefix (V6 network bits) \<longleftrightarrow> bits \<le> 128 \<and> network AND prefix_mask_v6 bits = network"

fun matches :: "ip_prefix \<Rightarrow> ip_addr \<Rightarrow> bool" where
  "matches (V4 network bits) (IpV4 a) \<longleftrightarrow> a AND prefix_mask_v4 bits = network"
| "matches (V6 network bits) (IpV6 a) \<longleftrightarrow> a AND prefix_mask_v6 bits = network"
| "matches _ _ \<longleftrightarrow> False"

lemmas prefix_masks = prefix_mask_v4_net prefix_mask_v6_net

lemma wf_prefix_mask:
  "b \<le> 32 \<Longrightarrow> wf_prefix (V4 (a AND prefix_mask_v4 b) b)"
  "b \<le> 128 \<Longrightarrow> wf_prefix (V6 (c AND prefix_mask_v6 b) b)"
  by (simp_all add: and.assoc)

lemma matches_family: "matches p a \<Longrightarrow> matches q a \<Longrightarrow> family p = family q"
  by (cases p; cases q; cases a) auto

text \<open>Two well-formed prefixes with a common address are nested, the longer in the shorter.\<close>

lemma common_address_nested:
  assumes "wf_prefix p" "wf_prefix q" "matches p a" "matches q a" "prefix_len q \<le> prefix_len p"
  shows "pfx_contains q p"
proof (cases p)
  case (V4 n b)
  with assms obtain m c x where q: "q = V4 m c" "a = IpV4 x" by (cases q; cases a) auto
  have "x AND net_mask b = n AND net_mask b" using assms V4 q by (simp add: prefix_masks)
  then have "x AND net_mask c = n AND net_mask c"
    using assms V4 q by (intro masked_shorter [of c b]) auto
  with assms V4 q show ?thesis by (simp add: prefix_masks)
next
  case (V6 n b)
  with assms obtain m c x where q: "q = V6 m c" "a = IpV6 x" by (cases q; cases a) auto
  have "x AND net_mask b = n AND net_mask b" using assms V6 q by (simp add: prefix_masks)
  then have "x AND net_mask c = n AND net_mask c"
    using assms V6 q by (intro masked_shorter [of c b]) auto
  with assms V6 q show ?thesis by (simp add: prefix_masks)
qed

lemma contains_matches:
  assumes "wf_prefix p" "wf_prefix q" "pfx_contains q p" "prefix_len q \<le> prefix_len p" "matches p a"
  shows "matches q a"
proof (cases p)
  case (V4 n b)
  with assms obtain m c x where q: "q = V4 m c" "a = IpV4 x" by (cases q; cases a) auto
  have "x AND net_mask b = n AND net_mask b" using assms V4 q by (simp add: prefix_masks)
  then have "x AND net_mask c = n AND net_mask c"
    using assms V4 q by (intro masked_shorter [of c b]) auto
  with assms V4 q show ?thesis by (simp add: prefix_masks)
next
  case (V6 n b)
  with assms obtain m c x where q: "q = V6 m c" "a = IpV6 x" by (cases q; cases a) auto
  have "x AND net_mask b = n AND net_mask b" using assms V6 q by (simp add: prefix_masks)
  then have "x AND net_mask c = n AND net_mask c"
    using assms V6 q by (intro masked_shorter [of c b]) auto
  with assms V6 q show ?thesis by (simp add: prefix_masks)
qed

lemma own_network_matches:
  "wf_prefix (V4 n b) \<Longrightarrow> matches (V4 n b) (IpV4 n)" "wf_prefix (V6 m c) \<Longrightarrow> matches (V6 m c) (IpV6 m)"
  by auto

lemma matches_ex: "wf_prefix p \<Longrightarrow> \<exists>a. matches p a"
  by (cases p) (metis own_network_matches)+

lemma pfx_contains_family: "pfx_contains p q \<Longrightarrow> family p = family q"
  by (cases p; cases q) auto

text \<open>Where the longer prefix's mask keeps the shorter one's network, the longer one lies inside.\<close>

lemma contains_longer:
  assumes "wf_prefix p" "wf_prefix e" "pfx_contains p e" "prefix_len e \<le> prefix_len p"
  shows "pfx_contains e p"
proof (cases e)
  case (V4 m c)
  with assms obtain n b where p: "p = V4 n b" by (cases p) auto
  from assms V4 p have "matches p (IpV4 m)" "matches e (IpV4 m)" by auto
  with assms show ?thesis by (auto intro: common_address_nested)
next
  case (V6 m c)
  with assms obtain n b where p: "p = V6 n b" by (cases p) auto
  from assms V6 p have "matches p (IpV6 m)" "matches e (IpV6 m)" by auto
  with assms show ?thesis by (auto intro: common_address_nested)
qed

lemma children_sound:
  assumes "wf_prefix p" "children p = Some (l, r)"
  shows "wf_prefix l" "wf_prefix r" "family l = family p" "family r = family p"
    "prefix_len l = Suc (prefix_len p)" "prefix_len r = Suc (prefix_len p)"
    "matches p a \<longleftrightarrow> matches l a \<or> matches r a"
proof -
  have "wf_prefix l \<and> wf_prefix r \<and> family l = family p \<and> family r = family p
    \<and> prefix_len l = Suc (prefix_len p) \<and> prefix_len r = Suc (prefix_len p)
    \<and> (matches p a \<longleftrightarrow> matches l a \<or> matches r a)"
  proof (cases p)
    case (V4 n b)
    with assms have b: "b < LENGTH(32)" and n: "n AND net_mask b = n"
      by (auto simp: prefix_masks Let_def split: if_splits)
    from V4 assms b have lr: "l = V4 n (Suc b)" "r = V4 (n OR 2 ^ (LENGTH(32) - Suc b)) (Suc b)"
      by (auto simp: Let_def)
    show ?thesis
      using V4 lr b child_masked [OF b n] masked_children [OF b n]
      by (cases a) (auto simp: prefix_masks)
  next
    case (V6 n b)
    with assms have b: "b < LENGTH(128)" and n: "n AND net_mask b = n"
      by (auto simp: prefix_masks Let_def split: if_splits)
    from V6 assms b have lr: "l = V6 n (Suc b)" "r = V6 (n OR 2 ^ (LENGTH(128) - Suc b)) (Suc b)"
      by (auto simp: Let_def)
    show ?thesis
      using V6 lr b child_masked [OF b n] masked_children [OF b n]
      by (cases a) (auto simp: prefix_masks)
  qed
  then show "wf_prefix l" "wf_prefix r" "family l = family p" "family r = family p"
    "prefix_len l = Suc (prefix_len p)" "prefix_len r = Suc (prefix_len p)"
    "matches p a \<longleftrightarrow> matches l a \<or> matches r a" by auto
qed

subsection \<open>Subtraction\<close>

lemma children_defined:
  assumes "wf_prefix p" "wf_prefix e" "prefix_len p < prefix_len e" "family p = family e"
  shows "\<exists>l r. children p = Some (l, r)"
  using assms by (cases p; cases e) (auto simp: Let_def)

text \<open>
  What \<open>subtract\<close> promises: the fragments are well-formed prefixes of the same family, no shorter
  than the prefix they are cut from, and match exactly the addresses of the prefix outside the
  exclusion.
\<close>

definition subtracts :: "ip_prefix \<Rightarrow> ip_prefix \<Rightarrow> ip_prefix list \<Rightarrow> bool" where
  "subtracts p e fs \<longleftrightarrow>
     (\<forall>f \<in> set fs. wf_prefix f \<and> family f = family p \<and> prefix_len p \<le> prefix_len f) \<and>
     (\<forall>a. (\<exists>f \<in> set fs. matches f a) \<longleftrightarrow> matches p a \<and> \<not> matches e a)"

lemma subtracts_disjoint:
  assumes "wf_prefix p" "wf_prefix e" "\<not> pfx_contains p e" "\<not> (prefix_len e \<le> prefix_len p \<and> pfx_contains e p)"
  shows "subtracts p e [p]"
proof -
  have "\<not> matches e a" if "matches p a" for a
    using that assms common_address_nested [of p e a] common_address_nested [of e p a]
    by (meson nat_le_linear)
  with assms(1) show ?thesis by (auto simp: subtracts_def)
qed

lemma subtracts_children:
  assumes "wf_prefix p" "children p = Some (l, r)" "subtracts l e ls" "subtracts r e rs"
  shows "subtracts p e (ls @ rs)"
  using children_sound [OF assms(1,2)] assms(3,4) unfolding subtracts_def by fastforce

lemma subtract_correct:
  assumes "wf_prefix p" "wf_prefix e"
  shows "\<exists>fs. subtract p e = Some fs \<and> subtracts p e fs"
  using assms
proof (induction p e rule: subtract.induct)
  case (1 p e)
  note wf = "1.prems"
  show ?case
  proof (cases "family p \<noteq> family e")
    case True
    then have "subtracts p e [p]" using wf matches_family by (auto simp: subtracts_def)
    with True show ?thesis by (subst subtract.simps) simp
  next
    case fam: False
    show ?thesis
    proof (cases "prefix_len e \<le> prefix_len p \<and> pfx_contains e p")
      case True
      then have "subtracts p e []" using wf contains_matches by (auto simp: subtracts_def)
      with True fam show ?thesis by (subst subtract.simps) simp
    next
      case out: False
      show ?thesis
      proof (cases "pfx_contains p e")
        case False
        then have "subtracts p e [p]" using wf out by (intro subtracts_disjoint) auto
        moreover have "subtract p e = Some [p]"
          using False fam out by (subst subtract.simps) auto
        ultimately show ?thesis by blast
      next
        case inside: True
        then have len: "prefix_len p < prefix_len e"
          using contains_longer [OF wf] out by (meson not_less)
        obtain l r where ch: "children p = Some (l, r)"
          using children_defined [OF wf len] fam by auto
        note cs = children_sound [OF wf(1) ch]
        have side: "\<exists>fs. (if pfx_contains c e then subtract c e else Some [c]) = Some fs \<and> subtracts c e fs"
          if c: "wf_prefix c" "prefix_len c = Suc (prefix_len p)"
            and IH: "pfx_contains c e \<Longrightarrow> \<exists>fs. subtract c e = Some fs \<and> subtracts c e fs" for c
        proof (cases "pfx_contains c e")
          case False
          have "\<not> (prefix_len e \<le> prefix_len c \<and> pfx_contains e c)"
          proof
            assume *: "prefix_len e \<le> prefix_len c \<and> pfx_contains e c"
            with len c have "prefix_len e = prefix_len c" by simp
            then have "pfx_contains c e" using * contains_longer [OF wf(2) c(1)] by simp
            with False show False by simp
          qed
          with False c wf have "subtracts c e [c]" by (intro subtracts_disjoint) auto
          with False show ?thesis by simp
        qed (use IH in simp)
        have IHl: "pfx_contains l e \<Longrightarrow> \<exists>fs. subtract l e = Some fs \<and> subtracts l e fs"
          using "1.IH"(1) [of "(l, r)" l r] fam out inside ch cs(1) wf(2) by simp
        obtain ls where ls: "(if pfx_contains l e then subtract l e else Some [l]) = Some ls" "subtracts l e ls"
          using side [OF cs(1,5) IHl] by blast
        have IHr: "pfx_contains r e \<Longrightarrow> \<exists>fs. subtract r e = Some fs \<and> subtracts r e fs"
          using "1.IH"(2) [of "(l, r)" l r ls] fam out inside ch cs(2) wf(2) ls(1) by (simp del: if_split)
        obtain rs where rs: "(if pfx_contains r e then subtract r e else Some [r]) = Some rs" "subtracts r e rs"
          using side [OF cs(2,6) IHr] by blast
        have "subtract p e = Some (ls @ rs)"
          by (subst subtract.simps) (simp only: fam out inside ch ls(1) rs(1) not_True_eq_False if_False if_True option.case prod.case)
        with subtracts_children [OF wf(1) ch ls(2) rs(2)] show ?thesis by blast
      qed
    qed
  qed
qed

subsection \<open>Canonical text\<close>

lemma plain_show_radix: "2 \<le> r \<Longrightarrow> r \<le> 16 \<Longrightarrow> list_all plain (show_radix r n)"
  using show_radix_digits [of r n] by (auto simp: list_all_iff plain_digit_char)

lemma plain_separators [simp]: "plain (CHR ''.'')" "plain (CHR '':'')" "plain (CHR ''/'')" "plain (CHR ''f'')"
  by (simp_all add: plain_def cp_def)

lemma plain_show_ipv4: "list_all plain (show_ipv4 w)"
  by (simp add: show_ipv4_def Let_def plain_show_radix)

lemma plain_group_text: "list_all plain (group_text i gs)"
  by (induction gs arbitrary: i) (auto simp: plain_show_radix)

lemma plain_show_ipv6: "list_all plain (show_ipv6 w)"
  by (auto simp: show_ipv6_def plain_show_ipv4 show_segments_def show_groups_text plain_group_text
      split: option.splits prod.splits)

lemma not_digit_not_in: "2 \<le> r \<Longrightarrow> r \<le> 16 \<Longrightarrow> \<not> is_radix_digit r c \<Longrightarrow> c \<notin> set (show_radix r n)"
  using show_radix_radix_digits by blast

lemma slash_not_hex: "\<not> is_radix_digit 16 (CHR ''/'')"
  by (simp add: is_radix_digit_def digit_val_def is_ascii_digit_def cp_def)

lemma slash_not_ipv4: "CHR ''/'' \<notin> set (show_ipv4 w)"
  by (simp add: show_ipv4_def Let_def not_digit_not_in)

lemma colon_not_ipv4: "CHR '':'' \<notin> set (show_ipv4 w)"
  by (simp add: show_ipv4_def Let_def not_digit_not_in)

lemma slash_not_group_text: "CHR ''/'' \<notin> set (group_text i gs)"
  by (induction gs arbitrary: i) (auto simp: not_digit_not_in slash_not_hex)

lemma slash_not_ipv6: "CHR ''/'' \<notin> set (show_ipv6 w)"
  by (auto simp: show_ipv6_def slash_not_ipv4 show_segments_def show_groups_text slash_not_group_text
      split: option.splits prod.splits)

lemma colon_group_text: "1 < length gs \<Longrightarrow> CHR '':'' \<in> set (group_text i gs)"
  by (cases gs; cases "tl gs") auto

lemma colon_segments: "1 < length gs \<Longrightarrow> CHR '':'' \<in> set (show_segments gs)"
  by (cases "zero_run 0 (0, 0) (0, 0) gs") (simp add: show_segments_def show_groups_text colon_group_text)

lemma colon_ipv6: "CHR '':'' \<in> set (show_ipv6 w)"
  by (simp add: show_ipv6_def colon_segments split: option.splits)

lemma plain_to_cidr: "list_all plain (to_cidr p)"
  by (cases p) (simp_all add: plain_show_ipv4 plain_show_ipv6 plain_show_radix)

lemma trim_to_cidr [simp]: "trim (to_cidr p) = to_cidr p"
  by (rule trim_plain) (rule plain_to_cidr)

lemma parse_show_ipv4 [simp]: "parse_ip_addr (show_ipv4 w) = Some (IpV4 w)"
  using parse_show_ip [of "IpV4 w"] by (simp add: show_ip_addr_def del: parse_show_ip)

lemma parse_show_ipv6 [simp]: "parse_ip_addr (show_ipv6 w) = Some (IpV6 w)"
  using parse_show_ip [of "IpV6 w"] by (simp add: show_ip_addr_def del: parse_show_ip)

lemma split_to_cidr:
  "split_once (CHR ''/'') (to_cidr (V4 n b)) = Some (show_ipv4 n, show_dec b)"
  "split_once (CHR ''/'') (to_cidr (V6 m c)) = Some (show_ipv6 m, show_dec c)"
  by (simp_all add: split_once_append slash_not_ipv4 slash_not_ipv6)

theorem ip_prefix_parse_to_cidr:
  assumes "wf_prefix p"
  shows "ip_prefix_parse (to_cidr p) = Some p"
proof (cases p)
  case (V4 n b)
  then show ?thesis
    using assms by (simp add: ip_prefix_parse_def split_to_cidr parse_uint_show del: to_cidr.simps)
next
  case (V6 n b)
  then show ?thesis
    using assms by (simp add: ip_prefix_parse_def split_to_cidr parse_uint_show del: to_cidr.simps)
qed

lemma ip_prefix_parse_wf: "ip_prefix_parse s = Some p \<Longrightarrow> wf_prefix p"
  by (auto simp: ip_prefix_parse_def and.assoc split: option.splits ip_addr.splits if_splits prod.splits)

lemma to_cidr_inject: "wf_prefix p \<Longrightarrow> wf_prefix q \<Longrightarrow> to_cidr p = to_cidr q \<Longrightarrow> p = q"
  by (metis ip_prefix_parse_to_cidr option.inject)

subsection \<open>The interface of prefixes to route policies\<close>

text \<open>
  What a route policy relies on when it carves excluded prefixes out of included ones: prefixes with
  a common address are nested, containment of a longer prefix carries its addresses over, prefixes of
  different families share no address, and subtraction is set difference and never fails. \<open>carve\<close>
  cuts a list of exclusions out of one include, skipping those that the include overrides by being
  more specific.
\<close>

locale prefix_algebra =
  fixes fam :: "'p \<Rightarrow> nat"
    and len :: "'p \<Rightarrow> nat"
    and inside :: "'p \<Rightarrow> 'p \<Rightarrow> bool"
    and sub :: "'p \<Rightarrow> 'p \<Rightarrow> 'p list option"
    and hits :: "'p \<Rightarrow> 'a \<Rightarrow> bool"
    and good :: "'p \<Rightarrow> bool"
  assumes nested: "good p \<Longrightarrow> good q \<Longrightarrow> hits p a \<Longrightarrow> hits q a \<Longrightarrow> len q \<le> len p \<Longrightarrow> inside q p"
    and hits_inside: "good p \<Longrightarrow> good q \<Longrightarrow> inside q p \<Longrightarrow> len q \<le> len p \<Longrightarrow> hits p a \<Longrightarrow> hits q a"
    and hits_fam: "hits p a \<Longrightarrow> hits q a \<Longrightarrow> fam p = fam q"
    and sub_ok: "good p \<Longrightarrow> good e \<Longrightarrow> \<exists>fs. sub p e = Some fs"
    and sub_good: "good p \<Longrightarrow> good e \<Longrightarrow> sub p e = Some fs \<Longrightarrow> f \<in> set fs \<Longrightarrow> good f"
    and sub_hits: "good p \<Longrightarrow> good e \<Longrightarrow> sub p e = Some fs \<Longrightarrow>
          (\<exists>f \<in> set fs. hits f a) \<longleftrightarrow> hits p a \<and> \<not> hits e a"
begin

text \<open>Subtracting one exclusion from every fragment.\<close>

fun sub_all :: "'p list \<Rightarrow> 'p \<Rightarrow> 'p list option" where
  "sub_all [] e = Some []"
| "sub_all (f # fs) e =
     (case sub f e of None \<Rightarrow> None
      | Some xs \<Rightarrow> (case sub_all fs e of None \<Rightarrow> None | Some ys \<Rightarrow> Some (xs @ ys)))"

definition overrides :: "'p \<Rightarrow> 'p \<Rightarrow> bool" where
  "overrides r e \<longleftrightarrow> fam r \<noteq> fam e \<or> (len r > len e \<and> inside e r)"

fun carve :: "'p \<Rightarrow> 'p list \<Rightarrow> 'p list \<Rightarrow> 'p list option" where
  "carve r fs [] = Some fs"
| "carve r fs (e # es) =
     (if overrides r e then carve r fs es
      else (case sub_all fs e of
              None \<Rightarrow> None
            | Some gs \<Rightarrow> if gs = [] then Some gs else carve r gs es))"

lemma sub_all_sound:
  assumes "\<forall>f \<in> set fs. good f" "good e"
  shows "\<exists>gs. sub_all fs e = Some gs \<and> (\<forall>g \<in> set gs. good g) \<and>
     (\<forall>a. (\<exists>g \<in> set gs. hits g a) \<longleftrightarrow> (\<exists>f \<in> set fs. hits f a) \<and> \<not> hits e a)"
  using assms(1)
proof (induction fs)
  case (Cons f fs)
  then obtain ys where ys: "sub_all fs e = Some ys" "\<forall>g \<in> set ys. good g"
    "\<And>a. (\<exists>g \<in> set ys. hits g a) \<longleftrightarrow> (\<exists>f \<in> set fs. hits f a) \<and> \<not> hits e a" by auto
  from Cons.prems assms(2) obtain xs where xs: "sub f e = Some xs" using sub_ok by force
  have h: "(\<exists>g \<in> set xs. hits g a) \<longleftrightarrow> hits f a \<and> \<not> hits e a" for a
    using sub_hits [OF _ assms(2) xs] Cons.prems by auto
  have "\<forall>g \<in> set xs. good g" using sub_good [OF _ assms(2) xs] Cons.prems by auto
  with xs ys h show ?case by (auto simp: bex_Un)
qed auto

lemma carve_sound:
  assumes "good r" "\<forall>f \<in> set fs. good f" "\<forall>e \<in> set es. good e"
    "\<And>a. (\<exists>f \<in> set fs. hits f a) \<Longrightarrow> hits r a"
  shows "\<exists>gs. carve r fs es = Some gs \<and> (\<forall>g \<in> set gs. good g) \<and>
     (\<forall>a. (\<exists>g \<in> set gs. hits g a) \<longleftrightarrow>
        (\<exists>f \<in> set fs. hits f a) \<and> (\<forall>e \<in> set es. hits e a \<longrightarrow> len e < len r))"
  using assms(2-4)
proof (induction es arbitrary: fs)
  case (Cons e es)
  show ?case
  proof (cases "overrides r e")
    case True
    have e: "hits e a \<longrightarrow> len e < len r" if "hits r a" for a
      using True that hits_fam [of r a e] by (auto simp: overrides_def)
    from Cons obtain gs where gs: "carve r fs es = Some gs" "\<forall>g \<in> set gs. good g"
      "\<And>a. (\<exists>g \<in> set gs. hits g a) \<longleftrightarrow>
        (\<exists>f \<in> set fs. hits f a) \<and> (\<forall>e \<in> set es. hits e a \<longrightarrow> len e < len r)" by force
    have "(\<exists>g \<in> set gs. hits g a) \<longleftrightarrow>
        (\<exists>f \<in> set fs. hits f a) \<and> (\<forall>x \<in> set (e # es). hits x a \<longrightarrow> len x < len r)" for a
      using gs(3) [of a] e [of a] Cons.prems(3) [of a] by auto
    with True gs(1,2) show ?thesis by auto
  next
    case False
    have e: "\<not> len e < len r" if "hits e a" "hits r a" for a
      using False that assms(1) Cons.prems(2) hits_fam [of r a e] nested [of r e a]
      by (auto simp: overrides_def)
    obtain gs where gs: "sub_all fs e = Some gs" "\<forall>g \<in> set gs. good g"
      "\<And>a. (\<exists>g \<in> set gs. hits g a) \<longleftrightarrow> (\<exists>f \<in> set fs. hits f a) \<and> \<not> hits e a"
      using sub_all_sound [of fs e] Cons.prems by auto
    show ?thesis
    proof (cases "gs = []")
      case True
      then have "(\<exists>f \<in> set fs. hits f a) \<Longrightarrow> hits e a" for a using gs(3) [of a] by auto
      with True False gs(1) e Cons.prems(3) show ?thesis by (auto simp: bex_Un)
    next
      case ne: False
      have "(\<exists>g \<in> set gs. hits g a) \<Longrightarrow> hits r a" for a using gs(3) [of a] Cons.prems(3) by auto
      with Cons.IH [of gs] gs(2) Cons.prems obtain hs where hs: "carve r gs es = Some hs"
        "\<forall>g \<in> set hs. good g" "\<And>a. (\<exists>g \<in> set hs. hits g a) \<longleftrightarrow>
          (\<exists>f \<in> set gs. hits f a) \<and> (\<forall>e \<in> set es. hits e a \<longrightarrow> len e < len r)" by auto
      have "(\<exists>g \<in> set hs. hits g a) \<longleftrightarrow>
          (\<exists>f \<in> set fs. hits f a) \<and> (\<forall>x \<in> set (e # es). hits x a \<longrightarrow> len x < len r)" for a
        using hs(3) [of a] gs(3) [of a] e [of a] Cons.prems(3) [of a] by auto
      with False ne gs(1) hs(1,2) show ?thesis by auto
    qed
  qed
qed auto

end

interpretation ipp: prefix_algebra family prefix_len pfx_contains subtract matches wf_prefix
proof (unfold_locales, goal_cases)
  case (4 p e)
  then show ?case using subtract_correct by blast
next
  case (5 p e fs f)
  then have "subtracts p e fs" using subtract_correct by fastforce
  with 5 show ?case by (simp add: subtracts_def)
next
  case (6 p e fs a)
  then have "subtracts p e fs" using subtract_correct by fastforce
  then show ?case by (simp add: subtracts_def)
next
  case 1
  then show ?case by (rule common_address_nested)
next
  case 2
  then show ?case by (rule contains_matches)
next
  case 3
  then show ?case by (rule matches_family)
qed

end
