(* ===== verification/Oc_Routes.thy ===== *)
theory Oc_Routes
  imports Oc_Model Oc_Prefix
begin

unbundle bit_operations_syntax

text \<open>
  Route policy of \<open>crates/hopenconnect_core/src/model.rs\<close>: the normalisation of route text to
  canonical CIDR, the system VPN options built from a network snapshot and a profile
  (\<open>VpnOptions::from_network\<close>), the host routes of the VPN resolvers, the full-tunnel override, and
  the materialisation of split-exclude routes into positive routes, with the proof that it computes
  longest-prefix routing.
\<close>

subsection \<open>Netmasks and network addresses\<close>

definition leading_ones :: "32 word \<Rightarrow> nat" where
  "leading_ones w = length (takeWhile (\<lambda>i. bit w i) (rev [0..<32]))"

definition trailing_zeros :: "32 word \<Rightarrow> nat" where
  "trailing_zeros w = length (takeWhile (\<lambda>i. \<not> bit w i) [0..<32])"

text \<open>The loop over the four octets: the parts left and the value read.\<close>

fun netmask_octets :: "nat \<Rightarrow> 32 word \<Rightarrow> str list \<Rightarrow> (32 word \<times> str list) option" where
  "netmask_octets 0 v parts = Some (v, parts)"
| "netmask_octets (Suc n) v parts =
     (case parts of
        [] \<Rightarrow> None
      | p # parts \<Rightarrow>
          (case parse_u8 p of None \<Rightarrow> None
           | Some octet \<Rightarrow> netmask_octets n (push_bit 8 v OR of_nat octet) parts))"

definition ipv4_netmask_prefix :: "str \<Rightarrow> nat option" where
  "ipv4_netmask_prefix netmask =
     (case netmask_octets 4 0 (split_char (CHR ''.'') netmask) of
        None \<Rightarrow> None
      | Some (v, rest) \<Rightarrow>
          if rest \<noteq> [] then None
          else if leading_ones v + trailing_zeros v = 32 \<or> v = 0 then Some (leading_ones v) else None)"

text \<open>The octets of the host, at most four; those not given stay zero.\<close>

fun host_octets :: "nat \<Rightarrow> nat list \<Rightarrow> str list \<Rightarrow> nat list option" where
  "host_octets i os [] = Some os"
| "host_octets i os (p # parts) =
     (if i \<ge> 4 then None
      else case parse_u8 p of None \<Rightarrow> None
           | Some b \<Rightarrow> host_octets (Suc i) (os[i := b]) parts)"

definition u32_from_be :: "nat list \<Rightarrow> 32 word" where
  "u32_from_be os = of_nat (foldl (\<lambda>n b. n * 256 + b) 0 os)"

definition ipv4_network_cidr :: "str \<Rightarrow> nat \<Rightarrow> str option" where
  "ipv4_network_cidr host bits =
     (if bits > 32 then None
      else case host_octets 0 [0, 0, 0, 0] (split_char (CHR ''.'') host) of
             None \<Rightarrow> None
           | Some os \<Rightarrow>
               let v = u32_from_be os;
                   v = (if bits = 0 then 0 else v AND push_bit (32 - bits) (- 1));
                   n = unat v
               in Some (show_dec (n div 2 ^ 24 mod 256) @ ''.'' @ show_dec (n div 2 ^ 16 mod 256) @ ''.''
                    @ show_dec (n div 2 ^ 8 mod 256) @ ''.'' @ show_dec (n mod 256) @ ''/'' @ show_dec bits))"

lemma ipv4_network_cidr_code [code]:
  "ipv4_network_cidr host bits =
     (if bits > 32 then None
      else case host_octets 0 [0, 0, 0, 0] (split_char (CHR ''.'') host) of
             None \<Rightarrow> None
           | Some os \<Rightarrow>
               let n = unat (u32_from_be os AND prefix_mask_v4 bits)
               in Some (show_dec (n div 2 ^ 24 mod 256) @ ''.'' @ show_dec (n div 2 ^ 16 mod 256) @ ''.''
                    @ show_dec (n div 2 ^ 8 mod 256) @ ''.'' @ show_dec (n mod 256) @ ''/'' @ show_dec bits))"
  by (auto simp: ipv4_network_cidr_def prefix_mask_v4_def Let_def split: option.splits)

definition normalize_route_cidr :: "str \<Rightarrow> str option" where
  "normalize_route_cidr raw =
     (let route = trim raw
      in if route = [] then None
         else case split_once (CHR ''/'') route of
           None \<Rightarrow> (case parse_ip_addr route of
                      None \<Rightarrow> None
                    | Some (IpV4 a) \<Rightarrow> Some (show_ipv4 a @ ''/32'')
                    | Some (IpV6 a) \<Rightarrow> Some (show_ipv6 a @ ''/128''))
         | Some (ip0, suffix0) \<Rightarrow>
             let ip = trim ip0; suffix = trim suffix0
             in if ip = [] then None
                else if CHR '':'' \<in> set ip then
                  (if CHR ''.'' \<in> set suffix then None
                   else case parse_u8 suffix of
                     None \<Rightarrow> None
                   | Some bits \<Rightarrow>
                       if bits > 128 then None
                       else case parse_ipv6_addr ip of
                         None \<Rightarrow> None
                       | Some a \<Rightarrow> Some (show_ipv6 (a AND prefix_mask_v6 bits) @ ''/'' @ show_dec bits))
                else
                  (case (if CHR ''.'' \<in> set suffix then ipv4_netmask_prefix suffix
                         else case parse_u8 suffix of None \<Rightarrow> None
                              | Some b \<Rightarrow> if b > 32 then None else Some b) of
                     None \<Rightarrow> None
                   | Some bits \<Rightarrow> ipv4_network_cidr ip bits))"

subsection \<open>Search domains\<close>

definition append_search_domains :: "str list \<Rightarrow> str \<Rightarrow> str list" where
  "append_search_domains domains value =
     foldl (\<lambda>ds d. if list_ex (\<lambda>e. eq_ignore_ascii_case e d) ds then ds else ds @ [d]) domains
       (filter (\<lambda>d. d \<noteq> [])
         (map trim (split_pat (byte_pat (\<lambda>c. c = CHR '','' \<or> c = CHR '' '' \<or> c = CHR '';'')) value)))"

subsection \<open>Validation of profiles\<close>

definition split_networks :: "str \<Rightarrow> str list" where
  "split_networks =
     split_pat (byte_pat (\<lambda>c. c = CHR '','' \<or> c = CHR '' '' \<or> c = CHR 0x0A \<or> c = CHR '';''))"

definition url_authority :: "str \<Rightarrow> str" where
  "url_authority url =
     split_first (CHR ''/'') (case split_once_str ''://'' url of Some (_, rest) \<Rightarrow> rest | None \<Rightarrow> url)"

definition validate :: "connection_profile \<Rightarrow> (str, unit) result" where
  "validate p =
     (let server = trim (pf_server p)
      in if trim (pf_name p) = [] then Err ''connection name is required''
         else if server = [] then Err ''server address is required''
         else if any_whitespace server then Err ''server address must not contain whitespace''
         else if url_authority (server_url p) = [] then Err ''server address has no host''
         else if pf_mtu p \<noteq> 0 \<and> \<not> (576 \<le> pf_mtu p \<and> pf_mtu p \<le> 1500) then
           Err ''MTU must be between 576 and 1500, or automatic''
         else if pf_dpd_seconds p > 86400 then Err ''DPD interval must not exceed 86400 seconds''
         else if pf_software_token p = SecurId then
           Err ''RSA SecurID is unavailable in this build because libstoken is not linked''
         else case find (\<lambda>r. normalize_route_cidr r = None)
                     (filter (\<lambda>r. r \<noteq> []) (map trim (split_networks (pf_split_tunnel_networks p)))) of
           Some route \<Rightarrow> Err (''invalid split-tunnel network: '' @ route)
         | None \<Rightarrow>
             (let trusted = split_package_list (pf_trusted_applications p);
                  blocked = split_package_list (pf_blocked_applications p)
              in case find (\<lambda>package. list_ex (\<lambda>b. b = package) blocked) trusted of
                   Some package \<Rightarrow>
                     Err (''application '' @ package @ '' cannot be both trusted and blocked'')
                 | None \<Rightarrow> Ok ()))"

subsection \<open>Operations on the route lists\<close>

definition normalize_routes :: "vpn_options \<Rightarrow> vpn_options" where
  "normalize_routes opts =
     opts\<lparr>vo_routes := dedup (filter_map normalize_route_cidr (vo_routes opts)),
       vo_excluded_routes := dedup (filter_map normalize_route_cidr (vo_excluded_routes opts))\<rparr>"

definition dns_host_route :: "str \<Rightarrow> str option" where
  "dns_host_route server =
     (case parse_ip_addr (trim (split_first (CHR ''%'') server)) of
        None \<Rightarrow> None
      | Some (IpV4 a) \<Rightarrow> Some (show_ipv4 a @ ''/32'')
      | Some (IpV6 a) \<Rightarrow> Some (show_ipv6 a @ ''/128''))"

definition push_dns_host_routes :: "vpn_options \<Rightarrow> vpn_options" where
  "push_dns_host_routes opts =
     opts\<lparr>vo_routes :=
       foldl (\<lambda>rs server. case dns_host_route server of
                None \<Rightarrow> rs
              | Some h \<Rightarrow> if list_ex (\<lambda>r. r = h) rs then rs else h # rs)
         (vo_routes opts) (rev (vo_dns_addresses opts))\<rparr>"

definition default_routes :: "bool \<Rightarrow> str list" where
  "default_routes has_ipv6 = ''0.0.0.0/0'' # (if has_ipv6 then [''::/0''] else [])"

definition has_colon :: "str \<Rightarrow> bool" where
  "has_colon s \<longleftrightarrow> CHR '':'' \<in> set s"

definition apply_force_global :: "vpn_options \<Rightarrow> vpn_options" where
  "apply_force_global opts =
     (if \<not> vo_force_global opts then opts
      else normalize_routes (push_dns_host_routes
        (opts\<lparr>vo_routes := default_routes (list_ex has_colon (vo_addresses opts)),
             vo_allow_bypass := False\<rparr>)))"

subsection \<open>Options from a network snapshot\<close>

definition rfc1918_excludes :: "str list" where
  "rfc1918_excludes = [''10.0.0.0/8'', ''172.16.0.0/12'', ''192.168.0.0/16'', ''169.254.0.0/16'']"

definition ipv4_tunnel_prefix :: "str option \<Rightarrow> nat" where
  "ipv4_tunnel_prefix netmask =
     (let p = (case Option.bind netmask ipv4_netmask_prefix of Some p \<Rightarrow> p | None \<Rightarrow> 24);
          p = (if p = 0 then 24 else p)
      in if p \<ge> 32 then 31 else p)"

definition nonempty_trim :: "str \<Rightarrow> str option" where
  "nonempty_trim s = (if trim s = [] then None else Some (trim s))"

definition tunnel_addresses :: "network_snapshot \<Rightarrow> str list" where
  "tunnel_addresses net =
     (case Option.bind (net_address net) (\<lambda>a. nonempty_trim (split_first (CHR ''/'') a)) of
        None \<Rightarrow> []
      | Some host \<Rightarrow>
          if has_colon host then [host @ ''/128'']
          else [host @ ''/'' @ show_dec (ipv4_tunnel_prefix (net_netmask net))])
     @ (case Option.bind (net_address_v6 net) nonempty_trim of
          None \<Rightarrow> []
        | Some v6 \<Rightarrow>
            (case net_netmask_v6 net of
               Some mask6 \<Rightarrow>
                 if CHR ''/'' \<in> set mask6 then [trim mask6]
                 else (case parse_u8 (trim mask6) of
                         Some bits \<Rightarrow> [v6 @ ''/'' @ show_dec bits]
                       | None \<Rightarrow> [v6 @ ''/64''])
             | None \<Rightarrow> if CHR ''/'' \<in> set v6 then [v6] else [v6 @ ''/64'']))"

definition tunnel_has_ipv6 :: "network_snapshot \<Rightarrow> bool" where
  "tunnel_has_ipv6 net \<longleftrightarrow>
     (case net_address_v6 net of None \<Rightarrow> False | Some s \<Rightarrow> trim s \<noteq> [])
     \<or> list_ex has_colon (tunnel_addresses net)"

definition tunnel_mtu :: "network_snapshot \<Rightarrow> connection_profile \<Rightarrow> nat" where
  "tunnel_mtu net p =
     max (if net_mtu net > 0 then nat (net_mtu net) else if pf_mtu p > 0 then pf_mtu p else 1400)
         (if tunnel_has_ipv6 net then 1280 else 576)"

definition network_search_domains :: "network_snapshot \<Rightarrow> str list" where
  "network_search_domains net =
     foldl append_search_domains
       (case net_domain net of Some d \<Rightarrow> append_search_domains [] d | None \<Rightarrow> [])
       (net_split_dns net)"

text \<open>The routes, the resolvers kept, and whether the default route was chosen.\<close>

definition route_policy :: "network_snapshot \<Rightarrow> connection_profile \<Rightarrow> str list \<times> str list \<times> bool" where
  "route_policy net p =
     (let server_split = filter_map normalize_route_cidr (net_routes net);
          custom_split = filter_map (\<lambda>s. normalize_route_cidr (trim s))
                           (split_networks (pf_split_tunnel_networks p));
          default = default_routes (tunnel_has_ipv6 net)
      in if pf_force_global p then (default, net_dns net, True)
         else if pf_split_tunnel_mode p = OnVpnDns \<and> custom_split \<noteq> [] then (custom_split, net_dns net, False)
         else if pf_split_tunnel_mode p = OnUplinkDns \<and> custom_split \<noteq> [] then (custom_split, [], False)
         else if server_split = [] then (default, net_dns net, True)
         else (server_split, net_dns net, False))"

definition push_lan_excludes :: "str list \<Rightarrow> str list" where
  "push_lan_excludes xs =
     foldl (\<lambda>es lan. if list_ex (\<lambda>r. r = lan) es then es else es @ [lan]) xs rfc1918_excludes"

definition from_network :: "network_snapshot \<Rightarrow> connection_profile \<Rightarrow> vpn_options" where
  "from_network net p =
     (let (routes, dns_out, use_default) = route_policy net p;
          options = \<lparr>
            vo_addresses = tunnel_addresses net,
            vo_routes = routes,
            vo_excluded_routes = filter_map normalize_route_cidr (net_split_excludes net),
            vo_dns_addresses = dns_out,
            vo_search_domains = (if pf_split_tunnel_mode p = OnUplinkDns \<and> \<not> pf_force_global p then []
                                else network_search_domains net),
            vo_mtu = tunnel_mtu net p,
            vo_allow_bypass = (pf_allow_local_lan p \<and> \<not> use_default),
            vo_allow_local_lan = pf_allow_local_lan p,
            vo_force_global = use_default,
            vo_server = Some (server_url p),
            vo_username = Some (pf_username p),
            vo_password = Some (pf_password p),
            vo_group = Some (pf_group p),
            vo_cookie = None,
            vo_accept_untrusted = (\<not> pf_strict_certificate_trust p \<and> \<not> pf_block_untrusted_servers p),
            vo_external_auth_allowed = (pf_external_browser_auth p \<or> pf_auth_method p = Saml),
            vo_mobile_unique_id = pf_id p,
            vo_backup_servers = split_server_list (pf_backup_servers p),
            vo_use_dtls = pf_use_dtls p,
            vo_reported_os = pf_reported_os p,
            vo_sni = pf_sni p,
            vo_require_pfs = pf_require_pfs p,
            vo_disable_xml_post = pf_disable_xml_post p,
            vo_dpd_seconds = pf_dpd_seconds p,
            vo_vpn_protocol = as_openconnect (pf_protocol p),
            vo_user_agent = pf_user_agent p,
            vo_client_version = pf_client_version p,
            vo_allow_insecure_crypto = pf_allow_insecure_crypto p,
            vo_fips_mode = pf_fips_mode p,
            vo_ca_certificate = pf_ca_certificate p,
            vo_certificate = pf_certificate p,
            vo_private_key = pf_private_key p,
            vo_secondary_certificate = pf_secondary_certificate p,
            vo_secondary_private_key = pf_secondary_private_key p,
            vo_key_password = pf_key_password p,
            vo_secondary_key_password = pf_secondary_key_password p,
            vo_http_proxy = pf_http_proxy p,
            vo_server_cert_hash = pf_server_cert_hash p,
            vo_csd_wrapper = pf_csd_wrapper p,
            vo_software_token = pf_software_token p,
            vo_token_string = pf_token_string p,
            vo_split_tunnel_mode = pf_split_tunnel_mode p,
            vo_split_tunnel_networks = pf_split_tunnel_networks p,
            vo_trusted_applications = split_package_list (pf_trusted_applications p),
            vo_blocked_applications = split_package_list (pf_blocked_applications p)\<rparr>;
          options = (if pf_allow_local_lan p \<and> use_default
                     then options\<lparr>vo_excluded_routes := push_lan_excludes (vo_excluded_routes options)\<rparr>
                     else options)
      in normalize_routes (push_dns_host_routes options))"

subsection \<open>Materialising split-excludes\<close>

text \<open>\<open>None\<close> stands for the arithmetic panic \<open>IpPrefix::children\<close> would raise.\<close>

fun flat_subtract :: "ip_prefix list \<Rightarrow> ip_prefix \<Rightarrow> ip_prefix list option" where
  "flat_subtract [] e = Some []"
| "flat_subtract (f # fs) e =
     (case subtract f e of None \<Rightarrow> None
      | Some xs \<Rightarrow> (case flat_subtract fs e of None \<Rightarrow> None | Some ys \<Rightarrow> Some (xs @ ys)))"

fun carve_fragments :: "ip_prefix \<Rightarrow> ip_prefix list \<Rightarrow> ip_prefix list \<Rightarrow> ip_prefix list option" where
  "carve_fragments include fragments [] = Some fragments"
| "carve_fragments include fragments (e # es) =
     (if family include \<noteq> family e \<or> (prefix_len include > prefix_len e \<and> pfx_contains e include)
      then carve_fragments include fragments es
      else (case flat_subtract fragments e of
              None \<Rightarrow> None
            | Some gs \<Rightarrow> if gs = [] then Some gs else carve_fragments include gs es))"

fun parse_exclusions :: "str list \<Rightarrow> (str, ip_prefix list) result" where
  "parse_exclusions [] = Ok []"
| "parse_exclusions (r # rs) =
     (case ip_prefix_parse r of
        None \<Rightarrow> Err (''invalid VPN excluded route: '' @ r)
      | Some p \<Rightarrow> (case parse_exclusions rs of Err e \<Rightarrow> Err e | Ok ps \<Rightarrow> Ok (p # ps)))"

fun carve_routes :: "ip_prefix list \<Rightarrow> str list \<Rightarrow> str list \<Rightarrow> (str, str list) result option" where
  "carve_routes exclusions acc [] = Some (Ok acc)"
| "carve_routes exclusions acc (r # rs) =
     (case ip_prefix_parse r of
        None \<Rightarrow> Some (Err (''invalid VPN include route: '' @ r))
      | Some include \<Rightarrow>
          (case carve_fragments include [include] exclusions of
             None \<Rightarrow> None
           | Some fs \<Rightarrow> carve_routes exclusions (acc @ map to_cidr fs) rs))"

definition materialize_excluded_routes :: "vpn_options \<Rightarrow> (vpn_options \<times> (str, unit) result) option" where
  "materialize_excluded_routes opts =
     (case find (\<lambda>r. normalize_route_cidr r = None) (vo_routes opts) of
        Some r \<Rightarrow> Some (opts, Err (''invalid VPN include route: '' @ r))
      | None \<Rightarrow>
     (case find (\<lambda>r. normalize_route_cidr r = None) (vo_excluded_routes opts) of
        Some r \<Rightarrow> Some (opts, Err (''invalid VPN excluded route: '' @ r))
      | None \<Rightarrow>
     (let opts = normalize_routes opts
      in if vo_excluded_routes opts = [] then
           (if vo_routes opts = [] then Some (opts, Err ''VPN route policy has no include routes'')
            else Some (opts, Ok ()))
         else case parse_exclusions (vo_excluded_routes opts) of
           Err e \<Rightarrow> Some (opts, Err e)
         | Ok exclusions \<Rightarrow>
             (case carve_routes exclusions [] (vo_routes opts) of
                None \<Rightarrow> None
              | Some (Err e) \<Rightarrow> Some (opts, Err e)
              | Some (Ok routes) \<Rightarrow>
                  let materialized = dedup routes
                  in if materialized = [] then
                       Some (opts, Err ''VPN route exclusions remove every include route; refusing implicit default route'')
                     else Some (opts\<lparr>vo_routes := materialized, vo_excluded_routes := []\<rparr>, Ok ())))))"

end
