(* ===== verification/Oc_Route_Laws.thy ===== *)
theory Oc_Route_Laws
  imports Oc_Routes
begin

unbundle bit_operations_syntax

text \<open>
  Facts on route text: every text \<open>normalize_route_cidr\<close> accepts comes out as the canonical CIDR of
  a well-formed prefix, canonical CIDRs are its fixed points, and a dotted netmask is read as the
  length of a contiguous mask.
\<close>

subsection \<open>IPv4 networks\<close>

lemma dot_not_dec: "CHR ''.'' \<notin> set (show_dec n)"
  by (rule not_digit_not_in) simp_all

lemma unat_u32_bounds:
  fixes w :: "32 word"
  shows "unat w < 4294967296" "unat w div 16777216 < 256" "unat w div 2 ^ 24 mod 256 = unat w div 16777216"
proof -
  have "unat w < 2 ^ LENGTH(32)" by (rule unsigned_less)
  then show *: "unat w < 4294967296" by simp
  then show "unat w div 16777216 < 256" by simp
  with * show "unat w div 2 ^ 24 mod 256 = unat w div 16777216" by simp
qed

lemma split_show_ipv4:
  "split_char (CHR ''.'') (show_ipv4 w) =
     [show_dec (unat w div 16777216), show_dec (unat w div 65536 mod 256),
      show_dec (unat w div 256 mod 256), show_dec (unat w mod 256)]"
  by (simp add: show_ipv4_def Let_def split_char_append split_char_single dot_not_dec)

lemma host_octets_step:
  "i < 4 \<Longrightarrow> b < 256 \<Longrightarrow> host_octets i os (show_dec b # ps) = host_octets (Suc i) (os[i := b]) ps"
  by (simp add: parse_uint_show)

lemma host_octets_show:
  "host_octets 0 [0, 0, 0, 0] (split_char (CHR ''.'') (show_ipv4 w)) =
     Some [unat w div 16777216, unat w div 65536 mod 256, unat w div 256 mod 256, unat w mod 256]"
  by (simp add: split_show_ipv4 host_octets_step unat_u32_bounds(2) del: host_octets.simps(2))

lemma u32_from_be_show:
  "u32_from_be [unat w div 16777216, unat w div 65536 mod 256, unat w div 256 mod 256, unat w mod 256] = w"
  using of_octets_of [of w] by (simp add: u32_from_be_def of_octets_def)

lemma network_text:
  "show_dec (unat w div 2 ^ 24 mod 256) @ ''.'' @ show_dec (unat w div 2 ^ 16 mod 256) @ ''.''
     @ show_dec (unat w div 2 ^ 8 mod 256) @ ''.'' @ show_dec (unat w mod 256) @ ''/'' @ show_dec bits
   = to_cidr (V4 w bits)"
  unfolding unat_u32_bounds(3) by (simp add: show_ipv4_def Let_def)

lemma ipv4_network_cidr_eq:
  "ipv4_network_cidr host bits =
     (if bits > 32 then None
      else map_option (\<lambda>os. to_cidr (V4 (u32_from_be os AND prefix_mask_v4 bits) bits))
             (host_octets 0 [0, 0, 0, 0] (split_char (CHR ''.'') host)))"
  unfolding ipv4_network_cidr_def Let_def network_text
  by (auto simp: prefix_mask_v4_def simp del: to_cidr.simps split: option.splits)

lemma ipv4_network_cidr_Some:
  assumes "ipv4_network_cidr host bits = Some s"
  shows "\<exists>p. wf_prefix p \<and> family p = 4 \<and> prefix_len p = bits \<and> s = to_cidr p"
proof -
  from assms obtain os where "bits \<le> 32" "s = to_cidr (V4 (u32_from_be os AND prefix_mask_v4 bits) bits)"
    by (auto simp: ipv4_network_cidr_eq simp del: to_cidr.simps split: if_splits)
  then show ?thesis using wf_prefix_mask(1) [of bits "u32_from_be os"] by fastforce
qed

lemma ipv4_network_cidr_show:
  "wf_prefix (V4 n b) \<Longrightarrow> ipv4_network_cidr (show_ipv4 n) b = Some (to_cidr (V4 n b))"
  by (simp add: ipv4_network_cidr_eq host_octets_show u32_from_be_show del: to_cidr.simps)

subsection \<open>Normalised routes\<close>

text \<open>\<open>canonical s\<close>: the text is the CIDR of a well-formed prefix.\<close>

definition canonical :: "str \<Rightarrow> bool" where
  "canonical s \<longleftrightarrow> (\<exists>p. wf_prefix p \<and> s = to_cidr p)"

lemma full_prefix_canonical:
  "canonical (show_ipv4 a @ ''/32'')" "canonical (show_ipv6 b @ ''/128'')"
proof -
  have "show_dec 32 = ''32''" "show_dec 128 = ''128''"
    by code_simp+
  moreover have "wf_prefix (V4 a 32)" "wf_prefix (V6 b 128)"
    using net_mask_full [where 'a = 32] net_mask_full [where 'a = 128]
    by (simp_all add: prefix_masks)
  ultimately show "canonical (show_ipv4 a @ ''/32'')" "canonical (show_ipv6 b @ ''/128'')"
    unfolding canonical_def by (metis to_cidr.simps(1) append_Cons append_Nil, metis to_cidr.simps(2) append_Cons append_Nil)
qed

lemma masked_v6_canonical:
  "b \<le> 128 \<Longrightarrow> canonical (show_ipv6 (c AND prefix_mask_v6 b) @ ''/'' @ show_dec b)"
  unfolding canonical_def using wf_prefix_mask(2) [of b c] by (metis to_cidr.simps(2))

lemma ipv4_network_canonical: "ipv4_network_cidr host bits = Some s \<Longrightarrow> canonical s"
  using ipv4_network_cidr_Some canonical_def by blast

lemma normalize_canonical: "normalize_route_cidr r = Some s \<Longrightarrow> canonical s"
  unfolding normalize_route_cidr_def Let_def
  by (auto simp: full_prefix_canonical [simplified] masked_v6_canonical [simplified] not_less
      split: if_splits option.splits ip_addr.splits prod.splits
      dest!: ipv4_network_canonical)

lemma normalize_to_cidr:
  assumes "wf_prefix p"
  shows "normalize_route_cidr (to_cidr p) = Some (to_cidr p)"
proof (cases p)
  case (V4 n b)
  have t: "trim (show_ipv4 n) = show_ipv4 n" "trim (show_dec b) = show_dec b"
    by (simp_all add: trim_plain plain_show_ipv4 plain_show_radix)
  have "ipv4_network_cidr (show_ipv4 n) b = Some (to_cidr p)"
    using assms V4 ipv4_network_cidr_show [of n b] by simp
  moreover have "show_ipv4 n \<noteq> []" by (simp add: show_ipv4_def Let_def)
  ultimately show ?thesis
    unfolding normalize_route_cidr_def Let_def trim_to_cidr V4 split_to_cidr option.case prod.case t
    using assms V4 by (simp add: parse_uint_show dot_not_dec colon_not_ipv4)
next
  case (V6 n b)
  have t: "trim (show_ipv6 n) = show_ipv6 n" "trim (show_dec b) = show_dec b"
    by (simp_all add: trim_plain plain_show_ipv6 plain_show_radix)
  have "show_ipv6 n \<noteq> []" using colon_ipv6 [of n] by auto
  then show ?thesis
    unfolding normalize_route_cidr_def Let_def trim_to_cidr V6 split_to_cidr option.case prod.case t
    using assms V6 by (simp add: parse_uint_show dot_not_dec colon_ipv6)
qed

lemma normalize_fixed: "canonical s \<Longrightarrow> normalize_route_cidr s = Some s"
  by (auto simp: canonical_def normalize_to_cidr simp del: to_cidr.simps)

lemma canonical_iff: "canonical s \<longleftrightarrow> normalize_route_cidr s = Some s"
  using normalize_fixed normalize_canonical by blast

lemma canonical_parse: "canonical s \<Longrightarrow> \<exists>p. wf_prefix p \<and> ip_prefix_parse s = Some p \<and> to_cidr p = s"
  by (auto simp: canonical_def ip_prefix_parse_to_cidr simp del: to_cidr.simps)

subsection \<open>Netmasks\<close>

lemma takeWhile_upt_length:
  assumes "k \<le> n" "\<And>i. i < k \<Longrightarrow> P i" "k < n \<Longrightarrow> \<not> P k"
  shows "length (takeWhile P [0..<n]) = k"
proof -
  have "[0..<n] = [0..<k] @ [k..<n]" using assms(1) by (metis le_add_diff_inverse upt_add_eq_append zero_le)
  moreover have "takeWhile P [k..<n] = []" using assms(3) by (cases "k < n") (auto simp: upt_conv_Cons)
  moreover have "takeWhile P ([0..<k] @ [k..<n]) = [0..<k] @ takeWhile P [k..<n]"
    using assms(2) by (intro takeWhile_append2) auto
  ultimately show ?thesis by simp
qed

lemma takeWhile_upt_all:
  "i < length (takeWhile P [0..<n]) \<Longrightarrow> P i" "length (takeWhile P [0..<n]) \<le> n"
proof -
  show "length (takeWhile P [0..<n]) \<le> n" using length_takeWhile_le [of P "[0..<n]"] by simp
  assume i: "i < length (takeWhile P [0..<n])"
  then have "takeWhile P [0..<n] ! i = i"
    using length_takeWhile_le [of P "[0..<n]"] by (simp add: takeWhile_nth)
  with i show "P i" by (metis nth_mem set_takeWhileD)
qed

lemma leading_ones_upt: "leading_ones w = length (takeWhile (\<lambda>i. bit w (31 - i)) [0..<32])"
proof -
  have "rev [0..<32] = map (\<lambda>i. 31 - i) [0..<32::nat]" by code_simp
  then show ?thesis by (simp add: leading_ones_def takeWhile_map comp_def)
qed

lemma leading_ones_mask: "k \<le> 32 \<Longrightarrow> leading_ones (prefix_mask_v4 k) = k"
  unfolding leading_ones_upt by (rule takeWhile_upt_length) (auto simp: prefix_masks bit_net_mask)

lemma trailing_zeros_mask: "k \<le> 32 \<Longrightarrow> trailing_zeros (prefix_mask_v4 k) = 32 - k"
  unfolding trailing_zeros_def by (rule takeWhile_upt_length) (auto simp: prefix_masks bit_net_mask)

lemma leading_ones_le: "leading_ones w \<le> 32"
  unfolding leading_ones_upt by (rule takeWhile_upt_all)

lemma contiguous_mask:
  "leading_ones v + trailing_zeros v = 32 \<or> v = 0 \<longleftrightarrow> v = prefix_mask_v4 (leading_ones v)"
    (is "?l \<longleftrightarrow> ?r")
proof
  assume ?l
  then show ?r
  proof
    assume s: "leading_ones v + trailing_zeros v = 32"
    have hi: "bit v (31 - i)" if "i < leading_ones v" for i
      using that unfolding leading_ones_upt by (rule takeWhile_upt_all)
    have lo: "\<not> bit v i" if "i < trailing_zeros v" for i
      using that unfolding trailing_zeros_def by (rule takeWhile_upt_all)
    show ?r
    proof (rule bit_word_eqI)
      fix n assume n: "n < LENGTH(32)"
      then show "bit v n \<longleftrightarrow> bit (prefix_mask_v4 (leading_ones v)) n"
        using hi [of "31 - n"] lo [of n] s leading_ones_le [of v]
        by (cases "n < trailing_zeros v") (auto simp: prefix_masks bit_net_mask)
    qed
  next
    assume "v = 0"
    moreover have "leading_ones 0 = 0" unfolding leading_ones_upt by (rule takeWhile_upt_length) auto
    ultimately show ?r by (simp add: prefix_masks)
  qed
next
  assume r: ?r
  have "trailing_zeros v = 32 - leading_ones v"
    using trailing_zeros_mask [OF leading_ones_le [of v]] r by simp
  then show ?l using leading_ones_le [of v] by simp
qed

lemma octet_shift:
  "b < 256 \<Longrightarrow> push_bit 8 v OR of_nat b = (v * 256 + of_nat b :: 32 word)"
proof -
  assume b: "b < 256"
  have "push_bit 8 v AND of_nat b = (0 :: 32 word)"
  proof (rule bit_word_eqI)
    fix n assume "n < LENGTH(32)"
    have "\<not> bit b n" if "8 \<le> n"
    proof -
      have "b < 2 ^ n" using b power_increasing [OF that, of "2 :: nat"] by simp
      then show ?thesis by (simp add: bit_iff_odd)
    qed
    then show "bit (push_bit 8 v AND of_nat b :: 32 word) n \<longleftrightarrow> bit (0 :: 32 word) n"
      by (auto simp: bit_and_iff bit_push_bit_iff bit_of_nat_iff)
  qed
  then have "push_bit 8 v OR of_nat b = (push_bit 8 v + of_nat b :: 32 word)"
    by (simp add: disjunctive_add_eq_or)
  then show ?thesis by (simp add: push_bit_eq_mult)
qed

lemma netmask_octets_step:
  "b < 256 \<Longrightarrow> netmask_octets (Suc n) v (show_dec b # ps) = netmask_octets n (v * 256 + of_nat b) ps"
  by (simp add: parse_uint_show octet_shift)

lemma netmask_octets_show:
  "netmask_octets 4 0 (split_char (CHR ''.'') (show_ipv4 w)) = Some (w, [])"
proof -
  have 4: "(4 :: nat) = Suc (Suc (Suc (Suc 0)))" by simp
  have w: "w = of_nat ((((unat w div 16777216) * 256 + unat w div 65536 mod 256) * 256
      + unat w div 256 mod 256) * 256 + unat w mod 256)"
    unfolding octets_nat by simp
  have "((of_nat (unat w div 16777216) * 256 + of_nat (unat w div 65536 mod 256)) * 256
      + of_nat (unat w div 256 mod 256)) * 256 + of_nat (unat w mod 256) = w"
    by (subst (5) w) (simp only: of_nat_add of_nat_mult of_nat_numeral)
  then show ?thesis
    unfolding 4 split_show_ipv4
    by (simp add: netmask_octets_step unat_u32_bounds(2) del: netmask_octets.simps(2))
qed

lemma netmask_text_prefix: "ipv4_netmask_prefix (show_ipv4 w) = Some k \<longleftrightarrow> k \<le> 32 \<and> w = prefix_mask_v4 k"
  using contiguous_mask [of w] leading_ones_le [of w] leading_ones_mask [of k]
  by (auto simp: ipv4_netmask_prefix_def netmask_octets_show)

end
