(* ===== verification/Oc_Route_Policy.thy ===== *)
theory Oc_Route_Policy
  imports Oc_Route_Laws
begin

unbundle bit_operations_syntax

text \<open>
  What the route policy of \<open>VpnOptions\<close> guarantees. The specification is longest-prefix routing on
  route text: \<open>tunnels routes excludes a\<close> says that address \<open>a\<close> is sent through the tunnel, because
  some include covers it and is longer than every exclude that covers it.
\<close>

subsection \<open>Longest-prefix routing\<close>

definition route_prefix :: "str \<Rightarrow> ip_prefix option" where
  "route_prefix r = Option.bind (normalize_route_cidr r) ip_prefix_parse"

definition covers :: "str \<Rightarrow> ip_addr \<Rightarrow> bool" where
  "covers r a \<longleftrightarrow> (case route_prefix r of None \<Rightarrow> False | Some p \<Rightarrow> matches p a)"

definition route_len :: "str \<Rightarrow> nat" where
  "route_len r = (case route_prefix r of None \<Rightarrow> 0 | Some p \<Rightarrow> prefix_len p)"

definition tunnels :: "str list \<Rightarrow> str list \<Rightarrow> ip_addr \<Rightarrow> bool" where
  "tunnels routes excludes a \<longleftrightarrow>
     (\<exists>r \<in> set routes. covers r a \<and> (\<forall>e \<in> set excludes. covers e a \<longrightarrow> route_len e < route_len r))"

lemma route_prefix_normalized:
  "normalize_route_cidr r = Some s \<Longrightarrow> route_prefix s = route_prefix r"
  using normalize_fixed [OF normalize_canonical] by (simp add: route_prefix_def)

lemma covers_normalized: "normalize_route_cidr r = Some s \<Longrightarrow> covers s a \<longleftrightarrow> covers r a"
  by (simp add: covers_def route_prefix_normalized)

lemma route_len_normalized: "normalize_route_cidr r = Some s \<Longrightarrow> route_len s = route_len r"
  by (simp add: route_len_def route_prefix_normalized)

lemma covers_valid: "covers r a \<Longrightarrow> \<exists>s. normalize_route_cidr r = Some s"
  by (cases "normalize_route_cidr r") (auto simp: covers_def route_prefix_def)

lemma route_prefix_to_cidr: "wf_prefix p \<Longrightarrow> route_prefix (to_cidr p) = Some p"
  by (simp add: route_prefix_def normalize_to_cidr ip_prefix_parse_to_cidr del: to_cidr.simps)

lemma covers_to_cidr: "wf_prefix p \<Longrightarrow> covers (to_cidr p) a \<longleftrightarrow> matches p a"
  by (simp add: covers_def route_prefix_to_cidr del: to_cidr.simps)

lemma route_prefix_valid: "normalize_route_cidr r = Some s \<Longrightarrow> \<exists>p. wf_prefix p \<and> route_prefix r = Some p"
  using normalize_canonical [of r s] route_prefix_normalized [of r s]
  by (auto simp: canonical_def route_prefix_to_cidr simp del: to_cidr.simps)

lemma prefix_matches_own: "wf_prefix p \<Longrightarrow> \<exists>a. matches p a"
proof (cases p)
  case (V4 n b)
  moreover assume "wf_prefix p"
  ultimately have "matches p (IpV4 n)" by simp
  then show ?thesis by blast
next
  case (V6 n b)
  moreover assume "wf_prefix p"
  ultimately have "matches p (IpV6 n)" by simp
  then show ?thesis by blast
qed

lemma tunnels_normalized:
  "tunnels (dedup (filter_map normalize_route_cidr rs)) (dedup (filter_map normalize_route_cidr es)) a
     \<longleftrightarrow> tunnels rs es a"
proof -
  have inc: "(\<exists>s \<in> set (filter_map normalize_route_cidr rs). covers s a \<and> P (route_len s))
      \<longleftrightarrow> (\<exists>r \<in> set rs. covers r a \<and> P (route_len r))" for P rs
    using covers_valid by (auto simp: set_filter_map covers_normalized route_len_normalized) (metis covers_normalized route_len_normalized)
  have exc: "(\<forall>s \<in> set (filter_map normalize_route_cidr es). covers s a \<longrightarrow> route_len s < n)
      \<longleftrightarrow> (\<forall>e \<in> set es. covers e a \<longrightarrow> route_len e < n)" for n
    using inc [of es "\<lambda>l. \<not> l < n"] by blast
  show ?thesis
    unfolding tunnels_def set_dedup exc
    by (rule inc [of rs "\<lambda>l. \<forall>e \<in> set es. covers e a \<longrightarrow> route_len e < l"])
qed

lemma tunnels_Nil: "tunnels rs [] a \<longleftrightarrow> (\<exists>r \<in> set rs. covers r a)"
  by (simp add: tunnels_def)

lemma tunnels_normalize_routes:
  "tunnels (vo_routes (normalize_routes opts)) (vo_excluded_routes (normalize_routes opts)) a
     \<longleftrightarrow> tunnels (vo_routes opts) (vo_excluded_routes opts) a"
  by (simp add: normalize_routes_def tunnels_normalized)

lemma normalize_routes_canonical:
  "r \<in> set (vo_routes (normalize_routes opts)) \<Longrightarrow> canonical r"
  "r \<in> set (vo_excluded_routes (normalize_routes opts)) \<Longrightarrow> canonical r"
  by (auto simp: normalize_routes_def set_filter_map normalize_canonical)

subsection \<open>Carving\<close>

lemma flat_subtract_ipp: "flat_subtract fs e = ipp.sub_all fs e"
  by (induction fs e rule: flat_subtract.induct) (auto split: option.splits)

lemma carve_fragments_ipp: "carve_fragments r fs es = ipp.carve r fs es"
  by (induction r fs es rule: carve_fragments.induct)
    (auto simp: ipp.overrides_def flat_subtract_ipp split: option.splits)

lemma carve_fragments_sound:
  assumes "wf_prefix p" "\<forall>e \<in> set es. wf_prefix e"
  shows "\<exists>fs. carve_fragments p [p] es = Some fs \<and> (\<forall>f \<in> set fs. wf_prefix f) \<and>
     (\<forall>a. (\<exists>f \<in> set fs. matches f a) \<longleftrightarrow>
        matches p a \<and> (\<forall>e \<in> set es. matches e a \<longrightarrow> prefix_len e < prefix_len p))"
  using ipp.carve_sound [of p "[p]" es] assms by (simp add: carve_fragments_ipp)

lemma parse_exclusions_sound:
  assumes "\<forall>r \<in> set rs. canonical r"
  shows "\<exists>ps. parse_exclusions rs = Ok ps \<and> (\<forall>p \<in> set ps. wf_prefix p) \<and>
    (\<forall>a n. (\<forall>p \<in> set ps. matches p a \<longrightarrow> prefix_len p < n) \<longleftrightarrow>
           (\<forall>r \<in> set rs. covers r a \<longrightarrow> route_len r < n))"
  using assms
proof (induction rs)
  case (Cons r rs)
  then obtain p where p: "wf_prefix p" "ip_prefix_parse r = Some p" "to_cidr p = r"
    using canonical_parse by (metis list.set_intros(1))
  from Cons obtain ps where "parse_exclusions rs = Ok ps" "\<forall>p \<in> set ps. wf_prefix p"
    "\<And>a n. (\<forall>p \<in> set ps. matches p a \<longrightarrow> prefix_len p < n) \<longleftrightarrow>
           (\<forall>r \<in> set rs. covers r a \<longrightarrow> route_len r < n)" by auto
  moreover have "covers r a \<longleftrightarrow> matches p a" "route_len r = prefix_len p" for a
    using p covers_to_cidr route_prefix_to_cidr [of p] by (auto simp: route_len_def)
  ultimately show ?case using p by auto
qed auto

lemma carve_routes_sound:
  assumes "\<forall>r \<in> set rs. canonical r" "\<forall>e \<in> set es. wf_prefix e" "\<forall>r \<in> set acc. canonical r"
  shows "\<exists>out. carve_routes es acc rs = Some (Ok out) \<and> (\<forall>r \<in> set out. canonical r) \<and>
     (\<forall>a. (\<exists>r \<in> set out. covers r a) \<longleftrightarrow> (\<exists>r \<in> set acc. covers r a) \<or>
        (\<exists>r \<in> set rs. covers r a \<and> (\<forall>e \<in> set es. matches e a \<longrightarrow> prefix_len e < route_len r)))"
  using assms(1,3)
proof (induction rs arbitrary: acc)
  case (Cons r rs)
  then obtain p where p: "wf_prefix p" "ip_prefix_parse r = Some p" "to_cidr p = r"
    using canonical_parse by (metis list.set_intros(1))
  obtain fs where fs: "carve_fragments p [p] es = Some fs" "\<forall>f \<in> set fs. wf_prefix f"
    "\<And>a. (\<exists>f \<in> set fs. matches f a) \<longleftrightarrow>
        matches p a \<and> (\<forall>e \<in> set es. matches e a \<longrightarrow> prefix_len e < prefix_len p)"
    using carve_fragments_sound [OF p(1) assms(2)] by auto
  have r: "covers r a \<longleftrightarrow> matches p a" "route_len r = prefix_len p" for a
    using p covers_to_cidr route_prefix_to_cidr [of p] by (auto simp: route_len_def)
  have new: "(\<exists>s \<in> set (map to_cidr fs). covers s a) \<longleftrightarrow> (\<exists>f \<in> set fs. matches f a)" for a
    using fs(2) by (auto simp: covers_to_cidr simp del: to_cidr.simps)
  have can: "\<forall>s \<in> set (acc @ map to_cidr fs). canonical s"
    using fs(2) Cons.prems(2) by (auto simp: canonical_def)
  obtain out where out: "carve_routes es (acc @ map to_cidr fs) rs = Some (Ok out)" "\<forall>r \<in> set out. canonical r"
    "\<And>a. (\<exists>r \<in> set out. covers r a) \<longleftrightarrow> (\<exists>r \<in> set (acc @ map to_cidr fs). covers r a) \<or>
        (\<exists>r \<in> set rs. covers r a \<and> (\<forall>e \<in> set es. matches e a \<longrightarrow> prefix_len e < route_len r))"
    using Cons.IH [OF _ can] Cons.prems(1) by auto
  have "(\<exists>r \<in> set out. covers r a) \<longleftrightarrow> (\<exists>r \<in> set acc. covers r a) \<or>
        (\<exists>r \<in> set (r # rs). covers r a \<and> (\<forall>e \<in> set es. matches e a \<longrightarrow> prefix_len e < route_len r))" for a
    unfolding out(3) set_append bex_Un new fs(3) by (auto simp: r)
  with p fs(1) out(1,2) show ?case by auto
qed auto

text \<open>Everything about a call whose routes are all valid.\<close>

lemma materialize_valid:
  assumes "\<forall>r \<in> set (vo_routes opts). normalize_route_cidr r \<noteq> None"
    "\<forall>r \<in> set (vo_excluded_routes opts). normalize_route_cidr r \<noteq> None"
  shows "\<exists>opts' res. materialize_excluded_routes opts = Some (opts', res) \<and>
     ((\<exists>e. res = Err e) \<and> (\<forall>a. \<not> tunnels (vo_routes opts) (vo_excluded_routes opts) a)
      \<or> res = Ok () \<and> vo_routes opts' \<noteq> [] \<and> vo_excluded_routes opts' = [] \<and> distinct (vo_routes opts')
        \<and> (\<forall>r \<in> set (vo_routes opts'). canonical r)
        \<and> (\<forall>a. tunnels (vo_routes opts') [] a \<longleftrightarrow> tunnels (vo_routes opts) (vo_excluded_routes opts) a))"
proof -
  let ?n = "normalize_routes opts"
  have find: "find (\<lambda>r. normalize_route_cidr r = None) (vo_routes opts) = None"
    "find (\<lambda>r. normalize_route_cidr r = None) (vo_excluded_routes opts) = None"
    using assms by (simp_all add: find_None_iff)
  note t = tunnels_normalize_routes [of opts, symmetric]
  have dis: "distinct (vo_routes ?n)" by (simp add: normalize_routes_def)
  show ?thesis
  proof (cases "vo_excluded_routes ?n = []")
    case True
    have t0: "tunnels (vo_routes opts) (vo_excluded_routes opts) a \<longleftrightarrow> (\<exists>r \<in> set (vo_routes ?n). covers r a)" for a
      unfolding t True by (rule tunnels_Nil)
    show ?thesis
      using True find dis normalize_routes_canonical(1)
      by (cases "vo_routes ?n = []")
        (simp_all add: materialize_excluded_routes_def t0 tunnels_Nil)
  next
    case ne: False
    from parse_exclusions_sound [OF ballI, OF normalize_routes_canonical(2) [of _ opts]]
    obtain ps where ps: "parse_exclusions (vo_excluded_routes ?n) = Ok ps" "\<forall>p \<in> set ps. wf_prefix p"
      "\<And>a n. (\<forall>p \<in> set ps. matches p a \<longrightarrow> prefix_len p < n) \<longleftrightarrow>
           (\<forall>r \<in> set (vo_excluded_routes ?n). covers r a \<longrightarrow> route_len r < n)"
      by blast
    obtain out where out: "carve_routes ps [] (vo_routes ?n) = Some (Ok out)" "\<forall>r \<in> set out. canonical r"
      "\<And>a. (\<exists>r \<in> set out. covers r a) \<longleftrightarrow>
        (\<exists>r \<in> set (vo_routes ?n). covers r a \<and> (\<forall>e \<in> set ps. matches e a \<longrightarrow> prefix_len e < route_len r))"
      using carve_routes_sound [of "vo_routes ?n" ps "[]"] ps(2) normalize_routes_canonical(1) by auto
    have sem: "tunnels out [] a \<longleftrightarrow> tunnels (vo_routes opts) (vo_excluded_routes opts) a" for a
      unfolding t using out(3) [of a] ps(3) [of a] by (simp add: tunnels_def)
    show ?thesis
    proof (cases "out = []")
      case True
      then have "\<not> tunnels (vo_routes opts) (vo_excluded_routes opts) a" for a
        using sem [of a] by (simp add: tunnels_def)
      with True ne ps(1) out(1) find show ?thesis by (simp add: materialize_excluded_routes_def)
    next
      case False
      with ne ps(1) out(1,2) find sem show ?thesis
        by (simp add: materialize_excluded_routes_def Let_def tunnels_def)
    qed
  qed
qed

lemma canonical_covers: "canonical r \<Longrightarrow> \<exists>a. covers r a"
  using prefix_matches_own covers_to_cidr by (auto simp: canonical_def simp del: to_cidr.simps)

lemma materialize_invalid:
  assumes "\<not> (\<forall>r \<in> set (vo_routes opts @ vo_excluded_routes opts). normalize_route_cidr r \<noteq> None)"
  shows "\<exists>e. materialize_excluded_routes opts = Some (opts, Err e)"
  using assms find_None_iff [of "\<lambda>r. normalize_route_cidr r = None" "vo_routes opts"]
    find_None_iff [of "\<lambda>r. normalize_route_cidr r = None" "vo_excluded_routes opts"]
  by (auto simp: materialize_excluded_routes_def split: option.splits)

subsection \<open>The properties\<close>

text \<open>C0: when \<open>materialize_excluded_routes\<close> succeeds, the positive routes it leaves send exactly
  those addresses through the tunnel that longest-prefix routing over the includes and the excludes
  sends there; no exclude is left, the routes are canonical, without duplicates, and there is at
  least one, so the platform never falls back to a default route.\<close>

theorem materialize_is_longest_prefix:
  assumes "materialize_excluded_routes opts = Some (opts', Ok ())"
  shows "(\<forall>a. tunnels (vo_routes opts') [] a \<longleftrightarrow> tunnels (vo_routes opts) (vo_excluded_routes opts) a)
     \<and> vo_excluded_routes opts' = [] \<and> vo_routes opts' \<noteq> [] \<and> distinct (vo_routes opts')
     \<and> (\<forall>r \<in> set (vo_routes opts'). normalize_route_cidr r = Some r)"
proof (cases "\<forall>r \<in> set (vo_routes opts @ vo_excluded_routes opts). normalize_route_cidr r \<noteq> None")
  case True
  then show ?thesis using materialize_valid [of opts] assms by (auto simp: canonical_iff)
next
  case False
  then show ?thesis using materialize_invalid [of opts] assms by auto
qed

text \<open>C0: \<open>materialize_excluded_routes\<close> always returns (splitting a prefix never shifts out of
  range), and it succeeds exactly when every include and every exclude is a valid route and at least
  one address is still sent through the tunnel.\<close>

theorem materialize_total:
  "\<exists>opts' res. materialize_excluded_routes opts = Some (opts', res) \<and>
     (res = Ok () \<longleftrightarrow>
        list_all (\<lambda>r. normalize_route_cidr r \<noteq> None) (vo_routes opts @ vo_excluded_routes opts)
        \<and> (\<exists>a. tunnels (vo_routes opts) (vo_excluded_routes opts) a))"
proof (cases "list_all (\<lambda>r. normalize_route_cidr r \<noteq> None) (vo_routes opts @ vo_excluded_routes opts)")
  case True
  then have "\<forall>r \<in> set (vo_routes opts). normalize_route_cidr r \<noteq> None"
    "\<forall>r \<in> set (vo_excluded_routes opts). normalize_route_cidr r \<noteq> None"
    by (auto simp: list_all_iff)
  from materialize_valid [OF this] obtain opts' res
    where m: "materialize_excluded_routes opts = Some (opts', res)"
    and c: "(\<exists>e. res = Err e) \<and> (\<forall>a. \<not> tunnels (vo_routes opts) (vo_excluded_routes opts) a)
      \<or> res = Ok () \<and> vo_routes opts' \<noteq> [] \<and> (\<forall>r \<in> set (vo_routes opts'). canonical r)
        \<and> (\<forall>a. tunnels (vo_routes opts') [] a \<longleftrightarrow> tunnels (vo_routes opts) (vo_excluded_routes opts) a)"
    by blast
  have "res = Ok () \<longleftrightarrow> (\<exists>a. tunnels (vo_routes opts) (vo_excluded_routes opts) a)"
    using c
  proof
    assume ok: "res = Ok () \<and> vo_routes opts' \<noteq> [] \<and> (\<forall>r \<in> set (vo_routes opts'). canonical r)
        \<and> (\<forall>a. tunnels (vo_routes opts') [] a \<longleftrightarrow> tunnels (vo_routes opts) (vo_excluded_routes opts) a)"
    then obtain a where "covers (hd (vo_routes opts')) a" using canonical_covers hd_in_set by blast
    then have "tunnels (vo_routes opts') [] a" using ok hd_in_set by (auto simp: tunnels_def)
    with ok show ?thesis by auto
  qed auto
  with m True show ?thesis by simp
next
  case False
  then obtain e where "materialize_excluded_routes opts = Some (opts, Err e)"
    using materialize_invalid [of opts] by (auto simp: list_all_iff)
  with False show ?thesis by auto
qed

end
