(* ===== verification/Oc_Vpn_Options.thy ===== *)
theory Oc_Vpn_Options
  imports Oc_Route_Policy
begin

unbundle bit_operations_syntax

text \<open>
  What the options built by \<open>VpnOptions::from_network\<close> guarantee: the shape of the route lists, the
  MTU and the search domains, the host routes of the resolvers, and which addresses a full tunnel, a
  LAN bypass and a custom split send through the tunnel.
\<close>

subsection \<open>Default and host routes\<close>

lemma default_cidrs:
  "to_cidr (V4 0 0) = ''0.0.0.0/0''" "to_cidr (V6 0 0) = ''::/0''"
  by code_simp+

lemma lan_cidrs:
  "to_cidr (V4 0x0A000000 8) = ''10.0.0.0/8''" "to_cidr (V4 0xAC100000 12) = ''172.16.0.0/12''"
  "to_cidr (V4 0xC0A80000 16) = ''192.168.0.0/16''" "to_cidr (V4 0xA9FE0000 16) = ''169.254.0.0/16''"
  by code_simp+

lemma default_routes_canonical: "r \<in> set (default_routes b) \<Longrightarrow> canonical r"
  unfolding canonical_iff by (auto simp: default_routes_def split: if_splits) (code_simp+)

lemma lan_canonical: "r \<in> set rfc1918_excludes \<Longrightarrow> canonical r"
  unfolding canonical_iff by (auto simp: rfc1918_excludes_def) (code_simp+)

text \<open>The address of a resolver, and its host route as a prefix.\<close>

definition resolver_addr :: "str \<Rightarrow> ip_addr option" where
  "resolver_addr server = parse_ip_addr (trim (split_first (CHR ''%'') server))"

fun host_prefix :: "ip_addr \<Rightarrow> ip_prefix" where
  "host_prefix (IpV4 a) = V4 a 32"
| "host_prefix (IpV6 a) = V6 a 128"

lemma host_prefix_wf: "wf_prefix (host_prefix a)"
  using net_mask_full [where 'a = 32] net_mask_full [where 'a = 128]
  by (cases a) (simp_all add: prefix_masks)

lemma matches_host_prefix: "matches (host_prefix a) b \<longleftrightarrow> a = b"
  using net_mask_full [where 'a = 32] net_mask_full [where 'a = 128]
  by (cases a; cases b) (auto simp: prefix_masks)

lemma dns_host_route_eq: "dns_host_route server = map_option (\<lambda>a. to_cidr (host_prefix a)) (resolver_addr server)"
proof -
  have "show_dec 32 = ''32''" "show_dec 128 = ''128''" by code_simp+
  then show ?thesis
    by (auto simp: dns_host_route_def resolver_addr_def split: option.splits ip_addr.splits)
qed

lemma set_push_dns:
  "set (vo_routes (push_dns_host_routes opts)) =
     set (vo_routes opts) \<union> {to_cidr (host_prefix a) | a d. d \<in> set (vo_dns_addresses opts) \<and> resolver_addr d = Some a}"
proof -
  have "set (foldl (\<lambda>rs server. case dns_host_route server of None \<Rightarrow> rs
            | Some h \<Rightarrow> if list_ex (\<lambda>r. r = h) rs then rs else h # rs) rs ds)
      = set rs \<union> {to_cidr (host_prefix a) | a d. d \<in> set ds \<and> resolver_addr d = Some a}" for rs ds
    by (induction ds arbitrary: rs)
      (auto simp: dns_host_route_eq list_ex_iff split: option.splits)
  then show ?thesis by (simp add: push_dns_host_routes_def)
qed

lemma push_dns_host_routes_other [simp]:
  "vo_excluded_routes (push_dns_host_routes opts) = vo_excluded_routes opts"
  "vo_dns_addresses (push_dns_host_routes opts) = vo_dns_addresses opts"
  "vo_addresses (push_dns_host_routes opts) = vo_addresses opts"
  "vo_force_global (push_dns_host_routes opts) = vo_force_global opts"
  "vo_mtu (push_dns_host_routes opts) = vo_mtu opts"
  by (simp_all add: push_dns_host_routes_def)

lemma normalize_routes_other [simp]:
  "vo_dns_addresses (normalize_routes opts) = vo_dns_addresses opts"
  "vo_addresses (normalize_routes opts) = vo_addresses opts"
  "vo_force_global (normalize_routes opts) = vo_force_global opts"
  "vo_mtu (normalize_routes opts) = vo_mtu opts"
  by (simp_all add: normalize_routes_def)

lemma filter_map_canonical: "\<forall>r \<in> set rs. canonical r \<Longrightarrow> filter_map normalize_route_cidr rs = rs"
  by (rule filter_map_id) (simp add: canonical_iff)

lemma normalize_routes_id:
  assumes "\<forall>r \<in> set (vo_routes opts @ vo_excluded_routes opts). canonical r"
  shows "vo_routes (normalize_routes opts) = dedup (vo_routes opts)"
    "vo_excluded_routes (normalize_routes opts) = dedup (vo_excluded_routes opts)"
  using assms by (simp_all add: normalize_routes_def filter_map_canonical)

lemma filter_map_normalize_canonical: "r \<in> set (filter_map normalize_route_cidr rs) \<Longrightarrow> canonical r"
  by (auto simp: set_filter_map normalize_canonical)

lemma host_route_canonical: "canonical (to_cidr (host_prefix a))"
  using host_prefix_wf by (auto simp: canonical_def)

subsection \<open>The fields of the options\<close>

lemma set_push_lan: "set (push_lan_excludes xs) = set xs \<union> set rfc1918_excludes"
proof -
  have "set (foldl (\<lambda>es lan. if list_ex (\<lambda>r. r = lan) es then es else es @ [lan]) xs ls) = set xs \<union> set ls" for ls
    by (induction ls arbitrary: xs) (auto simp: list_ex_iff)
  then show ?thesis by (simp add: push_lan_excludes_def)
qed

lemma route_policy_canonical:
  assumes "route_policy net p = (rs, ds, d)"
  shows "rs \<noteq> []" "r \<in> set rs \<Longrightarrow> canonical r" "d \<Longrightarrow> rs = default_routes (tunnel_has_ipv6 net)"
  using assms default_routes_canonical filter_map_normalize_canonical
  by (auto simp: route_policy_def Let_def default_routes_def set_filter_map normalize_canonical split: if_splits)

lemma from_network_eq:
  assumes "route_policy net p = (rs, ds, d)"
  shows "set (vo_routes (from_network net p)) =
      set rs \<union> {to_cidr (host_prefix a) | a s. s \<in> set ds \<and> resolver_addr s = Some a}"
    "distinct (vo_routes (from_network net p))"
    "set (vo_excluded_routes (from_network net p)) =
      set (filter_map normalize_route_cidr (net_split_excludes net))
        \<union> (if pf_allow_local_lan p \<and> d then set rfc1918_excludes else {})"
    "distinct (vo_excluded_routes (from_network net p))"
    "vo_dns_addresses (from_network net p) = ds"
    "vo_force_global (from_network net p) \<longleftrightarrow> d"
    "vo_addresses (from_network net p) = tunnel_addresses net"
    "vo_mtu (from_network net p) = tunnel_mtu net p"
proof -
  obtain opts where o: "from_network net p = normalize_routes (push_dns_host_routes opts)"
    and f: "vo_routes opts = rs" "vo_dns_addresses opts = ds" "vo_force_global opts = d"
      "vo_addresses opts = tunnel_addresses net" "vo_mtu opts = tunnel_mtu net p"
    and e: "vo_excluded_routes opts = (let xs = filter_map normalize_route_cidr (net_split_excludes net)
        in if pf_allow_local_lan p \<and> d then push_lan_excludes xs else xs)"
    by (cases "pf_allow_local_lan p \<and> d") (auto simp: from_network_def assms)
  have can: "\<forall>r \<in> set (vo_routes (push_dns_host_routes opts) @ vo_excluded_routes (push_dns_host_routes opts)). canonical r"
    using route_policy_canonical(2) [OF assms] host_route_canonical filter_map_normalize_canonical lan_canonical
    by (auto simp: set_push_dns f e set_push_lan Let_def split: if_splits)
  show "set (vo_routes (from_network net p)) =
      set rs \<union> {to_cidr (host_prefix a) | a s. s \<in> set ds \<and> resolver_addr s = Some a}"
    unfolding o normalize_routes_id(1) [OF can] by (simp add: set_push_dns f)
  show "set (vo_excluded_routes (from_network net p)) =
      set (filter_map normalize_route_cidr (net_split_excludes net))
        \<union> (if pf_allow_local_lan p \<and> d then set rfc1918_excludes else {})"
    unfolding o normalize_routes_id(2) [OF can] by (auto simp: e set_push_lan Let_def)
  show "distinct (vo_routes (from_network net p))" "distinct (vo_excluded_routes (from_network net p))"
    unfolding o by (simp_all add: normalize_routes_def)
qed (auto simp: from_network_def assms Let_def push_dns_host_routes_def normalize_routes_def)

lemma from_network_canonical:
  "r \<in> set (vo_routes (from_network net p) @ vo_excluded_routes (from_network net p)) \<Longrightarrow> canonical r"
  by (cases "route_policy net p")
    (use route_policy_canonical(2) host_route_canonical filter_map_normalize_canonical lan_canonical in
      \<open>auto simp: from_network_eq(1,3) split: if_splits\<close>)

lemma from_network_full:
  assumes "vo_force_global (from_network net p)"
  shows "set (vo_routes (from_network net p)) = set (default_routes (tunnel_has_ipv6 net)) \<union>
     {to_cidr (host_prefix a) | a s. s \<in> set (vo_dns_addresses (from_network net p)) \<and> resolver_addr s = Some a}"
proof (cases "route_policy net p")
  case (fields rs ds d)
  with assms route_policy_canonical(3) [OF fields] show ?thesis by (simp add: from_network_eq)
qed

subsection \<open>Coverage of the options' routes\<close>

lemma covers_default: "covers ''0.0.0.0/0'' (IpV4 a)" "covers ''::/0'' (IpV6 b)"
  "\<not> covers ''::/0'' (IpV4 a)" "\<not> covers ''0.0.0.0/0'' (IpV6 b)"
  "route_len ''0.0.0.0/0'' = 0" "route_len ''::/0'' = 0"
proof -
  have "wf_prefix (V4 0 0)" "wf_prefix (V6 0 0)" by simp_all
  note r = route_prefix_to_cidr [OF this(1)] route_prefix_to_cidr [OF this(2)]
  note r = r [unfolded default_cidrs]
  show "covers ''0.0.0.0/0'' (IpV4 a)" "covers ''::/0'' (IpV6 b)"
    "\<not> covers ''::/0'' (IpV4 a)" "\<not> covers ''0.0.0.0/0'' (IpV6 b)"
    "route_len ''0.0.0.0/0'' = 0" "route_len ''::/0'' = 0"
    by (simp_all add: covers_def route_len_def r prefix_mask_v4_def prefix_mask_v6_def)
qed

lemma covers_host:
  "covers (to_cidr (host_prefix a)) b \<longleftrightarrow> a = b"
  "route_len (to_cidr (host_prefix a)) = prefix_len (host_prefix a)"
  using host_prefix_wf [of a]
  by (simp_all add: covers_to_cidr matches_host_prefix route_len_def route_prefix_to_cidr del: to_cidr.simps)

lemma lan_len: "r \<in> set rfc1918_excludes \<Longrightarrow> 0 < route_len r"
proof -
  have "list_all (\<lambda>r. 0 < route_len r) rfc1918_excludes" by code_simp
  then show "r \<in> set rfc1918_excludes \<Longrightarrow> 0 < route_len r" by (simp add: list_all_iff)
qed

lemma not_tunneled_default:
  "(\<exists>r \<in> set (default_routes b). covers r (IpV4 a) \<and> (\<forall>e \<in> E. covers e (IpV4 a) \<longrightarrow> route_len e < route_len r))
    \<longleftrightarrow> (\<forall>e \<in> E. \<not> covers e (IpV4 a))"
  by (auto simp: default_routes_def covers_default)

lemma bex_host_routes:
  "(\<exists>r \<in> {to_cidr (host_prefix b) | b s. s \<in> D \<and> resolver_addr s = Some b}. P r)
     \<longleftrightarrow> (\<exists>s \<in> D. \<exists>b. resolver_addr s = Some b \<and> P (to_cidr (host_prefix b)))"
  by blast

lemma tunnels_full:
  assumes "vo_force_global (from_network net p)"
  shows "tunnels (vo_routes (from_network net p)) es (IpV4 a) \<longleftrightarrow>
     (\<forall>e \<in> set es. \<not> covers e (IpV4 a))
     \<or> (\<exists>s \<in> set (vo_dns_addresses (from_network net p)). resolver_addr s = Some (IpV4 a))
       \<and> (\<forall>e \<in> set es. covers e (IpV4 a) \<longrightarrow> route_len e < 32)"
proof -
  have h: "(\<exists>r \<in> {to_cidr (host_prefix b) | b s. s \<in> D \<and> resolver_addr s = Some b}.
        covers r (IpV4 a) \<and> (\<forall>e \<in> set es. covers e (IpV4 a) \<longrightarrow> route_len e < route_len r))
     \<longleftrightarrow> (\<exists>s \<in> D. resolver_addr s = Some (IpV4 a))
       \<and> (\<forall>e \<in> set es. covers e (IpV4 a) \<longrightarrow> route_len e < 32)" for D
    unfolding bex_host_routes covers_host by auto
  show ?thesis
    unfolding tunnels_def from_network_full [OF assms] bex_Un not_tunneled_default h ..
qed

lemma split_tokens:
  assumes "validate p = Ok ()"
    "t \<in> set (filter (\<lambda>r. r \<noteq> []) (map trim (split_networks (pf_split_tunnel_networks p))))"
  shows "normalize_route_cidr t \<noteq> None"
  using assms by (auto simp: validate_def Let_def find_None_iff split: if_splits option.splits)

lemma custom_split_covers:
  "(\<exists>r \<in> set (filter_map (\<lambda>s. normalize_route_cidr (trim s)) ss). covers r a)
     \<longleftrightarrow> (\<exists>t \<in> set (filter (\<lambda>r. r \<noteq> []) (map trim ss)). covers t a)"
proof -
  have "covers t a \<Longrightarrow> t \<noteq> []" for t using covers_valid [of t a] by (auto simp: normalize_route_cidr_def)
  then show ?thesis
    using covers_valid by (auto simp: set_filter_map covers_normalized) (metis covers_normalized)+
qed

definition lower_distinct :: "str list \<Rightarrow> bool" where
  "lower_distinct ds \<longleftrightarrow> distinct (map to_ascii_lowercase ds) \<and> [] \<notin> set ds"

lemma lower_distinct_snoc:
  "lower_distinct ds \<Longrightarrow> [] \<noteq> d \<Longrightarrow> \<not> list_ex (\<lambda>e. eq_ignore_ascii_case e d) ds \<Longrightarrow> lower_distinct (ds @ [d])"
  by (auto simp: lower_distinct_def list_ex_iff eq_ignore_ascii_case_def)

lemma append_search_domains_distinct:
  assumes "lower_distinct ds"
  shows "lower_distinct (append_search_domains ds v)"
proof -
  have "lower_distinct (foldl (\<lambda>ds d. if list_ex (\<lambda>e. eq_ignore_ascii_case e d) ds then ds else ds @ [d]) ds xs)"
    if "[] \<notin> set xs" "lower_distinct ds" for xs ds
    using that
    by (induction xs arbitrary: ds) (simp_all add: lower_distinct_snoc)
  then show ?thesis using assms by (simp add: append_search_domains_def)
qed

subsection \<open>The properties\<close>

text \<open>the options built from any snapshot and any profile have at least one include route; their
  route lists hold canonical CIDRs without duplicates.\<close>

theorem from_network_routes:
  "vo_routes (from_network net p) \<noteq> [] \<and> distinct (vo_routes (from_network net p))
   \<and> distinct (vo_excluded_routes (from_network net p))
   \<and> list_all (\<lambda>r. normalize_route_cidr r = Some r)
       (vo_routes (from_network net p) @ vo_excluded_routes (from_network net p))"
proof (cases "route_policy net p")
  case (fields rs ds d)
  have "set (vo_routes (from_network net p)) \<noteq> {}"
    using route_policy_canonical(1) [OF fields] by (simp add: from_network_eq(1) [OF fields])
  then show ?thesis
    using from_network_canonical [of _ net p] from_network_eq(2,4) [OF fields]
    by (auto simp: list_all_iff canonical_iff)
qed

text \<open>C25: on a full tunnel, whatever the snapshot, an IPv4 address goes through the tunnel exactly
  when no exclude covers it, or when it is the address of a VPN resolver and no exclude names that
  very host: a resolver inside an excluded network stays reachable.\<close>

theorem full_tunnel_traffic:
  assumes "vo_force_global (from_network net p)"
    "materialize_excluded_routes (from_network net p) = Some (opts', Ok ())"
  shows "tunnels (vo_routes opts') [] (IpV4 a) \<longleftrightarrow>
     (\<forall>e \<in> set (vo_excluded_routes (from_network net p)). \<not> covers e (IpV4 a))
     \<or> (\<exists>s \<in> set (vo_dns_addresses (from_network net p)). resolver_addr s = Some (IpV4 a))
       \<and> (\<forall>e \<in> set (vo_excluded_routes (from_network net p)). covers e (IpV4 a) \<longrightarrow> route_len e < 32)"
proof -
  have "tunnels (vo_routes opts') [] b \<longleftrightarrow>
      tunnels (vo_routes (from_network net p)) (vo_excluded_routes (from_network net p)) b" for b
  proof (cases "\<forall>r \<in> set (vo_routes (from_network net p) @ vo_excluded_routes (from_network net p)).
      normalize_route_cidr r \<noteq> None")
    case True
    then show ?thesis using materialize_valid [of "from_network net p"] assms(2) by auto
  next
    case False
    then show ?thesis using materialize_invalid [of "from_network net p"] assms(2) by auto
  qed
  with tunnels_full [OF assms(1)] show ?thesis by simp
qed

text \<open>with local LAN access allowed on a full tunnel, the only private or link-local IPv4
  addresses that still go through the tunnel are those of the VPN resolvers.\<close>

theorem lan_bypass:
  assumes "pf_allow_local_lan p" "vo_force_global (from_network net p)"
    "lan \<in> set rfc1918_excludes" "covers lan (IpV4 a)"
    "tunnels (vo_routes (from_network net p)) (vo_excluded_routes (from_network net p)) (IpV4 a)"
  shows "\<exists>s \<in> set (vo_dns_addresses (from_network net p)). resolver_addr s = Some (IpV4 a)"
proof (cases "route_policy net p")
  case (fields rs ds d)
  with assms(1-3) have "lan \<in> set (vo_excluded_routes (from_network net p))"
    by (simp add: from_network_eq)
  then show ?thesis using assms(4,5) tunnels_full [OF assms(2)] by blast
qed


text \<open>the interface MTU is at least 576, and at least 1280 as soon as an IPv6 address is
  configured; the IPv4 address of the interface has a prefix length the platform accepts (1 to 31).\<close>

theorem from_network_interface:
  "(if list_ex has_colon (vo_addresses (from_network net p)) then 1280 else 576) \<le> vo_mtu (from_network net p)
   \<and> 1 \<le> ipv4_tunnel_prefix (net_netmask net) \<and> ipv4_tunnel_prefix (net_netmask net) \<le> 31"
proof (cases "route_policy net p")
  case (fields rs ds d)
  then show ?thesis
    by (auto simp: from_network_eq tunnel_mtu_def tunnel_has_ipv6_def ipv4_tunnel_prefix_def Let_def)
qed

text \<open>the search domains are never empty texts and never repeat up to ASCII case.\<close>

theorem search_domains_distinct:
  "distinct (map to_ascii_lowercase (vo_search_domains (from_network net p)))
   \<and> [] \<notin> set (vo_search_domains (from_network net p))"
proof -
  have "lower_distinct (foldl append_search_domains ds xs)" if "lower_distinct ds" for ds xs
    using that by (induction xs arbitrary: ds) (simp_all add: append_search_domains_distinct)
  moreover have "lower_distinct []" by (simp add: lower_distinct_def)
  ultimately have "lower_distinct (network_search_domains net)"
    by (simp add: network_search_domains_def append_search_domains_distinct split: option.splits)
  moreover have "vo_search_domains (from_network net p) \<in> {[], network_search_domains net}"
    by (cases "route_policy net p")
      (simp add: from_network_def Let_def push_dns_host_routes_def normalize_routes_def)
  ultimately show ?thesis by (auto simp: lower_distinct_def)
qed

text \<open>re-applying the full-tunnel override on resume changes nothing the second time: no
  resolver route is inserted twice.\<close>

theorem apply_force_global_idempotent:
  "apply_force_global (apply_force_global opts) = apply_force_global opts"
proof (cases "vo_force_global opts")
  case True
  let ?rs = "default_routes (list_ex has_colon (vo_addresses opts))"
  have ex: "dedup (filter_map normalize_route_cidr (dedup (filter_map normalize_route_cidr xs)))
      = dedup (filter_map normalize_route_cidr xs)" for xs
    using filter_map_normalize_canonical by (subst filter_map_canonical) auto
  from True show ?thesis
    by (simp add: apply_force_global_def normalize_routes_def push_dns_host_routes_def ex)
qed (simp add: apply_force_global_def)

subsection \<open>Concrete instances\<close>

definition demo_profile :: connection_profile where
  "demo_profile = new_draft\<lparr>pf_name := ''Corp'', pf_server := ''vpn.example.test'', pf_force_global := True\<rparr>"

definition demo_split_profile :: connection_profile where
  "demo_split_profile = new_draft\<lparr>pf_name := ''Corp'', pf_server := ''vpn.example.test'',
     pf_split_tunnel_mode := OnVpnDns, pf_split_tunnel_networks := ''10.20.0.1/16; 10.30.1.2''\<rparr>"

definition demo_network :: network_snapshot where
  "demo_network = network_default\<lparr>net_dns := [''192.0.2.53''], net_split_excludes := [''128.0.0.0/1'']\<rparr>"

lemma demo_materialized:
  "\<exists>opts'. materialize_excluded_routes (from_network demo_network demo_profile) = Some (opts', Ok ())
     \<and> vo_routes opts' = [''192.0.2.53/32'', ''0.0.0.0/1'']"
proof -
  have "(case materialize_excluded_routes (from_network demo_network demo_profile) of
      Some (opts', res) \<Rightarrow> res = Ok () \<and> vo_routes opts' = [''192.0.2.53/32'', ''0.0.0.0/1'']
    | None \<Rightarrow> False)"
    by code_simp
  then show ?thesis by (auto split: option.splits prod.splits)
qed

lemma materialize_is_longest_prefix_witness:
  "(\<forall>a. tunnels [''192.0.2.53/32'', ''0.0.0.0/1''] [] a \<longleftrightarrow>
        tunnels (vo_routes (from_network demo_network demo_profile))
          (vo_excluded_routes (from_network demo_network demo_profile)) a)"
  using demo_materialized materialize_is_longest_prefix [of "from_network demo_network demo_profile"] by metis

lemma full_tunnel_traffic_witness:
  "\<exists>opts'. materialize_excluded_routes (from_network demo_network demo_profile) = Some (opts', Ok ())
     \<and> tunnels (vo_routes opts') [] (IpV4 0xC0000235) \<and> \<not> tunnels (vo_routes opts') [] (IpV4 0xC0000236)
     \<and> tunnels (vo_routes opts') [] (IpV4 0x08080808)"
proof -
  let ?o = "from_network demo_network demo_profile"
  obtain opts' where m: "materialize_excluded_routes ?o = Some (opts', Ok ())"
    using demo_materialized by blast
  have g: "vo_force_global ?o" by code_simp
  have e: "vo_excluded_routes ?o = [''128.0.0.0/1'']" "vo_dns_addresses ?o = [''192.0.2.53'']" by code_simp+
  note t = full_tunnel_traffic [OF g m, unfolded e]
  have "tunnels (vo_routes opts') [] (IpV4 0xC0000235)" unfolding t by code_simp
  moreover have "\<not> tunnels (vo_routes opts') [] (IpV4 0xC0000236)" unfolding t by code_simp
  moreover have "tunnels (vo_routes opts') [] (IpV4 0x08080808)" unfolding t by code_simp
  ultimately show ?thesis using m by blast
qed

lemma lan_bypass_witness:
  "\<exists>s \<in> set (vo_dns_addresses (from_network (network_default\<lparr>net_dns := [''10.0.0.53'']\<rparr>)
       (demo_profile\<lparr>pf_allow_local_lan := True\<rparr>))). resolver_addr s = Some (IpV4 0x0A000035)"
proof -
  let ?n = "network_default\<lparr>net_dns := [''10.0.0.53'']\<rparr>" and ?p = "demo_profile\<lparr>pf_allow_local_lan := True\<rparr>"
  have l: "pf_allow_local_lan ?p" by simp
  have g: "vo_force_global (from_network ?n ?p)" by code_simp
  have m: "''10.0.0.0/8'' \<in> set rfc1918_excludes" by code_simp
  have c: "covers ''10.0.0.0/8'' (IpV4 0x0A000035)" by code_simp
  have e: "vo_excluded_routes (from_network ?n ?p) =
      [''10.0.0.0/8'', ''172.16.0.0/12'', ''192.168.0.0/16'', ''169.254.0.0/16'']"
    "vo_routes (from_network ?n ?p) = [''10.0.0.53/32'', ''0.0.0.0/0'']" by code_simp+
  have "covers ''10.0.0.53/32'' (IpV4 0x0A000035)" by code_simp
  moreover have "list_all (\<lambda>e. route_len e < route_len ''10.0.0.53/32'')
      [''10.0.0.0/8'', ''172.16.0.0/12'', ''192.168.0.0/16'', ''169.254.0.0/16'']" by code_simp
  ultimately have "tunnels (vo_routes (from_network ?n ?p)) (vo_excluded_routes (from_network ?n ?p)) (IpV4 0x0A000035)"
    unfolding e tunnels_def by (simp add: list_all_iff)
  from lan_bypass [OF l g m c this] show ?thesis .
qed


end
