(* ===== verification/Oc_Owner.thy ===== *)
theory Oc_Owner
  imports Oc_Prelude
begin

text \<open>
  \<open>crates/hopenconnect_core/src/platform_owner.rs\<close>: the owner journal and the owner lease that tie one VPN
  attempt to the process that issued it and to the Extension process that carries it.

  The journal file is a slot that is absent, not a regular file, or holds bytes; the lease file also
  has a holder of its lock. \<open>serde_json\<close> is a parameter: a codec with the bytes as an abstract type.
  What the operating system answers to each call is a parameter as well, a plan that names for every
  system call of an operation the error it returns, if any, so each operation is a function of the
  slot and the plan. Temporary files have unique names and are not part of the slot.
\<close>

subsection \<open>Records\<close>

record process_identity =
  pi_boot_id :: str
  pi_pid :: nat
  pi_start_time :: nat

datatype owner_phase = Pending | Attached | Stopping

record owner_journal =
  oj_attempt_id :: str
  oj_issuer :: process_identity
  oj_extension :: "process_identity option"
  oj_phase :: owner_phase

datatype lease_role = Issuer | Extension

record lease_record =
  lr_attempt_id :: str
  lr_identity :: process_identity
  lr_role :: lease_role

datatype lease_observation = HeldExact | HeldOther | Released

datatype journal_read = JMissing | JPresent owner_journal

record stored_journal = owner_journal +
  st_version :: nat

record stored_lease = lease_record +
  sl_version :: nat

definition journal_version :: nat where "journal_version = 1"
definition lease_version :: nat where "lease_version = 1"
definition max_journal_bytes :: nat where "max_journal_bytes = 16 * 1024"
definition max_lease_bytes :: nat where "max_lease_bytes = 16 * 1024"

subsection \<open>Errors and validation\<close>

definition journal_error :: "str \<Rightarrow> str" where
  "journal_error message = ''invalid platform VPN owner journal: '' @ message"

definition lease_error :: "str \<Rightarrow> str" where
  "lease_error message = ''invalid platform VPN owner lease: '' @ message"

definition io_error :: "str \<Rightarrow> str \<Rightarrow> str \<Rightarrow> str" where
  "io_error ctx path e = ctx @ '' '' @ quoted path @ '': '' @ e"

definition identity_ok :: "process_identity \<Rightarrow> bool" where
  "identity_ok i \<longleftrightarrow> trim (pi_boot_id i) \<noteq> [] \<and> pi_pid i \<noteq> 0 \<and> pi_start_time i \<noteq> 0"

definition validate_attempt_id :: "str \<Rightarrow> (str, unit) result" where
  "validate_attempt_id a = (if trim a = [] then Err (journal_error ''attempt id is empty'') else Ok ())"

definition validate_identity :: "str \<Rightarrow> process_identity \<Rightarrow> (str, unit) result" where
  "validate_identity label i =
     (if \<not> identity_ok i then
        Err (journal_error (label @ '' process identity must contain a boot id, non-zero PID, and start time''))
      else Ok ())"

definition validate_record :: "owner_journal \<Rightarrow> (str, unit) result" where
  "validate_record r =
     and_then (validate_attempt_id (oj_attempt_id r)) (\<lambda>_.
     and_then (validate_identity ''issuer'' (oj_issuer r)) (\<lambda>_.
     and_then (case oj_extension r of None \<Rightarrow> Ok () | Some x \<Rightarrow> validate_identity ''Extension'' x) (\<lambda>_.
       (case (oj_phase r, oj_extension r) of
          (Pending, None) \<Rightarrow> Ok ()
        | (Attached, Some _) \<Rightarrow> Ok ()
        | (Stopping, None) \<Rightarrow> Ok ()
        | (Pending, Some _) \<Rightarrow> Err (journal_error ''Pending owner unexpectedly contains an Extension identity'')
        | (Attached, None) \<Rightarrow> Err (journal_error ''Attached owner is missing its Extension identity'')
        | (Stopping, Some _) \<Rightarrow> Err (journal_error ''Stopping owner unexpectedly contains an Extension identity'')))))"

definition validate_lease_record :: "lease_record \<Rightarrow> (str, unit) result" where
  "validate_lease_record r =
     (if trim (lr_attempt_id r) = [] then Err (lease_error ''attempt id is empty'')
      else if \<not> identity_ok (lr_identity r) then
        Err (lease_error ''holder identity must contain a boot id, non-zero PID, and start time'')
      else Ok ())"

definition to_stored_journal :: "owner_journal \<Rightarrow> stored_journal" where
  "to_stored_journal r = owner_journal.extend r (stored_journal.fields journal_version)"

definition from_stored_journal :: "stored_journal \<Rightarrow> (str, owner_journal) result" where
  "from_stored_journal s =
     (if st_version s \<noteq> journal_version then
        Err (journal_error (''unsupported version '' @ show_dec (st_version s)))
      else let r = owner_journal.truncate s
           in and_then (validate_record r) (\<lambda>_. Ok r))"

definition to_stored_lease :: "lease_record \<Rightarrow> stored_lease" where
  "to_stored_lease r = lease_record.extend r (stored_lease.fields lease_version)"

definition from_stored_lease :: "stored_lease \<Rightarrow> (str, lease_record) result" where
  "from_stored_lease s =
     (if sl_version s \<noteq> lease_version then
        Err (lease_error (''unsupported version '' @ show_dec (sl_version s)))
      else let r = lease_record.truncate s
           in and_then (validate_lease_record r) (\<lambda>_. Ok r))"

subsection \<open>The environment\<close>

text \<open>A path: what it displays as, its parent and its file name (\<open>std::path::Path\<close>).\<close>

record file_path =
  fp_display :: str
  fp_parent :: "str option"
  fp_name :: "str option"

datatype flock_outcome = FlockOk | FlockWouldBlock | FlockError str

text \<open>One answer per system call; \<open>None\<close> is success.\<close>

record io_plan =
  io_mkdir :: "str option"
  io_open_lock :: "str option"
  io_flock :: flock_outcome
  io_stat :: "str option"
  io_read :: "str option"
  io_create :: "str option"
  io_write :: "str option"
  io_sync :: "str option"
  io_rename :: "str option"
  io_remove :: "str option"
  io_fstat :: "str option"
  io_seek :: "str option"
  io_truncate :: "str option"
  io_open_dir :: "str option"
  io_sync_dir :: "str option"

definition io_ok :: io_plan where
  "io_ok = \<lparr>io_mkdir = None, io_open_lock = None, io_flock = FlockOk, io_stat = None, io_read = None,
     io_create = None, io_write = None, io_sync = None, io_rename = None, io_remove = None,
     io_fstat = None, io_seek = None, io_truncate = None, io_open_dir = None, io_sync_dir = None\<rparr>"

definition try_io :: "str option \<Rightarrow> str \<Rightarrow> str \<Rightarrow> (str, 'a) result \<Rightarrow> (str, 'a) result" where
  "try_io outcome ctx path k = (case outcome of Some e \<Rightarrow> Err (io_error ctx path e) | None \<Rightarrow> k)"

datatype 'b slot = NoFile | NotRegular | Bytes 'b

subsection \<open>Journal primitives\<close>

definition journal_parent :: "file_path \<Rightarrow> (str, str) result" where
  "journal_parent p =
     (case fp_parent p of
        Some d \<Rightarrow> if d = [] then Err (journal_error (''path '' @ quoted (fp_display p) @ '' has no parent directory''))
                  else Ok d
      | None \<Rightarrow> Err (journal_error (''path '' @ quoted (fp_display p) @ '' has no parent directory'')))"

definition file_name :: "file_path \<Rightarrow> (str, str) result" where
  "file_name p =
     (case fp_name p of
        Some n \<Rightarrow> Ok n
      | None \<Rightarrow> Err (journal_error (''path '' @ quoted (fp_display p) @ '' has no file name'')))"

text \<open>\<open>Path::with_file_name\<close>, as displayed.\<close>

definition with_file_name :: "file_path \<Rightarrow> str \<Rightarrow> str \<Rightarrow> str" where
  "with_file_name p old new = take (length (fp_display p) - length old) (fp_display p) @ new"

definition lock_path :: "file_path \<Rightarrow> (str, str) result" where
  "lock_path p = and_then (file_name p) (\<lambda>n. Ok (with_file_name p n (n @ ''.lock'')))"

definition lock_journal :: "file_path \<Rightarrow> io_plan \<Rightarrow> (str, unit) result" where
  "lock_journal p io =
     and_then (journal_parent p) (\<lambda>parent.
     try_io (io_mkdir io) ''create platform VPN journal directory'' parent (
     and_then (lock_path p) (\<lambda>lp.
     try_io (io_open_lock io) ''open platform VPN owner journal lock'' lp (
       case io_flock io of
         FlockOk \<Rightarrow> Ok ()
       | FlockWouldBlock \<Rightarrow> Err (journal_error (''busy: lock '' @ quoted lp @ '' is held by another process''))
       | FlockError e \<Rightarrow> Err (io_error ''lock platform VPN owner journal'' lp e)))))"

definition sync_parent :: "file_path \<Rightarrow> io_plan \<Rightarrow> (str, unit) result" where
  "sync_parent p io =
     and_then (journal_parent p) (\<lambda>parent.
     try_io (io_open_dir io) ''open platform VPN journal directory'' parent (
     try_io (io_sync_dir io) ''sync platform VPN journal directory'' parent (Ok ())))"

definition read_unlocked ::
    "('b, stored_journal) codec \<Rightarrow> file_path \<Rightarrow> io_plan \<Rightarrow> 'b slot \<Rightarrow> (str, journal_read) result" where
  "read_unlocked c p io s =
     (case s of
        NoFile \<Rightarrow> (case io_stat io of Some e \<Rightarrow> Err (io_error ''inspect platform VPN owner journal'' (fp_display p) e)
                   | None \<Rightarrow> Ok JMissing)
      | NotRegular \<Rightarrow>
          try_io (io_stat io) ''inspect platform VPN owner journal'' (fp_display p) (
            Err (journal_error (''path '' @ quoted (fp_display p) @ '' is not a regular file'')))
      | Bytes b \<Rightarrow>
          try_io (io_stat io) ''inspect platform VPN owner journal'' (fp_display p) (
          if byte_len c b > max_journal_bytes then
            Err (journal_error (''file '' @ quoted (fp_display p) @ '' is too large ('' @ show_dec (byte_len c b) @ '' bytes)''))
          else
          try_io (io_read io) ''read platform VPN owner journal'' (fp_display p) (
          case decode c b of
            Err e \<Rightarrow> Err (journal_error (''malformed file '' @ quoted (fp_display p) @ '': '' @ e))
          | Ok stored \<Rightarrow> and_then (from_stored_journal stored) (\<lambda>r. Ok (JPresent r)))))"

text \<open>The temporary file's path only shows in error texts; \<open>tmp\<close> stands for its unique suffix.\<close>

definition write_unlocked ::
    "('b, stored_journal) codec \<Rightarrow> file_path \<Rightarrow> io_plan \<Rightarrow> str \<Rightarrow> 'b slot \<Rightarrow> owner_journal
       \<Rightarrow> 'b slot \<times> (str, unit) result" where
  "write_unlocked c p io tmp s r =
     try_in s (validate_record r) (\<lambda>_.
     try_in s (case encode c (to_stored_journal r) of
                 Err e \<Rightarrow> Err (journal_error (''serialize file '' @ quoted (fp_display p) @ '': '' @ e))
               | Ok b \<Rightarrow> Ok b) (\<lambda>b.
     try_in s (and_then (file_name p) (\<lambda>n. Ok (with_file_name p n (''.'' @ n @ tmp)))) (\<lambda>temp.
     try_in s (try_io (io_create io) ''create temporary platform VPN owner journal'' temp (
               try_io (io_write io) ''write temporary platform VPN owner journal'' temp (
               try_io (io_sync io) ''sync temporary platform VPN owner journal'' temp (
               try_io (io_rename io) ''replace platform VPN owner journal'' (fp_display p) (Ok ()))))) (\<lambda>_.
       (Bytes b, sync_parent p io)))))"

definition remove_journal :: "file_path \<Rightarrow> io_plan \<Rightarrow> str \<Rightarrow> 'b slot \<Rightarrow> 'b slot \<times> (str, bool) result" where
  "remove_journal p io ctx s =
     try_in s (try_io (io_remove io) ctx (fp_display p) (Ok ())) (\<lambda>_.
       (NoFile, and_then (sync_parent p io) (\<lambda>_. Ok True)))"

subsection \<open>Journal operations\<close>

definition journal_read ::
    "('b, stored_journal) codec \<Rightarrow> file_path \<Rightarrow> io_plan \<Rightarrow> 'b slot \<Rightarrow> (str, journal_read) result" where
  "journal_read c p io s = and_then (lock_journal p io) (\<lambda>_. read_unlocked c p io s)"

definition create_pending_exact ::
    "('b, stored_journal) codec \<Rightarrow> file_path \<Rightarrow> io_plan \<Rightarrow> str \<Rightarrow> owner_journal
       \<Rightarrow> 'b slot \<Rightarrow> 'b slot \<times> (str, unit) result" where
  "create_pending_exact c p io tmp r s =
     try_in s (validate_record r) (\<lambda>_.
     if oj_phase r \<noteq> Pending \<or> oj_extension r \<noteq> None then
       (s, Err (journal_error ''a new owner must be Pending without an Extension identity''))
     else
     try_in s (lock_journal p io) (\<lambda>_.
     try_in s (read_unlocked c p io s) (\<lambda>found.
       (case found of
          JMissing \<Rightarrow> write_unlocked c p io tmp s r
        | JPresent current \<Rightarrow>
            if current = r then (s, Ok ())
            else (s, Err (journal_error (''create conflict: existing attempt '' @ quoted (oj_attempt_id current)
                     @ '' is not the requested attempt '' @ quoted (oj_attempt_id r))))))))"

definition upgrade_attached_exact ::
    "('b, stored_journal) codec \<Rightarrow> file_path \<Rightarrow> io_plan \<Rightarrow> str \<Rightarrow> str \<Rightarrow> process_identity \<Rightarrow> process_identity
       \<Rightarrow> 'b slot \<Rightarrow> 'b slot \<times> (str, unit) result" where
  "upgrade_attached_exact c p io tmp attempt issuer extension s =
     try_in s (validate_attempt_id attempt) (\<lambda>_.
     try_in s (validate_identity ''expected issuer'' issuer) (\<lambda>_.
     try_in s (validate_identity ''Extension'' extension) (\<lambda>_.
     try_in s (lock_journal p io) (\<lambda>_.
     try_in s (read_unlocked c p io s) (\<lambda>found.
       (case found of
          JMissing \<Rightarrow> (s, Err (journal_error (''cannot attach missing attempt '' @ quoted attempt)))
        | JPresent current \<Rightarrow>
            if oj_attempt_id current \<noteq> attempt \<or> oj_issuer current \<noteq> issuer then
              (s, Err (journal_error (''attach conflict: attempt '' @ quoted attempt
                  @ '' or its issuer is no longer current'')))
            else (case (oj_phase current, oj_extension current) of
                (Pending, None) \<Rightarrow>
                  write_unlocked c p io tmp s (current\<lparr>oj_phase := Attached, oj_extension := Some extension\<rparr>)
              | (Attached, Some x) \<Rightarrow>
                  if x = extension then (s, Ok ())
                  else (s, Err (journal_error (''attach conflict: attempt '' @ quoted attempt
                          @ '' has a different phase or Extension owner'')))
              | _ \<Rightarrow> (s, Err (journal_error (''attach conflict: attempt '' @ quoted attempt
                          @ '' has a different phase or Extension owner''))))))))))"

definition fence_pending_stop_exact ::
    "('b, stored_journal) codec \<Rightarrow> file_path \<Rightarrow> io_plan \<Rightarrow> str \<Rightarrow> str \<Rightarrow> process_identity
       \<Rightarrow> 'b slot \<Rightarrow> 'b slot \<times> (str, bool) result" where
  "fence_pending_stop_exact c p io tmp attempt issuer s =
     try_in s (validate_attempt_id attempt) (\<lambda>_.
     try_in s (validate_identity ''expected issuer'' issuer) (\<lambda>_.
     try_in s (lock_journal p io) (\<lambda>_.
     try_in s (read_unlocked c p io s) (\<lambda>found.
       (case found of
          JMissing \<Rightarrow> (s, Ok False)
        | JPresent current \<Rightarrow>
            if oj_attempt_id current \<noteq> attempt \<or> oj_issuer current \<noteq> issuer then (s, Ok False)
            else (case (oj_phase current, oj_extension current) of
                (Pending, None) \<Rightarrow>
                  (let (s', w) = write_unlocked c p io tmp s (current\<lparr>oj_phase := Stopping\<rparr>)
                   in (s', and_then w (\<lambda>_. Ok True)))
              | (Stopping, None) \<Rightarrow> (s, Ok True)
              | (Attached, Some _) \<Rightarrow> (s, Ok False)
              | _ \<Rightarrow> (s, Err (journal_error (''stop fence conflict: attempt '' @ quoted attempt
                          @ '' has an invalid phase or Extension owner'')))))))))"

definition rebind_attached_exact ::
    "('b, stored_journal) codec \<Rightarrow> file_path \<Rightarrow> io_plan \<Rightarrow> str \<Rightarrow> str \<Rightarrow> process_identity
       \<Rightarrow> process_identity \<Rightarrow> process_identity \<Rightarrow> 'b slot \<Rightarrow> 'b slot \<times> (str, unit) result" where
  "rebind_attached_exact c p io tmp attempt issuer expected replacement s =
     try_in s (validate_attempt_id attempt) (\<lambda>_.
     try_in s (validate_identity ''expected issuer'' issuer) (\<lambda>_.
     try_in s (validate_identity ''expected Extension'' expected) (\<lambda>_.
     try_in s (validate_identity ''replacement Extension'' replacement) (\<lambda>_.
     try_in s (lock_journal p io) (\<lambda>_.
     try_in s (read_unlocked c p io s) (\<lambda>found.
       (case found of
          JMissing \<Rightarrow> (s, Err (journal_error (''cannot rebind missing attempt '' @ quoted attempt)))
        | JPresent current \<Rightarrow>
            if oj_attempt_id current \<noteq> attempt \<or> oj_issuer current \<noteq> issuer \<or> oj_phase current \<noteq> Attached then
              (s, Err (journal_error (''rebind conflict: attempt '' @ quoted attempt
                  @ '' or its issuer is no longer current'')))
            else (case oj_extension current of
                Some x \<Rightarrow>
                  if x = expected then
                    (if x = replacement then (s, Ok ())
                     else write_unlocked c p io tmp s (current\<lparr>oj_extension := Some replacement\<rparr>))
                  else if x = replacement then (s, Ok ())
                  else (s, Err (journal_error (''rebind conflict: attempt '' @ quoted attempt
                          @ '' has a different Extension owner'')))
              | None \<Rightarrow> (s, Err (journal_error (''rebind conflict: attempt '' @ quoted attempt
                          @ '' has a different Extension owner'')))))))))))"

definition delete_exact ::
    "('b, stored_journal) codec \<Rightarrow> file_path \<Rightarrow> io_plan \<Rightarrow> str \<Rightarrow> process_identity option
       \<Rightarrow> 'b slot \<Rightarrow> 'b slot \<times> (str, bool) result" where
  "delete_exact c p io attempt extension s =
     try_in s (validate_attempt_id attempt) (\<lambda>_.
     try_in s (case extension of None \<Rightarrow> Ok () | Some x \<Rightarrow> validate_identity ''expected Extension'' x) (\<lambda>_.
     try_in s (lock_journal p io) (\<lambda>_.
     try_in s (read_unlocked c p io s) (\<lambda>found.
       (case found of
          JMissing \<Rightarrow> (s, Ok False)
        | JPresent current \<Rightarrow>
            if oj_attempt_id current \<noteq> attempt \<or> oj_extension current \<noteq> extension then (s, Ok False)
            else remove_journal p io ''remove platform VPN owner journal'' s)))))"

definition delete_pending_exact ::
    "('b, stored_journal) codec \<Rightarrow> file_path \<Rightarrow> io_plan \<Rightarrow> str \<Rightarrow> 'b slot \<Rightarrow> 'b slot \<times> (str, bool) result" where
  "delete_pending_exact c p io attempt s =
     try_in s (validate_attempt_id attempt) (\<lambda>_.
     try_in s (lock_journal p io) (\<lambda>_.
     try_in s (read_unlocked c p io s) (\<lambda>found.
       (case found of
          JMissing \<Rightarrow> (s, Ok False)
        | JPresent current \<Rightarrow>
            if oj_attempt_id current \<noteq> attempt \<or> oj_phase current \<noteq> Pending \<or> oj_extension current \<noteq> None
            then (s, Ok False)
            else remove_journal p io ''remove pending platform VPN owner journal'' s))))"

subsection \<open>The owner lease\<close>

text \<open>
  One fixed inode whose exclusive \<open>flock\<close> is the lease: the file's bytes and the open file description
  that holds the lock, if any. A holder is named by a number; dropping the lease releases it.
\<close>

datatype 'b lease_file = LeaseMissing | LeaseNotRegular | LeaseFile 'b "nat option"

definition open_owner_lease ::
    "('b, stored_lease) codec \<Rightarrow> file_path \<Rightarrow> io_plan \<Rightarrow> bool \<Rightarrow> 'b lease_file
       \<Rightarrow> (str, 'b \<times> nat option) result" where
  "open_owner_lease c p io create f =
     and_then (case fp_parent p of
         Some d \<Rightarrow> if d = [] then Err (lease_error (''path '' @ quoted (fp_display p) @ '' has no parent directory''))
                   else Ok d
       | None \<Rightarrow> Err (lease_error (''path '' @ quoted (fp_display p) @ '' has no parent directory''))) (\<lambda>parent.
     try_io (if create then io_mkdir io else None) ''create platform VPN owner lease directory'' parent (
     and_then (case f of
         LeaseMissing \<Rightarrow>
           (case io_stat io of
              Some e \<Rightarrow> Err (io_error ''inspect platform VPN owner lease'' (fp_display p) e)
            | None \<Rightarrow> if create then Ok (no_bytes c, None)
                      else Err (io_error ''inspect platform VPN owner lease'' (fp_display p)
                             ''No such file or directory (os error 2)''))
       | LeaseNotRegular \<Rightarrow>
           try_io (io_stat io) ''inspect platform VPN owner lease'' (fp_display p) (
             Err (lease_error (''path '' @ quoted (fp_display p) @ '' is not a regular file'')))
       | LeaseFile b h \<Rightarrow>
           try_io (io_stat io) ''inspect platform VPN owner lease'' (fp_display p) (Ok (b, h))) (\<lambda>opened.
     try_io (io_create io) ''open platform VPN owner lease'' (fp_display p) (
     try_io (io_fstat io) ''inspect opened platform VPN owner lease'' (fp_display p) (Ok opened)))))"

text \<open>Whether the lock was free for the caller.\<close>

definition try_lock_owner_lease :: "file_path \<Rightarrow> io_plan \<Rightarrow> nat option \<Rightarrow> (str, bool) result" where
  "try_lock_owner_lease p io holder =
     (case io_flock io of
        FlockError e \<Rightarrow> Err (io_error ''lock platform VPN owner lease'' (fp_display p) e)
      | _ \<Rightarrow> Ok (holder = None))"

text \<open>The bytes in the file after the attempt to write a record, and the result. \<open>torn\<close> is what a
  failing write leaves behind.\<close>

definition write_owner_lease_record ::
    "('b, stored_lease) codec \<Rightarrow> file_path \<Rightarrow> io_plan \<Rightarrow> 'b \<Rightarrow> 'b \<Rightarrow> lease_record \<Rightarrow> 'b \<times> (str, unit) result" where
  "write_owner_lease_record c p io torn old r =
     try_in old (case encode c (to_stored_lease r) of
                   Err e \<Rightarrow> Err (lease_error (''serialize file '' @ quoted (fp_display p) @ '': '' @ e))
                 | Ok b \<Rightarrow> Ok b) (\<lambda>b.
     if byte_len c b > max_lease_bytes then
       (old, Err (lease_error (''serialized file '' @ quoted (fp_display p) @ '' is too large (''
          @ show_dec (byte_len c b) @ '' bytes)'')))
     else
     try_in old (try_io (io_seek io) ''seek platform VPN owner lease'' (fp_display p) (Ok ())) (\<lambda>_.
     try_in old (try_io (io_truncate io) ''truncate platform VPN owner lease'' (fp_display p) (Ok ())) (\<lambda>_.
     try_in torn (try_io (io_write io) ''write platform VPN owner lease'' (fp_display p) (Ok ())) (\<lambda>_.
     try_in b (try_io (io_sync io) ''sync platform VPN owner lease'' (fp_display p) (Ok ())) (\<lambda>_.
       (b, sync_parent p io))))))"

definition read_owner_lease_record ::
    "('b, stored_lease) codec \<Rightarrow> file_path \<Rightarrow> io_plan \<Rightarrow> 'b \<Rightarrow> (str, lease_record option) result" where
  "read_owner_lease_record c p io b =
     try_io (io_seek io) ''seek platform VPN owner lease'' (fp_display p) (
     try_io (io_read io) ''read platform VPN owner lease'' (fp_display p) (
       if byte_len c b > max_lease_bytes then Ok None
       else case decode c b of
         Err _ \<Rightarrow> Ok None
       | Ok stored \<Rightarrow> (case from_stored_lease stored of Err _ \<Rightarrow> Ok None | Ok r \<Rightarrow> Ok (Some r))))"

definition acquire_owner_lease_exact ::
    "('b, stored_lease) codec \<Rightarrow> file_path \<Rightarrow> io_plan \<Rightarrow> 'b \<Rightarrow> nat \<Rightarrow> lease_record \<Rightarrow> 'b lease_file
       \<Rightarrow> 'b lease_file \<times> (str, nat) result" where
  "acquire_owner_lease_exact c p io torn me r f =
     try_in f (validate_lease_record r) (\<lambda>_.
     try_in f (open_owner_lease c p io True f) (\<lambda>(b, holder).
     try_in (LeaseFile b holder) (try_lock_owner_lease p io holder) (\<lambda>locked.
       if \<not> locked then
         (LeaseFile b holder,
          Err (lease_error (''busy: lease '' @ quoted (fp_display p) @ '' is held by another owner'')))
       else
         (case write_owner_lease_record c p io torn b r of
            (b', Err e) \<Rightarrow> (LeaseFile b' None, Err e)
          | (b', Ok _) \<Rightarrow> (LeaseFile b' (Some me), Ok me)))))"

definition observe_owner_lease_exact ::
    "('b, stored_lease) codec \<Rightarrow> file_path \<Rightarrow> io_plan \<Rightarrow> lease_record \<Rightarrow> 'b lease_file
       \<Rightarrow> (str, lease_observation) result" where
  "observe_owner_lease_exact c p io expected f =
     and_then (validate_lease_record expected) (\<lambda>_.
     and_then (open_owner_lease c p io False f) (\<lambda>(b, holder).
     and_then (try_lock_owner_lease p io holder) (\<lambda>locked.
       if locked then Ok Released
       else and_then (read_owner_lease_record c p io b) (\<lambda>observed.
         Ok (if observed = Some expected then HeldExact else HeldOther)))))"

definition lock_released_owner_lease ::
    "('b, stored_lease) codec \<Rightarrow> file_path \<Rightarrow> io_plan \<Rightarrow> nat \<Rightarrow> 'b lease_file
       \<Rightarrow> 'b lease_file \<times> (str, nat option) result" where
  "lock_released_owner_lease c p io me f =
     try_in f (open_owner_lease c p io False f) (\<lambda>(b, holder).
     try_in f (try_lock_owner_lease p io holder) (\<lambda>locked.
       if locked then (LeaseFile b (Some me), Ok (Some me)) else (f, Ok None)))"

text \<open>\<open>Drop\<close> of the lease: the lock is released, the bytes stay.\<close>

fun release_owner_lease :: "nat \<Rightarrow> 'b lease_file \<Rightarrow> 'b lease_file" where
  "release_owner_lease me (LeaseFile b holder) = LeaseFile b (if holder = Some me then None else holder)"
| "release_owner_lease me f = f"

subsection \<open>Process identities\<close>

text \<open>
  The start time of a process from the text of \<open>/proc/<pid>/stat\<close>: field 22, counted after the last
  closing parenthesis because the command name may hold spaces and parentheses.
\<close>

definition rsplit_at :: "char \<Rightarrow> str \<Rightarrow> str option" where
  "rsplit_at c s = (if c \<in> set s then Some (rev (takeWhile (\<lambda>d. d \<noteq> c) (rev s))) else None)"

definition split_whitespace :: "str \<Rightarrow> str list" where
  "split_whitespace s = filter (\<lambda>w. w \<noteq> []) (split_pat ws_len s)"

abbreviation parse_u64 :: "str \<Rightarrow> nat option" where "parse_u64 \<equiv> parse_uint 18446744073709551615"

definition read_process_start_time :: "str \<Rightarrow> (str, nat) result" where
  "read_process_start_time stat =
     (case rsplit_at (CHR '')'') stat of
        None \<Rightarrow> Err ''missing process command terminator''
      | Some tail \<Rightarrow>
          let ws = split_whitespace tail
          in if length ws \<le> 19 then Err ''missing process start time''
             else (case parse_u64 (ws ! 19) of
                     None \<Rightarrow>
                       (case ws ! 19 of
                          CHR ''+'' # d # ds \<Rightarrow>
                            if list_all is_ascii_digit (d # ds) then Err ''number too large to fit in target type''
                            else Err ''invalid digit found in string''
                        | w \<Rightarrow> if list_all is_ascii_digit w then Err ''number too large to fit in target type''
                               else Err ''invalid digit found in string'')
                   | Some t \<Rightarrow> Ok t))"

definition read_boot_id :: "str \<Rightarrow> (str, str) result" where
  "read_boot_id content =
     (let boot_id = trim content
      in if boot_id = [] then Err ''system boot identity is empty'' else Ok boot_id)"

text \<open>\<open>current_process_identity\<close> on what the two files of \<open>/proc\<close> hold, or the error of reading them.\<close>

definition current_process_identity ::
    "nat \<Rightarrow> (str, str) result \<Rightarrow> (str, str) result \<Rightarrow> (str, process_identity) result" where
  "current_process_identity pid stat_file boot_file =
     (case and_then stat_file read_process_start_time of
        Err e \<Rightarrow> Err (''cannot read current process start identity for PID '' @ show_dec pid @ '': '' @ e)
      | Ok start_time \<Rightarrow>
          (case and_then boot_file read_boot_id of
             Err e \<Rightarrow> Err (''cannot read current system boot identity: '' @ e)
           | Ok boot_id \<Rightarrow>
               if start_time = 0 \<or> boot_id = [] then Err ''current process identity is incomplete''
               else Ok \<lparr>pi_boot_id = boot_id, pi_pid = pid, pi_start_time = start_time\<rparr>))"

end
