(* ===== verification/Oc_Owner_Laws.thy ===== *)
theory Oc_Owner_Laws
  imports Oc_Owner
begin

text \<open>
  The owner journal as a compare-and-swap register. \<open>spec_op\<close> is its specification on the record
  alone; every operation of the code, under every plan of system-call failures, either does what the
  specification says or reports an error, and an error leaves the old record or the new one, nothing
  else. What follows for sequences of operations: a stop fence is permanent, an attached Extension is
  not displaced, and a file that cannot be read is never overwritten.
\<close>

subsection \<open>Operations as data\<close>

datatype owner_op =
  OpCreate owner_journal
| OpAttach str process_identity process_identity
| OpFence str process_identity
| OpRebind str process_identity process_identity process_identity
| OpDelete str "process_identity option"
| OpDeletePending str

definition as_true :: "'b slot \<times> (str, unit) result \<Rightarrow> 'b slot \<times> (str, bool) result" where
  "as_true x = (fst x, and_then (snd x) (\<lambda>_. Ok True))"

fun run_op :: "('b, stored_journal) codec \<Rightarrow> file_path \<Rightarrow> io_plan \<Rightarrow> str \<Rightarrow> owner_op
    \<Rightarrow> 'b slot \<Rightarrow> 'b slot \<times> (str, bool) result" where
  "run_op c p io tmp (OpCreate r) s = as_true (create_pending_exact c p io tmp r s)"
| "run_op c p io tmp (OpAttach a i x) s = as_true (upgrade_attached_exact c p io tmp a i x s)"
| "run_op c p io tmp (OpFence a i) s = fence_pending_stop_exact c p io tmp a i s"
| "run_op c p io tmp (OpRebind a i x y) s = as_true (rebind_attached_exact c p io tmp a i x y s)"
| "run_op c p io tmp (OpDelete a x) s = delete_exact c p io a x s"
| "run_op c p io tmp (OpDeletePending a) s = delete_pending_exact c p io a s"

text \<open>The record a slot shows; \<open>None\<close> when it cannot be read.\<close>

definition journal_view :: "('b, stored_journal) codec \<Rightarrow> 'b slot \<Rightarrow> journal_read option" where
  "journal_view c s =
     (case s of
        NoFile \<Rightarrow> Some JMissing
      | NotRegular \<Rightarrow> None
      | Bytes b \<Rightarrow>
          if byte_len c b > max_journal_bytes then None
          else (case and_then (decode c b) from_stored_journal of Inl _ \<Rightarrow> None | Inr r \<Rightarrow> Some (JPresent r)))"

subsection \<open>The specification\<close>

text \<open>\<open>None\<close>: refused. Otherwise the record afterwards and the answer.\<close>

definition attempt_ok :: "str \<Rightarrow> bool" where
  "attempt_ok a \<longleftrightarrow> trim a \<noteq> []"

fun spec_op :: "owner_op \<Rightarrow> journal_read \<Rightarrow> (journal_read \<times> bool) option" where
  "spec_op (OpCreate r) v =
     (if validate_record r \<noteq> Ok () \<or> oj_phase r \<noteq> Pending then None
      else case v of JMissing \<Rightarrow> Some (JPresent r, True)
           | JPresent cur \<Rightarrow> if cur = r then Some (v, True) else None)"
| "spec_op (OpAttach a i x) v =
     (if \<not> attempt_ok a \<or> \<not> identity_ok i \<or> \<not> identity_ok x then None
      else case v of JMissing \<Rightarrow> None
           | JPresent cur \<Rightarrow>
               if oj_attempt_id cur \<noteq> a \<or> oj_issuer cur \<noteq> i then None
               else if oj_phase cur = Pending then
                 Some (JPresent (cur\<lparr>oj_phase := Attached, oj_extension := Some x\<rparr>), True)
               else if oj_phase cur = Attached \<and> oj_extension cur = Some x then Some (v, True)
               else None)"
| "spec_op (OpFence a i) v =
     (if \<not> attempt_ok a \<or> \<not> identity_ok i then None
      else case v of JMissing \<Rightarrow> Some (v, False)
           | JPresent cur \<Rightarrow>
               if oj_attempt_id cur \<noteq> a \<or> oj_issuer cur \<noteq> i then Some (v, False)
               else if oj_phase cur = Attached then Some (v, False)
               else Some (JPresent (cur\<lparr>oj_phase := Stopping\<rparr>), True))"
| "spec_op (OpRebind a i x y) v =
     (if \<not> attempt_ok a \<or> \<not> identity_ok i \<or> \<not> identity_ok x \<or> \<not> identity_ok y then None
      else case v of JMissing \<Rightarrow> None
           | JPresent cur \<Rightarrow>
               if oj_attempt_id cur \<noteq> a \<or> oj_issuer cur \<noteq> i \<or> oj_phase cur \<noteq> Attached then None
               else if oj_extension cur \<in> {Some x, Some y} then
                 Some (JPresent (cur\<lparr>oj_extension := Some y\<rparr>), True)
               else None)"
| "spec_op (OpDelete a x) v =
     (if \<not> attempt_ok a \<or> (case x of None \<Rightarrow> False | Some i \<Rightarrow> \<not> identity_ok i) then None
      else case v of JMissing \<Rightarrow> Some (v, False)
           | JPresent cur \<Rightarrow>
               if oj_attempt_id cur = a \<and> oj_extension cur = x then Some (JMissing, True) else Some (v, False))"
| "spec_op (OpDeletePending a) v =
     (if \<not> attempt_ok a then None
      else case v of JMissing \<Rightarrow> Some (v, False)
           | JPresent cur \<Rightarrow>
               if oj_attempt_id cur = a \<and> oj_phase cur = Pending then Some (JMissing, True) else Some (v, False))"

text \<open>What the code relies on from \<open>serde_json\<close>: reading back what was written. Records are written
  without a size check, so a record must also fit the reader's bound.\<close>

definition reads_back :: "('b, 's) codec \<Rightarrow> bool" where
  "reads_back c \<longleftrightarrow> (\<forall>s b. encode c s = Ok b \<longrightarrow> decode c b = Ok s)"

definition fits :: "('b, stored_journal) codec \<Rightarrow> journal_read \<Rightarrow> bool" where
  "fits c v \<longleftrightarrow>
     (case v of JMissing \<Rightarrow> True
      | JPresent r \<Rightarrow> (case encode c (to_stored_journal r) of Inl _ \<Rightarrow> True | Inr b \<Rightarrow> byte_len c b \<le> max_journal_bytes))"

subsection \<open>Validity\<close>

lemma validate_attempt_iff: "validate_attempt_id a = Ok u \<longleftrightarrow> attempt_ok a"
  by (simp add: validate_attempt_id_def attempt_ok_def)

lemma validate_identity_iff: "validate_identity l i = Ok u \<longleftrightarrow> identity_ok i"
  by (simp add: validate_identity_def)

lemma validated [simp]:
  "attempt_ok a \<Longrightarrow> validate_attempt_id a = Ok ()"
  "identity_ok i \<Longrightarrow> validate_identity l i = Ok ()"
  by (simp_all add: validate_attempt_iff validate_identity_iff)

definition phase_shape :: "owner_journal \<Rightarrow> bool" where
  "phase_shape r \<longleftrightarrow> (oj_phase r = Attached \<longleftrightarrow> oj_extension r \<noteq> None)"

lemma validate_record_iff:
  "validate_record r = Ok u \<longleftrightarrow> attempt_ok (oj_attempt_id r) \<and> identity_ok (oj_issuer r)
     \<and> (case oj_extension r of None \<Rightarrow> True | Some x \<Rightarrow> identity_ok x) \<and> phase_shape r"
  by (cases "oj_phase r"; cases "oj_extension r")
    (simp_all add: validate_record_def and_then_Ok phase_shape_def validate_attempt_iff validate_identity_iff conj_ac)

lemma from_to_stored [simp]:
  "from_stored_journal (to_stored_journal r) = and_then (validate_record r) (\<lambda>_. Ok r)"
  by (cases r) (simp add: from_stored_journal_def to_stored_journal_def owner_journal.defs stored_journal.defs Let_def)

lemma from_stored_valid: "from_stored_journal st = Ok r \<Longrightarrow> validate_record r = Ok ()"
  by (auto simp: from_stored_journal_def Let_def and_then_Ok split: if_splits)

lemma view_valid: "journal_view c s = Some (JPresent r) \<Longrightarrow> validate_record r = Ok ()"
  by (auto simp: journal_view_def and_then_Ok from_stored_valid split: slot.splits if_splits sum.splits)

lemma view_shape: "journal_view c s = Some (JPresent r) \<Longrightarrow> phase_shape r"
  using view_valid [of c s r] by (simp add: validate_record_iff)

lemma view_NoFile [simp]: "journal_view c NoFile = Some JMissing"
  by (simp add: journal_view_def)

lemma try_io_Ok: "try_io outcome ctx p k = Ok x \<longleftrightarrow> outcome = None \<and> k = Ok x"
  by (cases outcome) (simp_all add: try_io_def)

lemma read_view: "read_unlocked c p io s = Ok v \<Longrightarrow> journal_view c s = Some v"
  by (auto simp: read_unlocked_def journal_view_def try_io_Ok and_then_Ok not_less
      split: slot.splits if_splits sum.splits option.splits)

lemma try_in_cases:
  "try_in s r k = (s', res) \<longleftrightarrow> (\<exists>e. r = Inl e \<and> s' = s \<and> res = Inl e) \<or> (\<exists>x. r = Inr x \<and> k x = (s', res))"
  by (cases r) auto

lemma write_cases:
  assumes "write_unlocked c p io tmp s r = (s', res)"
  shows "s' = s \<and> (\<exists>e. res = Err e)
    \<or> (\<exists>b. encode c (to_stored_journal r) = Ok b \<and> s' = Bytes b \<and> validate_record r = Ok () \<and> res = sync_parent p io)"
  using assms by (auto simp: write_unlocked_def try_in_cases split: sum.splits)

lemma remove_cases:
  assumes "remove_journal p io ctx s = (s', res)"
  shows "s' = s \<and> (\<exists>e. res = Err e) \<or> s' = NoFile \<and> res = and_then (sync_parent p io) (\<lambda>_. Ok True)"
  using assms by (auto simp: remove_journal_def try_in_cases)

lemma written_view:
  assumes "reads_back c" "encode c (to_stored_journal r) = Ok b" "validate_record r = Ok ()" "fits c (JPresent r)"
  shows "journal_view c (Bytes b) = Some (JPresent r)"
  using assms by (simp add: reads_back_def fits_def journal_view_def)

text \<open>The outcome of a write whose record is the specified one.\<close>

definition agrees :: "('b, stored_journal) codec \<Rightarrow> 'b slot \<Rightarrow> journal_read \<Rightarrow> journal_read \<Rightarrow> bool
    \<Rightarrow> 'b slot \<Rightarrow> (str, bool) result \<Rightarrow> bool" where
  "agrees c s v v' ans s' res \<longleftrightarrow>
     (v' = v \<longrightarrow> s' = s) \<and>
     (journal_view c s' = Some v' \<and> res = Ok ans
      \<or> (\<exists>e. res = Err e) \<and> (s' = s \<or> journal_view c s' = Some v'))"

lemma write_agrees:
  assumes "write_unlocked c p io tmp s r = (s', res)" "reads_back c" "fits c (JPresent r)" "v \<noteq> JPresent r"
  shows "agrees c s v (JPresent r) True s' (and_then res (\<lambda>_. Ok True))"
  using write_cases [OF assms(1)] written_view [OF assms(2) _ _ assms(3)] assms(4)
  by (cases "sync_parent p io") (auto simp: agrees_def)

lemma remove_agrees:
  "remove_journal p io ctx s = (s', res) \<Longrightarrow> v \<noteq> JMissing \<Longrightarrow> agrees c s v JMissing True s' res"
  by (drule remove_cases, cases "sync_parent p io") (auto simp: agrees_def)

lemma same_agrees: "journal_view c s = Some v \<Longrightarrow> agrees c s v v ans s (Ok ans)"
  by (simp add: agrees_def)

lemma err_agrees: "agrees c s v v' ans s (Err e)"
  by (simp add: agrees_def)

text \<open>The common shape of a run: the guards, the lock and the read may fail without effect.\<close>

definition refines :: "('b, stored_journal) codec \<Rightarrow> 'b slot \<Rightarrow> journal_read \<Rightarrow> (journal_read \<times> bool) option
    \<Rightarrow> 'b slot \<Rightarrow> (str, bool) result \<Rightarrow> bool" where
  "refines c s v spec s' res \<longleftrightarrow>
     (case spec of None \<Rightarrow> s' = s \<and> (\<exists>e. res = Err e) | Some (v', ans) \<Rightarrow> agrees c s v v' ans s' res)"

lemma refines_err: "refines c s v spec s (Err e)"
  by (auto simp: refines_def err_agrees split: option.splits prod.splits)

lemma refines_Some: "refines c s v (Some (v', ans)) s' res \<longleftrightarrow> agrees c s v v' ans s' res"
  by (simp add: refines_def)

lemma as_true_err: "as_true (s, Err e) = (s, Err e)" "as_true (s, Ok u) = (s, Ok True)"
  by (simp_all add: as_true_def)

lemma refines_unchanged:
  "journal_view c s = Some v \<Longrightarrow> v' = v \<Longrightarrow> refines c s v (Some (v', ans)) s (Ok ans)"
  by (simp add: refines_Some same_agrees)

text \<open>A run either stops at the lock or at the read, or continues on the record it sees.\<close>

lemma locked_read_cases:
  assumes "journal_view c s = Some v"
  obtains (unlocked) e where "lock_journal p io = Err e"
  | (unread) e where "lock_journal p io = Ok ()" "read_unlocked c p io s = Err e"
  | (found) "lock_journal p io = Ok ()" "read_unlocked c p io s = Ok v"
  using assms read_view by (cases "lock_journal p io"; cases "read_unlocked c p io s") fastforce+

lemma refines_write:
  assumes "reads_back c" "fits c (JPresent r)" "v \<noteq> JPresent r"
  shows "refines c s v (Some (JPresent r, True)) (fst (as_true (write_unlocked c p io tmp s r)))
     (snd (as_true (write_unlocked c p io tmp s r)))"
  using write_agrees [of c p io tmp s r] assms
  by (cases "write_unlocked c p io tmp s r") (simp add: refines_Some as_true_def)

lemma refines_remove:
  "v \<noteq> JMissing \<Longrightarrow> refines c s v (Some (JMissing, True)) (fst (remove_journal p io ctx s)) (snd (remove_journal p io ctx s))"
  by (cases "remove_journal p io ctx s") (simp add: refines_Some remove_agrees)

lemma refines_same: "journal_view c s = Some v \<Longrightarrow> refines c s v (Some (v, ans)) s (Ok ans)"
  by (simp add: refines_Some same_agrees)

subsection \<open>Each operation refines its specification\<close>

lemma create_refines:
  assumes v: "journal_view c s = Some v" and rb: "reads_back c"
    and f: "\<And>v' ans. spec_op (OpCreate r) v = Some (v', ans) \<Longrightarrow> v' \<noteq> v \<Longrightarrow> fits c v'"
  shows "refines c s v (spec_op (OpCreate r) v)
     (fst (as_true (create_pending_exact c p io tmp r s))) (snd (as_true (create_pending_exact c p io tmp r s)))"
proof (cases "validate_record r = Ok () \<and> oj_phase r = Pending")
  case True
  then have ext: "oj_extension r = None" by (auto simp: validate_record_iff phase_shape_def)
  show ?thesis
    unfolding create_pending_exact_def
    by (rule locked_read_cases [OF v, of p io])
      (use True ext v f in
        \<open>auto simp: as_true_err refines_err refines_same intro: refines_write [OF rb] split: journal_read.split\<close>)
next
  case False
  then show ?thesis
    unfolding create_pending_exact_def
    by (cases "validate_record r") (auto simp: refines_def as_true_err)
qed

text \<open>A record that passed validation has one of three shapes.\<close>

lemma shape_cases:
  assumes "phase_shape r"
  obtains "oj_phase r = Pending" "oj_extension r = None"
  | x where "oj_phase r = Attached" "oj_extension r = Some x"
  | "oj_phase r = Stopping" "oj_extension r = None"
  using assms by (cases "oj_phase r"; cases "oj_extension r") (auto simp: phase_shape_def)

lemma present_cases:
  assumes "journal_view c s = Some v"
  obtains "v = JMissing" | r where "v = JPresent r" "phase_shape r"
  using assms view_shape by (cases v) auto

lemma changed:
  "oj_phase r = Pending \<Longrightarrow> r\<lparr>oj_phase := Attached, oj_extension := e\<rparr> \<noteq> r"
  "oj_phase r = Pending \<Longrightarrow> r\<lparr>oj_phase := Stopping\<rparr> \<noteq> r"
  "oj_extension r \<noteq> e \<Longrightarrow> r\<lparr>oj_extension := e\<rparr> \<noteq> r"
  by (cases r; simp)+

lemmas changed_both = changed changed [symmetric]

lemmas guards = validate_attempt_id_def validate_identity_def attempt_ok_def

lemma attach_refines:
  assumes v: "journal_view c s = Some v" and rb: "reads_back c"
    and f: "\<And>v' ans. spec_op (OpAttach a i x) v = Some (v', ans) \<Longrightarrow> v' \<noteq> v \<Longrightarrow> fits c v'"
  shows "refines c s v (spec_op (OpAttach a i x) v)
     (fst (as_true (upgrade_attached_exact c p io tmp a i x s))) (snd (as_true (upgrade_attached_exact c p io tmp a i x s)))"
proof (cases "attempt_ok a \<and> identity_ok i \<and> identity_ok x")
  case True
  note w = refines_write [OF rb]
  show ?thesis
    using v
  proof (cases rule: present_cases)
    case 1
    show ?thesis
      unfolding upgrade_attached_exact_def
      by (rule locked_read_cases [OF v, of p io]) (use True 1 in \<open>auto simp: as_true_err refines_err\<close>)
  next
    case (2 r)
    show ?thesis
      unfolding upgrade_attached_exact_def
      by (rule locked_read_cases [OF v, of p io]; rule shape_cases [OF 2(2)])
        (use True 2(1) v f in \<open>auto simp: as_true_err refines_err changed_both intro: w refines_unchanged\<close>)
  qed
qed (auto simp: upgrade_attached_exact_def guards refines_def as_true_err)

lemma fence_refines:
  assumes v: "journal_view c s = Some v" and rb: "reads_back c"
    and f: "\<And>v' ans. spec_op (OpFence a i) v = Some (v', ans) \<Longrightarrow> v' \<noteq> v \<Longrightarrow> fits c v'"
  shows "refines c s v (spec_op (OpFence a i) v)
     (fst (fence_pending_stop_exact c p io tmp a i s)) (snd (fence_pending_stop_exact c p io tmp a i s))"
proof (cases "attempt_ok a \<and> identity_ok i")
  case True
  note w = refines_write [OF rb, unfolded as_true_def fst_conv snd_conv]
  show ?thesis
    using v
  proof (cases rule: present_cases)
    case 1
    show ?thesis
      unfolding fence_pending_stop_exact_def
      by (rule locked_read_cases [OF v, of p io]) (use True 1 v in \<open>auto simp: refines_err refines_same\<close>)
  next
    case (2 r)
    show ?thesis
      unfolding fence_pending_stop_exact_def
      by (rule locked_read_cases [OF v, of p io]; rule shape_cases [OF 2(2)])
        (use True 2(1) v f in \<open>auto simp: refines_err split_beta changed_both intro: w refines_unchanged\<close>)
  qed
qed (auto simp: fence_pending_stop_exact_def guards refines_def)

lemma rebind_refines:
  assumes v: "journal_view c s = Some v" and rb: "reads_back c"
    and f: "\<And>v' ans. spec_op (OpRebind a i x y) v = Some (v', ans) \<Longrightarrow> v' \<noteq> v \<Longrightarrow> fits c v'"
  shows "refines c s v (spec_op (OpRebind a i x y) v)
     (fst (as_true (rebind_attached_exact c p io tmp a i x y s)))
     (snd (as_true (rebind_attached_exact c p io tmp a i x y s)))"
proof (cases "attempt_ok a \<and> identity_ok i \<and> identity_ok x \<and> identity_ok y")
  case True
  note w = refines_write [OF rb]
  show ?thesis
    using v
  proof (cases rule: present_cases)
    case 1
    show ?thesis
      unfolding rebind_attached_exact_def
      by (rule locked_read_cases [OF v, of p io]) (use True 1 in \<open>auto simp: as_true_err refines_err\<close>)
  next
    case (2 r)
    show ?thesis
      unfolding rebind_attached_exact_def
      by (rule locked_read_cases [OF v, of p io]; rule shape_cases [OF 2(2)])
        (use True 2(1) v f in \<open>auto simp: as_true_err refines_err changed_both intro: w refines_unchanged\<close>)
  qed
qed (auto simp: rebind_attached_exact_def guards refines_def as_true_err)

lemma delete_refines:
  assumes v: "journal_view c s = Some v"
  shows "refines c s v (spec_op (OpDelete a x) v) (fst (delete_exact c p io a x s)) (snd (delete_exact c p io a x s))"
proof (cases "attempt_ok a \<and> (case x of None \<Rightarrow> True | Some i \<Rightarrow> identity_ok i)")
  case True
  then have g: "validate_attempt_id a = Ok ()"
    "(case x of None \<Rightarrow> Ok () | Some i \<Rightarrow> validate_identity ''expected Extension'' i) = Ok ()"
    by (auto split: option.splits)
  show ?thesis
    unfolding delete_exact_def g
    by (rule locked_read_cases [OF v, of p io])
      (use True v in \<open>auto simp: refines_err refines_same refines_remove split: journal_read.split option.splits\<close>)
qed (auto simp: delete_exact_def guards refines_def split: option.splits)

lemma delete_pending_refines:
  assumes v: "journal_view c s = Some v"
  shows "refines c s v (spec_op (OpDeletePending a) v)
     (fst (delete_pending_exact c p io a s)) (snd (delete_pending_exact c p io a s))"
proof (cases "attempt_ok a")
  case True
  show ?thesis
    using v
  proof (cases rule: present_cases)
    case 1
    show ?thesis
      unfolding delete_pending_exact_def
      by (rule locked_read_cases [OF v, of p io]) (use True 1 v in \<open>auto simp: refines_err refines_same\<close>)
  next
    case (2 r)
    show ?thesis
      unfolding delete_pending_exact_def
      by (rule locked_read_cases [OF v, of p io]; rule shape_cases [OF 2(2)])
        (use True 2(1) v in \<open>auto simp: refines_err refines_same refines_remove\<close>)
  qed
qed (auto simp: delete_pending_exact_def guards refines_def)

lemma run_refines:
  assumes "journal_view c s = Some v" "reads_back c"
    and "\<And>v' ans. spec_op op v = Some (v', ans) \<Longrightarrow> v' \<noteq> v \<Longrightarrow> fits c v'"
  shows "refines c s v (spec_op op v) (fst (run_op c p io tmp op s)) (snd (run_op c p io tmp op s))"
  using assms
  by (cases op)
    (auto simp del: spec_op.simps intro!: create_refines attach_refines fence_refines rebind_refines
      delete_refines delete_pending_refines)

text \<open>An operation whose specification keeps the record keeps the file.\<close>

lemma run_quiet:
  assumes "journal_view c s = Some v" "reads_back c"
    and "\<And>v' ans. spec_op op v = Some (v', ans) \<Longrightarrow> v' = v"
  shows "fst (run_op c p io tmp op s) = s"
  using run_refines [OF assms(1,2), of op p io tmp] assms(3)
  by (auto simp: refines_def agrees_def split: option.splits)

lemma unreadable_read: "journal_view c s = None \<Longrightarrow> \<exists>e. read_unlocked c p io s = Err e"
  using read_view [of c p io s] by (cases "read_unlocked c p io s") auto

lemma try_in_same: "(\<And>x. r = Ok x \<Longrightarrow> k x = (s, Err (f x))) \<Longrightarrow> fst (try_in s r k) = s \<and> (\<exists>e. snd (try_in s r k) = Err e)"
  by (cases r) auto

text \<open>Sequences of operations, each with its own plan.\<close>

fun run_ops :: "('b, stored_journal) codec \<Rightarrow> file_path \<Rightarrow> (io_plan \<times> str \<times> owner_op) list \<Rightarrow> 'b slot \<Rightarrow> 'b slot" where
  "run_ops c p [] s = s"
| "run_ops c p ((io, tmp, op) # rest) s = run_ops c p rest (fst (run_op c p io tmp op s))"

lemma run_ops_quiet:
  assumes "journal_view c s = Some v" "reads_back c"
    and "\<And>io tmp op v' ans. (io, tmp, op) \<in> set ops \<Longrightarrow> spec_op op v = Some (v', ans) \<Longrightarrow> v' = v"
  shows "run_ops c p ops s = s"
  using assms(3)
proof (induction ops)
  case (Cons x ops)
  obtain io tmp op where x: "x = (io, tmp, op)" by (cases x)
  have "fst (run_op c p io tmp op s) = s"
    using assms(1,2) Cons.prems [of io tmp op] x by (intro run_quiet) auto
  with Cons x show ?case by (metis list.set_intros(2) run_ops.simps(2))
qed simp

subsection \<open>The properties\<close>

text \<open>C8: every operation on the owner journal, whatever system call fails and wherever, does on the
  record exactly what its compare-and-swap specification says: a refusal is an error that leaves the
  file as it was; otherwise the answer and the record are the specified ones, or an error is reported
  and the file shows the old record or the specified new one.\<close>

theorem owner_op_refines:
  assumes "reads_back c" "journal_view c s = Some v"
    and "case spec_op op v of None \<Rightarrow> True | Some (v', _) \<Rightarrow> fits c v'"
    and "run_op c p io tmp op s = (s', res)"
  shows "case spec_op op v of
      None \<Rightarrow> s' = s \<and> (\<exists>e. res = Err e)
    | Some (v', ans) \<Rightarrow>
        journal_view c s' = Some v' \<and> res = Ok ans
        \<or> (\<exists>e. res = Err e) \<and> (s' = s \<or> journal_view c s' = Some v')"
proof -
  have "refines c s v (spec_op op v) s' res"
    using run_refines [OF assms(2,1), of op p io tmp] assms(3,4) by (auto split: option.splits)
  then show ?thesis by (auto simp: refines_def agrees_def split: option.splits)
qed

text \<open>a stop fence is permanent. Once the journal shows a Stopping record, no sequence of
  operations with any pattern of system-call failures changes the file, as long as the confirmed
  cleanup (the exact deletion of that unattached attempt) is not among them: no late Want attaches.\<close>

theorem stop_fence_permanent:
  assumes "reads_back c" "journal_view c s = Some (JPresent r)" "oj_phase r = Stopping"
    and "\<forall>(io, tmp, op) \<in> set ops. op \<noteq> OpDelete (oj_attempt_id r) None"
  shows "run_ops c p ops s = s"
proof (rule run_ops_quiet [OF assms(2,1)])
  fix io tmp op v' ans
  assume op: "(io, tmp, op) \<in> set ops" and sp: "spec_op op (JPresent r) = Some (v', ans)"
  have e: "oj_extension r = None"
    using view_shape [OF assms(2)] assms(3) by (simp add: phase_shape_def)
  from op assms(4) have "op \<noteq> OpDelete (oj_attempt_id r) None" by auto
  with sp e assms(3) show "v' = JPresent r"
    by (cases op) (auto split: if_splits)
qed

text \<open>an attached Extension keeps its attempt: no sequence of operations changes the journal of an
  attached record unless it names that very Extension, in a rebinding from it or in its deletion.\<close>

theorem attached_not_displaced:
  assumes "reads_back c" "journal_view c s = Some (JPresent r)" "oj_extension r = Some x"
    and "\<forall>(io, tmp, op) \<in> set ops. op \<noteq> OpDelete (oj_attempt_id r) (Some x)
           \<and> (\<forall>y. op \<noteq> OpRebind (oj_attempt_id r) (oj_issuer r) x y)"
  shows "run_ops c p ops s = s"
proof (rule run_ops_quiet [OF assms(2,1)])
  fix io tmp op v' ans
  assume op: "(io, tmp, op) \<in> set ops" and sp: "spec_op op (JPresent r) = Some (v', ans)"
  have e: "oj_phase r = Attached"
    using view_shape [OF assms(2)] assms(3) by (simp add: phase_shape_def)
  from op assms(4) have "op \<noteq> OpDelete (oj_attempt_id r) (Some x)"
    "\<And>y. op \<noteq> OpRebind (oj_attempt_id r) (oj_issuer r) x y" by auto
  with sp e assms(3) show "v' = JPresent r"
    by (cases op) (auto split: if_splits)
qed

text \<open>a journal file that cannot be read (too large, malformed, of another version, invalid, or not
  a regular file) is never overwritten and never deleted: every operation fails and leaves it.\<close>

theorem unreadable_journal_kept:
  assumes "journal_view c s = None"
  shows "fst (run_op c p io tmp op s) = s \<and> (\<exists>e. snd (run_op c p io tmp op s) = Err e)"
proof -
  obtain e where "read_unlocked c p io s = Err e" using unreadable_read [OF assms] by blast
  then show ?thesis
    by (cases op; cases "lock_journal p io")
      (auto simp: create_pending_exact_def upgrade_attached_exact_def fence_pending_stop_exact_def
        rebind_attached_exact_def delete_exact_def delete_pending_exact_def try_in_def as_true_def
        split: sum.splits)
qed

text \<open>C29: when no system call fails, an operation the specification accepts succeeds with the specified
  answer and the journal shows the specified record: nothing else can make it fail.\<close>

theorem owner_op_available:
  assumes "reads_back c" "\<forall>x. \<exists>b. encode c x = Ok b" "fp_parent p = Some d" "d \<noteq> []" "fp_name p = Some n"
    and "journal_view c s = Some v" "spec_op op v = Some (v', ans)" "fits c v'"
  shows "snd (run_op c p io_ok tmp op s) = Ok ans \<and> journal_view c (fst (run_op c p io_ok tmp op s)) = Some v'"
proof -
  have lock: "lock_journal p io_ok = Ok ()" and sync: "sync_parent p io_ok = Ok ()"
    and temp: "file_name p = Ok n"
    using assms(3-5) by (simp_all add: lock_journal_def sync_parent_def journal_parent_def lock_path_def
        file_name_def try_io_def io_ok_def)
  have rd: "read_unlocked c p io_ok s = Ok v"
    using assms(6) by (auto simp: journal_view_def read_unlocked_def try_io_def io_ok_def and_then_def
        split: slot.splits if_splits sum.splits)
  have io: "io_create io_ok = None" "io_write io_ok = None" "io_sync io_ok = None" "io_rename io_ok = None"
    "io_remove io_ok = None" by (simp_all add: io_ok_def)
  have wr: "\<exists>b. write_unlocked c p io_ok tmp s r = (Bytes b, Ok ())" if "validate_record r = Ok ()" for r
    using assms(2) that by (auto simp: write_unlocked_def temp io sync try_io_def split: sum.splits)
      (metis sum.distinct(1) sum.inject(2))
  have valid: "\<And>r. v = JPresent r \<Longrightarrow> validate_record r = Ok ()" using assms(6) view_valid by blast
  have not_err: "\<nexists>e. snd (run_op c p io_ok tmp op s) = Err e"
  proof -
    have "\<exists>b. snd (run_op c p io_ok tmp op s) = Ok b"
    proof (cases op)
      case (OpCreate r)
      with assms(7) have r: "validate_record r = Ok ()" "oj_phase r = Pending" by (auto split: if_splits)
      then have "oj_extension r = None" by (auto simp: validate_record_iff phase_shape_def)
      with OpCreate r assms(7) show ?thesis
        using wr [of r] by (auto simp: create_pending_exact_def lock rd as_true_def
            split: journal_read.splits if_splits)
    next
      case (OpAttach a i x)
      then obtain r where r: "v = JPresent r" using assms(7) by (cases v) (auto split: if_splits)
      have "phase_shape r" using valid [OF r] by (simp add: validate_record_iff)
      then show ?thesis
        using OpAttach assms(7) valid [OF r] wr [of "r\<lparr>oj_phase := Attached, oj_extension := Some x\<rparr>"] r
        by (cases rule: shape_cases)
          (auto simp: upgrade_attached_exact_def lock rd as_true_def validate_record_iff phase_shape_def
            split: if_splits)
    next
      case (OpFence a i)
      show ?thesis
      proof (cases v)
        case JMissing
        with OpFence assms(7) show ?thesis
          by (auto simp: fence_pending_stop_exact_def lock rd split: if_splits)
      next
        case r: (JPresent r)
        have "phase_shape r" using valid [OF r] by (simp add: validate_record_iff)
        then show ?thesis
          using OpFence assms(7) valid [OF r] wr [of "r\<lparr>oj_phase := Stopping\<rparr>"] r
          by (cases rule: shape_cases)
            (auto simp: fence_pending_stop_exact_def lock rd validate_record_iff phase_shape_def
              split: if_splits)
      qed
    next
      case (OpRebind a i x y)
      then obtain r where r: "v = JPresent r" using assms(7) by (cases v) (auto split: if_splits)
      have "phase_shape r" using valid [OF r] by (simp add: validate_record_iff)
      then show ?thesis
        using OpRebind assms(7) valid [OF r] wr [of "r\<lparr>oj_extension := Some y\<rparr>"] r
        by (cases rule: shape_cases)
          (auto simp: rebind_attached_exact_def lock rd as_true_def validate_record_iff phase_shape_def
            split: if_splits)
    next
      case (OpDelete a x)
      with assms(7) show ?thesis
        by (auto simp: delete_exact_def lock rd remove_journal_def io try_io_def sync
            split: journal_read.splits if_splits option.splits)
    next
      case (OpDeletePending a)
      with assms(7) show ?thesis
        by (auto simp: delete_pending_exact_def lock rd remove_journal_def io try_io_def sync
            split: journal_read.splits if_splits option.splits)
    qed
    then show ?thesis by auto
  qed
  have "refines c s v (spec_op op v) (fst (run_op c p io_ok tmp op s)) (snd (run_op c p io_ok tmp op s))"
    by (rule run_refines) (use assms in auto)
  with not_err assms(7) show ?thesis by (auto simp: refines_Some agrees_def)
qed

subsection \<open>The lease\<close>

datatype lease_op = LAcquire nat lease_record | LObserve lease_record | LLock nat | LRelease nat

fun run_lease :: "('b, stored_lease) codec \<Rightarrow> file_path \<Rightarrow> io_plan \<Rightarrow> 'b \<Rightarrow> lease_op \<Rightarrow> 'b lease_file \<Rightarrow> 'b lease_file" where
  "run_lease c p io torn (LAcquire me r) f = fst (acquire_owner_lease_exact c p io torn me r f)"
| "run_lease c p io torn (LObserve r) f = f"
| "run_lease c p io torn (LLock me) f = fst (lock_released_owner_lease c p io me f)"
| "run_lease c p io torn (LRelease me) f = release_owner_lease me f"

fun run_leases :: "('b, stored_lease) codec \<Rightarrow> file_path \<Rightarrow> (io_plan \<times> 'b \<times> lease_op) list \<Rightarrow> 'b lease_file \<Rightarrow> 'b lease_file" where
  "run_leases c p [] f = f"
| "run_leases c p ((io, torn, op) # rest) f = run_leases c p rest (run_lease c p io torn op f)"

lemma open_LeaseFile: "open_owner_lease c p io create (LeaseFile b h) = Ok x \<Longrightarrow> x = (b, h)"
  by (auto simp: open_owner_lease_def and_then_Ok try_io_Ok split: if_splits)

lemma held_acquire:
  "\<exists>e. acquire_owner_lease_exact c p io torn me r (LeaseFile b (Some h)) = (LeaseFile b (Some h), Err e)"
  by (cases "validate_lease_record r"; cases "open_owner_lease c p io True (LeaseFile b (Some h))";
      cases "io_flock io")
    (auto simp: acquire_owner_lease_exact_def try_lock_owner_lease_def dest!: open_LeaseFile)

lemma held_lock:
  "\<exists>x. lock_released_owner_lease c p io me (LeaseFile b (Some h)) = (LeaseFile b (Some h), x) \<and> x \<noteq> Ok (Some me)"
  by (cases "open_owner_lease c p io False (LeaseFile b (Some h))"; cases "io_flock io")
    (auto simp: lock_released_owner_lease_def try_lock_owner_lease_def dest!: open_LeaseFile)

lemma held_run:
  assumes "op \<noteq> LRelease h"
  shows "run_lease c p io torn op (LeaseFile b (Some h)) = LeaseFile b (Some h)"
proof (cases op)
  case (LAcquire me r)
  then show ?thesis using held_acquire [of c p io torn me r b h] by auto
next
  case (LLock me)
  then show ?thesis using held_lock [of c p io me b h] by auto
qed (use assms in auto)

lemma held_runs:
  "\<forall>(io, torn, op) \<in> set ops. op \<noteq> LRelease h \<Longrightarrow>
     run_leases c p ops (LeaseFile b (Some h)) = LeaseFile b (Some h)"
proof (induction ops)
  case (Cons x ops)
  then obtain io torn op where "x = (io, torn, op)" "op \<noteq> LRelease h" by (cases x) auto
  with Cons show ?case by (simp add: held_run)
qed simp

lemma acquire_Ok:
  assumes "acquire_owner_lease_exact c p io torn me r f = (f', Ok h)"
  obtains b where "h = me" "f' = LeaseFile b (Some me)" "encode c (to_stored_lease r) = Ok b"
    "byte_len c b \<le> max_lease_bytes" "validate_lease_record r = Ok ()"
  using assms
  by (auto simp: acquire_owner_lease_exact_def write_owner_lease_record_def try_in_cases split: if_splits sum.splits prod.splits)

lemma from_to_stored_lease [simp]:
  "from_stored_lease (to_stored_lease r) = and_then (validate_lease_record r) (\<lambda>_. Ok r)"
  by (cases r) (simp add: from_stored_lease_def to_stored_lease_def lease_record.defs stored_lease.defs Let_def)

text \<open>C0: whoever acquires the lease keeps it until that holder drops it. No sequence of acquisitions,
  observations and guards by others, with any system-call failures, changes the file; every other
  acquisition fails, and an observer reports \<open>HeldExact\<close> for the holder's record and \<open>HeldOther\<close> for
  any other.\<close>

theorem lease_exclusive:
  assumes "reads_back c" "fp_parent p = Some d" "d \<noteq> []"
    and "acquire_owner_lease_exact c p io torn me r f = (f', Ok h)"
    and "\<forall>(io, torn, op) \<in> set ops. op \<noteq> LRelease me"
  shows "run_leases c p ops f' = f'
    \<and> (\<forall>io2 torn2 me2 r2. \<exists>e. snd (acquire_owner_lease_exact c p io2 torn2 me2 r2 f') = Err e)
    \<and> (\<forall>r2. (observe_owner_lease_exact c p io_ok r2 f' = Ok HeldExact \<longleftrightarrow> r2 = r))
    \<and> (\<forall>r2. observe_owner_lease_exact c p io_ok r2 f' \<noteq> Ok Released)"
proof -
  from assms(4) obtain b where f: "f' = LeaseFile b (Some me)" and b: "encode c (to_stored_lease r) = Ok b"
    "byte_len c b \<le> max_lease_bytes" and r: "validate_lease_record r = Ok ()"
    by (rule acquire_Ok)
  have "open_owner_lease c p io_ok False f' = Ok (b, Some me)"
    using assms(2,3) by (simp add: f open_owner_lease_def try_io_def io_ok_def)
  moreover have "read_owner_lease_record c p io_ok b = Ok (Some r)"
    using assms(1) b r by (simp add: read_owner_lease_record_def try_io_def io_ok_def reads_back_def)
  ultimately have ob: "observe_owner_lease_exact c p io_ok r2 f' =
      and_then (validate_lease_record r2) (\<lambda>_. Ok (if r = r2 then HeldExact else HeldOther))" for r2
    by (simp add: observe_owner_lease_exact_def try_lock_owner_lease_def io_ok_def)
  have e: "\<exists>e. snd (acquire_owner_lease_exact c p io2 torn2 me2 r2 f') = Err e" for io2 torn2 me2 r2
    using held_acquire [of c p io2 torn2 me2 r2 b me] by (auto simp: f)
  have h: "(observe_owner_lease_exact c p io_ok r2 f' = Ok HeldExact \<longleftrightarrow> r2 = r)
      \<and> observe_owner_lease_exact c p io_ok r2 f' \<noteq> Ok Released" for r2
    unfolding ob using r by (cases "validate_lease_record r2") auto
  from held_runs [OF assms(5)] e h show ?thesis by (simp add: f)
qed

subsection \<open>Process identity\<close>

lemma split_words_go:
  assumes "list_all plain w"
  shows "split_go ws_len acc (w @ s) = split_go ws_len (rev w @ acc) s"
  using assms by (induction w arbitrary: acc) (auto simp: split_go.simps [of _ _ "_ # _"] ws_len_plain)

lemma ws_len_space: "ws_len (CHR '' '' # s) = 1"
  by (cases "CHR '' '' # s" rule: ws_len.cases) (auto simp: ascii_ws_def cp_def)

lemma split_words:
  "\<forall>w \<in> set ws. list_all plain w \<Longrightarrow> ws \<noteq> [] \<Longrightarrow> split_go ws_len [] (join '' '' ws) = ws"
proof (induction ws rule: induct_list012)
  case (2 w)
  then show ?case using split_words_go [of w "[]" "[]"] by (simp add: split_go.simps)
next
  case (3 w x ws)
  then show ?case
    using split_words_go [of w "[]" "'' '' @ join '' '' (x # ws)"]
    by (simp add: split_go.simps [of _ _ "_ # _"] ws_len_space)
qed simp

lemma split_whitespace_words:
  assumes "\<forall>w \<in> set ws. w \<noteq> [] \<and> list_all plain w" "ws \<noteq> []"
  shows "split_whitespace ('' '' @ join '' '' ws) = ws"
proof -
  have "split_pat ws_len ('' '' @ join '' '' ws) = [] # ws"
    using split_words [of ws] assms
    by (simp add: split_pat_def split_go.simps [of _ _ "_ # _"] ws_len_space)
  then show ?thesis using assms(1) by (simp add: split_whitespace_def filter_id_conv)
qed

lemma rsplit_at_last: "c \<notin> set b \<Longrightarrow> rsplit_at c (a @ c # b) = Some b"
  by (simp add: rsplit_at_def takeWhile_tail takeWhile_append)

lemma set_join: "set (join sep ws) \<subseteq> set sep \<union> \<Union> (set ` set ws)"
  by (induction sep ws rule: join.induct) auto

text \<open>the start time is read from field 22 of \<open>/proc/<pid>/stat\<close> whatever the command name is,
  spaces and parentheses included.\<close>

theorem start_time_field:
  assumes "\<forall>w \<in> set ws. w \<noteq> [] \<and> list_all plain w \<and> CHR '')'' \<notin> set w" "19 < length ws"
    and "ws ! 19 = show_dec t" "t \<le> 18446744073709551615"
  shows "read_process_start_time (show_dec pid @ '' ('' @ comm @ '') '' @ join '' '' ws) = Ok t"
proof -
  have paren: "CHR '')'' \<notin> set ('' '' @ join '' '' ws)"
    using set_join [of "'' ''" ws] assms(1) by auto
  have "rsplit_at (CHR '')'') (show_dec pid @ '' ('' @ comm @ '') '' @ join '' '' ws)
      = Some ('' '' @ join '' '' ws)"
    using rsplit_at_last [OF paren, of "show_dec pid @ '' ('' @ comm"] by simp
  moreover have "split_whitespace ('' '' @ join '' '' ws) = ws"
    using assms(1,2) by (intro split_whitespace_words) auto
  ultimately show ?thesis
    using assms(2-4) by (simp add: read_process_start_time_def parse_uint_show)
qed

subsection \<open>Concrete instances\<close>

text \<open>A codec that keeps the record itself, with no record for the empty file.\<close>

definition demo_codec :: "('s option, 's) codec" where
  "demo_codec = \<lparr>encode = (\<lambda>s. Ok (Some s)),
     decode = (\<lambda>b. case b of None \<Rightarrow> Err ''EOF while parsing a value'' | Some s \<Rightarrow> Ok s),
     byte_len = (\<lambda>b. case b of None \<Rightarrow> 0 | Some _ \<Rightarrow> 200), no_bytes = None\<rparr>"

lemma demo_codec_reads_back: "reads_back demo_codec"
  by (simp add: reads_back_def demo_codec_def)

definition demo_path :: file_path where
  "demo_path = \<lparr>fp_display = ''/data/owner.json'', fp_parent = Some ''/data'', fp_name = Some ''owner.json''\<rparr>"

definition demo_issuer :: process_identity where
  "demo_issuer = \<lparr>pi_boot_id = ''boot'', pi_pid = 7, pi_start_time = 70\<rparr>"

definition demo_extension :: process_identity where
  "demo_extension = \<lparr>pi_boot_id = ''boot'', pi_pid = 8, pi_start_time = 80\<rparr>"

definition demo_pending :: owner_journal where
  "demo_pending = \<lparr>oj_attempt_id = ''a1'', oj_issuer = demo_issuer, oj_extension = None, oj_phase = Pending\<rparr>"

definition demo_attached :: owner_journal where
  "demo_attached = demo_pending\<lparr>oj_phase := Attached, oj_extension := Some demo_extension\<rparr>"

definition demo_stopping :: owner_journal where
  "demo_stopping = demo_pending\<lparr>oj_phase := Stopping\<rparr>"

definition demo_slot :: "owner_journal \<Rightarrow> stored_journal option slot" where
  "demo_slot r = Bytes (Some (to_stored_journal r))"

lemma demo_views:
  "journal_view demo_codec (demo_slot demo_pending) = Some (JPresent demo_pending)"
  "journal_view demo_codec (demo_slot demo_attached) = Some (JPresent demo_attached)"
  "journal_view demo_codec (demo_slot demo_stopping) = Some (JPresent demo_stopping)"
  by code_simp+

lemma demo_attach_spec:
  "spec_op (OpAttach ''a1'' demo_issuer demo_extension) (JPresent demo_pending) = Some (JPresent demo_attached, True)"
  by code_simp

lemma demo_fits: "fits demo_codec (JPresent demo_attached)"
  by code_simp

text \<open>The directory cannot be synced after the rename: an error, and the new record on disk.\<close>

lemma owner_op_refines_witness:
  "\<exists>s' res. run_op demo_codec demo_path (io_ok\<lparr>io_sync_dir := Some ''EIO''\<rparr>) ''.tmp''
       (OpAttach ''a1'' demo_issuer demo_extension) (demo_slot demo_pending) = (s', res)
     \<and> (journal_view demo_codec s' = Some (JPresent demo_attached) \<and> res = Ok True
        \<or> (\<exists>e. res = Err e) \<and> (s' = demo_slot demo_pending \<or> journal_view demo_codec s' = Some (JPresent demo_attached)))"
proof -
  obtain s' res where r: "run_op demo_codec demo_path (io_ok\<lparr>io_sync_dir := Some ''EIO''\<rparr>) ''.tmp''
       (OpAttach ''a1'' demo_issuer demo_extension) (demo_slot demo_pending) = (s', res)" by fastforce
  from owner_op_refines [OF demo_codec_reads_back demo_views(1) _ r] demo_fits
  show ?thesis using r by (simp add: demo_attach_spec del: spec_op.simps)
qed

lemma owner_op_available_witness:
  "snd (run_op demo_codec demo_path io_ok ''.tmp'' (OpAttach ''a1'' demo_issuer demo_extension) (demo_slot demo_pending)) = Ok True
   \<and> journal_view demo_codec (fst (run_op demo_codec demo_path io_ok ''.tmp''
        (OpAttach ''a1'' demo_issuer demo_extension) (demo_slot demo_pending))) = Some (JPresent demo_attached)"
proof -
  have e: "\<forall>x. \<exists>b. encode demo_codec x = Ok b" by (simp add: demo_codec_def)
  have p: "fp_parent demo_path = Some ''/data''" "''/data'' \<noteq> []" "fp_name demo_path = Some ''owner.json''"
    by (simp_all add: demo_path_def)
  show ?thesis
    by (rule owner_op_available [OF demo_codec_reads_back e p demo_views(1) demo_attach_spec demo_fits])
qed

lemma stop_fence_permanent_witness:
  "run_ops demo_codec demo_path
     [(io_ok, ''.t1'', OpAttach ''a1'' demo_issuer demo_extension), (io_ok, ''.t2'', OpDeletePending ''a1''),
      (io_ok, ''.t3'', OpCreate demo_pending)] (demo_slot demo_stopping) = demo_slot demo_stopping"
  by (rule stop_fence_permanent [OF demo_codec_reads_back demo_views(3)]) (simp_all add: demo_stopping_def)

lemma attached_not_displaced_witness:
  "run_ops demo_codec demo_path
     [(io_ok, ''.t1'', OpAttach ''a1'' demo_issuer demo_issuer), (io_ok, ''.t2'', OpDelete ''a1'' None),
      (io_ok, ''.t3'', OpFence ''a1'' demo_issuer)] (demo_slot demo_attached) = demo_slot demo_attached"
  by (rule attached_not_displaced [OF demo_codec_reads_back demo_views(2), of demo_extension])
    (simp_all add: demo_attached_def)

lemma unreadable_journal_kept_witness:
  "fst (run_op demo_codec demo_path io_ok ''.tmp'' (OpCreate demo_pending) (Bytes None)) = Bytes None"
proof -
  have "journal_view (demo_codec :: (stored_journal option, stored_journal) codec) (Bytes None) = None"
    by code_simp
  from unreadable_journal_kept [OF this] show ?thesis by blast
qed

definition demo_lease :: lease_record where
  "demo_lease = \<lparr>lr_attempt_id = ''a1'', lr_identity = demo_extension, lr_role = Extension\<rparr>"

lemma lease_exclusive_witness:
  "\<exists>f. acquire_owner_lease_exact demo_codec demo_path io_ok None 1 demo_lease LeaseMissing = (f, Ok 1)
     \<and> run_leases demo_codec demo_path
         [(io_ok, None, LLock 2), (io_ok, None, LAcquire 3 demo_lease), (io_ok, None, LRelease 2)] f = f
     \<and> observe_owner_lease_exact demo_codec demo_path io_ok demo_lease f = Ok HeldExact"
proof -
  have "snd (acquire_owner_lease_exact demo_codec demo_path io_ok None 1 demo_lease LeaseMissing) = Ok 1"
    by code_simp
  then obtain f where f: "acquire_owner_lease_exact demo_codec demo_path io_ok None 1 demo_lease LeaseMissing = (f, Ok 1)"
    by (metis prod.collapse)
  have p: "fp_parent demo_path = Some ''/data''" "''/data'' \<noteq> []" by (simp_all add: demo_path_def)
  have "\<forall>(io, torn, op) \<in> set [(io_ok, None, LLock 2), (io_ok, None, LAcquire 3 demo_lease), (io_ok, None, LRelease 2)].
      op \<noteq> LRelease 1" by simp
  from lease_exclusive [OF demo_codec_reads_back p f this] f show ?thesis by blast
qed

lemma start_time_field_witness:
  "read_process_start_time ''42 (a) b) S 1 2 3 4 5 6 7 8 9 10 11 12 13 14 15 16 17 18 777 20'' = Ok 777"
proof -
  let ?ws = "[''S'',''1'',''2'',''3'',''4'',''5'',''6'',''7'',''8'',''9'',''10'',''11'',''12'',''13'',''14'',
    ''15'',''16'',''17'',''18'',''777'',''20'']"
  have a: "\<forall>w \<in> set ?ws. w \<noteq> [] \<and> list_all plain w \<and> CHR '')'' \<notin> set w"
    by (simp add: plain_def cp_def)
  have "?ws ! 19 = show_dec 777" by code_simp
  from start_time_field [OF a _ this, of 42 "''a) b''"]
  have "read_process_start_time (show_dec 42 @ '' ('' @ ''a) b'' @ '') '' @ join '' '' ?ws) = Ok 777" by simp
  moreover have "show_dec 42 = ''42''" by code_simp
  ultimately show ?thesis by simp
qed

end
