(* ===== verification/Oc_Platform_State.thy ===== *)
theory Oc_Platform_State
  imports Oc_Model
begin

text \<open>
  \<open>crates/hopenconnect_core/src/platform_state.rs\<close>: what the UI process and the VPN Extension process exchange. Clocks are
  arguments; nanosecond and millisecond counters are \<open>nat\<close>, and \<open>saturating_sub\<close> is subtraction there.
\<close>

datatype start_outcome = OutIdle | OutPending | OutConnected | OutFailed | OutCancelled

definition session_handoff_max_age_nanos :: nat where
  "session_handoff_max_age_nanos = 10 * 60 * 1000000000"

definition browser_request_max_age_millis :: nat where
  "browser_request_max_age_millis = 2 * 60 * 1000"

record session_handoff =
  sh_attempt_id :: str
  sh_options :: vpn_options
  sh_network :: network_snapshot
  sh_updated_at :: nat

definition handoff_is_valid_for :: "nat \<Rightarrow> session_handoff \<Rightarrow> str \<Rightarrow> bool" where
  "handoff_is_valid_for now_nanos h attempt \<longleftrightarrow>
     attempt \<noteq> [] \<and> sh_attempt_id h = attempt \<and> sh_updated_at h > 0
     \<and> now_nanos - sh_updated_at h \<le> session_handoff_max_age_nanos"

record browser_open_request =
  br_request_id :: str
  br_attempt_id :: str
  br_uri :: str
  br_requested_at_ms :: nat

definition browser_is_valid_for :: "nat \<Rightarrow> browser_open_request \<Rightarrow> str \<Rightarrow> bool" where
  "browser_is_valid_for now_millis b attempt \<longleftrightarrow>
     br_request_id b \<noteq> [] \<and> attempt \<noteq> [] \<and> br_attempt_id b = attempt \<and> br_requested_at_ms b > 0
     \<and> now_millis - br_requested_at_ms b \<le> browser_request_max_age_millis"

record platform_vpn_state =
  ps_start_attempt_id :: str
  ps_start_outcome :: start_outcome
  ps_delivery_observed :: bool
  ps_extension_attached :: bool
  ps_stop_requested :: bool
  ps_extension_owner_pid :: nat
  ps_extension_owner_start_time :: nat
  ps_cleanup_complete :: bool
  ps_starting :: bool
  ps_running :: bool
  ps_lifecycle :: connection_lifecycle
  ps_last_error :: "str option"
  ps_assigned_ip :: str
  ps_gateway :: str
  ps_mtu :: nat
  ps_network :: network_snapshot
  ps_stats :: session_stats
  ps_diagnostics :: "diagnostic_entry list"
  ps_updated_at :: nat

definition platform_vpn_state_default :: platform_vpn_state where
  "platform_vpn_state_default = \<lparr>
     ps_start_attempt_id = [], ps_start_outcome = OutIdle, ps_delivery_observed = False,
     ps_extension_attached = False, ps_stop_requested = False, ps_extension_owner_pid = 0,
     ps_extension_owner_start_time = 0, ps_cleanup_complete = False, ps_starting = False,
     ps_running = False, ps_lifecycle = Disconnected, ps_last_error = None, ps_assigned_ip = [],
     ps_gateway = [], ps_mtu = 0, ps_network = network_default, ps_stats = session_stats_default,
     ps_diagnostics = [], ps_updated_at = 0\<rparr>"

text \<open>The document both processes publish (\<open>platform_ipc.rs\<close>).\<close>

record platform_envelope =
  pe_state :: "platform_vpn_state option"
  pe_session_handoff :: "session_handoff option"
  pe_browser_request :: "browser_open_request option"
  pe_browser_request_ack :: "str option"

definition platform_envelope_default :: platform_envelope where
  "platform_envelope_default = \<lparr>pe_state = None, pe_session_handoff = None,
     pe_browser_request = None, pe_browser_request_ack = None\<rparr>"

end
