(* ===== verification/Oc_Ipc.thy ===== *)
theory Oc_Ipc
  imports Oc_Platform_State "HOL-Library.Word"
begin

unbundle bit_operations_syntax

text \<open>
  \<open>crates/hopenconnect_core/src/platform_ipc.rs\<close>: the shared-memory channel between the UI process and the VPN Extension.
  Each process owns a lane of two slots and writes frames into them alternately, payload first,
  header last; a reader checks the header before and after it copies the payload.

  The ashmem binding is a parameter: the read and write calls of a mapped region. A reader that runs beside
  a writer sees the region at different moments, so the reading functions take the region as a
  function of the number of the read. Generations are \<open>u64\<close>: natural numbers with the wrap-around of
  \<open>fetch_add\<close> written out.
\<close>

type_synonym byte = "8 word"

record 'm ashmem =
  am_read :: "'m \<Rightarrow> nat \<Rightarrow> nat \<Rightarrow> (str, byte list) result"
  am_write :: "'m \<Rightarrow> nat \<Rightarrow> byte list \<Rightarrow> 'm \<times> (str, unit) result"

datatype ipc_error =
  LockPoisoned
| InvalidHeader
| FrameTooLarge nat nat
| Serialize str
| MemoryError str
| Notification str

datatype platform_role = Ui | Vpn

subsection \<open>Layout and byte order\<close>

definition region_size :: nat where "region_size = 8388608"
definition region_header_size :: nat where "region_header_size = 4096"
definition ui_lane_size :: nat where "ui_lane_size = 1048576"
definition frame_header_size :: nat where "frame_header_size = 32"
definition frame_magic :: nat where "frame_magic = 0x48414E59"
definition protocol_version :: nat where "protocol_version = 3"
definition slot_count :: nat where "slot_count = 2"

definition region_magic :: "byte list" where
  "region_magic = [0x48, 0x41, 0x4E, 0x59, 0x49, 0x50, 0x43, 0x00]"

fun le_bytes :: "nat \<Rightarrow> nat \<Rightarrow> byte list" where
  "le_bytes 0 n = []"
| "le_bytes (Suc k) n = word_of_nat n # le_bytes k (n div 256)"

fun le_val :: "byte list \<Rightarrow> nat" where
  "le_val [] = 0"
| "le_val (b # bs) = unat b + 256 * le_val bs"

definition slice :: "nat \<Rightarrow> nat \<Rightarrow> 'a list \<Rightarrow> 'a list" where
  "slice i j xs = take (j - i) (drop i xs)"

definition checksum :: "byte list \<Rightarrow> 32 word" where
  "checksum bs = foldl (\<lambda>hash b. (hash * 0x01000193) XOR ucast b) 0x811C9DC5 bs"

fun lane_layout :: "platform_role \<Rightarrow> nat \<times> nat" where
  "lane_layout Ui = (region_header_size, ui_lane_size div slot_count)"
| "lane_layout Vpn =
     (let offset = region_header_size + ui_lane_size in (offset, (region_size - offset) div slot_count))"

subsection \<open>Memory access\<close>

definition read_memory :: "'m ashmem \<Rightarrow> 'm \<Rightarrow> nat \<Rightarrow> nat \<Rightarrow> (ipc_error, byte list) result" where
  "read_memory am m offset len =
     (case am_read am m offset len of Err e \<Rightarrow> Err (MemoryError e) | Ok bs \<Rightarrow> Ok bs)"

definition write_memory :: "'m ashmem \<Rightarrow> 'm \<Rightarrow> nat \<Rightarrow> byte list \<Rightarrow> 'm \<times> (ipc_error, unit) result" where
  "write_memory am m offset bs =
     (case am_write am m offset bs of
        (m', Err e) \<Rightarrow> (m', Err (MemoryError e))
      | (m', Ok _) \<Rightarrow> (m', Ok ()))"

definition seq_in :: "'m \<times> ('e, 'a) result \<Rightarrow> ('m \<Rightarrow> 'm \<times> ('e, 'b) result) \<Rightarrow> 'm \<times> ('e, 'b) result" where
  "seq_in r k = (case r of (m, Inl e) \<Rightarrow> (m, Inl e) | (m, Inr _) \<Rightarrow> k m)"

subsection \<open>The region header\<close>

definition region_header :: "nat \<Rightarrow> byte list" where
  "region_header session =
     (let h = region_magic @ le_bytes 4 protocol_version @ le_bytes 4 region_size @ le_bytes 8 session
      in h @ le_bytes 4 (unat (checksum h)) @ le_bytes 4 0)"

definition initialize_region :: "'m ashmem \<Rightarrow> nat \<Rightarrow> 'm \<Rightarrow> 'm \<times> (ipc_error, unit) result" where
  "initialize_region am session m = write_memory am m 0 (region_header session)"

definition validate_region :: "'m ashmem \<Rightarrow> 'm \<Rightarrow> (ipc_error, unit) result" where
  "validate_region am m =
     and_then (read_memory am m 0 32) (\<lambda>h.
       if slice 0 8 h \<noteq> region_magic \<or> le_val (slice 8 12 h) \<noteq> protocol_version
          \<or> le_val (slice 12 16 h) \<noteq> region_size \<or> le_val (slice 24 28 h) \<noteq> unat (checksum (slice 0 24 h))
       then Err InvalidHeader else Ok ())"

subsection \<open>Frames\<close>

record frame_header =
  fh_generation :: nat
  fh_content_length :: nat
  fh_content_checksum :: nat

definition frame_header_parse :: "byte list \<Rightarrow> nat \<Rightarrow> frame_header option" where
  "frame_header_parse bs slot_size =
     (if length bs \<noteq> frame_header_size \<or> le_val (slice 0 4 bs) \<noteq> frame_magic
         \<or> le_val (slice 4 8 bs) \<noteq> protocol_version
         \<or> le_val (slice 24 28 bs) \<noteq> unat (checksum (slice 0 24 bs))
      then None
      else let content_length = le_val (slice 16 20 bs)
           in if content_length > slot_size - frame_header_size then None
              else Some \<lparr>fh_generation = le_val (slice 8 16 bs), fh_content_length = content_length,
                     fh_content_checksum = le_val (slice 20 24 bs)\<rparr>)"

definition frame_header_bytes :: "nat \<Rightarrow> byte list \<Rightarrow> byte list" where
  "frame_header_bytes generation content =
     (let h = le_bytes 4 frame_magic @ le_bytes 4 protocol_version @ le_bytes 8 generation
              @ le_bytes 4 (length content) @ le_bytes 4 (unat (checksum content))
      in h @ le_bytes 4 (unat (checksum h)) @ le_bytes 4 0)"

definition slot_offset :: "platform_role \<Rightarrow> nat \<Rightarrow> nat" where
  "slot_offset role generation =
     (case lane_layout role of (lane_offset, slot_size) \<Rightarrow> lane_offset + generation mod slot_count * slot_size)"

definition previous_length :: "'m ashmem \<Rightarrow> 'm \<Rightarrow> nat \<Rightarrow> nat \<Rightarrow> nat" where
  "previous_length am m offset slot_size =
     (case read_memory am m offset frame_header_size of
        Err _ \<Rightarrow> 0
      | Ok h \<Rightarrow> (case frame_header_parse h slot_size of None \<Rightarrow> 0 | Some f \<Rightarrow> fh_content_length f))"

definition write_frame ::
    "'m ashmem \<Rightarrow> platform_role \<Rightarrow> nat \<Rightarrow> byte list \<Rightarrow> 'm \<Rightarrow> 'm \<times> (ipc_error, unit) result" where
  "write_frame am role generation content m =
     (let slot_size = snd (lane_layout role); maximum = slot_size - frame_header_size
      in if length content > maximum then (m, Err (FrameTooLarge (length content) maximum))
         else let offset = slot_offset role generation; previous = previous_length am m offset slot_size
              in seq_in (write_memory am m (offset + frame_header_size) content) (\<lambda>m.
                 seq_in (if previous > length content
                         then write_memory am m (offset + frame_header_size + length content)
                                (replicate (previous - length content) 0)
                         else (m, Ok ())) (\<lambda>m.
                   write_memory am m offset (frame_header_bytes generation content))))"

text \<open>Up to three attempts; \<open>mem t\<close> is the region when the read of number \<open>t\<close> happens. The result carries
  the number of reads made.\<close>

fun read_frame_go ::
    "'m ashmem \<Rightarrow> (nat \<Rightarrow> 'm) \<Rightarrow> nat \<Rightarrow> nat \<Rightarrow> nat \<Rightarrow> nat \<Rightarrow> nat \<times> (ipc_error, (nat \<times> byte list) option) result" where
  "read_frame_go am mem offset slot_size 0 t = (t, Ok None)"
| "read_frame_go am mem offset slot_size (Suc n) t =
     (case read_memory am (mem t) offset frame_header_size of
        Err e \<Rightarrow> (t + 1, Err e)
      | Ok first \<Rightarrow>
          (case frame_header_parse first slot_size of
             None \<Rightarrow> read_frame_go am mem offset slot_size n (t + 1)
           | Some header \<Rightarrow>
               (case read_memory am (mem (t + 1)) (offset + frame_header_size) (fh_content_length header) of
                  Err e \<Rightarrow> (t + 2, Err e)
                | Ok content \<Rightarrow>
                    (case read_memory am (mem (t + 2)) offset frame_header_size of
                       Err e \<Rightarrow> (t + 3, Err e)
                     | Ok second \<Rightarrow>
                         if first = second \<and> unat (checksum content) = fh_content_checksum header
                         then (t + 3, Ok (Some (fh_generation header, content)))
                         else read_frame_go am mem offset slot_size n (t + 3)))))"

definition read_frame ::
    "'m ashmem \<Rightarrow> (nat \<Rightarrow> 'm) \<Rightarrow> nat \<Rightarrow> nat \<Rightarrow> nat \<Rightarrow> nat \<times> (ipc_error, (nat \<times> byte list) option) result" where
  "read_frame am mem offset slot_size t = read_frame_go am mem offset slot_size 3 t"

definition newer :: "(nat \<times> byte list) option \<Rightarrow> (nat \<times> byte list) option \<Rightarrow> (nat \<times> byte list) option" where
  "newer latest frame =
     (case frame of None \<Rightarrow> latest
      | Some (g, c) \<Rightarrow> (case latest of None \<Rightarrow> Some (g, c) | Some (h, d) \<Rightarrow> if g > h then Some (g, c) else latest))"

text \<open>The frame both slots agree on as latest, before it is decoded.\<close>

definition latest_frame ::
    "'m ashmem \<Rightarrow> platform_role \<Rightarrow> (nat \<Rightarrow> 'm) \<Rightarrow> (ipc_error, (nat \<times> byte list) option) result" where
  "latest_frame am role mem =
     (case lane_layout role of (lane_offset, slot_size) \<Rightarrow>
       (case read_frame am mem lane_offset slot_size 0 of
          (t, Err e) \<Rightarrow> Err e
        | (t, Ok a) \<Rightarrow>
            (case read_frame am mem (lane_offset + slot_size) slot_size t of
               (_, Err e) \<Rightarrow> Err e
             | (_, Ok b) \<Rightarrow> Ok (newer (newer None a) b))))"

definition read_lane ::
    "'m ashmem \<Rightarrow> (byte list, platform_envelope) codec \<Rightarrow> platform_role \<Rightarrow> (nat \<Rightarrow> 'm)
       \<Rightarrow> (ipc_error, platform_envelope option) result" where
  "read_lane am c role mem =
     and_then (latest_frame am role mem) (\<lambda>latest.
       case latest of None \<Rightarrow> Ok None
       | Some (_, content) \<Rightarrow> (case decode c content of Err e \<Rightarrow> Err (Serialize e) | Ok env \<Rightarrow> Ok (Some env)))"

definition latest_generation :: "'m ashmem \<Rightarrow> platform_role \<Rightarrow> 'm \<Rightarrow> (ipc_error, nat option) result" where
  "latest_generation am role m =
     (case lane_layout role of (lane_offset, slot_size) \<Rightarrow>
       and_then (read_memory am m lane_offset frame_header_size) (\<lambda>h0.
       and_then (read_memory am m (lane_offset + slot_size) frame_header_size) (\<lambda>h1.
         let best = (\<lambda>latest h. case frame_header_parse h slot_size of
                        None \<Rightarrow> latest
                      | Some f \<Rightarrow> Some (case latest of None \<Rightarrow> fh_generation f | Some v \<Rightarrow> max v (fh_generation f)))
         in Ok (best (best None h0) h1))))"

subsection \<open>The channel of one process\<close>

record ipc =
  ipc_role :: platform_role
  ipc_published :: platform_envelope
  ipc_next_generation :: nat
  ipc_session :: nat

definition u64_max :: nat where "u64_max = 18446744073709551615"

definition create_ui :: "'m ashmem \<Rightarrow> nat \<Rightarrow> 'm \<Rightarrow> 'm \<times> (ipc_error, ipc) result" where
  "create_ui am session m =
     seq_in (initialize_region am session m) (\<lambda>m.
       (m, Ok \<lparr>ipc_role = Ui, ipc_published = platform_envelope_default, ipc_next_generation = 1,
              ipc_session = session\<rparr>))"

definition seed_next_generation :: "'m ashmem \<Rightarrow> 'm \<Rightarrow> ipc \<Rightarrow> (ipc_error, ipc) result" where
  "seed_next_generation am m i =
     and_then (latest_generation am (ipc_role i) m) (\<lambda>latest.
       let v = (case latest of None \<Rightarrow> 0 | Some g \<Rightarrow> g)
       in Ok (i\<lparr>ipc_next_generation := min (v + 1) u64_max\<rparr>))"

text \<open>The two descriptors of the Want; \<open>mapped\<close> is the outcome of duplicating and mapping the first, with
  the size the binding reports.\<close>

definition attach_vpn_raw ::
    "'m ashmem \<Rightarrow> int \<Rightarrow> int \<Rightarrow> (ipc_error, nat) result \<Rightarrow> 'm \<Rightarrow> (ipc_error, ipc) result" where
  "attach_vpn_raw am ashmem_fd notification_fd mapped m =
     (if ashmem_fd < 0 \<or> notification_fd < 0 then Err InvalidHeader
      else and_then mapped (\<lambda>mapped_size.
           if mapped_size \<noteq> region_size then Err InvalidHeader
           else and_then (validate_region am m) (\<lambda>_.
                and_then (read_memory am m 0 32) (\<lambda>h.
                  seed_next_generation am m \<lparr>ipc_role = Vpn, ipc_published = platform_envelope_default,
                    ipc_next_generation = 1, ipc_session = le_val (slice 16 24 h)\<rparr>))))"

definition replace_snapshot ::
    "platform_envelope \<Rightarrow> platform_vpn_state \<Rightarrow> session_handoff option \<Rightarrow> browser_open_request option
       \<Rightarrow> str option \<Rightarrow> platform_envelope \<times> bool" where
  "replace_snapshot published state handoff browser ack =
     (\<lparr>pe_state = Some state, pe_session_handoff = handoff, pe_browser_request = browser,
        pe_browser_request_ack = ack\<rparr>,
      (pe_session_handoff published \<noteq> None \<and> handoff = None)
      \<or> (pe_browser_request published \<noteq> None \<and> browser = None))"

text \<open>\<open>notified\<close> is the outcome of waking the peer.\<close>

definition publish ::
    "'m ashmem \<Rightarrow> (byte list, platform_envelope) codec \<Rightarrow> (ipc_error, unit) result \<Rightarrow> platform_envelope
       \<Rightarrow> ipc \<times> 'm \<Rightarrow> (ipc \<times> 'm) \<times> (ipc_error, unit) result" where
  "publish am c notified envelope im =
     (case im of (i, m) \<Rightarrow>
       (case encode c envelope of
          Err e \<Rightarrow> ((i, m), Err (Serialize e))
        | Ok content \<Rightarrow>
            (let g = ipc_next_generation i;
                 i' = i\<lparr>ipc_next_generation := (g + 1) mod (u64_max + 1)\<rparr>
             in case write_frame am (ipc_role i) g content m of
                  (m', Err e) \<Rightarrow> ((i', m'), Err e)
                | (m', Ok _) \<Rightarrow> ((i', m'), notified))))"

definition publish_snapshot ::
    "'m ashmem \<Rightarrow> (byte list, platform_envelope) codec \<Rightarrow> (ipc_error, unit) result \<Rightarrow> (ipc_error, unit) result
       \<Rightarrow> platform_vpn_state \<Rightarrow> session_handoff option \<Rightarrow> browser_open_request option \<Rightarrow> str option
       \<Rightarrow> ipc \<times> 'm \<Rightarrow> (ipc \<times> 'm) \<times> (ipc_error, unit) result" where
  "publish_snapshot am c notified1 notified2 state handoff browser ack im =
     (let (envelope, scrub) = replace_snapshot (ipc_published (fst im)) state handoff browser ack;
          im = ((fst im)\<lparr>ipc_published := envelope\<rparr>, snd im)
      in seq_in (publish am c notified1 envelope im) (\<lambda>im.
           if scrub then publish am c notified2 envelope im else (im, Ok ())))"

definition publish_state ::
    "'m ashmem \<Rightarrow> (byte list, platform_envelope) codec \<Rightarrow> (ipc_error, unit) result \<Rightarrow> platform_vpn_state
       \<Rightarrow> ipc \<times> 'm \<Rightarrow> (ipc \<times> 'm) \<times> (ipc_error, unit) result" where
  "publish_state am c notified state im =
     (let envelope = (ipc_published (fst im))\<lparr>pe_state := Some state\<rparr>
      in publish am c notified envelope ((fst im)\<lparr>ipc_published := envelope\<rparr>, snd im))"

fun remote_role :: "platform_role \<Rightarrow> platform_role" where
  "remote_role Ui = Vpn"
| "remote_role Vpn = Ui"

definition read_remote ::
    "'m ashmem \<Rightarrow> (byte list, platform_envelope) codec \<Rightarrow> ipc \<Rightarrow> (nat \<Rightarrow> 'm) \<Rightarrow> (ipc_error, platform_envelope option) result" where
  "read_remote am c i mem = read_lane am c (remote_role (ipc_role i)) mem"

end
