(* ===== verification/Oc_Ipc_Laws.thy ===== *)
theory Oc_Ipc_Laws
  imports Oc_Ipc
begin

unbundle bit_operations_syntax

text \<open>
  What the shared-memory channel guarantees, for any binding that behaves as mapped memory: frames
  read back, a lane shows the latest frame published, a publication leaves the frame a reader may be
  copying and the sibling's lane untouched, and a scrub removes the previous payload from both slots.
\<close>

subsection \<open>Mapped memory\<close>

definition patch :: "(nat \<Rightarrow> byte) \<Rightarrow> nat \<Rightarrow> byte list \<Rightarrow> nat \<Rightarrow> byte" where
  "patch v offset bs = (\<lambda>i. if offset \<le> i \<and> i < offset + length bs then bs ! (i - offset) else v i)"

definition bytes_at :: "(nat \<Rightarrow> byte) \<Rightarrow> nat \<Rightarrow> nat \<Rightarrow> byte list" where
  "bytes_at v offset n = map v [offset..<offset + n]"

text \<open>What the code relies on from the binding: inside the region a read copies the bytes and a write
  stores them and nothing else.\<close>

definition mapped_memory :: "'m ashmem \<Rightarrow> ('m \<Rightarrow> nat \<Rightarrow> byte) \<Rightarrow> bool" where
  "mapped_memory am view \<longleftrightarrow>
     (\<forall>m offset n. offset + n \<le> region_size \<longrightarrow> am_read am m offset n = Ok (bytes_at (view m) offset n))
   \<and> (\<forall>m offset bs. offset + length bs \<le> region_size \<longrightarrow>
        (\<exists>m'. am_write am m offset bs = (m', Ok ()) \<and> view m' = patch (view m) offset bs))"

lemma read_mapped:
  "mapped_memory am view \<Longrightarrow> offset + n \<le> region_size \<Longrightarrow> read_memory am m offset n = Ok (bytes_at (view m) offset n)"
  by (simp add: mapped_memory_def read_memory_def)

lemma write_mapped:
  assumes "mapped_memory am view" "offset + length bs \<le> region_size"
  obtains m' where "write_memory am m offset bs = (m', Ok ())" "view m' = patch (view m) offset bs"
proof -
  from assms obtain m' where "am_write am m offset bs = (m', Ok ())" "view m' = patch (view m) offset bs"
    unfolding mapped_memory_def by blast
  then show ?thesis using that by (simp add: write_memory_def)
qed

lemma length_bytes_at [simp]: "length (bytes_at v offset n) = n"
  by (simp add: bytes_at_def)

lemma bytes_at_patch_same: "length bs = n \<Longrightarrow> bytes_at (patch v offset bs) offset n = bs"
  by (rule nth_equalityI) (auto simp: bytes_at_def patch_def)

lemma bytes_at_patch_other:
  "offset + n \<le> offset' \<or> offset' + length bs \<le> offset \<Longrightarrow> bytes_at (patch v offset' bs) offset n = bytes_at v offset n"
  by (auto simp: bytes_at_def patch_def)

lemma bytes_at_split: "a \<le> n \<Longrightarrow> bytes_at v offset n = bytes_at v offset a @ bytes_at v (offset + a) (n - a)"
  using upt_add_eq_append [of offset "offset + a" "n - a"] by (simp add: bytes_at_def flip: map_append)

lemma bytes_at_cong: "(\<And>i. offset \<le> i \<Longrightarrow> i < offset + n \<Longrightarrow> v i = w i) \<Longrightarrow> bytes_at v offset n = bytes_at w offset n"
  by (simp add: bytes_at_def)

subsection \<open>Little-endian numbers\<close>

lemma length_le_bytes [simp]: "length (le_bytes k n) = k"
  by (induction k arbitrary: n) auto

lemma le_val_bytes: "le_val (le_bytes k n) = n mod 256 ^ k"
proof (induction k arbitrary: n)
  case (Suc k)
  have "unat (word_of_nat n :: byte) = n mod 256" by (simp add: unat_of_nat)
  with Suc show ?case by (simp add: mod_mult2_eq)
qed simp

lemma le_val_word: "le_val (le_bytes 4 (unat (w :: 32 word))) = unat w"
proof -
  have "unat w < 2 ^ LENGTH(32)" by (rule unsigned_less)
  then show ?thesis by (simp add: le_val_bytes)
qed

lemma slice_left [simp]: "length a = j \<Longrightarrow> slice 0 j (a @ r) = a"
  by (simp add: slice_def)

lemma slice_skip: "length a \<le> i \<Longrightarrow> slice i j (a @ r) = slice (i - length a) (j - length a) r"
  by (simp add: slice_def)

lemma slice_all: "length a = j \<Longrightarrow> slice 0 j a = a"
  by (simp add: slice_def)

subsection \<open>Headers\<close>

lemma region_constants [simp]:
  "region_size = 8388608" "region_header_size = 4096" "ui_lane_size = 1048576" "frame_header_size = 32"
  "slot_count = 2" "protocol_version = 3" "u64_max = 18446744073709551615"
  by (simp_all add: region_size_def region_header_size_def ui_lane_size_def frame_header_size_def
      slot_count_def protocol_version_def u64_max_def)

lemma lane_layout_values:
  "lane_layout Ui = (4096, 524288)" "lane_layout Vpn = (1052672, 3667968)"
  by simp_all

declare lane_layout.simps [simp del]

lemma slot_size_bound: "snd (lane_layout role) \<le> 3667968" "32 < snd (lane_layout role)"
  by (cases role; simp add: lane_layout_values)+

lemma length_frame_header [simp]: "length (frame_header_bytes g c) = 32"
  by (simp add: frame_header_bytes_def Let_def)

lemma frame_header_parse_bytes:
  assumes "g < 2 ^ 64" "length c \<le> slot_size - 32" "length c < 2 ^ 32"
  shows "frame_header_parse (frame_header_bytes g c) slot_size =
     Some \<lparr>fh_generation = g, fh_content_length = length c, fh_content_checksum = unat (checksum c)\<rparr>"
proof -
  define h where "h = le_bytes 4 frame_magic @ le_bytes 4 protocol_version @ le_bytes 8 g
      @ le_bytes 4 (length c) @ le_bytes 4 (unat (checksum c))"
  have b: "frame_header_bytes g c = h @ le_bytes 4 (unat (checksum h)) @ le_bytes 4 0"
    by (simp add: frame_header_bytes_def h_def Let_def)
  have len: "length h = 24" by (simp add: h_def)
  have s: "slice 0 24 (frame_header_bytes g c) = h"
    "slice 24 28 (frame_header_bytes g c) = le_bytes 4 (unat (checksum h))"
    unfolding b using len by (simp_all add: slice_skip)
  have t: "slice 0 4 (frame_header_bytes g c) = le_bytes 4 frame_magic"
    "slice 4 8 (frame_header_bytes g c) = le_bytes 4 protocol_version"
    "slice 8 16 (frame_header_bytes g c) = le_bytes 8 g"
    "slice 16 20 (frame_header_bytes g c) = le_bytes 4 (length c)"
    "slice 20 24 (frame_header_bytes g c) = le_bytes 4 (unat (checksum c))"
    unfolding b h_def by (simp_all add: slice_skip)
  have v: "le_val (le_bytes 4 frame_magic) = frame_magic" "le_val (le_bytes 4 protocol_version) = protocol_version"
    "le_val (le_bytes 8 g) = g" "le_val (le_bytes 4 (length c)) = length c"
    using assms(1,3) by (simp_all add: le_val_bytes frame_magic_def)
  show ?thesis
    unfolding frame_header_parse_def s t v le_val_word using assms(2) by simp
qed

subsection \<open>Writing a frame\<close>

text \<open>The bytes of a slot after a frame was written: header, payload, zeros up to the previous payload's
  end, and the rest as before.\<close>

definition frame_patch :: "nat \<Rightarrow> nat \<Rightarrow> byte list \<Rightarrow> nat \<Rightarrow> (nat \<Rightarrow> byte) \<Rightarrow> nat \<Rightarrow> byte" where
  "frame_patch offset g c previous v =
     patch (patch (patch v (offset + 32) c) (offset + 32 + length c) (replicate (previous - length c) 0))
       offset (frame_header_bytes g c)"

lemma slot_in_lane:
  assumes "lane_layout role = (lane, slot_size)"
  shows "lane \<le> slot_offset role g" "slot_offset role g + slot_size \<le> lane + 2 * slot_size"
    "slot_offset role g = lane + g mod 2 * slot_size"
proof -
  have e: "slot_offset role g = lane + g mod 2 * slot_size" by (simp add: slot_offset_def assms)
  then show "slot_offset role g = lane + g mod 2 * slot_size" .
  show "lane \<le> slot_offset role g" by (simp add: e)
  have "g mod 2 \<le> 1" by simp
  then have "g mod 2 * slot_size \<le> slot_size" by (metis mult.commute mult.right_neutral mult_le_mono2)
  then show "slot_offset role g + slot_size \<le> lane + 2 * slot_size" by (simp add: e)
qed

lemma lane_in_region: "lane_layout role = (lane, slot_size) \<Longrightarrow> lane + 2 * slot_size \<le> 8388608"
  by (cases role) (auto simp: lane_layout_values)

lemma slot_in_region: "slot_offset role g + snd (lane_layout role) \<le> 8388608"
  using slot_in_lane [of role _ _ g] lane_in_region [of role]
  by (cases "lane_layout role") fastforce

lemma previous_length_bound: "previous_length am m offset slot_size \<le> slot_size - 32"
  by (auto simp: previous_length_def frame_header_parse_def Let_def not_less split: sum.splits option.splits if_splits)

lemma write_frame_mapped:
  assumes am: "mapped_memory am view" and c: "length c \<le> snd (lane_layout role) - 32"
  obtains m' where "write_frame am role g c m = (m', Ok ())"
    "view m' = frame_patch (slot_offset role g) g c
       (previous_length am m (slot_offset role g) (snd (lane_layout role))) (view m)"
proof -
  let ?o = "slot_offset role g" and ?s = "snd (lane_layout role)"
  let ?p = "previous_length am m ?o ?s"
  have r: "?o + ?s \<le> 8388608" by (rule slot_in_region)
  have s: "32 < ?s" by (rule slot_size_bound)
  have p: "?p \<le> ?s - 32" by (rule previous_length_bound)
  have "?o + 32 + length c \<le> region_size" using r s c by simp
  then obtain m1 where m1: "write_memory am m (?o + 32) c = (m1, Ok ())" "view m1 = patch (view m) (?o + 32) c"
    by (rule write_mapped [OF am])
  have "?o + 32 + length c + length (replicate (?p - length c) (0 :: byte)) \<le> region_size"
    using r s c p by simp
  then obtain m2 where m2: "write_memory am m1 (?o + 32 + length c) (replicate (?p - length c) 0) = (m2, Ok ())"
    "view m2 = patch (view m1) (?o + 32 + length c) (replicate (?p - length c) 0)"
    by (rule write_mapped [OF am])
  let ?m = "if ?p > length c then m2 else m1"
  have vm: "view ?m = patch (view m1) (?o + 32 + length c) (replicate (?p - length c) 0)"
    using m2(2) by (auto simp: patch_def fun_eq_iff)
  have "?o + length (frame_header_bytes g c) \<le> region_size" using r s by simp
  then obtain m3 where m3: "write_memory am ?m ?o (frame_header_bytes g c) = (m3, Ok ())"
    "view m3 = patch (view ?m) ?o (frame_header_bytes g c)"
    by (rule write_mapped [OF am])
  have "write_frame am role g c m = (m3, Ok ())"
    using c m1(1) m2(1) m3(1) by (simp add: write_frame_def Let_def seq_in_def split: if_splits)
  moreover have "view m3 = frame_patch ?o g c ?p (view m)"
    by (simp add: m3(2) vm m1(2) frame_patch_def)
  ultimately show ?thesis using that by blast
qed

lemma frame_patch_header: "bytes_at (frame_patch offset g c p v) offset 32 = frame_header_bytes g c"
  by (simp add: frame_patch_def bytes_at_patch_same)

lemma frame_patch_content: "bytes_at (frame_patch offset g c p v) (offset + 32) (length c) = c"
  by (simp add: frame_patch_def bytes_at_patch_other bytes_at_patch_same)

lemma frame_patch_outside:
  assumes "i < offset \<or> offset + 32 + max p (length c) \<le> i"
  shows "frame_patch offset g c p v i = v i"
  using assms by (auto simp: frame_patch_def patch_def)

lemma frame_patch_zeros:
  assumes "offset + 32 + length c \<le> i" "i < offset + 32 + p"
  shows "frame_patch offset g c p v i = 0"
  using assms by (auto simp: frame_patch_def patch_def)

subsection \<open>Slots and lanes\<close>

text \<open>A slot holds a frame: its header parses and its payload has the header's checksum.\<close>

definition slot_frame :: "(nat \<Rightarrow> byte) \<Rightarrow> nat \<Rightarrow> nat \<Rightarrow> (nat \<times> byte list) option" where
  "slot_frame v offset slot_size =
     (case frame_header_parse (bytes_at v offset 32) slot_size of
        None \<Rightarrow> None
      | Some h \<Rightarrow> let c = bytes_at v (offset + 32) (fh_content_length h)
                  in if unat (checksum c) = fh_content_checksum h then Some (fh_generation h, c) else None)"

lemma header_length_bound: "frame_header_parse bs slot_size = Some h \<Longrightarrow> fh_content_length h \<le> slot_size - 32"
  by (auto simp: frame_header_parse_def Let_def not_less split: if_splits)

text \<open>A quiet region: every read sees the same bytes.\<close>

lemma read_frame_quiet:
  assumes am: "mapped_memory am view" and o: "offset + slot_size \<le> 8388608" "32 < slot_size"
  shows "snd (read_frame am (\<lambda>_. m) offset slot_size t) = Ok (slot_frame (view m) offset slot_size)"
proof -
  have h: "read_memory am m offset 32 = Ok (bytes_at (view m) offset 32)"
    by (rule read_mapped [OF am]) (use o in simp)
  have c: "read_memory am m (offset + 32) (fh_content_length f) = Ok (bytes_at (view m) (offset + 32) (fh_content_length f))"
    if "frame_header_parse (bytes_at (view m) offset 32) slot_size = Some f" for f
    by (rule read_mapped [OF am]) (use o header_length_bound [OF that] in simp)
  have "0 < n \<Longrightarrow> snd (read_frame_go am (\<lambda>_. m) offset slot_size n t) = Ok (slot_frame (view m) offset slot_size)" for n
  proof (induction n arbitrary: t)
    case (Suc n)
    then show ?case
      using c by (cases "n = 0") (auto simp: h slot_frame_def Let_def split: option.splits)
  qed simp
  then show ?thesis by (simp add: read_frame_def)
qed

lemma latest_frame_quiet:
  assumes am: "mapped_memory am view" and l: "lane_layout role = (lane, slot_size)"
  shows "latest_frame am role (\<lambda>_. m) =
     Ok (newer (newer None (slot_frame (view m) lane slot_size)) (slot_frame (view m) (lane + slot_size) slot_size))"
proof -
  have s: "32 < slot_size" using slot_size_bound(2) [of role] l by simp
  have r: "lane + 2 * slot_size \<le> 8388608" using lane_in_region [OF l] .
  obtain t where t: "read_frame am (\<lambda>_. m) lane slot_size 0 = (t, Ok (slot_frame (view m) lane slot_size))"
    using read_frame_quiet [OF am _ s, of lane m 0] r by (metis (no_types, lifting) add_leE mult_2 prod.collapse add.assoc)
  obtain t' where t': "read_frame am (\<lambda>_. m) (lane + slot_size) slot_size t =
      (t', Ok (slot_frame (view m) (lane + slot_size) slot_size))"
    using read_frame_quiet [OF am _ s, of "lane + slot_size" m t] r by (metis (no_types, lifting) add.assoc mult_2 prod.collapse)
  show ?thesis by (simp add: latest_frame_def l t t')
qed

lemma slot_frame_written:
  assumes "g < 2 ^ 64" "length c \<le> slot_size - 32" "slot_size \<le> 3667968"
  shows "slot_frame (frame_patch offset g c p v) offset slot_size = Some (g, c)"
  using assms by (simp add: slot_frame_def frame_patch_header frame_header_parse_bytes frame_patch_content)

lemma slot_frame_cong:
  assumes "32 < slot_size" "\<And>i. offset \<le> i \<Longrightarrow> i < offset + slot_size \<Longrightarrow> v i = w i"
  shows "slot_frame v offset slot_size = slot_frame w offset slot_size"
proof -
  have h: "bytes_at v offset 32 = bytes_at w offset 32" using assms by (intro bytes_at_cong) auto
  have "bytes_at v (offset + 32) (fh_content_length f) = bytes_at w (offset + 32) (fh_content_length f)"
    if "frame_header_parse (bytes_at w offset 32) slot_size = Some f" for f
    using header_length_bound [OF that] assms by (intro bytes_at_cong) auto
  then show ?thesis by (auto simp: slot_frame_def h Let_def split: option.splits)
qed

text \<open>The two slots of a lane and their frames.\<close>

definition slot_base :: "platform_role \<Rightarrow> nat \<Rightarrow> nat" where
  "slot_base role k = fst (lane_layout role) + k * snd (lane_layout role)"

definition lane_slot :: "(nat \<Rightarrow> byte) \<Rightarrow> platform_role \<Rightarrow> nat \<Rightarrow> (nat \<times> byte list) option" where
  "lane_slot v role k = slot_frame v (slot_base role k) (snd (lane_layout role))"

lemma slot_offset_base: "slot_offset role g = slot_base role (g mod 2)"
  by (cases "lane_layout role") (simp add: slot_offset_def slot_base_def)

lemma latest_frame_slots:
  "mapped_memory am view \<Longrightarrow>
     latest_frame am role (\<lambda>_. m) = Ok (newer (newer None (lane_slot (view m) role 0)) (lane_slot (view m) role 1))"
  by (cases "lane_layout role") (simp add: latest_frame_quiet lane_slot_def slot_base_def)

definition slot_range :: "platform_role \<Rightarrow> nat \<Rightarrow> nat set" where
  "slot_range role k = {slot_base role k ..< slot_base role k + snd (lane_layout role)}"

lemma slot_ranges_disjoint:
  assumes "k < 2" "j < 2" "(role, k) \<noteq> (role', j)"
  shows "slot_range role k \<inter> slot_range role' j = {}"
  using assms
  by (cases role; cases role'; cases "k = 0"; cases "j = 0")
    (auto simp: slot_range_def slot_base_def lane_layout_values less_2_cases_iff)

lemma header_range_disjoint: "k < 2 \<Longrightarrow> {..<4096} \<inter> slot_range role k = {}"
  by (cases role; cases "k = 0") (auto simp: slot_range_def slot_base_def lane_layout_values)

text \<open>Everything a successful \<open>write_frame\<close> does to the region.\<close>

lemma write_frame_effect:
  assumes am: "mapped_memory am view" and w: "write_frame am role g c m = (m', Ok ())"
  shows "length c \<le> snd (lane_layout role) - 32"
    "view m' = frame_patch (slot_base role (g mod 2)) g c
       (previous_length am m (slot_base role (g mod 2)) (snd (lane_layout role))) (view m)"
proof -
  show l: "length c \<le> snd (lane_layout role) - 32"
    using w by (auto simp: write_frame_def Let_def not_less split: if_splits)
  show "view m' = frame_patch (slot_base role (g mod 2)) g c
       (previous_length am m (slot_base role (g mod 2)) (snd (lane_layout role))) (view m)"
    by (rule write_frame_mapped [OF am l, of g m]) (use w in \<open>simp add: slot_offset_base\<close>)
qed

lemma write_frame_outside:
  assumes am: "mapped_memory am view" and w: "write_frame am role g c m = (m', Ok ())"
    and i: "i \<notin> slot_range role (g mod 2)"
  shows "view m' i = view m i"
proof -
  let ?b = "slot_base role (g mod 2)" and ?s = "snd (lane_layout role)"
  have "previous_length am m ?b ?s \<le> ?s - 32" by (rule previous_length_bound)
  then show ?thesis
    unfolding write_frame_effect(2) [OF am w]
    using i write_frame_effect(1) [OF am w] slot_size_bound(2) [of role]
    by (intro frame_patch_outside) (auto simp: slot_range_def)
qed

lemma write_frame_slot:
  assumes am: "mapped_memory am view" and w: "write_frame am role g c m = (m', Ok ())" and g: "g < 2 ^ 64"
  shows "lane_slot (view m') role (g mod 2) = Some (g, c)"
  unfolding lane_slot_def write_frame_effect(2) [OF am w]
  using g write_frame_effect(1) [OF am w] slot_size_bound(1) [of role] by (intro slot_frame_written) auto

lemma write_frame_other_slot:
  assumes am: "mapped_memory am view" and w: "write_frame am role g c m = (m', Ok ())"
    and k: "k < 2" "(role', k) \<noteq> (role, g mod 2)"
  shows "lane_slot (view m') role' k = lane_slot (view m) role' k"
  unfolding lane_slot_def
proof (rule slot_frame_cong [OF slot_size_bound(2)])
  fix i assume "slot_base role' k \<le> i" "i < slot_base role' k + snd (lane_layout role')"
  then have "i \<in> slot_range role' k" by (simp add: slot_range_def)
  then have "i \<notin> slot_range role (g mod 2)"
    using slot_ranges_disjoint [of k "g mod 2" role' role] k by auto
  then show "view m' i = view m i" by (rule write_frame_outside [OF am w])
qed

text \<open>All frames of a lane are older than \<open>g\<close>.\<close>

definition older_than :: "nat \<Rightarrow> (nat \<times> byte list) option \<Rightarrow> bool" where
  "older_than g f \<longleftrightarrow> (case f of None \<Rightarrow> True | Some (h, _) \<Rightarrow> h < g)"

lemma two_slots: "k < 2 \<longleftrightarrow> k = 0 \<or> k = Suc 0"
  by auto

lemma newer_written:
  assumes "lane_slot v role (g mod 2) = Some (g, c)"
    and "\<And>k. k < 2 \<Longrightarrow> k \<noteq> g mod 2 \<Longrightarrow> older_than g (lane_slot v role k)"
  shows "newer (newer None (lane_slot v role 0)) (lane_slot v role 1) = Some (g, c)"
proof (cases "g mod 2 = 0")
  case True
  with assms(1) assms(2) [of 1] show ?thesis by (auto simp: newer_def older_than_def split: option.splits)
next
  case False
  then have "g mod 2 = Suc 0" by simp
  with assms(1) assms(2) [of 0] show ?thesis by (auto simp: newer_def older_than_def split: option.splits)
qed

subsection \<open>Readers beside a writer\<close>

text \<open>
  The region as a reader sees it while one frame is being written: four versions, in order, the header
  changing last. \<open>stage t\<close> is the version at the read of number \<open>t\<close>.
\<close>

definition during_write ::
    "('m \<Rightarrow> nat \<Rightarrow> byte) \<Rightarrow> (nat \<Rightarrow> 'm) \<Rightarrow> (nat \<Rightarrow> nat) \<Rightarrow> platform_role \<Rightarrow> nat \<Rightarrow> byte list \<Rightarrow> nat \<Rightarrow> (nat \<Rightarrow> byte) \<Rightarrow> bool" where
  "during_write view mem stage role g c p v \<longleftrightarrow> mono stage \<and>
     (\<forall>t. let b = slot_base role (g mod 2);
              v1 = patch v (b + 32) c; v2 = patch v1 (b + 32 + length c) (replicate (p - length c) 0)
          in view (mem t) =
               (if stage t = 0 then v else if stage t = 1 then v1 else if stage t = 2 then v2
                else patch v2 b (frame_header_bytes g c)))"

lemma during_write_header:
  assumes "during_write view mem stage role g c p v"
  shows "bytes_at (view (mem t)) (slot_base role (g mod 2)) 32 =
     (if stage t < 3 then bytes_at v (slot_base role (g mod 2)) 32 else frame_header_bytes g c)"
  using assms by (auto simp: during_write_def Let_def bytes_at_patch_other bytes_at_patch_same)

lemma during_write_content:
  assumes "during_write view mem stage role g c p v" "3 \<le> stage t"
  shows "bytes_at (view (mem t)) (slot_base role (g mod 2) + 32) (length c) = c"
  using assms by (auto simp: during_write_def Let_def bytes_at_patch_other bytes_at_patch_same)

lemma during_write_outside:
  assumes "during_write view mem stage role g c p v" "i \<notin> slot_range role (g mod 2)"
    "length c \<le> snd (lane_layout role) - 32" "p \<le> snd (lane_layout role) - 32"
  shows "view (mem t) i = v i"
  using assms slot_size_bound(2) [of role] by (auto simp: during_write_def Let_def patch_def slot_range_def)

text \<open>Reading a slot whose bytes do not change.\<close>

lemma read_frame_still:
  assumes am: "mapped_memory am view" and k: "k < 2"
    and still: "\<And>t i. i \<in> slot_range role k \<Longrightarrow> view (mem t) i = v i"
  shows "snd (read_frame am mem (slot_base role k) (snd (lane_layout role)) t) = Ok (lane_slot v role k)"
proof -
  let ?b = "slot_base role k" and ?s = "snd (lane_layout role)"
  have r: "?b + ?s \<le> 8388608" "32 < ?s"
    using k slot_size_bound(2) [of role] by (auto simp: slot_base_def lane_layout_values two_slots) (cases role; simp add: lane_layout_values)+
  have at: "bytes_at (view (mem t)) (?b + j) n = bytes_at v (?b + j) n" if "j + n \<le> ?s" for t j n
    using still that by (intro bytes_at_cong) (auto simp: slot_range_def)
  have h: "read_memory am (mem t) ?b 32 = Ok (bytes_at v ?b 32)" for t
    using read_mapped [OF am, of ?b 32 "mem t"] r at [of 0 32 t] by simp
  have c: "read_memory am (mem t) (?b + 32) (fh_content_length f) = Ok (bytes_at v (?b + 32) (fh_content_length f))"
    if "frame_header_parse (bytes_at v ?b 32) ?s = Some f" for f t
    using read_mapped [OF am, of "?b + 32" "fh_content_length f" "mem t"] r header_length_bound [OF that]
      at [of 32 "fh_content_length f" t] by simp
  have "0 < n \<Longrightarrow> snd (read_frame_go am mem ?b ?s n t) = Ok (lane_slot v role k)" for n
  proof (induction n arbitrary: t)
    case (Suc n)
    then show ?case
      using c by (cases "n = 0") (auto simp: h lane_slot_def slot_frame_def Let_def split: option.splits)
  qed simp
  then show ?thesis by (simp add: read_frame_def)
qed

text \<open>Reading the slot that is being written: nothing, the new frame, or something under the old
  header's generation.\<close>

lemma read_frame_torn:
  assumes am: "mapped_memory am view" and d: "during_write view mem stage role g c p v"
    and g: "g < 2 ^ 64" and c: "length c \<le> snd (lane_layout role) - 32"
  shows "\<exists>f. snd (read_frame am mem (slot_base role (g mod 2)) (snd (lane_layout role)) t) = Ok f \<and>
     (f = None \<or> f = Some (g, c)
      \<or> (\<exists>old x. frame_header_parse (bytes_at v (slot_base role (g mod 2)) 32) (snd (lane_layout role)) = Some old
            \<and> f = Some (fh_generation old, x)))"
proof -
  let ?b = "slot_base role (g mod 2)" and ?s = "snd (lane_layout role)"
  let ?P = "\<lambda>f. f = None \<or> f = Some (g, c) \<or> (\<exists>old x. frame_header_parse (bytes_at v ?b 32) ?s = Some old
            \<and> f = Some (fh_generation old, x))"
  have r: "?b + ?s \<le> 8388608" "32 < ?s" "?s \<le> 3667968"
    using slot_in_region [of role g] slot_size_bound [of role] by (simp_all add: slot_offset_base)
  have h: "read_memory am (mem t) ?b 32 = Ok (bytes_at (view (mem t)) ?b 32)" for t
    using read_mapped [OF am, of ?b 32 "mem t"] r by simp
  have ct: "read_memory am (mem t) (?b + 32) n = Ok (bytes_at (view (mem t)) (?b + 32) n)" if "n \<le> ?s - 32" for t n
    using read_mapped [OF am, of "?b + 32" n "mem t"] r that by simp
  have new: "frame_header_parse (frame_header_bytes g c) ?s =
      Some \<lparr>fh_generation = g, fh_content_length = length c, fh_content_checksum = unat (checksum c)\<rparr>"
    using g c r by (intro frame_header_parse_bytes) auto
  have later: "3 \<le> stage (t + j)" if "3 \<le> stage t" for t j
  proof -
    have "stage t \<le> stage (t + j)" using d by (auto simp: during_write_def intro: monoD)
    with that show ?thesis by simp
  qed
  have "\<exists>f. snd (read_frame_go am mem ?b ?s n t) = Ok f \<and> ?P f" for n
  proof (induction n arbitrary: t)
    case (Suc n)
    show ?case
    proof (cases "3 \<le> stage t")
      case True
      then have "bytes_at (view (mem t)) ?b 32 = frame_header_bytes g c"
        "bytes_at (view (mem (t + 1))) (?b + 32) (length c) = c"
        "bytes_at (view (mem (t + 2))) ?b 32 = frame_header_bytes g c"
        using during_write_header [OF d] during_write_content [OF d] later [of t 1] later [of t 2] by simp_all
      then show ?thesis
        using ct [of "length c" "t + 1"] c by (simp add: h new)
    next
      case False
      then have old: "bytes_at (view (mem t)) ?b 32 = bytes_at v ?b 32"
        using during_write_header [OF d, of t] by simp
      show ?thesis
      proof (cases "frame_header_parse (bytes_at v ?b 32) ?s")
        case None
        then show ?thesis using Suc.IH [of "t + 1"] by (simp add: h old)
      next
        case (Some f)
        then have "fh_content_length f \<le> ?s - 32" by (rule header_length_bound)
        then show ?thesis
          using Suc.IH [of "t + 3"] Some by (auto simp: h old ct)
      qed
    qed
  qed simp
  then show ?thesis by (simp add: read_frame_def)
qed

lemma newer_during:
  assumes "snd_slot = Some (gl, cl)" "f = None \<or> f = Some (g, c) \<or> (\<exists>go x. go < gl \<and> f = Some (go, x))" "gl < g"
  shows "newer (newer None f) snd_slot \<in> {Some (gl, cl), Some (g, c)}"
    "newer (newer None snd_slot) f \<in> {Some (gl, cl), Some (g, c)}"
  using assms by (auto simp: newer_def)

lemma latest_frame_reads:
  assumes "\<And>t. snd (read_frame am mem (slot_base role 0) (snd (lane_layout role)) t) = Ok a"
    and "\<And>t. \<exists>b. snd (read_frame am mem (slot_base role 1) (snd (lane_layout role)) t) = Ok b \<and> Q b"
  shows "\<exists>b. latest_frame am role mem = Ok (newer (newer None a) b) \<and> Q b"
proof -
  obtain l s where ls: "lane_layout role = (l, s)" by (cases "lane_layout role")
  obtain t where t: "read_frame am mem l s 0 = (t, Ok a)"
    using assms(1) [of 0] ls by (cases "read_frame am mem l s 0") (simp add: slot_base_def)
  obtain b where b: "snd (read_frame am mem (l + s) s t) = Ok b" "Q b"
    using assms(2) [of t] ls by (auto simp: slot_base_def)
  then obtain t' where "read_frame am mem (l + s) s t = (t', Ok b)" by (metis prod.collapse)
  with t have "latest_frame am role mem = Ok (newer (newer None a) b)" by (simp add: latest_frame_def ls)
  with b(2) show ?thesis by blast
qed

lemma latest_frame_reads':
  assumes "\<And>t. \<exists>a. snd (read_frame am mem (slot_base role 0) (snd (lane_layout role)) t) = Ok a \<and> Q a"
    and "\<And>t. snd (read_frame am mem (slot_base role 1) (snd (lane_layout role)) t) = Ok b"
  shows "\<exists>a. latest_frame am role mem = Ok (newer (newer None a) b) \<and> Q a"
proof -
  obtain l s where ls: "lane_layout role = (l, s)" by (cases "lane_layout role")
  obtain a where a: "snd (read_frame am mem l s 0) = Ok a" "Q a"
    using assms(1) [of 0] ls by (auto simp: slot_base_def)
  then obtain t where t: "read_frame am mem l s 0 = (t, Ok a)" by (metis prod.collapse)
  obtain t' where "read_frame am mem (l + s) s t = (t', Ok b)"
    using assms(2) [of t] ls by (cases "read_frame am mem (l + s) s t") (simp add: slot_base_def)
  with t have "latest_frame am role mem = Ok (newer (newer None a) b)" by (simp add: latest_frame_def ls)
  with a(2) show ?thesis by blast
qed

subsection \<open>Publishing\<close>

text \<open>A lane as its own process leaves it: every frame is older than the next generation, the latest
  one is in the slot of the generation before, and no slot holds bytes past its payload.\<close>

definition payload_end :: "(nat \<Rightarrow> byte) \<Rightarrow> platform_role \<Rightarrow> nat \<Rightarrow> nat" where
  "payload_end v role k =
     (case frame_header_parse (bytes_at v (slot_base role k) 32) (snd (lane_layout role)) of
        None \<Rightarrow> 0 | Some f \<Rightarrow> fh_content_length f)"

definition slot_clean :: "(nat \<Rightarrow> byte) \<Rightarrow> platform_role \<Rightarrow> nat \<Rightarrow> bool" where
  "slot_clean v role k \<longleftrightarrow>
     (\<forall>i. slot_base role k + 32 + payload_end v role k \<le> i \<and> i < slot_base role k + snd (lane_layout role) \<longrightarrow> v i = 0)"

definition lane_clean :: "(nat \<Rightarrow> byte) \<Rightarrow> platform_role \<Rightarrow> bool" where
  "lane_clean v role \<longleftrightarrow> slot_clean v role 0 \<and> slot_clean v role 1"

text \<open>The payload area of a slot holds one payload and zeros.\<close>

definition slot_holds :: "(nat \<Rightarrow> byte) \<Rightarrow> platform_role \<Rightarrow> nat \<Rightarrow> byte list \<Rightarrow> bool" where
  "slot_holds v role k c \<longleftrightarrow>
     bytes_at v (slot_base role k + 32) (snd (lane_layout role) - 32) =
       c @ replicate (snd (lane_layout role) - 32 - length c) 0"

lemma previous_length_view:
  "mapped_memory am view \<Longrightarrow> k < 2 \<Longrightarrow>
     previous_length am m (slot_base role k) (snd (lane_layout role)) = payload_end (view m) role k"
  using read_mapped [of am view "slot_base role k" 32 m]
  by (cases role) (auto simp: previous_length_def payload_end_def slot_base_def lane_layout_values two_slots)

lemma write_frame_header_parse:
  assumes am: "mapped_memory am view" and w: "write_frame am role g c m = (m', Ok ())" and g: "g < 2 ^ 64"
  shows "frame_header_parse (bytes_at (view m') (slot_base role (g mod 2)) 32) (snd (lane_layout role)) =
     Some \<lparr>fh_generation = g, fh_content_length = length c, fh_content_checksum = unat (checksum c)\<rparr>"
  unfolding write_frame_effect(2) [OF am w] frame_patch_header
  using g write_frame_effect(1) [OF am w] slot_size_bound(1) [of role] by (intro frame_header_parse_bytes) auto

lemma write_frame_holds:
  assumes am: "mapped_memory am view" and w: "write_frame am role g c m = (m', Ok ())" and g: "g < 2 ^ 64"
    and clean: "slot_clean (view m) role (g mod 2)"
  shows "slot_holds (view m') role (g mod 2) c" "slot_clean (view m') role (g mod 2)"
proof -
  let ?b = "slot_base role (g mod 2)" and ?s = "snd (lane_layout role)"
  define p where "p = payload_end (view m) role (g mod 2)"
  have v: "view m' = frame_patch ?b g c p (view m)"
    unfolding write_frame_effect(2) [OF am w] p_def by (subst previous_length_view [OF am]) simp_all
  have l: "length c \<le> ?s - 32" by (rule write_frame_effect(1) [OF am w])
  have zero: "view m' i = 0" if "?b + 32 + length c \<le> i" "i < ?b + ?s" for i
  proof (cases "i < ?b + 32 + p")
    case True
    with that show ?thesis unfolding v by (intro frame_patch_zeros)
  next
    case False
    with that have "view m' i = view m i" unfolding v by (intro frame_patch_outside) auto
    also have "\<dots> = 0" using clean False that by (simp add: slot_clean_def p_def)
    finally show ?thesis .
  qed
  have "bytes_at (view m') (?b + 32) (?s - 32) = bytes_at (view m') (?b + 32) (length c)
      @ bytes_at (view m') (?b + 32 + length c) (?s - 32 - length c)"
    using bytes_at_split [OF l] by (simp add: add.assoc)
  moreover have "bytes_at (view m') (?b + 32) (length c) = c" unfolding v by (rule frame_patch_content)
  moreover have "bytes_at (view m') (?b + 32 + length c) (?s - 32 - length c) = replicate (?s - 32 - length c) 0"
    using zero l by (intro nth_equalityI) (auto simp: bytes_at_def)
  ultimately show "slot_holds (view m') role (g mod 2) c" by (simp add: slot_holds_def)
  show "slot_clean (view m') role (g mod 2)"
    using zero by (simp add: slot_clean_def payload_end_def write_frame_header_parse [OF am w g])
qed

lemma slot_view_cong:
  assumes "\<And>i. i \<in> slot_range role k \<Longrightarrow> v i = w i"
  shows "slot_clean v role k = slot_clean w role k" "slot_holds v role k c = slot_holds w role k c"
    "lane_slot v role k = lane_slot w role k"
proof -
  have s: "32 < snd (lane_layout role)" by (rule slot_size_bound)
  have h: "bytes_at v (slot_base role k) 32 = bytes_at w (slot_base role k) 32"
    using assms s by (intro bytes_at_cong) (auto simp: slot_range_def)
  then have e: "payload_end v role k = payload_end w role k" by (simp add: payload_end_def)
  show "slot_clean v role k = slot_clean w role k"
    unfolding slot_clean_def e using assms s by (auto simp: slot_range_def)
  have "bytes_at v (slot_base role k + 32) (snd (lane_layout role) - 32) =
      bytes_at w (slot_base role k + 32) (snd (lane_layout role) - 32)"
    using assms s by (intro bytes_at_cong) (auto simp: slot_range_def)
  then show "slot_holds v role k c = slot_holds w role k c" by (simp add: slot_holds_def)
  show "lane_slot v role k = lane_slot w role k"
    unfolding lane_slot_def using assms s by (intro slot_frame_cong) (auto simp: slot_range_def)
qed

text \<open>One publication.\<close>

lemma publish_cases:
  assumes "publish am c notified env (i, m) = ((i', m'), res)"
  obtains (not_encoded) e where "encode c env = Err e" "i' = i" "m' = m" "res = Err (Serialize e)"
  | (not_written) b e where "encode c env = Ok b" "write_frame am (ipc_role i) (ipc_next_generation i) b m = (m', Err e)"
      "res = Err e" "ipc_role i' = ipc_role i"
  | (written) b where "encode c env = Ok b" "write_frame am (ipc_role i) (ipc_next_generation i) b m = (m', Ok ())"
      "res = notified" "i' = i\<lparr>ipc_next_generation := (ipc_next_generation i + 1) mod (u64_max + 1)\<rparr>"
  using assms by (auto simp: publish_def Let_def simp del: region_constants split: sum.splits prod.splits)

lemma publish_Ok:
  assumes "publish am c notified env (i, m) = ((i', m'), Ok ())"
  obtains b where "encode c env = Ok b"
    "write_frame am (ipc_role i) (ipc_next_generation i) b m = (m', Ok ())"
    "i' = i\<lparr>ipc_next_generation := (ipc_next_generation i + 1) mod (u64_max + 1)\<rparr>"
  using assms by (rule publish_cases) auto

subsection \<open>The properties\<close>

text \<open>C16: a frame written to a lane whose frames are all older is the frame every reader then finds:
  generation and payload come back exactly as written.\<close>

theorem written_frame_is_latest:
  assumes "mapped_memory am view" "write_frame am role g c m = (m', Ok ())" "g < 2 ^ 64"
    and "older_than g (lane_slot (view m) role 0)" "older_than g (lane_slot (view m) role 1)"
  shows "latest_frame am role (\<lambda>_. m') = Ok (Some (g, c))"
proof -
  have "older_than g (lane_slot (view m') role k)" if "k < 2" "k \<noteq> g mod 2" for k
    using write_frame_other_slot [OF assms(1,2) that(1), of role] that(2) assms(4,5) that(1)
    by (auto simp: two_slots)
  then show ?thesis
    unfolding latest_frame_slots [OF assms(1)]
    using newer_written [OF write_frame_slot [OF assms(1-3)]] by simp
qed

text \<open>writing a frame changes no byte outside its own slot, so neither the region header, nor the
  lane of the sibling process, nor the slot of the previous frame is touched.\<close>

theorem write_frame_isolated:
  assumes "mapped_memory am view" "write_frame am role g c m = (m', Ok ())"
  shows "validate_region am m' = validate_region am m
    \<and> latest_frame am (remote_role role) (\<lambda>_. m') = latest_frame am (remote_role role) (\<lambda>_. m)
    \<and> lane_slot (view m') role ((g + 1) mod 2) = lane_slot (view m) role ((g + 1) mod 2)"
proof -
  have "bytes_at (view m') 0 32 = bytes_at (view m) 0 32"
  proof (rule bytes_at_cong)
    fix i :: nat assume "0 \<le> i" "i < 0 + 32"
    then have "i \<in> {..<4096}" by simp
    then have "i \<notin> slot_range role (g mod 2)" using header_range_disjoint [of "g mod 2" role] by (auto simp del: region_constants)
    then show "view m' i = view m i" by (rule write_frame_outside [OF assms])
  qed
  then have v: "validate_region am m' = validate_region am m"
    using read_mapped [OF assms(1), of 0 32] by (simp add: validate_region_def)
  have "remote_role role \<noteq> role" by (cases role) simp_all
  then have l: "lane_slot (view m') (remote_role role) k = lane_slot (view m) (remote_role role) k" if "k < 2" for k
    using write_frame_other_slot [OF assms that] by simp
  have s: "lane_slot (view m') role ((g + 1) mod 2) = lane_slot (view m) role ((g + 1) mod 2)"
    by (rule write_frame_other_slot [OF assms]) (auto simp: mod_Suc)
  show ?thesis using v s by (simp add: latest_frame_slots [OF assms(1)] l)
qed


text \<open>C17: once a published hand-off or browser request is withdrawn and the publication succeeds, both
  slots of the lane hold the withdrawn document and zeros: no byte of the cookie or the URL is left in
  the shared memory of that lane.\<close>

theorem scrub_removes_payload:
  assumes am: "mapped_memory am view" and clean: "lane_clean (view m) (ipc_role i)"
    and g: "ipc_next_generation i + 2 < 2 ^ 64"
    and scrub: "pe_session_handoff (ipc_published i) \<noteq> None \<and> handoff = None
       \<or> pe_browser_request (ipc_published i) \<noteq> None \<and> browser = None"
    and p: "publish_snapshot am c n1 n2 state handoff browser ack (i, m) = ((i', m'), Ok ())"
  shows "\<exists>b. encode c \<lparr>pe_state = Some state, pe_session_handoff = handoff, pe_browser_request = browser,
         pe_browser_request_ack = ack\<rparr> = Ok b
     \<and> slot_holds (view m') (ipc_role i) 0 b \<and> slot_holds (view m') (ipc_role i) 1 b"
proof -
  define env where "env = \<lparr>pe_state = Some state, pe_session_handoff = handoff, pe_browser_request = browser,
         pe_browser_request_ack = ack\<rparr>"
  define j where "j = i\<lparr>ipc_published := env\<rparr>"
  let ?g = "ipc_next_generation i" and ?r = "ipc_role i"
  have rs: "replace_snapshot (ipc_published i) state handoff browser ack = (env, True)"
    using scrub by (auto simp: replace_snapshot_def env_def)
  obtain k m1 where p1: "publish am c n1 env (j, m) = ((k, m1), Ok ())"
    and p2: "publish am c n2 env (k, m1) = ((i', m'), Ok ())"
    using p by (auto simp: publish_snapshot_def rs seq_in_def j_def split: prod.splits sum.splits)
  obtain b where b: "encode c env = Ok b" and w1: "write_frame am ?r ?g b m = (m1, Ok ())"
    and k: "ipc_role k = ?r" "ipc_next_generation k = ?g + 1"
    using p1 by (rule publish_Ok) (use g in \<open>auto simp: j_def\<close>)
  have w2: "write_frame am ?r (?g + 1) b m1 = (m', Ok ())"
    using p2 by (rule publish_Ok) (use b k in auto)
  have g1: "?g < 2 ^ 64" "?g + 1 < 2 ^ 64" using g by simp_all
  have c0: "slot_clean (view m) ?r (?g mod 2)" "slot_clean (view m) ?r ((?g + 1) mod 2)"
    using clean by (cases "?g mod 2 = 0"; auto simp: lane_clean_def mod_Suc)+
  have keep: "view ma x = view mb x" if "write_frame am ?r h b mb = (ma, Ok ())" "x \<in> slot_range ?r k"
    "k < 2" "k \<noteq> h mod 2" for h ma mb x k
  proof -
    have "x \<notin> slot_range ?r (h mod 2)" using slot_ranges_disjoint [of k "h mod 2" ?r ?r] that(2-4) by auto
    then show ?thesis by (rule write_frame_outside [OF am that(1)])
  qed
  have ne: "(?g + 1) mod 2 \<noteq> ?g mod 2" by (simp add: mod_Suc)
  have "slot_clean (view m1) ?r ((?g + 1) mod 2)"
    using slot_view_cong(1) [of ?r "(?g + 1) mod 2" "view m1" "view m"] keep [OF w1 _ _ ne] c0(2) by simp
  then have h2: "slot_holds (view m') ?r ((?g + 1) mod 2) b"
    by (rule write_frame_holds(1) [OF am w2 g1(2)])
  have "slot_holds (view m1) ?r (?g mod 2) b" by (rule write_frame_holds(1) [OF am w1 g1(1) c0(1)])
  then have h1: "slot_holds (view m') ?r (?g mod 2) b"
    using slot_view_cong(2) [of ?r "?g mod 2" "view m'" "view m1"] keep [OF w2 _ _ ne [symmetric]] by simp
  have "slot_holds (view m') ?r 0 b \<and> slot_holds (view m') ?r 1 b"
    using h1 h2 by (cases "?g mod 2 = 0") (auto simp: mod_Suc)
  with b show ?thesis unfolding env_def by blast
qed

text \<open>the two processes agree on the channel. On a region the UI has initialised, the Extension
  attaches with the UI's session number, and its first generation exceeds every frame an earlier
  Extension left in its lane (unless the counter is exhausted).\<close>

theorem attach_after_create:
  assumes am: "mapped_memory am view" and "session < 2 ^ 64" "0 \<le> fd" "0 \<le> nfd"
    and "create_ui am session m = (m1, Ok ui)"
    and "\<forall>i \<in> {..<4096}. view m2 i = view m1 i"
  shows "\<exists>vpn. attach_vpn_raw am fd nfd (Ok region_size) m2 = Ok vpn \<and> ipc_role vpn = Vpn
     \<and> ipc_session vpn = session
     \<and> (\<forall>k < 2. older_than (ipc_next_generation vpn) (lane_slot (view m2) Vpn k) \<or> ipc_next_generation vpn = u64_max)"
proof -
  let ?h = "region_header session"
  have lm: "length region_magic = 8" by (simp add: region_magic_def)
  have len: "length ?h = 32" by (simp add: region_header_def Let_def lm)
  obtain m0 where w: "write_memory am m 0 ?h = (m0, Ok ())" "view m0 = patch (view m) 0 ?h"
    by (rule write_mapped [OF am, of 0 ?h m]) (simp add: len)
  then have m1: "view m1 = patch (view m) 0 ?h"
    using assms(5) by (simp add: create_ui_def initialize_region_def seq_in_def)
  have "bytes_at (view m2) 0 32 = bytes_at (view m1) 0 32"
    using assms(6) by (intro bytes_at_cong) auto
  also have "\<dots> = ?h" unfolding m1 by (rule bytes_at_patch_same) (simp add: len)
  finally have r: "read_memory am m2 0 32 = Ok ?h"
    using read_mapped [OF am, of 0 32 m2] by simp
  define h where "h = region_magic @ le_bytes 4 protocol_version @ le_bytes 4 region_size @ le_bytes 8 session"
  have hb: "?h = h @ le_bytes 4 (unat (checksum h)) @ le_bytes 4 0"
    by (simp add: region_header_def h_def Let_def)
  have lh: "length h = 24" by (simp add: h_def lm)
  have s: "slice 0 24 ?h = h" "slice 24 28 ?h = le_bytes 4 (unat (checksum h))"
    unfolding hb using lh by (simp_all add: slice_skip)
  have t: "slice 0 8 ?h = region_magic" "slice 8 12 ?h = le_bytes 4 protocol_version"
    "slice 12 16 ?h = le_bytes 4 region_size" "slice 16 24 ?h = le_bytes 8 session"
    unfolding hb h_def by (simp_all add: slice_skip lm)
  have v: "le_val (le_bytes 4 protocol_version) = protocol_version" "le_val (le_bytes 4 region_size) = region_size"
    "le_val (le_bytes 8 session) = session"
    using assms(2) by (simp_all add: le_val_bytes)
  have valid: "validate_region am m2 = Ok ()"
    unfolding validate_region_def r by (simp only: and_then_simps s t v le_val_word) simp
  let ?s = "snd (lane_layout Vpn)" and ?b = "slot_base Vpn"
  have rh: "read_memory am m2 (?b k) 32 = Ok (bytes_at (view m2) (?b k) 32)" if "k < 2" for k
    using read_mapped [OF am, of "?b k" 32 m2] that by (auto simp: slot_base_def lane_layout_values two_slots)
  define best where "best = (\<lambda>latest h. case frame_header_parse h ?s of None \<Rightarrow> latest
      | Some f \<Rightarrow> Some (case latest of None \<Rightarrow> fh_generation f | Some v \<Rightarrow> max v (fh_generation f)))"
  define top where "top = best (best None (bytes_at (view m2) (?b 0) 32)) (bytes_at (view m2) (?b 1) 32)"
  have lg: "latest_generation am Vpn m2 = Ok top"
    using rh [of 0] rh [of 1]
    by (simp add: latest_generation_def lane_layout_values slot_base_def best_def top_def Let_def)
  define vpn where "vpn = \<lparr>ipc_role = Vpn, ipc_published = platform_envelope_default,
      ipc_next_generation = min ((case top of None \<Rightarrow> 0 | Some g \<Rightarrow> g) + 1) u64_max, ipc_session = session\<rparr>"
  have att: "attach_vpn_raw am fd nfd (Ok region_size) m2 = Ok vpn"
    using assms(3,4) valid r lg v(3) t(4)
    by (simp add: attach_vpn_raw_def seed_next_generation_def vpn_def Let_def)
  have "g \<le> (case top of None \<Rightarrow> 0 | Some g \<Rightarrow> g)" if "k < 2" "lane_slot (view m2) Vpn k = Some (g, x)" for k g x
    using that by (auto simp: lane_slot_def slot_frame_def top_def best_def Let_def two_slots max_def
        split: option.splits if_splits)
  then have "older_than (ipc_next_generation vpn) (lane_slot (view m2) Vpn k) \<or> ipc_next_generation vpn = u64_max"
    if "k < 2" for k
    using that by (fastforce simp: older_than_def vpn_def split: option.splits)
  with att show ?thesis by (auto simp: vpn_def)
qed

subsection \<open>Concrete instances\<close>

text \<open>A mapped region as a function from offsets to bytes.\<close>

definition flat_ashmem :: "(nat \<Rightarrow> byte) ashmem" where
  "flat_ashmem = \<lparr>
     am_read = (\<lambda>m offset n. if offset + n \<le> region_size then Ok (bytes_at m offset n) else Err ''out of range''),
     am_write = (\<lambda>m offset bs. if offset + length bs \<le> region_size then (patch m offset bs, Ok ())
                               else (m, Err ''out of range''))\<rparr>"

lemma flat_mapped: "mapped_memory flat_ashmem (\<lambda>m. m)"
  by (simp add: mapped_memory_def flat_ashmem_def)

lemma le_val_zeros: "le_val (replicate n 0) = 0"
  by (induction n) auto

lemma zero_header: "frame_header_parse (bytes_at (\<lambda>_. 0) offset 32) slot_size = None"
proof -
  have "bytes_at (\<lambda>_. 0) offset 32 = replicate 32 (0 :: byte)"
    by (rule nth_equalityI) (auto simp: bytes_at_def)
  then show ?thesis
    by (simp add: frame_header_parse_def slice_def le_val_zeros frame_magic_def)
qed

lemma zero_slot: "lane_slot (\<lambda>_. 0) role k = None"
  by (simp add: lane_slot_def slot_frame_def zero_header)

lemma zero_clean: "lane_clean (\<lambda>_. 0) role"
  by (simp add: lane_clean_def slot_clean_def)

lemma flat_write:
  assumes "length c \<le> snd (lane_layout role) - 32"
  obtains m' where "write_frame flat_ashmem role g c m = (m', Ok ())"
  using write_frame_mapped [OF flat_mapped assms] by metis

definition demo_payload :: "byte list" where
  "demo_payload = [0x7B, 0x7D]"

lemma demo_payload_fits: "length demo_payload \<le> snd (lane_layout role) - 32"
  using slot_size_bound(2) [of role] by (cases role) (simp_all add: demo_payload_def lane_layout_values)

lemma written_frame_is_latest_witness:
  "\<exists>m'. write_frame flat_ashmem Ui 1 demo_payload (\<lambda>_. 0) = (m', Ok ())
     \<and> latest_frame flat_ashmem Ui (\<lambda>_. m') = Ok (Some (1, demo_payload))"
proof -
  obtain m' where w: "write_frame flat_ashmem Ui 1 demo_payload (\<lambda>_. 0) = (m', Ok ())"
    by (rule flat_write [OF demo_payload_fits])
  have "latest_frame flat_ashmem Ui (\<lambda>_. m') = Ok (Some (1, demo_payload))"
    by (rule written_frame_is_latest [OF flat_mapped w]) (simp_all add: zero_slot older_than_def)
  with w show ?thesis by blast
qed

lemma write_frame_isolated_witness:
  "\<exists>m'. write_frame flat_ashmem Vpn 1 demo_payload (\<lambda>_. 0) = (m', Ok ())
     \<and> latest_frame flat_ashmem Ui (\<lambda>_. m') = latest_frame flat_ashmem Ui (\<lambda>_ _. 0)"
proof -
  obtain m' where w: "write_frame flat_ashmem Vpn 1 demo_payload (\<lambda>_. 0) = (m', Ok ())"
    by (rule flat_write [OF demo_payload_fits])
  from write_frame_isolated [OF flat_mapped w] w show ?thesis by auto
qed


definition demo_envelope_codec :: "(byte list, platform_envelope) codec" where
  "demo_envelope_codec = \<lparr>encode = (\<lambda>_. Ok demo_payload), decode = (\<lambda>_. Ok platform_envelope_default),
     byte_len = length, no_bytes = []\<rparr>"

lemma scrub_removes_payload_witness:
  "\<exists>i' m'. publish_snapshot flat_ashmem demo_envelope_codec (Ok ()) (Ok ()) platform_vpn_state_default None None None
       (\<lparr>ipc_role = Ui, ipc_published = platform_envelope_default\<lparr>pe_browser_request :=
            Some \<lparr>br_request_id = ''r'', br_attempt_id = ''a'', br_uri = ''https://sso'', br_requested_at_ms = 1\<rparr>\<rparr>,
          ipc_next_generation = 2, ipc_session = 9\<rparr>, \<lambda>_. 0) = ((i', m'), Ok ())
     \<and> slot_holds m' Ui 0 demo_payload \<and> slot_holds m' Ui 1 demo_payload"
proof -
  let ?i = "\<lparr>ipc_role = Ui, ipc_published = platform_envelope_default\<lparr>pe_browser_request :=
            Some \<lparr>br_request_id = ''r'', br_attempt_id = ''a'', br_uri = ''https://sso'', br_requested_at_ms = 1\<rparr>\<rparr>,
          ipc_next_generation = 2, ipc_session = 9\<rparr>"
  obtain m1 where w1: "write_frame flat_ashmem Ui 2 demo_payload (\<lambda>_. 0) = (m1, Ok ())"
    by (rule flat_write [OF demo_payload_fits])
  obtain m2 where w2: "write_frame flat_ashmem Ui 3 demo_payload m1 = (m2, Ok ())"
    by (rule flat_write [OF demo_payload_fits])
  have enc: "encode demo_envelope_codec x = Ok demo_payload" for x by (simp add: demo_envelope_codec_def)
  obtain i' where p: "publish_snapshot flat_ashmem demo_envelope_codec (Ok ()) (Ok ()) platform_vpn_state_default
      None None None (?i, \<lambda>_. 0) = ((i', m2), Ok ())"
    using w1 w2 by (auto simp: publish_snapshot_def replace_snapshot_def publish_def enc seq_in_def Let_def)
  have "\<exists>b. encode demo_envelope_codec \<lparr>pe_state = Some platform_vpn_state_default, pe_session_handoff = None,
        pe_browser_request = None, pe_browser_request_ack = None\<rparr> = Ok b
      \<and> slot_holds m2 (ipc_role ?i) 0 b \<and> slot_holds m2 (ipc_role ?i) 1 b"
    by (rule scrub_removes_payload [OF flat_mapped _ _ _ p]) (simp_all add: zero_clean)
  with p show ?thesis by (auto simp: enc)
qed

lemma attach_after_create_witness:
  "\<exists>m1 ui vpn. create_ui flat_ashmem 77 (\<lambda>_. 0) = (m1, Ok ui)
     \<and> attach_vpn_raw flat_ashmem 5 6 (Ok region_size) m1 = Ok vpn \<and> ipc_session vpn = 77"
proof -
  have len: "length (region_header 77) = 32"
    by (simp add: region_header_def Let_def region_magic_def)
  obtain m1 where "write_memory flat_ashmem (\<lambda>_. 0) 0 (region_header 77) = (m1, Ok ())"
    by (rule write_mapped [OF flat_mapped, of 0 "region_header 77" "\<lambda>_. 0"]) (simp_all add: len)
  then obtain ui where c: "create_ui flat_ashmem 77 (\<lambda>_. 0) = (m1, Ok ui)"
    by (auto simp: create_ui_def initialize_region_def seq_in_def)
  have a: "(77 :: nat) < 2 ^ 64" "(0 :: int) \<le> 5" "(0 :: int) \<le> 6" "\<forall>i \<in> {..<4096 :: nat}. (\<lambda>m :: nat \<Rightarrow> byte. m) m1 i = (\<lambda>m. m) m1 i" by simp_all
  have "\<exists>vpn. attach_vpn_raw flat_ashmem 5 6 (Ok region_size) m1 = Ok vpn \<and> ipc_role vpn = Vpn \<and> ipc_session vpn = 77
      \<and> (\<forall>k < 2. older_than (ipc_next_generation vpn) (lane_slot ((\<lambda>m. m) m1) Vpn k) \<or> ipc_next_generation vpn = u64_max)"
    by (rule attach_after_create [OF flat_mapped a(1-3) c]) simp
  with c show ?thesis by blast
qed

end
