(* ===== verification/Oc_Auth.thy ===== *)
theory Oc_Auth
  imports Oc_Model
begin

text \<open>
  \<open>crates/hopenconnect_core/src/auth_bridge.rs\<close>: the hand-over of an authentication form from the worker that runs
  OpenConnect to the UI and of the answer back, and the rules by which a form is filled from the profile.

  The mutex-protected state and the channels are one record. Every block under the mutex is one
  operation on it; the worker is a small state machine whose steps are the places where
  \<open>wait_for_reply\<close> takes the mutex or returns from \<open>recv_timeout\<close>, so that UI operations can fall
  between them; it keeps the challenge it was asked beside the reply. Counters are natural numbers that saturate like the source's.
\<close>

subsection \<open>State\<close>

record auth_credentials =
  cr_username :: str
  cr_password :: str
  cr_group :: str

text \<open>The sender half of a channel is the channel's number.\<close>

record pending_slot =
  sl_challenge :: auth_challenge
  sl_reply_tx :: nat

record channel =
  cn_queue :: "auth_challenge_reply list"
  cn_open :: bool

record auth =
  au_next_id :: nat
  au_round :: nat
  au_pending :: "pending_slot option"
  au_aborted :: bool
  au_channels :: "nat \<Rightarrow> channel"
  au_next_channel :: nat

definition auth_new :: auth where
  "auth_new = \<lparr>au_next_id = 0, au_round = 0, au_pending = None, au_aborted = False,
     au_channels = (\<lambda>_. \<lparr>cn_queue = [], cn_open = False\<rparr>), au_next_channel = 0\<rparr>"

definition cancelled_reply :: "nat \<Rightarrow> auth_challenge_reply" where
  "cancelled_reply i = \<lparr>ar_id = i, ar_values = [], ar_cancelled = True\<rparr>"

text \<open>\<open>Sender::send\<close>: it fails when the receiver is gone.\<close>

definition send :: "nat \<Rightarrow> auth_challenge_reply \<Rightarrow> auth \<Rightarrow> auth \<times> bool" where
  "send ch reply s =
     (let c = au_channels s ch
      in if cn_open c then (s\<lparr>au_channels := (au_channels s)(ch := c\<lparr>cn_queue := cn_queue c @ [reply]\<rparr>)\<rparr>, True)
         else (s, False))"

text \<open>Take the pending slot, if any, and answer its waiter with a cancellation.\<close>

definition cancel_slot :: "auth \<Rightarrow> auth" where
  "cancel_slot s =
     (case au_pending s of
        None \<Rightarrow> s
      | Some p \<Rightarrow> fst (send (sl_reply_tx p) (cancelled_reply (ac_id (sl_challenge p))) (s\<lparr>au_pending := None\<rparr>)))"

subsection \<open>Operations of the UI side\<close>

definition auth_pending :: "auth \<Rightarrow> auth_challenge option" where
  "auth_pending s = map_option sl_challenge (au_pending s)"

definition abort :: "auth \<Rightarrow> auth" where
  "abort s = cancel_slot (s\<lparr>au_aborted := True\<rparr>)"

definition begin_session :: "auth \<Rightarrow> auth" where
  "begin_session s = cancel_slot (s\<lparr>au_aborted := False, au_round := 0\<rparr>)"

definition submit :: "auth_challenge_reply \<Rightarrow> auth \<Rightarrow> auth \<times> (str, unit) result" where
  "submit reply s =
     (case au_pending s of
        None \<Rightarrow> (s, Err ''no pending authentication challenge'')
      | Some p \<Rightarrow>
          if ar_id reply \<noteq> 0 \<and> ar_id reply \<noteq> ac_id (sl_challenge p) then
            (s, Err ''stale authentication challenge id'')
          else
            (case send (sl_reply_tx p) (reply\<lparr>ar_id := ac_id (sl_challenge p)\<rparr>) (s\<lparr>au_pending := None\<rparr>) of
               (s', False) \<Rightarrow> (s', Err ''authentication worker is no longer waiting'')
             | (s', True) \<Rightarrow> (s', Ok ())))"

text \<open>\<open>cancel_pending\<close> reads the pending form first; \<open>seen\<close> is the state it reads, \<open>s\<close> the one it submits to.\<close>

definition cancel_pending :: "auth \<Rightarrow> auth \<Rightarrow> auth \<times> (str, unit) result" where
  "cancel_pending seen s =
     submit (cancelled_reply (case auth_pending seen of None \<Rightarrow> 0 | Some c \<Rightarrow> ac_id c)) s"

subsection \<open>The worker\<close>

definition u64_top :: nat where "u64_top = 18446744073709551615"
definition u32_top :: nat where "u32_top = 4294967295"

definition saturating_succ :: "nat \<Rightarrow> nat \<Rightarrow> nat" where
  "saturating_succ limit n = min (n + 1) limit"

datatype worker =
  Running
| Waiting nat auth_challenge
| Received nat auth_challenge auth_challenge_reply
| TimedOut nat auth_challenge
| GivingUp nat auth_challenge
| Answered auth_challenge auth_challenge_reply

text \<open>The block that posts the challenge.\<close>

definition post_challenge :: "auth_challenge \<Rightarrow> auth \<Rightarrow> worker \<times> auth" where
  "post_challenge challenge s =
     (if au_aborted s then (Answered challenge (cancelled_reply 0), s)
      else
        let s = cancel_slot s;
            i = saturating_succ u64_top (au_next_id s);
            r = saturating_succ u32_top (au_round s);
            c = challenge\<lparr>ac_id := i, ac_round := r\<rparr>;
            ch = au_next_channel s
        in (Waiting ch c,
            s\<lparr>au_next_id := i, au_round := r, au_pending := Some \<lparr>sl_challenge = c, sl_reply_tx = ch\<rparr>,
              au_channels := (au_channels s)(ch := \<lparr>cn_queue = [], cn_open = True\<rparr>),
              au_next_channel := ch + 1\<rparr>))"

text \<open>Returning drops the receiver.\<close>

definition close_channel :: "nat \<Rightarrow> auth \<Rightarrow> auth" where
  "close_channel ch s = s\<lparr>au_channels := (au_channels s)(ch := \<lparr>cn_queue = [], cn_open = False\<rparr>)\<rparr>"

text \<open>
  One step of the loop. The wait ends with a message if there is one, with a disconnection if
  nobody holds the sender any more, and with a timeout otherwise.
\<close>

fun worker_step :: "worker \<times> auth \<Rightarrow> worker \<times> auth" where
  "worker_step (Running, s) = (Running, s)"
| "worker_step (Waiting ch c, s) =
     (case cn_queue (au_channels s ch) of
        reply # rest \<Rightarrow>
          (Received ch c reply, s\<lparr>au_channels := (au_channels s)(ch := \<lparr>cn_queue = rest, cn_open = True\<rparr>)\<rparr>)
      | [] \<Rightarrow>
          if map_option sl_reply_tx (au_pending s) = Some ch then (TimedOut ch c, s)
          else (Answered c (cancelled_reply (ac_id c)), close_channel ch (s\<lparr>au_pending := None\<rparr>)))"
| "worker_step (Received ch c reply, s) =
     (Answered c reply,
      close_channel ch (case au_pending s of
          Some p \<Rightarrow> if ac_id (sl_challenge p) = ar_id reply then s\<lparr>au_pending := None\<rparr> else s
        | None \<Rightarrow> s))"
| "worker_step (TimedOut ch c, s) = (if au_aborted s then (GivingUp ch c, s) else (Waiting ch c, s))"
| "worker_step (GivingUp ch c, s) = (Answered c (cancelled_reply (ac_id c)), close_channel ch (s\<lparr>au_pending := None\<rparr>))"
| "worker_step (Answered c reply, s) = (Answered c reply, s)"

subsection \<open>Filling a form\<close>

definition accepts_configured_username :: "auth_field \<Rightarrow> bool" where
  "accepts_configured_username f =
     (let name = to_ascii_lowercase (af_name f)
      in af_kind f = KText \<and> \<not> af_second_auth f
         \<and> (starts_with name ''user'' \<or> starts_with name ''uname''))"

datatype auth_form_role = Primary | Challenge

definition for_anyconnect :: "str option \<Rightarrow> auth_form_role" where
  "for_anyconnect form_id =
     (case form_id of None \<Rightarrow> Primary | Some i \<Rightarrow> if i = ''main'' then Primary else Challenge)"

record credential_application =
  ca_profile_owned :: "nat list"
  ca_user_owned :: "nat list"

text \<open>The loop over the fields, with the number of the next field and whether the password is still to be
  placed; the two index sets are built in field order.\<close>

fun apply_credentials_go ::
    "auth_credentials \<Rightarrow> auth_form_role \<Rightarrow> nat \<Rightarrow> bool \<Rightarrow> auth_field list
       \<Rightarrow> auth_field list \<times> credential_application" where
  "apply_credentials_go creds role i available [] = ([], \<lparr>ca_profile_owned = [], ca_user_owned = []\<rparr>)"
| "apply_credentials_go creds role i available (f # fs) =
     (if af_kind f = KHidden then
        (let (gs, a) = apply_credentials_go creds role (i + 1) available fs
         in (f\<lparr>af_required := False\<rparr> # gs, a))
      else if role = Challenge \<or> af_second_auth f then
        (let (gs, a) = apply_credentials_go creds role (i + 1) available fs
         in (f\<lparr>af_required := trim (af_value f) = []\<rparr> # gs, a\<lparr>ca_user_owned := i # ca_user_owned a\<rparr>))
      else if accepts_configured_username f \<and> cr_username creds \<noteq> [] then
        (let (gs, a) = apply_credentials_go creds role (i + 1) available fs
         in (f\<lparr>af_value := cr_username creds, af_required := False\<rparr> # gs,
             a\<lparr>ca_profile_owned := i # ca_profile_owned a\<rparr>))
      else if available \<and> \<not> af_second_auth f \<and> af_kind f = KPassword then
        (let (gs, a) = apply_credentials_go creds role (i + 1) False fs
         in (f\<lparr>af_value := cr_password creds, af_required := False\<rparr> # gs,
             a\<lparr>ca_profile_owned := i # ca_profile_owned a\<rparr>))
      else
        (let (gs, a) = apply_credentials_go creds role (i + 1) available fs
         in ((if trim (af_value f) = [] then f\<lparr>af_required := True\<rparr> else f) # gs, a)))"

definition apply_credentials_to_fields ::
    "auth_field list \<Rightarrow> auth_credentials \<Rightarrow> auth_form_role \<Rightarrow> auth_field list \<times> credential_application" where
  "apply_credentials_to_fields fs creds role =
     apply_credentials_go creds role 0 (role = Primary \<and> cr_password creds \<noteq> []) fs"

definition fields_for_user_input :: "auth_field list \<Rightarrow> credential_application \<Rightarrow> auth_field list" where
  "fields_for_user_input fs a = map snd (filter (\<lambda>(i, f). i \<in> set (ca_user_owned a)) (enumerate 0 fs))"

definition can_autofill_without_ui :: "auth_field list \<Rightarrow> bool" where
  "can_autofill_without_ui fs =
     (let interactive = filter (\<lambda>f. af_kind f \<noteq> KHidden) fs
      in if interactive = [] then True else list_all (\<lambda>f. trim (af_value f) \<noteq> []) interactive)"

text \<open>One pass over the options and the reply together; the answers left over at the end are the
  leftover of the peekable iterator.\<close>

fun bind_go ::
    "auth_field list \<Rightarrow> auth_field_value list \<Rightarrow> str option list \<times> auth_field_value list" where
  "bind_go [] answers = ([], answers)"
| "bind_go (f # fs) answers =
     (let kept = (if af_value f \<noteq> [] then Some (af_value f) else None)
      in case answers of
           [] \<Rightarrow> (let (vs, left) = bind_go fs [] in (kept # vs, left))
         | a # later \<Rightarrow>
             if fv_key a = af_key f then (let (vs, left) = bind_go fs later in (Some (fv_value a) # vs, left))
             else (let (vs, left) = bind_go fs answers in (kept # vs, left)))"

definition bind_reply_values_by_option ::
    "auth_field list \<Rightarrow> auth_challenge_reply \<Rightarrow> (str, str option list) result" where
  "bind_reply_values_by_option fs reply =
     (let (values, left) = bind_go fs (ar_values reply)
      in if left \<noteq> [] then Err ''authentication reply contains a stale or out-of-order option''
         else Ok values)"

end
