(* ===== verification/Oc_Auth_Laws.thy ===== *)
theory Oc_Auth_Laws
  imports Oc_Auth
begin

text \<open>
  What the authentication bridge guarantees. The hand-over: any number of workers and a UI take
  turns in any order, and a worker that gets an answer gets the one the UI submitted for its own
  challenge; after an abort no worker stays blocked. The forms: where configured
  credentials go, and which answers can be bound to which options.
\<close>

subsection \<open>Workers and UI, interleaved\<close>

text \<open>The log records every submission the bridge accepted, as it was sent.\<close>

record auth_sys =
  sy_worker :: "nat \<Rightarrow> worker"
  sy_auth :: auth
  sy_log :: "(nat \<times> auth_challenge_reply) list"

definition auth_sys_init :: auth_sys where
  "auth_sys_init = \<lparr>sy_worker = (\<lambda>_. Running), sy_auth = auth_new, sy_log = []\<rparr>"

datatype auth_event =
  Ask nat auth_challenge
| Advance nat
| Continue nat
| Submit auth_challenge_reply
| Abort
| Begin

fun idle :: "worker \<Rightarrow> bool" where
  "idle Running = True"
| "idle (Answered c r) = True"
| "idle _ = False"

inductive auth_step :: "auth_event \<Rightarrow> auth_sys \<Rightarrow> auth_sys \<Rightarrow> bool" where
  ask: "sy_worker s i = Running \<Longrightarrow> post_challenge c (sy_auth s) = (w, a) \<Longrightarrow>
    auth_step (Ask i c) s (s\<lparr>sy_worker := (sy_worker s)(i := w), sy_auth := a\<rparr>)"
| advance: "\<not> idle (sy_worker s i) \<Longrightarrow> worker_step (sy_worker s i, sy_auth s) = (w, a) \<Longrightarrow>
    auth_step (Advance i) s (s\<lparr>sy_worker := (sy_worker s)(i := w), sy_auth := a\<rparr>)"
| continue: "sy_worker s i = Answered c r \<Longrightarrow>
    auth_step (Continue i) s (s\<lparr>sy_worker := (sy_worker s)(i := Running)\<rparr>)"
| submit_ok: "submit r (sy_auth s) = (a, Ok ()) \<Longrightarrow> au_pending (sy_auth s) = Some p \<Longrightarrow>
    auth_step (Submit r) s (s\<lparr>sy_auth := a,
      sy_log := (sl_reply_tx p, r\<lparr>ar_id := ac_id (sl_challenge p)\<rparr>) # sy_log s\<rparr>)"
| submit_err: "submit r (sy_auth s) = (a, Err e) \<Longrightarrow> auth_step (Submit r) s (s\<lparr>sy_auth := a\<rparr>)"
| aborted: "auth_step Abort s (s\<lparr>sy_auth := abort (sy_auth s)\<rparr>)"
| begun: "auth_step Begin s (s\<lparr>sy_auth := begin_session (sy_auth s)\<rparr>)"

inductive_cases ask_cases: "auth_step (Ask i c) s s'"
inductive_cases advance_cases: "auth_step (Advance i) s s'"
inductive_cases submit_cases: "auth_step (Submit r) s s'"

inductive auth_run :: "auth_event list \<Rightarrow> auth_sys \<Rightarrow> auth_sys \<Rightarrow> bool" where
  stay: "auth_run [] s s"
| go: "auth_step e s s' \<Longrightarrow> auth_run es s' s'' \<Longrightarrow> auth_run (e # es) s s''"

inductive_simps run_simps: "auth_run [] s s'" "auth_run (e # es) s s'"

text \<open>The channel and the challenge a worker is busy with.\<close>

fun waits_on :: "worker \<Rightarrow> (nat \<times> auth_challenge) option" where
  "waits_on (Waiting ch c) = Some (ch, c)"
| "waits_on (TimedOut ch c) = Some (ch, c)"
| "waits_on (GivingUp ch c) = Some (ch, c)"
| "waits_on (Received ch c r) = Some (ch, c)"
| "waits_on _ = None"

subsection \<open>The invariant\<close>

definition answer_for :: "(nat \<times> auth_challenge_reply) list \<Rightarrow> nat \<Rightarrow> auth_challenge \<Rightarrow> auth_challenge_reply \<Rightarrow> bool" where
  "answer_for log ch c r \<longleftrightarrow> ar_id r = ac_id c \<and> (r = cancelled_reply (ac_id c) \<or> (ch, r) \<in> set log)"

definition channel_ok :: "auth \<Rightarrow> (nat \<times> auth_challenge_reply) list \<Rightarrow> nat \<times> auth_challenge \<Rightarrow> bool" where
  "channel_ok a log w \<longleftrightarrow> fst w < au_next_channel a \<and> cn_open (au_channels a (fst w))
     \<and> (\<forall>r \<in> set (cn_queue (au_channels a (fst w))). answer_for log (fst w) (snd w) r)"

definition slot_ok :: "(nat \<Rightarrow> worker) \<Rightarrow> (nat \<times> auth_challenge_reply) list \<Rightarrow> pending_slot \<Rightarrow> bool" where
  "slot_ok W log p \<longleftrightarrow> sl_reply_tx p \<notin> fst ` set log
     \<and> (\<exists>i. waits_on (W i) = Some (sl_reply_tx p, sl_challenge p))"

definition auth_inv :: "(nat \<Rightarrow> worker) \<Rightarrow> auth \<Rightarrow> (nat \<times> auth_challenge_reply) list \<Rightarrow> bool" where
  "auth_inv W a log \<longleftrightarrow>
     (\<forall>i w. waits_on (W i) = Some w \<longrightarrow> channel_ok a log w)
   \<and> (\<forall>i j w v. waits_on (W i) = Some w \<longrightarrow> waits_on (W j) = Some v \<longrightarrow> fst w = fst v \<longrightarrow> i = j)
   \<and> (\<forall>i ch c r. W i = Received ch c r \<longrightarrow> answer_for log ch c r)
   \<and> (\<forall>p. au_pending a = Some p \<longrightarrow> slot_ok W log p)
   \<and> distinct (map fst log) \<and> (\<forall>x \<in> set log. fst x < au_next_channel a)"

lemma auth_invI:
  assumes "\<And>i w. waits_on (W i) = Some w \<Longrightarrow> channel_ok a log w"
    and "\<And>i j w v. waits_on (W i) = Some w \<Longrightarrow> waits_on (W j) = Some v \<Longrightarrow> fst w = fst v \<Longrightarrow> i = j"
    and "\<And>i ch c r. W i = Received ch c r \<Longrightarrow> answer_for log ch c r"
    and "\<And>p. au_pending a = Some p \<Longrightarrow> slot_ok W log p"
    and "distinct (map fst log)" "\<And>x. x \<in> set log \<Longrightarrow> fst x < au_next_channel a"
  shows "auth_inv W a log"
  unfolding auth_inv_def using assms by (intro conjI allI impI ballI)

lemma auth_invD:
  assumes "auth_inv W a log"
  shows "waits_on (W i) = Some w \<Longrightarrow> channel_ok a log w"
    and "waits_on (W i) = Some w \<Longrightarrow> waits_on (W j) = Some v \<Longrightarrow> fst w = fst v \<Longrightarrow> i = j"
    and "W i = Received ch c r \<Longrightarrow> answer_for log ch c r"
    and "au_pending a = Some p \<Longrightarrow> slot_ok W log p"
    and "distinct (map fst log)" "x \<in> set log \<Longrightarrow> fst x < au_next_channel a"
  using assms unfolding auth_inv_def by blast+

lemma answer_for_cancelled [simp]: "answer_for log ch c (cancelled_reply (ac_id c))"
  by (simp add: answer_for_def cancelled_reply_def)

lemma answer_for_later: "answer_for log ch c r \<Longrightarrow> answer_for (x # log) ch c r"
  by (auto simp: answer_for_def)

lemma inv_flags [simp]:
  "auth_inv W (a\<lparr>au_aborted := b\<rparr>) log = auth_inv W a log"
  "auth_inv W (a\<lparr>au_round := n\<rparr>) log = auth_inv W a log"
  "auth_inv W (a\<lparr>au_next_id := n\<rparr>) log = auth_inv W a log"
  by (simp_all add: auth_inv_def channel_ok_def)

text \<open>Taking the slot and answering it, with an answer the log justifies.\<close>

lemma inv_answer_slot:
  assumes inv: "auth_inv W a log" and p: "au_pending a = Some p"
    and log': "log' = log \<or> log' = (sl_reply_tx p, r) # log"
    and r: "answer_for log' (sl_reply_tx p) (sl_challenge p) r"
  shows "auth_inv W (fst (send (sl_reply_tx p) r (a\<lparr>au_pending := None\<rparr>))) log'"
    and "snd (send (sl_reply_tx p) r (a\<lparr>au_pending := None\<rparr>))"
proof -
  have slot: "slot_ok W log p" by (rule auth_invD(4) [OF inv p])
  then obtain i where i: "waits_on (W i) = Some (sl_reply_tx p, sl_challenge p)"
    by (auto simp: slot_ok_def)
  have ok: "channel_ok a log (sl_reply_tx p, sl_challenge p)" by (rule auth_invD(1) [OF inv i])
  show sent: "snd (send (sl_reply_tx p) r (a\<lparr>au_pending := None\<rparr>))"
    using ok by (simp add: send_def Let_def channel_ok_def)
  have c: "w = (sl_reply_tx p, sl_challenge p)" if "waits_on (W j) = Some w" "fst w = sl_reply_tx p" for j w
    using auth_invD(2) [OF inv i that(1)] i that by simp
  have up: "answer_for log ch d x \<Longrightarrow> answer_for log' ch d x" for ch d x
    using log' answer_for_later by auto
  show "auth_inv W (fst (send (sl_reply_tx p) r (a\<lparr>au_pending := None\<rparr>))) log'" (is "auth_inv W ?a log'")
  proof (rule auth_invI)
    fix j w assume j: "waits_on (W j) = Some w"
    show "channel_ok ?a log' w"
      using auth_invD(1) [OF inv j] ok r up c [OF j] by (auto simp: channel_ok_def send_def Let_def)
  next
    show "distinct (map fst log')"
      using log' auth_invD(5) [OF inv] slot by (auto simp: slot_ok_def)
  next
    fix x assume "x \<in> set log'"
    then show "fst x < au_next_channel ?a"
      using log' auth_invD(6) [OF inv, of x] ok by (auto simp: send_def Let_def channel_ok_def)
  next
    fix q assume "au_pending ?a = Some q"
    then show "slot_ok W log' q" by (simp add: send_def Let_def split: if_splits)
  qed (use auth_invD(2,3) [OF inv] up in auto)
qed

lemma inv_cancel_slot: "auth_inv W a log \<Longrightarrow> auth_inv W (cancel_slot a) log"
  by (auto simp: cancel_slot_def split: option.split intro: inv_answer_slot(1))

lemma cancel_slot_pending: "au_pending (cancel_slot a) = None"
  by (simp add: cancel_slot_def send_def Let_def split: option.split)

lemma inv_no_pending: "auth_inv W a log \<Longrightarrow> auth_inv W (a\<lparr>au_pending := None\<rparr>) log"
  by (simp add: auth_inv_def channel_ok_def)

text \<open>A worker that stops waiting closes its channel.\<close>

lemma inv_leave:
  assumes inv: "auth_inv W a log" and i: "waits_on (W i) = Some (ch, c)" and w: "waits_on w = None"
    and p: "\<And>p. au_pending a = Some p \<Longrightarrow> sl_reply_tx p \<noteq> ch"
  shows "auth_inv (W(i := w)) (close_channel ch a) log"
proof (rule auth_invI)
  fix j v assume j: "waits_on ((W(i := w)) j) = Some v"
  then have "j \<noteq> i" and v: "waits_on (W j) = Some v" using w by (auto split: if_splits)
  then have "fst v \<noteq> ch" using auth_invD(2) [OF inv i v] by auto
  then show "channel_ok (close_channel ch a) log v"
    using auth_invD(1) [OF inv v] by (simp add: channel_ok_def close_channel_def)
next
  fix q assume "au_pending (close_channel ch a) = Some q"
  then have q: "au_pending a = Some q" by (simp add: close_channel_def)
  then obtain j where j: "waits_on (W j) = Some (sl_reply_tx q, sl_challenge q)" and "sl_reply_tx q \<notin> fst ` set log"
    using auth_invD(4) [OF inv q] by (auto simp: slot_ok_def)
  moreover have "j \<noteq> i" using i j p [OF q] by auto
  ultimately show "slot_ok (W(i := w)) log q" by (auto simp: slot_ok_def)
next
  fix j d e r assume "(W(i := w)) j = Received d e r"
  then show "answer_for log d e r" using auth_invD(3) [OF inv] w by (auto split: if_splits)
next
  fix j k v u assume "waits_on ((W(i := w)) j) = Some v" "waits_on ((W(i := w)) k) = Some u" "fst v = fst u"
  then show "j = k" using auth_invD(2) [OF inv] w by (auto split: if_splits)
qed (use auth_invD(5,6) [OF inv] in \<open>auto simp: close_channel_def\<close>)

lemma inv_idle:
  assumes inv: "auth_inv W a log" and i: "waits_on (W i) = None" and w: "waits_on w = None"
  shows "auth_inv (W(i := w)) a log"
proof (rule auth_invI)
  fix q assume q: "au_pending a = Some q"
  then obtain j where "waits_on (W j) = Some (sl_reply_tx q, sl_challenge q)" "sl_reply_tx q \<notin> fst ` set log"
    using auth_invD(4) [OF inv q] by (auto simp: slot_ok_def)
  then show "slot_ok (W(i := w)) log q" using i by (auto simp: slot_ok_def intro!: exI [of _ j])
qed (use auth_invD [OF inv] w in \<open>auto split: if_splits\<close>)

text \<open>A worker goes on with the channel it has.\<close>

lemma inv_same_wait:
  assumes inv: "auth_inv W a log" and i: "waits_on (W i) = Some v" and w: "waits_on w = Some v"
    and r: "\<And>ch c r. w = Received ch c r \<Longrightarrow> answer_for log ch c r"
  shows "auth_inv (W(i := w)) a log"
proof -
  have same: "waits_on ((W(i := w)) j) = waits_on (W j)" for j using i w by simp
  show ?thesis
  proof (rule auth_invI)
    show "(W(i := w)) j = Received d c r \<Longrightarrow> answer_for log d c r" for j d c r
      using auth_invD(3) [OF inv] r by (cases "j = i") auto
    show "au_pending a = Some p \<Longrightarrow> slot_ok (W(i := w)) log p" for p
      using auth_invD(4) [OF inv] unfolding slot_ok_def same by blast
  qed (use auth_invD(1,2,5,6) [OF inv] in \<open>unfold same, blast+\<close>)
qed

text \<open>A posted challenge.\<close>

lemma inv_post:
  assumes inv: "auth_inv W a log" and i: "waits_on (W i) = None"
  shows "auth_inv (W(i := Waiting (au_next_channel a) c))
    (a\<lparr>au_pending := Some \<lparr>sl_challenge = c, sl_reply_tx = au_next_channel a\<rparr>,
       au_channels := (au_channels a)(au_next_channel a := \<lparr>cn_queue = [], cn_open = True\<rparr>),
       au_next_channel := au_next_channel a + 1\<rparr>) log"
proof -
  have lt: "fst w < au_next_channel a" if "waits_on (W j) = Some w" for j w
    using auth_invD(1) [OF inv that] by (simp add: channel_ok_def)
  show ?thesis
  proof (rule auth_invI, goal_cases)
    case (1 j w)
    then show ?case using auth_invD(1) [OF inv, of j w] lt [of j w]
      by (cases "j = i") (auto simp: channel_ok_def)
  next
    case (2 j k w v)
    then show ?case using auth_invD(2) [OF inv, of j w k v] lt [of j w] lt [of k v]
      by (auto split: if_splits)
  next
    case (3 j d e r)
    then show ?case using auth_invD(3) [OF inv] by (auto split: if_splits)
  next
    case (4 p)
    then show ?case using auth_invD(6) [OF inv, of "(au_next_channel a, r)" for r] by (auto simp: slot_ok_def)
  next
    case 5
    show ?case by (rule auth_invD(5) [OF inv])
  next
    case (6 x)
    then show ?case using auth_invD(6) [OF inv 6] by simp
  qed
qed

lemma inv_post_challenge:
  assumes "auth_inv W a log" "waits_on (W i) = None" "post_challenge c a = (w, a')"
  shows "auth_inv (W(i := w)) a' log"
proof (cases "au_aborted a")
  case True
  then show ?thesis using assms inv_idle [OF assms(1,2)] by (auto simp: post_challenge_def)
next
  case False
  let ?b = "cancel_slot a"
  from inv_cancel_slot [OF assms(1)] have "auth_inv W (?b\<lparr>au_next_id := n, au_round := m\<rparr>) log" for n m
    by simp
  from inv_post [OF this assms(2)] show ?thesis
    using assms(3) False by (auto simp: post_challenge_def Let_def)
qed

lemma received_slot:
  assumes inv: "auth_inv W a log" and i: "W i = Received ch c r" and p: "au_pending a = Some p"
    and tx: "sl_reply_tx p = ch"
  shows "ac_id (sl_challenge p) = ar_id r"
proof -
  obtain j where j: "waits_on (W j) = Some (sl_reply_tx p, sl_challenge p)"
    using auth_invD(4) [OF inv p] by (auto simp: slot_ok_def)
  have "waits_on (W i) = Some (ch, c)" using i by simp
  from auth_invD(2) [OF inv j this] tx j i show ?thesis
    using auth_invD(3) [OF inv i] by (auto simp: answer_for_def)
qed

lemma inv_worker_step:
  assumes inv: "auth_inv W a log" and w: "W i = w0" and step: "worker_step (w0, a) = (w, a')"
  shows "auth_inv (W(i := w)) a' log"
proof (cases w0)
  case (Waiting ch c)
  then have v: "waits_on (W i) = Some (ch, c)" using w by simp
  have ok: "channel_ok a log (ch, c)" by (rule auth_invD(1) [OF inv v])
  show ?thesis
  proof (cases "cn_queue (au_channels a ch)")
    case Nil
    then show ?thesis
      using step Waiting v inv_same_wait [OF inv v, of "TimedOut ch c"] inv_leave [OF inv_no_pending [OF inv] v]
      by (auto split: if_splits simp del: fun_upd_apply)
  next
    case (Cons reply rest)
    have "auth_inv W (a\<lparr>au_channels := (au_channels a)(ch := \<lparr>cn_queue = rest, cn_open = True\<rparr>)\<rparr>) log"
      using auth_invD [OF inv] Cons ok
      by (intro auth_invI) (fastforce simp: channel_ok_def)+
    from inv_same_wait [OF this v, of "Received ch c reply"] show ?thesis
      using step Waiting Cons ok by (auto simp: channel_ok_def)
  qed
next
  case (Received ch c r)
  then have v: "waits_on (W i) = Some (ch, c)" and i: "W i = Received ch c r" using w by simp_all
  let ?a = "case au_pending a of None \<Rightarrow> a | Some p \<Rightarrow> if ac_id (sl_challenge p) = ar_id r then a\<lparr>au_pending := None\<rparr> else a"
  have "auth_inv W ?a log" using inv inv_no_pending [OF inv] by (auto split: option.split)
  moreover have "sl_reply_tx p \<noteq> ch" if "au_pending ?a = Some p" for p
    using that received_slot [OF inv i] by (auto split: option.splits if_splits)
  ultimately show ?thesis
    using inv_leave [where W = W and w = w, OF _ v] step Received by auto
next
  case (TimedOut ch c)
  then have v: "waits_on (W i) = Some (ch, c)" using w by simp
  from inv_same_wait [OF inv v, of "GivingUp ch c"] inv_same_wait [OF inv v, of "Waiting ch c"]
  show ?thesis using step TimedOut by (auto split: if_splits simp del: fun_upd_apply)
next
  case (GivingUp ch c)
  then show ?thesis using step w inv_leave [OF inv_no_pending [OF inv]] by auto
qed (use inv inv_idle [OF inv] w step in auto)

abbreviation sys_inv :: "auth_sys \<Rightarrow> bool" where
  "sys_inv s \<equiv> auth_inv (sy_worker s) (sy_auth s) (sy_log s)"

lemma sys_inv_init: "sys_inv auth_sys_init"
  by (rule auth_invI) (simp_all add: auth_sys_init_def auth_new_def)

text \<open>An accepted submission takes the slot; the other ones change nothing.\<close>

lemma submit_Ok:
  assumes "submit r a = (a', Ok ())" "au_pending a = Some p"
  shows "a' = fst (send (sl_reply_tx p) (r\<lparr>ar_id := ac_id (sl_challenge p)\<rparr>) (a\<lparr>au_pending := None\<rparr>))"
    and "ar_id r = 0 \<or> ar_id r = ac_id (sl_challenge p)"
  using assms by (auto simp: submit_def split: if_splits prod.splits bool.splits)

lemma submit_Err:
  assumes inv: "auth_inv W a log" and e: "submit r a = (a', Err e)"
  shows "a' = a"
proof (cases "au_pending a")
  case None
  then show ?thesis using e by (simp add: submit_def)
next
  case (Some p)
  have "snd (send (sl_reply_tx p) (r\<lparr>ar_id := ac_id (sl_challenge p)\<rparr>) (a\<lparr>au_pending := None\<rparr>))"
    by (rule inv_answer_slot(2) [OF inv Some disjI2 [OF refl]]) (simp add: answer_for_def)
  then show ?thesis using e Some by (auto simp: submit_def split: if_splits prod.splits bool.splits)
qed

lemma sys_inv_step: "auth_step e s s' \<Longrightarrow> sys_inv s \<Longrightarrow> sys_inv s'"
proof (induction rule: auth_step.induct)
  case (ask s i c w a)
  then show ?case using inv_post_challenge by (simp del: fun_upd_apply)
next
  case (advance s i w a)
  then show ?case using inv_worker_step by (simp del: fun_upd_apply)
next
  case (continue s i c r)
  then show ?case using inv_idle by (simp del: fun_upd_apply)
next
  case (submit_ok r s a p)
  then show ?case
    using inv_answer_slot(1) [OF submit_ok(3,2) disjI2 [OF refl], of "r\<lparr>ar_id := ac_id (sl_challenge p)\<rparr>"]
    by (auto simp: submit_def answer_for_def split: if_splits prod.splits bool.splits)
next
  case (submit_err r s a e)
  then show ?case using submit_Err [OF submit_err(2,1)] by simp
qed (auto simp: abort_def begin_session_def intro: inv_cancel_slot)

lemma sys_inv_run: "auth_run es s s' \<Longrightarrow> sys_inv s \<Longrightarrow> sys_inv s'"
  by (induction rule: auth_run.induct) (auto intro: sys_inv_step)

subsection \<open>Every blocked worker returns\<close>

text \<open>How many of its own steps a blocked worker is away from returning once the bridge is aborted.\<close>

fun steps_left :: "worker \<Rightarrow> nat" where
  "steps_left (Waiting ch c) = 3"
| "steps_left (TimedOut ch c) = 2"
| "steps_left (GivingUp ch c) = 1"
| "steps_left (Received ch c r) = 1"
| "steps_left _ = 0"

lemma worker_step_left:
  "au_aborted a \<Longrightarrow> worker_step (w, a) = (w', a') \<Longrightarrow> steps_left w' \<le> steps_left w - 1"
  by (cases w) (auto split: list.splits if_splits)

lemma worker_step_aborted: "worker_step (w, a) = (w', a') \<Longrightarrow> au_aborted a' = au_aborted a"
  by (cases w) (auto simp: close_channel_def split: list.splits if_splits option.splits)

lemma cancel_slot_aborted [simp]: "au_aborted (cancel_slot a) = au_aborted a"
  by (simp add: cancel_slot_def send_def Let_def split: option.split)

lemma submit_aborted: "submit r a = (a', x) \<Longrightarrow> au_aborted a' = au_aborted a"
  by (auto simp: submit_def send_def Let_def split: option.splits if_splits)

lemma post_aborted: "post_challenge c a = (w, a') \<Longrightarrow> au_aborted a' = au_aborted a"
  by (auto simp: post_challenge_def Let_def split: if_splits)

lemma step_aborted: "auth_step e s s' \<Longrightarrow> au_aborted (sy_auth s) \<Longrightarrow> e \<noteq> Begin \<Longrightarrow> au_aborted (sy_auth s')"
  by (induction rule: auth_step.induct)
    (auto dest: worker_step_aborted submit_aborted post_aborted simp: abort_def)

definition own_steps :: "nat \<Rightarrow> auth_event list \<Rightarrow> nat" where
  "own_steps i es = length (filter (\<lambda>e. e = Advance i) es)"

lemma step_left:
  assumes "auth_step e s s'" "au_aborted (sy_auth s)" "\<not> idle (sy_worker s i)"
  shows "steps_left (sy_worker s' i) + (if e = Advance i then 1 else 0) \<le> steps_left (sy_worker s i)"
proof -
  have "steps_left (sy_worker s i) > 0" using assms(3) by (cases "sy_worker s i") auto
  with assms show ?thesis
  proof (induction rule: auth_step.induct)
    case (advance s j w a)
    then show ?case using worker_step_left [OF _ advance(2)] advance by (auto split: if_splits)
  qed auto
qed

lemma idle_step_stays:
  "auth_step e s s' \<Longrightarrow> sy_worker s i = Answered c r \<Longrightarrow> e \<noteq> Continue i \<Longrightarrow> sy_worker s' i = Answered c r"
  by (induction rule: auth_step.induct) auto

lemma idle_run_stays:
  "auth_run es s s' \<Longrightarrow> sy_worker s i = Answered c r \<Longrightarrow> Continue i \<notin> set es \<Longrightarrow> sy_worker s' i = Answered c r"
  by (induction rule: auth_run.induct) (auto dest: idle_step_stays)

lemma answered_own_steps:
  "auth_run es s s' \<Longrightarrow> sy_worker s i = Answered c r \<Longrightarrow> Continue i \<notin> set es \<Longrightarrow> own_steps i es = 0"
proof (induction rule: auth_run.induct)
  case (go e s s1 es s2)
  then have "e \<noteq> Advance i" by (auto elim: advance_cases)
  moreover have "sy_worker s1 i = Answered c r" using go idle_step_stays [OF go(1)] by auto
  ultimately show ?case using go by (simp add: own_steps_def)
qed (simp add: own_steps_def)

lemma busy_step_idle:
  "auth_step e s s' \<Longrightarrow> \<not> idle (sy_worker s i) \<Longrightarrow> idle (sy_worker s' i) \<Longrightarrow> \<exists>c r. sy_worker s' i = Answered c r"
proof (induction rule: auth_step.induct)
  case (advance s j w a)
  then show ?case by (cases "sy_worker s j") (auto split: if_splits list.splits)
qed (auto split: if_splits)

lemma busy_enabled: "\<not> idle (sy_worker s i) \<Longrightarrow> \<exists>s'. auth_step (Advance i) s s'"
  by (cases "worker_step (sy_worker s i, sy_auth s)") (blast intro: auth_step.advance)

text \<open>C21: Once the bridge is aborted, and unless a new session begins, a blocked worker makes at most three steps of
  its own before it returns, whatever the UI and other workers do meanwhile; until then it always has a step
  to make.\<close>

theorem abort_unblocks:
  assumes run: "auth_run es s s'" and a: "au_aborted (sy_auth s)"
    and es: "Begin \<notin> set es" "Continue i \<notin> set es" and busy: "\<not> idle (sy_worker s i)"
  shows "(\<exists>c r. sy_worker s' i = Answered c r) \<and> own_steps i es \<le> 3
    \<or> own_steps i es < 3 \<and> (\<exists>s''. auth_step (Advance i) s' s'')"
proof -
  have "auth_run es s s' \<Longrightarrow> au_aborted (sy_auth s) \<Longrightarrow> Begin \<notin> set es \<Longrightarrow> Continue i \<notin> set es \<Longrightarrow>
      \<not> idle (sy_worker s i) \<Longrightarrow> (\<exists>c r. sy_worker s' i = Answered c r) \<and> own_steps i es \<le> steps_left (sy_worker s i)
        \<or> \<not> idle (sy_worker s' i) \<and> own_steps i es < steps_left (sy_worker s i)" for es s s'
  proof (induction rule: auth_run.induct)
    case (stay s)
    then show ?case by (cases "sy_worker s i") (auto simp: own_steps_def)
  next
    case (go e s s1 es s2)
    note left = step_left [OF go(1), of i]
    show ?case
    proof (cases "idle (sy_worker s1 i)")
      case True
      then obtain c r where s1: "sy_worker s1 i = Answered c r" using busy_step_idle [OF go(1)] go by blast
      have "own_steps i es = 0" using answered_own_steps [OF go(2) s1] go(6) by simp
      then show ?thesis using idle_run_stays [OF go(2) s1] go left by (auto simp: own_steps_def split: if_splits)
    next
      case False
      then show ?thesis
        using go step_aborted [OF go(1)] left by (auto simp: own_steps_def split: if_splits)
    qed
  qed
  moreover have "steps_left (sy_worker s i) \<le> 3" by (cases "sy_worker s i") auto
  ultimately show ?thesis using assms busy_enabled [of s' i] by fastforce
qed

subsection \<open>The answer belongs to the challenge\<close>

text \<open>C20: However workers and UI take turns, the answer a worker returns with is the cancellation of its own
  challenge or a submission that was accepted for that very challenge, values unchanged; and no challenge has
  two accepted submissions.\<close>

theorem answers_belong:
  assumes run: "auth_run es auth_sys_init s" and step: "auth_step (Advance i) s s'"
    and w: "waits_on (sy_worker s i) = Some (ch, c)" and ans: "sy_worker s' i = Answered c' r"
  shows "c' = c \<and> ar_id r = ac_id c \<and> (r = cancelled_reply (ac_id c) \<or> (ch, r) \<in> set (sy_log s))
    \<and> distinct (map fst (sy_log s))"
proof -
  have inv: "sys_inv s" by (rule sys_inv_run [OF run sys_inv_init])
  obtain w' a where ws: "worker_step (sy_worker s i, sy_auth s) = (w', a)" and s': "sy_worker s' i = w'"
    using step by (auto elim: advance_cases)
  have "c' = c \<and> answer_for (sy_log s) ch c r"
    using w ans ws s' auth_invD(3) [OF inv]
    by (cases "sy_worker s i") (auto split: list.splits if_splits)
  then show ?thesis using auth_invD(5) [OF inv] by (simp add: answer_for_def)
qed

text \<open>Nothing waits in the channel of a pending challenge.\<close>

definition quiet :: "auth \<Rightarrow> bool" where
  "quiet a \<longleftrightarrow> (\<forall>p. au_pending a = Some p \<longrightarrow> cn_queue (au_channels a (sl_reply_tx p)) = [])"

lemma quiet_no_pending: "au_pending a = None \<Longrightarrow> quiet a"
  by (simp add: quiet_def)

lemma quiet_step: "auth_step e s s' \<Longrightarrow> quiet (sy_auth s) \<Longrightarrow> quiet (sy_auth s')"
proof (induction rule: auth_step.induct)
  case (ask s i c w a)
  then show ?case by (auto simp: post_challenge_def Let_def quiet_def split: if_splits)
next
  case (advance s i w a)
  then show ?case
    by (cases "sy_worker s i") (auto simp: quiet_def close_channel_def split: list.splits if_splits option.splits)
next
  case (submit_err r s a e)
  then show ?case by (auto simp: submit_def send_def Let_def quiet_def split: option.splits if_splits)
qed (auto simp: submit_def abort_def begin_session_def send_def Let_def intro!: quiet_no_pending
       intro: cancel_slot_pending split: if_splits)

lemma quiet_run: "auth_run es s s' \<Longrightarrow> quiet (sy_auth s) \<Longrightarrow> quiet (sy_auth s')"
  by (induction rule: auth_run.induct) (auto intro: quiet_step)

text \<open>A submission is accepted exactly when the reply names the pending challenge (or names none); it
  takes the challenge away, and the worker, if left alone, returns with exactly that reply. A refused
  submission changes nothing.\<close>

theorem submit_delivers:
  assumes run: "auth_run es auth_sys_init s" and pending: "auth_pending (sy_auth s) = Some c"
  shows "case submit r (sy_auth s) of
      (a, Inr _) \<Rightarrow> ar_id r \<in> {0, ac_id c} \<and> auth_pending a = None
        \<and> (\<exists>i ch. waits_on (sy_worker s i) = Some (ch, c)
            \<and> (sy_worker s i = Waiting ch c \<longrightarrow>
                 fst ((worker_step ^^ 2) (sy_worker s i, a)) = Answered c (r\<lparr>ar_id := ac_id c\<rparr>)))
    | (a, Inl e) \<Rightarrow> ar_id r \<notin> {0, ac_id c} \<and> a = sy_auth s"
proof -
  have inv: "sys_inv s" by (rule sys_inv_run [OF run sys_inv_init])
  have "quiet (sy_auth auth_sys_init)" by (simp add: quiet_def auth_sys_init_def auth_new_def)
  then have q: "quiet (sy_auth s)" by (rule quiet_run [OF run])
  obtain p where p: "au_pending (sy_auth s) = Some p" and c: "sl_challenge p = c"
    using pending by (auto simp: auth_pending_def)
  obtain i where i: "waits_on (sy_worker s i) = Some (sl_reply_tx p, c)"
    using auth_invD(4) [OF inv p] c by (auto simp: slot_ok_def)
  have open_ch: "cn_open (au_channels (sy_auth s) (sl_reply_tx p))"
    using auth_invD(1) [OF inv i] by (simp add: channel_ok_def)
  have empty: "cn_queue (au_channels (sy_auth s) (sl_reply_tx p)) = []" using q p by (simp add: quiet_def)
  have "fst ((worker_step ^^ 2) (Waiting (sl_reply_tx p) c, a)) = Answered c (r\<lparr>ar_id := ac_id c\<rparr>)"
    if "submit r (sy_auth s) = (a, Ok ())" for a
    using that p c open_ch empty by (auto simp: submit_def send_def Let_def numeral_2_eq_2 split: if_splits)
  then have "\<exists>i ch. waits_on (sy_worker s i) = Some (ch, c) \<and> (sy_worker s i = Waiting ch c \<longrightarrow>
      fst ((worker_step ^^ 2) (sy_worker s i, a)) = Answered c (r\<lparr>ar_id := ac_id c\<rparr>))"
    if "submit r (sy_auth s) = (a, Ok ())" for a
    using i that by (intro exI [of _ i] exI [of _ "sl_reply_tx p"]) auto
  then show ?thesis
    using p c open_ch by (auto simp: submit_def send_def Let_def auth_pending_def)
qed

subsection \<open>Forms\<close>

definition own_value :: "auth_field \<Rightarrow> str option" where
  "own_value f = (if af_value f \<noteq> [] then Some (af_value f) else None)"

lemma bind_go_Cons:
  "bind_go (f # fs) [] = (own_value f # fst (bind_go fs []), snd (bind_go fs []))"
  "fv_key a = af_key f \<Longrightarrow>
     bind_go (f # fs) (a # l) = (Some (fv_value a) # fst (bind_go fs l), snd (bind_go fs l))"
  "fv_key a \<noteq> af_key f \<Longrightarrow>
     bind_go (f # fs) (a # l) = (own_value f # fst (bind_go fs (a # l)), snd (bind_go fs (a # l)))"
  by (simp_all add: Let_def own_value_def split: prod.split)

lemma bind_go_left: "snd (bind_go fs answers) = [] \<longleftrightarrow> subseq (map fv_key answers) (map af_key fs)"
proof (induction fs arbitrary: answers)
  case Nil
  show ?case by (cases answers) auto
next
  case (Cons f fs)
  show ?case
  proof (cases answers)
    case (Cons a l)
    then show ?thesis
      using Cons.IH [of l] Cons.IH [of "a # l"]
      by (cases "fv_key a = af_key f") (simp_all add: bind_go_Cons del: bind_go.simps)
  qed (use Cons.IH [of "[]"] in \<open>simp add: bind_go_Cons del: bind_go.simps\<close>)
qed

text \<open>What an option gets: the answer with its key, or the value it already has.\<close>

definition bound_value :: "auth_field_value list \<Rightarrow> auth_field \<Rightarrow> str option" where
  "bound_value answers f =
     (case map_of (map (\<lambda>a. (fv_key a, fv_value a)) answers) (af_key f) of
        Some v \<Rightarrow> Some v
      | None \<Rightarrow> own_value f)"

lemma bound_value_missing: "af_key f \<notin> fv_key ` set answers \<Longrightarrow> bound_value answers f = own_value f"
  by (auto simp: bound_value_def map_of_eq_None_iff image_iff split: option.split dest!: map_of_SomeD)

lemma bound_value_other: "af_key f \<noteq> fv_key a \<Longrightarrow> bound_value (a # answers) f = bound_value answers f"
  by (simp add: bound_value_def)

lemma bind_go_values:
  "distinct (map af_key fs) \<Longrightarrow> subseq (map fv_key answers) (map af_key fs) \<Longrightarrow>
     fst (bind_go fs answers) = map (bound_value answers) fs"
proof (induction fs arbitrary: answers)
  case Nil
  show ?case by simp
next
  case (Cons f fs)
  have new: "af_key f \<notin> af_key ` set fs" and dist: "distinct (map af_key fs)" using Cons(2) by auto
  show ?case
  proof (cases answers)
    case Nil
    then show ?thesis using Cons.IH [OF dist, of "[]"]
      by (simp add: bind_go_Cons bound_value_missing del: bind_go.simps)
  next
    case (Cons a l)
    show ?thesis
    proof (cases "fv_key a = af_key f")
      case True
      have "map (bound_value (a # l)) fs = map (bound_value l) fs"
        using new True by (intro map_cong refl bound_value_other) (metis imageI)
      then show ?thesis using Cons.prems Cons.IH [OF dist, of l] Cons True
        by (simp add: bind_go_Cons bound_value_def del: bind_go.simps)
    next
      case False
      then have sub: "subseq (map fv_key (a # l)) (map af_key fs)" using Cons.prems(2) Cons by simp
      from list_emb_set [OF this] new have "af_key f \<notin> fv_key ` set (a # l)"
        by (metis imageE image_set imageI)
      then show ?thesis
        using Cons.IH [OF dist sub] Cons False by (simp add: bind_go_Cons bound_value_missing del: bind_go.simps)
    qed
  qed
qed

text \<open>C24: For a form whose options have distinct keys, a reply is accepted exactly when its keys are an in-order
  subset of the options' keys; every option then gets the answer with its key, or keeps its own non-empty value.\<close>

theorem bind_reply_exact:
  assumes "distinct (map af_key fs)"
  shows "bind_reply_values_by_option fs reply =
    (if subseq (map fv_key (ar_values reply)) (map af_key fs)
     then Ok (map (bound_value (ar_values reply)) fs)
     else Err ''authentication reply contains a stale or out-of-order option'')"
  using bind_go_left [of fs "ar_values reply"] bind_go_values [OF assms, of "ar_values reply"]
  by (auto simp: bind_reply_values_by_option_def split: prod.split)

text \<open>The option the configured password goes to: the first plain password of the form.\<close>

fun password_slot :: "auth_field list \<Rightarrow> nat option" where
  "password_slot [] = None"
| "password_slot (f # fs) =
     (if af_kind f = KPassword \<and> \<not> af_second_auth f then Some 0 else map_option Suc (password_slot fs))"

definition asks_user :: "auth_form_role \<Rightarrow> auth_field \<Rightarrow> bool" where
  "asks_user role f \<longleftrightarrow> af_kind f \<noteq> KHidden \<and> (role = Challenge \<or> af_second_auth f)"

definition takes_username :: "auth_credentials \<Rightarrow> auth_field \<Rightarrow> bool" where
  "takes_username creds f \<longleftrightarrow> accepts_configured_username f \<and> cr_username creds \<noteq> []"

definition filled :: "auth_credentials \<Rightarrow> auth_form_role \<Rightarrow> bool \<Rightarrow> auth_field \<Rightarrow> auth_field" where
  "filled creds role here f =
     (if af_kind f = KHidden then f\<lparr>af_required := False\<rparr>
      else if asks_user role f then f\<lparr>af_required := trim (af_value f) = []\<rparr>
      else if takes_username creds f then f\<lparr>af_value := cr_username creds, af_required := False\<rparr>
      else if here then f\<lparr>af_value := cr_password creds, af_required := False\<rparr>
      else if trim (af_value f) = [] then f\<lparr>af_required := True\<rparr> else f)"

lemma upt_0_Suc: "[0..<Suc n] = 0 # map Suc [0..<n]"
  by (simp add: map_Suc_upt upt_conv_Cons del: upt_Suc)

lemma username_kind: "takes_username creds f \<Longrightarrow> af_kind f = KText \<and> \<not> af_second_auth f"
  by (simp add: takes_username_def accepts_configured_username_def Let_def)

text \<open>One turn of the loop in these terms.\<close>

lemma apply_go_Cons:
  fixes creds role i av f fs
  defines "here \<equiv> av \<and> af_kind f = KPassword \<and> \<not> af_second_auth f"
  defines "r \<equiv> apply_credentials_go creds role (Suc i) (av \<and> \<not> here) fs"
  assumes "role = Challenge \<longrightarrow> \<not> av"
  shows "apply_credentials_go creds role i av (f # fs) =
    (filled creds role here f # fst r,
     \<lparr>ca_profile_owned = (if role = Primary \<and> (takes_username creds f \<or> here) then [i] else [])
          @ ca_profile_owned (snd r),
      ca_user_owned = (if asks_user role f then [i] else []) @ ca_user_owned (snd r)\<rparr>)"
proof -
  have r: "apply_credentials_go creds role (Suc i) (av \<and> \<not> here) fs = (fst r, snd r)" by (simp add: r_def)
  have a: "snd r = \<lparr>ca_profile_owned = ca_profile_owned (snd r), ca_user_owned = ca_user_owned (snd r)\<rparr>" by simp
  have "takes_username creds f \<Longrightarrow> af_kind f = KText \<and> \<not> af_second_auth f" by (rule username_kind)
  then show ?thesis
    using r assms(3)
    by (subst a, cases role; cases "takes_username creds f"; cases here)
      (auto simp: here_def takes_username_def asks_user_def filled_def split: prod.splits)
qed

definition profile_fills :: "auth_credentials \<Rightarrow> auth_form_role \<Rightarrow> bool \<Rightarrow> auth_field list \<Rightarrow> nat \<Rightarrow> bool" where
  "profile_fills creds role av fs k \<longleftrightarrow>
     role = Primary \<and> (takes_username creds (fs ! k) \<or> av \<and> password_slot fs = Some k)"

lemma profile_fills_Suc:
  "profile_fills creds role av (f # fs) (Suc k) =
     profile_fills creds role (av \<and> \<not> (av \<and> af_kind f = KPassword \<and> \<not> af_second_auth f)) fs k"
  by (auto simp: profile_fills_def)

lemma password_slot_Cons:
  "(av \<and> password_slot (f # fs) = Some (Suc k)) =
     ((av \<and> \<not> (av \<and> af_kind f = KPassword \<and> \<not> af_second_auth f)) \<and> password_slot fs = Some k)"
  "(password_slot (f # fs) = Some 0) = (af_kind f = KPassword \<and> \<not> af_second_auth f)"
  by auto

lemma apply_go_eq:
  "(role = Challenge \<longrightarrow> \<not> av) \<Longrightarrow> apply_credentials_go creds role i av fs =
    (map (\<lambda>k. filled creds role (av \<and> password_slot fs = Some k) (fs ! k)) [0..<length fs],
     \<lparr>ca_profile_owned = map (\<lambda>k. i + k) (filter (profile_fills creds role av fs) [0..<length fs]),
      ca_user_owned = map (\<lambda>k. i + k) (filter (\<lambda>k. asks_user role (fs ! k)) [0..<length fs])\<rparr>)"
proof (induction fs arbitrary: i av)
  case (Cons f fs)
  have "role = Challenge \<longrightarrow> \<not> (av \<and> \<not> (av \<and> af_kind f = KPassword \<and> \<not> af_second_auth f))"
    using Cons.prems by simp
  note IH = Cons.IH [OF this, of "Suc i"]
  have zero: "profile_fills creds role av (f # fs) 0 =
      (role = Primary \<and> (takes_username creds f \<or> av \<and> af_kind f = KPassword \<and> \<not> af_second_auth f))"
    by (auto simp: profile_fills_def)
  show ?case
    by (simp only: apply_go_Cons [OF Cons.prems] IH length_Cons upt_0_Suc list.map filter.simps map_map filter_map
        comp_def nth_Cons_0 nth_Cons_Suc zero profile_fills_Suc password_slot_Cons fst_conv snd_conv
        credential_application.simps)
      auto
qed simp

lemma password_slot_kind:
  "password_slot fs = Some k \<Longrightarrow> k < length fs \<and> af_kind (fs ! k) = KPassword \<and> \<not> af_second_auth (fs ! k)"
  by (induction fs arbitrary: k) (auto split: if_splits)

lemma filter_enumerate:
  assumes "\<And>k. k < length xs \<Longrightarrow> k \<in> S \<longleftrightarrow> Q (xs ! k)"
  shows "map snd (filter (\<lambda>(k, x). k \<in> S) (enumerate 0 xs)) = filter Q xs"
proof -
  have "filter (\<lambda>(k, x). k \<in> S) (enumerate 0 xs) = filter (Q \<circ> snd) (enumerate 0 xs)"
    using assms by (intro filter_cong refl) (auto simp: in_set_enumerate_eq)
  then show ?thesis by (simp flip: filter_map)
qed

text \<open>C23: The configured user name goes to the plain user-name options of a primary form and the configured password
  to its first plain password option, and nowhere else: no value of a challenge form and none of an option
  marked as second authentication is touched. The prompt asks for exactly the visible options of a challenge form
  and the marked options of a primary one.\<close>

theorem credentials_placement:
  "case apply_credentials_to_fields fs creds role of (gs, a) \<Rightarrow>
     map af_value gs = map (\<lambda>k.
         if role = Primary \<and> takes_username creds (fs ! k) then cr_username creds
         else if role = Primary \<and> cr_password creds \<noteq> [] \<and> password_slot fs = Some k then cr_password creds
         else af_value (fs ! k)) [0..<length fs]
   \<and> map (\<lambda>g. (af_key g, af_name g, af_kind g, af_second_auth g)) gs
     = map (\<lambda>f. (af_key f, af_name f, af_kind f, af_second_auth f)) fs
   \<and> fields_for_user_input gs a = filter (asks_user role) gs"
proof -
  define here where "here k = ((role = Primary \<and> cr_password creds \<noteq> []) \<and> password_slot fs = Some k)" for k
  define gs where "gs = map (\<lambda>k. filled creds role (here k) (fs ! k)) [0..<length fs]"
  define a where "a = snd (apply_credentials_to_fields fs creds role)"
  have eq: "apply_credentials_to_fields fs creds role = (gs, a)"
    and user: "set (ca_user_owned a) = {k. k < length fs \<and> asks_user role (fs ! k)}"
    by (auto simp: apply_credentials_to_fields_def apply_go_eq gs_def a_def here_def)
  have kept: "af_key (filled creds role b f) = af_key f" "af_name (filled creds role b f) = af_name f"
    "af_kind (filled creds role b f) = af_kind f" "af_second_auth (filled creds role b f) = af_second_auth f" for b f
    by (simp_all add: filled_def)
  have "map (\<lambda>g. (af_key g, af_name g, af_kind g, af_second_auth g)) gs
      = map (\<lambda>f. (af_key f, af_name f, af_kind f, af_second_auth f)) fs"
    by (rule nth_equalityI) (simp_all add: gs_def kept)
  moreover have "af_value (filled creds role (here k) (fs ! k)) =
      (if role = Primary \<and> takes_username creds (fs ! k) then cr_username creds
       else if role = Primary \<and> cr_password creds \<noteq> [] \<and> password_slot fs = Some k then cr_password creds
       else af_value (fs ! k))" for k
    using username_kind [of creds "fs ! k"] password_slot_kind [of fs k]
    by (cases role) (auto simp: filled_def here_def asks_user_def)
  moreover have "fields_for_user_input gs a = filter (asks_user role) gs"
    unfolding fields_for_user_input_def user
    by (rule filter_enumerate) (simp add: gs_def asks_user_def kept)
  ultimately show ?thesis by (simp add: eq gs_def comp_def)
qed

subsection \<open>Concrete instances\<close>

definition demo_key :: "nat \<Rightarrow> auth_field_key" where
  "demo_key n = \<lparr>fk_form_id = Some ''challenge'', fk_option_index = n, fk_option_digest = ''d''\<rparr>"

definition demo_field :: "nat \<Rightarrow> auth_field" where
  "demo_field n = \<lparr>af_key = demo_key n, af_name = ''answer'', af_label = ''Answer'', af_kind = KPassword, af_value = [],
     af_choices = [], af_auth_group = False, af_second_auth = False, af_required = True\<rparr>"

definition demo_challenge :: auth_challenge where
  "demo_challenge = \<lparr>ac_id = 0, ac_round = 0, ac_banner = None, ac_message = None, ac_error = None,
     ac_form_id = Some ''challenge'', ac_method = None, ac_fields = [demo_field 0, demo_field 1]\<rparr>"

definition demo_reply :: auth_challenge_reply where
  "demo_reply = \<lparr>ar_id = 1, ar_values = [\<lparr>fv_key = demo_key 1, fv_value = ''123456''\<rparr>], ar_cancelled = False\<rparr>"

text \<open>The worker has asked; the UI has answered; the worker has picked the answer up.\<close>

definition demo_asked :: auth_sys where
  "demo_asked = auth_sys_init\<lparr>sy_worker := (sy_worker auth_sys_init)(0 := fst (post_challenge demo_challenge auth_new)),
     sy_auth := snd (post_challenge demo_challenge auth_new)\<rparr>"

definition demo_submitted :: auth_sys where
  "demo_submitted = demo_asked\<lparr>sy_auth := fst (submit demo_reply (sy_auth demo_asked)), sy_log := [(0, demo_reply)]\<rparr>"

definition demo_advance :: "auth_sys \<Rightarrow> auth_sys" where
  "demo_advance s = (case worker_step (sy_worker s 0, sy_auth s) of (w, a) \<Rightarrow>
     s\<lparr>sy_worker := (sy_worker s)(0 := w), sy_auth := a\<rparr>)"

lemma demo_asked_step: "auth_step (Ask 0 demo_challenge) auth_sys_init demo_asked"
  unfolding demo_asked_def
  by (rule auth_step.ask) (simp_all add: auth_sys_init_def)

lemma demo_advance_step: "\<not> idle (sy_worker s 0) \<Longrightarrow> auth_step (Advance 0) s (demo_advance s)"
  unfolding demo_advance_def by (cases "worker_step (sy_worker s 0, sy_auth s)") (auto intro: auth_step.advance)

lemma demo_pending: "au_pending (sy_auth demo_asked) =
    Some \<lparr>sl_challenge = demo_challenge\<lparr>ac_id := 1, ac_round := 1\<rparr>, sl_reply_tx = 0\<rparr>"
  "cn_open (au_channels (sy_auth demo_asked) 0)" "cn_queue (au_channels (sy_auth demo_asked) 0) = []"
  "sy_worker demo_asked 0 = Waiting 0 (demo_challenge\<lparr>ac_id := 1, ac_round := 1\<rparr>)"
  by (simp_all add: demo_asked_def post_challenge_def auth_new_def Let_def cancel_slot_def saturating_succ_def
      u64_top_def u32_top_def)

lemma demo_submit: "submit demo_reply (sy_auth demo_asked) = (sy_auth demo_submitted, Ok ())"
  by (simp add: demo_submitted_def submit_def demo_pending send_def Let_def) (simp add: demo_reply_def demo_challenge_def)

lemma demo_submitted_step: "auth_step (Submit demo_reply) demo_asked demo_submitted"
proof -
  have "demo_reply\<lparr>ar_id := 1\<rparr> = demo_reply" by (simp add: demo_reply_def)
  then have "demo_submitted = demo_asked\<lparr>sy_auth := sy_auth demo_submitted,
      sy_log := (0, demo_reply\<lparr>ar_id := 1\<rparr>) # sy_log demo_asked\<rparr>"
    by (simp add: demo_submitted_def demo_asked_def auth_sys_init_def)
  with auth_step.submit_ok [OF demo_submit demo_pending(1)] show ?thesis by simp
qed

abbreviation demo_asked_challenge :: auth_challenge where
  "demo_asked_challenge \<equiv> demo_challenge\<lparr>ac_id := 1, ac_round := 1\<rparr>"

lemma demo_states:
  "sy_worker demo_submitted 0 = Waiting 0 demo_asked_challenge"
  "sy_worker (demo_advance demo_submitted) 0 = Received 0 demo_asked_challenge demo_reply"
  "sy_worker (demo_advance (demo_advance demo_submitted)) 0 = Answered demo_asked_challenge demo_reply"
proof -
  show w: "sy_worker demo_submitted 0 = Waiting 0 demo_asked_challenge"
    by (simp add: demo_submitted_def demo_pending)
  have "cn_queue (au_channels (sy_auth demo_submitted) 0) = [demo_reply]"
    by (simp add: demo_submitted_def submit_def demo_pending send_def Let_def)
      (simp add: demo_reply_def demo_challenge_def)
  then show r: "sy_worker (demo_advance demo_submitted) 0 = Received 0 demo_asked_challenge demo_reply"
    by (simp add: demo_advance_def w)
  show "sy_worker (demo_advance (demo_advance demo_submitted)) 0 = Answered demo_asked_challenge demo_reply"
    by (subst demo_advance_def) (simp add: r)
qed

lemma answers_belong_witness:
  "ar_id demo_reply = ac_id demo_asked_challenge \<and> (0, demo_reply) \<in> set (sy_log (demo_advance demo_submitted))"
proof -
  have "auth_run [Ask 0 demo_challenge, Submit demo_reply, Advance 0] auth_sys_init (demo_advance demo_submitted)"
    using demo_asked_step demo_submitted_step demo_advance_step [of demo_submitted]
    by (auto simp: run_simps demo_states)
  from answers_belong [OF this demo_advance_step, unfolded demo_states, OF _ _ refl]
  show ?thesis by (auto simp: demo_states demo_reply_def cancelled_reply_def)
qed

lemma submit_delivers_witness:
  "case submit demo_reply (sy_auth demo_asked) of
      (a, Inr _) \<Rightarrow> ar_id demo_reply \<in> {0, 1} \<and> auth_pending a = None
        \<and> (\<exists>i ch. waits_on (sy_worker demo_asked i) = Some (ch, demo_asked_challenge)
            \<and> (sy_worker demo_asked i = Waiting ch demo_asked_challenge \<longrightarrow>
                 fst ((worker_step ^^ 2) (sy_worker demo_asked i, a))
                   = Answered demo_asked_challenge (demo_reply\<lparr>ar_id := 1\<rparr>)))
    | (a, Inl e) \<Rightarrow> False"
proof -
  have run: "auth_run [Ask 0 demo_challenge] auth_sys_init demo_asked"
    using demo_asked_step by (simp add: run_simps)
  have "auth_pending (sy_auth demo_asked) = Some demo_asked_challenge"
    by (simp add: auth_pending_def demo_pending)
  from submit_delivers [OF run this, of demo_reply] show ?thesis by (simp add: demo_submit)
qed

lemma abort_unblocks_witness:
  "\<exists>s'. auth_run [Advance 0] (demo_asked\<lparr>sy_auth := abort (sy_auth demo_asked)\<rparr>) s'
     \<and> ((\<exists>c r. sy_worker s' 0 = Answered c r) \<or> (\<exists>s''. auth_step (Advance 0) s' s''))"
proof -
  let ?s = "demo_asked\<lparr>sy_auth := abort (sy_auth demo_asked)\<rparr>"
  have busy: "\<not> idle (sy_worker ?s 0)" by (simp add: demo_pending)
  have run: "auth_run [Advance 0] ?s (demo_advance ?s)"
    using demo_advance_step [OF busy] by (simp add: run_simps)
  have "au_aborted (sy_auth ?s)" by (simp add: abort_def)
  from abort_unblocks [OF run this _ _ busy] run show ?thesis by auto
qed

lemma bind_reply_exact_witness:
  "bind_reply_values_by_option [demo_field 0, demo_field 1] demo_reply = Ok [None, Some ''123456'']"
  using bind_reply_exact [of "[demo_field 0, demo_field 1]" demo_reply]
  by (simp add: demo_field_def demo_key_def demo_reply_def bound_value_def own_value_def)

end
