(* ===== verification/Oc_Logs.thy ===== *)
theory Oc_Logs
  imports Oc_Model "HOL-Library.List_Lexorder" "HOL-Library.Char_ord" "HOL-Library.Product_Lexorder"
begin

text \<open>
  \<open>crates/hopenconnect_core/src/log_recording.rs\<close>: the two in-memory diagnostic buffers, the lines they append to the
  daily file, and the names and order of the archives. The rolling appender of \<open>tracing_appender\<close> is
  the list of the lines it took; whether it can be built and whether it takes a line are arguments, and so
  are the clock and the content of the recording marker.
\<close>

definition max_in_memory_logs :: nat where "max_in_memory_logs = 256"
definition max_pending_runtime_logs :: nat where "max_pending_runtime_logs = 4096"

subsection \<open>Lines\<close>

definition replace_chars :: "char set \<Rightarrow> str \<Rightarrow> str \<Rightarrow> str" where
  "replace_chars C new s = concat (map (\<lambda>c. if c \<in> C then new else [c]) s)"

definition tab :: char where "tab = CHR 0x09"
definition newline :: char where "newline = CHR 0x0A"
definition carriage_return :: char where "carriage_return = CHR 0x0D"
definition backslash :: char where "backslash = CHR 0x5C"

definition to_ascii_uppercase :: "str \<Rightarrow> str" where
  "to_ascii_uppercase = map (\<lambda>c. if 97 \<le> cp c \<and> cp c \<le> 122 then char_of (cp c - 32) else c)"

definition log_message :: "str \<Rightarrow> str" where
  "log_message m =
     replace_chars {carriage_return, newline} [backslash, CHR ''n'']
       (replace_chars {tab} [backslash, CHR ''t'']
         (replace_chars {backslash} [backslash, backslash] m))"

definition log_line :: "diagnostic_entry \<Rightarrow> str" where
  "log_line e = de_timestamp e @ [tab] @ to_ascii_uppercase (de_level e) @ [tab] @ log_message (de_message e) @ [newline]"

text \<open>The appender and the outcome of giving it a line.\<close>

type_synonym appender = "str list"

definition write_log_entry :: "bool \<Rightarrow> appender \<Rightarrow> diagnostic_entry \<Rightarrow> appender \<times> bool" where
  "write_log_entry takes a e = (if takes then (a @ [log_line e], True) else (a, False))"

text \<open>The content of the marker file, when it can be read.\<close>

definition active_session_id :: "str option \<Rightarrow> str option" where
  "active_session_id marker =
     (case marker of None \<Rightarrow> None | Some v \<Rightarrow> if trim v = [] then None else Some (trim v))"

subsection \<open>The engine's buffer\<close>

record log_buffer =
  lb_session_id :: "str option"
  lb_appender :: "appender option"
  lb_entries :: "diagnostic_entry list"

definition log_buffer_new :: log_buffer where
  "log_buffer_new = \<lparr>lb_session_id = None, lb_appender = None, lb_entries = []\<rparr>"

text \<open>What the file system answers: the marker, whether the daily appender can be built, whether it takes lines.\<close>

record log_io =
  li_marker :: "str option"
  li_build :: bool
  li_takes :: bool
  li_now :: nat

definition log_sync_session :: "log_io \<Rightarrow> log_buffer \<Rightarrow> log_buffer" where
  "log_sync_session io b =
     (let sid = active_session_id (li_marker io)
      in if sid \<noteq> lb_session_id b
         then b\<lparr>lb_entries := [], lb_appender := (if sid \<noteq> None \<and> li_build io then Some [] else None),
                lb_session_id := sid\<rparr>
         else b)"

definition log_push :: "log_io \<Rightarrow> diagnostic_entry \<Rightarrow> log_buffer \<Rightarrow> log_buffer" where
  "log_push io e b =
     (let b = log_sync_session io b
      in if lb_session_id b = None then b
         else let b = (case lb_appender b of None \<Rightarrow> b
                       | Some a \<Rightarrow> b\<lparr>lb_appender := Some (fst (write_log_entry (li_takes io) a e))\<rparr>);
                  kept = (if length (lb_entries b) \<ge> max_in_memory_logs then tl (lb_entries b) else lb_entries b)
              in b\<lparr>lb_entries := kept @ [e]\<rparr>)"

definition log_clear :: "log_buffer \<Rightarrow> log_buffer" where
  "log_clear b = b\<lparr>lb_entries := []\<rparr>"

definition log_enabled :: "log_buffer \<Rightarrow> bool" where
  "log_enabled b \<longleftrightarrow> lb_session_id b \<noteq> None"

subsection \<open>The runtime buffer\<close>

record captured_log =
  cl_sequence :: nat
  cl_captured_at :: nat
  cl_entry :: diagnostic_entry

record runtime_log =
  rl_session_id :: "str option"
  rl_appender :: "appender option"
  rl_entries :: "captured_log list"
  rl_next_sequence :: nat
  rl_persisted_sequence :: nat

definition runtime_log_default :: runtime_log where
  "runtime_log_default = \<lparr>rl_session_id = None, rl_appender = None, rl_entries = [], rl_next_sequence = 1,
     rl_persisted_sequence = 0\<rparr>"

definition max_u64 :: nat where "max_u64 = 18446744073709551615"
definition max_u128 :: nat where "max_u128 = 340282366920938463463374607431768211455"

definition runtime_capture :: "nat \<Rightarrow> diagnostic_entry \<Rightarrow> runtime_log \<Rightarrow> runtime_log" where
  "runtime_capture now e b =
     (let kept = (if length (rl_entries b) \<ge> max_pending_runtime_logs then tl (rl_entries b) else rl_entries b)
      in b\<lparr>rl_next_sequence := min (rl_next_sequence b + 1) max_u64,
           rl_entries := kept @ [\<lparr>cl_sequence = rl_next_sequence b, cl_captured_at = now, cl_entry = e\<rparr>]\<rparr>)"

text \<open>The loop over the entries not yet written: it stops at the first line the appender refuses.\<close>

fun persist_go :: "(captured_log \<Rightarrow> bool) \<Rightarrow> captured_log list \<Rightarrow> appender \<times> nat \<Rightarrow> appender \<times> nat" where
  "persist_go takes [] s = s"
| "persist_go takes (c # cs) (a, n) =
     (case write_log_entry (takes c) a (cl_entry c) of
        (a', True) \<Rightarrow> persist_go takes cs (a', cl_sequence c)
      | (a', False) \<Rightarrow> (a', n))"

fun trim_persisted :: "nat \<Rightarrow> captured_log list \<Rightarrow> captured_log list" where
  "trim_persisted n [] = []"
| "trim_persisted n (c # cs) =
     (if length (c # cs) > max_in_memory_logs \<and> cl_sequence c \<le> n then trim_persisted n cs else c # cs)"

definition runtime_sync :: "log_io \<Rightarrow> (captured_log \<Rightarrow> bool) \<Rightarrow> runtime_log \<Rightarrow> runtime_log" where
  "runtime_sync io takes b =
     (let sid = active_session_id (li_marker io);
          b = (if sid \<noteq> rl_session_id b then
                 (let started = (case sid of None \<Rightarrow> max_u128
                                 | Some v \<Rightarrow> (case parse_uint max_u128 v of None \<Rightarrow> max_u128 | Some t \<Rightarrow> t))
                  in b\<lparr>rl_entries := filter (\<lambda>c. cl_captured_at c \<ge> started) (rl_entries b),
                       rl_persisted_sequence := 0,
                       rl_appender := (if sid \<noteq> None \<and> li_build io then Some [] else None),
                       rl_session_id := sid\<rparr>)
               else b)
      in if rl_session_id b = None then b\<lparr>rl_entries := [], rl_persisted_sequence := 0, rl_appender := None\<rparr>
         else case rl_appender b of
           None \<Rightarrow> b
         | Some a \<Rightarrow>
             (let (a', n) = persist_go takes
                    (filter (\<lambda>c. cl_sequence c > rl_persisted_sequence b) (rl_entries b))
                    (a, rl_persisted_sequence b)
              in b\<lparr>rl_appender := Some a', rl_persisted_sequence := n,
                   rl_entries := trim_persisted n (rl_entries b)\<rparr>))"

definition runtime_clear :: "runtime_log \<Rightarrow> runtime_log" where
  "runtime_clear b = b\<lparr>rl_entries := [], rl_persisted_sequence := 0\<rparr>"

definition runtime_entries :: "runtime_log \<Rightarrow> diagnostic_entry list" where
  "runtime_entries b = map cl_entry (rl_entries b)"

subsection \<open>Merged views\<close>

text \<open>\<open>merged_logs\<close> and \<open>merge_platform_logs\<close> of \<open>engine/logging.rs\<close>.\<close>

definition merged_logs :: "diagnostic_entry list \<Rightarrow> diagnostic_entry list \<Rightarrow> diagnostic_entry list" where
  "merged_logs state_logs runtime =
     (let logs = drop (length state_logs - max_in_memory_logs) state_logs;
          remaining = max_in_memory_logs - length logs
      in logs @ drop (length runtime - remaining) runtime)"

fun push_missing :: "diagnostic_entry list \<Rightarrow> diagnostic_entry list \<Rightarrow> diagnostic_entry list" where
  "push_missing local [] = local"
| "push_missing local (e # es) =
     (if \<exists>x \<in> set local. de_level x = de_level e \<and> de_message x = de_message e \<and> de_timestamp x = de_timestamp e
      then push_missing local es else push_missing (local @ [e]) es)"

definition merge_platform_logs :: "diagnostic_entry list \<Rightarrow> diagnostic_entry list \<Rightarrow> diagnostic_entry list" where
  "merge_platform_logs local platform =
     (let local = push_missing local platform
      in if length local > max_in_memory_logs then drop (length local - max_in_memory_logs) local else local)"

definition is_vpn_log_target :: "str \<Rightarrow> bool" where
  "is_vpn_log_target target \<longleftrightarrow> starts_with target ''hopenconnect_core'' \<or> starts_with target ''anyconnect''
     \<or> starts_with target ''openconnect''"

subsection \<open>Archives\<close>

definition strip_prefix :: "str \<Rightarrow> str \<Rightarrow> str option" where
  "strip_prefix s p = (if take (length p) s = p then Some (drop (length p) s) else None)"

definition strip_suffix :: "str \<Rightarrow> str \<Rightarrow> str option" where
  "strip_suffix s p =
     (if length p \<le> length s \<and> drop (length s - length p) s = p then Some (take (length s - length p) s) else None)"

definition log_file_date :: "str \<Rightarrow> str option" where
  "log_file_date name =
     (let date = (\<lambda>prefix. case strip_prefix name prefix of None \<Rightarrow> None | Some v \<Rightarrow> strip_suffix v ''.log'')
      in case date ''h-openconnect.'' of Some d \<Rightarrow> Some d | None \<Rightarrow> date ''h-openconnect-'')"

text \<open>The date of a name is compared byte by byte: a character outside ASCII has bytes that are neither
  digits nor hyphens.\<close>

definition is_log_file_name :: "str \<Rightarrow> bool" where
  "is_log_file_name name =
     (case log_file_date name of
        None \<Rightarrow> False
      | Some d \<Rightarrow> length d = 10
          \<and> list_all (\<lambda>(i, c). if i = 4 \<or> i = 7 then c = CHR ''-'' else is_ascii_digit c) (enumerate 0 d))"

definition pad_dec :: "nat \<Rightarrow> nat \<Rightarrow> str" where
  "pad_dec w n = replicate (w - length (show_dec n)) (CHR ''0'') @ show_dec n"

text \<open>For the date of today: year, month, day.\<close>

definition current_archive_file_name :: "nat \<times> nat \<times> nat \<Rightarrow> str" where
  "current_archive_file_name today =
     (case today of (y, mo, d) \<Rightarrow>
        ''h-openconnect.'' @ pad_dec 4 y @ ''-'' @ pad_dec 2 mo @ ''-'' @ pad_dec 2 d @ ''.log'')"

record log_archive =
  la_file_name :: str
  la_date :: str
  la_bytes :: nat
  la_updated_at :: "str option"
  la_active :: bool

text \<open>A directory entry: its name, and its metadata: whether it is a file, its size, when it was modified.\<close>

record dir_entry =
  dr_name :: str
  dr_metadata :: "(str, bool \<times> nat \<times> str option) result"

text \<open>The loop of \<open>list_archives\<close>: the first entry that cannot be read ends it; other files are skipped unread.\<close>

fun collect_archives :: "(str, dir_entry) result list \<Rightarrow> (str, log_archive list) result" where
  "collect_archives [] = Ok []"
| "collect_archives (Inl e # es) = Err (''io: '' @ e)"
| "collect_archives (Inr d # es) =
     (if \<not> is_log_file_name (dr_name d) then collect_archives es
      else case dr_metadata d of
          Inl e \<Rightarrow> Err (''io: '' @ e)
        | Inr (is_file, size_of, modified) \<Rightarrow>
            if \<not> is_file then collect_archives es
            else and_then (collect_archives es) (\<lambda>archives.
                   Ok (\<lparr>la_file_name = dr_name d, la_date = (case log_file_date (dr_name d) of None \<Rightarrow> [] | Some v \<Rightarrow> v),
                        la_bytes = size_of, la_updated_at = modified, la_active = False\<rparr> # archives)))"

text \<open>A stable sort, the latest date first, and for one date the greater name first.\<close>

definition sort_archives :: "log_archive list \<Rightarrow> log_archive list" where
  "sort_archives archives = rev (sort_key (\<lambda>a. (la_date a, la_file_name a)) (rev archives))"

text \<open>The directory: \<open>None\<close> when it does not exist.\<close>

definition list_archives :: "(str, (str, dir_entry) result list) result option \<Rightarrow> (str, log_archive list) result" where
  "list_archives directory =
     (case directory of
        None \<Rightarrow> Ok []
      | Some (Inl e) \<Rightarrow> Err (''io: '' @ e)
      | Some (Inr entries) \<Rightarrow> and_then (collect_archives entries) (\<lambda>archives. Ok (sort_archives archives)))"

record log_recording_status =
  ls_enabled :: bool
  ls_archives :: "log_archive list"

definition recording_status ::
    "str option \<Rightarrow> nat \<times> nat \<times> nat \<Rightarrow> (str, (str, dir_entry) result list) result option
       \<Rightarrow> (str, log_recording_status) result" where
  "recording_status marker today directory =
     (let enabled = active_session_id marker \<noteq> None
      in and_then (list_archives directory) (\<lambda>archives.
           Ok \<lparr>ls_enabled = enabled,
               ls_archives = map (\<lambda>a. a\<lparr>la_active := enabled \<and> la_file_name a = current_archive_file_name today\<rparr>) archives\<rparr>))"

text \<open>\<open>content\<close> is the outcome of reading the file.\<close>

definition read_archive :: "(str, str) result \<Rightarrow> str \<Rightarrow> (str, str) result" where
  "read_archive content name =
     (if \<not> is_log_file_name name then Err ''invalid log archive name''
      else case content of Inl e \<Rightarrow> Err (''io: '' @ e) | Inr v \<Rightarrow> Ok v)"

text \<open>\<open>removed\<close> is the outcome of removing the file; on success the name of the file is gone.\<close>

definition delete_archive :: "str option \<Rightarrow> nat \<times> nat \<times> nat \<Rightarrow> str option \<Rightarrow> str \<Rightarrow> (str, str) result" where
  "delete_archive marker today removed name =
     (if \<not> is_log_file_name name then Err ''invalid log archive name''
      else if active_session_id marker \<noteq> None \<and> name = current_archive_file_name today then
        Err ''stop log recording before deleting the active archive''
      else case removed of Some e \<Rightarrow> Err (''io: '' @ e) | None \<Rightarrow> Ok name)"

end
