(* ===== verification/Oc_Log_Laws.thy ===== *)
theory Oc_Log_Laws
  imports Oc_Logs "HOL-Library.Sublist"
begin

text \<open>
  What the log files and buffers guarantee: a recorded line can be read back whatever the message holds, and the
  runtime buffer writes every entry at most once and in order.
\<close>

subsection \<open>Lines can be read back\<close>

fun unescape :: "str \<Rightarrow> str" where
  "unescape (a # b # s) =
     (if a = backslash then
        (if b = CHR ''t'' then tab else if b = CHR ''n'' then newline else b) # unescape s
      else a # unescape (b # s))"
| "unescape s = s"

definition escape_char :: "char \<Rightarrow> str" where
  "escape_char c =
     (if c = backslash then [backslash, backslash]
      else if c = tab then [backslash, CHR ''t'']
      else if c \<in> {carriage_return, newline} then [backslash, CHR ''n''] else [c])"

lemmas log_chars = tab_def newline_def carriage_return_def backslash_def

lemma replace_chars_append [simp]: "replace_chars C w (a @ b) = replace_chars C w a @ replace_chars C w b"
  and replace_chars_Nil [simp]: "replace_chars C w [] = []"
  and replace_chars_Cons: "replace_chars C w (c # s) = (if c \<in> C then w else [c]) @ replace_chars C w s"
  by (simp_all add: replace_chars_def)

lemma log_message_chars: "log_message m = concat (map escape_char m)"
  by (induction m) (auto simp: log_message_def replace_chars_Cons escape_char_def log_chars)

lemma unescape_char: "unescape (escape_char c @ s) = (if c = carriage_return then newline else c) # unescape s"
  by (cases s) (auto simp: escape_char_def log_chars)

lemma unescape_log_message:
  "unescape (log_message m) = map (\<lambda>c. if c = carriage_return then newline else c) m"
  by (induction m) (auto simp: log_message_chars unescape_char)

lemma log_message_one_line: "set (log_message m) \<inter> {tab, newline, carriage_return} = {}"
  by (induction m) (auto simp: log_message_chars escape_char_def log_chars)

text \<open>A recorded line ends with its only line feed and has the time stamp, the level in capitals and the message
  as its three tab-separated parts; undoing the escapes gives the message back, carriage returns read as line feeds.\<close>

theorem log_line_readable:
  assumes "tab \<notin> set (de_timestamp e)" "tab \<notin> set (de_level e)"
    and "newline \<notin> set (de_timestamp e)" "newline \<notin> set (de_level e)"
  shows "\<exists>line. log_line e = line @ [newline] \<and> newline \<notin> set line
    \<and> split_char tab line = [de_timestamp e, to_ascii_uppercase (de_level e), log_message (de_message e)]
    \<and> unescape (log_message (de_message e)) = map (\<lambda>c. if c = carriage_return then newline else c) (de_message e)"
proof -
  have big: "cp (char_of (cp d - 32)) \<ge> 65" if "97 \<le> cp d" "cp d \<le> 122" for d
    using that by (simp add: cp_def)
  have "cp tab < 65" "cp newline < 65" by (simp_all add: log_chars cp_def)
  then have "c \<noteq> char_of (cp d - 32)" if "c = tab \<or> c = newline" "97 \<le> cp d" "cp d \<le> 122" for c d
    using big [OF that(2,3)] that(1) by force
  then have upper: "c \<notin> set (to_ascii_uppercase s)" if "c \<notin> set s" "c = tab \<or> c = newline" for c s
    using that by (induction s) (auto simp: to_ascii_uppercase_def)
  let ?line = "de_timestamp e @ tab # to_ascii_uppercase (de_level e) @ tab # log_message (de_message e)"
  have "newline \<noteq> tab" by (simp add: log_chars)
  then have "newline \<notin> set ?line"
    using assms upper [of newline] log_message_one_line [of "de_message e"] by auto
  moreover have "split_char tab ?line = [de_timestamp e, to_ascii_uppercase (de_level e), log_message (de_message e)]"
    using assms upper [of tab] log_message_one_line [of "de_message e"]
    by (simp add: split_char_append split_char_single)
  ultimately show ?thesis
    by (intro exI [of _ ?line]) (simp add: log_line_def unescape_log_message)
qed

subsection \<open>The runtime buffer within one recording session\<close>

text \<open>\<open>Log\<close> is an entry captured at some time, \<open>Sync\<close> a synchronisation in which the appender takes the entries
  that satisfy a predicate.\<close>

datatype log_event = Log nat diagnostic_entry | Sync log_io "captured_log \<Rightarrow> bool"

fun log_event_run :: "log_event \<Rightarrow> runtime_log \<Rightarrow> runtime_log" where
  "log_event_run (Log now e) b = runtime_capture now e b"
| "log_event_run (Sync io takes) b = runtime_sync io takes b"

definition run_logs :: "log_event list \<Rightarrow> runtime_log \<Rightarrow> runtime_log" where
  "run_logs es b = foldl (\<lambda>b e. log_event_run e b) b es"

definition session_start :: "str \<Rightarrow> runtime_log" where
  "session_start sid = runtime_log_default\<lparr>rl_session_id := Some sid, rl_appender := Some []\<rparr>"

fun logged :: "log_event list \<Rightarrow> diagnostic_entry list" where
  "logged [] = []"
| "logged (Log now e # es) = e # logged es"
| "logged (Sync io takes # es) = logged es"

lemma logged_append [simp]: "logged (xs @ ys) = logged xs @ logged ys"
  by (induction xs rule: logged.induct) auto

text \<open>The invariant: what was captured is numbered from 1; the buffer holds the end of it, the appender a
  subsequence of what is numbered up to the persisted number.\<close>

definition number_entry :: "captured_log \<Rightarrow> nat \<times> diagnostic_entry" where
  "number_entry c = (cl_sequence c, cl_entry c)"

text \<open>\<open>holds_from j\<close>: the buffer holds the entries from position \<open>j\<close> on.\<close>

definition holds_from :: "nat \<Rightarrow> diagnostic_entry list \<Rightarrow> captured_log list \<Rightarrow> bool" where
  "holds_from j all cs \<longleftrightarrow> j \<le> length all \<and> map number_entry cs = drop j (enumerate 1 all)"

definition log_inv :: "diagnostic_entry list \<Rightarrow> str \<Rightarrow> runtime_log \<Rightarrow> bool" where
  "log_inv all sid b \<longleftrightarrow> rl_session_id b = Some sid
     \<and> rl_next_sequence b = Suc (length all) \<and> rl_persisted_sequence b \<le> length all
     \<and> length (rl_entries b) \<le> max_pending_runtime_logs
     \<and> (\<exists>j a. holds_from j all (rl_entries b) \<and> rl_appender b = Some a
          \<and> subseq a (map log_line (take (rl_persisted_sequence b) all))
          \<and> (length all \<le> max_pending_runtime_logs \<longrightarrow>
               j \<le> rl_persisted_sequence b \<and> a = map log_line (take (rl_persisted_sequence b) all)))"

lemma holds_from_Nil: "holds_from j all [] \<Longrightarrow> j = length all"
  by (simp add: holds_from_def)

lemma holds_from_Cons:
  assumes "holds_from j all (c # cs)"
  shows "j < length all" "cl_sequence c = Suc j" "cl_entry c = all ! j" "holds_from (Suc j) all cs"
proof -
  have eq: "map number_entry (c # cs) = drop j (enumerate 1 all)" using assms by (simp add: holds_from_def)
  then show j: "j < length all" by (cases "j < length all") auto
  then have "drop j (enumerate 1 all) = (Suc j, all ! j) # drop (Suc j) (enumerate 1 all)"
    by (simp add: Cons_nth_drop_Suc [symmetric] nth_enumerate_eq)
  then show "cl_sequence c = Suc j" "cl_entry c = all ! j" "holds_from (Suc j) all cs"
    using eq j by (auto simp: holds_from_def number_entry_def)
qed

lemma holds_from_snoc:
  "holds_from j all cs \<Longrightarrow>
     holds_from j (all @ [e]) (cs @ [\<lparr>cl_sequence = Suc (length all), cl_captured_at = now, cl_entry = e\<rparr>])"
  by (simp add: holds_from_def number_entry_def enumerate_append_eq)

lemma holds_from_trim:
  "holds_from j all cs \<Longrightarrow> \<exists>j'. holds_from j' all (trim_persisted n cs) \<and> (j \<le> n \<longrightarrow> j' \<le> n)"
proof (induction n cs arbitrary: j rule: trim_persisted.induct)
  case (2 n c cs)
  show ?case
  proof (cases "length (c # cs) > max_in_memory_logs \<and> cl_sequence c \<le> n")
    case True
    with 2 holds_from_Cons [OF 2(2)] show ?thesis by auto
  next
    case False
    with 2(2) show ?thesis by (auto simp del: length_Cons)
  qed
qed auto

lemma length_trim: "length (trim_persisted n cs) \<le> length cs"
  by (induction n cs rule: trim_persisted.induct) auto

lemma holds_from_later:
  "holds_from j all cs \<Longrightarrow> p \<le> length all \<Longrightarrow> holds_from (max j p) all (filter (\<lambda>c. cl_sequence c > p) cs)"
proof (induction cs arbitrary: j)
  case Nil
  then show ?case using holds_from_Nil [OF Nil(1)] by (simp add: max_def)
next
  case (Cons c cs)
  note c = holds_from_Cons [OF Cons(2)]
  show ?case
  proof (cases "j < p")
    case True
    then show ?thesis using Cons.IH [OF c(4) Cons(3)] c(2) by (simp add: max_def)
  next
    case False
    have "\<forall>d \<in> set cs. cl_sequence d > p"
    proof
      fix d assume "d \<in> set cs"
      then have "number_entry d \<in> set (drop (Suc j) (enumerate 1 all))"
        using c(4) by (metis holds_from_def image_eqI list.set_map)
      then show "cl_sequence d > p" using False
        by (auto simp: number_entry_def set_conv_nth nth_enumerate_eq)
    qed
    then show ?thesis using False c(2) Cons(2) by (simp add: max_def)
  qed
qed

lemma subseq_take: "p \<le> k \<Longrightarrow> subseq a (map f (take p xs)) \<Longrightarrow> subseq a (map f (take k xs))"
  by (metis list_emb_append2 map_append min.absorb2 subseq_rev_drop_many take_add le_add_diff_inverse
      subseq_order.order_trans append_take_drop_id take_take subseq_order.order_refl prefix_imp_subseq take_is_prefix
      map_mono_prefix)

lemma persist_subseq:
  "holds_from k all cs \<Longrightarrow> p \<le> k \<Longrightarrow> subseq a (map log_line (take p all)) \<Longrightarrow>
     persist_go takes cs (a, p) = (a', n) \<Longrightarrow>
     p \<le> n \<and> n \<le> length all \<and> subseq a' (map log_line (take n all))
     \<and> (k = p \<and> a = map log_line (take p all) \<longrightarrow> a' = map log_line (take n all))"
proof (induction cs arbitrary: k p a)
  case Nil
  then show ?case by (auto dest: holds_from_Nil)
next
  case (Cons c cs)
  note c = holds_from_Cons [OF Cons.prems(1)]
  have lines: "map log_line (take (Suc k) all) = map log_line (take k all) @ [log_line (all ! k)]"
    using c(1) by (simp add: take_Suc_conv_app_nth)
  have "subseq (a @ [log_line (all ! k)]) (map log_line (take (Suc k) all))"
    unfolding lines using subseq_take [OF Cons.prems(2,3)] by simp
  then show ?case
    using Cons.IH [OF c(4), of "Suc k" "a @ [log_line (all ! k)]"] Cons.prems c(1-3) lines
    by (auto simp: write_log_entry_def split: if_splits)
qed

lemma log_inv_capture:
  assumes inv: "log_inv all sid b" and room: "Suc (length all) < max_u64"
  shows "log_inv (all @ [e]) sid (runtime_capture now e b)"
proof -
  obtain j a where j: "holds_from j all (rl_entries b)" and a: "rl_appender b = Some a"
    and sub: "subseq a (map log_line (take (rl_persisted_sequence b) all))"
    and all: "length all \<le> max_pending_runtime_logs \<longrightarrow>
        j \<le> rl_persisted_sequence b \<and> a = map log_line (take (rl_persisted_sequence b) all)"
    using inv by (auto simp: log_inv_def)
  have n: "rl_next_sequence b = Suc (length all)" "rl_persisted_sequence b \<le> length all" using inv by (auto simp: log_inv_def)
  define kept where "kept = (if length (rl_entries b) \<ge> max_pending_runtime_logs then tl (rl_entries b) else rl_entries b)"
  have len: "length (rl_entries b) = length all - j"
    using j by (metis holds_from_def length_drop length_enumerate length_map)
  have "\<exists>j'. holds_from j' all kept \<and> (length all < max_pending_runtime_logs \<longrightarrow> j' = j)"
    using j len holds_from_Cons(4) [of j all "hd (rl_entries b)" "tl (rl_entries b)"]
    by (cases "rl_entries b") (auto simp: kept_def max_pending_runtime_logs_def)
  then obtain j' where j': "holds_from j' all kept" "length all < max_pending_runtime_logs \<longrightarrow> j' = j" by blast
  have "length kept < max_pending_runtime_logs"
    using inv by (auto simp: kept_def log_inv_def max_pending_runtime_logs_def)
  then show ?thesis
    using inv a sub all n room holds_from_snoc [OF j'(1), of e now] j'(2)
    by (auto simp: log_inv_def runtime_capture_def Let_def kept_def [symmetric] intro!: exI [of _ j'])
qed

lemma log_inv_sync:
  assumes inv: "log_inv all sid b" and sid: "active_session_id (li_marker io) = Some sid"
  shows "log_inv all sid (runtime_sync io takes b)"
proof -
  let ?p = "rl_persisted_sequence b"
  obtain j a where j: "holds_from j all (rl_entries b)" and a: "rl_appender b = Some a"
    and sub: "subseq a (map log_line (take ?p all))"
    and all: "length all \<le> max_pending_runtime_logs \<longrightarrow> j \<le> ?p \<and> a = map log_line (take ?p all)"
    using inv by (auto simp: log_inv_def)
  have p: "?p \<le> length all" "rl_session_id b = Some sid" using inv by (auto simp: log_inv_def)
  obtain a' n where r: "persist_go takes (filter (\<lambda>c. cl_sequence c > ?p) (rl_entries b)) (a, ?p) = (a', n)"
    by fastforce
  have n: "?p \<le> n \<and> n \<le> length all \<and> subseq a' (map log_line (take n all))
      \<and> (max j ?p = ?p \<and> a = map log_line (take ?p all) \<longrightarrow> a' = map log_line (take n all))"
    using persist_subseq [OF holds_from_later [OF j p(1)] _ sub r] by simp
  obtain j' where j': "holds_from j' all (trim_persisted n (rl_entries b))" "j \<le> n \<longrightarrow> j' \<le> n"
    using holds_from_trim [OF j] by blast
  have "runtime_sync io takes b = b\<lparr>rl_appender := Some a', rl_persisted_sequence := n,
      rl_entries := trim_persisted n (rl_entries b)\<rparr>"
    by (simp add: runtime_sync_def Let_def sid p(2) a r)
  moreover have "length (trim_persisted n (rl_entries b)) \<le> max_pending_runtime_logs"
    using inv length_trim [of n "rl_entries b"] by (simp add: log_inv_def)
  ultimately show ?thesis
    using inv n j' all by (auto simp: log_inv_def intro!: exI [of _ j'])
qed

lemma run_logs_snoc: "run_logs (es @ [e]) b = log_event_run e (run_logs es b)"
  by (simp add: run_logs_def)

lemma log_inv_run:
  assumes "\<forall>io takes. Sync io takes \<in> set es \<longrightarrow> active_session_id (li_marker io) = Some sid"
    and "Suc (length (logged es)) < max_u64"
  shows "log_inv (logged es) sid (run_logs es (session_start sid))"
  using assms
proof (induction es rule: rev_induct)
  case Nil
  show ?case by (simp add: log_inv_def run_logs_def session_start_def runtime_log_default_def holds_from_def)
next
  case (snoc e es)
  then have IH: "log_inv (logged es) sid (run_logs es (session_start sid))" by (cases e) auto
  show ?case
    using snoc.prems log_inv_capture [OF IH] log_inv_sync [OF IH]
    by (cases e) (auto simp: run_logs_snoc)
qed


definition demo_entry :: diagnostic_entry where
  "demo_entry = \<lparr>de_level = ''info'', de_message = ''up'' @ [tab] @ ''now'', de_timestamp = ''1700000000''\<rparr>"

lemma log_line_readable_witness:
  "\<exists>line. log_line demo_entry = line @ [newline] \<and> split_char tab line = [''1700000000'', ''INFO'', log_message (''up'' @ [tab] @ ''now'')]"
proof -
  have "to_ascii_uppercase ''info'' = ''INFO''" by code_simp
  with log_line_readable [of demo_entry] show ?thesis
    by (simp add: demo_entry_def log_chars) blast
qed


end
