(* ===== verification/Oc_Store.thy ===== *)
theory Oc_Store
  imports Oc_Model
begin

text \<open>
  The profile store (\<open>store.rs\<close>): the two documents of the sandbox and how they are read and replaced. A document is
  replaced atomically (\<open>private_fs.rs\<close>): the content goes to a temporary file that is renamed over the old one,
  so a failed system call leaves the old document. The JSON codecs are parameters, and the system calls answer
  by an argument.
\<close>

record preferences =
  pr_active_connection_id :: "str option"
  pr_language :: str
  pr_theme :: str

definition default_system_preference :: str where
  "default_system_preference = ''system''"

definition preferences_default :: preferences where
  "preferences_default = \<lparr>pr_active_connection_id = None, pr_language = default_system_preference,
     pr_theme = default_system_preference\<rparr>"

text \<open>\<open>ProfileStore\<close> and the two files under its root.\<close>

record profile_store =
  st_root :: str

record 'b documents =
  dc_connections :: "'b option"
  dc_preferences :: "'b option"

definition profiles_file_exists :: "'b documents \<Rightarrow> bool" where
  "profiles_file_exists d \<longleftrightarrow> dc_connections d \<noteq> None"

text \<open>
  The system calls of \<open>write_atomic_private\<close> in their order: the private parent directory, then the temporary file
  opened, restricted, written and flushed, then renamed. The final \<open>sync_directory\<close> is not checked.
\<close>

record write_calls =
  wc_parent :: "(str, unit) result"
  wc_open :: "(str, unit) result"
  wc_mode :: "(str, unit) result"
  wc_write :: "(str, unit) result"
  wc_flush :: "(str, unit) result"
  wc_rename :: "(str, unit) result"

definition write_steps :: "write_calls \<Rightarrow> (str, unit) result" where
  "write_steps c =
     and_then (wc_parent c) (\<lambda>_. and_then (wc_open c) (\<lambda>_. and_then (wc_mode c) (\<lambda>_. and_then (wc_write c) (\<lambda>_.
     and_then (wc_flush c) (\<lambda>_. wc_rename c)))))"

definition write_atomic_private :: "write_calls \<Rightarrow> 'b \<Rightarrow> 'b option \<Rightarrow> 'b option \<times> (str, unit) result" where
  "write_atomic_private calls content old =
     (case write_steps calls of Err e \<Rightarrow> (old, Err e) | Ok _ \<Rightarrow> (Some content, Ok ()))"

definition write_calls_ok :: write_calls where
  "write_calls_ok = \<lparr>wc_parent = Ok (), wc_open = Ok (), wc_mode = Ok (), wc_write = Ok (), wc_flush = Ok (), wc_rename = Ok ()\<rparr>"

lemma write_calls_ok_steps [simp]: "write_steps write_calls_ok = Ok ()"
  by (simp add: write_steps_def write_calls_ok_def)

text \<open>\<open>load\<close> and \<open>load_preferences\<close>; \<open>read\<close> is the outcome of reading the file.\<close>

definition load_document ::
    "('b, 's) codec \<Rightarrow> (str, unit) result \<Rightarrow> 's \<Rightarrow> 'b option \<Rightarrow> (str, 's) result" where
  "load_document c read absent d =
     (case d of
        None \<Rightarrow> Ok absent
      | Some b \<Rightarrow> and_then read (\<lambda>_. decode c b))"

definition load_profiles ::
    "('b, connection_profile list) codec \<Rightarrow> (str, unit) result \<Rightarrow> 'b documents \<Rightarrow> (str, connection_profile list) result" where
  "load_profiles c read d = load_document c read [] (dc_connections d)"

definition load_preferences ::
    "('b, preferences) codec \<Rightarrow> (str, unit) result \<Rightarrow> 'b documents \<Rightarrow> (str, preferences) result" where
  "load_preferences c read d = load_document c read preferences_default (dc_preferences d)"

definition save_profiles ::
    "('b, connection_profile list) codec \<Rightarrow> write_calls \<Rightarrow> connection_profile list \<Rightarrow> 'b documents
       \<Rightarrow> 'b documents \<times> (str, unit) result" where
  "save_profiles c calls profiles d =
     try_in d (encode c profiles) (\<lambda>raw.
       case write_atomic_private calls raw (dc_connections d) of (f, r) \<Rightarrow> (d\<lparr>dc_connections := f\<rparr>, r))"

definition save_preferences ::
    "('b, preferences) codec \<Rightarrow> write_calls \<Rightarrow> preferences \<Rightarrow> 'b documents \<Rightarrow> 'b documents \<times> (str, unit) result" where
  "save_preferences c calls preferences d =
     try_in d (encode c preferences) (\<lambda>raw.
       case write_atomic_private calls raw (dc_preferences d) of (f, r) \<Rightarrow> (d\<lparr>dc_preferences := f\<rparr>, r))"

end
