(* ===== verification/Oc_Engine.thy ===== *)
theory Oc_Engine
  imports Oc_Routes Oc_Owner Oc_Ipc Oc_Auth Oc_Logs Oc_Store
begin

text \<open>
  The state of the session engine (\<open>crates/hopenconnect_core/src/engine.rs\<close>) and the part of
  \<open>engine/platform.rs\<close> that exchanges it with the sibling process: publishing the own lane, reading the
  other one, and folding a frame into the state. The build with the feature \<open>native-anyconnect\<close> is modelled.

  Every handler of the engine holds its mutex while it works, so a handler is a function of the world:
  the \<open>Inner\<close> record and the rest of \<open>SessionEngine\<close>, followed by what lies outside the process (the
  journal, the two lease files, the shared memory, the native sessions told to stop, the documents of the
  profile store, the paths removed beside them, the file of the last error). What the operating system answers at one
  call site is a \<open>moment\<close>: clock readings, the outcome of every system call, the state of the log
  recording. \<open>CoreError\<close> is represented by its message; poisoned locks are not modelled, as no block
  under the mutex panics.
\<close>

subsection \<open>State\<close>

text \<open>The native sessions (\<open>native_session.rs\<close>): the live client of a pending one is a handle.\<close>

record pending_session =
  pn_client :: "nat option"
  pn_network :: network_snapshot
  pn_options :: vpn_options

record running_session =
  rn_handle :: nat
  rn_attempt_id :: str
  rn_generation :: nat

record inner =
  in_home :: str
  in_snapshot :: session_snapshot
  in_store :: "profile_store option"
  in_preferences :: preferences
  in_connected_at :: "nat option"
  in_dry_run :: bool
  in_generation :: nat
  in_platform_vpn_running :: bool
  in_platform_vpn_starting :: bool
  in_platform_start_sequence :: nat
  in_platform_vpn_intent_epoch :: nat
  in_platform_os_stop_epoch :: nat
  in_platform_os_stop_attempt_id :: str
  in_platform_os_stop_in_flight :: bool
  in_platform_start_attempt_id :: str
  in_platform_start_outcome :: start_outcome
  in_platform_start_delivery_observed :: bool
  in_platform_extension_attached :: bool
  in_platform_stop_requested :: bool
  in_platform_extension_owner_pid :: nat
  in_platform_extension_owner_start_time :: nat
  in_platform_vpn_cleanup_complete :: bool
  in_platform_vpn_issuer_lease :: "nat option"
  in_platform_vpn_extension_lease :: "nat option"
  in_platform_watchdog_cleanup_recoverable :: bool
  in_platform_session_handoff :: "session_handoff option"
  in_platform_browser_request :: "browser_open_request option"
  in_platform_browser_request_sequence :: nat
  in_last_platform_browser_request_id :: str
  in_platform_local_state_updated_at :: nat
  in_platform_remote_state_updated_at :: nat
  in_platform_remote_state_seen_at :: "nat option"
  in_platform_remote_stale_since :: "nat option"
  in_last_vpn_options :: vpn_options
  in_logs :: log_buffer
  in_platform_diagnostics :: "diagnostic_entry list"
  in_pending_native :: "pending_session option"
  in_running_native :: "running_session option"

text \<open>What waiters of the start coordinator see.\<close>

record start_event =
  se_attempt_id :: str
  se_outcome :: start_outcome
  se_delivery_observed :: bool
  se_extension_attached :: bool
  se_cleanup_complete :: bool
  se_error :: "str option"

text \<open>\<open>SessionEngine\<close>: a watch channel is the value it holds; the process-wide runtime log is kept here.\<close>

record engine = inner +
  en_ipc :: "ipc option"
  en_lifecycle :: connection_lifecycle
  en_start_event :: start_event
  en_auth :: auth
  en_runtime_logs :: runtime_log

record ('b, 'm) world = engine +
  wd_journal :: "'b slot"
  wd_issuer_lease :: "'b lease_file"
  wd_extension_lease :: "'b lease_file"
  wd_memory :: 'm
  wd_cancelled :: "nat list"
  wd_documents :: "'b documents"
  wd_removed :: "str list"
  wd_last_error :: "str option"

record moment =
  mo_nanos :: nat
  mo_millis :: nat
  mo_instant :: nat
  mo_timestamp :: str
  mo_io :: io_plan
  mo_log :: log_io
  mo_notified :: "(ipc_error, unit) result \<times> (ipc_error, unit) result"
  mo_tmp :: str
  mo_handle :: nat
  mo_stored :: "write_calls \<times> write_calls"

text \<open>The code outside \<open>src/\<close>: the ashmem binding and the codecs of the documents.\<close>

record ('b, 'm) config =
  cf_ashmem :: "'m ashmem"
  cf_envelopes :: "(byte list, platform_envelope) codec"
  cf_journals :: "('b, stored_journal) codec"
  cf_leases :: "('b, stored_lease) codec"
  cf_torn :: 'b
  cf_profiles :: "('b, connection_profile list) codec"
  cf_preferences :: "('b, preferences) codec"
  cf_app_version :: str
  cf_anyconnect_version :: str

text \<open>\<open>SessionEngine::new\<close>: version strings come from the build and from the native library.\<close>

definition seed_snapshot :: "('b, 'm) config \<Rightarrow> session_snapshot" where
  "seed_snapshot cf = \<lparr>sn_lifecycle = Disconnected, sn_active_connection_id = None, sn_connections = [],
     sn_stats = session_stats_default, sn_network = network_default, sn_last_error = None, sn_diagnostics = [],
     sn_app_version = cf_app_version cf, sn_sdk_ready = True, sn_anyconnect_version = Some (cf_anyconnect_version cf),
     sn_backend = ''anyconnect-rs'', sn_pending_auth = None\<rparr>"

definition session_engine_new :: "('b, 'm) config \<Rightarrow> auth \<Rightarrow> runtime_log \<Rightarrow> engine" where
  "session_engine_new cf auth runtime_logs = \<lparr>in_home = ''.'', in_snapshot = seed_snapshot cf, in_store = None,
     in_preferences = preferences_default, in_connected_at = None, in_dry_run = False, in_generation = 0,
     in_platform_vpn_running = False, in_platform_vpn_starting = False, in_platform_start_sequence = 0,
     in_platform_vpn_intent_epoch = 0, in_platform_os_stop_epoch = 0, in_platform_os_stop_attempt_id = [],
     in_platform_os_stop_in_flight = False, in_platform_start_attempt_id = [], in_platform_start_outcome = OutIdle,
     in_platform_start_delivery_observed = False, in_platform_extension_attached = False,
     in_platform_stop_requested = False, in_platform_extension_owner_pid = 0,
     in_platform_extension_owner_start_time = 0, in_platform_vpn_cleanup_complete = False,
     in_platform_vpn_issuer_lease = None, in_platform_vpn_extension_lease = None,
     in_platform_watchdog_cleanup_recoverable = False, in_platform_session_handoff = None,
     in_platform_browser_request = None, in_platform_browser_request_sequence = 0,
     in_last_platform_browser_request_id = [], in_platform_local_state_updated_at = 0,
     in_platform_remote_state_updated_at = 0, in_platform_remote_state_seen_at = None,
     in_platform_remote_stale_since = None, in_last_vpn_options = vpn_options_default, in_logs = log_buffer_new,
     in_platform_diagnostics = [], in_pending_native = None, in_running_native = None, en_ipc = None,
     en_lifecycle = Disconnected,
     en_start_event = \<lparr>se_attempt_id = [], se_outcome = OutIdle, se_delivery_observed = False,
       se_extension_attached = False, se_cleanup_complete = False, se_error = None\<rparr>,
     en_auth = auth, en_runtime_logs = runtime_logs\<rparr>"

subsection \<open>Small helpers\<close>

fun ipc_error_text :: "ipc_error \<Rightarrow> str" where
  "ipc_error_text LockPoisoned = ''platform shared memory lock is poisoned''"
| "ipc_error_text InvalidHeader = ''invalid platform shared memory header''"
| "ipc_error_text (FrameTooLarge actual maximum) = ''platform shared memory frame is too large: '' @ show_dec actual
     @ '' bytes, maximum '' @ show_dec maximum"
| "ipc_error_text (Serialize e) = ''serialize platform shared memory frame failed: '' @ e"
| "ipc_error_text (MemoryError e) = ''platform shared memory operation failed: '' @ e"
| "ipc_error_text (Notification e) = ''platform change notification failed: '' @ e"

definition platform_ipc_error :: "(ipc_error, 'a) result \<Rightarrow> (str, 'a) result" where
  "platform_ipc_error r = (case r of Err e \<Rightarrow> Err (ipc_error_text e) | Ok x \<Rightarrow> Ok x)"

definition set_lifecycle_locked ::
    "connection_lifecycle \<Rightarrow> str option \<Rightarrow> ('b, 'm) world \<Rightarrow> ('b, 'm) world" where
  "set_lifecycle_locked l e w =
     w\<lparr>in_snapshot := (in_snapshot w)\<lparr>sn_lifecycle := l, sn_last_error := e\<rparr>, en_lifecycle := l\<rparr>"

definition push_diag_locked :: "moment \<Rightarrow> str \<Rightarrow> str \<Rightarrow> ('b, 'm) world \<Rightarrow> ('b, 'm) world" where
  "push_diag_locked mo level message w =
     (let logs = log_push (mo_log mo) \<lparr>de_level = level, de_message = message, de_timestamp = mo_timestamp mo\<rparr> (in_logs w);
          w = w\<lparr>in_logs := logs\<rparr>
      in if log_enabled logs
         then w\<lparr>in_snapshot := (in_snapshot w)\<lparr>sn_diagnostics :=
                merged_logs (lb_entries logs) (runtime_entries (en_runtime_logs w))\<rparr>\<rparr>
         else w)"

abbreviation lifecycle_of :: "('b, 'm) world \<Rightarrow> connection_lifecycle" where
  "lifecycle_of w \<equiv> sn_lifecycle (in_snapshot w)"

definition set_stats :: "session_stats \<Rightarrow> ('b, 'm) world \<Rightarrow> ('b, 'm) world" where
  "set_stats st w = w\<lparr>in_snapshot := (in_snapshot w)\<lparr>sn_stats := st\<rparr>\<rparr>"

definition terminal :: "start_outcome \<Rightarrow> bool" where
  "terminal out \<longleftrightarrow> out = OutFailed \<or> out = OutCancelled"

text \<open>Dropping a lease handle releases its lock.\<close>

definition drop_issuer_lease :: "('b, 'm) world \<Rightarrow> ('b, 'm) world" where
  "drop_issuer_lease w =
     (case in_platform_vpn_issuer_lease w of
        None \<Rightarrow> w
      | Some h \<Rightarrow> w\<lparr>in_platform_vpn_issuer_lease := None, wd_issuer_lease := release_owner_lease h (wd_issuer_lease w)\<rparr>)"

definition drop_extension_lease :: "('b, 'm) world \<Rightarrow> ('b, 'm) world" where
  "drop_extension_lease w =
     (case in_platform_vpn_extension_lease w of
        None \<Rightarrow> w
      | Some h \<Rightarrow> w\<lparr>in_platform_vpn_extension_lease := None, wd_extension_lease := release_owner_lease h (wd_extension_lease w)\<rparr>)"

definition drop_leases :: "('b, 'm) world \<Rightarrow> ('b, 'm) world" where
  "drop_leases w = drop_extension_lease (drop_issuer_lease w)"

text \<open>\<open>Path::join\<close> with a relative path.\<close>

definition path_join :: "str \<Rightarrow> str \<Rightarrow> str" where
  "path_join base rel = (if base = [] then rel else if last base = CHR ''/'' then base @ rel else base @ ''/'' @ rel)"

definition runtime_file :: "str \<Rightarrow> str \<Rightarrow> file_path" where
  "runtime_file home name =
     \<lparr>fp_display = path_join (path_join home ''runtime'') name, fp_parent = Some (path_join home ''runtime''),
      fp_name = Some name\<rparr>"

definition platform_owner_journal_path :: "('b, 'm) world \<Rightarrow> file_path" where
  "platform_owner_journal_path w = runtime_file (in_home w) ''platform-vpn-owner.json''"

definition platform_owner_lease_path :: "('b, 'm) world \<Rightarrow> lease_role \<Rightarrow> file_path" where
  "platform_owner_lease_path w role =
     runtime_file (in_home w)
       (case role of Issuer \<Rightarrow> ''platform-vpn-owner.issuer.lease'' | Extension \<Rightarrow> ''platform-vpn-owner.extension.lease'')"

definition platform_owner_lease_record :: "str \<Rightarrow> process_identity \<Rightarrow> lease_role \<Rightarrow> lease_record" where
  "platform_owner_lease_record attempt identity role =
     \<lparr>lr_attempt_id = attempt, lr_identity = identity, lr_role = role\<rparr>"

definition consume_platform_browser_request_locked ::
    "moment \<Rightarrow> browser_open_request option \<Rightarrow> ('b, 'm) world \<Rightarrow> ('b, 'm) world \<times> browser_open_request option" where
  "consume_platform_browser_request_locked mo request w =
     (case request of
        None \<Rightarrow> (w, None)
      | Some r \<Rightarrow>
          if browser_is_valid_for (mo_millis mo) r (in_platform_start_attempt_id w)
             \<and> br_request_id r \<noteq> in_last_platform_browser_request_id w
          then (w\<lparr>in_last_platform_browser_request_id := br_request_id r\<rparr>, Some r)
          else (w, None))"

definition acknowledge_platform_browser_request_locked ::
    "str option \<Rightarrow> ('b, 'm) world \<Rightarrow> ('b, 'm) world \<times> bool" where
  "acknowledge_platform_browser_request_locked ack w =
     (if ack \<noteq> None \<and> map_option br_request_id (in_platform_browser_request w) = ack
      then (w\<lparr>in_platform_browser_request := None\<rparr>, True) else (w, False))"

definition sanitized_want_options :: "vpn_options \<Rightarrow> vpn_options" where
  "sanitized_want_options o' =
     vpn_options_default\<lparr>vo_addresses := vo_addresses o', vo_routes := vo_routes o',
       vo_excluded_routes := vo_excluded_routes o', vo_dns_addresses := vo_dns_addresses o',
       vo_search_domains := vo_search_domains o', vo_mtu := vo_mtu o', vo_allow_bypass := vo_allow_bypass o',
       vo_allow_local_lan := vo_allow_local_lan o', vo_force_global := vo_force_global o',
       vo_trusted_applications := vo_trusted_applications o', vo_blocked_applications := vo_blocked_applications o'\<rparr>"

subsection \<open>Publishing\<close>

definition platform_start_event_locked :: "('b, 'm) world \<Rightarrow> start_event" where
  "platform_start_event_locked w =
     \<lparr>se_attempt_id = in_platform_start_attempt_id w, se_outcome = in_platform_start_outcome w,
      se_delivery_observed = in_platform_start_delivery_observed w,
      se_extension_attached = in_platform_extension_attached w,
      se_cleanup_complete = in_platform_vpn_cleanup_complete w, se_error = sn_last_error (in_snapshot w)\<rparr>"

definition notify_platform_start_locked :: "('b, 'm) world \<Rightarrow> ('b, 'm) world" where
  "notify_platform_start_locked w =
     (let event = platform_start_event_locked w
      in if en_start_event w \<noteq> event then w\<lparr>en_start_event := event\<rparr> else w)"

definition local_mainloop :: "('b, 'm) world \<Rightarrow> bool" where
  "local_mainloop w =
     (case in_running_native w of
        None \<Rightarrow> False
      | Some s \<Rightarrow> rn_attempt_id s = in_platform_start_attempt_id w \<and> rn_generation s = in_generation w)"

definition published_state :: "('b, 'm) world \<Rightarrow> platform_vpn_state" where
  "published_state w = \<lparr>
     ps_start_attempt_id = in_platform_start_attempt_id w,
     ps_start_outcome = in_platform_start_outcome w,
     ps_delivery_observed = in_platform_start_delivery_observed w,
     ps_extension_attached = in_platform_extension_attached w,
     ps_stop_requested = in_platform_stop_requested w,
     ps_extension_owner_pid = in_platform_extension_owner_pid w,
     ps_extension_owner_start_time = in_platform_extension_owner_start_time w,
     ps_cleanup_complete = in_platform_vpn_cleanup_complete w,
     ps_starting = in_platform_vpn_starting w,
     ps_running = (in_platform_vpn_running w \<or> local_mainloop w),
     ps_lifecycle = sn_lifecycle (in_snapshot w),
     ps_last_error = sn_last_error (in_snapshot w),
     ps_assigned_ip = ss_assigned_ip (sn_stats (in_snapshot w)),
     ps_gateway = ss_gateway (sn_stats (in_snapshot w)),
     ps_mtu = ss_mtu (sn_stats (in_snapshot w)),
     ps_network = sn_network (in_snapshot w),
     ps_stats = sn_stats (in_snapshot w),
     ps_diagnostics = merged_logs (lb_entries (in_logs w)) (runtime_entries (en_runtime_logs w)),
     ps_updated_at = in_platform_local_state_updated_at w\<rparr>"

definition is_ui :: "ipc \<Rightarrow> bool" where
  "is_ui i \<longleftrightarrow> ipc_role i = Ui"

definition persist_platform_locked ::
    "('b, 'm) config \<Rightarrow> moment \<Rightarrow> ('b, 'm) world \<Rightarrow> ('b, 'm) world \<times> (str, unit) result" where
  "persist_platform_locked cf mo w =
     (let w = w\<lparr>in_platform_local_state_updated_at :=
                max (mo_nanos mo) (min (in_platform_local_state_updated_at w + 1) max_u128)\<rparr>
      in case en_ipc w of
           None \<Rightarrow> (notify_platform_start_locked w, Ok ())
         | Some i \<Rightarrow>
             (let state = published_state w;
                  w = notify_platform_start_locked w;
                  ack = (if is_ui i \<and> in_last_platform_browser_request_id w \<noteq> []
                         then Some (in_last_platform_browser_request_id w) else None)
              in case publish_snapshot (cf_ashmem cf) (cf_envelopes cf) (fst (mo_notified mo)) (snd (mo_notified mo))
                     state (in_platform_session_handoff w) (in_platform_browser_request w) ack (i, wd_memory w) of
                   ((i', m'), r) \<Rightarrow> (w\<lparr>en_ipc := Some i', wd_memory := m'\<rparr>, platform_ipc_error r)))"

text \<open>\<open>let _ = self.persist_platform_locked(inner)\<close>.\<close>

definition persist_ignored :: "('b, 'm) config \<Rightarrow> moment \<Rightarrow> ('b, 'm) world \<Rightarrow> ('b, 'm) world" where
  "persist_ignored cf mo w = fst (persist_platform_locked cf mo w)"

subsection \<open>Folding in a frame of the other process\<close>

definition platform_heartbeat_stale_after :: nat where "platform_heartbeat_stale_after = 15000000000"
definition platform_heartbeat_wake_grace :: nat where "platform_heartbeat_wake_grace = 6000000000"

definition heartbeat_watchdog_expired ::
    "nat \<Rightarrow> bool \<Rightarrow> bool \<Rightarrow> bool \<Rightarrow> bool \<Rightarrow> ('b, 'm) world \<Rightarrow> ('b, 'm) world \<times> bool" where
  "heartbeat_watchdog_expired now ui remote_running remote_attempt_matches remote_advanced w =
     (let heartbeat_frozen = ui \<and> in_platform_vpn_running w \<and> remote_running \<and> remote_attempt_matches
            \<and> \<not> remote_advanced
            \<and> (case in_platform_remote_state_seen_at w of None \<Rightarrow> False
               | Some seen \<Rightarrow> now - seen \<ge> platform_heartbeat_stale_after)
      in if heartbeat_frozen then
           (let since = (case in_platform_remote_stale_since w of None \<Rightarrow> now | Some t \<Rightarrow> t)
            in (w\<lparr>in_platform_remote_stale_since := Some since\<rparr>, now - since \<ge> platform_heartbeat_wake_grace))
         else if \<not> remote_running \<or> remote_advanced then (w\<lparr>in_platform_remote_stale_since := None\<rparr>, False)
         else (w, False))"

definition adopt_attempt :: "platform_vpn_state \<Rightarrow> ('b, 'm) world \<Rightarrow> ('b, 'm) world" where
  "adopt_attempt remote w =
     (let w = w\<lparr>in_generation := min (in_generation w + 1) max_u64,
                in_platform_start_attempt_id := ps_start_attempt_id remote,
                in_platform_start_outcome := ps_start_outcome remote,
                in_platform_start_delivery_observed := ps_delivery_observed remote,
                in_platform_extension_attached := ps_extension_attached remote,
                in_platform_stop_requested := ps_stop_requested remote,
                in_platform_extension_owner_pid := ps_extension_owner_pid remote,
                in_platform_extension_owner_start_time := ps_extension_owner_start_time remote,
                in_platform_vpn_cleanup_complete := ps_cleanup_complete remote\<rparr>
      in if ps_starting remote \<and> ps_start_outcome remote = OutPending
         then set_lifecycle_locked Establishing None
                (w\<lparr>in_platform_vpn_starting := True, in_platform_vpn_running := False\<rparr>)
         else w)"

text \<open>The transition both processes make on the frame's start phase: everything between the watchdog and the
  lifecycle, in the order of the code.\<close>

definition take_flags :: "bool \<Rightarrow> platform_vpn_state \<Rightarrow> bool \<Rightarrow> ('b, 'm) world \<Rightarrow> ('b, 'm) world" where
  "take_flags ui remote remote_attempt_matches w =
     (if remote_attempt_matches
      then (if ui
            then w\<lparr>in_platform_stop_requested := in_platform_stop_requested w \<or> ps_stop_requested remote,
                   in_platform_extension_owner_pid := ps_extension_owner_pid remote,
                   in_platform_extension_owner_start_time := ps_extension_owner_start_time remote\<rparr>
            else w\<lparr>in_platform_stop_requested := in_platform_stop_requested w \<or> ps_stop_requested remote\<rparr>)
      else w)"

definition take_outcome :: "platform_vpn_state \<Rightarrow> bool \<Rightarrow> ('b, 'm) world \<Rightarrow> ('b, 'm) world" where
  "take_outcome remote remote_attempt_matches w =
     (if remote_attempt_matches \<and> terminal (ps_start_outcome remote)
      then w\<lparr>in_platform_start_outcome := ps_start_outcome remote, in_platform_vpn_starting := False,
             in_platform_vpn_running := False, in_platform_vpn_cleanup_complete := ps_cleanup_complete remote\<rparr>
      else if \<not> terminal (in_platform_start_outcome w)
      then w\<lparr>in_platform_vpn_running := ps_running remote,
             in_platform_vpn_starting := \<not> ps_running remote \<and> ps_starting remote,
             in_platform_vpn_cleanup_complete := False,
             in_platform_start_outcome :=
               (if ps_running remote \<and> in_platform_start_outcome w = OutPending then OutConnected
                else in_platform_start_outcome w)\<rparr>
      else w)"

definition take_attachment :: "platform_vpn_state \<Rightarrow> bool \<Rightarrow> ('b, 'm) world \<Rightarrow> ('b, 'm) world" where
  "take_attachment remote remote_attempt_matches w =
     w\<lparr>in_platform_extension_attached :=
         (if remote_attempt_matches \<and> terminal (ps_start_outcome remote) then ps_extension_attached remote
          else if remote_attempt_matches \<and> ps_extension_attached remote then True
          else in_platform_extension_attached w),
       in_platform_start_delivery_observed :=
         (if remote_attempt_matches \<and> ps_delivery_observed remote then True
          else in_platform_start_delivery_observed w)\<rparr>"

definition drop_finished_leases :: "('b, 'm) world \<Rightarrow> ('b, 'm) world" where
  "drop_finished_leases w = (if in_platform_vpn_cleanup_complete w then drop_leases w else w)"

definition take_phase :: "bool \<Rightarrow> platform_vpn_state \<Rightarrow> bool \<Rightarrow> ('b, 'm) world \<Rightarrow> ('b, 'm) world" where
  "take_phase ui remote remote_attempt_matches w =
     drop_finished_leases (take_attachment remote remote_attempt_matches
       (take_outcome remote remote_attempt_matches (take_flags ui remote remote_attempt_matches w)))"

definition merge_running_stats :: "platform_vpn_state \<Rightarrow> ('b, 'm) world \<Rightarrow> ('b, 'm) world" where
  "merge_running_stats remote w =
     (let st = sn_stats (in_snapshot w);
          st = (if ps_assigned_ip remote \<noteq> [] then st\<lparr>ss_assigned_ip := ps_assigned_ip remote\<rparr> else st);
          st = (if ps_gateway remote \<noteq> [] then st\<lparr>ss_gateway := ps_gateway remote\<rparr> else st);
          st = (if ps_mtu remote > 0 then st\<lparr>ss_mtu := ps_mtu remote\<rparr> else st);
          w = w\<lparr>in_snapshot := (in_snapshot w)\<lparr>sn_stats := st,
                 sn_network := (if net_address (ps_network remote) \<noteq> None \<or> net_dns (ps_network remote) \<noteq> []
                                then ps_network remote else sn_network (in_snapshot w))\<rparr>\<rparr>;
          stats = ps_stats remote;
          stats = (if ss_assigned_ip stats = [] then stats\<lparr>ss_assigned_ip := ss_assigned_ip st\<rparr> else stats);
          stats = (if ss_gateway stats = [] then stats\<lparr>ss_gateway := ss_gateway st\<rparr> else stats);
          stats = (if ss_mtu stats = 0 then stats\<lparr>ss_mtu := ss_mtu st\<rparr> else stats)
      in set_stats stats w)"

text \<open>What the frame does to the visible lifecycle.\<close>

definition take_lifecycle ::
    "nat \<Rightarrow> platform_vpn_state \<Rightarrow> bool \<Rightarrow> bool \<Rightarrow> bool \<Rightarrow> bool \<Rightarrow> ('b, 'm) world \<Rightarrow> ('b, 'm) world" where
  "take_lifecycle now remote remote_attempt_matches was_active running starting w =
     (if running then
        (let w = merge_running_stats remote w
         in if lifecycle_of w \<in> {Connecting, Authenticating, Establishing}
            then let w = set_lifecycle_locked Connected None w
                 in if in_connected_at w = None then w\<lparr>in_connected_at := Some now\<rparr> else w
            else w)
      else if starting then
        (if \<not> is_active (lifecycle_of w) \<and> lifecycle_of w \<noteq> Failed
         then set_lifecycle_locked Establishing None w else w)
      else if remote_attempt_matches \<and> ps_start_outcome remote = OutCancelled then
        (if lifecycle_of w \<noteq> Failed
         then (set_lifecycle_locked Disconnected None w)\<lparr>in_connected_at := None\<rparr> else w)
      else if ps_start_outcome remote = OutFailed \<or> ps_lifecycle remote = Failed \<or> ps_last_error remote \<noteq> None then
        (if lifecycle_of w \<noteq> Failed \<and> lifecycle_of w \<noteq> Disconnected
         then set_lifecycle_locked Failed (ps_last_error remote) w else w)
      else if remote_attempt_matches \<and> ps_start_outcome remote \<noteq> OutPending \<and> ps_lifecycle remote = Disconnected
              \<and> was_active \<and> lifecycle_of w \<in> {Connected, Establishing} then
        (set_lifecycle_locked Disconnected None w)\<lparr>in_connected_at := None\<rparr>
      else w)"

definition heartbeat_message :: str where "heartbeat_message = ''VPN extension heartbeat stopped''"

definition trip_watchdog :: "('b, 'm) config \<Rightarrow> moment \<Rightarrow> ('b, 'm) world \<Rightarrow> ('b, 'm) world" where
  "trip_watchdog cf mo w =
     persist_ignored cf mo (push_diag_locked mo ''error'' heartbeat_message
       (set_lifecycle_locked Failed (Some heartbeat_message)
         (w\<lparr>in_platform_vpn_running := False, in_platform_vpn_starting := False,
            in_platform_start_outcome := OutFailed, in_platform_remote_stale_since := None,
            in_platform_watchdog_cleanup_recoverable := True\<rparr>)))"

text \<open>Older frames must not refresh liveness.\<close>

definition note_revision :: "moment \<Rightarrow> platform_vpn_state \<Rightarrow> ('b, 'm) world \<Rightarrow> ('b, 'm) world" where
  "note_revision mo remote w =
     (if ps_updated_at remote > in_platform_remote_state_updated_at w
      then w\<lparr>in_platform_remote_state_updated_at := ps_updated_at remote,
             in_platform_remote_state_seen_at := Some (mo_instant mo), in_platform_remote_stale_since := None\<rparr>
      else w)"

text \<open>The UI lets go of the client it authenticated with once the Extension has the hand-off.\<close>

definition release_client :: "bool \<Rightarrow> platform_vpn_state \<Rightarrow> ('b, 'm) world \<Rightarrow> ('b, 'm) world" where
  "release_client ui remote w =
     (if ui \<and> (ps_extension_attached remote \<or> ps_running remote \<or> terminal (ps_start_outcome remote))
      then w\<lparr>in_pending_native := None\<rparr> else w)"

definition settle_failure :: "platform_vpn_state \<Rightarrow> bool \<Rightarrow> ('b, 'm) world \<Rightarrow> ('b, 'm) world" where
  "settle_failure remote running w =
     (if \<not> running \<and> in_platform_start_outcome w = OutPending
         \<and> (ps_lifecycle remote = Failed \<or> ps_last_error remote \<noteq> None)
      then w\<lparr>in_platform_start_outcome := OutFailed\<rparr> else w)"

text \<open>The frame's content, once it is known to be new (or adopted).\<close>

definition fold_frame :: "moment \<Rightarrow> bool \<Rightarrow> platform_vpn_state \<Rightarrow> ('b, 'm) world \<Rightarrow> ('b, 'm) world" where
  "fold_frame mo ui remote w0 =
     (let was_active = in_platform_vpn_running w0 \<or> in_platform_vpn_starting w0;
          w = take_phase ui remote True w0;
          running = (\<not> terminal (ps_start_outcome remote) \<and> (local_mainloop w \<or> in_platform_vpn_running w));
          starting = (\<not> running \<and> in_platform_vpn_starting w)
      in notify_platform_start_locked
           (take_lifecycle (mo_instant mo) remote True was_active running starting
             ((settle_failure remote running w)\<lparr>in_platform_diagnostics := ps_diagnostics remote\<rparr>)))"

text \<open>From the revision check on, for a frame of the own attempt.\<close>

definition apply_matching_frame ::
    "('b, 'm) config \<Rightarrow> moment \<Rightarrow> bool \<Rightarrow> bool \<Rightarrow> platform_vpn_state \<Rightarrow> ('b, 'm) world \<Rightarrow> ('b, 'm) world" where
  "apply_matching_frame cf mo ui adopted remote w =
     (let remote_advanced = ps_updated_at remote > in_platform_remote_state_updated_at w
      in case heartbeat_watchdog_expired (mo_instant mo) ui (ps_running remote) True remote_advanced
                (release_client ui remote (note_revision mo remote w)) of
           (w, True) \<Rightarrow> trip_watchdog cf mo w
         | (w, False) \<Rightarrow> if \<not> remote_advanced \<and> \<not> adopted then w else fold_frame mo ui remote w)"

definition apply_platform_envelope_locked ::
    "('b, 'm) config \<Rightarrow> moment \<Rightarrow> bool \<Rightarrow> str option \<Rightarrow> platform_envelope \<Rightarrow> ('b, 'm) world \<Rightarrow> ('b, 'm) world \<times> bool" where
  "apply_platform_envelope_locked cf mo ui expected envelope w =
     (let (w, acknowledged) =
            (if ui then (w, False) else acknowledge_platform_browser_request_locked (pe_browser_request_ack envelope) w)
      in case pe_state envelope of
           None \<Rightarrow> (w, acknowledged)
         | Some remote \<Rightarrow>
             (let matches = (ps_start_attempt_id remote \<noteq> [] \<and> ps_start_attempt_id remote = in_platform_start_attempt_id w);
                  adopted = (\<not> ui \<and> \<not> matches \<and> expected = Some (ps_start_attempt_id remote)
                             \<and> ps_start_attempt_id remote \<noteq> [])
              in if \<not> matches \<and> \<not> adopted then (w, acknowledged)
                 else let w = (if adopted then adopt_attempt remote w else w)
                      in (apply_matching_frame cf mo ui adopted remote w, acknowledged)))"

subsection \<open>Reading the other lane\<close>

definition read_sibling :: "('b, 'm) config \<Rightarrow> ipc \<Rightarrow> ('b, 'm) world \<Rightarrow> (ipc_error, platform_envelope option) result" where
  "read_sibling cf i w = read_remote (cf_ashmem cf) (cf_envelopes cf) i (\<lambda>_. wd_memory w)"

definition sync_platform_locked_with_adoption ::
    "('b, 'm) config \<Rightarrow> moment \<Rightarrow> str option \<Rightarrow> ('b, 'm) world \<Rightarrow> ('b, 'm) world \<times> bool" where
  "sync_platform_locked_with_adoption cf mo expected w =
     (case en_ipc w of
        None \<Rightarrow> (w, False)
      | Some i \<Rightarrow>
          (case read_sibling cf i w of
             Ok (Some envelope) \<Rightarrow> apply_platform_envelope_locked cf mo (is_ui i) expected envelope w
           | Ok None \<Rightarrow> (w, False)
           | Err e \<Rightarrow> (push_diag_locked mo ''warn'' (''read platform shared memory failed: '' @ ipc_error_text e) w, False)))"

definition sync_platform_locked :: "('b, 'm) config \<Rightarrow> moment \<Rightarrow> ('b, 'm) world \<Rightarrow> ('b, 'm) world \<times> bool" where
  "sync_platform_locked cf mo w = sync_platform_locked_with_adoption cf mo None w"

definition synced :: "('b, 'm) config \<Rightarrow> moment \<Rightarrow> ('b, 'm) world \<Rightarrow> ('b, 'm) world" where
  "synced cf mo w = fst (sync_platform_locked cf mo w)"

definition validate_platform_start_envelope :: "platform_envelope \<Rightarrow> str \<Rightarrow> (str, unit) result" where
  "validate_platform_start_envelope envelope attempt =
     (case pe_state envelope of
        None \<Rightarrow> Err ''platform VPN start has no UI state''
      | Some remote \<Rightarrow>
          if ps_start_attempt_id remote \<noteq> attempt then
            Err (''stale platform VPN start attempt '' @ attempt @ ''; UI owns '' @ ps_start_attempt_id remote)
          else if terminal (ps_start_outcome remote) then
            Err (''platform VPN start attempt '' @ attempt @ '' is already terminal'')
          else Ok ())"

definition sync_platform_for_binding_locked ::
    "('b, 'm) config \<Rightarrow> moment \<Rightarrow> str \<Rightarrow> ('b, 'm) world \<Rightarrow> ('b, 'm) world \<times> (str, bool) result" where
  "sync_platform_for_binding_locked cf mo attempt w =
     (case en_ipc w of
        None \<Rightarrow> (w, Ok False)
      | Some i \<Rightarrow>
          if is_ui i then (w, Err ''platform VPN start binding is only valid in the Extension'')
          else try_in w (platform_ipc_error (read_sibling cf i w)) (\<lambda>found.
            case found of
              None \<Rightarrow> (w, Err ''platform VPN start has no UI state'')
            | Some envelope \<Rightarrow>
                try_in w (validate_platform_start_envelope envelope attempt) (\<lambda>_.
                  case apply_platform_envelope_locked cf mo False (Some attempt) envelope w of
                    (w, ack) \<Rightarrow> (w, Ok ack))))"

definition acknowledge_terminal_delivery_state :: "nat \<Rightarrow> str \<Rightarrow> platform_vpn_state \<Rightarrow> platform_vpn_state \<times> bool" where
  "acknowledge_terminal_delivery_state now_nanos attempt st =
     (if attempt = [] \<or> ps_start_attempt_id st \<noteq> attempt \<or> \<not> terminal (ps_start_outcome st) then (st, False)
      else (st\<lparr>ps_delivery_observed := True, ps_extension_attached := False, ps_starting := False, ps_running := False,
               ps_updated_at := max now_nanos (min (ps_updated_at st + 1) max_u128)\<rparr>, True))"

end
