(* ===== verification/Oc_Platform.thy ===== *)
theory Oc_Platform
  imports Oc_Engine
begin

text \<open>
  The coordinator of platform VPN attempts: the handlers of \<open>engine/platform.rs\<close>. Each takes the
  configuration, the moments of its call sites (numbered in the order of the code), what the operating
  system says about the calling process where it asks, and its arguments.
\<close>

subsection \<open>Calls into the owner journal and the leases\<close>

definition journal_now :: "('b, 'm) config \<Rightarrow> moment \<Rightarrow> ('b, 'm) world \<Rightarrow> (str, journal_read) result" where
  "journal_now cf mo w = journal_read (cf_journals cf) (platform_owner_journal_path w) (mo_io mo) (wd_journal w)"

definition on_journal ::
    "('b slot \<Rightarrow> 'b slot \<times> (str, 'a) result) \<Rightarrow> ('b, 'm) world \<Rightarrow> ('b, 'm) world \<times> (str, 'a) result" where
  "on_journal f w = (case f (wd_journal w) of (s, r) \<Rightarrow> (w\<lparr>wd_journal := s\<rparr>, r))"

definition acquire_lease ::
    "('b, 'm) config \<Rightarrow> moment \<Rightarrow> lease_record \<Rightarrow> ('b, 'm) world \<Rightarrow> ('b, 'm) world \<times> (str, nat) result" where
  "acquire_lease cf mo r w =
     (let acquire = acquire_owner_lease_exact (cf_leases cf) (platform_owner_lease_path w (lr_role r)) (mo_io mo)
            (cf_torn cf) (mo_handle mo) r
      in case lr_role r of
           Issuer \<Rightarrow> (case acquire (wd_issuer_lease w) of (f, x) \<Rightarrow> (w\<lparr>wd_issuer_lease := f\<rparr>, x))
         | Extension \<Rightarrow> (case acquire (wd_extension_lease w) of (f, x) \<Rightarrow> (w\<lparr>wd_extension_lease := f\<rparr>, x)))"

definition observe_lease ::
    "('b, 'm) config \<Rightarrow> moment \<Rightarrow> lease_record \<Rightarrow> ('b, 'm) world \<Rightarrow> (str, lease_observation) result" where
  "observe_lease cf mo r w =
     observe_owner_lease_exact (cf_leases cf) (platform_owner_lease_path w (lr_role r)) (mo_io mo) r
       (case lr_role r of Issuer \<Rightarrow> wd_issuer_lease w | Extension \<Rightarrow> wd_extension_lease w)"

text \<open>A lease handle that goes out of scope without having been stored.\<close>

definition release_issuer :: "nat \<Rightarrow> ('b, 'm) world \<Rightarrow> ('b, 'm) world" where
  "release_issuer h w = w\<lparr>wd_issuer_lease := release_owner_lease h (wd_issuer_lease w)\<rparr>"

definition release_extension :: "nat \<Rightarrow> ('b, 'm) world \<Rightarrow> ('b, 'm) world" where
  "release_extension h w = w\<lparr>wd_extension_lease := release_owner_lease h (wd_extension_lease w)\<rparr>"

text \<open>Storing a lease drops the one stored before.\<close>

definition keep_issuer :: "nat \<Rightarrow> ('b, 'm) world \<Rightarrow> ('b, 'm) world" where
  "keep_issuer h w = (drop_issuer_lease w)\<lparr>in_platform_vpn_issuer_lease := Some h\<rparr>"

definition keep_extension :: "nat \<Rightarrow> ('b, 'm) world \<Rightarrow> ('b, 'm) world" where
  "keep_extension h w = (drop_extension_lease w)\<lparr>in_platform_vpn_extension_lease := Some h\<rparr>"

text \<open>\<open>session.cancel()\<close> and the bounded join.\<close>

definition stop_session :: "running_session option \<Rightarrow> ('b, 'm) world \<Rightarrow> ('b, 'm) world" where
  "stop_session s w = (case s of None \<Rightarrow> w | Some r \<Rightarrow> w\<lparr>wd_cancelled := wd_cancelled w @ [rn_handle r]\<rparr>)"

subsection \<open>The fence between stop and start\<close>

definition advance_platform_vpn_intent :: "('b, 'm) world \<Rightarrow> ('b, 'm) world \<times> (str, nat) result" where
  "advance_platform_vpn_intent w =
     (if in_platform_vpn_intent_epoch w + 1 > max_u64 then (w, Err ''platform VPN intent epoch exhausted'')
      else let e = in_platform_vpn_intent_epoch w + 1 in (w\<lparr>in_platform_vpn_intent_epoch := e\<rparr>, Ok e))"

definition is_platform_vpn_intent_current :: "nat \<Rightarrow> ('b, 'm) world \<Rightarrow> bool" where
  "is_platform_vpn_intent_current intent w \<longleftrightarrow> intent > 0 \<and> in_platform_vpn_intent_epoch w = intent"

definition is_platform_vpn_stop_current :: "nat \<Rightarrow> str \<Rightarrow> ('b, 'm) world \<Rightarrow> bool" where
  "is_platform_vpn_stop_current intent attempt w \<longleftrightarrow>
     intent > 0 \<and> in_platform_vpn_intent_epoch w = intent
     \<and> (in_platform_os_stop_epoch w = intent \<and> in_platform_os_stop_attempt_id w = attempt)
     \<and> \<not> in_platform_os_stop_in_flight w"

definition begin_platform_vpn_os_stop :: "nat \<Rightarrow> str \<Rightarrow> ('b, 'm) world \<Rightarrow> ('b, 'm) world \<times> bool" where
  "begin_platform_vpn_os_stop intent attempt w =
     (if intent = 0 \<or> in_platform_vpn_intent_epoch w \<noteq> intent \<or> in_platform_os_stop_in_flight w then (w, False)
      else if in_platform_os_stop_epoch w = 0 then
        (if attempt \<noteq> [] then (w, False)
         else (w\<lparr>in_platform_os_stop_epoch := intent, in_platform_os_stop_attempt_id := [],
                 in_platform_os_stop_in_flight := True\<rparr>, True))
      else if in_platform_os_stop_epoch w \<noteq> intent \<or> in_platform_os_stop_attempt_id w \<noteq> attempt then (w, False)
      else (w\<lparr>in_platform_os_stop_in_flight := True\<rparr>, True))"

definition complete_platform_vpn_os_stop :: "nat \<Rightarrow> str \<Rightarrow> ('b, 'm) world \<Rightarrow> ('b, 'm) world \<times> bool" where
  "complete_platform_vpn_os_stop intent attempt w =
     (if in_platform_os_stop_epoch w \<noteq> intent \<or> in_platform_os_stop_attempt_id w \<noteq> attempt
         \<or> \<not> in_platform_os_stop_in_flight w
      then (w, False)
      else (w\<lparr>in_platform_os_stop_epoch := 0, in_platform_os_stop_attempt_id := [],
              in_platform_os_stop_in_flight := False\<rparr>, True))"

definition fail_platform_vpn_os_stop :: "nat \<Rightarrow> str \<Rightarrow> ('b, 'm) world \<Rightarrow> ('b, 'm) world \<times> bool" where
  "fail_platform_vpn_os_stop intent attempt w =
     (if in_platform_os_stop_epoch w \<noteq> intent \<or> in_platform_os_stop_attempt_id w \<noteq> attempt
         \<or> \<not> in_platform_os_stop_in_flight w
      then (w, False)
      else (w\<lparr>in_platform_os_stop_in_flight := False\<rparr>, True))"

subsection \<open>Start\<close>

text \<open>The state of a fresh attempt, after its lease and journal are in place.\<close>

definition open_attempt :: "moment \<Rightarrow> str \<Rightarrow> nat \<Rightarrow> ('b, 'm) world \<Rightarrow> ('b, 'm) world" where
  "open_attempt mo attempt sequence w =
     push_diag_locked mo ''info'' (''platform VPN start transaction '' @ attempt)
      (set_lifecycle_locked Establishing None
       ((drop_extension_lease w)\<lparr>in_platform_start_sequence := sequence, in_platform_start_attempt_id := attempt,
          in_platform_start_outcome := OutPending, in_platform_start_delivery_observed := False,
          in_platform_extension_attached := False, in_platform_stop_requested := False,
          in_platform_extension_owner_pid := 0, in_platform_extension_owner_start_time := 0,
          in_platform_vpn_cleanup_complete := False,
          in_platform_session_handoff :=
            map_option (\<lambda>h. h\<lparr>sh_attempt_id := attempt, sh_updated_at := mo_nanos mo\<rparr>) (in_platform_session_handoff w),
          in_platform_vpn_starting := True, in_platform_vpn_running := False,
          in_platform_remote_state_updated_at := 0, in_platform_remote_state_seen_at := None,
          in_platform_remote_stale_since := None, in_platform_watchdog_cleanup_recoverable := False\<rparr>))"

definition begin_platform_vpn_start_for_intent ::
    "('b, 'm) config \<Rightarrow> (nat \<Rightarrow> moment) \<Rightarrow> (str, process_identity) result \<Rightarrow> nat \<Rightarrow> ('b, 'm) world
       \<Rightarrow> ('b, 'm) world \<times> (str, str) result" where
  "begin_platform_vpn_start_for_intent cf ev identity intent w =
     try_in w identity (\<lambda>issuer.
     if intent = 0 \<or> in_platform_vpn_intent_epoch w \<noteq> intent then
       (w, Err (''platform VPN start intent '' @ show_dec intent @ '' was superseded''))
     else if in_platform_os_stop_epoch w \<noteq> 0 then
       (w, Err (''platform VPN OS stop for attempt '' @ in_platform_os_stop_attempt_id w
                @ '' is still pending confirmation''))
     else
       let w = synced cf (ev 0) w
       in if in_platform_start_outcome w = OutPending then (w, Err ''platform VPN start is already pending'')
          else if in_platform_start_attempt_id w \<noteq> [] \<and> \<not> in_platform_vpn_cleanup_complete w then
            (w, Err ''previous platform VPN connection cleanup is still pending'')
          else if in_platform_vpn_running w then (w, Err ''platform VPN is already connected'')
          else
            let sequence = min (in_platform_start_sequence w + 1) max_u64;
                attempt = show_dec (mo_nanos (ev 1)) @ ''-'' @ show_dec sequence
            in try_in w (journal_now cf (ev 1) w) (\<lambda>found.
               case found of
                 JPresent owner \<Rightarrow>
                   (w, Err (''previous platform VPN owner journal for attempt '' @ oj_attempt_id owner
                            @ '' is still pending cleanup''))
               | JMissing \<Rightarrow>
                   bind_in (acquire_lease cf (ev 2) (platform_owner_lease_record attempt issuer Issuer) w) (\<lambda>lease w.
                   case on_journal (create_pending_exact (cf_journals cf) (platform_owner_journal_path w) (mo_io (ev 3))
                            (mo_tmp (ev 3)) \<lparr>oj_attempt_id = attempt, oj_issuer = issuer, oj_extension = None,
                                            oj_phase = Pending\<rparr>) w of
                     (w, Err e) \<Rightarrow> (release_issuer lease w, Err e)
                   | (w, Ok _) \<Rightarrow>
                       bind_in (persist_platform_locked cf (ev 4) (open_attempt (ev 4) attempt sequence (keep_issuer lease w)))
                         (\<lambda>_ w. (w, Ok attempt)))))"

subsection \<open>Attachment of the Extension\<close>

definition observed_free :: "str \<Rightarrow> lease_observation \<Rightarrow> (str, unit) result" where
  "observed_free attempt obs =
     (case obs of
        Released \<Rightarrow> Ok ()
      | HeldExact \<Rightarrow> Err (''platform VPN attempt '' @ attempt @ '' is still owned by another Extension process'')
      | HeldOther \<Rightarrow> Err (''cannot verify the exact previous Extension lease for attempt '' @ attempt))"

definition observed_issuer :: "str \<Rightarrow> lease_observation \<Rightarrow> (str, unit) result" where
  "observed_issuer attempt obs =
     (case obs of
        HeldExact \<Rightarrow> Ok ()
      | Released \<Rightarrow> Err (''platform VPN start issuer lease for attempt '' @ attempt @ '' was released'')
      | HeldOther \<Rightarrow> Err (''cannot verify the exact platform VPN start issuer lease for attempt '' @ attempt))"

text \<open>Take the Extension lease, then change the journal; a failed change drops the lease.\<close>

definition attach_owner ::
    "('b, 'm) config \<Rightarrow> (nat \<Rightarrow> moment) \<Rightarrow> lease_record \<Rightarrow> ('b slot \<Rightarrow> 'b slot \<times> (str, unit) result)
       \<Rightarrow> ('b, 'm) world \<Rightarrow> ('b, 'm) world \<times> (str, nat option) result" where
  "attach_owner cf ev r change w =
     bind_in (acquire_lease cf (ev 3) r w) (\<lambda>lease w.
       case on_journal change w of
         (w, Err e) \<Rightarrow> (release_extension lease w, Err e)
       | (w, Ok _) \<Rightarrow> (w, Ok (Some lease)))"

definition take_ownership ::
    "('b, 'm) config \<Rightarrow> (nat \<Rightarrow> moment) \<Rightarrow> str \<Rightarrow> process_identity \<Rightarrow> owner_journal \<Rightarrow> ('b, 'm) world
       \<Rightarrow> ('b, 'm) world \<times> (str, nat option) result" where
  "take_ownership cf ev attempt me journal w =
     (let r = platform_owner_lease_record attempt me Extension; path = platform_owner_journal_path w
      in case (oj_phase journal, oj_extension journal) of
           (Pending, None) \<Rightarrow>
             try_in w (observe_lease cf (ev 2) (platform_owner_lease_record attempt (oj_issuer journal) Issuer) w) (\<lambda>obs.
             try_in w (observed_issuer attempt obs) (\<lambda>_.
               attach_owner cf ev r (upgrade_attached_exact (cf_journals cf) path (mo_io (ev 4)) (mo_tmp (ev 4))
                 attempt (oj_issuer journal) me) w))
         | (Attached, Some current) \<Rightarrow>
             if current = me then
               (if in_platform_vpn_extension_lease w = None
                then bind_in (acquire_lease cf (ev 3) r w) (\<lambda>lease w. (w, Ok (Some lease)))
                else (w, Ok None))
             else
               try_in w (observe_lease cf (ev 2) (platform_owner_lease_record attempt current Extension) w) (\<lambda>obs.
               try_in w (observed_free attempt obs) (\<lambda>_.
                 attach_owner cf ev r (rebind_attached_exact (cf_journals cf) path (mo_io (ev 4)) (mo_tmp (ev 4))
                   attempt (oj_issuer journal) current me) w))
         | _ \<Rightarrow> (w, Err (''platform VPN owner journal has an invalid phase for attempt '' @ attempt)))"

definition journal_of_attempt :: "str \<Rightarrow> journal_read \<Rightarrow> (str, owner_journal) result" where
  "journal_of_attempt attempt found =
     (case found of
        JMissing \<Rightarrow> Err (''platform VPN owner journal is missing for attempt '' @ attempt)
      | JPresent j \<Rightarrow>
          if oj_attempt_id j = attempt then Ok j
          else Err (''stale platform VPN start attempt '' @ attempt @ ''; owner journal belongs to '' @ oj_attempt_id j))"

definition reopen_connected :: "moment \<Rightarrow> str \<Rightarrow> ('b, 'm) world \<Rightarrow> ('b, 'm) world" where
  "reopen_connected mo attempt w =
     (if in_platform_start_outcome w = OutConnected \<and> in_running_native w = None
      then push_diag_locked mo ''info'' (''platform VPN extension recovering connected attempt '' @ attempt)
             (w\<lparr>in_platform_start_outcome := OutPending, in_platform_vpn_starting := True,
                in_platform_vpn_running := False, in_platform_vpn_cleanup_complete := False,
                in_platform_watchdog_cleanup_recoverable := False\<rparr>)
      else w)"

definition announce_owner ::
    "('b, 'm) config \<Rightarrow> moment \<Rightarrow> str \<Rightarrow> process_identity \<Rightarrow> ('b, 'm) world \<Rightarrow> ('b, 'm) world \<times> (str, unit) result" where
  "announce_owner cf mo attempt me w =
     (let changed = (in_platform_extension_owner_pid w \<noteq> pi_pid me
                     \<or> in_platform_extension_owner_start_time w \<noteq> pi_start_time me);
          w = w\<lparr>in_platform_extension_owner_pid := pi_pid me, in_platform_extension_owner_start_time := pi_start_time me\<rparr>
      in if \<not> in_platform_extension_attached w then
           persist_platform_locked cf mo
             (push_diag_locked mo ''info'' (''platform VPN extension attached to '' @ attempt)
               (w\<lparr>in_platform_start_delivery_observed := True, in_platform_extension_attached := True,
                  in_platform_vpn_cleanup_complete := False, in_platform_watchdog_cleanup_recoverable := False\<rparr>))
         else if in_platform_start_outcome w = OutPending \<and> in_platform_vpn_starting w \<and> \<not> in_platform_vpn_running w then
           persist_platform_locked cf mo (w\<lparr>in_platform_start_delivery_observed := True\<rparr>)
         else if changed then persist_platform_locked cf mo w
         else (w, Ok ()))"

definition owner_text :: "process_identity \<Rightarrow> str" where
  "owner_text me =
     show_dec (pi_pid me) @ '':'' @ (if pi_start_time me > 0 then show_dec (pi_start_time me) else ''unavailable'')"

definition bind_platform_vpn_start ::
    "('b, 'm) config \<Rightarrow> (nat \<Rightarrow> moment) \<Rightarrow> (str, process_identity) result \<Rightarrow> str \<Rightarrow> ('b, 'm) world
       \<Rightarrow> ('b, 'm) world \<times> (str, str) result" where
  "bind_platform_vpn_start cf ev identity attempt w =
     (if attempt = [] then (w, Err ''platform VPN start attempt id is empty'')
      else
      try_in w identity (\<lambda>me.
      bind_in (sync_platform_for_binding_locked cf (ev 0) attempt w) (\<lambda>_ w.
      if in_platform_start_attempt_id w \<noteq> attempt then (w, Err (''stale platform VPN start attempt '' @ attempt))
      else if terminal (in_platform_start_outcome w) then
        (w, Err (''platform VPN start attempt '' @ attempt @ '' is already terminal''))
      else
      let w = reopen_connected (ev 0) attempt w
      in try_in w (and_then (journal_now cf (ev 1) w) (journal_of_attempt attempt)) (\<lambda>journal.
         bind_in (take_ownership cf ev attempt me journal w) (\<lambda>lease w.
         let w = (case lease of None \<Rightarrow> w | Some h \<Rightarrow> keep_extension h w);
             w = synced cf (ev 5) w
         in if in_platform_start_attempt_id w \<noteq> attempt then
              (w, Err (''platform VPN start attempt '' @ attempt @ '' was superseded after owner attachment''))
            else bind_in (announce_owner cf (ev 6) attempt me w) (\<lambda>_ w. (w, Ok (owner_text me))))))))"

subsection \<open>Cleanup\<close>

definition complete_platform_vpn_cleanup ::
    "('b, 'm) config \<Rightarrow> (nat \<Rightarrow> moment) \<Rightarrow> (str, process_identity) result \<Rightarrow> str \<Rightarrow> ('b, 'm) world
       \<Rightarrow> ('b, 'm) world \<times> (str, bool) result" where
  "complete_platform_vpn_cleanup cf ev identity attempt w =
     try_in w identity (\<lambda>me.
     let w = synced cf (ev 0) w
     in if attempt = [] \<or> in_platform_start_attempt_id w \<noteq> attempt then (w, Ok False)
        else if in_platform_vpn_running w \<or> in_platform_vpn_starting w \<or> \<not> terminal (in_platform_start_outcome w) then
          (w, Ok False)
        else if in_platform_vpn_cleanup_complete w then (w, Ok True)
        else if in_platform_vpn_extension_lease w = None then
          (w, Err (''platform VPN Extension lease is missing before cleanup acknowledgement for '' @ attempt))
        else
          try_in w (journal_now cf (ev 1) w) (\<lambda>found.
          case found of
            JMissing \<Rightarrow> (w, Err (''platform VPN owner journal is missing before cleanup acknowledgement for '' @ attempt))
          | JPresent journal \<Rightarrow>
              if oj_attempt_id journal \<noteq> attempt then (w, Ok False)
              else if \<not> (oj_phase journal = Attached \<and> oj_extension journal = Some me
                        \<and> pi_pid me = in_platform_extension_owner_pid w
                        \<and> pi_start_time me = in_platform_extension_owner_start_time w) then
                (w, Err (''platform VPN owner journal does not match the Extension acknowledging cleanup for '' @ attempt))
              else
                bind_in (on_journal (delete_exact (cf_journals cf) (platform_owner_journal_path w) (mo_io (ev 2)) attempt (Some me)) w)
                  (\<lambda>deleted w.
                  if \<not> deleted then
                    (w, Err (''platform VPN owner journal changed before cleanup acknowledgement for '' @ attempt))
                  else
                    let w = w\<lparr>in_platform_vpn_cleanup_complete := True, in_platform_extension_attached := False,
                              in_platform_stop_requested := True, in_platform_extension_owner_pid := 0,
                              in_platform_extension_owner_start_time := 0, in_platform_watchdog_cleanup_recoverable := False\<rparr>;
                        w = push_diag_locked (ev 3) ''info'' (''platform VPN connection cleanup completed for '' @ attempt) w;
                        w = drop_leases w
                    in bind_in (persist_platform_locked cf (ev 3) w) (\<lambda>_ w. (w, Ok True)))))"

subsection \<open>Ends of an attempt\<close>

definition platform_start_is_pending_locked :: "str \<Rightarrow> ('b, 'm) world \<Rightarrow> bool" where
  "platform_start_is_pending_locked attempt w \<longleftrightarrow>
     attempt \<noteq> [] \<and> in_platform_start_attempt_id w = attempt \<and> in_platform_start_outcome w = OutPending"

definition apply_platform_vpn_failed_locked ::
    "moment \<Rightarrow> str \<Rightarrow> ('b, 'm) world \<Rightarrow> ('b, 'm) world \<times> running_session option" where
  "apply_platform_vpn_failed_locked mo e w =
     (let session = in_running_native w;
          w = w\<lparr>in_platform_vpn_starting := False, in_platform_vpn_running := False, in_platform_session_handoff := None,
                in_platform_browser_request := None,
                in_platform_start_outcome :=
                  (if in_platform_start_outcome w = OutPending then OutFailed else in_platform_start_outcome w),
                in_running_native := None, in_pending_native := None\<rparr>
      in (push_diag_locked mo ''error'' e (set_lifecycle_locked Failed (Some e) w), session))"

definition apply_platform_vpn_running_locked ::
    "moment \<Rightarrow> bool \<Rightarrow> ('b, 'm) world \<Rightarrow> ('b, 'm) world \<times> running_session option" where
  "apply_platform_vpn_running_locked mo running w =
     (let w = w\<lparr>in_platform_vpn_running := running, in_platform_vpn_starting := False, in_platform_browser_request := None\<rparr>
      in if running then
           (let w = (if in_platform_start_outcome w = OutPending then w\<lparr>in_platform_start_outcome := OutConnected\<rparr> else w);
                w = (if \<not> is_active (lifecycle_of w)
                     then (set_lifecycle_locked Connected None w)\<lparr>in_connected_at := Some (mo_instant mo)\<rparr> else w)
            in (push_diag_locked mo ''info'' ''platform VPN TUN is up'' w, None))
         else
           (let w = (if in_platform_start_outcome w = OutPending then w\<lparr>in_platform_start_outcome := OutCancelled\<rparr> else w)
            in if lifecycle_of w \<in> {Connected, Establishing, Disconnecting} then
                 (let session = in_running_native w;
                      w = set_lifecycle_locked Disconnected None (w\<lparr>in_running_native := None, in_pending_native := None\<rparr>)
                  in (set_stats session_stats_default (w\<lparr>in_connected_at := None\<rparr>), session))
               else (w, None)))"

definition fail_platform_vpn_start_if ::
    "('b, 'm) config \<Rightarrow> (nat \<Rightarrow> moment) \<Rightarrow> str \<Rightarrow> str \<Rightarrow> bool \<Rightarrow> ('b, 'm) world \<Rightarrow> ('b, 'm) world \<times> (str, bool) result" where
  "fail_platform_vpn_start_if cf ev attempt e require_unattached w =
     (let w = synced cf (ev 0) w
      in if \<not> platform_start_is_pending_locked attempt w
            \<or> (require_unattached \<and> in_platform_extension_attached w) then (w, Ok False)
         else
           bind_in (if require_unattached
                    then on_journal (delete_pending_exact (cf_journals cf) (platform_owner_journal_path w) (mo_io (ev 1)) attempt) w
                    else (w, Ok True)) (\<lambda>deleted w.
           if \<not> deleted then (w, Ok False)
           else
             case apply_platform_vpn_failed_locked (ev 2) e w of
               (w, session) \<Rightarrow>
                 let w = w\<lparr>in_platform_start_outcome := OutFailed\<rparr>;
                     w = (if require_unattached then w\<lparr>in_platform_vpn_cleanup_complete := True\<rparr> else w);
                     w = (if in_platform_vpn_cleanup_complete w then drop_leases w else w)
                 in bind_in (persist_platform_locked cf (ev 3) w) (\<lambda>_ w. (stop_session session w, Ok True))))"

definition fail_unattached_platform_vpn_start ::
    "('b, 'm) config \<Rightarrow> (nat \<Rightarrow> moment) \<Rightarrow> str \<Rightarrow> str \<Rightarrow> ('b, 'm) world \<Rightarrow> ('b, 'm) world \<times> (str, bool) result" where
  "fail_unattached_platform_vpn_start cf ev attempt e w = fail_platform_vpn_start_if cf ev attempt e True w"

definition fail_platform_vpn_start ::
    "('b, 'm) config \<Rightarrow> (nat \<Rightarrow> moment) \<Rightarrow> str \<Rightarrow> str \<Rightarrow> ('b, 'm) world \<Rightarrow> ('b, 'm) world \<times> (str, bool) result" where
  "fail_platform_vpn_start cf ev attempt e w = fail_platform_vpn_start_if cf ev attempt e False w"

definition cancel_platform_vpn_start ::
    "('b, 'm) config \<Rightarrow> (nat \<Rightarrow> moment) \<Rightarrow> str \<Rightarrow> ('b, 'm) world \<Rightarrow> ('b, 'm) world \<times> (str, bool) result" where
  "cancel_platform_vpn_start cf ev attempt w =
     (let w = synced cf (ev 0) w
      in if \<not> platform_start_is_pending_locked attempt w then (w, Ok False)
         else
           let w = w\<lparr>in_platform_vpn_starting := False, in_platform_vpn_running := False,
                     in_platform_start_outcome := OutCancelled, in_platform_session_handoff := None,
                     in_platform_browser_request := None, in_pending_native := None\<rparr>;
               w = set_lifecycle_locked Disconnected None w;
               w = push_diag_locked (ev 1) ''info'' (''platform VPN start transaction '' @ attempt @ '' cancelled'') w
           in bind_in (persist_platform_locked cf (ev 1) w) (\<lambda>_ w. (w, Ok True)))"

definition request_platform_vpn_stop ::
    "('b, 'm) config \<Rightarrow> (nat \<Rightarrow> moment) \<Rightarrow> str \<Rightarrow> ('b, 'm) world \<Rightarrow> ('b, 'm) world \<times> (str, bool) result" where
  "request_platform_vpn_stop cf ev attempt w =
     (if attempt = [] then (w, Ok False)
      else
        let w = synced cf (ev 0) w
        in if in_platform_start_attempt_id w \<noteq> attempt then (w, Ok False)
           else if in_platform_vpn_cleanup_complete w then (w, Ok True)
           else if \<not> in_platform_extension_attached w then (w, Ok False)
           else if in_platform_stop_requested w then (w, Ok True)
           else
             bind_in (persist_platform_locked cf (ev 1)
                 (push_diag_locked (ev 1) ''info'' (''platform VPN cooperative stop requested for '' @ attempt)
                   (w\<lparr>in_platform_stop_requested := True\<rparr>))) (\<lambda>_ w. (w, Ok True)))"

subsection \<open>Claiming a stop\<close>

definition keep_fence :: "nat \<Rightarrow> str \<Rightarrow> ('b, 'm) world \<Rightarrow> ('b, 'm) world" where
  "keep_fence intent attempt w =
     w\<lparr>in_platform_os_stop_epoch := intent, in_platform_os_stop_attempt_id := attempt, in_platform_os_stop_in_flight := False\<rparr>"

definition foreign_owner :: "str option \<Rightarrow> owner_journal \<Rightarrow> ('b, 'm) world \<Rightarrow> str option" where
  "foreign_owner retained journal w =
     (if retained \<noteq> None \<and> retained \<noteq> Some (oj_attempt_id journal) then
        Some (''platform VPN OS stop fence owns '' @ the retained @ '' while the owner journal owns '' @ oj_attempt_id journal)
      else if in_platform_start_attempt_id w \<noteq> [] \<and> \<not> in_platform_vpn_cleanup_complete w
              \<and> in_platform_start_attempt_id w \<noteq> oj_attempt_id journal then
        Some (''platform VPN state owns '' @ in_platform_start_attempt_id w @ '' while the owner journal owns ''
              @ oj_attempt_id journal)
      else None)"

text \<open>Publish the stop before the journal is fenced.\<close>

definition publish_stop ::
    "('b, 'm) config \<Rightarrow> moment \<Rightarrow> str \<Rightarrow> ('b, 'm) world \<Rightarrow> ('b, 'm) world \<times> (str, unit) result" where
  "publish_stop cf mo attempt w =
     (if in_platform_start_attempt_id w = [] \<or> in_platform_vpn_cleanup_complete w then
        (push_diag_locked mo ''info'' (''platform VPN stop claimed cold owner journal '' @ attempt) w, Ok ())
      else
        let w = (if in_platform_start_outcome w = OutPending
                 then w\<lparr>in_platform_start_outcome := OutCancelled, in_platform_vpn_starting := False,
                        in_platform_vpn_running := False\<rparr> else w)
        in persist_platform_locked cf mo
             (push_diag_locked mo ''info'' (''platform VPN stop claimed exact owner '' @ attempt)
               (w\<lparr>in_platform_stop_requested := True\<rparr>)))"

definition fence_owner ::
    "('b, 'm) config \<Rightarrow> (nat \<Rightarrow> moment) \<Rightarrow> owner_journal \<Rightarrow> ('b, 'm) world \<Rightarrow> ('b, 'm) world \<times> (str, unit) result" where
  "fence_owner cf ev journal w =
     (let attempt = oj_attempt_id journal
      in case (oj_phase journal, oj_extension journal) of
           (Stopping, None) \<Rightarrow> (w, Ok ())
         | (Attached, Some _) \<Rightarrow> (w, Ok ())
         | (Pending, None) \<Rightarrow>
             bind_in (on_journal (fence_pending_stop_exact (cf_journals cf) (platform_owner_journal_path w) (mo_io (ev 3))
                        (mo_tmp (ev 3)) attempt (oj_issuer journal)) w) (\<lambda>fenced w.
             if fenced then
               (push_diag_locked (ev 3) ''info'' (''platform VPN pending owner durably fenced for stop '' @ attempt) w, Ok ())
             else
               try_in w (journal_now cf (ev 4) w) (\<lambda>found.
               case found of
                 JMissing \<Rightarrow> (w, Err (''platform VPN owner journal disappeared while claiming stop for '' @ attempt))
               | JPresent current \<Rightarrow>
                   if oj_attempt_id current = attempt
                      \<and> (oj_phase current = Stopping \<and> oj_extension current = None
                         \<or> oj_phase current = Attached \<and> oj_extension current \<noteq> None) then (w, Ok ())
                   else (w, Err (''platform VPN owner changed from '' @ attempt @ '' to '' @ oj_attempt_id current
                                 @ '' while claiming stop''))))
         | _ \<Rightarrow> (w, Err (''platform VPN owner journal has an invalid phase while claiming stop for '' @ attempt)))"

definition claim_current_platform_vpn_stop ::
    "('b, 'm) config \<Rightarrow> (nat \<Rightarrow> moment) \<Rightarrow> nat \<Rightarrow> ('b, 'm) world \<Rightarrow> ('b, 'm) world \<times> (str, str) result" where
  "claim_current_platform_vpn_stop cf ev intent w =
     (if intent = 0 \<or> in_platform_vpn_intent_epoch w \<noteq> intent then
        (w, Err (''platform VPN stop intent '' @ show_dec intent @ '' was superseded''))
      else if in_platform_os_stop_in_flight w then
        (w, Err (''platform VPN OS stop for attempt '' @ in_platform_os_stop_attempt_id w @ '' is already in flight''))
      else
        let retained = (if in_platform_os_stop_epoch w \<noteq> 0 then Some (in_platform_os_stop_attempt_id w) else None);
            w = synced cf (ev 0) w
        in try_in w (journal_now cf (ev 1) w) (\<lambda>found.
           case found of
             JMissing \<Rightarrow>
               if in_platform_start_attempt_id w \<noteq> [] \<and> \<not> in_platform_vpn_cleanup_complete w then
                 (w, Err (''platform VPN owner journal is missing for active attempt '' @ in_platform_start_attempt_id w))
               else (case retained of
                       Some attempt \<Rightarrow> (keep_fence intent attempt w, Ok attempt)
                     | None \<Rightarrow> (w, Ok []))
           | JPresent journal \<Rightarrow>
               (case foreign_owner retained journal w of
                  Some e \<Rightarrow> (w, Err e)
                | None \<Rightarrow>
                    bind_in (publish_stop cf (ev 2) (oj_attempt_id journal) w) (\<lambda>_ w.
                    bind_in (fence_owner cf ev journal w) (\<lambda>_ w.
                      (keep_fence intent (oj_attempt_id journal) w, Ok (oj_attempt_id journal)))))))"

subsection \<open>Reports of the platform\<close>

definition platform_attempt_accepts_updates :: "str \<Rightarrow> ('b, 'm) world \<Rightarrow> bool" where
  "platform_attempt_accepts_updates attempt w \<longleftrightarrow>
     attempt \<noteq> [] \<and> in_platform_start_attempt_id w = attempt \<and> in_platform_extension_attached w
     \<and> (in_platform_start_outcome w = OutPending \<or> in_platform_start_outcome w = OutConnected)"

definition set_platform_vpn_starting ::
    "('b, 'm) config \<Rightarrow> (nat \<Rightarrow> moment) \<Rightarrow> bool \<Rightarrow> ('b, 'm) world \<Rightarrow> ('b, 'm) world \<times> (str, unit) result" where
  "set_platform_vpn_starting cf ev starting w =
     (let w = synced cf (ev 0) w
      in if starting \<and> in_platform_vpn_running w then (w, Ok ())
         else
           let w = w\<lparr>in_platform_vpn_starting := starting\<rparr>;
               w = (if starting
                    then push_diag_locked (ev 1) ''info'' ''platform VPN extension starting''
                           (set_lifecycle_locked Establishing None (w\<lparr>in_platform_vpn_running := False\<rparr>))
                    else w)
           in persist_platform_locked cf (ev 1) w)"

definition set_platform_vpn_starting_for_attempt ::
    "('b, 'm) config \<Rightarrow> (nat \<Rightarrow> moment) \<Rightarrow> str \<Rightarrow> bool \<Rightarrow> ('b, 'm) world \<Rightarrow> ('b, 'm) world \<times> (str, bool) result" where
  "set_platform_vpn_starting_for_attempt cf ev attempt starting w =
     (let w = synced cf (ev 0) w
      in if \<not> platform_attempt_accepts_updates attempt w then (w, Ok False)
         else if starting \<and> in_platform_start_outcome w \<noteq> OutPending then (w, Ok False)
         else
           let w = w\<lparr>in_platform_vpn_starting := starting\<rparr>;
               w = (if starting then set_lifecycle_locked Establishing None (w\<lparr>in_platform_vpn_running := False\<rparr>) else w)
           in bind_in (persist_platform_locked cf (ev 1) w) (\<lambda>_ w. (w, Ok True)))"

definition set_platform_vpn_running ::
    "('b, 'm) config \<Rightarrow> (nat \<Rightarrow> moment) \<Rightarrow> bool \<Rightarrow> ('b, 'm) world \<Rightarrow> ('b, 'm) world \<times> (str, unit) result" where
  "set_platform_vpn_running cf ev running w =
     (case apply_platform_vpn_running_locked (ev 1) running (synced cf (ev 0) w) of
        (w, stop) \<Rightarrow> bind_in (persist_platform_locked cf (ev 2) w) (\<lambda>_ w. (stop_session stop w, Ok ())))"

definition set_platform_vpn_failed ::
    "('b, 'm) config \<Rightarrow> (nat \<Rightarrow> moment) \<Rightarrow> str \<Rightarrow> ('b, 'm) world \<Rightarrow> ('b, 'm) world \<times> (str, unit) result" where
  "set_platform_vpn_failed cf ev e w =
     (case apply_platform_vpn_failed_locked (ev 1) e (synced cf (ev 0) w) of
        (w, stop) \<Rightarrow> bind_in (persist_platform_locked cf (ev 2) w) (\<lambda>_ w. (stop_session stop w, Ok ())))"

definition set_platform_vpn_failed_for_attempt ::
    "('b, 'm) config \<Rightarrow> (nat \<Rightarrow> moment) \<Rightarrow> str \<Rightarrow> str \<Rightarrow> ('b, 'm) world \<Rightarrow> ('b, 'm) world \<times> (str, bool) result" where
  "set_platform_vpn_failed_for_attempt cf ev attempt e w =
     (let w = synced cf (ev 0) w
      in if \<not> platform_attempt_accepts_updates attempt w then (w, Ok False)
         else case apply_platform_vpn_failed_locked (ev 1) e w of
           (w, stop) \<Rightarrow> bind_in (persist_platform_locked cf (ev 2) w) (\<lambda>_ w. (stop_session stop w, Ok True)))"

definition expire_platform_vpn_start ::
    "('b, 'm) config \<Rightarrow> (nat \<Rightarrow> moment) \<Rightarrow> ('b, 'm) world \<Rightarrow> ('b, 'm) world \<times> (str, bool) result" where
  "expire_platform_vpn_start cf ev w =
     (let w = synced cf (ev 0) w
      in if \<not> in_platform_vpn_starting w \<or> in_platform_vpn_running w then (w, Ok False)
         else if in_running_native w \<noteq> None then (w, Ok False)
         else
           let w = w\<lparr>in_platform_vpn_starting := False, in_platform_session_handoff := None, in_platform_browser_request := None,
                     in_platform_start_outcome :=
                       (if in_platform_start_outcome w = OutPending then OutFailed else in_platform_start_outcome w),
                     in_pending_native := None\<rparr>;
               w = set_lifecycle_locked Failed (Some ''VPN extension startup timed out'') w
           in bind_in (persist_platform_locked cf (ev 1) w) (\<lambda>_ w. (w, Ok True)))"

definition lease_released_message :: str where
  "lease_released_message = ''VPN extension owner lease was released''"

text \<open>The guard on the released lease is held until the handler returns.\<close>

definition refresh_platform_vpn_owner_liveness_locked ::
    "('b, 'm) config \<Rightarrow> (nat \<Rightarrow> moment) \<Rightarrow> ('b, 'm) world \<Rightarrow> ('b, 'm) world \<times> (str, unit) result" where
  "refresh_platform_vpn_owner_liveness_locked cf ev w =
     (if \<not> in_platform_extension_attached w \<or> in_platform_vpn_cleanup_complete w
         \<or> \<not> (in_platform_start_outcome w = OutPending \<or> in_platform_start_outcome w = OutConnected)
      then (w, Ok ())
      else
        case lock_released_owner_lease (cf_leases cf) (platform_owner_lease_path w Extension) (mo_io (ev 0)) (mo_handle (ev 0))
               (wd_extension_lease w) of
          (f, Err e) \<Rightarrow> (w\<lparr>wd_extension_lease := f\<rparr>, Err e)
        | (f, Ok None) \<Rightarrow> (w\<lparr>wd_extension_lease := f\<rparr>, Ok ())
        | (f, Ok (Some guard)) \<Rightarrow>
            (let w = w\<lparr>wd_extension_lease := f\<rparr>
             in case journal_now cf (ev 1) w of
                  Err e \<Rightarrow> (release_extension guard w, Err e)
                | Ok JMissing \<Rightarrow> (release_extension guard w, Ok ())
                | Ok (JPresent journal) \<Rightarrow>
                    if oj_attempt_id journal \<noteq> in_platform_start_attempt_id w \<or> oj_phase journal \<noteq> Attached
                       \<or> \<not> (case oj_extension journal of None \<Rightarrow> False
                            | Some owner \<Rightarrow> pi_pid owner = in_platform_extension_owner_pid w
                                \<and> pi_start_time owner = in_platform_extension_owner_start_time w)
                    then (release_extension guard w, Ok ())
                    else
                      let w = w\<lparr>in_platform_vpn_running := False, in_platform_vpn_starting := False,
                                in_platform_start_outcome := OutFailed, in_platform_remote_stale_since := None,
                                in_connected_at := None\<rparr>;
                          w = set_lifecycle_locked Failed (Some lease_released_message) w;
                          w = push_diag_locked (ev 2) ''error'' lease_released_message w
                      in case persist_platform_locked cf (ev 2) w of (w, r) \<Rightarrow> (release_extension guard w, r)))"

subsection \<open>One-shot payloads\<close>

definition clear_platform_session_handoff ::
    "('b, 'm) config \<Rightarrow> moment \<Rightarrow> str \<Rightarrow> ('b, 'm) world \<Rightarrow> ('b, 'm) world \<times> (str, unit) result" where
  "clear_platform_session_handoff cf mo attempt w =
     (if map_option sh_attempt_id (in_platform_session_handoff w) = Some attempt
      then persist_platform_locked cf mo (w\<lparr>in_platform_session_handoff := None\<rparr>)
      else (w, Ok ()))"

definition queue_platform_browser_open_request ::
    "('b, 'm) config \<Rightarrow> moment \<Rightarrow> str \<Rightarrow> ('b, 'm) world \<Rightarrow> ('b, 'm) world \<times> (str, unit) result" where
  "queue_platform_browser_open_request cf mo uri w =
     (if trim uri = [] then (w, Err ''external browser URI is empty'')
      else case en_ipc w of
        None \<Rightarrow> (w, Err ''platform ashmem is not attached'')
      | Some i \<Rightarrow>
          if is_ui i then (w, Err ''cross-process browser requests must originate from the VPN Extension'')
          else if in_platform_start_attempt_id w = [] then
            (w, Err ''external browser request has no active VPN start attempt'')
          else
            let n = min (in_platform_browser_request_sequence w + 1) max_u64
            in persist_platform_locked cf mo (w\<lparr>in_platform_browser_request_sequence := n,
                 in_platform_browser_request := Some \<lparr>
                   br_request_id = in_platform_start_attempt_id w @ ''-'' @ show_dec (mo_millis mo) @ ''-'' @ show_dec n,
                   br_attempt_id = in_platform_start_attempt_id w, br_uri = trim uri,
                   br_requested_at_ms = mo_millis mo\<rparr>\<rparr>))"

definition remote_browser_request ::
    "('b, 'm) config \<Rightarrow> ipc \<Rightarrow> ('b, 'm) world \<Rightarrow> (str, browser_open_request option) result" where
  "remote_browser_request cf i w =
     and_then (platform_ipc_error (read_sibling cf i w)) (\<lambda>found.
       Ok (case found of None \<Rightarrow> None | Some envelope \<Rightarrow> pe_browser_request envelope))"

definition take_platform_browser_open_request ::
    "('b, 'm) config \<Rightarrow> moment \<Rightarrow> ('b, 'm) world \<Rightarrow> ('b, 'm) world \<times> (str, browser_open_request option) result" where
  "take_platform_browser_open_request cf mo w =
     (case en_ipc w of
        None \<Rightarrow> (w, Ok None)
      | Some i \<Rightarrow>
          if \<not> is_ui i then (w, Ok None)
          else try_in w (remote_browser_request cf i w) (\<lambda>request.
            let previous_ack = in_last_platform_browser_request_id w
            in case consume_platform_browser_request_locked mo request w of
                 (w, None) \<Rightarrow> (w, Ok None)
               | (w, Some r) \<Rightarrow>
                   (case persist_platform_locked cf mo w of
                      (w, Err e) \<Rightarrow> (w\<lparr>in_last_platform_browser_request_id := previous_ack\<rparr>, Err e)
                    | (w, Ok _) \<Rightarrow> (w, Ok (Some r)))))"

definition clear_platform_browser_open_request ::
    "('b, 'm) config \<Rightarrow> moment \<Rightarrow> ('b, 'm) world \<Rightarrow> ('b, 'm) world \<times> (str, unit) result" where
  "clear_platform_browser_open_request cf mo w =
     (case en_ipc w of
        None \<Rightarrow> (w, Ok ())
      | Some i \<Rightarrow>
          if is_ui i then
            try_in w (remote_browser_request cf i w) (\<lambda>request.
              let remote_id = (case request of None \<Rightarrow> [] | Some r \<Rightarrow> br_request_id r)
              in if in_last_platform_browser_request_id w \<noteq> remote_id
                 then persist_platform_locked cf mo (w\<lparr>in_last_platform_browser_request_id := remote_id\<rparr>)
                 else (w, Ok ()))
          else if in_platform_browser_request w \<noteq> None
               then persist_platform_locked cf mo (w\<lparr>in_platform_browser_request := None\<rparr>)
               else (w, Ok ()))"

definition sync_platform_changes ::
    "('b, 'm) config \<Rightarrow> (nat \<Rightarrow> moment) \<Rightarrow> ('b, 'm) world \<Rightarrow> ('b, 'm) world \<times> (str, unit) result" where
  "sync_platform_changes cf ev w =
     (case sync_platform_locked cf (ev 0) w of
        (w, True) \<Rightarrow> persist_platform_locked cf (ev 1) w
      | (w, False) \<Rightarrow> (w, Ok ()))"

subsection \<open>Shared memory\<close>

text \<open>\<open>reset\<close> is the outcome of removing the recording marker, \<open>session\<close> the number of the new session.\<close>

definition initialize_platform_shared_memory ::
    "('b, 'm) config \<Rightarrow> moment \<Rightarrow> (str, unit) result \<Rightarrow> nat \<Rightarrow> ('b, 'm) world \<Rightarrow> ('b, 'm) world \<times> (str, unit) result" where
  "initialize_platform_shared_memory cf mo reset session w =
     (case en_ipc w of
        Some i \<Rightarrow> if is_ui i then (w, Ok ()) else (w, platform_ipc_error (Err InvalidHeader))
      | None \<Rightarrow>
          try_in w reset (\<lambda>_.
            let w = w\<lparr>en_runtime_logs := runtime_clear (en_runtime_logs w)\<rparr>
            in case create_ui (cf_ashmem cf) session (wd_memory w) of
                 (m, Err e) \<Rightarrow> (w\<lparr>wd_memory := m\<rparr>, Err (ipc_error_text e))
               | (m, Ok i) \<Rightarrow> persist_platform_locked cf mo (w\<lparr>wd_memory := m, en_ipc := Some i\<rparr>)))"

definition attach_platform_shared_memory ::
    "('b, 'm) config \<Rightarrow> int \<Rightarrow> int \<Rightarrow> (ipc_error, nat) result \<Rightarrow> ('b, 'm) world \<Rightarrow> ('b, 'm) world \<times> (str, unit) result" where
  "attach_platform_shared_memory cf ashmem_fd notification_fd mapped w =
     try_in w (platform_ipc_error (attach_vpn_raw (cf_ashmem cf) ashmem_fd notification_fd mapped (wd_memory w))) (\<lambda>i.
       (w\<lparr>en_ipc := Some i, in_platform_remote_state_updated_at := 0, in_platform_remote_state_seen_at := None,
          in_platform_remote_stale_since := None\<rparr>, Ok ()))"

definition validate_platform_owner_journal_for_want ::
    "('b, 'm) config \<Rightarrow> (nat \<Rightarrow> moment) \<Rightarrow> str \<Rightarrow> ('b, 'm) world \<Rightarrow> (str, unit) result" where
  "validate_platform_owner_journal_for_want cf ev attempt w =
     and_then (journal_now cf (ev 0) w) (\<lambda>found.
       case found of
         JMissing \<Rightarrow> Err (''platform VPN owner journal is missing for delivered attempt '' @ attempt)
       | JPresent journal \<Rightarrow>
           if oj_attempt_id journal \<noteq> attempt then
             Err (''stale platform VPN start attempt '' @ attempt @ ''; owner journal belongs to '' @ oj_attempt_id journal)
           else (case oj_phase journal of
               Pending \<Rightarrow>
                 and_then (observe_lease cf (ev 1) (platform_owner_lease_record attempt (oj_issuer journal) Issuer) w) (\<lambda>obs.
                   case obs of
                     HeldExact \<Rightarrow> Ok ()
                   | Released \<Rightarrow> Err (''platform VPN start issuer lease for delivered attempt '' @ attempt @ '' was released'')
                   | HeldOther \<Rightarrow> Err (''cannot verify the exact platform VPN start issuer lease for delivered attempt '' @ attempt))
             | Attached \<Rightarrow> Ok ()
             | Stopping \<Rightarrow> Err (''platform VPN start attempt '' @ attempt @ '' was fenced by a stop intent'')))"

text \<open>\<open>m\<close> is the region the Want carries, which need not be the one attached.\<close>

definition validate_platform_vpn_start_request ::
    "('b, 'm) config \<Rightarrow> (nat \<Rightarrow> moment) \<Rightarrow> int \<Rightarrow> int \<Rightarrow> (ipc_error, nat) result \<Rightarrow> 'm \<Rightarrow> str \<Rightarrow> ('b, 'm) world
       \<Rightarrow> (str, unit) result" where
  "validate_platform_vpn_start_request cf ev ashmem_fd notification_fd mapped m attempt w =
     and_then (validate_platform_owner_journal_for_want cf ev attempt w) (\<lambda>_.
     and_then (platform_ipc_error (attach_vpn_raw (cf_ashmem cf) ashmem_fd notification_fd mapped m)) (\<lambda>i.
     and_then (platform_ipc_error (read_remote (cf_ashmem cf) (cf_envelopes cf) i (\<lambda>_. m))) (\<lambda>found.
       case found of
         None \<Rightarrow> Err ''platform VPN start has no UI state''
       | Some envelope \<Rightarrow> validate_platform_start_envelope envelope attempt)))"

definition acknowledge_terminal_platform_vpn_start_delivery ::
    "('b, 'm) config \<Rightarrow> moment \<Rightarrow> int \<Rightarrow> int \<Rightarrow> (ipc_error, nat) result \<Rightarrow> str \<Rightarrow> 'm \<Rightarrow> 'm \<times> (str, bool) result" where
  "acknowledge_terminal_platform_vpn_start_delivery cf mo ashmem_fd notification_fd mapped attempt m =
     (if attempt = [] then (m, Ok False)
      else
      try_in m (platform_ipc_error (attach_vpn_raw (cf_ashmem cf) ashmem_fd notification_fd mapped m)) (\<lambda>i.
      try_in m (platform_ipc_error (read_remote (cf_ashmem cf) (cf_envelopes cf) i (\<lambda>_. m))) (\<lambda>found.
        case found of
          None \<Rightarrow> (m, Err ''platform VPN start has no UI state'')
        | Some envelope \<Rightarrow>
            (case pe_state envelope of
               None \<Rightarrow> (m, Ok False)
             | Some st \<Rightarrow>
                 (case acknowledge_terminal_delivery_state (mo_nanos mo) attempt st of
                    (_, False) \<Rightarrow> (m, Ok False)
                  | (st, True) \<Rightarrow>
                      (case publish_state (cf_ashmem cf) (cf_envelopes cf) (fst (mo_notified mo)) st (i, m) of
                         ((_, m), r) \<Rightarrow> (m, and_then (platform_ipc_error r) (\<lambda>_. Ok True))))))))"

subsection \<open>Recovery after a confirmed stop\<close>

datatype cleanup_recovery_proof = Proven | OwnerAlive | OwnerLivenessUnknown

fun proof_of :: "lease_observation \<Rightarrow> cleanup_recovery_proof" where
  "proof_of Released = Proven"
| "proof_of HeldExact = OwnerAlive"
| "proof_of HeldOther = OwnerLivenessUnknown"

definition platform_os_stop_recovery_deadline :: nat where "platform_os_stop_recovery_deadline = 30000000000"
definition platform_os_stop_recovery_poll_interval :: nat where "platform_os_stop_recovery_poll_interval = 100000000"

text \<open>The identity expected in the journal when it is deleted, and whether the owner is known to be gone.\<close>

definition recovery_proof ::
    "('b, 'm) config \<Rightarrow> moment \<Rightarrow> str \<Rightarrow> str \<Rightarrow> bool \<Rightarrow> owner_journal \<Rightarrow> ('b, 'm) world
       \<Rightarrow> (str, process_identity option \<times> cleanup_recovery_proof \<times> str) result" where
  "recovery_proof cf mo home attempt local_unattached_fence journal w =
     (let released = (\<lambda>role identity file.
            observe_owner_lease_exact (cf_leases cf)
              (runtime_file home (case role of Issuer \<Rightarrow> ''platform-vpn-owner.issuer.lease''
                                  | Extension \<Rightarrow> ''platform-vpn-owner.extension.lease''))
              (mo_io mo) (platform_owner_lease_record attempt identity role) file)
      in case (oj_phase journal, oj_extension journal) of
           (Stopping, None) \<Rightarrow>
             Ok (None, Proven, ''the exact pending owner was durably fenced before confirmed OS stop'')
         | (Pending, None) \<Rightarrow>
             if local_unattached_fence then
               Ok (None, Proven, ''the exact local attempt was terminal before an Extension adopted it'')
             else
               and_then (released Issuer (oj_issuer journal) (wd_issuer_lease w)) (\<lambda>obs.
                 Ok (None, proof_of obs, ''exact pending issuer lease '' @ show_dec (pi_pid (oj_issuer journal)) @ '':''
                       @ show_dec (pi_start_time (oj_issuer journal)) @ '' was released''))
         | (Attached, Some extension) \<Rightarrow>
             and_then (released Extension extension (wd_extension_lease w)) (\<lambda>obs.
               Ok (Some extension, proof_of obs, ''exact Extension owner lease '' @ show_dec (pi_pid extension) @ '':''
                     @ show_dec (pi_start_time extension) @ '' was released''))
         | _ \<Rightarrow> Err (''platform VPN owner journal has an invalid phase for '' @ attempt))"

text \<open>The state after the barrier is released.\<close>

definition release_barrier ::
    "('b, 'm) config \<Rightarrow> moment \<Rightarrow> str \<Rightarrow> str \<Rightarrow> ('b, 'm) world \<Rightarrow> ('b, 'm) world \<times> (str, bool) result" where
  "release_barrier cf mo attempt reason w =
     (let w = synced cf mo w
      in if in_platform_start_attempt_id w \<noteq> attempt then (w, Ok True)
         else if in_platform_vpn_cleanup_complete w then (w, Ok True)
         else
           let w = w\<lparr>in_platform_vpn_starting := False, in_platform_vpn_running := False\<rparr>;
               w = (if in_platform_start_outcome w \<noteq> OutFailed
                    then set_lifecycle_locked Disconnected None (w\<lparr>in_platform_start_outcome := OutCancelled\<rparr>) else w);
               w = w\<lparr>in_platform_vpn_cleanup_complete := True, in_platform_extension_attached := False,
                     in_platform_stop_requested := True, in_platform_extension_owner_pid := 0,
                     in_platform_extension_owner_start_time := 0, in_platform_watchdog_cleanup_recoverable := False\<rparr>;
               w = push_diag_locked mo ''warn'' (''released orphaned platform VPN cleanup barrier for '' @ attempt
                     @ '' after confirmed OS stop: '' @ reason) w;
               w = drop_leases w
           in bind_in (persist_platform_locked cf mo w) (\<lambda>_ w. (w, Ok True)))"

definition cleanup_done :: "str \<Rightarrow> ('b, 'm) world \<Rightarrow> bool" where
  "cleanup_done attempt w \<longleftrightarrow> in_platform_start_attempt_id w = attempt \<and> in_platform_vpn_cleanup_complete w"

text \<open>
  One turn of the loop; \<open>None\<close> as its answer is another turn. The mutex is free in between: \<open>others k\<close> is what
  other threads and processes do at the \<open>k\<close>-th such place of the turn.
\<close>

definition recovery_turn ::
    "('b, 'm) config \<Rightarrow> (nat \<Rightarrow> moment) \<Rightarrow> (nat \<Rightarrow> ('b, 'm) world \<Rightarrow> ('b, 'm) world) \<Rightarrow> nat \<Rightarrow> str \<Rightarrow> ('b, 'm) world
       \<Rightarrow> ('b, 'm) world \<times> (str, bool option) result" where
  "recovery_turn cf ev others deadline attempt w =
     (let w = synced cf (ev 0) w
      in if cleanup_done attempt w then (w, Ok (Some True))
         else
           let fence = (in_platform_start_attempt_id w = attempt \<and> \<not> in_platform_extension_attached w
                        \<and> in_platform_stop_requested w \<and> terminal (in_platform_start_outcome w));
               home = in_home w; path = platform_owner_journal_path w;
               w = others 0 w
           in try_in w (journal_read (cf_journals cf) path (mo_io (ev 1)) (wd_journal w)) (\<lambda>found.
              case found of
                JMissing \<Rightarrow>
                  (let w = synced cf (ev 2) (others 1 w)
                   in if cleanup_done attempt w then (w, Ok (Some True))
                      else (w, Err (''platform VPN owner journal disappeared before cleanup was confirmed for '' @ attempt)))
              | JPresent journal \<Rightarrow>
                  if oj_attempt_id journal \<noteq> attempt then (w, Ok (Some False))
                  else
                    let w = others 2 w
                    in try_in w (recovery_proof cf (ev 3) home attempt fence journal w) (\<lambda>(expected, prf, reason).
                       case prf of
                         Proven \<Rightarrow>
                           (let w = others 3 w
                            in bind_in (on_journal (delete_exact (cf_journals cf) path (mo_io (ev 4)) attempt expected) w)
                                 (\<lambda>deleted w.
                                    if \<not> deleted then (w, Ok None)
                                    else bind_in (release_barrier cf (ev 5) attempt reason (others 4 w)) (\<lambda>b w. (w, Ok (Some b)))))
                       | OwnerAlive \<Rightarrow>
                           if mo_instant (ev 6) \<ge> deadline then (w, Ok (Some False)) else (others 5 w, Ok None)
                       | OwnerLivenessUnknown \<Rightarrow>
                           (let identity = (case oj_extension journal of None \<Rightarrow> oj_issuer journal | Some x \<Rightarrow> x)
                            in (w, Err (''cannot verify the exact platform VPN ownership lease for '' @ show_dec (pi_pid identity)
                                        @ '':'' @ show_dec (pi_start_time identity)))))))"

text \<open>The loop with fuel; running out of it is \<open>None\<close>. Turn \<open>i\<close> has its own moments.\<close>

fun recovery_loop ::
    "('b, 'm) config \<Rightarrow> (nat \<Rightarrow> nat \<Rightarrow> moment) \<Rightarrow> (nat \<Rightarrow> nat \<Rightarrow> ('b, 'm) world \<Rightarrow> ('b, 'm) world) \<Rightarrow> nat \<Rightarrow> str \<Rightarrow> nat
       \<Rightarrow> nat \<Rightarrow> ('b, 'm) world \<Rightarrow> ('b, 'm) world \<times> (str, bool option) result" where
  "recovery_loop cf ev others deadline attempt i 0 w = (w, Ok None)"
| "recovery_loop cf ev others deadline attempt i (Suc fuel) w =
     bind_in (recovery_turn cf (ev i) (others i) deadline attempt w) (\<lambda>answer w.
       case answer of
         Some b \<Rightarrow> (w, Ok (Some b))
       | None \<Rightarrow> recovery_loop cf ev others deadline attempt (i + 1) fuel w)"

definition recover_platform_vpn_cleanup_after_confirmed_stop ::
    "('b, 'm) config \<Rightarrow> (nat \<Rightarrow> nat \<Rightarrow> moment) \<Rightarrow> (nat \<Rightarrow> nat \<Rightarrow> ('b, 'm) world \<Rightarrow> ('b, 'm) world) \<Rightarrow> nat \<Rightarrow> nat \<Rightarrow> str
       \<Rightarrow> ('b, 'm) world \<Rightarrow> ('b, 'm) world \<times> (str, bool option) result" where
  "recover_platform_vpn_cleanup_after_confirmed_stop cf ev others start fuel attempt w =
     (if attempt = [] then (w, Ok (Some False))
      else recovery_loop cf ev others (start + platform_os_stop_recovery_deadline) attempt 0 fuel w)"

subsection \<open>Waiting for the end of an attempt\<close>

text \<open>What one turn of the two waiters decides; \<open>None\<close> is to wait on.\<close>

definition stop_verdict :: "str \<Rightarrow> ('b, 'm) world \<Rightarrow> bool option" where
  "stop_verdict attempt w =
     (if in_platform_start_attempt_id w \<noteq> attempt then Some False
      else if \<not> in_platform_vpn_running w \<and> \<not> in_platform_vpn_starting w \<and> in_platform_vpn_cleanup_complete w
              \<and> terminal (in_platform_start_outcome w) then Some True
      else None)"

definition start_verdict ::
    "('b, 'm) config \<Rightarrow> (nat \<Rightarrow> moment) \<Rightarrow> str \<Rightarrow> ('b, 'm) world \<Rightarrow> ('b, 'm) world \<times> (str, start_outcome option) result" where
  "start_verdict cf ev attempt w =
     (let w = synced cf (ev 0) w; event = platform_start_event_locked w;
          finish = (\<lambda>r. bind_in (clear_platform_session_handoff cf (ev 1) attempt w) (\<lambda>_ w. (w, r)))
      in if se_attempt_id event \<noteq> attempt then
           (w, Err (''platform VPN start attempt '' @ attempt @ '' was superseded''))
         else case se_outcome event of
           OutConnected \<Rightarrow> finish (Ok (Some OutConnected))
         | OutFailed \<Rightarrow> finish (Err (case se_error event of None \<Rightarrow> ''VPN extension failed to start'' | Some e \<Rightarrow> e))
         | OutCancelled \<Rightarrow> finish (Err ''VPN extension start was cancelled'')
         | OutIdle \<Rightarrow> finish (Err (''platform VPN start attempt '' @ attempt @ '' is not active''))
         | OutPending \<Rightarrow> (w, Ok None))"

end
