(* ===== verification/Oc_Engine_Parts.thy ===== *)
theory Oc_Engine_Parts
  imports Oc_Platform
begin

text \<open>
  Which parts of the state the engine's building blocks leave alone, and how the handling of a frame splits into
  cases.
\<close>

subsection \<open>Parts of the state\<close>

text \<open>
  The fields fall into four parts: the phase of the attempt, the fence between stop and start, what is
  known of the other process's lane, and what is owned (leases, sessions, payloads, the journal).
  A block that leaves a part alone does so field by field; the derived equations are simplification rules.
\<close>

definition phase_of :: "('b, 'm) world \<Rightarrow> _" where
  "phase_of w = (in_platform_start_attempt_id w, in_platform_start_outcome w, in_platform_vpn_running w,
     in_platform_vpn_starting w, in_platform_vpn_cleanup_complete w, in_platform_extension_attached w,
     in_platform_stop_requested w, in_platform_start_delivery_observed w, in_platform_extension_owner_pid w,
     in_platform_extension_owner_start_time w, in_platform_watchdog_cleanup_recoverable w, in_generation w)"

definition fence_of :: "('b, 'm) world \<Rightarrow> nat \<times> nat \<times> str \<times> bool" where
  "fence_of w = (in_platform_vpn_intent_epoch w, in_platform_os_stop_epoch w, in_platform_os_stop_attempt_id w,
     in_platform_os_stop_in_flight w)"

definition lane_of :: "('b, 'm) world \<Rightarrow> nat \<times> nat option \<times> nat option" where
  "lane_of w = (in_platform_remote_state_updated_at w, in_platform_remote_state_seen_at w, in_platform_remote_stale_since w)"

definition leases_of :: "('b, 'm) world \<Rightarrow> _" where
  "leases_of w = (in_platform_vpn_issuer_lease w, in_platform_vpn_extension_lease w, wd_issuer_lease w, wd_extension_lease w)"

definition owned_of :: "('b, 'm) world \<Rightarrow> _" where
  "owned_of w = (in_home w, in_platform_start_sequence w, in_platform_session_handoff w,
     in_platform_browser_request_sequence w, in_last_platform_browser_request_id w, in_last_vpn_options w,
     in_running_native w, wd_journal w, wd_cancelled w, in_dry_run w, en_auth w)"

definition requests_of :: "('b, 'm) world \<Rightarrow> browser_open_request option \<times> pending_session option" where
  "requests_of w = (in_platform_browser_request w, in_pending_native w)"

lemmas parts_def = phase_of_def fence_of_def lane_of_def leases_of_def owned_of_def requests_of_def

lemma push_diag_parts:
  "phase_of (push_diag_locked mo l m w) = phase_of w" "fence_of (push_diag_locked mo l m w) = fence_of w"
  "lane_of (push_diag_locked mo l m w) = lane_of w" "leases_of (push_diag_locked mo l m w) = leases_of w"
  "owned_of (push_diag_locked mo l m w) = owned_of w" "requests_of (push_diag_locked mo l m w) = requests_of w"
  by (simp_all add: push_diag_locked_def Let_def parts_def)

lemmas push_diag_fields [simp] = push_diag_parts [unfolded parts_def prod.inject]

lemma set_lifecycle_parts:
  "phase_of (set_lifecycle_locked l e w) = phase_of w" "fence_of (set_lifecycle_locked l e w) = fence_of w"
  "lane_of (set_lifecycle_locked l e w) = lane_of w" "leases_of (set_lifecycle_locked l e w) = leases_of w"
  "owned_of (set_lifecycle_locked l e w) = owned_of w" "requests_of (set_lifecycle_locked l e w) = requests_of w"
  by (simp_all add: set_lifecycle_locked_def parts_def)

lemmas set_lifecycle_fields [simp] = set_lifecycle_parts [unfolded parts_def prod.inject]

lemma set_stats_parts:
  "phase_of (set_stats st w) = phase_of w" "fence_of (set_stats st w) = fence_of w"
  "lane_of (set_stats st w) = lane_of w" "leases_of (set_stats st w) = leases_of w"
  "owned_of (set_stats st w) = owned_of w" "requests_of (set_stats st w) = requests_of w"
  by (simp_all add: set_stats_def parts_def)

lemmas set_stats_fields [simp] = set_stats_parts [unfolded parts_def prod.inject]

lemma notify_parts:
  "phase_of (notify_platform_start_locked w) = phase_of w" "fence_of (notify_platform_start_locked w) = fence_of w"
  "lane_of (notify_platform_start_locked w) = lane_of w" "leases_of (notify_platform_start_locked w) = leases_of w"
  "owned_of (notify_platform_start_locked w) = owned_of w" "requests_of (notify_platform_start_locked w) = requests_of w"
  by (simp_all add: notify_platform_start_locked_def Let_def parts_def)

lemmas notify_fields [simp] = notify_parts [unfolded parts_def prod.inject]

lemma channel_parts:
  "phase_of (w\<lparr>en_ipc := i, wd_memory := m\<rparr>) = phase_of w" "phase_of (w\<lparr>in_platform_local_state_updated_at := u\<rparr>) = phase_of w"
  "fence_of (w\<lparr>en_ipc := i, wd_memory := m\<rparr>) = fence_of w" "fence_of (w\<lparr>in_platform_local_state_updated_at := u\<rparr>) = fence_of w"
  "lane_of (w\<lparr>en_ipc := i, wd_memory := m\<rparr>) = lane_of w" "lane_of (w\<lparr>in_platform_local_state_updated_at := u\<rparr>) = lane_of w"
  "leases_of (w\<lparr>en_ipc := i, wd_memory := m\<rparr>) = leases_of w" "leases_of (w\<lparr>in_platform_local_state_updated_at := u\<rparr>) = leases_of w"
  "owned_of (w\<lparr>en_ipc := i, wd_memory := m\<rparr>) = owned_of w" "owned_of (w\<lparr>in_platform_local_state_updated_at := u\<rparr>) = owned_of w"
  "requests_of (w\<lparr>en_ipc := i, wd_memory := m\<rparr>) = requests_of w" "requests_of (w\<lparr>in_platform_local_state_updated_at := u\<rparr>) = requests_of w"
  by (simp_all add: parts_def)

text \<open>Publishing revises the time stamp, notifies the waiters and writes the lane.\<close>

definition revised :: "moment \<Rightarrow> ('b, 'm) world \<Rightarrow> ('b, 'm) world" where
  "revised mo w = w\<lparr>in_platform_local_state_updated_at :=
     max (mo_nanos mo) (min (in_platform_local_state_updated_at w + 1) max_u128)\<rparr>"

lemma persist_cases:
  "en_ipc w = None \<Longrightarrow> persist_platform_locked cf mo w = (notify_platform_start_locked (revised mo w), Ok ())"
  "en_ipc w = Some i \<Longrightarrow> \<exists>i' m' r. persist_platform_locked cf mo w
     = ((notify_platform_start_locked (revised mo w))\<lparr>en_ipc := Some i', wd_memory := m'\<rparr>, platform_ipc_error r)"
  by (simp_all add: persist_platform_locked_def Let_def revised_def split: prod.split) blast

lemma revised_parts:
  "phase_of (revised mo w) = phase_of w" "fence_of (revised mo w) = fence_of w" "lane_of (revised mo w) = lane_of w"
  "leases_of (revised mo w) = leases_of w" "owned_of (revised mo w) = owned_of w" "requests_of (revised mo w) = requests_of w"
  by (simp_all only: revised_def channel_parts)

lemma persist_preserves:
  assumes "\<And>v i m. q (v\<lparr>en_ipc := i, wd_memory := m\<rparr>) = q v" "q (notify_platform_start_locked (revised mo w)) = q w"
  shows "q (fst (persist_platform_locked cf mo w)) = q w"
  using persist_cases [of w] assms by (cases "en_ipc w") (metis fst_conv)+

lemma persist_parts:
  "phase_of (fst (persist_platform_locked cf mo w)) = phase_of w" "fence_of (fst (persist_platform_locked cf mo w)) = fence_of w" "lane_of (fst (persist_platform_locked cf mo w)) = lane_of w"
  "leases_of (fst (persist_platform_locked cf mo w)) = leases_of w" "owned_of (fst (persist_platform_locked cf mo w)) = owned_of w" "requests_of (fst (persist_platform_locked cf mo w)) = requests_of w"
  by (rule persist_preserves; simp only: channel_parts notify_parts revised_parts)+

lemmas persist_fields [simp] = persist_parts [unfolded parts_def prod.inject]

lemma persist_ignored_parts:
  "phase_of (persist_ignored cf mo w) = phase_of w" "fence_of (persist_ignored cf mo w) = fence_of w"
  "lane_of (persist_ignored cf mo w) = lane_of w" "leases_of (persist_ignored cf mo w) = leases_of w"
  "owned_of (persist_ignored cf mo w) = owned_of w" "requests_of (persist_ignored cf mo w) = requests_of w"
  by (simp_all only: persist_ignored_def persist_parts)

lemmas persist_ignored_fields [simp] = persist_ignored_parts [unfolded parts_def prod.inject]

lemma drop_leases_parts:
  "phase_of (drop_leases w) = phase_of w" "fence_of (drop_leases w) = fence_of w"
  "lane_of (drop_leases w) = lane_of w" "owned_of (drop_leases w) = owned_of w"
  "requests_of (drop_leases w) = requests_of w"
  by (simp_all add: drop_leases_def drop_issuer_lease_def drop_extension_lease_def parts_def split: option.split)

lemmas drop_leases_fields [simp] = drop_leases_parts [unfolded parts_def prod.inject]

lemma merge_stats_parts:
  "phase_of (merge_running_stats remote w) = phase_of w" "fence_of (merge_running_stats remote w) = fence_of w"
  "lane_of (merge_running_stats remote w) = lane_of w" "leases_of (merge_running_stats remote w) = leases_of w"
  "owned_of (merge_running_stats remote w) = owned_of w" "requests_of (merge_running_stats remote w) = requests_of w"
  by (simp_all add: merge_running_stats_def Let_def parts_def)

lemmas merge_stats_fields [simp] = merge_stats_parts [unfolded parts_def prod.inject]

lemma connected_at_parts:
  "phase_of (w\<lparr>in_connected_at := c\<rparr>) = phase_of w" "phase_of (w\<lparr>in_platform_diagnostics := d\<rparr>) = phase_of w"
  "fence_of (w\<lparr>in_connected_at := c\<rparr>) = fence_of w" "fence_of (w\<lparr>in_platform_diagnostics := d\<rparr>) = fence_of w"
  "lane_of (w\<lparr>in_connected_at := c\<rparr>) = lane_of w" "lane_of (w\<lparr>in_platform_diagnostics := d\<rparr>) = lane_of w"
  "leases_of (w\<lparr>in_connected_at := c\<rparr>) = leases_of w" "leases_of (w\<lparr>in_platform_diagnostics := d\<rparr>) = leases_of w"
  "owned_of (w\<lparr>in_connected_at := c\<rparr>) = owned_of w" "owned_of (w\<lparr>in_platform_diagnostics := d\<rparr>) = owned_of w"
  "requests_of (w\<lparr>in_connected_at := c\<rparr>) = requests_of w" "requests_of (w\<lparr>in_platform_diagnostics := d\<rparr>) = requests_of w"
  by (simp_all add: parts_def)

lemma take_lifecycle_parts:
  "phase_of (take_lifecycle now remote m wa r st w) = phase_of w" "fence_of (take_lifecycle now remote m wa r st w) = fence_of w"
  "lane_of (take_lifecycle now remote m wa r st w) = lane_of w" "leases_of (take_lifecycle now remote m wa r st w) = leases_of w"
  "owned_of (take_lifecycle now remote m wa r st w) = owned_of w" "requests_of (take_lifecycle now remote m wa r st w) = requests_of w"
  by (simp_all add: take_lifecycle_def Let_def connected_at_parts set_lifecycle_parts merge_stats_parts)

lemmas take_lifecycle_fields [simp] = take_lifecycle_parts [unfolded parts_def prod.inject]

lemma heartbeat_parts:
  "phase_of (fst (heartbeat_watchdog_expired now ui r m a w)) = phase_of w" "fence_of (fst (heartbeat_watchdog_expired now ui r m a w)) = fence_of w"
  "leases_of (fst (heartbeat_watchdog_expired now ui r m a w)) = leases_of w" "owned_of (fst (heartbeat_watchdog_expired now ui r m a w)) = owned_of w"
  "requests_of (fst (heartbeat_watchdog_expired now ui r m a w)) = requests_of w"
  by (simp_all add: heartbeat_watchdog_expired_def Let_def parts_def)

lemmas heartbeat_fields [simp] = heartbeat_parts [unfolded parts_def prod.inject]

lemma note_revision_parts:
  "phase_of (note_revision mo remote w) = phase_of w" "fence_of (note_revision mo remote w) = fence_of w"
  "leases_of (note_revision mo remote w) = leases_of w" "owned_of (note_revision mo remote w) = owned_of w"
  "requests_of (note_revision mo remote w) = requests_of w"
  by (simp_all add: note_revision_def parts_def)

lemmas note_revision_fields [simp] = note_revision_parts [unfolded parts_def prod.inject]

lemma release_client_parts:
  "phase_of (release_client ui remote w) = phase_of w" "fence_of (release_client ui remote w) = fence_of w"
  "lane_of (release_client ui remote w) = lane_of w" "leases_of (release_client ui remote w) = leases_of w"
  "owned_of (release_client ui remote w) = owned_of w"
  by (simp_all add: release_client_def parts_def)

lemmas release_client_fields [simp] = release_client_parts [unfolded parts_def prod.inject]

lemma take_flags_parts:
  "fence_of (take_flags ui remote m w) = fence_of w" "lane_of (take_flags ui remote m w) = lane_of w"
  "leases_of (take_flags ui remote m w) = leases_of w" "owned_of (take_flags ui remote m w) = owned_of w"
  "requests_of (take_flags ui remote m w) = requests_of w"
  by (simp_all add: take_flags_def parts_def)

lemmas take_flags_fields [simp] = take_flags_parts [unfolded parts_def prod.inject]

lemma take_outcome_parts:
  "fence_of (take_outcome remote m w) = fence_of w" "lane_of (take_outcome remote m w) = lane_of w"
  "leases_of (take_outcome remote m w) = leases_of w" "owned_of (take_outcome remote m w) = owned_of w"
  "requests_of (take_outcome remote m w) = requests_of w"
  by (simp_all add: take_outcome_def parts_def)

lemmas take_outcome_fields [simp] = take_outcome_parts [unfolded parts_def prod.inject]

lemma take_attachment_parts:
  "fence_of (take_attachment remote m w) = fence_of w" "lane_of (take_attachment remote m w) = lane_of w"
  "leases_of (take_attachment remote m w) = leases_of w" "owned_of (take_attachment remote m w) = owned_of w"
  "requests_of (take_attachment remote m w) = requests_of w"
  by (simp_all add: take_attachment_def parts_def)

lemmas take_attachment_fields [simp] = take_attachment_parts [unfolded parts_def prod.inject]

lemma drop_finished_parts:
  "phase_of (drop_finished_leases w) = phase_of w" "fence_of (drop_finished_leases w) = fence_of w"
  "lane_of (drop_finished_leases w) = lane_of w" "owned_of (drop_finished_leases w) = owned_of w"
  "requests_of (drop_finished_leases w) = requests_of w"
  by (simp_all add: drop_finished_leases_def drop_leases_parts)

lemmas drop_finished_fields [simp] = drop_finished_parts [unfolded parts_def prod.inject]

lemma take_phase_parts:
  "fence_of (take_phase ui remote m w) = fence_of w" "lane_of (take_phase ui remote m w) = lane_of w"
  "owned_of (take_phase ui remote m w) = owned_of w" "requests_of (take_phase ui remote m w) = requests_of w"
  by (simp_all add: take_phase_def drop_finished_parts take_attachment_parts take_outcome_parts take_flags_parts)

lemmas take_phase_fields [simp] = take_phase_parts [unfolded parts_def prod.inject]

lemma settle_failure_parts:
  "fence_of (settle_failure remote r w) = fence_of w" "lane_of (settle_failure remote r w) = lane_of w"
  "leases_of (settle_failure remote r w) = leases_of w" "owned_of (settle_failure remote r w) = owned_of w"
  "requests_of (settle_failure remote r w) = requests_of w"
  by (simp_all add: settle_failure_def parts_def)

lemmas settle_failure_fields [simp] = settle_failure_parts [unfolded parts_def prod.inject]

lemma fold_frame_parts:
  "fence_of (fold_frame mo ui remote w) = fence_of w" "lane_of (fold_frame mo ui remote w) = lane_of w"
  "owned_of (fold_frame mo ui remote w) = owned_of w" "requests_of (fold_frame mo ui remote w) = requests_of w"
  by (simp_all add: fold_frame_def Let_def connected_at_parts notify_parts take_lifecycle_parts settle_failure_parts take_phase_parts)

lemmas fold_frame_fields [simp] = fold_frame_parts [unfolded parts_def prod.inject]

lemma trip_watchdog_parts:
  "fence_of (trip_watchdog cf mo w) = fence_of w" "leases_of (trip_watchdog cf mo w) = leases_of w"
  "owned_of (trip_watchdog cf mo w) = owned_of w" "requests_of (trip_watchdog cf mo w) = requests_of w"
  by (simp_all add: trip_watchdog_def persist_ignored_parts push_diag_parts set_lifecycle_parts) (simp_all add: parts_def)

lemmas trip_watchdog_fields [simp] = trip_watchdog_parts [unfolded parts_def prod.inject]

lemma apply_frame_cases:
  fixes w remote mo ui
  defines "advanced \<equiv> ps_updated_at remote > in_platform_remote_state_updated_at w"
  defines "beat \<equiv> heartbeat_watchdog_expired (mo_instant mo) ui (ps_running remote) True advanced
    (release_client ui remote (note_revision mo remote w))"
  obtains (tripped) "apply_matching_frame cf mo ui adopted remote w = trip_watchdog cf mo (fst beat)" "snd beat"
  | (old) "apply_matching_frame cf mo ui adopted remote w = fst beat" "\<not> snd beat" "\<not> advanced" "\<not> adopted"
  | (new) "apply_matching_frame cf mo ui adopted remote w = fold_frame mo ui remote (fst beat)" "\<not> snd beat"
      "advanced \<or> adopted"
proof -
  have eq: "apply_matching_frame cf mo ui adopted remote w =
      (if snd beat then trip_watchdog cf mo (fst beat)
       else if \<not> advanced \<and> \<not> adopted then fst beat else fold_frame mo ui remote (fst beat))"
    by (simp add: apply_matching_frame_def Let_def beat_def advanced_def split: prod.split)
  show thesis
    using tripped old new eq by (cases "snd beat"; cases "advanced \<or> adopted") auto
qed

text \<open>The state the frame is folded into.\<close>

definition beat_state :: "moment \<Rightarrow> bool \<Rightarrow> platform_vpn_state \<Rightarrow> ('b, 'm) world \<Rightarrow> ('b, 'm) world" where
  "beat_state mo ui remote w = fst (heartbeat_watchdog_expired (mo_instant mo) ui (ps_running remote) True
     (ps_updated_at remote > in_platform_remote_state_updated_at w) (release_client ui remote (note_revision mo remote w)))"

end
