(* ===== verification/Oc_Samples.thy ===== *)
theory Oc_Samples
  imports Oc_Engine_Parts Oc_Owner_Laws Oc_Ipc_Laws
begin

text \<open>
  Concrete configurations, moments and worlds on which the laws of the engine are applied: documents are kept
  as they are, the shared memory is a function from offsets to bytes, and every system call succeeds.
\<close>

datatype demo_doc =
    DocEmpty
  | DocJournal stored_journal
  | DocLease stored_lease
  | DocProfiles "connection_profile list"
  | DocPreferences preferences

definition doc_codec :: "('s \<Rightarrow> demo_doc) \<Rightarrow> (demo_doc \<Rightarrow> 's option) \<Rightarrow> (demo_doc, 's) codec" where
  "doc_codec wrap unwrap = \<lparr>encode = (\<lambda>s. Ok (wrap s)),
     decode = (\<lambda>d. case unwrap d of None \<Rightarrow> Err ''invalid type'' | Some s \<Rightarrow> Ok s),
     byte_len = (\<lambda>d. case d of DocEmpty \<Rightarrow> 0 | _ \<Rightarrow> 200), no_bytes = DocEmpty\<rparr>"

definition demo_config :: "(demo_doc, nat \<Rightarrow> byte) config" where
  "demo_config = \<lparr>cf_ashmem = flat_ashmem, cf_envelopes = demo_envelope_codec,
     cf_journals = doc_codec DocJournal (\<lambda>d. case d of DocJournal j \<Rightarrow> Some j | _ \<Rightarrow> None),
     cf_leases = doc_codec DocLease (\<lambda>d. case d of DocLease l \<Rightarrow> Some l | _ \<Rightarrow> None), cf_torn = DocEmpty,
     cf_profiles = doc_codec DocProfiles (\<lambda>d. case d of DocProfiles p \<Rightarrow> Some p | _ \<Rightarrow> None),
     cf_preferences = doc_codec DocPreferences (\<lambda>d. case d of DocPreferences p \<Rightarrow> Some p | _ \<Rightarrow> None),
     cf_app_version = ''1.0.0'', cf_anyconnect_version = ''0.1''\<rparr>"

definition demo_moment :: "nat \<Rightarrow> moment" where
  "demo_moment t = \<lparr>mo_nanos = t, mo_millis = t div 1000000, mo_instant = t, mo_timestamp = show_dec (t div 1000000000),
     mo_io = io_ok, mo_log = \<lparr>li_marker = None, li_build = False, li_takes = False, li_now = t\<rparr>,
     mo_notified = (Ok (), Ok ()), mo_tmp = ''.tmp'', mo_handle = 1, mo_stored = (write_calls_ok, write_calls_ok)\<rparr>"

text \<open>A process just started, with nothing on disk and no shared memory.\<close>

definition fresh_world :: "(demo_doc, nat \<Rightarrow> byte) world" where
  "fresh_world = engine.extend (session_engine_new demo_config auth_new runtime_log_default)
     \<lparr>wd_journal = NoFile, wd_issuer_lease = LeaseMissing, wd_extension_lease = LeaseMissing, wd_memory = (\<lambda>_. 0),
      wd_cancelled = [], wd_documents = \<lparr>dc_connections = None, dc_preferences = None\<rparr>, wd_removed = [], wd_last_error = None\<rparr>"

definition journal_file :: "owner_journal \<Rightarrow> demo_doc slot" where
  "journal_file j = Bytes (DocJournal (to_stored_journal j))"

lemma demo_journals_read_back: "reads_back (cf_journals demo_config)"
  by (simp add: reads_back_def demo_config_def doc_codec_def)

lemma demo_leases_read_back: "reads_back (cf_leases demo_config)"
  by (simp add: reads_back_def demo_config_def doc_codec_def)

text \<open>The fields of the fresh world.\<close>

lemmas fresh_world_simps = fresh_world_def session_engine_new_def engine.defs

end
