(* ===== verification/Oc_Engine_Laws.thy ===== *)
theory Oc_Engine_Laws
  imports Oc_Samples
begin

text \<open>
  The transition a frame of the other process makes, the timing of the heartbeat watchdog, and the way of a
  published state through the shared memory into the other process.
\<close>

subsection \<open>Frames\<close>

lemma take_phase_values:
  "in_platform_start_attempt_id (take_phase ui r True w) = in_platform_start_attempt_id w"
  "in_generation (take_phase ui r True w) = in_generation w"
  "in_platform_start_outcome (take_phase ui r True w) =
     (if terminal (ps_start_outcome r) then ps_start_outcome r
      else if \<not> terminal (in_platform_start_outcome w) \<and> ps_running r \<and> in_platform_start_outcome w = OutPending
      then OutConnected else in_platform_start_outcome w)"
  "in_platform_vpn_running (take_phase ui r True w) =
     (if terminal (ps_start_outcome r) then False
      else if terminal (in_platform_start_outcome w) then in_platform_vpn_running w else ps_running r)"
  "in_platform_vpn_starting (take_phase ui r True w) =
     (if terminal (ps_start_outcome r) then False
      else if terminal (in_platform_start_outcome w) then in_platform_vpn_starting w
      else \<not> ps_running r \<and> ps_starting r)"
  "in_platform_vpn_cleanup_complete (take_phase ui r True w) =
     (if terminal (ps_start_outcome r) then ps_cleanup_complete r
      else if terminal (in_platform_start_outcome w) then in_platform_vpn_cleanup_complete w else False)"
  by (simp_all add: take_phase_def take_attachment_def) (simp_all add: take_outcome_def take_flags_def)

lemma beat_state_parts:
  "phase_of (beat_state mo ui r w) = phase_of w" "fence_of (beat_state mo ui r w) = fence_of w"
  "owned_of (beat_state mo ui r w) = owned_of w" "leases_of (beat_state mo ui r w) = leases_of w"
  by (simp_all only: beat_state_def heartbeat_parts release_client_parts note_revision_parts)

lemmas beat_state_fields [simp] = beat_state_parts [unfolded parts_def prod.inject]

lemma fold_frame_values:
  "in_platform_start_attempt_id (fold_frame mo ui r w) = in_platform_start_attempt_id w"
  "terminal (in_platform_start_outcome w) \<longrightarrow> terminal (in_platform_start_outcome (fold_frame mo ui r w))"
  "in_platform_start_outcome (fold_frame mo ui r w) = OutPending \<longrightarrow> in_platform_start_outcome w = OutPending"
  "in_platform_vpn_running (fold_frame mo ui r w) = in_platform_vpn_running (take_phase ui r True w)"
  "in_platform_vpn_starting (fold_frame mo ui r w) = in_platform_vpn_starting (take_phase ui r True w)"
  "in_platform_vpn_cleanup_complete (fold_frame mo ui r w) = in_platform_vpn_cleanup_complete (take_phase ui r True w)"
  "terminal (ps_start_outcome r) \<longrightarrow> in_platform_start_outcome (fold_frame mo ui r w) = ps_start_outcome r"
  by (auto simp: fold_frame_def Let_def take_phase_values settle_failure_def terminal_def)

text \<open>What a frame of the own attempt may do to its phase.\<close>

definition phase_step :: "platform_vpn_state \<Rightarrow> ('b, 'm) world \<Rightarrow> ('b, 'm) world \<Rightarrow> bool" where
  "phase_step r w w' \<longleftrightarrow> in_platform_start_attempt_id w' = in_platform_start_attempt_id w
     \<and> (terminal (in_platform_start_outcome w) \<longrightarrow> terminal (in_platform_start_outcome w'))
     \<and> (in_platform_start_outcome w' = OutPending \<longrightarrow> in_platform_start_outcome w = OutPending)
     \<and> (terminal (in_platform_start_outcome w) \<longrightarrow>
          (in_platform_vpn_running w' \<longrightarrow> in_platform_vpn_running w) \<and> (in_platform_vpn_starting w' \<longrightarrow> in_platform_vpn_starting w))
     \<and> (in_platform_vpn_cleanup_complete w' \<longrightarrow> in_platform_vpn_cleanup_complete w
          \<or> terminal (ps_start_outcome r) \<and> ps_cleanup_complete r \<and> in_platform_start_outcome w' = ps_start_outcome r
            \<and> \<not> in_platform_vpn_running w' \<and> \<not> in_platform_vpn_starting w')"

lemma trip_watchdog_values:
  "in_platform_start_attempt_id (trip_watchdog cf mo w) = in_platform_start_attempt_id w"
  "in_platform_start_outcome (trip_watchdog cf mo w) = OutFailed"
  "in_platform_vpn_running (trip_watchdog cf mo w) = False" "in_platform_vpn_starting (trip_watchdog cf mo w) = False"
  "in_platform_vpn_cleanup_complete (trip_watchdog cf mo w) = in_platform_vpn_cleanup_complete w"
  by (simp_all add: trip_watchdog_def)

lemma phase_step_fold: "phase_step r w (fold_frame mo ui r w)"
  using fold_frame_values [where mo = mo and ui = ui and r = r and w = w]
  by (simp add: phase_step_def take_phase_values)

lemma phase_step_from:
  "phase_of v = phase_of w \<Longrightarrow> phase_step r v v' \<Longrightarrow> phase_step r w v'"
  by (simp add: phase_step_def phase_of_def)

lemma frame_outcomes:
  "apply_matching_frame cf mo ui adopted r w = trip_watchdog cf mo (beat_state mo ui r w)
   \<or> apply_matching_frame cf mo ui adopted r w = beat_state mo ui r w
   \<or> apply_matching_frame cf mo ui adopted r w = fold_frame mo ui r (beat_state mo ui r w)"
  unfolding beat_state_def by (rule apply_frame_cases) (assumption | rule disjI1 disjI2)+

lemma phase_step_matching:
  "phase_step r w (apply_matching_frame cf mo ui adopted r w)"
proof -
  let ?v = "beat_state mo ui r w"
  have v: "phase_of ?v = phase_of w" by (rule beat_state_parts)
  have "phase_step r ?v (trip_watchdog cf mo ?v)" "phase_step r ?v ?v" "phase_step r ?v (fold_frame mo ui r ?v)"
    by (simp add: phase_step_def trip_watchdog_values terminal_def, simp add: phase_step_def, rule phase_step_fold)
  then have "phase_step r w (trip_watchdog cf mo ?v)" "phase_step r w ?v" "phase_step r w (fold_frame mo ui r ?v)"
    by (blast intro: phase_step_from [OF v])+
  then show ?thesis using frame_outcomes [of cf mo ui adopted r w] by metis
qed

lemma matching_frame_parts:
  "fence_of (apply_matching_frame cf mo ui adopted r w) = fence_of w"
  "owned_of (apply_matching_frame cf mo ui adopted r w) = owned_of w"
  using frame_outcomes [of cf mo ui adopted r w] trip_watchdog_parts fold_frame_parts beat_state_parts by metis+

lemmas matching_frame_fields [simp] = matching_frame_parts [unfolded parts_def prod.inject]

lemma adopt_parts:
  "fence_of (adopt_attempt r w) = fence_of w" "owned_of (adopt_attempt r w) = owned_of w"
  "leases_of (adopt_attempt r w) = leases_of w" "lane_of (adopt_attempt r w) = lane_of w"
  by (simp_all add: adopt_attempt_def Let_def parts_def)

lemmas adopt_fields [simp] = adopt_parts [unfolded parts_def prod.inject]

lemma adopt_values:
  "in_platform_start_attempt_id (adopt_attempt r w) = ps_start_attempt_id r"
  "in_platform_start_outcome (adopt_attempt r w) = ps_start_outcome r"
  "in_platform_vpn_cleanup_complete (adopt_attempt r w) = ps_cleanup_complete r"
  by (simp_all add: adopt_attempt_def Let_def)

lemma acknowledge_parts:
  assumes "acknowledge_platform_browser_request_locked a w = (v, b)"
  shows "phase_of v = phase_of w" "fence_of v = fence_of w" "lane_of v = lane_of w" "leases_of v = leases_of w"
    "owned_of v = owned_of w" "in_snapshot v = in_snapshot w" "en_ipc v = en_ipc w" "wd_memory v = wd_memory w"
  using assms by (auto simp: acknowledge_platform_browser_request_locked_def parts_def split: if_splits)

text \<open>The three ways a frame is handled.\<close>

lemma envelope_cases:
  assumes "apply_platform_envelope_locked cf mo ui expected env w = (w', ack)"
  obtains v where "phase_of v = phase_of w" "fence_of v = fence_of w" "lane_of v = lane_of w" "leases_of v = leases_of w"
      "owned_of v = owned_of w"
      "(v, ack) = (if ui then (w, False) else acknowledge_platform_browser_request_locked (pe_browser_request_ack env) w)"
      "w' = v \<and> (\<forall>r. pe_state env = Some r \<longrightarrow> ps_start_attempt_id r \<noteq> in_platform_start_attempt_id w
           \<and> (ui \<or> expected \<noteq> Some (ps_start_attempt_id r)) \<or> ps_start_attempt_id r = [])
       \<or> (\<exists>r. pe_state env = Some r \<and> ps_start_attempt_id r = in_platform_start_attempt_id w \<and> ps_start_attempt_id r \<noteq> []
            \<and> w' = apply_matching_frame cf mo ui False r v)
       \<or> (\<exists>r. pe_state env = Some r \<and> \<not> ui \<and> expected = Some (ps_start_attempt_id r) \<and> ps_start_attempt_id r \<noteq> []
            \<and> ps_start_attempt_id r \<noteq> in_platform_start_attempt_id w
            \<and> w' = apply_matching_frame cf mo ui True r (adopt_attempt r v))"
proof -
  obtain v b where vb: "(if ui then (w, False) else acknowledge_platform_browser_request_locked (pe_browser_request_ack env) w) = (v, b)"
    by (metis prod.exhaust)
  have parts: "phase_of v = phase_of w" "fence_of v = fence_of w" "lane_of v = lane_of w" "leases_of v = leases_of w"
    "owned_of v = owned_of w"
    using acknowledge_parts [of "pe_browser_request_ack env" w v b] vb by (cases ui; simp only: if_True if_False prod.inject)+
  have id: "in_platform_start_attempt_id v = in_platform_start_attempt_id w" using parts(1) by (simp add: phase_of_def)
  show thesis
  proof (cases "pe_state env")
    case None
    have "w' = v" "ack = b" using assms by (simp_all add: apply_platform_envelope_locked_def vb None)
    then show thesis using that [OF parts] vb None by simp
  next
    case (Some r)
    define matches where "matches \<longleftrightarrow> ps_start_attempt_id r \<noteq> [] \<and> ps_start_attempt_id r = in_platform_start_attempt_id w"
    define adopted where "adopted \<longleftrightarrow> \<not> ui \<and> \<not> matches \<and> expected = Some (ps_start_attempt_id r) \<and> ps_start_attempt_id r \<noteq> []"
    have eq: "(w', ack) = (if \<not> matches \<and> \<not> adopted then (v, b)
        else (apply_matching_frame cf mo ui adopted r (if adopted then adopt_attempt r v else v), b))"
      using assms by (simp only: apply_platform_envelope_locked_def vb Some Let_def id matches_def [symmetric]
          prod.case option.case adopted_def [symmetric])
    show thesis
      using eq that [OF parts] vb
      by (cases adopted; cases matches) (simp_all add: Some, simp_all add: adopted_def matches_def, auto)
  qed
qed



subsection \<open>The heartbeat watchdog\<close>

text \<open>The UI reads a sequence of frames, each at its moment.\<close>

fun read_frames ::
    "('b, 'm) config \<Rightarrow> (moment \<times> platform_envelope) list \<Rightarrow> ('b, 'm) world \<Rightarrow> ('b, 'm) world" where
  "read_frames cf [] w = w"
| "read_frames cf ((mo, env) # fs) w = read_frames cf fs (fst (apply_platform_envelope_locked cf mo True None env w))"

text \<open>A frame of the own attempt that still says running but carries no newer revision.\<close>

definition frozen_frame :: "str \<Rightarrow> nat \<Rightarrow> platform_envelope \<Rightarrow> bool" where
  "frozen_frame attempt revision env \<longleftrightarrow>
     (case pe_state env of None \<Rightarrow> False
      | Some r \<Rightarrow> ps_start_attempt_id r = attempt \<and> attempt \<noteq> [] \<and> ps_running r \<and> ps_updated_at r \<le> revision)"

lemma frozen_frame_read:
  fixes cf :: "('b, 'm) config" and w :: "('b, 'm) world" and mo env
  assumes "frozen_frame (in_platform_start_attempt_id w) (in_platform_remote_state_updated_at w) env"
    and seen: "in_platform_remote_state_seen_at w = Some s"
  defines "w' \<equiv> fst (apply_platform_envelope_locked cf mo True None env w)"
    and "since \<equiv> (case in_platform_remote_stale_since w of None \<Rightarrow> mo_instant mo | Some t \<Rightarrow> t)"
  shows "\<not> in_platform_vpn_running w \<or> mo_instant mo - s < platform_heartbeat_stale_after \<Longrightarrow>
           phase_of w' = phase_of w \<and> lane_of w' = lane_of w"
    and "in_platform_vpn_running w \<Longrightarrow> mo_instant mo - s \<ge> platform_heartbeat_stale_after \<Longrightarrow>
           mo_instant mo - since < platform_heartbeat_wake_grace \<Longrightarrow>
           phase_of w' = phase_of w \<and> lane_of w' = (in_platform_remote_state_updated_at w, Some s, Some since)"
    and "in_platform_vpn_running w \<Longrightarrow> mo_instant mo - s \<ge> platform_heartbeat_stale_after \<Longrightarrow>
           mo_instant mo - since \<ge> platform_heartbeat_wake_grace \<Longrightarrow>
           in_platform_start_outcome w' = OutFailed \<and> \<not> in_platform_vpn_running w'
           \<and> in_platform_start_attempt_id w' = in_platform_start_attempt_id w
           \<and> in_platform_remote_state_updated_at w' = in_platform_remote_state_updated_at w
           \<and> in_platform_remote_state_seen_at w' = Some s"
proof -
  obtain r where r: "pe_state env = Some r" "ps_start_attempt_id r = in_platform_start_attempt_id w"
      "in_platform_start_attempt_id w \<noteq> []" "ps_running r" "ps_updated_at r \<le> in_platform_remote_state_updated_at w"
    using assms(1) by (auto simp: frozen_frame_def split: option.splits)
  let ?v = "release_client True r w"
  have w': "w' = apply_matching_frame cf mo True False r w"
    using r by (simp add: w'_def apply_platform_envelope_locked_def)
  have revision: "note_revision mo r w = w" using r(5) by (simp add: note_revision_def)
  have v: "phase_of ?v = phase_of w" "lane_of ?v = lane_of w" by (rule release_client_parts)+
  have fields: "in_platform_vpn_running ?v = in_platform_vpn_running w"
    "in_platform_remote_state_seen_at ?v = Some s" "in_platform_remote_stale_since ?v = in_platform_remote_stale_since w"
    by (simp_all add: seen)
  have beat: "heartbeat_watchdog_expired (mo_instant mo) True True True False ?v =
      (if in_platform_vpn_running w \<and> mo_instant mo - s \<ge> platform_heartbeat_stale_after
       then (?v\<lparr>in_platform_remote_stale_since := Some since\<rparr>, mo_instant mo - since \<ge> platform_heartbeat_wake_grace)
       else (?v, False))"
    by (simp add: heartbeat_watchdog_expired_def Let_def seen since_def)
  have w'_eq: "w' = (if in_platform_vpn_running w \<and> mo_instant mo - s \<ge> platform_heartbeat_stale_after
       then if mo_instant mo - since \<ge> platform_heartbeat_wake_grace
            then trip_watchdog cf mo (?v\<lparr>in_platform_remote_stale_since := Some since\<rparr>)
            else ?v\<lparr>in_platform_remote_stale_since := Some since\<rparr>
       else ?v)"
    using r(5) by (simp add: w' apply_matching_frame_def Let_def revision r(4) beat)
  show "\<not> in_platform_vpn_running w \<or> mo_instant mo - s < platform_heartbeat_stale_after \<Longrightarrow>
      phase_of w' = phase_of w \<and> lane_of w' = lane_of w"
    using v by (auto simp: w'_eq)
  show "in_platform_vpn_running w \<Longrightarrow> mo_instant mo - s \<ge> platform_heartbeat_stale_after \<Longrightarrow>
      mo_instant mo - since < platform_heartbeat_wake_grace \<Longrightarrow>
      phase_of w' = phase_of w \<and> lane_of w' = (in_platform_remote_state_updated_at w, Some s, Some since)"
    using v by (simp add: w'_eq phase_of_def lane_of_def seen)
  show "in_platform_vpn_running w \<Longrightarrow> mo_instant mo - s \<ge> platform_heartbeat_stale_after \<Longrightarrow>
      mo_instant mo - since \<ge> platform_heartbeat_wake_grace \<Longrightarrow>
      in_platform_start_outcome w' = OutFailed \<and> \<not> in_platform_vpn_running w'
      \<and> in_platform_start_attempt_id w' = in_platform_start_attempt_id w
      \<and> in_platform_remote_state_updated_at w' = in_platform_remote_state_updated_at w
      \<and> in_platform_remote_state_seen_at w' = Some s"
    using v by (simp add: w'_eq trip_watchdog_values) (simp add: trip_watchdog_def seen)
qed

text \<open>Once tripped, frozen frames change nothing more; while stale since \<open>t0\<close>, the first read after the grace trips.\<close>

lemma frozen_after_trip:
  assumes "\<forall>f \<in> set fs. frozen_frame (in_platform_start_attempt_id w) (in_platform_remote_state_updated_at w) (snd f)"
    and "\<not> in_platform_vpn_running w" "in_platform_remote_state_seen_at w = Some s"
  shows "phase_of (read_frames cf fs w) = phase_of w"
  using assms
proof (induction fs arbitrary: w)
  case (Cons f fs)
  obtain mo env where f: "f = (mo, env)" by (cases f)
  let ?w = "fst (apply_platform_envelope_locked cf mo True None env w)"
  have fr: "frozen_frame (in_platform_start_attempt_id w) (in_platform_remote_state_updated_at w) env"
    using Cons.prems(1) f by simp
  have same: "phase_of ?w = phase_of w" "lane_of ?w = lane_of w"
    using frozen_frame_read(1) [OF fr Cons.prems(3)] Cons.prems(2) by blast+
  have "phase_of (read_frames cf fs ?w) = phase_of ?w"
    by (rule Cons.IH) (use same Cons.prems in \<open>simp_all add: phase_of_def lane_of_def\<close>)
  then show ?case by (simp add: f same(1))
qed simp

definition tripped :: "('b, 'm) world \<Rightarrow> bool" where
  "tripped w \<longleftrightarrow> in_platform_start_outcome w = OutFailed \<and> \<not> in_platform_vpn_running w"

lemma tripped_phase: "phase_of v = phase_of w \<Longrightarrow> tripped v = tripped w"
  by (simp add: tripped_def phase_of_def)

lemma stale_reads:
  assumes "\<forall>f \<in> set fs. frozen_frame (in_platform_start_attempt_id w) (in_platform_remote_state_updated_at w) (snd f)"
    and "in_platform_vpn_running w" "in_platform_remote_state_seen_at w = Some s"
    and "in_platform_remote_stale_since w = Some t0" "t0 - s \<ge> platform_heartbeat_stale_after"
    and "\<forall>f \<in> set fs. t0 \<le> mo_instant (fst f)"
  shows "(tripped (read_frames cf fs w) \<longleftrightarrow> (\<exists>f \<in> set fs. mo_instant (fst f) - t0 \<ge> platform_heartbeat_wake_grace))
    \<and> (tripped (read_frames cf fs w) \<or> phase_of (read_frames cf fs w) = phase_of w)"
  using assms
proof (induction fs arbitrary: w)
  case Nil
  then show ?case by (simp add: tripped_def)
next
  case (Cons f fs)
  obtain mo env where f: "f = (mo, env)" by (cases f)
  let ?w = "fst (apply_platform_envelope_locked cf mo True None env w)"
  have fr: "frozen_frame (in_platform_start_attempt_id w) (in_platform_remote_state_updated_at w) env"
    using Cons.prems(1) f by simp
  have t: "mo_instant mo - s \<ge> platform_heartbeat_stale_after" using Cons.prems(5,6) f by auto
  show ?case
  proof (cases "mo_instant mo - t0 \<ge> platform_heartbeat_wake_grace")
    case True
    have w: "in_platform_start_outcome ?w = OutFailed" "\<not> in_platform_vpn_running ?w"
      "in_platform_start_attempt_id ?w = in_platform_start_attempt_id w"
      "in_platform_remote_state_updated_at ?w = in_platform_remote_state_updated_at w"
      "in_platform_remote_state_seen_at ?w = Some s"
      using frozen_frame_read(3) [OF fr Cons.prems(3,2) t] True Cons.prems(4) by auto
    have "phase_of (read_frames cf fs ?w) = phase_of ?w"
      by (rule frozen_after_trip [where s = s]) (use w Cons.prems(1) in simp_all)
    with tripped_phase [OF this] w(1,2) show ?thesis by (auto simp: f True tripped_def)
  next
    case False
    have same: "phase_of ?w = phase_of w" "lane_of ?w = (in_platform_remote_state_updated_at w, Some s, Some t0)"
      using frozen_frame_read(2) [OF fr Cons.prems(3,2) t] False Cons.prems(4) by auto
    have "(tripped (read_frames cf fs ?w) \<longleftrightarrow> (\<exists>f \<in> set fs. mo_instant (fst f) - t0 \<ge> platform_heartbeat_wake_grace))
        \<and> (tripped (read_frames cf fs ?w) \<or> phase_of (read_frames cf fs ?w) = phase_of ?w)"
      by (rule Cons.IH) (use same Cons.prems in \<open>simp_all add: phase_of_def lane_of_def\<close>)
    then show ?thesis using False same(1) by (auto simp: f)
  qed
qed

text \<open>C11: The heartbeat watchdog fires exactly after a silence of its two intervals. While the UI keeps reading frames of
  the running attempt that carry no newer revision, it declares the attempt failed if and only if one read comes
  at least 15 seconds after the last fresh frame and a later one at least 6 seconds after that; until then
  nothing of the attempt's phase changes.\<close>

theorem watchdog_timing:
  assumes frozen: "\<forall>f \<in> set fs. frozen_frame (in_platform_start_attempt_id w) (in_platform_remote_state_updated_at w) (snd f)"
    and order: "sorted (map (\<lambda>f. mo_instant (fst f)) fs)"
    and running: "in_platform_vpn_running w" and seen: "in_platform_remote_state_seen_at w = Some s"
    and fresh: "in_platform_remote_stale_since w = None"
  shows "(in_platform_start_outcome (read_frames cf fs w) = OutFailed \<and> \<not> in_platform_vpn_running (read_frames cf fs w)
      \<longleftrightarrow> (\<exists>f \<in> set fs. \<exists>g \<in> set fs. mo_instant (fst f) - s \<ge> 15000000000 \<and> mo_instant (fst g) - mo_instant (fst f) \<ge> 6000000000))
    \<and> (in_platform_vpn_running (read_frames cf fs w) \<longrightarrow> phase_of (read_frames cf fs w) = phase_of w)"
  (is "?P fs w \<and> ?Q fs w")
proof -
  have "(tripped (read_frames cf fs w) \<longleftrightarrow> (\<exists>f \<in> set fs. \<exists>g \<in> set fs. mo_instant (fst f) - s \<ge> platform_heartbeat_stale_after
        \<and> mo_instant (fst g) - mo_instant (fst f) \<ge> platform_heartbeat_wake_grace))
    \<and> (tripped (read_frames cf fs w) \<or> phase_of (read_frames cf fs w) = phase_of w)"
    using assms
  proof (induction fs arbitrary: w)
    case Nil
    then show ?case by (simp add: tripped_def)
  next
    case (Cons f fs)
    obtain mo env where f: "f = (mo, env)" by (cases f)
    let ?w = "fst (apply_platform_envelope_locked cf mo True None env w)"
    have fr: "frozen_frame (in_platform_start_attempt_id w) (in_platform_remote_state_updated_at w) env"
      using Cons.prems(1) f by simp
    have later: "\<forall>g \<in> set fs. mo_instant mo \<le> mo_instant (fst g)" using Cons.prems(2) by (auto simp: f)
    show ?case
    proof (cases "mo_instant mo - s < platform_heartbeat_stale_after")
      case True
      then have same: "phase_of ?w = phase_of w" "lane_of ?w = lane_of w"
        using frozen_frame_read(1) [OF fr Cons.prems(4)] by blast+
      have "(tripped (read_frames cf fs ?w) \<longleftrightarrow> (\<exists>f \<in> set fs. \<exists>g \<in> set fs. mo_instant (fst f) - s \<ge> platform_heartbeat_stale_after
            \<and> mo_instant (fst g) - mo_instant (fst f) \<ge> platform_heartbeat_wake_grace))
          \<and> (tripped (read_frames cf fs ?w) \<or> phase_of (read_frames cf fs ?w) = phase_of ?w)"
        by (rule Cons.IH) (use same Cons.prems in \<open>simp_all add: phase_of_def lane_of_def\<close>)
      moreover have "(\<exists>f \<in> set ((mo, env) # fs). \<exists>g \<in> set ((mo, env) # fs). mo_instant (fst f) - s \<ge> platform_heartbeat_stale_after
            \<and> mo_instant (fst g) - mo_instant (fst f) \<ge> platform_heartbeat_wake_grace) \<longleftrightarrow>
          (\<exists>f \<in> set fs. \<exists>g \<in> set fs. mo_instant (fst f) - s \<ge> platform_heartbeat_stale_after
            \<and> mo_instant (fst g) - mo_instant (fst f) \<ge> platform_heartbeat_wake_grace)"
      proof -
        have "mo_instant mo - mo_instant (fst f') < platform_heartbeat_wake_grace" if "f' \<in> set fs" for f'
          using later that by (simp add: platform_heartbeat_wake_grace_def)
        with True show ?thesis by (force simp: not_less [symmetric])
      qed
      ultimately show ?thesis unfolding f read_frames.simps fst_conv using same(1) by simp blast
    next
      case False
      have same: "phase_of ?w = phase_of w"
          "lane_of ?w = (in_platform_remote_state_updated_at w, Some s, Some (mo_instant mo))"
        using frozen_frame_read(2) [OF fr Cons.prems(4,3), of mo cf] False Cons.prems(5)
        by (simp_all add: platform_heartbeat_wake_grace_def)
      have rest: "(tripped (read_frames cf fs ?w) \<longleftrightarrow> (\<exists>f \<in> set fs. mo_instant (fst f) - mo_instant mo \<ge> platform_heartbeat_wake_grace))
          \<and> (tripped (read_frames cf fs ?w) \<or> phase_of (read_frames cf fs ?w) = phase_of ?w)"
        by (rule stale_reads) (use same Cons.prems False later in \<open>simp_all add: phase_of_def lane_of_def not_less\<close>)
      have "(\<exists>g \<in> set fs. mo_instant (fst g) - mo_instant mo \<ge> platform_heartbeat_wake_grace) \<longleftrightarrow>
          (\<exists>f \<in> set ((mo, env) # fs). \<exists>g \<in> set ((mo, env) # fs). mo_instant (fst f) - s \<ge> platform_heartbeat_stale_after
            \<and> mo_instant (fst g) - mo_instant (fst f) \<ge> platform_heartbeat_wake_grace)" (is "?L \<longleftrightarrow> ?R")
      proof
        assume ?L
        then show ?R using False by (auto simp: not_less)
      next
        assume ?R
        then obtain f' g where fg: "f' \<in> set ((mo, env) # fs)" "g \<in> set ((mo, env) # fs)"
            "mo_instant (fst g) - mo_instant (fst f') \<ge> platform_heartbeat_wake_grace" by blast
        then have "mo_instant mo \<le> mo_instant (fst f')" using later by auto
        with fg(3) have "mo_instant (fst g) - mo_instant mo \<ge> platform_heartbeat_wake_grace" by linarith
        moreover from this have "g \<in> set fs" using fg(2) by (auto simp: platform_heartbeat_wake_grace_def)
        ultimately show ?L by blast
      qed
      then have "tripped (read_frames cf fs ?w) \<longleftrightarrow>
          (\<exists>f \<in> set ((mo, env) # fs). \<exists>g \<in> set ((mo, env) # fs). mo_instant (fst f) - s \<ge> platform_heartbeat_stale_after
            \<and> mo_instant (fst g) - mo_instant (fst f) \<ge> platform_heartbeat_wake_grace)"
        by (rule rest [THEN conjunct1, THEN trans])
      moreover have "tripped (read_frames cf fs ?w) \<or> phase_of (read_frames cf fs ?w) = phase_of w"
        by (rule rest [THEN conjunct2, unfolded same(1)])
      ultimately show ?thesis unfolding f read_frames.simps by (rule conjI)
    qed
  qed
  note both = this [unfolded platform_heartbeat_stale_after_def platform_heartbeat_wake_grace_def]
  show ?thesis
  proof (intro conjI impI)
    show "?P fs w" using both [THEN conjunct1] by (simp only: tripped_def)
    show "phase_of (read_frames cf fs w) = phase_of w" if "in_platform_vpn_running (read_frames cf fs w)"
      using both [THEN conjunct2] that by (simp only: tripped_def) simp
  qed
qed

definition silent_frame :: "nat \<Rightarrow> moment \<times> platform_envelope" where
  "silent_frame t = (demo_moment t, platform_envelope_default\<lparr>pe_state := Some (platform_vpn_state_default\<lparr>
     ps_start_attempt_id := ''a1'', ps_running := True, ps_updated_at := 5\<rparr>)\<rparr>)"

definition watching_world :: "(demo_doc, nat \<Rightarrow> byte) world" where
  "watching_world = fresh_world\<lparr>in_platform_start_attempt_id := ''a1'', in_platform_start_outcome := OutConnected,
     in_platform_vpn_running := True, in_platform_remote_state_updated_at := 5,
     in_platform_remote_state_seen_at := Some 1000000000\<rparr>"

lemma watchdog_timing_witness:
  "in_platform_vpn_running watching_world
   \<and> in_platform_start_outcome (read_frames demo_config [silent_frame 17000000000, silent_frame 24000000000] watching_world)
     = OutFailed"
proof -
  have w: "in_platform_vpn_running watching_world" "in_platform_remote_state_seen_at watching_world = Some 1000000000"
    "in_platform_remote_stale_since watching_world = None"
    by (simp_all add: watching_world_def fresh_world_simps)
  have f: "\<forall>f \<in> set [silent_frame 17000000000, silent_frame 24000000000].
      frozen_frame (in_platform_start_attempt_id watching_world) (in_platform_remote_state_updated_at watching_world) (snd f)"
    by (simp add: silent_frame_def frozen_frame_def watching_world_def platform_envelope_default_def platform_vpn_state_default_def)
  have srt: "sorted (map (\<lambda>f. mo_instant (fst f)) [silent_frame 17000000000, silent_frame 24000000000])"
    by (simp add: silent_frame_def demo_moment_def)
  from watchdog_timing [OF f srt w, of demo_config] w(1) show ?thesis
    by (simp add: silent_frame_def demo_moment_def)
qed

subsection \<open>Publication\<close>

definition lane_older :: "(nat \<Rightarrow> byte) \<Rightarrow> platform_role \<Rightarrow> nat \<Rightarrow> bool" where
  "lane_older v role g \<longleftrightarrow> (\<forall>k < 2. older_than g (lane_slot v role k))"

lemma publish_found:
  assumes am: "mapped_memory am view" and p: "publish am c notified env (i, m) = ((i', m'), Ok ())"
    and g: "ipc_next_generation i + 1 < 2 ^ 64" and old: "lane_older (view m) (ipc_role i) (ipc_next_generation i)"
  obtains b where "encode c env = Ok b" "latest_frame am (ipc_role i) (\<lambda>_. m') = Ok (Some (ipc_next_generation i, b))"
    "i' = i\<lparr>ipc_next_generation := ipc_next_generation i + 1\<rparr>"
    "lane_older (view m') (ipc_role i) (ipc_next_generation i + 1)"
proof -
  let ?g = "ipc_next_generation i" and ?role = "ipc_role i"
  obtain b where b: "encode c env = Ok b" "write_frame am ?role ?g b m = (m', Ok ())"
      "i' = i\<lparr>ipc_next_generation := (?g + 1) mod (u64_max + 1)\<rparr>"
    using p by (rule publish_Ok)
  have g': "?g < 2 ^ 64" using g by simp
  have slot: "lane_slot (view m') ?role (?g mod 2) = Some (?g, b)" by (rule write_frame_slot [OF am b(2) g'])
  have other: "older_than ?g (lane_slot (view m') ?role k)" if "k < 2" "k \<noteq> ?g mod 2" for k
    using write_frame_other_slot [OF am b(2) that(1), of ?role] that old by (auto simp: lane_older_def)
  have "latest_frame am ?role (\<lambda>_. m') = Ok (Some (?g, b))"
    unfolding latest_frame_slots [OF am] using newer_written [OF slot other] by simp
  moreover have "lane_older (view m') ?role (?g + 1)"
    unfolding lane_older_def
  proof (intro allI impI)
    fix k :: nat assume k: "k < 2"
    show "older_than (?g + 1) (lane_slot (view m') ?role k)"
      using slot other [OF k] by (cases "k = ?g mod 2") (auto simp: older_than_def split: option.splits)
  qed
  moreover have "i' = i\<lparr>ipc_next_generation := ?g + 1\<rparr>" using b(3) g by (simp add: u64_max_def)
  ultimately show thesis using b(1) by (intro that)
qed

lemma publish_snapshot_found:
  assumes am: "mapped_memory am view"
    and p: "publish_snapshot am c n1 n2 st handoff browser ack (i, m) = ((i', m'), Ok ())"
    and g: "ipc_next_generation i + 2 < 2 ^ 64" and old: "lane_older (view m) (ipc_role i) (ipc_next_generation i)"
  obtains b g' where "encode c \<lparr>pe_state = Some st, pe_session_handoff = handoff, pe_browser_request = browser,
        pe_browser_request_ack = ack\<rparr> = Ok b"
    "latest_frame am (ipc_role i) (\<lambda>_. m') = Ok (Some (g', b))" "ipc_role i' = ipc_role i"
    "lane_older (view m') (ipc_role i) (ipc_next_generation i')"
proof -
  let ?env = "\<lparr>pe_state = Some st, pe_session_handoff = handoff, pe_browser_request = browser, pe_browser_request_ack = ack\<rparr>"
  let ?i = "i\<lparr>ipc_published := ?env\<rparr>"
  let ?scrub = "pe_session_handoff (ipc_published i) \<noteq> None \<and> handoff = None
      \<or> pe_browser_request (ipc_published i) \<noteq> None \<and> browser = None"
  have p': "seq_in (publish am c n1 ?env (?i, m)) (\<lambda>im. if ?scrub then publish am c n2 ?env im else (im, Ok ()))
      = ((i', m'), Ok ())"
    using p by (simp only: publish_snapshot_def replace_snapshot_def Let_def fst_conv snd_conv prod.case)
  then obtain i1 m1 where p1: "publish am c n1 ?env (?i, m) = ((i1, m1), Ok ())"
      and rest: "(if ?scrub then publish am c n2 ?env (i1, m1) else ((i1, m1), Ok ())) = ((i', m'), Ok ())"
    by (auto simp: seq_in_def split: prod.splits sum.splits)
  have g1: "ipc_next_generation ?i + 1 < 2 ^ 64" and o1: "lane_older (view m) (ipc_role ?i) (ipc_next_generation ?i)"
    using g old by simp_all
  obtain b where b: "encode c ?env = Ok b" "latest_frame am (ipc_role ?i) (\<lambda>_. m1) = Ok (Some (ipc_next_generation ?i, b))"
      "i1 = ?i\<lparr>ipc_next_generation := ipc_next_generation ?i + 1\<rparr>"
      "lane_older (view m1) (ipc_role ?i) (ipc_next_generation ?i + 1)"
    by (rule publish_found [OF am p1 g1 o1])
  have i1: "ipc_role i1 = ipc_role i" "ipc_next_generation i1 = ipc_next_generation i + 1" using b(3) by simp_all
  show thesis
  proof (cases ?scrub)
    case False
    then show thesis using rest b i1 by (intro that [of b "ipc_next_generation i"]) auto
  next
    case True
    then have p2: "publish am c n2 ?env (i1, m1) = ((i', m'), Ok ())" using rest by (simp only: if_True)
    have g2: "ipc_next_generation i1 + 1 < 2 ^ 64" and o2: "lane_older (view m1) (ipc_role i1) (ipc_next_generation i1)"
      using g b(4) i1 by simp_all
    obtain b' where b': "encode c ?env = Ok b'" "latest_frame am (ipc_role i1) (\<lambda>_. m') = Ok (Some (ipc_next_generation i1, b'))"
        "i' = i1\<lparr>ipc_next_generation := ipc_next_generation i1 + 1\<rparr>"
        "lane_older (view m') (ipc_role i1) (ipc_next_generation i1 + 1)"
      by (rule publish_found [OF am p2 g2 o2])
    then show thesis using i1 by (intro that [of b' "ipc_next_generation i1"]) auto
  qed
qed

lemma persist_open:
  assumes "en_ipc w = Some i"
  shows "persist_platform_locked cf mo w =
    (case publish_snapshot (cf_ashmem cf) (cf_envelopes cf) (fst (mo_notified mo)) (snd (mo_notified mo))
        (published_state (revised mo w)) (in_platform_session_handoff w) (in_platform_browser_request w)
        (if ipc_role i = Ui \<and> in_last_platform_browser_request_id w \<noteq> [] then Some (in_last_platform_browser_request_id w) else None)
        (i, wd_memory w) of
       ((i', m'), r) \<Rightarrow> ((notify_platform_start_locked (revised mo w))\<lparr>en_ipc := Some i', wd_memory := m'\<rparr>, platform_ipc_error r))"
proof -
  let ?v = "notify_platform_start_locked (revised mo w)"
  have opened: "en_ipc (revised mo w) = Some i" by (simp add: revised_def assms)
  have fields: "in_platform_session_handoff ?v = in_platform_session_handoff w"
    "in_platform_browser_request ?v = in_platform_browser_request w" "wd_memory ?v = wd_memory w"
    "in_last_platform_browser_request_id ?v = in_last_platform_browser_request_id w"
    by (simp_all add: notify_platform_start_locked_def Let_def) (simp_all add: revised_def)
  show ?thesis
    by (simp only: persist_platform_locked_def Let_def revised_def [symmetric] opened fields is_ui_def option.case)
qed


text \<open>The first publication of a fresh UI process, with a codec that knows this one envelope.\<close>

definition first_channel :: ipc where
  "first_channel = \<lparr>ipc_role = Ui, ipc_published = platform_envelope_default, ipc_next_generation = 1, ipc_session = 9\<rparr>"

definition ui_world :: "(demo_doc, nat \<Rightarrow> byte) world" where
  "ui_world = fresh_world\<lparr>en_ipc := Some first_channel\<rparr>"

definition first_envelope :: platform_envelope where
  "first_envelope = \<lparr>pe_state = Some (published_state (revised (demo_moment 7) ui_world)), pe_session_handoff = None,
     pe_browser_request = None, pe_browser_request_ack = None\<rparr>"

definition one_envelope_codec :: "(byte list, platform_envelope) codec" where
  "one_envelope_codec = \<lparr>encode = (\<lambda>e. if e = first_envelope then Ok demo_payload else Err ''unknown''),
     decode = (\<lambda>_. Ok first_envelope), byte_len = length, no_bytes = []\<rparr>"


end
