(* ===== verification/Oc_Connection.thy ===== *)
theory Oc_Connection
  imports Oc_Platform
begin

text \<open>
  Connecting and disconnecting (\<open>engine/connection.rs\<close>). The asynchronous operations hold the mutex only in
  sections; each section is a definition, and whatever runs between two sections of one operation may change
  the world. Authentication, the resumption of a cookie and the packet loop belong to the native library: what
  they return is an argument.
\<close>

record connect_request =
  cr_profile :: connection_profile
  cr_dry_run :: bool

record prepared_connect =
  pc_network :: network_snapshot
  pc_options :: vpn_options
  pc_pending :: "pending_session option"

definition refresh_stats_locked :: "moment \<Rightarrow> ('b, 'm) world \<Rightarrow> ('b, 'm) world" where
  "refresh_stats_locked mo w =
     (case in_connected_at w of
        None \<Rightarrow> w
      | Some started \<Rightarrow>
          if is_active (lifecycle_of w)
          then set_stats ((sn_stats (in_snapshot w))\<lparr>ss_connected_seconds := (mo_instant mo - started) div 1000000000\<rparr>) w
          else w)"

text \<open>\<open>set_pending_auth\<close>, \<open>set_network\<close> and the figures of a new tunnel in the snapshot.\<close>

definition set_pending_auth :: "auth_challenge option \<Rightarrow> ('b, 'm) world \<Rightarrow> ('b, 'm) world" where
  "set_pending_auth a w = w\<lparr>in_snapshot := (in_snapshot w)\<lparr>sn_pending_auth := a\<rparr>\<rparr>"

definition set_network :: "network_snapshot \<Rightarrow> ('b, 'm) world \<Rightarrow> ('b, 'm) world" where
  "set_network n w = w\<lparr>in_snapshot := (in_snapshot w)\<lparr>sn_network := n\<rparr>\<rparr>"

definition tunnel_figures :: "network_snapshot \<Rightarrow> str \<Rightarrow> nat \<Rightarrow> ('b, 'm) world \<Rightarrow> ('b, 'm) world" where
  "tunnel_figures n gateway mtu w =
     set_stats ((sn_stats (in_snapshot w))\<lparr>
       ss_assigned_ip := (case net_address n of None \<Rightarrow> ''pending'' | Some a \<Rightarrow> a),
       ss_gateway := (case net_gateway n of None \<Rightarrow> gateway | Some g \<Rightarrow> g),
       ss_mtu := (if net_mtu n > 0 then nat (net_mtu n) else mtu)\<rparr>) w"

subsection \<open>Preparing a connection\<close>

definition wrapping_succ :: "nat \<Rightarrow> nat" where
  "wrapping_succ n = (n + 1) mod 2 ^ 64"

text \<open>The first section of \<open>prepare_connect\<close>; it answers the generation of this attempt.\<close>

definition prepare_connect_begin ::
    "('b, 'm) config \<Rightarrow> moment \<Rightarrow> connect_request \<Rightarrow> ('b, 'm) world \<Rightarrow> ('b, 'm) world \<times> (str, nat) result" where
  "prepare_connect_begin cf mo request w =
     try_in w (validate (cr_profile request)) (\<lambda>_.
     if is_busy (lifecycle_of w) then (w, Err ''connection already in progress'')
     else if in_running_native w \<noteq> None \<or> in_pending_native w \<noteq> None then (w, Err ''native session already active'')
     else
       let w = set_pending_auth None (w\<lparr>en_auth := begin_session (en_auth w)\<rparr>);
           w = w\<lparr>in_dry_run := cr_dry_run request, in_platform_vpn_running := False, in_platform_vpn_starting := False,
                 in_platform_start_attempt_id := [], in_platform_start_outcome := OutIdle,
                 in_platform_extension_attached := False, in_platform_session_handoff := None,
                 in_generation := wrapping_succ (in_generation w)\<rparr>;
           generation = in_generation w;
           w = set_stats session_stats_default (set_lifecycle_locked Connecting None w);
           w = push_diag_locked mo ''info'' (''prepare connect to '' @ pf_server (cr_profile request)
                 @ '' (backend=anyconnect-rs, dry_run='' @ (if cr_dry_run request then ''true'' else ''false'') @ '')'') w
       in bind_in (persist_platform_locked cf mo w) (\<lambda>_ w. (w, Ok generation)))"

definition prepare_dry_run :: "connection_profile \<Rightarrow> (str, prepared_connect) result" where
  "prepare_dry_run profile =
     (if contains_text (pf_server profile) ''invalid'' then
        Err (''dry-run failure: server host contains '' @ quoted ''invalid'')
      else
        let network = network_default\<lparr>net_address := Some ''10.64.12.48'', net_netmask := Some ''255.255.255.0'',
              net_gateway := Some (pf_server profile), net_dns := [''1.1.1.1''],
              net_mtu := (if pf_mtu profile > 0 then as_i32 (pf_mtu profile) else 1400)\<rparr>
        in Ok \<lparr>pc_network = network, pc_options = from_network network profile, pc_pending = None\<rparr>)"

text \<open>The section before \<open>native_authenticate\<close>, and what its result becomes.\<close>

definition prepare_native_begin :: "moment \<Rightarrow> ('b, 'm) world \<Rightarrow> ('b, 'm) world" where
  "prepare_native_begin mo w =
     push_diag_locked mo ''info'' ''authenticate in UI process and hand off the resulting cookie''
       (set_lifecycle_locked Authenticating None w)"

definition prepared_native :: "(str, pending_session) result \<Rightarrow> (str, prepared_connect) result" where
  "prepared_native authenticated =
     and_then authenticated (\<lambda>pending.
       Ok \<lparr>pc_network = pn_network pending, pc_options = pn_options pending, pc_pending = Some pending\<rparr>)"

text \<open>\<open>{:?}\<close> of the assigned address; it only occurs in a log line.\<close>

definition address_text :: "str option \<Rightarrow> str" where
  "address_text a = (case a of None \<Rightarrow> ''None'' | Some t \<Rightarrow> ''Some('' @ [CHR 0x22] @ t @ [CHR 0x22] @ '')'')"

text \<open>\<open>write_last_error\<close>.\<close>

definition write_last_error :: "moment \<Rightarrow> str \<Rightarrow> ('b, 'm) world \<Rightarrow> ('b, 'm) world" where
  "write_last_error mo message w =
     w\<lparr>wd_last_error := fst (write_atomic_private (fst (mo_stored mo))
         (mo_timestamp mo @ [newline] @ message @ [newline]) (wd_last_error w))\<rparr>"

definition prepare_connect_finish ::
    "('b, 'm) config \<Rightarrow> moment \<Rightarrow> connect_request \<Rightarrow> nat \<Rightarrow> (str, prepared_connect) result \<Rightarrow> ('b, 'm) world
       \<Rightarrow> ('b, 'm) world \<times> (str, vpn_options) result" where
  "prepare_connect_finish cf mo request generation prepared w =
     (if in_generation w \<noteq> generation then (w, Err ''stale connect generation'')
      else case prepared of
        Ok p \<Rightarrow>
          (let w = set_network (pc_network p) (set_pending_auth None w);
               w = w\<lparr>in_last_vpn_options := pc_options p\<rparr>;
               w = tunnel_figures (pc_network p) (pf_server (cr_profile request)) (vo_mtu (pc_options p)) w;
               w = w\<lparr>in_pending_native := pc_pending p, in_platform_vpn_starting := True\<rparr>;
               w = set_lifecycle_locked Establishing None w;
               w = push_diag_locked mo ''info'' (''auth ready; assigned='' @ address_text (net_address (pc_network p))
                     @ '' mtu='' @ show_dec (vo_mtu (pc_options p))) w;
               w = w\<lparr>in_platform_session_handoff := Some \<lparr>sh_attempt_id = [], sh_options = pc_options p,
                     sh_network = pc_network p, sh_updated_at = mo_nanos mo\<rparr>\<rparr>
           in bind_in (persist_platform_locked cf mo w) (\<lambda>_ w. (w, Ok (sanitized_want_options (pc_options p)))))
      | Err message \<Rightarrow>
          (let w = set_pending_auth None (w\<lparr>en_auth := abort (en_auth w)\<rparr>);
               w = w\<lparr>in_platform_vpn_starting := False, in_platform_vpn_running := False, in_pending_native := None\<rparr>;
               w = push_diag_locked mo ''error'' message (set_lifecycle_locked Failed (Some message) w);
               w = write_last_error mo message (persist_ignored cf mo w)
           in (w, Err message)))"

subsection \<open>The Extension\<close>

text \<open>\<open>attempt\<close> was read in a section of its own.\<close>

definition session_handoff_from_ashmem ::
    "('b, 'm) config \<Rightarrow> moment \<Rightarrow> str \<Rightarrow> ('b, 'm) world \<Rightarrow> (str, session_handoff) result" where
  "session_handoff_from_ashmem cf mo attempt w =
     (case en_ipc w of
        None \<Rightarrow> Err ''authenticated session ashmem is not attached''
      | Some i \<Rightarrow>
          if is_ui i then Err ''authenticated session handoff is only readable by the VPN Extension''
          else and_then (platform_ipc_error (read_sibling cf i w)) (\<lambda>found.
            case found of
              None \<Rightarrow> Err ''authenticated session ashmem has no UI frame''
            | Some envelope \<Rightarrow>
                (case pe_session_handoff envelope of
                   None \<Rightarrow> Err (''authenticated session ashmem handoff is missing or stale for attempt '' @ attempt)
                 | Some h \<Rightarrow>
                     if handoff_is_valid_for (mo_nanos mo) h attempt then Ok h
                     else Err (''authenticated session ashmem handoff is missing or stale for attempt '' @ attempt))))"

definition next_generation :: "('b, 'm) world \<Rightarrow> ('b, 'm) world" where
  "next_generation w = w\<lparr>in_generation := min (in_generation w + 1) max_u64\<rparr>"

text \<open>The guard on every section that continues an operation of the Extension.\<close>

definition extension_stale :: "nat \<Rightarrow> str \<Rightarrow> ('b, 'm) world \<Rightarrow> bool" where
  "extension_stale generation attempt w \<longleftrightarrow>
     in_generation w \<noteq> generation \<or> in_platform_start_attempt_id w \<noteq> attempt \<or> terminal (in_platform_start_outcome w)"

text \<open>\<open>prepare_in_extension\<close>: the section before \<open>resume_from_options\<close> and the one after it; \<open>json\<close> is the
  outcome of \<open>serde_json::to_string\<close>.\<close>

definition prepare_in_extension_begin ::
    "('b, 'm) config \<Rightarrow> moment \<Rightarrow> str \<Rightarrow> ('b, 'm) world \<Rightarrow> ('b, 'm) world \<times> (str, session_handoff \<times> nat) result" where
  "prepare_in_extension_begin cf mo attempt w =
     try_in w (session_handoff_from_ashmem cf mo attempt w) (\<lambda>h.
       let w = next_generation w in (w, Ok (h, in_generation w)))"

definition prepare_in_extension_finish ::
    "('b, 'm) config \<Rightarrow> moment \<Rightarrow> session_handoff \<Rightarrow> nat \<Rightarrow> (vpn_options \<Rightarrow> (str, str) result) \<Rightarrow> pending_session
       \<Rightarrow> ('b, 'm) world \<Rightarrow> ('b, 'm) world \<times> (str, str) result" where
  "prepare_in_extension_finish cf mo handoff generation json pending w =
     (if extension_stale generation (sh_attempt_id handoff) w then (w, Err ''stale extension prepare generation'')
      else
        let w = (set_network (pn_network pending) w)\<lparr>in_last_vpn_options := pn_options pending\<rparr>;
            w = tunnel_figures (pn_network pending) [] (vo_mtu (pn_options pending)) w
        in try_in w (json (pn_options pending)) (\<lambda>text.
             let w = w\<lparr>in_pending_native := Some pending, in_platform_vpn_starting := True\<rparr>;
                 w = set_lifecycle_locked Establishing None w
             in bind_in (persist_platform_locked cf mo w) (\<lambda>_ w. (w, Ok text))))"

text \<open>\<open>attach_tun\<close>: taking the pending session, the check before the packet loop is spawned, and the section after.
  The statistics the worker keeps for itself are not part of the world.\<close>

definition attach_tun_begin :: "('b, 'm) world \<Rightarrow> ('b, 'm) world \<times> (pending_session option \<times> nat \<times> str)" where
  "attach_tun_begin w =
     (let pending = in_pending_native w; w = (next_generation w)\<lparr>in_pending_native := None\<rparr>
      in (w, pending, in_generation w, in_platform_start_attempt_id w))"

definition attach_tun_check :: "nat \<Rightarrow> str \<Rightarrow> ('b, 'm) world \<Rightarrow> (str, unit) result" where
  "attach_tun_check generation attempt w =
     (if extension_stale generation attempt w then Err ''stale TUN attach generation'' else Ok ())"

definition attach_tun_finish ::
    "('b, 'm) config \<Rightarrow> moment \<Rightarrow> str \<Rightarrow> pending_session \<Rightarrow> running_session \<Rightarrow> nat \<Rightarrow> str \<Rightarrow> ('b, 'm) world
       \<Rightarrow> ('b, 'm) world \<times> (str, unit) result" where
  "attach_tun_finish cf mo fd pending running generation attempt w =
     (if extension_stale generation attempt w \<or> \<not> lifecycle_of w \<in> {Connecting, Authenticating, Establishing} then
        (stop_session (Some running) w, Err ''OpenConnect mainloop exited during TUN attach'')
      else
        let w = (set_network (pn_network pending) w)\<lparr>in_last_vpn_options := pn_options pending\<rparr>;
            w = tunnel_figures (pn_network pending) [] (ss_mtu (sn_stats (in_snapshot w))) w;
            w = w\<lparr>in_running_native := Some running, in_platform_vpn_running := True, in_platform_vpn_starting := False,
                  in_platform_start_outcome :=
                    (if in_platform_start_outcome w = OutPending then OutConnected else in_platform_start_outcome w),
                  in_connected_at := Some (mo_instant mo)\<rparr>;
            w = set_lifecycle_locked Connected None w;
            w = push_diag_locked mo ''info'' (''OpenConnect mainloop attached to TUN fd '' @ fd) w
        in persist_platform_locked cf mo w)"

subsection \<open>Disconnecting\<close>

text \<open>\<open>disconnect_inner\<close>: the first section answers at once, or names the generation the second one must find.\<close>

definition disconnect_begin ::
    "('b, 'm) config \<Rightarrow> moment \<Rightarrow> str option \<Rightarrow> ('b, 'm) world
       \<Rightarrow> ('b, 'm) world \<times> (str, bool + (nat \<times> running_session option)) result" where
  "disconnect_begin cf mo expected w =
     (if expected \<noteq> None \<and> expected \<noteq> Some (in_platform_start_attempt_id w) then (w, Ok (Inl False))
      else if lifecycle_of w = Disconnected then (w, Ok (Inl True))
      else
        let w = set_pending_auth None (w\<lparr>en_auth := abort (en_auth w)\<rparr>);
            w = w\<lparr>in_platform_vpn_starting := False, in_platform_vpn_running := False, in_platform_stop_requested := True,
                  in_platform_start_outcome :=
                    (if in_platform_start_outcome w \<noteq> OutFailed then OutCancelled else in_platform_start_outcome w)\<rparr>;
            w = push_diag_locked mo ''info'' ''disconnect requested'' (set_lifecycle_locked Disconnecting None w);
            running = in_running_native w;
            w = w\<lparr>in_generation := wrapping_succ (in_generation w), in_pending_native := None, in_running_native := None\<rparr>;
            generation = in_generation w
        in bind_in (persist_platform_locked cf mo w) (\<lambda>_ w. (w, Ok (Inr (generation, running)))))"

definition disconnect_finish ::
    "('b, 'm) config \<Rightarrow> moment \<Rightarrow> str option \<Rightarrow> nat \<Rightarrow> ('b, 'm) world \<Rightarrow> ('b, 'm) world \<times> (str, bool) result" where
  "disconnect_finish cf mo expected generation w =
     (if in_generation w \<noteq> generation \<or> (expected \<noteq> None \<and> expected \<noteq> Some (in_platform_start_attempt_id w)) then
        (w, Ok False)
      else if lifecycle_of w \<in> {Disconnecting, Connected} then
        (let w = w\<lparr>in_platform_vpn_running := False, in_platform_vpn_starting := False\<rparr>;
             w = (set_lifecycle_locked Disconnected None w)\<lparr>in_connected_at := None\<rparr>;
             w = set_network network_default (set_stats session_stats_default w);
             w = w\<lparr>in_platform_session_handoff := None, in_platform_browser_request := None\<rparr>
         in (persist_ignored cf mo w, Ok True))
      else (w, Ok True))"

text \<open>\<open>disconnect_platform_attempt\<close> asks for a named attempt, \<open>disconnect\<close> for none; \<open>between\<close> is what happens while
  the worker is joined.\<close>

definition disconnect_inner ::
    "('b, 'm) config \<Rightarrow> (nat \<Rightarrow> moment) \<Rightarrow> (('b, 'm) world \<Rightarrow> ('b, 'm) world) \<Rightarrow> str option \<Rightarrow> ('b, 'm) world
       \<Rightarrow> ('b, 'm) world \<times> (str, bool) result" where
  "disconnect_inner cf ev between expected w =
     bind_in (disconnect_begin cf (ev 0) expected w) (\<lambda>answer w.
       case answer of
         Inl b \<Rightarrow> (w, Ok b)
       | Inr (generation, running) \<Rightarrow> disconnect_finish cf (ev 1) expected generation (between (stop_session running w)))"

definition disconnect_platform_attempt ::
    "('b, 'm) config \<Rightarrow> (nat \<Rightarrow> moment) \<Rightarrow> (('b, 'm) world \<Rightarrow> ('b, 'm) world) \<Rightarrow> str \<Rightarrow> ('b, 'm) world
       \<Rightarrow> ('b, 'm) world \<times> (str, bool) result" where
  "disconnect_platform_attempt cf ev between attempt w =
     (if attempt = [] then (w, Ok False) else disconnect_inner cf ev between (Some attempt) w)"

subsection \<open>The end of the packet loop\<close>

definition worker_message :: str where "worker_message = ''native VPN worker is not running''"

text \<open>A failure of the attempt as the log and the snapshot show it.\<close>

definition fail_attempt :: "moment \<Rightarrow> str \<Rightarrow> ('b, 'm) world \<Rightarrow> ('b, 'm) world" where
  "fail_attempt mo message w =
     push_diag_locked mo ''error'' message
       (set_lifecycle_locked Failed (Some message) (w\<lparr>in_platform_start_outcome := OutFailed\<rparr>))"

definition on_native_session_ended ::
    "('b, 'm) config \<Rightarrow> moment \<Rightarrow> nat \<Rightarrow> str option \<Rightarrow> ('b, 'm) world \<Rightarrow> ('b, 'm) world \<times> (str, unit) result" where
  "on_native_session_ended cf mo session_generation e w =
     (if in_generation w \<noteq> session_generation then (w, Ok ())
      else
        let w = w\<lparr>in_running_native := None, in_pending_native := None\<rparr>;
            was_connected_owner = (in_platform_vpn_running w \<and> in_platform_start_outcome w = OutConnected);
            w = w\<lparr>in_platform_vpn_running := False, in_platform_vpn_starting := False\<rparr>;
            already_terminal = (lifecycle_of w \<in> {Disconnected, Disconnecting, Failed}
                                \<or> terminal (in_platform_start_outcome w));
            w = (if already_terminal then w
                 else case e of
                   Some message \<Rightarrow> fail_attempt mo message w
                 | None \<Rightarrow>
                     if was_connected_owner then fail_attempt mo worker_message w
                     else set_lifecycle_locked Disconnected None
                            (if in_platform_start_outcome w = OutPending
                             then w\<lparr>in_platform_start_outcome := OutCancelled\<rparr> else w))
        in persist_platform_locked cf mo (w\<lparr>in_connected_at := None\<rparr>))"

subsection \<open>The periodic tick\<close>

text \<open>What the packet loop reports when asked: a protection error, whether it ended, its result, its counters.\<close>

record native_report =
  nr_protect_error :: "str option"
  nr_finished :: bool
  nr_joined :: "(str, unit) result"
  nr_traffic :: session_stats

text \<open>The part of the first section after both lanes were read.\<close>

definition tick_verdict ::
    "('b, 'm) config \<Rightarrow> moment \<Rightarrow> native_report \<Rightarrow> ('b, 'm) world \<Rightarrow> ('b, 'm) world \<times> running_session option" where
  "tick_verdict cf mo report w =
     (let is_extension = (case en_ipc w of None \<Rightarrow> False | Some i \<Rightarrow> \<not> is_ui i);
          owner_mismatch = (case in_running_native w of None \<Rightarrow> False
            | Some s \<Rightarrow> rn_attempt_id s \<noteq> in_platform_start_attempt_id w \<or> rn_generation s \<noteq> in_generation w);
          protect_error = (if in_running_native w = None then None else nr_protect_error report)
      in case protect_error of
           Some message \<Rightarrow>
             (let session = in_running_native w;
                  w = (next_generation w)\<lparr>in_running_native := None, in_pending_native := None,
                        in_platform_vpn_running := False, in_platform_vpn_starting := False, in_connected_at := None\<rparr>
              in (persist_ignored cf mo (fail_attempt mo message w), session))
         | None \<Rightarrow>
             if is_extension \<and> (owner_mismatch \<or> terminal (in_platform_start_outcome w)) then
               (let session = in_running_native w; w = w\<lparr>in_running_native := None\<rparr>
                in if session \<noteq> None then
                     (persist_ignored cf mo
                       (push_diag_locked mo ''warn'' ''UI ended this attempt; stopping orphaned native session''
                         (w\<lparr>in_pending_native := None, in_platform_vpn_running := False, in_platform_vpn_starting := False\<rparr>)),
                      session)
                   else (w, session))
             else (w, None))"

definition tick_begin ::
    "('b, 'm) config \<Rightarrow> (nat \<Rightarrow> moment) \<Rightarrow> native_report \<Rightarrow> ('b, 'm) world
       \<Rightarrow> ('b, 'm) world \<times> (str, running_session option) result" where
  "tick_begin cf ev report w =
     (let w = synced cf (ev 0) w
      in bind_in (if \<exists>i. en_ipc w = Some i \<and> is_ui i
                  then refresh_platform_vpn_owner_liveness_locked cf (\<lambda>k. ev (1 + k)) w else (w, Ok ()))
           (\<lambda>_ w. case tick_verdict cf (ev 4) report (refresh_stats_locked (ev 4) w) of (w, s) \<Rightarrow> (w, Ok s)))"

definition tick_finished_worker ::
    "('b, 'm) config \<Rightarrow> moment \<Rightarrow> (str, unit) result \<Rightarrow> ('b, 'm) world \<Rightarrow> ('b, 'm) world" where
  "tick_finished_worker cf mo joined w =
     (case joined of
        Ok _ \<Rightarrow>
          (let w = (if in_platform_vpn_running w \<and> in_platform_start_outcome w = OutConnected
                    then fail_attempt mo worker_message w else set_lifecycle_locked Disconnected None w)
           in persist_ignored cf mo (w\<lparr>in_platform_vpn_running := False, in_connected_at := None\<rparr>))
      | Err message \<Rightarrow>
          (let w = set_lifecycle_locked Failed (Some message) w
           in persist_ignored cf mo (w\<lparr>in_platform_start_outcome := OutFailed, in_platform_vpn_running := False,
                in_connected_at := None\<rparr>)))"

definition tick_live_worker ::
    "('b, 'm) config \<Rightarrow> moment \<Rightarrow> session_stats \<Rightarrow> ('b, 'm) world \<Rightarrow> ('b, 'm) world" where
  "tick_live_worker cf mo traffic w =
     (let st = sn_stats (in_snapshot w);
          traffic = traffic\<lparr>ss_assigned_ip := ss_assigned_ip st, ss_gateway := ss_gateway st, ss_mtu := ss_mtu st\<rparr>;
          traffic = (case in_connected_at w of None \<Rightarrow> traffic
                     | Some started \<Rightarrow> traffic\<lparr>ss_connected_seconds := (mo_instant mo - started) div 1000000000\<rparr>)
      in persist_ignored cf mo (set_stats traffic w))"

text \<open>The second section; synthetic counters keep a dry run moving.\<close>

definition tick_finish ::
    "('b, 'm) config \<Rightarrow> moment \<Rightarrow> native_report \<Rightarrow> ('b, 'm) world \<Rightarrow> ('b, 'm) world" where
  "tick_finish cf mo report w =
     (if in_running_native w \<noteq> None then
        (if nr_finished report then tick_finished_worker cf mo (nr_joined report) (w\<lparr>in_running_native := None\<rparr>)
         else tick_live_worker cf mo (nr_traffic report) w)
      else if in_dry_run w \<and> is_active (lifecycle_of w) then
        (let st = sn_stats (in_snapshot w)
         in set_stats (st\<lparr>ss_bytes_sent := min (ss_bytes_sent st + 4096) max_u64,
                         ss_bytes_received := min (ss_bytes_received st + 16384) max_u64,
                         ss_packets_sent := min (ss_packets_sent st + 8) max_u64,
                         ss_packets_received := min (ss_packets_received st + 24) max_u64\<rparr>) w)
      else w)"

text \<open>Both sections; the mutex is free while a worker is joined.\<close>

definition tick ::
    "('b, 'm) config \<Rightarrow> (nat \<Rightarrow> moment) \<Rightarrow> (('b, 'm) world \<Rightarrow> ('b, 'm) world) \<Rightarrow> native_report \<times> native_report
       \<Rightarrow> ('b, 'm) world \<Rightarrow> ('b, 'm) world \<times> (str, session_snapshot) result" where
  "tick cf ev between reports w =
     bind_in (tick_begin cf ev (fst reports) w) (\<lambda>session w.
       let w = tick_finish cf (ev 5) (snd reports) (between (stop_session session w))
       in (w, Ok (in_snapshot w)))"

text \<open>\<open>extension_tick\<close> of \<open>engine/platform.rs\<close>, after the tick answered \<open>snapshot\<close>.\<close>

definition extension_tick_answer :: "str \<Rightarrow> session_snapshot \<Rightarrow> ('b, 'm) world \<Rightarrow> (str, str) result" where
  "extension_tick_answer attempt snapshot w =
     (if in_platform_start_attempt_id w \<noteq> attempt then Err (''stale platform VPN heartbeat for attempt '' @ attempt)
      else if in_platform_stop_requested w then Ok ''stopping''
      else if terminal (in_platform_start_outcome w) then
        Ok (if in_platform_start_outcome w = OutFailed then ''failed'' else ''disconnected'')
      else if \<not> in_platform_extension_attached w then Err (''platform VPN heartbeat has no owner for attempt '' @ attempt)
      else Ok (lifecycle_as_str (sn_lifecycle snapshot)))"

definition extension_tick ::
    "('b, 'm) config \<Rightarrow> (nat \<Rightarrow> moment) \<Rightarrow> (('b, 'm) world \<Rightarrow> ('b, 'm) world) \<Rightarrow> (('b, 'm) world \<Rightarrow> ('b, 'm) world)
       \<Rightarrow> native_report \<times> native_report \<Rightarrow> str \<Rightarrow> ('b, 'm) world \<Rightarrow> ('b, 'm) world \<times> (str, str) result" where
  "extension_tick cf ev between before_check reports attempt w =
     bind_in (tick cf ev between reports w) (\<lambda>snapshot w.
       let w = before_check w in (w, extension_tick_answer attempt snapshot w))"

end
