(* ===== verification/Oc_Profiles.thy ===== *)
theory Oc_Profiles
  imports Oc_Connection
begin

text \<open>
  Profiles, preferences and the visible snapshot (\<open>engine/profiles.rs\<close>): the operations the UI calls on the
  connection list, with the documents they write and the certificate files they remove.
\<close>

subsection \<open>Paths of certificate files\<close>

text \<open>\<open>Path::components\<close>: repeated separators and inner dots vanish, a leading dot stays.\<close>

definition path_components :: "str \<Rightarrow> str list" where
  "path_components p =
     (let parts = split_char (CHR ''/'') p; inner = filter (\<lambda>s. s \<noteq> [] \<and> s \<noteq> ''.'') parts
      in if starts_with p ''/'' then ''/'' # inner
         else if hd parts = ''.'' then ''.'' # inner else inner)"

text \<open>\<open>Path::parent\<close>, as components.\<close>

definition parent_components :: "str \<Rightarrow> str list option" where
  "parent_components p =
     (let c = path_components p in if c = [] \<or> c = [''/''] then None else Some (butlast c))"

definition certificate_paths :: "connection_profile \<Rightarrow> str list" where
  "certificate_paths p = [pf_certificate p, pf_private_key p, pf_secondary_certificate p, pf_secondary_private_key p,
     pf_ca_certificate p]"

definition profile_path_is_referenced :: "connection_profile list \<Rightarrow> str \<Rightarrow> bool" where
  "profile_path_is_referenced profiles candidate \<longleftrightarrow> (\<exists>p \<in> set profiles. candidate \<in> set (certificate_paths p))"

definition removable_files :: "str \<Rightarrow> connection_profile list \<Rightarrow> connection_profile \<Rightarrow> str list" where
  "removable_files home profiles removed =
     filter (\<lambda>c. c \<noteq> [] \<and> parent_components c = Some (path_components (path_join home ''certs''))
                 \<and> \<not> profile_path_is_referenced profiles c)
       (map trim (certificate_paths removed))"

abbreviation connections_of :: "('b, 'm) world \<Rightarrow> connection_profile list" where
  "connections_of w \<equiv> sn_connections (in_snapshot w)"

abbreviation active_id :: "('b, 'm) world \<Rightarrow> str option" where
  "active_id w \<equiv> sn_active_connection_id (in_snapshot w)"

definition cleanup_unreferenced_profile_files :: "connection_profile \<Rightarrow> ('b, 'm) world \<Rightarrow> ('b, 'm) world" where
  "cleanup_unreferenced_profile_files removed w =
     w\<lparr>wd_removed := wd_removed w @ removable_files (in_home w) (connections_of w) removed\<rparr>"

subsection \<open>Writing the documents\<close>

definition set_connections :: "connection_profile list \<Rightarrow> ('b, 'm) world \<Rightarrow> ('b, 'm) world" where
  "set_connections ps w = w\<lparr>in_snapshot := (in_snapshot w)\<lparr>sn_connections := ps\<rparr>\<rparr>"

definition set_active :: "str option \<Rightarrow> ('b, 'm) world \<Rightarrow> ('b, 'm) world" where
  "set_active i w = w\<lparr>in_snapshot := (in_snapshot w)\<lparr>sn_active_connection_id := i\<rparr>\<rparr>"

definition persist_preferences_locked ::
    "('b, 'm) config \<Rightarrow> moment \<Rightarrow> ('b, 'm) world \<Rightarrow> ('b, 'm) world \<times> (str, unit) result" where
  "persist_preferences_locked cf mo w =
     (case in_store w of
        None \<Rightarrow> (w, Ok ())
      | Some _ \<Rightarrow>
          (case save_preferences (cf_preferences cf) (snd (mo_stored mo))
                 ((in_preferences w)\<lparr>pr_active_connection_id := active_id w\<rparr>) (wd_documents w) of
             (d, r) \<Rightarrow> (w\<lparr>wd_documents := d\<rparr>, r)))"

text \<open>\<open>if let Some(store) = &inner.store { store.save(profiles)? }\<close>.\<close>

definition save_connections ::
    "('b, 'm) config \<Rightarrow> moment \<Rightarrow> connection_profile list \<Rightarrow> ('b, 'm) world \<Rightarrow> ('b, 'm) world \<times> (str, unit) result" where
  "save_connections cf mo ps w =
     (case in_store w of
        None \<Rightarrow> (w, Ok ())
      | Some _ \<Rightarrow>
          (case save_profiles (cf_profiles cf) (fst (mo_stored mo)) ps (wd_documents w) of
             (d, r) \<Rightarrow> (w\<lparr>wd_documents := d\<rparr>, r)))"

definition persist_profiles ::
    "('b, 'm) config \<Rightarrow> moment \<Rightarrow> ('b, 'm) world \<Rightarrow> ('b, 'm) world \<times> (str, unit) result" where
  "persist_profiles cf mo w =
     bind_in (save_connections cf mo (connections_of w) w) (\<lambda>_ w. persist_preferences_locked cf mo w)"

subsection \<open>The list\<close>

definition find_profile :: "str \<Rightarrow> connection_profile list \<Rightarrow> connection_profile option" where
  "find_profile i ps = find (\<lambda>p. pf_id p = i) ps"

definition session_busy :: "('b, 'm) world \<Rightarrow> bool" where
  "session_busy w \<longleftrightarrow> is_busy (lifecycle_of w) \<or> is_active (lifecycle_of w)"

text \<open>Assignment through \<open>iter_mut().find\<close>: only the first entry of the id changes.\<close>

fun update_first :: "str \<Rightarrow> (connection_profile \<Rightarrow> connection_profile) \<Rightarrow> connection_profile list \<Rightarrow> connection_profile list" where
  "update_first i f [] = []"
| "update_first i f (p # ps) = (if pf_id p = i then f p # ps else p # update_first i f ps)"

definition has_profile :: "str \<Rightarrow> connection_profile list \<Rightarrow> bool" where
  "has_profile i ps \<longleftrightarrow> (\<exists>p \<in> set ps. pf_id p = i)"

definition or_else :: "'a option \<Rightarrow> 'a option \<Rightarrow> 'a option" where
  "or_else a b = (case a of None \<Rightarrow> b | Some _ \<Rightarrow> a)"

definition filter_option :: "('a \<Rightarrow> bool) \<Rightarrow> 'a option \<Rightarrow> 'a option" where
  "filter_option f a = (case a of None \<Rightarrow> None | Some x \<Rightarrow> if f x then a else None)"

definition first_id :: "connection_profile list \<Rightarrow> str option" where
  "first_id ps = (case ps of [] \<Rightarrow> None | p # _ \<Rightarrow> Some (pf_id p))"

text \<open>\<open>remove_obsolete_cross_process_files\<close>: the files are tried in order, a missing one is no error.\<close>

datatype removal = Removed | NotThere | RemoveFailed str

definition obsolete_cross_process_files :: "str list" where
  "obsolete_cross_process_files = [''session-handoff.json'', ''browser-request.json'', ''platform-vpn-state.json'']"

fun remove_files :: "str \<Rightarrow> (str \<Rightarrow> removal) \<Rightarrow> str list \<Rightarrow> (str, unit) result" where
  "remove_files home remove [] = Ok ()"
| "remove_files home remove (f # fs) =
     (case remove (path_join home f) of
        RemoveFailed e \<Rightarrow> Err (''remove obsolete cross-process file '' @ path_join home f @ '': '' @ e)
      | _ \<Rightarrow> remove_files home remove fs)"

definition remove_obsolete_cross_process_files :: "str \<Rightarrow> (str \<Rightarrow> removal) \<Rightarrow> (str, unit) result" where
  "remove_obsolete_cross_process_files home remove = remove_files home remove obsolete_cross_process_files"

text \<open>
  \<open>configure_home\<close>. The outcomes of removing the obsolete files, opening the root, reading both documents and
  writing them are arguments; an unreadable preferences document counts as the default one.
\<close>

record home_calls =
  hc_remove :: "str \<Rightarrow> removal"
  hc_open :: "(str, unit) result"
  hc_read_profiles :: "(str, unit) result"
  hc_read_preferences :: "(str, unit) result"

definition configure_home ::
    "('b, 'm) config \<Rightarrow> (nat \<Rightarrow> moment) \<Rightarrow> home_calls \<Rightarrow> str \<Rightarrow> ('b, 'm) world \<Rightarrow> ('b, 'm) world \<times> (str, unit) result" where
  "configure_home cf ev calls home w =
     try_in w (remove_obsolete_cross_process_files home (hc_remove calls)) (\<lambda>_.
     try_in w (hc_open calls) (\<lambda>_.
     try_in w (load_profiles (cf_profiles cf) (hc_read_profiles calls) (wd_documents w)) (\<lambda>profiles.
     bind_in (if profiles_file_exists (wd_documents w) then (w, Ok ())
              else case save_profiles (cf_profiles cf) (fst (mo_stored (ev 0))) profiles (wd_documents w) of
                (d, r) \<Rightarrow> (w\<lparr>wd_documents := d\<rparr>, r)) (\<lambda>_ w.
       let preferences = (case load_preferences (cf_preferences cf) (hc_read_preferences calls) (wd_documents w) of
                            Err _ \<Rightarrow> preferences_default | Ok p \<Rightarrow> p);
           w = w\<lparr>in_home := home, in_logs := log_buffer_new, in_platform_diagnostics := [],
                 in_store := Some \<lparr>st_root = home\<rparr>, in_preferences := preferences\<rparr>;
           w = set_connections profiles w;
           known = (\<lambda>i. has_profile i (connections_of w));
           w = set_active (or_else (filter_option known (pr_active_connection_id preferences))
                 (or_else (filter_option known (active_id w)) (first_id (connections_of w)))) w
       in bind_in (persist_preferences_locked cf (ev 0) w) (\<lambda>_ w. (synced cf (ev 1) w, Ok ()))))))"

definition set_profiles ::
    "('b, 'm) config \<Rightarrow> moment \<Rightarrow> connection_profile list \<Rightarrow> ('b, 'm) world \<Rightarrow> ('b, 'm) world \<times> (str, unit) result" where
  "set_profiles cf mo ps w = bind_in (save_connections cf mo ps w) (\<lambda>_ w. (set_connections ps w, Ok ()))"

definition upsert_profile ::
    "('b, 'm) config \<Rightarrow> moment \<Rightarrow> connection_profile \<Rightarrow> ('b, 'm) world \<Rightarrow> ('b, 'm) world \<times> (str, unit) result" where
  "upsert_profile cf mo profile w =
     try_in w (validate profile) (\<lambda>_.
       let previous = find_profile (pf_id profile) (connections_of w)
       in if active_id w = Some (pf_id profile) \<and> session_busy w then
            (w, Err ''disconnect before editing the active connection'')
          else
            let w = (if previous \<noteq> None
                     then set_connections (update_first (pf_id profile) (\<lambda>_. profile) (connections_of w)) w
                     else let w = set_connections (profile # connections_of w) w
                          in if \<not> session_busy w then set_active (Some (pf_id profile)) w else w)
            in bind_in (persist_profiles cf mo w) (\<lambda>_ w.
                 (case previous of None \<Rightarrow> w | Some p \<Rightarrow> cleanup_unreferenced_profile_files p w, Ok ())))"

definition delete_profile ::
    "('b, 'm) config \<Rightarrow> moment \<Rightarrow> str \<Rightarrow> ('b, 'm) world \<Rightarrow> ('b, 'm) world \<times> (str, unit) result" where
  "delete_profile cf mo i w =
     (if active_id w = Some i \<and> session_busy w then (w, Err ''disconnect before deleting the active connection'')
      else case find_profile i (connections_of w) of
        None \<Rightarrow> (w, Ok ())
      | Some removed \<Rightarrow>
          (let w = set_connections (filter (\<lambda>p. pf_id p \<noteq> i) (connections_of w)) w;
               w = (if active_id w = Some i then set_active (first_id (connections_of w)) w else w)
           in bind_in (persist_profiles cf mo w) (\<lambda>_ w. (cleanup_unreferenced_profile_files removed w, Ok ()))))"

definition select_profile ::
    "('b, 'm) config \<Rightarrow> moment \<Rightarrow> str \<Rightarrow> ('b, 'm) world \<Rightarrow> ('b, 'm) world \<times> (str, unit) result" where
  "select_profile cf mo i w =
     (if \<not> has_profile i (connections_of w) then (w, Err (''unknown profile '' @ i))
      else if session_busy w then (w, Err ''disconnect before changing the active profile'')
      else persist_preferences_locked cf mo (set_active (Some i) w))"

definition active_profile :: "('b, 'm) world \<Rightarrow> connection_profile option" where
  "active_profile w = (case active_id w of None \<Rightarrow> None | Some i \<Rightarrow> find_profile i (connections_of w))"

text \<open>The options of a live session after the route policy of its profile changed.\<close>

definition rebuilt_options :: "network_snapshot \<Rightarrow> connection_profile \<Rightarrow> bool \<Rightarrow> vpn_options \<Rightarrow> vpn_options" where
  "rebuilt_options network profile force_global old =
     (let r = from_network network profile;
          r = (if vo_addresses r = [] then r\<lparr>vo_addresses := vo_addresses old\<rparr> else r);
          r = (if vo_dns_addresses r = [] then r\<lparr>vo_dns_addresses := vo_dns_addresses old\<rparr> else r);
          r = (if vo_mtu r = 0 then r\<lparr>vo_mtu := vo_mtu old\<rparr> else r)
      in apply_force_global (r\<lparr>vo_cookie := vo_cookie old, vo_server := vo_server old, vo_username := vo_username old,
           vo_password := vo_password old, vo_group := vo_group old, vo_accept_untrusted := vo_accept_untrusted old,
           vo_force_global := force_global\<rparr>))"

definition rebuild_live_session ::
    "('b, 'm) config \<Rightarrow> moment \<Rightarrow> bool \<Rightarrow> str \<Rightarrow> ('b, 'm) world \<Rightarrow> ('b, 'm) world" where
  "rebuild_live_session cf mo force_global i w =
     (let old = in_last_vpn_options w;
          w = w\<lparr>in_last_vpn_options :=
                (case find_profile i (connections_of w) of
                   Some p \<Rightarrow> rebuilt_options (sn_network (in_snapshot w)) p force_global old
                 | None \<Rightarrow> apply_force_global (old\<lparr>vo_force_global := force_global\<rparr>))\<rparr>;
          w = w\<lparr>in_platform_session_handoff := Some \<lparr>sh_attempt_id = in_platform_start_attempt_id w,
                sh_options = in_last_vpn_options w, sh_network = sn_network (in_snapshot w),
                sh_updated_at = mo_nanos mo\<rparr>\<rparr>;
          w = persist_ignored cf mo w;
          route = (case vo_routes (in_last_vpn_options w) of [] \<Rightarrow> None | r # _ \<Rightarrow> Some r)
      in push_diag_locked mo ''info'' (''force_global='' @ (if force_global then ''true'' else ''false'')
           @ '' routes='' @ address_text route) w)"

definition set_active_force_global ::
    "('b, 'm) config \<Rightarrow> moment \<Rightarrow> bool \<Rightarrow> ('b, 'm) world \<Rightarrow> ('b, 'm) world \<times> (str, bool) result" where
  "set_active_force_global cf mo force_global w =
     (case active_id w of
        None \<Rightarrow> (w, Err ''no active connection'')
      | Some i \<Rightarrow>
          if find_profile i (connections_of w) = None then (w, Err (''unknown profile '' @ i))
          else
            bind_in (persist_profiles cf mo
                (set_connections (update_first i (\<lambda>p. p\<lparr>pf_force_global := force_global\<rparr>) (connections_of w)) w)) (\<lambda>_ w.
              if is_active (lifecycle_of w) \<or> in_platform_vpn_running w \<or> in_platform_vpn_starting w
              then (rebuild_live_session cf mo force_global i w, Ok True) else (w, Ok False)))"

subsection \<open>Appearance, snapshot, authentication, logs\<close>

definition appearance_preferences :: "('b, 'm) world \<Rightarrow> str \<times> str" where
  "appearance_preferences w = (pr_language (in_preferences w), pr_theme (in_preferences w))"

definition set_appearance_preferences ::
    "('b, 'm) config \<Rightarrow> moment \<Rightarrow> str \<Rightarrow> str \<Rightarrow> ('b, 'm) world \<Rightarrow> ('b, 'm) world \<times> (str, unit) result" where
  "set_appearance_preferences cf mo language theme w =
     (if language \<notin> {''system'', ''zh-CN'', ''en''} then (w, Err ''unsupported language preference'')
      else if theme \<notin> {''system'', ''light'', ''dark''} then (w, Err ''unsupported theme preference'')
      else persist_preferences_locked cf mo
             (w\<lparr>in_preferences := (in_preferences w)\<lparr>pr_language := language, pr_theme := theme\<rparr>\<rparr>))"

definition set_diagnostics :: "diagnostic_entry list \<Rightarrow> ('b, 'm) world \<Rightarrow> ('b, 'm) world" where
  "set_diagnostics d w = w\<lparr>in_snapshot := (in_snapshot w)\<lparr>sn_diagnostics := d\<rparr>\<rparr>"

text \<open>\<open>takes\<close> says which lines of the runtime log its appender accepts.\<close>

definition snapshot ::
    "('b, 'm) config \<Rightarrow> (nat \<Rightarrow> moment) \<Rightarrow> (captured_log \<Rightarrow> bool) \<Rightarrow> ('b, 'm) world \<Rightarrow> ('b, 'm) world \<times> session_snapshot" where
  "snapshot cf ev takes w =
     (let w = refresh_stats_locked (ev 1) (synced cf (ev 0) w);
          w = w\<lparr>in_logs := log_sync_session (mo_log (ev 1)) (in_logs w)\<rparr>;
          w = w\<lparr>en_runtime_logs := runtime_sync (mo_log (ev 1)) takes (en_runtime_logs w)\<rparr>;
          w = set_diagnostics (if log_enabled (in_logs w)
                then merge_platform_logs (merged_logs (lb_entries (in_logs w)) (runtime_entries (en_runtime_logs w)))
                       (in_platform_diagnostics w)
                else []) w;
          w = set_pending_auth (auth_pending (en_auth w)) w
      in (w, in_snapshot w))"

definition submit_auth_challenge :: "auth_challenge_reply \<Rightarrow> ('b, 'm) world \<Rightarrow> ('b, 'm) world \<times> (str, unit) result" where
  "submit_auth_challenge reply w = (case submit reply (en_auth w) of (a, r) \<Rightarrow> (w\<lparr>en_auth := a\<rparr>, r))"

definition cancel_auth_challenge :: "('b, 'm) world \<Rightarrow> ('b, 'm) world" where
  "cancel_auth_challenge w = set_pending_auth None (w\<lparr>en_auth := abort (en_auth w)\<rparr>)"

definition forget_logs :: "('b, 'm) world \<Rightarrow> ('b, 'm) world" where
  "forget_logs w = set_diagnostics []
     (w\<lparr>in_platform_diagnostics := [], en_runtime_logs := runtime_clear (en_runtime_logs w)\<rparr>)"

text \<open>\<open>removed\<close> says whether the last error file could be removed; the outcomes are ignored.\<close>

definition clear_diagnostics :: "bool \<Rightarrow> ('b, 'm) world \<Rightarrow> ('b, 'm) world" where
  "clear_diagnostics removed w =
     (let w = forget_logs (w\<lparr>in_logs := log_clear (in_logs w)\<rparr>)
      in w\<lparr>wd_removed := wd_removed w @ map (path_join (in_home w))
             [''openconnect-progress.log'', ''openconnect-progress.log.1'', ''last-connect-error.txt''],
           wd_last_error := (if removed then None else wd_last_error w)\<rparr>)"

text \<open>
  Switching the recording: \<open>before\<close> is the recording status, \<open>switched\<close> the outcome of writing or removing the marker,
  \<open>after\<close> the log files as they are from then on.
\<close>

definition set_log_recording_enabled ::
    "moment \<Rightarrow> (str, log_recording_status) result \<Rightarrow> (str, unit) result \<Rightarrow> moment
       \<Rightarrow> (str, log_recording_status) result \<Rightarrow> bool \<Rightarrow> ('b, 'm) world \<Rightarrow> ('b, 'm) world \<times> (str, log_recording_status) result" where
  "set_log_recording_enabled mo before switched after status enabled w =
     try_in w before (\<lambda>st.
       if ls_enabled st = enabled then (w, before)
       else if enabled then
         (let w = forget_logs (w\<lparr>in_logs := log_clear (in_logs w)\<rparr>)
          in try_in w switched (\<lambda>_.
               (push_diag_locked after ''info'' ''log recording enabled''
                  (w\<lparr>in_logs := log_sync_session (mo_log after) (in_logs w)\<rparr>), status)))
       else
         (let w = push_diag_locked mo ''info'' ''log recording disabled'' w
          in try_in w switched (\<lambda>_.
               (forget_logs (w\<lparr>in_logs := log_sync_session (mo_log after) (in_logs w)\<rparr>), status))))"

end
