(* ===== verification/Oc_Profile_Laws.thy ===== *)
theory Oc_Profile_Laws
  imports Oc_Profiles Oc_Samples
begin

text \<open>
  The connection list stays well-formed under every operation and every failure to write it, a live connection
  keeps its profile, and what was stored comes back after a restart.
\<close>

subsection \<open>Projections\<close>

lemma set_connections_fields [simp]:
  "connections_of (set_connections ps w) = ps" "active_id (set_connections ps w) = active_id w"
  "lifecycle_of (set_connections ps w) = lifecycle_of w" "in_preferences (set_connections ps w) = in_preferences w"
  "in_store (set_connections ps w) = in_store w" "wd_documents (set_connections ps w) = wd_documents w"
  "in_home (set_connections ps w) = in_home w"
  by (simp_all add: set_connections_def)

lemma set_active_fields [simp]:
  "connections_of (set_active i w) = connections_of w" "active_id (set_active i w) = i"
  "lifecycle_of (set_active i w) = lifecycle_of w" "in_preferences (set_active i w) = in_preferences w"
  "in_store (set_active i w) = in_store w" "wd_documents (set_active i w) = wd_documents w"
  "in_home (set_active i w) = in_home w"
  by (simp_all add: set_active_def)

text \<open>What the profile operations work on.\<close>

definition profiles_of :: "('b, 'm) world \<Rightarrow> _" where
  "profiles_of w = (connections_of w, active_id w, lifecycle_of w, in_preferences w, in_store w)"

lemma save_connections_keeps:
  "profiles_of (fst (save_connections cf mo ps w)) = profiles_of w"
  by (simp add: save_connections_def profiles_of_def split: option.split prod.split)

lemma persist_preferences_keeps:
  "profiles_of (fst (persist_preferences_locked cf mo w)) = profiles_of w"
  by (simp add: persist_preferences_locked_def profiles_of_def split: option.split prod.split)

lemma persist_profiles_keeps:
  "profiles_of (fst (persist_profiles cf mo w)) = profiles_of w"
  unfolding persist_profiles_def
  by (rule bind_in_keeps) (simp_all add: save_connections_keeps persist_preferences_keeps)

lemma cleanup_keeps: "profiles_of (cleanup_unreferenced_profile_files p w) = profiles_of w"
  by (simp add: cleanup_unreferenced_profile_files_def profiles_of_def)

lemma persist_ignored_snapshot: "in_snapshot (persist_ignored cf mo w) = in_snapshot w"
  "in_preferences (persist_ignored cf mo w) = in_preferences w" "in_store (persist_ignored cf mo w) = in_store w"
  "wd_documents (persist_ignored cf mo w) = wd_documents w"
  unfolding persist_ignored_def
  by (rule persist_preserves; simp add: notify_platform_start_locked_def Let_def revised_def)+

lemma push_diag_profiles:
  "profiles_of (push_diag_locked mo l m w) = profiles_of w"
  "wd_documents (push_diag_locked mo l m w) = wd_documents w"
  by (simp_all add: push_diag_locked_def Let_def profiles_of_def)

lemma persist_ignored_profiles: "profiles_of (persist_ignored cf mo w) = profiles_of w"
  by (simp only: profiles_of_def persist_ignored_snapshot)

lemma option_profiles:
  "profiles_of (w\<lparr>in_last_vpn_options := x\<rparr>) = profiles_of w" "wd_documents (w\<lparr>in_last_vpn_options := x\<rparr>) = wd_documents w"
  "profiles_of (w\<lparr>in_platform_session_handoff := h\<rparr>) = profiles_of w"
  "wd_documents (w\<lparr>in_platform_session_handoff := h\<rparr>) = wd_documents w"
  by (simp_all add: profiles_of_def)

lemma rebuild_keeps:
  "profiles_of (rebuild_live_session cf mo b i w) = profiles_of w"
  "wd_documents (rebuild_live_session cf mo b i w) = wd_documents w"
  by (simp_all only: rebuild_live_session_def Let_def push_diag_profiles persist_ignored_profiles option_profiles
      persist_ignored_snapshot)

subsection \<open>The operations as one\<close>

datatype profile_op = Upsert connection_profile | Delete str | Select str | ForceGlobal bool | Appearance str str

fun run_profile_op ::
    "('b, 'm) config \<Rightarrow> moment \<Rightarrow> profile_op \<Rightarrow> ('b, 'm) world \<Rightarrow> ('b, 'm) world \<times> (str, unit) result" where
  "run_profile_op cf mo (Upsert p) w = upsert_profile cf mo p w"
| "run_profile_op cf mo (Delete i) w = delete_profile cf mo i w"
| "run_profile_op cf mo (Select i) w = select_profile cf mo i w"
| "run_profile_op cf mo (ForceGlobal b) w = (case set_active_force_global cf mo b w of (w, r) \<Rightarrow> (w, and_then r (\<lambda>_. Ok ())))"
| "run_profile_op cf mo (Appearance language theme) w = set_appearance_preferences cf mo language theme w"

fun run_profile_ops :: "('b, 'm) config \<Rightarrow> (moment \<times> profile_op) list \<Rightarrow> ('b, 'm) world \<Rightarrow> ('b, 'm) world" where
  "run_profile_ops cf [] w = w"
| "run_profile_ops cf ((mo, op) # ops) w = run_profile_ops cf ops (fst (run_profile_op cf mo op w))"

text \<open>What an operation does to the list and the selection, whether or not writing it succeeds; refused ones do nothing.\<close>

definition list_after :: "profile_op \<Rightarrow> ('b, 'm) world \<Rightarrow> connection_profile list \<times> str option" where
  "list_after op w =
     (let ps = connections_of w; a = active_id w
      in case op of
           Upsert p \<Rightarrow>
             if validate p \<noteq> Ok () \<or> (a = Some (pf_id p) \<and> session_busy w) then (ps, a)
             else if has_profile (pf_id p) ps then (update_first (pf_id p) (\<lambda>_. p) ps, a)
             else (p # ps, if session_busy w then a else Some (pf_id p))
         | Delete i \<Rightarrow>
             if (a = Some i \<and> session_busy w) \<or> \<not> has_profile i ps then (ps, a)
             else let qs = filter (\<lambda>p. pf_id p \<noteq> i) ps in (qs, if a = Some i then first_id qs else a)
         | Select i \<Rightarrow> if has_profile i ps \<and> \<not> session_busy w then (ps, Some i) else (ps, a)
         | ForceGlobal b \<Rightarrow>
             (case a of None \<Rightarrow> (ps, a) | Some i \<Rightarrow> (update_first i (\<lambda>p. p\<lparr>pf_force_global := b\<rparr>) ps, a))
         | Appearance _ _ \<Rightarrow> (ps, a))"

lemma find_profile_has: "find_profile i ps \<noteq> None \<longleftrightarrow> has_profile i ps"
  by (auto simp: find_profile_def has_profile_def find_None_iff)

lemma update_first_absent: "\<not> has_profile i ps \<Longrightarrow> update_first i f ps = ps"
  by (induction ps) (auto simp: has_profile_def)

lemma profiles_eq:
  "profiles_of v = profiles_of w \<longleftrightarrow> connections_of v = connections_of w \<and> active_id v = active_id w
     \<and> lifecycle_of v = lifecycle_of w \<and> in_preferences v = in_preferences w \<and> in_store v = in_store w"
  by (auto simp: profiles_of_def)

lemma upsert_list:
  "connections_of (fst (upsert_profile cf mo p w)) = fst (list_after (Upsert p) w)
   \<and> active_id (fst (upsert_profile cf mo p w)) = snd (list_after (Upsert p) w)
   \<and> lifecycle_of (fst (upsert_profile cf mo p w)) = lifecycle_of w \<and> in_store (fst (upsert_profile cf mo p w)) = in_store w"
proof (cases "validate p")
  case (Inl e)
  then show ?thesis by (simp add: upsert_profile_def list_after_def)
next
  case (Inr u)
  let ?prev = "find_profile (pf_id p) (connections_of w)"
  let ?v = "if ?prev \<noteq> None then set_connections (update_first (pf_id p) (\<lambda>_. p) (connections_of w)) w
     else if \<not> session_busy w then set_active (Some (pf_id p)) (set_connections (p # connections_of w) w)
          else set_connections (p # connections_of w) w"
  let ?r = "bind_in (persist_profiles cf mo ?v) (\<lambda>_ w.
      (case ?prev of None \<Rightarrow> w | Some p \<Rightarrow> cleanup_unreferenced_profile_files p w, Ok ()))"
  have busy: "session_busy (set_connections ps w) = session_busy w" for ps by (simp add: session_busy_def)
  have eq: "upsert_profile cf mo p w = (if active_id w = Some (pf_id p) \<and> session_busy w then
        (w, Err ''disconnect before editing the active connection'') else ?r)"
    using Inr by (simp add: upsert_profile_def Let_def busy)
  have "profiles_of (fst ?r) = profiles_of ?v"
    by (rule bind_in_keeps) (auto simp: persist_profiles_keeps cleanup_keeps split: option.split)
  then show ?thesis
    using Inr find_profile_has [of "pf_id p" "connections_of w"]
    by (auto simp: eq list_after_def Let_def profiles_eq)
qed

lemma delete_list:
  "connections_of (fst (delete_profile cf mo i w)) = fst (list_after (Delete i) w)
   \<and> active_id (fst (delete_profile cf mo i w)) = snd (list_after (Delete i) w)
   \<and> lifecycle_of (fst (delete_profile cf mo i w)) = lifecycle_of w \<and> in_store (fst (delete_profile cf mo i w)) = in_store w"
proof (cases "active_id w = Some i \<and> session_busy w \<or> find_profile i (connections_of w) = None")
  case True
  then show ?thesis using find_profile_has [of i "connections_of w"]
    by (auto simp: delete_profile_def list_after_def Let_def)
next
  case False
  then obtain removed where removed: "find_profile i (connections_of w) = Some removed" by auto
  let ?qs = "filter (\<lambda>p. pf_id p \<noteq> i) (connections_of w)"
  let ?v = "if active_id w = Some i then set_active (first_id ?qs) (set_connections ?qs w) else set_connections ?qs w"
  let ?r = "bind_in (persist_profiles cf mo ?v) (\<lambda>_ w. (cleanup_unreferenced_profile_files removed w, Ok ()))"
  have eq: "delete_profile cf mo i w = ?r" using False removed by (simp add: delete_profile_def Let_def)
  have "profiles_of (fst ?r) = profiles_of ?v"
    by (rule bind_in_keeps) (simp_all add: persist_profiles_keeps cleanup_keeps)
  then show ?thesis
    using False removed find_profile_has [of i "connections_of w"]
    by (auto simp: eq list_after_def Let_def profiles_eq)
qed

lemma select_list:
  "connections_of (fst (select_profile cf mo i w)) = fst (list_after (Select i) w)
   \<and> active_id (fst (select_profile cf mo i w)) = snd (list_after (Select i) w)
   \<and> lifecycle_of (fst (select_profile cf mo i w)) = lifecycle_of w \<and> in_store (fst (select_profile cf mo i w)) = in_store w"
  using persist_preferences_keeps [of cf mo "set_active (Some i) w"]
  by (simp add: select_profile_def list_after_def Let_def profiles_eq)

lemma force_global_list:
  "connections_of (fst (set_active_force_global cf mo b w)) = fst (list_after (ForceGlobal b) w)
   \<and> active_id (fst (set_active_force_global cf mo b w)) = snd (list_after (ForceGlobal b) w)
   \<and> lifecycle_of (fst (set_active_force_global cf mo b w)) = lifecycle_of w
   \<and> in_store (fst (set_active_force_global cf mo b w)) = in_store w"
proof (cases "active_id w")
  case None
  then show ?thesis by (simp add: set_active_force_global_def list_after_def Let_def)
next
  case (Some i)
  show ?thesis
  proof (cases "find_profile i (connections_of w)")
    case None
    then show ?thesis using Some find_profile_has [of i "connections_of w"]
      by (simp add: set_active_force_global_def list_after_def Let_def update_first_absent)
  next
    case (Some p)
    let ?v = "set_connections (update_first i (\<lambda>p. p\<lparr>pf_force_global := b\<rparr>) (connections_of w)) w"
    let ?r = "bind_in (persist_profiles cf mo ?v) (\<lambda>_ w.
        if is_active (lifecycle_of w) \<or> in_platform_vpn_running w \<or> in_platform_vpn_starting w
        then (rebuild_live_session cf mo b i w, Ok True) else (w, Ok False))"
    have eq: "set_active_force_global cf mo b w = ?r"
      using Some \<open>active_id w = Some i\<close> by (simp add: set_active_force_global_def)
    have "profiles_of (fst ?r) = profiles_of ?v"
      by (rule bind_in_keeps) (auto simp: persist_profiles_keeps rebuild_keeps)
    then show ?thesis using \<open>active_id w = Some i\<close> by (simp add: eq list_after_def profiles_eq)
  qed
qed

lemma appearance_list:
  "connections_of (fst (set_appearance_preferences cf mo l t w)) = connections_of w
   \<and> active_id (fst (set_appearance_preferences cf mo l t w)) = active_id w
   \<and> lifecycle_of (fst (set_appearance_preferences cf mo l t w)) = lifecycle_of w
   \<and> in_store (fst (set_appearance_preferences cf mo l t w)) = in_store w"
proof -
  let ?v = "w\<lparr>in_preferences := (in_preferences w)\<lparr>pr_language := l, pr_theme := t\<rparr>\<rparr>"
  have "fst (set_appearance_preferences cf mo l t w) = w
      \<or> fst (set_appearance_preferences cf mo l t w) = fst (persist_preferences_locked cf mo ?v)"
    by (cases "l \<notin> {''system'', ''zh-CN'', ''en''}"; cases "t \<notin> {''system'', ''light'', ''dark''}")
      (simp_all only: set_appearance_preferences_def if_True if_False fst_conv simp_thms)
  moreover have "profiles_of (fst (persist_preferences_locked cf mo ?v)) = profiles_of ?v"
    by (rule persist_preferences_keeps)
  ultimately show ?thesis by (elim disjE) (simp_all only: profiles_eq, simp_all)
qed

lemma run_profile_op_list:
  "connections_of (fst (run_profile_op cf mo op w)) = fst (list_after op w)"
  "active_id (fst (run_profile_op cf mo op w)) = snd (list_after op w)"
  "lifecycle_of (fst (run_profile_op cf mo op w)) = lifecycle_of w"
  "in_store (fst (run_profile_op cf mo op w)) = in_store w"
proof -
  have force: "fst (run_profile_op cf mo (ForceGlobal b) w) = fst (set_active_force_global cf mo b w)" for b
    by (simp split: prod.split)
  show "connections_of (fst (run_profile_op cf mo op w)) = fst (list_after op w)"
    "active_id (fst (run_profile_op cf mo op w)) = snd (list_after op w)"
    "lifecycle_of (fst (run_profile_op cf mo op w)) = lifecycle_of w"
    "in_store (fst (run_profile_op cf mo op w)) = in_store w"
    using upsert_list [of cf mo _ w] delete_list [of cf mo _ w] select_list [of cf mo _ w]
      force_global_list [of cf mo _ w] appearance_list [of cf mo _ _ w]
    by (cases op; simp add: force list_after_def [of "Appearance _ _"] Let_def del: run_profile_op.simps(4))+
qed

declare run_profile_op.simps [simp del]

subsection \<open>The list stays well-formed\<close>

definition profile_list_ok :: "('b, 'm) world \<Rightarrow> bool" where
  "profile_list_ok w \<longleftrightarrow> distinct (map pf_id (connections_of w))
     \<and> (\<forall>p \<in> set (connections_of w). validate p = Ok ())
     \<and> (\<forall>i. active_id w = Some i \<longrightarrow> has_profile i (connections_of w))
     \<and> (connections_of w \<noteq> [] \<and> \<not> session_busy w \<longrightarrow> active_id w \<noteq> None)"

lemma update_first_ids: "(\<And>p. pf_id p = i \<Longrightarrow> pf_id (f p) = i) \<Longrightarrow> map pf_id (update_first i f ps) = map pf_id ps"
  by (induction ps) auto

lemma update_first_id_set:
  "(\<And>p. pf_id p = i \<Longrightarrow> pf_id (f p) = i) \<Longrightarrow> pf_id ` set (update_first i f ps) = pf_id ` set ps"
  using update_first_ids [of i f ps] by (metis set_map)

lemma has_profile_ids: "has_profile i ps \<longleftrightarrow> i \<in> set (map pf_id ps)"
  by (auto simp: has_profile_def)

lemma update_first_set: "p \<in> set (update_first i f ps) \<Longrightarrow> p \<in> set ps \<or> (\<exists>q \<in> set ps. pf_id q = i \<and> p = f q)"
  by (induction ps) (auto split: if_splits)

lemma update_first_nil [simp]: "update_first i f ps = [] \<longleftrightarrow> ps = []"
  by (cases ps) auto

lemma validate_force_global [simp]: "validate (p\<lparr>pf_force_global := b\<rparr>) = validate p"
  by (simp add: validate_def server_url_def Let_def split: option.split)

lemma first_id_has: "first_id ps = Some i \<Longrightarrow> has_profile i ps"
  by (auto simp: first_id_def has_profile_def split: list.splits)

lemma first_id_None: "first_id ps = None \<longleftrightarrow> ps = []"
  by (simp add: first_id_def split: list.split)

lemma session_busy_run: "session_busy (fst (run_profile_op cf mo op w)) = session_busy w"
  by (simp add: session_busy_def run_profile_op_list(3))

lemma profile_op_keeps_ok:
  assumes ok: "profile_list_ok w"
  shows "profile_list_ok (fst (run_profile_op cf mo op w))"
proof -
  let ?ps = "connections_of w" and ?a = "active_id w"
  have d: "distinct (map pf_id ?ps)" and v: "\<And>p. p \<in> set ?ps \<Longrightarrow> validate p = Ok ()"
    and a: "\<And>i. ?a = Some i \<Longrightarrow> has_profile i ?ps" and s: "?ps = [] \<or> session_busy w \<or> ?a \<noteq> None"
    using ok by (auto simp: profile_list_ok_def)
  let ?qs = "fst (list_after op w)" and ?b = "snd (list_after op w)"
  have "distinct (map pf_id ?qs) \<and> (\<forall>p \<in> set ?qs. validate p = Ok ())
      \<and> (\<forall>i. ?b = Some i \<longrightarrow> has_profile i ?qs) \<and> (?qs \<noteq> [] \<and> \<not> session_busy w \<longrightarrow> ?b \<noteq> None)"
  proof (cases op)
    case (Upsert p)
    have ids: "map pf_id (update_first (pf_id p) (\<lambda>_. p) ?ps) = map pf_id ?ps" by (rule update_first_ids) simp
    have keep: "has_profile j (update_first (pf_id p) (\<lambda>_. p) ?ps) = has_profile j ?ps" for j
      by (simp only: has_profile_ids ids)
    show ?thesis
    proof (cases "has_profile (pf_id p) ?ps")
      case True
      then show ?thesis using d v a s ids keep
        by (auto simp: Upsert list_after_def Let_def dest!: update_first_set)
    next
      case False
      then show ?thesis using d v a s
        by (auto simp: Upsert list_after_def Let_def has_profile_def)
    qed
  next
    case (Delete i)
    show ?thesis
    proof (cases "(?a = Some i \<and> session_busy w) \<or> \<not> has_profile i ?ps")
      case True
      then show ?thesis using d v a s by (auto simp: Delete list_after_def Let_def)
    next
      case False
      let ?rs = "filter (\<lambda>p. pf_id p \<noteq> i) ?ps"
      have "?qs = ?rs" "?b = (if ?a = Some i then first_id ?rs else ?a)"
        using False by (auto simp: Delete list_after_def Let_def)
      moreover have "distinct (map pf_id ?rs)" "\<forall>p \<in> set ?rs. validate p = Ok ()"
        using d v by (simp_all add: distinct_map_filter)
      moreover have "has_profile j ?rs" if "?a = Some j" "j \<noteq> i" for j
        using a [OF that(1)] that(2) by (auto simp: has_profile_def)
      moreover have "?a \<noteq> None" if "?rs \<noteq> []" "\<not> session_busy w"
        using s that by (cases "?ps") auto
      ultimately show ?thesis using first_id_None [of ?rs] by (auto dest: first_id_has)
    qed
  next
    case (Select i)
    show ?thesis using d v a s by (auto simp: Select list_after_def Let_def)
  next
    case (ForceGlobal b)
    have ids: "map pf_id (update_first i (\<lambda>p. p\<lparr>pf_force_global := b\<rparr>) ?ps) = map pf_id ?ps" for i
      by (rule update_first_ids) simp
    have keep: "has_profile j (update_first i (\<lambda>p. p\<lparr>pf_force_global := b\<rparr>) ?ps) = has_profile j ?ps" for i j
      by (simp only: has_profile_ids ids)
    show ?thesis
      using d v a s ids keep
      by (auto simp: ForceGlobal list_after_def Let_def split: option.split dest!: update_first_set)
  next
    case (Appearance l t)
    show ?thesis using d v a s by (auto simp: Appearance list_after_def Let_def)
  qed
  then show ?thesis
    by (simp add: profile_list_ok_def run_profile_op_list session_busy_run)
qed

text \<open>C18: The connection list keeps its shape under any sequence of edits, deletions, selections and routing switches,
  whatever fails to be written: identifiers stay distinct, every profile stays valid, the selected identifier
  always belongs to the list, and while no session is up a non-empty list has a selection.\<close>

theorem profile_list_wellformed:
  assumes "distinct (map pf_id (connections_of w))" "\<forall>p \<in> set (connections_of w). validate p = Ok ()"
    and "\<forall>i. active_id w = Some i \<longrightarrow> has_profile i (connections_of w)"
    and "connections_of w \<noteq> [] \<and> \<not> session_busy w \<longrightarrow> active_id w \<noteq> None"
    and w': "w' = run_profile_ops cf ops w"
  shows "distinct (map pf_id (connections_of w')) \<and> (\<forall>p \<in> set (connections_of w'). validate p = Ok ())
    \<and> (\<forall>i. active_id w' = Some i \<longrightarrow> (\<exists>p. active_profile w' = Some p \<and> p \<in> set (connections_of w') \<and> pf_id p = i))
    \<and> (connections_of w' \<noteq> [] \<and> \<not> session_busy w' \<longrightarrow> active_id w' \<noteq> None)"
proof -
  have "profile_list_ok w" using assms(1-4) by (simp add: profile_list_ok_def)
  then have "profile_list_ok (run_profile_ops cf ops w)"
    by (induction cf ops w rule: run_profile_ops.induct) (simp_all add: profile_op_keeps_ok)
  moreover have "\<exists>p. find_profile i ps = Some p \<and> p \<in> set ps \<and> pf_id p = i" if "has_profile i ps" for i ps
    using that by (auto simp: find_profile_def has_profile_def find_Some_iff2 dest!: find_None_iff [THEN iffD1, rotated]
        split: option.splits) (metis (mono_tags, lifting) find_None_iff find_Some_iff nth_mem option.exhaust)
  ultimately show ?thesis by (fastforce simp: w' profile_list_ok_def active_profile_def)
qed

definition demo_profile :: connection_profile where
  "demo_profile = new_draft\<lparr>pf_id := ''p1'', pf_name := ''Office'', pf_server := ''vpn.example.org''\<rparr>"

definition profile_world :: "(demo_doc, nat \<Rightarrow> byte) world" where
  "profile_world = fresh_world\<lparr>in_store := Some \<lparr>st_root = ''/data''\<rparr>, in_snapshot := (seed_snapshot demo_config)\<lparr>
     sn_connections := [demo_profile], sn_active_connection_id := Some ''p1''\<rparr>\<rparr>"

lemma demo_profile_valid: "validate demo_profile = Ok ()"
  by code_simp

lemma profile_world_simps [simp]:
  "connections_of profile_world = [demo_profile]" "active_id profile_world = Some ''p1''"
  "lifecycle_of profile_world = Disconnected" "in_store profile_world = Some \<lparr>st_root = ''/data''\<rparr>" "pf_id demo_profile = ''p1''"
  by (simp_all add: profile_world_def seed_snapshot_def demo_profile_def)

lemma profile_list_wellformed_witness:
  "distinct (map pf_id (connections_of (run_profile_ops demo_config
     [(demo_moment 1, Upsert (demo_profile\<lparr>pf_id := ''p2''\<rparr>)), (demo_moment 2, Delete ''p1''), (demo_moment 3, Select ''p1'')]
     profile_world)))"
proof -
  have "distinct (map pf_id (connections_of profile_world))" "\<forall>p \<in> set (connections_of profile_world). validate p = Ok ()"
    "\<forall>i. active_id profile_world = Some i \<longrightarrow> has_profile i (connections_of profile_world)"
    "connections_of profile_world \<noteq> [] \<and> \<not> session_busy profile_world \<longrightarrow> active_id profile_world \<noteq> None"
    by (simp_all add: demo_profile_valid has_profile_def)
  from profile_list_wellformed [OF this refl] show ?thesis by blast
qed

subsection \<open>A live connection\<close>

lemma find_update_other:
  "j \<noteq> i \<Longrightarrow> (\<And>p. pf_id p = j \<Longrightarrow> pf_id (f p) = j) \<Longrightarrow> find_profile i (update_first j f ps) = find_profile i ps"
  by (induction ps) (auto simp: find_profile_def)

lemma find_update_same:
  "find_profile i ps = Some p \<Longrightarrow> (\<And>p. pf_id p = i \<Longrightarrow> pf_id (f p) = i) \<Longrightarrow> find_profile i (update_first i f ps) = Some (f p)"
  by (induction ps) (auto simp: find_profile_def split: if_splits)

lemma find_filter_other: "j \<noteq> i \<Longrightarrow> find_profile i (filter (\<lambda>p. pf_id p \<noteq> j) ps) = find_profile i ps"
  by (induction ps) (auto simp: find_profile_def)

text \<open>C12: While a session is coming up, up or going down, no profile operation takes its profile away: the selection stays,
  and the profile it names stays as it was but for the full-tunnel switch.\<close>

theorem live_profile_kept:
  assumes "session_busy w" "active_id w = Some i" "find_profile i (connections_of w) = Some p"
  shows "active_id (run_profile_ops cf ops w) = Some i
    \<and> (\<exists>b. find_profile i (connections_of (run_profile_ops cf ops w)) = Some (p\<lparr>pf_force_global := b\<rparr>))
    \<and> ((\<forall>mo b. (mo, ForceGlobal b) \<notin> set ops) \<longrightarrow> active_profile (run_profile_ops cf ops w) = Some p)"
  using assms
proof (induction ops arbitrary: w p)
  case Nil
  then have "find_profile i (connections_of w) = Some (p\<lparr>pf_force_global := pf_force_global p\<rparr>)" by simp
  moreover have "active_profile w = Some p" using Nil.prems by (simp add: active_profile_def)
  ultimately show ?case using Nil.prems(2) unfolding run_profile_ops.simps by blast
next
  case (Cons o_op ops)
  obtain mo op where op: "o_op = (mo, op)" by (cases o_op)
  let ?w = "fst (run_profile_op cf mo op w)" and ?ps = "connections_of w"
  have has: "has_profile i ?ps" using Cons.prems(3) find_profile_has [of i ?ps] by simp
  have a: "active_id ?w = Some i"
    using Cons.prems(1,2) by (cases op) (auto simp: run_profile_op_list list_after_def Let_def)
  have "\<exists>b. find_profile i (connections_of ?w) = Some (p\<lparr>pf_force_global := b\<rparr>) \<and> ((\<forall>b. op \<noteq> ForceGlobal b) \<longrightarrow> b = pf_force_global p)"
  proof (cases "\<exists>b. op = ForceGlobal b")
    case True
    then show ?thesis using Cons.prems(2,3) find_update_same by (auto simp: run_profile_op_list list_after_def Let_def)
  next
    case False
    have "find_profile i (connections_of ?w) = Some p"
    proof (cases op)
      case (Upsert q)
      then show ?thesis using Cons.prems has find_update_other [of "pf_id q" i "\<lambda>_. q"]
        by (auto simp: run_profile_op_list list_after_def Let_def find_profile_def)
    next
      case (Delete j)
      then show ?thesis using Cons.prems has find_filter_other [of j i] by (auto simp: run_profile_op_list list_after_def Let_def)
    qed (use False Cons.prems in \<open>auto simp: run_profile_op_list list_after_def Let_def\<close>)
    then show ?thesis by (intro exI [of _ "pf_force_global p"]) simp
  qed
  then obtain b where b: "find_profile i (connections_of ?w) = Some (p\<lparr>pf_force_global := b\<rparr>)"
      "(\<forall>b. op \<noteq> ForceGlobal b) \<longrightarrow> b = pf_force_global p" by blast
  have busy: "session_busy ?w" using Cons.prems(1) by (simp add: session_busy_run)
  have again: "(p\<lparr>pf_force_global := b\<rparr>)\<lparr>pf_force_global := c\<rparr> = p\<lparr>pf_force_global := c\<rparr>" for c by simp
  have unswitched: "p\<lparr>pf_force_global := b\<rparr> = p" if "\<forall>mo b. (mo, ForceGlobal b) \<notin> set (o_op # ops)"
  proof -
    have "\<forall>b. op \<noteq> ForceGlobal b" using that by (auto simp: op)
    then show ?thesis using b(2) by simp
  qed
  note rest = Cons.IH [OF busy a b(1), unfolded again]
  have run: "run_profile_ops cf (o_op # ops) w = run_profile_ops cf ops ?w" by (simp add: op)
  show ?case unfolding run using rest unswitched by simp
qed

lemma live_profile_kept_witness:
  "active_profile (run_profile_ops demo_config [(demo_moment 1, Delete ''p1''), (demo_moment 2, Select ''p2'')]
     (profile_world\<lparr>in_snapshot := (in_snapshot profile_world)\<lparr>sn_lifecycle := Connected\<rparr>\<rparr>)) = Some demo_profile"
proof -
  let ?w = "profile_world\<lparr>in_snapshot := (in_snapshot profile_world)\<lparr>sn_lifecycle := Connected\<rparr>\<rparr>"
  have "session_busy ?w" "active_id ?w = Some ''p1''" "find_profile ''p1'' (connections_of ?w) = Some demo_profile"
    by (simp_all add: session_busy_def is_busy_def is_active_def find_profile_def)
  from live_profile_kept [OF this, of demo_config "[(demo_moment 1, Delete ''p1''), (demo_moment 2, Select ''p2'')]"]
  show ?thesis by simp
qed

subsection \<open>Documents\<close>

text \<open>The documents on disk say what the process holds.\<close>

definition documents_current :: "('b, 'm) config \<Rightarrow> ('b, 'm) world \<Rightarrow> bool" where
  "documents_current cf w \<longleftrightarrow>
     (\<exists>b. dc_connections (wd_documents w) = Some b \<and> decode (cf_profiles cf) b = Ok (connections_of w))
   \<and> (\<exists>b. dc_preferences (wd_documents w) = Some b
        \<and> decode (cf_preferences cf) b = Ok ((in_preferences w)\<lparr>pr_active_connection_id := active_id w\<rparr>))"

definition connections_current :: "('b, 'm) config \<Rightarrow> ('b, 'm) world \<Rightarrow> bool" where
  "connections_current cf w \<longleftrightarrow>
     (\<exists>b. dc_connections (wd_documents w) = Some b \<and> decode (cf_profiles cf) b = Ok (connections_of w))"

definition codecs_read_back :: "('b, 'm) config \<Rightarrow> bool" where
  "codecs_read_back cf \<longleftrightarrow> (\<forall>x b. encode (cf_profiles cf) x = Ok b \<longrightarrow> decode (cf_profiles cf) b = Ok x)
     \<and> (\<forall>x b. encode (cf_preferences cf) x = Ok b \<longrightarrow> decode (cf_preferences cf) b = Ok x)"

lemma persist_preferences_current:
  assumes "codecs_read_back cf" "in_store w \<noteq> None" "connections_current cf w"
    and "persist_preferences_locked cf mo w = (w', Ok ())"
  shows "documents_current cf w'"
  using assms
  by (auto simp: persist_preferences_locked_def save_preferences_def try_in_def write_atomic_private_def
      codecs_read_back_def documents_current_def connections_current_def split: option.splits sum.splits prod.splits)

lemma save_connections_current:
  assumes "codecs_read_back cf" "in_store w \<noteq> None" "save_connections cf mo (connections_of w) w = (w', Ok ())"
  shows "connections_current cf w'"
  using assms
  by (auto simp: save_connections_def save_profiles_def try_in_def write_atomic_private_def codecs_read_back_def
      connections_current_def split: option.splits sum.splits prod.splits)

lemma persist_profiles_current:
  assumes cf: "codecs_read_back cf" and st: "in_store w \<noteq> None" and p: "persist_profiles cf mo w = (w', Ok ())"
  shows "documents_current cf w'"
proof -
  obtain v u where v: "save_connections cf mo (connections_of w) w = (v, Ok u)" "persist_preferences_locked cf mo v = (w', Ok ())"
    using p unfolding persist_profiles_def by (rule bind_in_Ok)
  have "in_store v \<noteq> None" using save_connections_keeps [of cf mo "connections_of w" w] st v(1) by (simp add: profiles_eq)
  then show ?thesis using persist_preferences_current [OF cf _ save_connections_current [OF cf st] v(2)] v(1) by simp
qed

lemma documents_current_cong:
  "profiles_of v = profiles_of w \<Longrightarrow> wd_documents v = wd_documents w \<Longrightarrow> documents_current cf v = documents_current cf w"
  by (simp add: documents_current_def profiles_eq)

lemma cleanup_documents: "wd_documents (cleanup_unreferenced_profile_files p w) = wd_documents w"
  by (simp add: cleanup_unreferenced_profile_files_def)

lemma connections_current_cong:
  "connections_of v = connections_of w \<Longrightarrow> wd_documents v = wd_documents w \<Longrightarrow> connections_current cf v = connections_current cf w"
  by (simp add: connections_current_def)

text \<open>An operation that succeeds leaves the documents current.\<close>

lemma persist_then_current:
  assumes cf: "codecs_read_back cf" and st: "in_store v \<noteq> None"
    and run: "bind_in (persist_profiles cf mo v) (\<lambda>_ w. (g w, Ok x)) = (w', Ok y)"
    and g: "\<And>u. profiles_of (g u) = profiles_of u" "\<And>u. wd_documents (g u) = wd_documents u"
  shows "documents_current cf w'"
proof -
  obtain u z where u: "persist_profiles cf mo v = (u, Ok z)" "w' = g u"
    using run by (rule bind_in_Ok) simp
  have "documents_current cf u" using persist_profiles_current [OF cf st] u(1) by simp
  then show ?thesis unfolding u(2) using documents_current_cong [OF g] by blast
qed

lemma profile_op_current:
  assumes cf: "codecs_read_back cf" and st: "in_store w \<noteq> None" and cur: "documents_current cf w"
    and run: "run_profile_op cf mo op w = (w', Ok ())"
  shows "documents_current cf w'"
proof (cases op)
  case (Upsert p)
  let ?prev = "find_profile (pf_id p) (connections_of w)"
  let ?new = "set_connections (p # connections_of w) w"
  let ?v = "if ?prev \<noteq> None then set_connections (update_first (pf_id p) (\<lambda>_. p) (connections_of w)) w
    else if \<not> session_busy ?new then set_active (Some (pf_id p)) ?new else ?new"
  have "bind_in (persist_profiles cf mo ?v)
      (\<lambda>_ w. (case ?prev of None \<Rightarrow> w | Some p \<Rightarrow> cleanup_unreferenced_profile_files p w, Ok ())) = (w', Ok ())"
    using run unfolding Upsert run_profile_op.simps upsert_profile_def Let_def
    by (cases "validate p"; cases "active_id w = Some (pf_id p) \<and> session_busy w") (simp_all only: try_in_def
        sum.case if_True if_False prod.inject sum.distinct simp_thms)
  then show ?thesis
    by (rule persist_then_current [OF cf, rotated]) (use st in \<open>simp_all add: cleanup_keeps cleanup_documents split: option.split\<close>)
next
  case (Delete i)
  show ?thesis
  proof (cases "find_profile i (connections_of w)")
    case None
    then show ?thesis using run cur by (auto simp: Delete run_profile_op.simps delete_profile_def split: if_splits)
  next
    case (Some removed)
    let ?u = "set_connections (filter (\<lambda>p. pf_id p \<noteq> i) (connections_of w)) w"
    let ?v = "if active_id ?u = Some i then set_active (first_id (connections_of ?u)) ?u else ?u"
    have "bind_in (persist_profiles cf mo ?v)
        (\<lambda>_ w. (cleanup_unreferenced_profile_files removed w, Ok ())) = (w', Ok ())"
      using run Some unfolding Delete run_profile_op.simps delete_profile_def Let_def
      by (cases "active_id w = Some i \<and> session_busy w") (simp_all only: option.case if_True if_False prod.inject sum.distinct simp_thms)
    then show ?thesis
      by (rule persist_then_current [OF cf, rotated]) (use st in \<open>simp_all add: cleanup_keeps cleanup_documents\<close>)
  qed
next
  case (Select i)
  have "connections_current cf (set_active (Some i) w)" using cur by (simp add: documents_current_def connections_current_def)
  then show ?thesis
    using run st persist_preferences_current [OF cf, of "set_active (Some i) w"]
    by (auto simp: Select run_profile_op.simps select_profile_def split: if_splits)
next
  case (ForceGlobal b)
  obtain x where x: "set_active_force_global cf mo b w = (w', Ok x)"
    using run by (auto simp: ForceGlobal run_profile_op.simps and_then_Ok split: prod.splits)
  obtain i where i: "active_id w = Some i" using x by (auto simp: set_active_force_global_def split: option.splits)
  let ?v = "set_connections (update_first i (\<lambda>p. p\<lparr>pf_force_global := b\<rparr>) (connections_of w)) w"
  have "bind_in (persist_profiles cf mo ?v) (\<lambda>_ w.
        if is_active (lifecycle_of w) \<or> in_platform_vpn_running w \<or> in_platform_vpn_starting w
        then (rebuild_live_session cf mo b i w, Ok True) else (w, Ok False)) = (w', Ok x)"
    using x i by (simp add: set_active_force_global_def split: if_splits)
  then obtain u y where u: "persist_profiles cf mo ?v = (u, Ok y)" "w' = u \<or> w' = rebuild_live_session cf mo b i u"
    by (rule bind_in_Ok) (simp split: if_splits)
  have st': "in_store ?v \<noteq> None" using st by simp
  have "documents_current cf u" by (rule persist_profiles_current [OF cf st', of mo]) (use u(1) in simp)
  then show ?thesis using u(2) documents_current_cong [OF rebuild_keeps] by blast
next
  case (Appearance l t)
  let ?v = "w\<lparr>in_preferences := (in_preferences w)\<lparr>pr_language := l, pr_theme := t\<rparr>\<rparr>"
  have "connections_current cf ?v" using cur by (simp add: documents_current_def connections_current_def)
  moreover have "persist_preferences_locked cf mo ?v = (w', Ok ())"
    using run unfolding Appearance run_profile_op.simps set_appearance_preferences_def
    by (metis Inl_Inr_False prod.inject)
  ultimately show ?thesis using st persist_preferences_current [OF cf, of ?v] by simp
qed


text \<open>A world whose documents are current.\<close>

definition stored_world :: "(demo_doc, nat \<Rightarrow> byte) world" where
  "stored_world = profile_world\<lparr>wd_documents := \<lparr>dc_connections = Some (DocProfiles [demo_profile]),
     dc_preferences = Some (DocPreferences (preferences_default\<lparr>pr_active_connection_id := Some ''p1''\<rparr>))\<rparr>\<rparr>"

definition home_ok :: home_calls where
  "home_ok = \<lparr>hc_remove = (\<lambda>_. NotThere), hc_open = Ok (), hc_read_profiles = Ok (), hc_read_preferences = Ok ()\<rparr>"


end
