(* ===== verification/Oc_Calls.thy ===== *)
theory Oc_Calls
  imports Oc_Profiles Oc_Owner_Laws
begin

text \<open>
  The handlers of the engine as the steps of one process, and the two processes beside each other. A call names a
  handler, or one section of a handler that releases the mutex, with its arguments; the values such a section carries
  over from the sections before it are arbitrary arguments, so every interleaving of the real sections is an
  interleaving of calls. Both processes see the same journal, lease files, shared memory and documents.
\<close>

type_synonym identity = "(str, process_identity) result"

datatype fence_call =
    AdvanceIntent
  | BeginOsStop nat str
  | CompleteOsStop nat str
  | FailOsStop nat str
  | ClaimStop nat

datatype owner_call =
    BeginStart identity nat
  | BindStart identity str
  | CompleteCleanup identity str
  | RecoveryDelete str "process_identity option"
  | FailUnattached str str

datatype attempt_call =
    ReleaseBarrier str str
  | FailStart str str
  | CancelStart str
  | RequestStop str
  | SetStarting bool
  | SetStartingFor str bool
  | SetRunning bool
  | SetFailed str
  | SetFailedFor str str
  | ExpireStart
  | RefreshLiveness
  | ClearHandoff str
  | PollStart str

datatype channel_call =
    QueueBrowser str
  | TakeBrowser
  | ClearBrowser
  | SyncChanges
  | InitializeMemory "(str, unit) result" nat
  | AttachMemory int int "(ipc_error, nat) result"

datatype connection_call =
    PrepareConnect connect_request
  | PrepareNative
  | PreparedConnect connect_request nat "(str, prepared_connect) result"
  | PrepareExtension str
  | PreparedExtension session_handoff nat "vpn_options \<Rightarrow> (str, str) result" pending_session
  | AttachTun
  | AttachedTun str pending_session running_session nat str
  | Disconnect "str option"
  | Disconnected_after "str option" nat
  | SessionEnded nat "str option"
  | Tick native_report
  | Ticked native_report
  | StopSession "running_session option"

datatype profile_call =
    ConfigureHome home_calls str
  | SetProfiles "connection_profile list"
  | UpsertProfile connection_profile
  | DeleteProfile str
  | SelectProfile str
  | SetForceGlobal bool
  | SetAppearance str str
  | TakeSnapshot "captured_log \<Rightarrow> bool"
  | SubmitAuth auth_challenge_reply
  | CancelAuth
  | ClearDiagnostics bool
  | SetRecording "(str, log_recording_status) result" "(str, unit) result" "(str, log_recording_status) result" bool

datatype call =
    Fence fence_call
  | Owner owner_call
  | Attempt attempt_call
  | Channel channel_call
  | Connection connection_call
  | Profile profile_call

text \<open>The fence between stop and start.\<close>

primrec perform_fence :: "('b, 'm) config \<Rightarrow> (nat \<Rightarrow> moment) \<Rightarrow> fence_call \<Rightarrow> ('b, 'm) world \<Rightarrow> ('b, 'm) world" where
  "perform_fence cf ev AdvanceIntent w = fst (advance_platform_vpn_intent w)"
| "perform_fence cf ev (BeginOsStop e a) w = fst (begin_platform_vpn_os_stop e a w)"
| "perform_fence cf ev (CompleteOsStop e a) w = fst (complete_platform_vpn_os_stop e a w)"
| "perform_fence cf ev (FailOsStop e a) w = fst (fail_platform_vpn_os_stop e a w)"
| "perform_fence cf ev (ClaimStop e) w = fst (claim_current_platform_vpn_stop cf ev e w)"

text \<open>What writes the owner journal, claims apart.\<close>

primrec perform_owner :: "('b, 'm) config \<Rightarrow> (nat \<Rightarrow> moment) \<Rightarrow> owner_call \<Rightarrow> ('b, 'm) world \<Rightarrow> ('b, 'm) world" where
  "perform_owner cf ev (BeginStart me e) w = fst (begin_platform_vpn_start_for_intent cf ev me e w)"
| "perform_owner cf ev (BindStart me a) w = fst (bind_platform_vpn_start cf ev me a w)"
| "perform_owner cf ev (CompleteCleanup me a) w = fst (complete_platform_vpn_cleanup cf ev me a w)"
| "perform_owner cf ev (RecoveryDelete a x) w =
     fst (on_journal (delete_exact (cf_journals cf) (platform_owner_journal_path w) (mo_io (ev 0)) a x) w)"
| "perform_owner cf ev (FailUnattached a e) w = fst (fail_unattached_platform_vpn_start cf ev a e w)"

text \<open>The rest of an attempt.\<close>

primrec perform_attempt :: "('b, 'm) config \<Rightarrow> (nat \<Rightarrow> moment) \<Rightarrow> attempt_call \<Rightarrow> ('b, 'm) world \<Rightarrow> ('b, 'm) world" where
  "perform_attempt cf ev (ReleaseBarrier a r) w = fst (release_barrier cf (ev 0) a r w)"
| "perform_attempt cf ev (FailStart a e) w = fst (fail_platform_vpn_start cf ev a e w)"
| "perform_attempt cf ev (CancelStart a) w = fst (cancel_platform_vpn_start cf ev a w)"
| "perform_attempt cf ev (RequestStop a) w = fst (request_platform_vpn_stop cf ev a w)"
| "perform_attempt cf ev (SetStarting b) w = fst (set_platform_vpn_starting cf ev b w)"
| "perform_attempt cf ev (SetStartingFor a b) w = fst (set_platform_vpn_starting_for_attempt cf ev a b w)"
| "perform_attempt cf ev (SetRunning b) w = fst (set_platform_vpn_running cf ev b w)"
| "perform_attempt cf ev (SetFailed e) w = fst (set_platform_vpn_failed cf ev e w)"
| "perform_attempt cf ev (SetFailedFor a e) w = fst (set_platform_vpn_failed_for_attempt cf ev a e w)"
| "perform_attempt cf ev ExpireStart w = fst (expire_platform_vpn_start cf ev w)"
| "perform_attempt cf ev RefreshLiveness w = fst (refresh_platform_vpn_owner_liveness_locked cf ev w)"
| "perform_attempt cf ev (ClearHandoff a) w = fst (clear_platform_session_handoff cf (ev 0) a w)"
| "perform_attempt cf ev (PollStart a) w = fst (start_verdict cf ev a w)"

text \<open>The shared memory and its payloads.\<close>

primrec perform_channel :: "('b, 'm) config \<Rightarrow> (nat \<Rightarrow> moment) \<Rightarrow> channel_call \<Rightarrow> ('b, 'm) world \<Rightarrow> ('b, 'm) world" where
  "perform_channel cf ev (QueueBrowser u) w = fst (queue_platform_browser_open_request cf (ev 0) u w)"
| "perform_channel cf ev TakeBrowser w = fst (take_platform_browser_open_request cf (ev 0) w)"
| "perform_channel cf ev ClearBrowser w = fst (clear_platform_browser_open_request cf (ev 0) w)"
| "perform_channel cf ev SyncChanges w = fst (sync_platform_changes cf ev w)"
| "perform_channel cf ev (InitializeMemory r s) w = fst (initialize_platform_shared_memory cf (ev 0) r s w)"
| "perform_channel cf ev (AttachMemory f n m) w = fst (attach_platform_shared_memory cf f n m w)"

text \<open>Connecting and disconnecting.\<close>

primrec perform_connection :: "('b, 'm) config \<Rightarrow> (nat \<Rightarrow> moment) \<Rightarrow> connection_call \<Rightarrow> ('b, 'm) world \<Rightarrow> ('b, 'm) world" where
  "perform_connection cf ev (PrepareConnect r) w = fst (prepare_connect_begin cf (ev 0) r w)"
| "perform_connection cf ev PrepareNative w = prepare_native_begin (ev 0) w"
| "perform_connection cf ev (PreparedConnect r g p) w = fst (prepare_connect_finish cf (ev 0) r g p w)"
| "perform_connection cf ev (PrepareExtension a) w = fst (prepare_in_extension_begin cf (ev 0) a w)"
| "perform_connection cf ev (PreparedExtension h g j p) w = fst (prepare_in_extension_finish cf (ev 0) h g j p w)"
| "perform_connection cf ev AttachTun w = fst (attach_tun_begin w)"
| "perform_connection cf ev (AttachedTun fd p s g a) w = fst (attach_tun_finish cf (ev 0) fd p s g a w)"
| "perform_connection cf ev (Disconnect x) w = fst (disconnect_begin cf (ev 0) x w)"
| "perform_connection cf ev (Disconnected_after x g) w = fst (disconnect_finish cf (ev 0) x g w)"
| "perform_connection cf ev (SessionEnded g e) w = fst (on_native_session_ended cf (ev 0) g e w)"
| "perform_connection cf ev (Tick r) w = fst (tick_begin cf ev r w)"
| "perform_connection cf ev (Ticked r) w = tick_finish cf (ev 0) r w"
| "perform_connection cf ev (StopSession s) w = stop_session s w"

text \<open>Profiles, preferences, authentication answers, logs.\<close>

primrec perform_profile :: "('b, 'm) config \<Rightarrow> (nat \<Rightarrow> moment) \<Rightarrow> profile_call \<Rightarrow> ('b, 'm) world \<Rightarrow> ('b, 'm) world" where
  "perform_profile cf ev (ConfigureHome c h) w = fst (configure_home cf ev c h w)"
| "perform_profile cf ev (SetProfiles ps) w = fst (set_profiles cf (ev 0) ps w)"
| "perform_profile cf ev (UpsertProfile p) w = fst (upsert_profile cf (ev 0) p w)"
| "perform_profile cf ev (DeleteProfile i) w = fst (delete_profile cf (ev 0) i w)"
| "perform_profile cf ev (SelectProfile i) w = fst (select_profile cf (ev 0) i w)"
| "perform_profile cf ev (SetForceGlobal b) w = fst (set_active_force_global cf (ev 0) b w)"
| "perform_profile cf ev (SetAppearance l t) w = fst (set_appearance_preferences cf (ev 0) l t w)"
| "perform_profile cf ev (TakeSnapshot t) w = fst (snapshot cf ev t w)"
| "perform_profile cf ev (SubmitAuth r) w = fst (submit_auth_challenge r w)"
| "perform_profile cf ev CancelAuth w = cancel_auth_challenge w"
| "perform_profile cf ev (ClearDiagnostics b) w = clear_diagnostics b w"
| "perform_profile cf ev (SetRecording k s l b) w = fst (set_log_recording_enabled (ev 0) k s (ev 1) l b w)"

primrec perform :: "('b, 'm) config \<Rightarrow> (nat \<Rightarrow> moment) \<Rightarrow> call \<Rightarrow> ('b, 'm) world \<Rightarrow> ('b, 'm) world" where
  "perform cf ev (Fence c) w = perform_fence cf ev c w"
| "perform cf ev (Owner c) w = perform_owner cf ev c w"
| "perform cf ev (Attempt c) w = perform_attempt cf ev c w"
| "perform cf ev (Channel c) w = perform_channel cf ev c w"
| "perform cf ev (Connection c) w = perform_connection cf ev c w"
| "perform cf ev (Profile c) w = perform_profile cf ev c w"

text \<open>Two processes: what one of them wrote outside itself is there for the other.\<close>

datatype side = InUi | InExtension

definition share :: "('b, 'm) world \<Rightarrow> ('b, 'm) world \<Rightarrow> ('b, 'm) world" where
  "share v w = w\<lparr>wd_journal := wd_journal v, wd_issuer_lease := wd_issuer_lease v,
     wd_extension_lease := wd_extension_lease v, wd_memory := wd_memory v, wd_documents := wd_documents v\<rparr>"

fun system_step ::
    "('b, 'm) config \<Rightarrow> side \<times> (nat \<Rightarrow> moment) \<times> call \<Rightarrow> ('b, 'm) world \<times> ('b, 'm) world
       \<Rightarrow> ('b, 'm) world \<times> ('b, 'm) world" where
  "system_step cf (InUi, ev, c) (ui, ext) = (let ui = perform cf ev c ui in (ui, share ui ext))"
| "system_step cf (InExtension, ev, c) (ui, ext) = (let ext = perform cf ev c ext in (share ext ui, ext))"

end
