(* ===== verification/Oc_Settled.thy ===== *)
theory Oc_Settled
  imports Oc_Profiles Oc_Engine_Laws
begin

text \<open>
  The parts of the state that only few handlers touch: the fence between stop and start, and the owner journal.
  Every block and handler outside them is shown to leave both alone; the six that write the journal leave the fence alone.
\<close>

named_theorems settled \<open>blocks that leave the stop fence and the owner journal alone\<close>
named_theorems fence_keeps \<open>blocks that leave the stop fence alone\<close>

definition settled_of :: "('b, 'm) world \<Rightarrow> (nat \<times> nat \<times> str \<times> bool) \<times> 'b slot" where
  "settled_of w = (fence_of w, wd_journal w)"

text \<open>How such an equation passes through the forms handlers are written in.\<close>

lemma through_forms [settled]:
  "(\<And>x. settled_of (fst (k x)) = settled_of w) \<Longrightarrow> settled_of (fst (try_in w r k)) = settled_of w"
  "(\<And>x s. settled_of (fst (k2 x s)) = settled_of s) \<Longrightarrow> settled_of (fst (bind_in r2 k2)) = settled_of (fst r2)"
  "(\<And>x s. settled_of (fst (k3 s x)) = settled_of s) \<Longrightarrow> settled_of (fst (case_prod k3 r3)) = settled_of (fst r3)"
  "(\<And>x s. settled_of (k4 s x) = settled_of s) \<Longrightarrow> settled_of (case_prod k4 r4) = settled_of (fst r4)"
  by (auto intro: try_in_keeps bind_in_keeps split: prod.split)

lemma fence_through_forms [fence_keeps]:
  "(\<And>x. fence_of (fst (k x)) = fence_of w) \<Longrightarrow> fence_of (fst (try_in w r k)) = fence_of w"
  "(\<And>x s. fence_of (fst (k2 x s)) = fence_of s) \<Longrightarrow> fence_of (fst (bind_in r2 k2)) = fence_of (fst r2)"
  "(\<And>x s. fence_of (fst (k3 s x)) = fence_of s) \<Longrightarrow> fence_of (fst (case_prod k3 r3)) = fence_of (fst r3)"
  by (auto intro: try_in_keeps bind_in_keeps split: prod.split)

text \<open>The building blocks of the engine, from their parts.\<close>

lemma settled_from_parts: "fence_of v = fence_of w \<Longrightarrow> owned_of v = owned_of w \<Longrightarrow> settled_of v = settled_of w"
  by (simp add: settled_of_def owned_of_def)

lemma settled_parts [settled]:
  "settled_of (push_diag_locked mo l m w) = settled_of w" "settled_of (set_lifecycle_locked lc e w) = settled_of w"
  "settled_of (set_stats st w) = settled_of w" "settled_of (fst (persist_platform_locked cf mo w)) = settled_of w"
  "settled_of (persist_ignored cf mo w) = settled_of w" "settled_of (drop_leases w) = settled_of w"
  by (rule settled_from_parts; simp only: push_diag_parts set_lifecycle_parts set_stats_parts persist_parts
      persist_ignored_parts drop_leases_parts)+

lemma settled_envelope [settled]: "settled_of (fst (apply_platform_envelope_locked cf mo ui ex env w)) = settled_of w"
proof -
  obtain w' ack where e: "apply_platform_envelope_locked cf mo ui ex env w = (w', ack)" by (metis prod.exhaust)
  from e have "fence_of w' = fence_of w"
    by (rule envelope_cases) (elim disjE exE conjE; simp only: matching_frame_parts adopt_parts)
  moreover from e have "owned_of w' = owned_of w"
    by (rule envelope_cases) (elim disjE exE conjE; simp only: matching_frame_parts adopt_parts)
  ultimately show ?thesis unfolding e fst_conv by (rule settled_from_parts)
qed

lemma settled_sync [settled]:
  "settled_of (fst (sync_platform_locked_with_adoption cf mo ex w)) = settled_of w"
  "settled_of (fst (sync_platform_locked cf mo w)) = settled_of w" "settled_of (synced cf mo w) = settled_of w"
  by (simp_all add: synced_def sync_platform_locked_def sync_platform_locked_with_adoption_def settled
      split: option.split sum.split)

text \<open>Assignments to any other field.\<close>

lemma settled_fields [settled]:
  "settled_of (w\<lparr>in_home := x0\<rparr>) = settled_of w"
  "settled_of (w\<lparr>in_snapshot := x1\<rparr>) = settled_of w"
  "settled_of (w\<lparr>in_store := x2\<rparr>) = settled_of w"
  "settled_of (w\<lparr>in_preferences := x3\<rparr>) = settled_of w"
  "settled_of (w\<lparr>in_connected_at := x4\<rparr>) = settled_of w"
  "settled_of (w\<lparr>in_dry_run := x5\<rparr>) = settled_of w"
  "settled_of (w\<lparr>in_generation := x6\<rparr>) = settled_of w"
  "settled_of (w\<lparr>in_platform_vpn_running := x7\<rparr>) = settled_of w"
  "settled_of (w\<lparr>in_platform_vpn_starting := x8\<rparr>) = settled_of w"
  "settled_of (w\<lparr>in_platform_start_sequence := x9\<rparr>) = settled_of w"
  "settled_of (w\<lparr>in_platform_start_attempt_id := x10\<rparr>) = settled_of w"
  "settled_of (w\<lparr>in_platform_start_outcome := x11\<rparr>) = settled_of w"
  "settled_of (w\<lparr>in_platform_start_delivery_observed := x12\<rparr>) = settled_of w"
  "settled_of (w\<lparr>in_platform_extension_attached := x13\<rparr>) = settled_of w"
  "settled_of (w\<lparr>in_platform_stop_requested := x14\<rparr>) = settled_of w"
  "settled_of (w\<lparr>in_platform_extension_owner_pid := x15\<rparr>) = settled_of w"
  "settled_of (w\<lparr>in_platform_extension_owner_start_time := x16\<rparr>) = settled_of w"
  "settled_of (w\<lparr>in_platform_vpn_cleanup_complete := x17\<rparr>) = settled_of w"
  "settled_of (w\<lparr>in_platform_vpn_issuer_lease := x18\<rparr>) = settled_of w"
  "settled_of (w\<lparr>in_platform_vpn_extension_lease := x19\<rparr>) = settled_of w"
  "settled_of (w\<lparr>in_platform_watchdog_cleanup_recoverable := x20\<rparr>) = settled_of w"
  "settled_of (w\<lparr>in_platform_session_handoff := x21\<rparr>) = settled_of w"
  "settled_of (w\<lparr>in_platform_browser_request := x22\<rparr>) = settled_of w"
  "settled_of (w\<lparr>in_platform_browser_request_sequence := x23\<rparr>) = settled_of w"
  "settled_of (w\<lparr>in_last_platform_browser_request_id := x24\<rparr>) = settled_of w"
  "settled_of (w\<lparr>in_platform_local_state_updated_at := x25\<rparr>) = settled_of w"
  "settled_of (w\<lparr>in_platform_remote_state_updated_at := x26\<rparr>) = settled_of w"
  "settled_of (w\<lparr>in_platform_remote_state_seen_at := x27\<rparr>) = settled_of w"
  "settled_of (w\<lparr>in_platform_remote_stale_since := x28\<rparr>) = settled_of w"
  "settled_of (w\<lparr>in_last_vpn_options := x29\<rparr>) = settled_of w"
  "settled_of (w\<lparr>in_logs := x30\<rparr>) = settled_of w"
  "settled_of (w\<lparr>in_platform_diagnostics := x31\<rparr>) = settled_of w"
  "settled_of (w\<lparr>in_pending_native := x32\<rparr>) = settled_of w"
  "settled_of (w\<lparr>in_running_native := x33\<rparr>) = settled_of w"
  "settled_of (w\<lparr>en_ipc := x34\<rparr>) = settled_of w"
  "settled_of (w\<lparr>en_lifecycle := x35\<rparr>) = settled_of w"
  "settled_of (w\<lparr>en_start_event := x36\<rparr>) = settled_of w"
  "settled_of (w\<lparr>en_auth := x37\<rparr>) = settled_of w"
  "settled_of (w\<lparr>en_runtime_logs := x38\<rparr>) = settled_of w"
  "settled_of (w\<lparr>wd_issuer_lease := x40\<rparr>) = settled_of w"
  "settled_of (w\<lparr>wd_extension_lease := x41\<rparr>) = settled_of w"
  "settled_of (w\<lparr>wd_memory := x42\<rparr>) = settled_of w"
  "settled_of (w\<lparr>wd_cancelled := x43\<rparr>) = settled_of w"
  "settled_of (w\<lparr>wd_documents := x44\<rparr>) = settled_of w"
  "settled_of (w\<lparr>wd_removed := x45\<rparr>) = settled_of w"
  "settled_of (w\<lparr>wd_last_error := x46\<rparr>) = settled_of w"
  by (simp_all add: settled_of_def fence_of_def)

lemma settled_calls [settled]:
  "settled_of (fst (submit_auth_challenge reply w)) = settled_of w"
  "settled_of (fst (acquire_lease cf mo r w)) = settled_of w"
  "settled_of (fst (initialize_platform_shared_memory cf mo reset session w)) = settled_of w"
  "settled_of (fst (persist_preferences_locked cf mo w)) = settled_of w"
  "settled_of (fst (save_connections cf mo ps w)) = settled_of w"
  by (simp_all add: Let_def settled submit_auth_challenge_def acquire_lease_def initialize_platform_shared_memory_def
    persist_preferences_locked_def save_connections_def
    split: prod.split if_split option.split journal_read.split sum.split owner_phase.split lease_role.split
      lease_observation.split bool.split start_outcome.split)

lemma settled_blocks [settled]:
  "settled_of (drop_issuer_lease w) = settled_of w"
  "settled_of (drop_extension_lease w) = settled_of w"
  "settled_of (fst (consume_platform_browser_request_locked mo request w)) = settled_of w"
  "settled_of (fst (sync_platform_for_binding_locked cf mo attempt w)) = settled_of w"
  "settled_of (release_issuer h w) = settled_of w"
  "settled_of (release_extension h w) = settled_of w"
  "settled_of (stop_session s w) = settled_of w"
  "settled_of (reopen_connected mo attempt w) = settled_of w"
  "settled_of (fst (announce_owner cf mo attempt me w)) = settled_of w"
  "settled_of (fst (apply_platform_vpn_failed_locked mo e w)) = settled_of w"
  "settled_of (fst (apply_platform_vpn_running_locked mo up w)) = settled_of w"
  "settled_of (fst (cancel_platform_vpn_start cf ev attempt w)) = settled_of w"
  "settled_of (fst (request_platform_vpn_stop cf ev attempt w)) = settled_of w"
  "settled_of (fst (publish_stop cf mo attempt w)) = settled_of w"
  "settled_of (fst (set_platform_vpn_starting cf ev starting w)) = settled_of w"
  "settled_of (fst (set_platform_vpn_starting_for_attempt cf ev attempt starting w)) = settled_of w"
  "settled_of (fst (expire_platform_vpn_start cf ev w)) = settled_of w"
  "settled_of (fst (clear_platform_session_handoff cf mo attempt w)) = settled_of w"
  "settled_of (fst (queue_platform_browser_open_request cf mo uri w)) = settled_of w"
  "settled_of (fst (clear_platform_browser_open_request cf mo w)) = settled_of w"
  "settled_of (fst (sync_platform_changes cf ev w)) = settled_of w"
  "settled_of (fst (attach_platform_shared_memory cf ashmem_fd notification_fd mapped w)) = settled_of w"
  "settled_of (fst (release_barrier cf mo attempt reason w)) = settled_of w"
  "settled_of (refresh_stats_locked mo w) = settled_of w"
  "settled_of (set_pending_auth a w) = settled_of w"
  "settled_of (set_network n w) = settled_of w"
  "settled_of (tunnel_figures n gateway mtu w) = settled_of w"
  "settled_of (prepare_native_begin mo w) = settled_of w"
  "settled_of (write_last_error mo message w) = settled_of w"
  "settled_of (next_generation w) = settled_of w"
  "settled_of (fail_attempt mo message w) = settled_of w"
  "settled_of (tick_live_worker cf mo traffic w) = settled_of w"
  "settled_of (cleanup_unreferenced_profile_files removed w) = settled_of w"
  "settled_of (set_connections ps w) = settled_of w"
  "settled_of (set_active i w) = settled_of w"
  "settled_of (rebuild_live_session cf mo force_global pid w) = settled_of w"
  "settled_of (set_diagnostics d w) = settled_of w"
  by (simp_all add: Let_def settled drop_issuer_lease_def drop_extension_lease_def consume_platform_browser_request_locked_def
    sync_platform_for_binding_locked_def release_issuer_def release_extension_def stop_session_def
    reopen_connected_def announce_owner_def apply_platform_vpn_failed_locked_def
    apply_platform_vpn_running_locked_def cancel_platform_vpn_start_def request_platform_vpn_stop_def
    publish_stop_def set_platform_vpn_starting_def set_platform_vpn_starting_for_attempt_def
    expire_platform_vpn_start_def clear_platform_session_handoff_def queue_platform_browser_open_request_def
    clear_platform_browser_open_request_def sync_platform_changes_def attach_platform_shared_memory_def
    release_barrier_def refresh_stats_locked_def set_pending_auth_def set_network_def tunnel_figures_def
    prepare_native_begin_def write_last_error_def next_generation_def fail_attempt_def tick_live_worker_def
    cleanup_unreferenced_profile_files_def set_connections_def set_active_def rebuild_live_session_def
    set_diagnostics_def
    split: if_split option.split journal_read.split sum.split owner_phase.split lease_role.split
      lease_observation.split bool.split start_outcome.split)

lemma settled_handlers [settled]:
  "settled_of (keep_issuer h w) = settled_of w"
  "settled_of (keep_extension h w) = settled_of w"
  "settled_of (open_attempt mo attempt sequence w) = settled_of w"
  "settled_of (fst (set_platform_vpn_running cf ev up w)) = settled_of w"
  "settled_of (fst (set_platform_vpn_failed cf ev e w)) = settled_of w"
  "settled_of (fst (set_platform_vpn_failed_for_attempt cf ev attempt e w)) = settled_of w"
  "settled_of (fst (take_platform_browser_open_request cf mo w)) = settled_of w"
  "settled_of (fst (start_verdict cf ev attempt w)) = settled_of w"
  "settled_of (fst (prepare_connect_begin cf mo request w)) = settled_of w"
  "settled_of (fst (prepare_connect_finish cf mo request generation prepared w)) = settled_of w"
  "settled_of (fst (prepare_in_extension_begin cf mo attempt w)) = settled_of w"
  "settled_of (fst (prepare_in_extension_finish cf mo handoff generation json pending w)) = settled_of w"
  "settled_of (fst (attach_tun_begin w)) = settled_of w"
  "settled_of (fst (attach_tun_finish cf mo fd pending running generation attempt w)) = settled_of w"
  "settled_of (fst (disconnect_begin cf mo expected w)) = settled_of w"
  "settled_of (fst (disconnect_finish cf mo expected generation w)) = settled_of w"
  "settled_of (fst (on_native_session_ended cf mo session_generation failure w)) = settled_of w"
  "settled_of (fst (tick_verdict cf mo report w)) = settled_of w"
  "settled_of (tick_finished_worker cf mo joined w) = settled_of w"
  "settled_of (fst (persist_profiles cf mo w)) = settled_of w"
  "settled_of (fst (set_profiles cf mo ps w)) = settled_of w"
  "settled_of (fst (select_profile cf mo i w)) = settled_of w"
  "settled_of (fst (set_appearance_preferences cf mo language theme w)) = settled_of w"
  "settled_of (fst (snapshot cf ev takes w)) = settled_of w"
  "settled_of (cancel_auth_challenge w) = settled_of w"
  "settled_of (forget_logs w) = settled_of w"
  by (simp_all add: Let_def settled keep_issuer_def keep_extension_def open_attempt_def set_platform_vpn_running_def
    set_platform_vpn_failed_def set_platform_vpn_failed_for_attempt_def
    take_platform_browser_open_request_def start_verdict_def prepare_connect_begin_def
    prepare_connect_finish_def prepare_in_extension_begin_def prepare_in_extension_finish_def
    attach_tun_begin_def attach_tun_finish_def disconnect_begin_def disconnect_finish_def
    on_native_session_ended_def tick_verdict_def tick_finished_worker_def persist_profiles_def
    set_profiles_def select_profile_def set_appearance_preferences_def snapshot_def cancel_auth_challenge_def
    forget_logs_def
    split: if_split option.split journal_read.split sum.split owner_phase.split lease_role.split
      lease_observation.split bool.split start_outcome.split)

lemma settled_handler_calls [settled]:
  "settled_of (fst (refresh_platform_vpn_owner_liveness_locked cf ev w)) = settled_of w"
  "settled_of (fst (configure_home cf ev calls home w)) = settled_of w"
  by (simp_all add: Let_def settled refresh_platform_vpn_owner_liveness_locked_def configure_home_def
    split: prod.split if_split option.split journal_read.split sum.split owner_phase.split lease_role.split
      lease_observation.split bool.split start_outcome.split)

lemma settled_compositions [settled]:
  "settled_of (fst (tick_begin cf ev report w)) = settled_of w"
  "settled_of (tick_finish cf mo report w) = settled_of w"
  "settled_of (fst (upsert_profile cf mo profile w)) = settled_of w"
  "settled_of (fst (delete_profile cf mo i w)) = settled_of w"
  "settled_of (fst (set_active_force_global cf mo force_global w)) = settled_of w"
  "settled_of (clear_diagnostics removed w) = settled_of w"
  "settled_of (fst (set_log_recording_enabled mo known switched later status enabled w)) = settled_of w"
  by (simp_all add: Let_def settled tick_begin_def tick_finish_def upsert_profile_def delete_profile_def set_active_force_global_def
    clear_diagnostics_def set_log_recording_enabled_def
    split: if_split option.split journal_read.split sum.split owner_phase.split lease_role.split
      lease_observation.split bool.split start_outcome.split)

text \<open>The same for the fence alone, and the handlers that write the journal.\<close>

lemmas fence_settled [fence_keeps] = settled [THEN arg_cong [where f = fst], unfolded settled_of_def fst_conv]

lemma fence_on_journal [fence_keeps]:
  "fence_of (fst (on_journal f w)) = fence_of w"
  by (simp_all add: Let_def fence_of_def on_journal_def
    split: prod.split if_split option.split journal_read.split sum.split owner_phase.split lease_role.split
      lease_observation.split bool.split start_outcome.split)

lemma fence_owner_steps [fence_keeps]:
  "fence_of (fst (attach_owner cf ev r change w)) = fence_of w"
  "fence_of (fst (complete_platform_vpn_cleanup cf ev identity attempt w)) = fence_of w"
  "fence_of (fst (fail_platform_vpn_start_if cf ev attempt e require_unattached w)) = fence_of w"
  "fence_of (fst (fence_owner cf ev journal w)) = fence_of w"
  by (simp_all add: Let_def fence_keeps attach_owner_def complete_platform_vpn_cleanup_def fail_platform_vpn_start_if_def fence_owner_def
    split: if_split option.split journal_read.split sum.split owner_phase.split lease_role.split
      lease_observation.split bool.split start_outcome.split)

lemma fence_ownership [fence_keeps]:
  "fence_of (fst (take_ownership cf ev attempt me journal w)) = fence_of w"
  "fence_of (fst (begin_platform_vpn_start_for_intent cf ev identity intent w)) = fence_of w"
  "fence_of (fst (fail_unattached_platform_vpn_start cf ev attempt e w)) = fence_of w"
  "fence_of (fst (fail_platform_vpn_start cf ev attempt e w)) = fence_of w"
  by (simp_all add: Let_def fence_keeps take_ownership_def begin_platform_vpn_start_for_intent_def fail_unattached_platform_vpn_start_def
    fail_platform_vpn_start_def
    split: if_split option.split journal_read.split sum.split owner_phase.split lease_role.split
      lease_observation.split bool.split start_outcome.split)

lemma fence_bind [fence_keeps]:
  "fence_of (fst (bind_platform_vpn_start cf ev identity attempt w)) = fence_of w"
  by (simp_all add: Let_def fence_keeps bind_platform_vpn_start_def
    split: if_split option.split journal_read.split sum.split owner_phase.split lease_role.split
      lease_observation.split bool.split start_outcome.split)

end
