(* ===== verification/Oc_Coordinator_Laws.thy ===== *)
theory Oc_Coordinator_Laws
  imports Oc_Calls Oc_Settled Oc_Samples
begin

text \<open>
  What the coordinator guarantees over whole histories of calls, of one process and of both: the fence between stop and
  start, who may open an attempt, what a claimed stop forbids, and what ends an attempt.
\<close>

subsection \<open>Histories\<close>

text \<open>Before each call of this process the rest of the machine may have changed what lies outside it.\<close>

fun run_calls ::
    "('b, 'm) config \<Rightarrow> ((nat \<Rightarrow> moment) \<times> call \<times> ('b, 'm) world) list \<Rightarrow> ('b, 'm) world \<Rightarrow> ('b, 'm) world" where
  "run_calls cf [] w = w"
| "run_calls cf ((ev, c, outside) # hist) w = run_calls cf hist (perform cf ev c (share outside w))"

text \<open>Induction over such histories, for a property that all allowed calls and the outside keep.\<close>

locale kept_by =
  fixes cf :: "('b, 'm) config" and allowed :: "call \<Rightarrow> bool" and I :: "('b, 'm) world \<Rightarrow> bool"
  assumes outside: "I w \<Longrightarrow> I (share v w)"
    and call: "allowed c \<Longrightarrow> I w \<Longrightarrow> I (perform cf ev c w)"
begin

lemma along:
  assumes "I w" "\<forall>(ev, c, v) \<in> set hist. allowed c"
  shows "I (run_calls cf hist w)"
  using assms by (induction hist arbitrary: w) (auto simp: call outside)

end

subsection \<open>The fence\<close>

lemma fence_share [simp]: "fence_of (share v w) = fence_of w"
  by (simp add: share_def fence_of_def)

lemma fence_fields:
  "fence_of v = fence_of w \<Longrightarrow> in_platform_vpn_intent_epoch v = in_platform_vpn_intent_epoch w
     \<and> in_platform_os_stop_epoch v = in_platform_os_stop_epoch w \<and> in_platform_os_stop_attempt_id v = in_platform_os_stop_attempt_id w
     \<and> in_platform_os_stop_in_flight v = in_platform_os_stop_in_flight w"
  by (simp add: fence_of_def)

lemma keep_fence_journal [simp]: "wd_journal (keep_fence e a w) = wd_journal w"
  by (simp add: keep_fence_def)

lemma fence_keep_fence: "fence_of (keep_fence e a w) = (in_platform_vpn_intent_epoch w, e, a, False)"
  by (simp add: keep_fence_def fence_of_def)

text \<open>What the five calls on the fence do to it.\<close>

fun fence_step :: "fence_call \<Rightarrow> nat \<times> nat \<times> str \<times> bool \<Rightarrow> nat \<times> nat \<times> str \<times> bool \<Rightarrow> bool" where
  "fence_step AdvanceIntent (n, e, a, f) x \<longleftrightarrow> x = (if n < max_u64 then n + 1 else n, e, a, f)"
| "fence_step (BeginOsStop i b) (n, e, a, f) x \<longleftrightarrow>
     x = (if i \<noteq> 0 \<and> n = i \<and> \<not> f \<and> (e = 0 \<and> b = [] \<or> e = i \<and> a = b) then (n, i, b, True) else (n, e, a, f))"
| "fence_step (CompleteOsStop i b) (n, e, a, f) x \<longleftrightarrow>
     x = (if e = i \<and> a = b \<and> f then (n, 0, [], False) else (n, e, a, f))"
| "fence_step (FailOsStop i b) (n, e, a, f) x \<longleftrightarrow> x = (n, e, a, f \<and> \<not> (e = i \<and> a = b))"
| "fence_step (ClaimStop i) (n, e, a, f) x \<longleftrightarrow>
     x = (n, e, a, f) \<or> i \<noteq> 0 \<and> n = i \<and> \<not> f \<and> (\<exists>b. (e \<noteq> 0 \<longrightarrow> b = a) \<and> x = (n, i, b, False))"

lemma claim_fence:
  "fence_step (ClaimStop i) (fence_of w) (fence_of (fst (claim_current_platform_vpn_stop cf ev i w)))"
proof -
  let ?P = "\<lambda>v. fence_step (ClaimStop i) (fence_of w) (fence_of v)"
  show ?thesis
  proof (cases "i = 0 \<or> in_platform_vpn_intent_epoch w \<noteq> i \<or> in_platform_os_stop_in_flight w")
    case True
    then show ?thesis by (auto simp: claim_current_platform_vpn_stop_def fence_of_def)
  next
    case False
    let ?ret = "if in_platform_os_stop_epoch w \<noteq> 0 then Some (in_platform_os_stop_attempt_id w) else None"
    let ?w = "synced cf (ev 0) w"
    have same: "?P v" if "fence_of v = fence_of w" for v using that by (simp add: fence_of_def)
    have kept: "?P (keep_fence i b v)" if "fence_of v = fence_of w" "in_platform_os_stop_epoch w \<noteq> 0 \<longrightarrow> b = in_platform_os_stop_attempt_id w"
      for b v using that False by (auto simp: fence_keep_fence) (simp_all add: fence_of_def)
    have owner: "?P (fst (bind_in (publish_stop cf (ev 2) (oj_attempt_id j) ?w) (\<lambda>_ u. bind_in (fence_owner cf ev j u)
        (\<lambda>_ u. (keep_fence i (oj_attempt_id j) u, Ok (oj_attempt_id j))))))" if "foreign_owner ?ret j ?w = None" for j
    proof -
      have b: "in_platform_os_stop_epoch w \<noteq> 0 \<longrightarrow> oj_attempt_id j = in_platform_os_stop_attempt_id w"
        using that by (auto simp: foreign_owner_def split: if_splits)
      obtain u r where u: "publish_stop cf (ev 2) (oj_attempt_id j) ?w = (u, r)" by (metis prod.exhaust)
      have fu: "fence_of u = fence_of w" using u by (metis fence_keeps fst_conv)
      obtain x s where x: "fence_owner cf ev j u = (x, s)" by (metis prod.exhaust)
      have fx: "fence_of x = fence_of w" using fu x by (metis fence_keeps fst_conv)
      show ?thesis using kept [OF fx b] same [OF fu] same [OF fx] by (cases r; cases s) (simp_all add: u x)
    qed
    have eq: "claim_current_platform_vpn_stop cf ev i w = try_in ?w (journal_now cf (ev 1) ?w) (\<lambda>found.
        case found of
          JMissing \<Rightarrow>
            if in_platform_start_attempt_id ?w \<noteq> [] \<and> \<not> in_platform_vpn_cleanup_complete ?w then
              (?w, Err (''platform VPN owner journal is missing for active attempt '' @ in_platform_start_attempt_id ?w))
            else (case ?ret of Some attempt \<Rightarrow> (keep_fence i attempt ?w, Ok attempt) | None \<Rightarrow> (?w, Ok []))
        | JPresent journal \<Rightarrow>
            (case foreign_owner ?ret journal ?w of
               Some e \<Rightarrow> (?w, Err e)
             | None \<Rightarrow> bind_in (publish_stop cf (ev 2) (oj_attempt_id journal) ?w) (\<lambda>_ w. bind_in (fence_owner cf ev journal w)
                 (\<lambda>_ w. (keep_fence i (oj_attempt_id journal) w, Ok (oj_attempt_id journal))))))"
      using False by (simp only: claim_current_platform_vpn_stop_def Let_def) simp
    have sw: "fence_of ?w = fence_of w" by (simp add: fence_keeps)
    show ?thesis
      unfolding eq using same [OF sw] kept [OF sw] owner
      by (cases "journal_now cf (ev 1) ?w") (auto split: journal_read.split option.split simp del: fence_step.simps)
  qed
qed

lemma perform_fence_step: "fence_step c (fence_of w) (fence_of (perform_fence cf ev c w))"
proof (cases c)
  case (ClaimStop i)
  then show ?thesis using claim_fence by simp
qed (auto simp: advance_platform_vpn_intent_def begin_platform_vpn_os_stop_def complete_platform_vpn_os_stop_def
    fail_platform_vpn_os_stop_def fence_of_def max_u64_def Let_def)

lemma perform_fence_kept:
  "fence_of (perform_owner cf ev oc w) = fence_of w" "fence_of (perform_attempt cf ev ac w) = fence_of w"
  "fence_of (perform_channel cf ev hc w) = fence_of w" "fence_of (perform_connection cf ev cc w) = fence_of w"
  "fence_of (perform_profile cf ev pc w) = fence_of w"
proof -
  show "fence_of (perform_owner cf ev oc w) = fence_of w" by (cases oc) (simp_all add: fence_keeps)
  show "fence_of (perform_attempt cf ev ac w) = fence_of w" by (cases ac) (simp_all add: fence_keeps)
  show "fence_of (perform_channel cf ev hc w) = fence_of w" by (cases hc) (simp_all add: fence_keeps)
  show "fence_of (perform_connection cf ev cc w) = fence_of w" by (cases cc) (simp_all add: fence_keeps)
  show "fence_of (perform_profile cf ev pc w) = fence_of w" by (cases pc) (simp_all add: fence_keeps)
qed

lemma perform_fence_cases:
  "(\<exists>k. c = Fence k \<and> fence_step k (fence_of w) (fence_of (perform cf ev c w))) \<or> fence_of (perform cf ev c w) = fence_of w"
  by (cases c) (auto simp: perform_fence_kept perform_fence_step)

text \<open>Four facts every history keeps.\<close>

definition fence_ok :: "nat \<times> nat \<times> str \<times> bool \<Rightarrow> bool" where
  "fence_ok = (\<lambda>(n, e, a, f). e \<le> n \<and> n \<le> max_u64 \<and> (e = 0 \<longrightarrow> a = [] \<and> \<not> f))"

lemma fence_step_ok: "fence_step k x y \<Longrightarrow> fence_ok x \<Longrightarrow> fence_ok y"
  by (cases x; cases k) (auto simp: fence_ok_def split: if_splits)

lemma fence_step_intent: "fence_step k x y \<Longrightarrow> fst x \<le> fst y"
  by (cases x; cases k) (auto split: if_splits)

lemma fence_step_up:
  "fence_step k (n, e, a, f) (n', e', a', f') \<Longrightarrow> (\<forall>i. k \<noteq> CompleteOsStop i a) \<Longrightarrow> e \<noteq> 0 \<Longrightarrow> e' \<noteq> 0 \<and> a' = a"
  by (cases k) (auto split: if_splits)

lemma fence_step_flight:
  "fence_step k (n, e, a, True) (n', e', a', f') \<Longrightarrow> k \<noteq> CompleteOsStop e a \<Longrightarrow> k \<noteq> FailOsStop e a
     \<Longrightarrow> e' = e \<and> a' = a \<and> f'"
  by (cases k) (auto split: if_splits)

interpretation sound_fence: kept_by cf "\<lambda>_. True" "\<lambda>w. fence_ok (fence_of w)" for cf
proof (unfold_locales, goal_cases)
  case (2 c w ev)
  then show ?case using perform_fence_cases [of c w cf ev] fence_step_ok by metis
qed simp

interpretation intents: kept_by cf "\<lambda>_. True" "\<lambda>w. n \<le> fst (fence_of w)" for cf n
proof (unfold_locales, goal_cases)
  case (2 c w ev)
  then show ?case
    using perform_fence_cases [of c w cf ev] fence_step_intent order_trans by metis
qed simp

interpretation fenced: kept_by cf "\<lambda>c. \<forall>i. c \<noteq> Fence (CompleteOsStop i a)"
  "\<lambda>w. fst (snd (fence_of w)) \<noteq> 0 \<and> fst (snd (snd (fence_of w))) = a" for cf a
proof (unfold_locales, goal_cases)
  case (2 c w ev)
  then show ?case using perform_fence_cases [of c w cf ev] fence_step_up
    by (cases "fence_of w"; cases "fence_of (perform cf ev c w)") fastforce
qed simp

interpretation flight: kept_by cf "\<lambda>c. c \<noteq> Fence (CompleteOsStop e a) \<and> c \<noteq> Fence (FailOsStop e a)"
  "\<lambda>w. snd (fence_of w) = (e, a, True)" for cf e a
proof (unfold_locales, goal_cases)
  case (2 c w ev)
  then show ?case using perform_fence_cases [of c w cf ev] fence_step_flight
    by (cases "fence_of w"; cases "fence_of (perform cf ev c w)") fastforce
qed simp

text \<open>What the fence refuses at once.\<close>

lemma fenced_begin_refused:
  "in_platform_os_stop_epoch w \<noteq> 0 \<Longrightarrow> \<exists>e. begin_platform_vpn_start_for_intent cf ev me i w = (w, Err e)"
  by (cases me) (simp_all add: begin_platform_vpn_start_for_intent_def)

lemma flight_claims_refused:
  assumes "in_platform_os_stop_in_flight w"
  shows "\<exists>e. claim_current_platform_vpn_stop cf ev i w = (w, Err e)" "begin_platform_vpn_os_stop i b w = (w, False)"
  using assms by (simp_all add: claim_current_platform_vpn_stop_def begin_platform_vpn_os_stop_def)

lemma stale_refused:
  assumes "i = 0 \<or> in_platform_vpn_intent_epoch w \<noteq> i"
  shows "\<exists>e. begin_platform_vpn_start_for_intent cf ev me i w = (w, Err e)"
    "\<exists>e. claim_current_platform_vpn_stop cf ev i w = (w, Err e)" "begin_platform_vpn_os_stop i b w = (w, False)"
    "\<not> is_platform_vpn_intent_current i w" "\<not> is_platform_vpn_stop_current i b w"
  using assms
  by (cases me; auto simp: begin_platform_vpn_start_for_intent_def claim_current_platform_vpn_stop_def
      begin_platform_vpn_os_stop_def is_platform_vpn_intent_current_def is_platform_vpn_stop_current_def)+

text \<open>C3: Stop and start exclude each other. Once a stop of an attempt is claimed, its fence stays up for that attempt
  through every history of handlers of the process, whatever happens outside it and whatever the clocks and system calls
  answer, until that stop is reported complete; all that time every start is refused without touching anything. While
  the stop is handed to the operating system, no second one is claimed or begun.\<close>

theorem stop_fence_holds:
  fixes w
  defines "a \<equiv> in_platform_os_stop_attempt_id w" and "i \<equiv> in_platform_os_stop_epoch w"
  assumes up: "i \<noteq> 0" and hist: "\<forall>(ev, c, v) \<in> set hist. \<forall>j. c \<noteq> Fence (CompleteOsStop j a)"
  shows "let v = run_calls cf hist w in
    in_platform_os_stop_epoch v \<noteq> 0 \<and> in_platform_os_stop_attempt_id v = a
    \<and> (\<forall>ev me j. \<exists>e. begin_platform_vpn_start_for_intent cf ev me j v = (v, Err e))
    \<and> (in_platform_os_stop_in_flight w \<and> (\<forall>(ev, c, v) \<in> set hist. c \<noteq> Fence (FailOsStop i a)) \<longrightarrow>
         in_platform_os_stop_in_flight v \<and> in_platform_os_stop_epoch v = i
         \<and> (\<forall>ev j. \<exists>e. claim_current_platform_vpn_stop cf ev j v = (v, Err e))
         \<and> (\<forall>j b. begin_platform_vpn_os_stop j b v = (v, False)))"
proof -
  let ?v = "run_calls cf hist w"
  have v: "in_platform_os_stop_epoch ?v \<noteq> 0" "in_platform_os_stop_attempt_id ?v = a"
    using fenced.along [of w a hist cf] up hist by (simp_all add: fence_of_def i_def a_def)
  have flight: "in_platform_os_stop_in_flight ?v" "in_platform_os_stop_epoch ?v = i"
    if f: "in_platform_os_stop_in_flight w" "\<forall>(ev, c, v) \<in> set hist. c \<noteq> Fence (FailOsStop i a)"
  proof -
    have "snd (fence_of w) = (i, a, True)" using f(1) by (simp add: fence_of_def i_def a_def)
    moreover have "\<forall>(ev, c, v) \<in> set hist. c \<noteq> Fence (CompleteOsStop i a) \<and> c \<noteq> Fence (FailOsStop i a)"
      using hist f(2) by auto
    ultimately have "snd (fence_of ?v) = (i, a, True)" by (rule flight.along)
    then show "in_platform_os_stop_in_flight ?v" "in_platform_os_stop_epoch ?v = i" by (simp_all add: fence_of_def)
  qed
  show ?thesis
    unfolding Let_def
  proof (intro conjI impI allI; (elim conjE)?)
    show "\<exists>e. begin_platform_vpn_start_for_intent cf ev me j ?v = (?v, Err e)" for ev me j
      by (rule fenced_begin_refused [OF v(1)])
  qed (use v flight flight_claims_refused in \<open>simp_all\<close>)
qed

text \<open>C4: An intent of the user that a later one superseded stays without effect. In a process that started fresh, and
  from any point of its history, an intent older than the current one can never start an attempt, claim a stop or reach
  the operating system again, and it never becomes current again; the number of the current intent only grows, a fence
  never carries a number beyond it, and without a fence nothing is in flight.\<close>

theorem superseded_intent_inert:
  assumes fresh: "engine.truncate w0 = session_engine_new cf au rl" and old: "i < in_platform_vpn_intent_epoch (run_calls cf past w0)"
  shows "let w = run_calls cf past w0; v = run_calls cf later w in
    in_platform_vpn_intent_epoch w \<le> in_platform_vpn_intent_epoch v
    \<and> in_platform_os_stop_epoch v \<le> in_platform_vpn_intent_epoch v
    \<and> (in_platform_os_stop_epoch v = 0 \<longrightarrow> in_platform_os_stop_attempt_id v = [] \<and> \<not> in_platform_os_stop_in_flight v)
    \<and> \<not> is_platform_vpn_intent_current i v \<and> (\<forall>b. \<not> is_platform_vpn_stop_current i b v)
    \<and> (\<forall>ev me. \<exists>e. begin_platform_vpn_start_for_intent cf ev me i v = (v, Err e))
    \<and> (\<forall>ev. \<exists>e. claim_current_platform_vpn_stop cf ev i v = (v, Err e))
    \<and> (\<forall>b. begin_platform_vpn_os_stop i b v = (v, False))"
proof -
  let ?w = "run_calls cf past w0" let ?v = "run_calls cf later ?w"
  have "fence_of w0 = (0, 0, [], False)"
    using arg_cong [OF fresh, of in_platform_vpn_intent_epoch] arg_cong [OF fresh, of in_platform_os_stop_epoch]
      arg_cong [OF fresh, of in_platform_os_stop_attempt_id] arg_cong [OF fresh, of in_platform_os_stop_in_flight]
    by (simp add: fence_of_def session_engine_new_def engine.defs)
  then have "fence_ok (fence_of w0)" by (simp add: fence_ok_def)
  then have ok: "fence_ok (fence_of ?v)" using sound_fence.along by (metis (no_types, lifting) case_prodI2)
  have n: "fst (fence_of ?w) \<le> fst (fence_of ?v)" by (rule intents.along) auto
  then have stale: "i = 0 \<or> in_platform_vpn_intent_epoch ?v \<noteq> i" using old by (simp add: fence_of_def)
  have parts: "in_platform_vpn_intent_epoch ?w \<le> in_platform_vpn_intent_epoch ?v"
    "in_platform_os_stop_epoch ?v \<le> in_platform_vpn_intent_epoch ?v"
    "in_platform_os_stop_epoch ?v = 0 \<longrightarrow> in_platform_os_stop_attempt_id ?v = [] \<and> \<not> in_platform_os_stop_in_flight ?v"
    using ok n by (simp_all add: fence_ok_def fence_of_def)
  show ?thesis unfolding Let_def using parts stale_refused [OF stale] by blast
qed

lemma stop_fence_holds_witness:
  "let w = fresh_world\<lparr>in_platform_vpn_intent_epoch := 1, in_platform_os_stop_epoch := 1, in_platform_os_stop_attempt_id := ''7-1'',
         in_platform_os_stop_in_flight := True\<rparr>;
       v = run_calls demo_config [(demo_moment, Fence AdvanceIntent, w), (demo_moment, Fence (CompleteOsStop 2 ''7-2''), w),
         (demo_moment, Attempt (SetRunning True), w)] w
   in \<exists>e. begin_platform_vpn_start_for_intent demo_config demo_moment (Ok demo_issuer) 2 v = (v, Err e)"
proof -
  let ?w = "fresh_world\<lparr>in_platform_vpn_intent_epoch := 1, in_platform_os_stop_epoch := 1,
    in_platform_os_stop_attempt_id := ''7-1'', in_platform_os_stop_in_flight := True\<rparr>"
  let ?h = "[(demo_moment, Fence AdvanceIntent, ?w), (demo_moment, Fence (CompleteOsStop 2 ''7-2''), ?w),
    (demo_moment, Attempt (SetRunning True), ?w)]"
  have "in_platform_os_stop_epoch ?w \<noteq> 0"
    "\<forall>(ev, c, v) \<in> set ?h. \<forall>j. c \<noteq> Fence (CompleteOsStop j (in_platform_os_stop_attempt_id ?w))" by simp_all
  from stop_fence_holds [OF this, of demo_config] show ?thesis unfolding Let_def by blast
qed

lemma superseded_intent_inert_witness:
  "let v = run_calls demo_config [(demo_moment, Fence (ClaimStop 2), fresh_world)]
         (run_calls demo_config [(demo_moment, Fence AdvanceIntent, fresh_world), (demo_moment, Fence AdvanceIntent, fresh_world)] fresh_world)
   in \<not> is_platform_vpn_intent_current 1 v \<and> begin_platform_vpn_os_stop 1 [] v = (v, False)"
proof -
  let ?p = "[(demo_moment, Fence AdvanceIntent, fresh_world), (demo_moment, Fence AdvanceIntent, fresh_world)]"
  have "engine.truncate fresh_world = session_engine_new demo_config auth_new runtime_log_default"
    by (simp add: fresh_world_def session_engine_new_def engine.defs)
  moreover have "1 < in_platform_vpn_intent_epoch (run_calls demo_config ?p fresh_world)"
    by (simp add: advance_platform_vpn_intent_def Let_def max_u64_def share_def fresh_world_simps)
  ultimately show ?thesis
    using superseded_intent_inert [of fresh_world demo_config auth_new runtime_log_default 1 ?p
        "[(demo_moment, Fence (ClaimStop 2), fresh_world)]"] unfolding Let_def by blast
qed

subsection \<open>The journal under the handlers\<close>

text \<open>A handler leaves the journal alone or does one operation on it; which ones, the caller's identity decides.\<close>

definition journal_moves :: "('b, 'm) config \<Rightarrow> (owner_op \<Rightarrow> bool) \<Rightarrow> 'b slot \<Rightarrow> ('b, 'm) world \<Rightarrow> bool" where
  "journal_moves cf P s w \<longleftrightarrow> wd_journal w = s
     \<or> (\<exists>p io tmp op. P op \<and> wd_journal w = fst (run_op (cf_journals cf) p io tmp op s))"

fun may_do :: "call \<Rightarrow> owner_op \<Rightarrow> bool" where
  "may_do (Owner (BeginStart me _)) op \<longleftrightarrow>
     (\<exists>i a. me = Ok i \<and> op = OpCreate \<lparr>oj_attempt_id = a, oj_issuer = i, oj_extension = None, oj_phase = Pending\<rparr>)"
| "may_do (Owner (BindStart me a)) op \<longleftrightarrow> (\<exists>x i. me = Ok x \<and> (op = OpAttach a i x \<or> (\<exists>y. op = OpRebind a i y x)))"
| "may_do (Owner (CompleteCleanup me a)) op \<longleftrightarrow> (\<exists>x. me = Ok x \<and> op = OpDelete a (Some x))"
| "may_do (Owner (RecoveryDelete a x)) op \<longleftrightarrow> op = OpDelete a x"
| "may_do (Owner (FailUnattached a _)) op \<longleftrightarrow> op = OpDeletePending a"
| "may_do (Fence (ClaimStop _)) op \<longleftrightarrow> (\<exists>a i. op = OpFence a i)"
| "may_do _ op \<longleftrightarrow> False"

lemma journal_through_forms:
  "(\<And>x. wd_journal (fst (k x)) = wd_journal w) \<Longrightarrow> wd_journal (fst (try_in w r k)) = wd_journal w"
  "(\<And>x s. wd_journal (fst (k2 x s)) = wd_journal s) \<Longrightarrow> wd_journal (fst (bind_in r2 k2)) = wd_journal (fst r2)"
  "(\<And>x s. wd_journal (fst (k3 s x)) = wd_journal s) \<Longrightarrow> wd_journal (fst (case_prod k3 r3)) = wd_journal (fst r3)"
  by (auto intro: try_in_keeps bind_in_keeps split: prod.split)

lemmas journal_keeps = journal_through_forms settled [THEN arg_cong [where f = snd], unfolded settled_of_def snd_conv]

lemma moves_same: "wd_journal w = s \<Longrightarrow> journal_moves cf P s w"
  by (simp add: journal_moves_def)

lemma moves_if:
  "(b \<Longrightarrow> journal_moves cf P s (fst x)) \<Longrightarrow> (\<not> b \<Longrightarrow> journal_moves cf P s (fst y)) \<Longrightarrow> journal_moves cf P s (fst (if b then x else y))"
  by simp

lemma moves_try:
  "wd_journal w = s \<Longrightarrow> (\<And>x. r = Ok x \<Longrightarrow> journal_moves cf P s (fst (k x))) \<Longrightarrow> journal_moves cf P s (fst (try_in w r k))"
  by (cases r) (simp_all add: moves_same)

lemma moves_after:
  "wd_journal (fst r) = s \<Longrightarrow> (\<And>x v. wd_journal v = s \<Longrightarrow> journal_moves cf P s (fst (k x v))) \<Longrightarrow> journal_moves cf P s (fst (bind_in r k))"
  by (cases r; cases "snd r") (simp_all add: moves_same)

lemma moves_before:
  "journal_moves cf P s (fst r) \<Longrightarrow> (\<And>x v. wd_journal (fst (k x v)) = wd_journal v) \<Longrightarrow> journal_moves cf P s (fst (bind_in r k))"
  by (cases r; cases "snd r") (simp_all add: journal_moves_def)

lemma moves_case:
  "journal_moves cf P s (fst r) \<Longrightarrow> (\<And>v x. wd_journal (fst (k v x)) = wd_journal v) \<Longrightarrow> journal_moves cf P s (fst (case_prod k r))"
  by (cases r) (simp add: journal_moves_def)

lemma moves_read:
  "(found = JMissing \<Longrightarrow> journal_moves cf P s (fst x)) \<Longrightarrow> (\<And>j. found = JPresent j \<Longrightarrow> journal_moves cf P s (fst (y j)))
     \<Longrightarrow> journal_moves cf P s (fst (case found of JMissing \<Rightarrow> x | JPresent j \<Rightarrow> y j))"
  by (cases found) simp_all

lemma moves_on_journal:
  assumes "P op" "fst (f s) = fst (run_op (cf_journals cf) p io tmp op s)" "wd_journal w = s"
  shows "journal_moves cf P s (fst (on_journal f w))"
proof -
  have "wd_journal (fst (on_journal f w)) = fst (f s)" using assms(3) by (simp add: on_journal_def split: prod.split)
  then show ?thesis using assms(1,2) journal_moves_def by metis
qed

lemma moves_ops:
  "P (OpCreate r) \<Longrightarrow> wd_journal w = s \<Longrightarrow> journal_moves cf P s (fst (on_journal (create_pending_exact (cf_journals cf) p io tmp r) w))"
  "P (OpAttach a i x) \<Longrightarrow> wd_journal w = s \<Longrightarrow> journal_moves cf P s (fst (on_journal (upgrade_attached_exact (cf_journals cf) p io tmp a i x) w))"
  "P (OpFence a i) \<Longrightarrow> wd_journal w = s \<Longrightarrow> journal_moves cf P s (fst (on_journal (fence_pending_stop_exact (cf_journals cf) p io tmp a i) w))"
  "P (OpRebind a i y x) \<Longrightarrow> wd_journal w = s \<Longrightarrow> journal_moves cf P s (fst (on_journal (rebind_attached_exact (cf_journals cf) p io tmp a i y x) w))"
  "P (OpDelete a z) \<Longrightarrow> wd_journal w = s \<Longrightarrow> journal_moves cf P s (fst (on_journal (delete_exact (cf_journals cf) p io a z) w))"
  "P (OpDeletePending a) \<Longrightarrow> wd_journal w = s \<Longrightarrow> journal_moves cf P s (fst (on_journal (delete_pending_exact (cf_journals cf) p io a) w))"
  by (erule moves_on_journal; simp add: as_true_def)+

lemma begin_moves:
  "journal_moves cf (may_do (Owner (BeginStart me i))) (wd_journal w) (fst (begin_platform_vpn_start_for_intent cf ev me i w))"
  unfolding begin_platform_vpn_start_for_intent_def Let_def
  apply (intro moves_try moves_if moves_read; (rule moves_same, (simp add: journal_keeps; fail))?, (simp add: journal_keeps; fail)?)
  apply (rule moves_after, simp add: journal_keeps)
  apply (rule moves_case, rule moves_ops)
  apply (simp_all add: journal_keeps split: sum.split)
  done

lemma fail_if_moves:
  "journal_moves cf (may_do (Owner (FailUnattached a e'))) (wd_journal w) (fst (fail_platform_vpn_start_if cf ev a e b w))"
  unfolding fail_platform_vpn_start_if_def Let_def
  apply (intro moves_if; (rule moves_same, (simp add: journal_keeps; fail))?, (simp add: journal_keeps; fail)?)
  apply (rule moves_before)
  apply (cases b; simp add: journal_keeps moves_ops moves_same)
  apply (simp_all add: journal_keeps split: sum.split)
  done

lemma fail_start_journal: "wd_journal (fst (fail_platform_vpn_start cf ev a e w)) = wd_journal w"
  by (simp add: fail_platform_vpn_start_def fail_platform_vpn_start_if_def Let_def journal_keeps)

lemma cleanup_moves:
  "journal_moves cf (may_do (Owner (CompleteCleanup me a))) (wd_journal w) (fst (complete_platform_vpn_cleanup cf ev me a w))"
  unfolding complete_platform_vpn_cleanup_def Let_def
  apply (intro moves_try moves_if moves_read; (rule moves_same, (simp add: journal_keeps; fail))?, (simp add: journal_keeps; fail)?)
  apply (rule moves_before, rule moves_ops)
  apply (simp_all add: journal_keeps)
  done

lemma fence_owner_moves: "journal_moves cf (\<lambda>op. \<exists>a i. op = OpFence a i) (wd_journal w) (fst (fence_owner cf ev j w))"
  unfolding fence_owner_def Let_def
  apply (cases "oj_phase j"; cases "oj_extension j"; simp add: moves_same)
  apply (rule moves_before, rule moves_ops)
  apply (simp_all add: journal_keeps split: journal_read.split)
  done

lemma attach_owner_moves:
  assumes "\<And>v. wd_journal v = s \<Longrightarrow> journal_moves cf P s (fst (on_journal change v))" "wd_journal w = s"
  shows "journal_moves cf P s (fst (attach_owner cf ev r change w))"
  unfolding attach_owner_def
  by (intro moves_after moves_case assms(1)) (simp_all add: journal_keeps assms(2) split: sum.split)

lemma ownership_moves:
  "journal_moves cf (may_do (Owner (BindStart (Ok me) a))) (wd_journal w) (fst (take_ownership cf ev a me j w))"
proof -
  have fresh: "journal_moves cf (may_do (Owner (BindStart (Ok me) a))) (wd_journal w)
      (fst (attach_owner cf ev r (upgrade_attached_exact (cf_journals cf) p io tmp a i me) w))" for r p io tmp i
    by (intro attach_owner_moves moves_ops) simp_all
  have again: "journal_moves cf (may_do (Owner (BindStart (Ok me) a))) (wd_journal w)
      (fst (attach_owner cf ev r (rebind_attached_exact (cf_journals cf) p io tmp a i y me) w))" for r p io tmp i y
    by (intro attach_owner_moves moves_ops) simp_all
  show ?thesis
    unfolding take_ownership_def Let_def
    by (cases "oj_phase j"; cases "oj_extension j")
      (auto intro!: moves_try fresh again intro: moves_same simp: journal_keeps)
qed

lemma bind_moves:
  "journal_moves cf (may_do (Owner (BindStart me a))) (wd_journal w) (fst (bind_platform_vpn_start cf ev me a w))"
  unfolding bind_platform_vpn_start_def Let_def
  apply (rule moves_if, simp add: moves_same, rule moves_try, simp)
  apply (rule moves_after, simp add: journal_keeps)
  apply (intro moves_if moves_try, simp_all add: moves_same journal_keeps)
  apply (rule moves_before, metis journal_keeps ownership_moves)
  apply (simp add: journal_keeps split: option.split)
  done

lemma claim_moves:
  "journal_moves cf (may_do (Fence (ClaimStop i))) (wd_journal w) (fst (claim_current_platform_vpn_stop cf ev i w))"
proof -
  have fence: "journal_moves cf (may_do (Fence (ClaimStop k))) (wd_journal w)
      (fst (bind_in (publish_stop cf (ev 2) a u) (\<lambda>_ v. bind_in (fence_owner cf ev j v) (\<lambda>_ v. (keep_fence k a v, Ok a)))))"
    if "wd_journal u = wd_journal w" for a u j k
  proof (rule moves_after)
    show "wd_journal (fst (publish_stop cf (ev 2) a u)) = wd_journal w" using that by (simp add: journal_keeps)
    fix v :: "('a, 'b) world" assume v: "wd_journal v = wd_journal w"
    have "may_do (Fence (ClaimStop k)) = (\<lambda>op. \<exists>a i. op = OpFence a i)" by (rule ext) simp
    then have "journal_moves cf (may_do (Fence (ClaimStop k))) (wd_journal w) (fst (fence_owner cf ev j v))"
      using fence_owner_moves [of cf v ev j] v by simp
    then show "journal_moves cf (may_do (Fence (ClaimStop k))) (wd_journal w)
        (fst (bind_in (fence_owner cf ev j v) (\<lambda>_ v. (keep_fence k a v, Ok a))))"
      by (rule moves_before) simp
  qed
  show ?thesis
    unfolding claim_current_platform_vpn_stop_def Let_def
    by (intro moves_if moves_try moves_read)
      (auto intro!: fence intro: moves_same simp: journal_keeps split: option.split)
qed

text \<open>Every call on the journal, and the rest.\<close>

lemma perform_moves: "journal_moves cf (may_do c) (wd_journal w) (perform cf ev c w)"
proof (cases c)
  case (Fence k)
  then show ?thesis
    by (cases k) (use claim_moves in \<open>simp_all add: moves_same advance_platform_vpn_intent_def begin_platform_vpn_os_stop_def
        complete_platform_vpn_os_stop_def fail_platform_vpn_os_stop_def Let_def\<close>)
next
  case (Owner k)
  then show ?thesis
    by (cases k) (use begin_moves bind_moves cleanup_moves fail_if_moves in
      \<open>simp_all add: fail_unattached_platform_vpn_start_def moves_ops\<close>)
next
  case (Attempt k)
  then show ?thesis by (cases k) (simp_all add: moves_same journal_keeps fail_start_journal)
next
  case (Channel k)
  then show ?thesis by (cases k) (simp_all add: moves_same journal_keeps)
next
  case (Connection k)
  then show ?thesis by (cases k) (simp_all add: moves_same journal_keeps)
next
  case (Profile k)
  then show ?thesis by (cases k) (simp_all add: moves_same journal_keeps)
qed

subsection \<open>Both processes\<close>

fun run_system ::
    "('b, 'm) config \<Rightarrow> (side \<times> (nat \<Rightarrow> moment) \<times> call) list \<Rightarrow> ('b, 'm) world \<times> ('b, 'm) world
       \<Rightarrow> ('b, 'm) world \<times> ('b, 'm) world" where
  "run_system cf [] s = s"
| "run_system cf (x # xs) s = run_system cf xs (system_step cf x s)"

text \<open>A fact about what both processes share, kept by the allowed calls of either.\<close>

locale shared_fact =
  fixes cf :: "('b, 'm) config" and allowed :: "call \<Rightarrow> bool" and I :: "('b, 'm) world \<Rightarrow> bool"
  assumes seen: "I v \<Longrightarrow> I (share v w)"
    and call: "allowed c \<Longrightarrow> I w \<Longrightarrow> I (perform cf ev c w)"
begin

lemma both:
  assumes "I ui" "I ext" "\<forall>(s, ev, c) \<in> set hist. allowed c" "run_system cf hist (ui, ext) = (v1, v2)"
  shows "I v1 \<and> I v2"
  using assms
proof (induction hist arbitrary: ui ext)
  case (Cons x hist)
  obtain s ev c where x: "x = (s, ev, c)" by (cases x)
  have "I (fst (system_step cf x (ui, ext))) \<and> I (snd (system_step cf x (ui, ext)))"
    using Cons.prems(1-3) by (cases s) (simp_all add: x Let_def call seen)
  with Cons show ?case by (cases "system_step cf x (ui, ext)") auto
qed simp

end

text \<open>A stop tombstone is such a fact.\<close>

definition tombstone :: "('b, 'm) config \<Rightarrow> owner_journal \<Rightarrow> 'b slot \<Rightarrow> ('b, 'm) world \<Rightarrow> bool" where
  "tombstone cf r s w \<longleftrightarrow> reads_back (cf_journals cf) \<and> wd_journal w = s
     \<and> journal_view (cf_journals cf) s = Some (JPresent r) \<and> oj_phase r = Stopping"

lemma stopping_spec:
  assumes "phase_shape r" "oj_phase r = Stopping" "spec_op op (JPresent r) = Some (v', ans)"
    "op \<noteq> OpDelete (oj_attempt_id r) None"
  shows "v' = JPresent r"
  using assms by (cases op) (auto simp: phase_shape_def split: if_splits)

interpretation tomb: shared_fact cf "\<lambda>c. c \<noteq> Owner (RecoveryDelete (oj_attempt_id r) None)" "tombstone cf r s" for cf r s
proof (unfold_locales, goal_cases)
  case (1 v w)
  then show ?case by (simp add: tombstone_def share_def)
next
  case (2 c w ev)
  have v: "journal_view (cf_journals cf) (wd_journal w) = Some (JPresent r)" "reads_back (cf_journals cf)" "oj_phase r = Stopping"
    using 2(2) by (simp_all add: tombstone_def)
  have "fst (run_op (cf_journals cf) p io tmp op (wd_journal w)) = wd_journal w" if op: "may_do c op" for p io tmp op
  proof (rule run_quiet [OF v(1,2)])
    have "op \<noteq> OpDelete (oj_attempt_id r) None" using op 2(1) by (cases "(c, op)" rule: may_do.cases) auto
    then show "v' = JPresent r" if "spec_op op (JPresent r) = Some (v', ans)" for v' ans
      using stopping_spec [OF view_shape [OF v(1)] v(3) that] by simp
  qed
  then have "wd_journal (perform cf ev c w) = wd_journal w"
    using perform_moves [of cf c w ev] by (auto simp: journal_moves_def)
  then show ?case using 2(2) by (simp add: tombstone_def)
qed

lemma try_in_Ok:
  assumes "try_in s r k = (s', Ok y)"
  obtains x where "r = Ok x" "k x = (s', Ok y)"
  using assms by (cases r) auto

lemma journal_now_view: "journal_now cf mo w = Ok v \<Longrightarrow> journal_view (cf_journals cf) (wd_journal w) = Some v"
  by (auto simp: journal_now_def journal_read_def and_then_Ok intro: read_view)

text \<open>What a successful binding went through.\<close>

lemma bind_Ok:
  assumes "bind_platform_vpn_start cf ev identity a w = (w', Ok t)"
  obtains me j u v lease where "identity = Ok me" "wd_journal u = wd_journal w"
    "journal_view (cf_journals cf) (wd_journal w) = Some (JPresent j)" "oj_attempt_id j = a"
    "take_ownership cf ev a me j u = (v, Ok lease)"
    "in_platform_start_attempt_id u = a" "wd_journal w' = wd_journal v"
proof -
  have a: "a \<noteq> []" using assms by (auto simp: bind_platform_vpn_start_def)
  obtain me where me: "identity = Ok me" using assms a by (cases identity) (auto simp: bind_platform_vpn_start_def)
  obtain s x where s: "sync_platform_for_binding_locked cf (ev 0) a w = (s, Ok x)"
    and rest: "(if in_platform_start_attempt_id s \<noteq> a then (s, Err (''stale platform VPN start attempt '' @ a))
      else if terminal (in_platform_start_outcome s) then
        (s, Err (''platform VPN start attempt '' @ a @ '' is already terminal''))
      else
      let w = reopen_connected (ev 0) a s
      in try_in w (and_then (journal_now cf (ev 1) w) (journal_of_attempt a)) (\<lambda>journal.
         bind_in (take_ownership cf ev a me journal w) (\<lambda>lease w.
         let w = (case lease of None \<Rightarrow> w | Some h \<Rightarrow> keep_extension h w);
             w = synced cf (ev 5) w
         in if in_platform_start_attempt_id w \<noteq> a then
              (w, Err (''platform VPN start attempt '' @ a @ '' was superseded after owner attachment''))
            else bind_in (announce_owner cf (ev 6) a me w) (\<lambda>_ w. (w, Ok (owner_text me)))))) = (w', Ok t)"
    using assms unfolding bind_platform_vpn_start_def me try_in_simps if_not_P [OF a] by (rule bind_in_Ok)
  let ?u = "reopen_connected (ev 0) a s"
  have js: "wd_journal ?u = wd_journal w" using s by (metis fst_conv journal_keeps)
  have id: "in_platform_start_attempt_id s = a" using rest by (auto split: if_splits)
  have same: "\<not> in_platform_start_attempt_id s \<noteq> a" using id by simp
  have live: "\<not> terminal (in_platform_start_outcome s)" using rest by (auto split: if_splits)
  let ?k = "\<lambda>lease w. let w = (case lease of None \<Rightarrow> w | Some h \<Rightarrow> keep_extension h w);
             w = synced cf (ev 5) w
         in if in_platform_start_attempt_id w \<noteq> a then
              (w, Err (''platform VPN start attempt '' @ a @ '' was superseded after owner attachment''))
            else bind_in (announce_owner cf (ev 6) a me w) (\<lambda>_ w. (w, Ok (owner_text me)))"
  have "try_in ?u (and_then (journal_now cf (ev 1) ?u) (journal_of_attempt a))
      (\<lambda>j. bind_in (take_ownership cf ev a me j ?u) ?k) = (w', Ok t)"
    using rest unfolding Let_def if_not_P [OF same] if_not_P [OF live] .
  then obtain j where j: "and_then (journal_now cf (ev 1) ?u) (journal_of_attempt a) = Ok j"
    and own: "bind_in (take_ownership cf ev a me j ?u) ?k = (w', Ok t)" by (rule try_in_Ok)
  obtain found where found: "journal_now cf (ev 1) ?u = Ok found" "journal_of_attempt a found = Ok j" using j by (auto simp: and_then_Ok)
  have view: "journal_view (cf_journals cf) (wd_journal w) = Some (JPresent j)" "oj_attempt_id j = a"
    using journal_now_view [OF found(1)] found(2) js by (auto simp: journal_of_attempt_def split: journal_read.splits if_splits)
  obtain v lease where v: "take_ownership cf ev a me j ?u = (v, Ok lease)" "?k lease v = (w', Ok t)"
    using own by (rule bind_in_Ok)
  have "wd_journal (fst (?k lease v)) = wd_journal v" by (simp add: journal_keeps Let_def split: option.split)
  then have "wd_journal w' = wd_journal v" using v(2) by (simp only: fst_conv)
  moreover have "in_platform_start_attempt_id ?u = a" using id by (simp add: reopen_connected_def)
  ultimately show thesis using that me js view v(1) by blast
qed

lemma tombstone_refuses:
  assumes "tombstone cf r s w"
  shows "\<exists>e. snd (bind_platform_vpn_start cf ev me b w) = Err e" "\<exists>e. snd (begin_platform_vpn_start_for_intent cf ev me i w) = Err e"
proof -
  have v: "journal_view (cf_journals cf) (wd_journal w) = Some (JPresent r)" "oj_phase r = Stopping"
    using assms by (simp_all add: tombstone_def)
  show "\<exists>e. snd (bind_platform_vpn_start cf ev me b w) = Err e"
  proof (cases "bind_platform_vpn_start cf ev me b w")
    case (Pair w' x)
    have "\<not> (\<exists>t. x = Ok t)"
    proof
      assume "\<exists>t. x = Ok t"
      then obtain t where "bind_platform_vpn_start cf ev me b w = (w', Ok t)" using Pair by blast
      then show False by (rule bind_Ok) (use v in \<open>auto simp: take_ownership_def Let_def\<close>)
    qed
    then show ?thesis using Pair by (cases x) auto
  qed
  have "\<exists>e. snd (try_in u (journal_now cf mo u) (\<lambda>found. case found of JPresent owner \<Rightarrow> (u, Err (f owner)) | JMissing \<Rightarrow> k)) = Err e"
    if "wd_journal u = wd_journal w" for u mo f and k :: "('a, 'b) world \<times> (str, str) result"
    using journal_now_view [of cf mo u] that v by (cases "journal_now cf mo u") auto
  moreover have "wd_journal (synced cf (ev 0) w) = wd_journal w" by (simp add: journal_keeps)
  ultimately show "\<exists>e. snd (begin_platform_vpn_start_for_intent cf ev me i w) = Err e"
    by (cases me) (simp_all add: begin_platform_vpn_start_for_intent_def Let_def)
qed

text \<open>A claimed stop of a start nobody has attached to leaves such a tombstone.\<close>

lemma fence_owner_pending:
  assumes "reads_back (cf_journals cf)" "journal_view (cf_journals cf) (wd_journal w) = Some (JPresent j)" "oj_phase j = Pending"
    and fits: "fits (cf_journals cf) (JPresent (j\<lparr>oj_phase := Stopping\<rparr>))" and run: "fence_owner cf ev j w = (w', Ok ())"
  shows "journal_view (cf_journals cf) (wd_journal w') = Some (JPresent (j\<lparr>oj_phase := Stopping\<rparr>))"
proof -
  let ?c = "cf_journals cf" let ?op = "OpFence (oj_attempt_id j) (oj_issuer j)" let ?p = "platform_owner_journal_path w"
  let ?run = "run_op ?c ?p (mo_io (ev 3)) (mo_tmp (ev 3)) ?op (wd_journal w)"
  have shape: "oj_extension j = None" using view_shape [OF assms(2)] assms(3) by (simp add: phase_shape_def)
  have valid: "attempt_ok (oj_attempt_id j)" "identity_ok (oj_issuer j)"
    using view_valid [OF assms(2)] by (simp_all add: validate_record_iff)
  have spec: "spec_op ?op (JPresent j) = Some (JPresent (j\<lparr>oj_phase := Stopping\<rparr>), True)"
    using valid assms(3) by simp
  have ref: "refines ?c (wd_journal w) (JPresent j) (spec_op ?op (JPresent j)) (fst ?run) (snd ?run)"
    by (rule run_refines [OF assms(2,1)]) (use spec fits in auto)
  obtain u fenced where u: "on_journal (fence_pending_stop_exact ?c ?p (mo_io (ev 3)) (mo_tmp (ev 3)) (oj_attempt_id j) (oj_issuer j)) w
      = (u, Ok fenced)" and rest: "(if fenced then (push_diag_locked (ev 3) ''info''
          (''platform VPN pending owner durably fenced for stop '' @ oj_attempt_id j) u, Ok ())
        else try_in u (journal_now cf (ev 4) u) (\<lambda>found.
               case found of
                 JMissing \<Rightarrow> (u, Err (''platform VPN owner journal disappeared while claiming stop for '' @ oj_attempt_id j))
               | JPresent current \<Rightarrow>
                   if oj_attempt_id current = oj_attempt_id j
                      \<and> (oj_phase current = Stopping \<and> oj_extension current = None
                         \<or> oj_phase current = Attached \<and> oj_extension current \<noteq> None) then (u, Ok ())
                   else (u, Err (''platform VPN owner changed from '' @ oj_attempt_id j @ '' to '' @ oj_attempt_id current
                                 @ '' while claiming stop'')))) = (w', Ok ())"
    using run unfolding fence_owner_def Let_def assms(3) shape prod.case owner_phase.case option.case by (rule bind_in_Ok)
  have "fst ?run = wd_journal u" "snd ?run = Ok fenced"
    using u by (auto simp: on_journal_def split: prod.splits)
  then have "journal_view ?c (wd_journal u) = Some (JPresent (j\<lparr>oj_phase := Stopping\<rparr>))" "fenced"
    using ref [unfolded spec refines_Some agrees_def] by simp_all
  then show ?thesis using rest by (auto simp: journal_keeps)
qed

lemma claim_pending:
  assumes rb: "reads_back (cf_journals cf)" and view: "journal_view (cf_journals cf) (wd_journal w) = Some (JPresent j)"
    and pending: "oj_phase j = Pending" and fits: "fits (cf_journals cf) (JPresent (j\<lparr>oj_phase := Stopping\<rparr>))"
    and run: "claim_current_platform_vpn_stop cf ev i w = (w', Ok a)"
  shows "a = oj_attempt_id j \<and> tombstone cf (j\<lparr>oj_phase := Stopping\<rparr>) (wd_journal w') w'"
proof -
  have go: "\<not> (i = 0 \<or> in_platform_vpn_intent_epoch w \<noteq> i)" "\<not> in_platform_os_stop_in_flight w"
    using run by (auto simp: claim_current_platform_vpn_stop_def split: if_splits)
  obtain found where found: "journal_now cf (ev 1) (synced cf (ev 0) w) = Ok found"
    using run go by (cases "journal_now cf (ev 1) (synced cf (ev 0) w)") (simp_all add: claim_current_platform_vpn_stop_def)
  have sj: "wd_journal (synced cf (ev 0) w) = wd_journal w" by (simp add: journal_keeps)
  have f: "found = JPresent j" using journal_now_view [OF found] view sj by simp
  have "bind_in (publish_stop cf (ev 2) (oj_attempt_id j) (synced cf (ev 0) w)) (\<lambda>_ u. bind_in (fence_owner cf ev j u)
      (\<lambda>_ u. (keep_fence i (oj_attempt_id j) u, Ok (oj_attempt_id j)))) = (w', Ok a)"
    using run go found unfolding claim_current_platform_vpn_stop_def Let_def f
    by (auto split: option.splits if_splits)
  then obtain u x where u: "publish_stop cf (ev 2) (oj_attempt_id j) (synced cf (ev 0) w) = (u, Ok x)"
    and rest: "bind_in (fence_owner cf ev j u) (\<lambda>_ u. (keep_fence i (oj_attempt_id j) u, Ok (oj_attempt_id j))) = (w', Ok a)"
    by (rule bind_in_Ok)
  obtain v r where v: "fence_owner cf ev j u = (v, r)" by (metis prod.exhaust)
  have done_: "r = Ok ()" "w' = keep_fence i (oj_attempt_id j) v" "a = oj_attempt_id j"
    using rest by (cases r; simp add: v)+
  have uj: "wd_journal u = wd_journal w" using u sj by (metis fst_conv journal_keeps)
  have "journal_view (cf_journals cf) (wd_journal v) = Some (JPresent (j\<lparr>oj_phase := Stopping\<rparr>))"
    by (rule fence_owner_pending [OF rb _ pending fits, of u ev]) (use view uj v done_(1) in simp_all)
  then show ?thesis using done_ rb by (simp add: tombstone_def)
qed

text \<open>C2: A claimed stop is final for a start nobody has attached to. When the UI has claimed the stop of a pending
  attempt, the journal names that attempt as Stopping, and it stays so through every interleaving of calls of both processes
  on the shared files, whatever fails in them: no Extension binds, however late its Want arrives, and no new start is
  opened, until the recovery after a confirmed stop deletes exactly this record.\<close>

theorem claimed_stop_final:
  assumes codec: "reads_back (cf_journals cf)" and view: "journal_view (cf_journals cf) (wd_journal ui) = Some (JPresent j)"
    and pending: "oj_phase j = Pending" and fits: "fits (cf_journals cf) (JPresent (j\<lparr>oj_phase := Stopping\<rparr>))"
    and claim: "claim_current_platform_vpn_stop cf ev i ui = (ui', Ok a)"
    and hist: "\<forall>(s, ev, c) \<in> set hist. c \<noteq> Owner (RecoveryDelete a None)"
    and run: "run_system cf hist (ui', share ui' ext) = (v1, v2)" and v: "v = v1 \<or> v = v2"
  shows "a = oj_attempt_id j \<and> journal_view (cf_journals cf) (wd_journal v) = Some (JPresent (j\<lparr>oj_phase := Stopping\<rparr>))
    \<and> (\<exists>e. snd (bind_platform_vpn_start cf ev' me b v) = Err e)
    \<and> (\<exists>e. snd (begin_platform_vpn_start_for_intent cf ev' me k v) = Err e)"
proof -
  let ?r = "j\<lparr>oj_phase := Stopping\<rparr>"
  have a: "a = oj_attempt_id j" and t: "tombstone cf ?r (wd_journal ui') ui'"
    using claim_pending [OF codec view pending fits claim] by simp_all
  have "tombstone cf ?r (wd_journal ui') v1 \<and> tombstone cf ?r (wd_journal ui') v2"
    by (rule tomb.both [OF t tomb.seen [OF t] _ run]) (use hist a in simp)
  then have "tombstone cf ?r (wd_journal ui') v" using v by blast
  then show ?thesis using a tombstone_refuses by (metis tombstone_def)
qed

text \<open>A UI whose pending start nobody has attached to.\<close>

definition pending_world :: "(demo_doc, nat \<Rightarrow> byte) world" where
  "pending_world = fresh_world\<lparr>in_home := ''/data'', in_platform_vpn_intent_epoch := 1, wd_journal := journal_file demo_pending\<rparr>"

lemma pending_view: "journal_view (cf_journals demo_config) (journal_file demo_pending) = Some (JPresent demo_pending)"
  by (simp add: journal_view_def journal_file_def demo_config_def doc_codec_def max_journal_bytes_def) code_simp

lemma demo_fits_stopping: "fits (cf_journals demo_config) (JPresent (demo_pending\<lparr>oj_phase := Stopping\<rparr>))"
  by (simp add: fits_def demo_config_def doc_codec_def max_journal_bytes_def)

definition demo_journal_path :: file_path where
  "demo_journal_path = runtime_file ''/data'' ''platform-vpn-owner.json''"

lemma demo_journal_ops:
  "journal_read (cf_journals demo_config) demo_journal_path io_ok (journal_file demo_pending) = Ok (JPresent demo_pending)"
  "fence_pending_stop_exact (cf_journals demo_config) demo_journal_path io_ok ''.tmp'' ''a1'' demo_issuer (journal_file demo_pending)
     = (journal_file demo_stopping, Ok True)"
  by code_simp+

lemma demo_moment_io [simp]: "mo_io (demo_moment k) = io_ok" "mo_tmp (demo_moment k) = ''.tmp''"
  by (simp_all add: demo_moment_def)

lemma pending_world_fields [simp]:
  "in_home pending_world = ''/data''" "en_ipc pending_world = None" "wd_journal pending_world = journal_file demo_pending"
  "in_platform_vpn_intent_epoch pending_world = 1" "in_platform_os_stop_epoch pending_world = 0"
  "in_platform_os_stop_in_flight pending_world = False" "in_platform_start_attempt_id pending_world = []"
  by (simp_all add: pending_world_def fresh_world_simps)

lemma no_channel_synced: "en_ipc w = None \<Longrightarrow> synced cf mo w = w"
  by (simp add: synced_def sync_platform_locked_def sync_platform_locked_with_adoption_def)

lemma pending_claim:
  "\<exists>w. claim_current_platform_vpn_stop demo_config demo_moment 1 pending_world = (w, Ok ''a1'')"
proof -
  have path: "platform_owner_journal_path w = demo_journal_path" if "in_home w = ''/data''" for w :: "(demo_doc, nat \<Rightarrow> byte) world"
    using that by (simp add: platform_owner_journal_path_def demo_journal_path_def)
  have j: "oj_attempt_id demo_pending = ''a1''" "oj_phase demo_pending = Pending" "oj_extension demo_pending = None"
    "oj_issuer demo_pending = demo_issuer" by (simp_all add: demo_pending_def)
  show ?thesis
    by (simp add: claim_current_platform_vpn_stop_def no_channel_synced journal_now_def path demo_journal_ops foreign_owner_def
        publish_stop_def fence_owner_def j on_journal_def Let_def)
qed

lemma claimed_stop_final_witness:
  "\<exists>w. claim_current_platform_vpn_stop demo_config demo_moment 1 pending_world = (w, Ok ''a1'')
     \<and> (\<exists>e. snd (bind_platform_vpn_start demo_config demo_moment (Ok demo_extension) ''a1''
         (snd (run_system demo_config [(InExtension, demo_moment, Owner (BindStart (Ok demo_extension) ''a1'')),
            (InUi, demo_moment, Owner (FailUnattached ''a1'' ''late''))] (w, share w fresh_world)))) = Err e)"
proof -
  obtain w where w: "claim_current_platform_vpn_stop demo_config demo_moment 1 pending_world = (w, Ok ''a1'')"
    using pending_claim by blast
  let ?h = "[(InExtension, demo_moment, Owner (BindStart (Ok demo_extension) ''a1'')),
    (InUi, demo_moment, Owner (FailUnattached ''a1'' ''late''))]"
  obtain v1 v2 where v: "run_system demo_config ?h (w, share w fresh_world) = (v1, v2)" by (metis prod.exhaust)
  have h: "\<forall>(s, ev, c) \<in> set ?h. c \<noteq> Owner (RecoveryDelete ''a1'' None)" by simp
  have view: "journal_view (cf_journals demo_config) (wd_journal pending_world) = Some (JPresent demo_pending)"
    "oj_phase demo_pending = Pending" using pending_view by (simp_all add: demo_pending_def)
  have "\<exists>e. snd (bind_platform_vpn_start demo_config demo_moment (Ok demo_extension) ''a1'' v2) = Err e"
    using claimed_stop_final [OF demo_journals_read_back view demo_fits_stopping w h v] by blast
  then show ?thesis using w v by auto
qed

end
