(* ===== verification/Oc_Attempt_Laws.thy ===== *)
theory Oc_Attempt_Laws
  imports Oc_Coordinator_Laws
begin

text \<open>
  The two ends of an attempt: what opening one leaves behind, who can take it away from a live Extension, and that the
  recovery after a confirmed stop comes to an end.
\<close>

subsection \<open>Opening\<close>

text \<open>A lease file locked by the holder of exactly this record.\<close>

definition held_exactly :: "('b, 'm) config \<Rightarrow> lease_record \<Rightarrow> nat \<Rightarrow> 'b lease_file \<Rightarrow> bool" where
  "held_exactly cf r h f \<longleftrightarrow> validate_lease_record r = Ok ()
     \<and> (\<exists>b. f = LeaseFile b (Some h) \<and> encode (cf_leases cf) (to_stored_lease r) = Ok b \<and> byte_len (cf_leases cf) b \<le> max_lease_bytes)"

lemma begin_Ok:
  assumes "begin_platform_vpn_start_for_intent cf ev identity i w = (w', Ok a)"
  obtains issuer lease u v where "identity = Ok issuer" "i \<noteq> 0" "in_platform_vpn_intent_epoch w = i" "in_platform_os_stop_epoch w = 0"
    "in_platform_start_outcome (synced cf (ev 0) w) \<noteq> OutPending" "\<not> in_platform_vpn_running (synced cf (ev 0) w)"
    "in_platform_start_attempt_id (synced cf (ev 0) w) = [] \<or> in_platform_vpn_cleanup_complete (synced cf (ev 0) w)"
    "a = show_dec (mo_nanos (ev 1)) @ ''-'' @ show_dec (min (in_platform_start_sequence (synced cf (ev 0) w) + 1) max_u64)"
    "journal_now cf (ev 1) (synced cf (ev 0) w) = Ok JMissing"
    "acquire_lease cf (ev 2) (platform_owner_lease_record a issuer Issuer) (synced cf (ev 0) w) = (u, Ok lease)"
    "on_journal (create_pending_exact (cf_journals cf) (platform_owner_journal_path u) (mo_io (ev 3)) (mo_tmp (ev 3))
       \<lparr>oj_attempt_id = a, oj_issuer = issuer, oj_extension = None, oj_phase = Pending\<rparr>) u = (v, Ok ())"
    "persist_platform_locked cf (ev 4) (open_attempt (ev 4) a (min (in_platform_start_sequence (synced cf (ev 0) w) + 1) max_u64)
       (keep_issuer lease v)) = (w', Ok ())"
proof -
  let ?s = "synced cf (ev 0) w" let ?n = "min (in_platform_start_sequence (synced cf (ev 0) w) + 1) max_u64"
  let ?a = "show_dec (mo_nanos (ev 1)) @ ''-'' @ show_dec ?n"
  obtain issuer where me: "identity = Ok issuer" using assms by (cases identity) (auto simp: begin_platform_vpn_start_for_intent_def)
  have go: "\<not> (i = 0 \<or> in_platform_vpn_intent_epoch w \<noteq> i)" "\<not> in_platform_os_stop_epoch w \<noteq> 0"
    "\<not> in_platform_start_outcome ?s = OutPending" "\<not> (in_platform_start_attempt_id ?s \<noteq> [] \<and> \<not> in_platform_vpn_cleanup_complete ?s)"
    "\<not> in_platform_vpn_running ?s"
    using assms by (auto simp: begin_platform_vpn_start_for_intent_def me Let_def split: if_splits)
  let ?j = "\<lparr>oj_attempt_id = ?a, oj_issuer = issuer, oj_extension = None, oj_phase = Pending\<rparr>"
  let ?k = "\<lambda>lease w. case on_journal (create_pending_exact (cf_journals cf) (platform_owner_journal_path w) (mo_io (ev 3))
        (mo_tmp (ev 3)) ?j) w of
      (w, Err e) \<Rightarrow> (release_issuer lease w, Err e)
    | (w, Ok _) \<Rightarrow> bind_in (persist_platform_locked cf (ev 4) (open_attempt (ev 4) ?a ?n (keep_issuer lease w))) (\<lambda>_ w. (w, Ok ?a))"
  obtain found where found: "journal_now cf (ev 1) ?s = Ok found" and rest: "(case found of
        JMissing \<Rightarrow> bind_in (acquire_lease cf (ev 2) (platform_owner_lease_record ?a issuer Issuer) ?s) ?k
      | JPresent owner \<Rightarrow> (?s, Err (''previous platform VPN owner journal for attempt '' @ oj_attempt_id owner
          @ '' is still pending cleanup''))) = (w', Ok a)"
    using assms unfolding begin_platform_vpn_start_for_intent_def me try_in_simps Let_def if_not_P [OF go(1)] if_not_P [OF go(2)]
      if_not_P [OF go(3)] if_not_P [OF go(4)] if_not_P [OF go(5)] by (rule try_in_Ok)
  have missing: "found = JMissing" using rest by (cases found) auto
  obtain u lease where u: "acquire_lease cf (ev 2) (platform_owner_lease_record ?a issuer Issuer) ?s = (u, Ok lease)"
    "?k lease u = (w', Ok a)"
    using rest unfolding missing journal_read.case by (rule bind_in_Ok)
  obtain v r where v: "on_journal (create_pending_exact (cf_journals cf) (platform_owner_journal_path u) (mo_io (ev 3))
        (mo_tmp (ev 3)) ?j) u = (v, r)" by (metis prod.exhaust)
  note u2 = u(2) [unfolded v prod.case]
  have r: "r = Ok ()" using u2 by (cases r) simp_all
  let ?p = "persist_platform_locked cf (ev 4) (open_attempt (ev 4) ?a ?n (keep_issuer lease v))"
  have "bind_in ?p (\<lambda>_ w. (w, Ok ?a)) = (w', Ok a)" using u2 unfolding r sum.case .
  then have p: "?p = (w', Ok ()) \<and> a = ?a" by (cases ?p; cases "snd ?p") simp_all
  show thesis
    by (rule that [of issuer u lease v]) (use me go found missing u(1) v r p in auto)
qed

lemma created_view:
  assumes "journal_view c s = Some JMissing" "reads_back c" "fits c (JPresent r)" "create_pending_exact c p io tmp r s = (s', Ok u)"
  shows "journal_view c s' = Some (JPresent r)"
proof -
  have "refines c s JMissing (spec_op (OpCreate r) JMissing) s' (Ok True)"
    using run_refines [OF assms(1,2), of "OpCreate r" p io tmp] assms(3,4) by (auto simp: as_true_def split: if_splits)
  then show ?thesis by (auto simp: refines_def agrees_def split: if_splits)
qed

lemma open_attempt_values:
  "in_platform_start_attempt_id (open_attempt mo a n w) = a" "in_platform_start_outcome (open_attempt mo a n w) = OutPending"
  "in_platform_vpn_starting (open_attempt mo a n w)" "\<not> in_platform_vpn_running (open_attempt mo a n w)"
  "\<not> in_platform_extension_attached (open_attempt mo a n w)" "\<not> in_platform_stop_requested (open_attempt mo a n w)"
  "\<not> in_platform_vpn_cleanup_complete (open_attempt mo a n w)"
  "in_platform_session_handoff (open_attempt mo a n w)
     = map_option (\<lambda>h. h\<lparr>sh_attempt_id := a, sh_updated_at := mo_nanos mo\<rparr>) (in_platform_session_handoff w)"
  "in_platform_vpn_issuer_lease (open_attempt mo a n w) = in_platform_vpn_issuer_lease w"
  "wd_issuer_lease (open_attempt mo a n w) = wd_issuer_lease w"
  by (simp_all add: open_attempt_def drop_extension_lease_def split: option.split)

lemma acquired_issuer:
  assumes "acquire_lease cf mo (platform_owner_lease_record a i Issuer) w = (u, Ok h)"
  shows "h = mo_handle mo \<and> held_exactly cf (platform_owner_lease_record a i Issuer) h (wd_issuer_lease u)
    \<and> in_platform_vpn_issuer_lease u = in_platform_vpn_issuer_lease w"
proof -
  obtain f where f: "acquire_owner_lease_exact (cf_leases cf) (platform_owner_lease_path w Issuer) (mo_io mo) (cf_torn cf)
      (mo_handle mo) (platform_owner_lease_record a i Issuer) (wd_issuer_lease w) = (f, Ok h)" "u = w\<lparr>wd_issuer_lease := f\<rparr>"
    using assms by (auto simp: acquire_lease_def platform_owner_lease_record_def Let_def split: prod.splits)
  show ?thesis using f(2) by (rule_tac acquire_Ok [OF f(1)]) (auto simp: held_exactly_def)
qed

text \<open>C5: Opening an attempt. A start is only opened for the current intent, with no stop outstanding, no attempt pending
  or connected, the previous attempt cleaned up and no owner journal on disk. It then leaves the journal naming the new
  attempt as Pending for this process, the issuer lease locked for exactly that record by the descriptor the process keeps,
  and the phase a fresh attempt has; the hand-off prepared before is bound to the new attempt.\<close>

theorem start_opens_attempt:
  assumes codec: "reads_back (cf_journals cf)"
    and run: "begin_platform_vpn_start_for_intent cf ev identity i w = (w', Ok a)"
    and fits: "\<And>issuer. fits (cf_journals cf) (JPresent \<lparr>oj_attempt_id = a, oj_issuer = issuer, oj_extension = None, oj_phase = Pending\<rparr>)"
    and descriptor: "in_platform_vpn_issuer_lease (synced cf (ev 0) w) \<noteq> Some (mo_handle (ev 2))"
  shows "\<exists>issuer. identity = Ok issuer \<and> is_platform_vpn_intent_current i w \<and> in_platform_os_stop_epoch w = 0
    \<and> in_platform_start_outcome (synced cf (ev 0) w) \<noteq> OutPending \<and> \<not> in_platform_vpn_running (synced cf (ev 0) w)
    \<and> (in_platform_start_attempt_id (synced cf (ev 0) w) = [] \<or> in_platform_vpn_cleanup_complete (synced cf (ev 0) w))
    \<and> journal_view (cf_journals cf) (wd_journal w) = Some JMissing
    \<and> journal_view (cf_journals cf) (wd_journal w')
        = Some (JPresent \<lparr>oj_attempt_id = a, oj_issuer = issuer, oj_extension = None, oj_phase = Pending\<rparr>)
    \<and> held_exactly cf (platform_owner_lease_record a issuer Issuer) (mo_handle (ev 2)) (wd_issuer_lease w')
    \<and> in_platform_vpn_issuer_lease w' = Some (mo_handle (ev 2))
    \<and> platform_start_is_pending_locked a w' \<and> in_platform_vpn_starting w' \<and> \<not> in_platform_vpn_running w'
    \<and> \<not> in_platform_extension_attached w' \<and> \<not> in_platform_stop_requested w' \<and> \<not> in_platform_vpn_cleanup_complete w'
    \<and> (\<forall>h. in_platform_session_handoff w' = Some h \<longrightarrow> sh_attempt_id h = a)"
proof -
  let ?s = "synced cf (ev 0) w"
  from run show ?thesis
  proof (rule begin_Ok)
    fix issuer lease u v
    let ?j = "\<lparr>oj_attempt_id = a, oj_issuer = issuer, oj_extension = None, oj_phase = Pending\<rparr>"
    let ?n = "min (in_platform_start_sequence ?s + 1) max_u64"
    assume pre: "identity = Ok issuer" "i \<noteq> 0" "in_platform_vpn_intent_epoch w = i" "in_platform_os_stop_epoch w = 0"
      "in_platform_start_outcome ?s \<noteq> OutPending" "\<not> in_platform_vpn_running ?s"
      "in_platform_start_attempt_id ?s = [] \<or> in_platform_vpn_cleanup_complete ?s"
      and a: "a = show_dec (mo_nanos (ev 1)) @ ''-'' @ show_dec ?n"
      and j: "journal_now cf (ev 1) ?s = Ok JMissing"
      and u: "acquire_lease cf (ev 2) (platform_owner_lease_record a issuer Issuer) ?s = (u, Ok lease)"
      and v: "on_journal (create_pending_exact (cf_journals cf) (platform_owner_journal_path u) (mo_io (ev 3)) (mo_tmp (ev 3)) ?j) u
        = (v, Ok ())"
      and p: "persist_platform_locked cf (ev 4) (open_attempt (ev 4) a ?n (keep_issuer lease v)) = (w', Ok ())"
    have ne: "a \<noteq> []" using a by simp
    have js: "wd_journal ?s = wd_journal w" "wd_journal u = wd_journal ?s"
      using u by (simp add: journal_keeps, metis fst_conv journal_keeps)
    have missing: "journal_view (cf_journals cf) (wd_journal w) = Some JMissing" using journal_now_view [OF j] js by simp
    obtain f where f: "create_pending_exact (cf_journals cf) (platform_owner_journal_path u) (mo_io (ev 3)) (mo_tmp (ev 3)) ?j (wd_journal u)
        = (f, Ok ())" "v = u\<lparr>wd_journal := f\<rparr>" using v by (auto simp: on_journal_def split: prod.splits)
    have view: "journal_view (cf_journals cf) (wd_journal v) = Some (JPresent ?j)"
      using created_view [OF _ codec fits f(1)] missing js f(2) by simp
    have lease: "lease = mo_handle (ev 2)" "held_exactly cf (platform_owner_lease_record a issuer Issuer) lease (wd_issuer_lease v)"
      "in_platform_vpn_issuer_lease v \<noteq> Some lease"
      using acquired_issuer [OF u] descriptor unfolding f(2) by auto
    let ?k = "keep_issuer lease v" let ?o = "open_attempt (ev 4) a ?n ?k"
    have k: "wd_issuer_lease ?k = wd_issuer_lease v" "in_platform_vpn_issuer_lease ?k = Some lease" "wd_journal ?k = wd_journal v"
      using lease(2,3) by (auto simp: keep_issuer_def drop_issuer_lease_def held_exactly_def split: option.split)
    have w': "w' = fst (persist_platform_locked cf (ev 4) ?o)" using p by simp
    have "wd_journal w' = wd_journal ?k" unfolding w' by (simp add: journal_keeps)
    then have "journal_view (cf_journals cf) (wd_journal w') = Some (JPresent ?j)" using view k(3) by simp
    moreover have "held_exactly cf (platform_owner_lease_record a issuer Issuer) (mo_handle (ev 2)) (wd_issuer_lease w')"
      "in_platform_vpn_issuer_lease w' = Some (mo_handle (ev 2))"
      using lease k unfolding w' by (simp_all add: open_attempt_values)
    moreover have "platform_start_is_pending_locked a w'" "in_platform_vpn_starting w'" "\<not> in_platform_vpn_running w'"
      "\<not> in_platform_extension_attached w'" "\<not> in_platform_stop_requested w'" "\<not> in_platform_vpn_cleanup_complete w'"
      "\<forall>h. in_platform_session_handoff w' = Some h \<longrightarrow> sh_attempt_id h = a"
      unfolding w' using ne by (auto simp: platform_start_is_pending_locked_def open_attempt_values)
    ultimately show ?thesis using pre missing by (auto simp: is_platform_vpn_intent_current_def)
  qed
qed

definition idle_world :: "(demo_doc, nat \<Rightarrow> byte) world" where
  "idle_world = fresh_world\<lparr>in_home := ''/data'', in_platform_vpn_intent_epoch := 1\<rparr>"

definition opened_journal :: owner_journal where
  "opened_journal = \<lparr>oj_attempt_id = ''1-1'', oj_issuer = demo_issuer, oj_extension = None, oj_phase = Pending\<rparr>"

definition opened_lease :: lease_record where
  "opened_lease = \<lparr>lr_attempt_id = ''1-1'', lr_identity = demo_issuer, lr_role = Issuer\<rparr>"

lemma idle_world_fields [simp]:
  "in_home idle_world = ''/data''" "en_ipc idle_world = None" "wd_journal idle_world = NoFile"
  "in_platform_vpn_intent_epoch idle_world = 1" "in_platform_os_stop_epoch idle_world = 0"
  "in_platform_start_attempt_id idle_world = []" "in_platform_start_outcome idle_world = OutIdle"
  "\<not> in_platform_vpn_running idle_world" "in_platform_start_sequence idle_world = 0"
  "wd_issuer_lease idle_world = LeaseMissing" "in_platform_vpn_issuer_lease idle_world = None"
  by (simp_all add: idle_world_def fresh_world_simps)

lemma opening_ops:
  "journal_read (cf_journals demo_config) demo_journal_path io_ok NoFile = Ok JMissing"
  "create_pending_exact (cf_journals demo_config) demo_journal_path io_ok ''.tmp'' opened_journal NoFile = (journal_file opened_journal, Ok ())"
  "acquire_owner_lease_exact (cf_leases demo_config) (runtime_file ''/data'' ''platform-vpn-owner.issuer.lease'') io_ok (cf_torn demo_config)
     (Suc 0) opened_lease LeaseMissing = (LeaseFile (DocLease (to_stored_lease opened_lease)) (Some (Suc 0)), Ok (Suc 0))"
  by code_simp+

lemma opening_channel: "en_ipc (open_attempt mo a n w) = en_ipc w" "en_ipc (keep_issuer h w) = en_ipc w"
  by (simp_all add: open_attempt_def push_diag_locked_def set_lifecycle_locked_def drop_extension_lease_def keep_issuer_def
      drop_issuer_lease_def Let_def split: option.split)

lemma idle_begin:
  "\<exists>w. begin_platform_vpn_start_for_intent demo_config demo_moment (Ok demo_issuer) 1 idle_world = (w, Ok ''1-1'')"
proof -
  have path: "platform_owner_journal_path w = demo_journal_path"
    "platform_owner_lease_path w Issuer = runtime_file ''/data'' ''platform-vpn-owner.issuer.lease''"
    if "in_home w = ''/data''" for w :: "(demo_doc, nat \<Rightarrow> byte) world"
    using that by (simp_all add: platform_owner_journal_path_def platform_owner_lease_path_def demo_journal_path_def)
  have a: "show_dec (mo_nanos (demo_moment 1)) @ ''-'' @ show_dec (min 1 max_u64) = ''1-1''" by code_simp
  have j: "\<lparr>oj_attempt_id = ''1-1'', oj_issuer = demo_issuer, oj_extension = None, oj_phase = Pending\<rparr> = opened_journal"
    "platform_owner_lease_record ''1-1'' demo_issuer Issuer = opened_lease" "lr_role opened_lease = Issuer"
    by (simp_all add: opened_journal_def opened_lease_def platform_owner_lease_record_def)
  have u: "acquire_lease demo_config (demo_moment 2) opened_lease idle_world
      = (idle_world\<lparr>wd_issuer_lease := LeaseFile (DocLease (to_stored_lease opened_lease)) (Some 1)\<rparr>, Ok 1)"
    by (simp add: acquire_lease_def j path opening_ops demo_moment_def)
  have s: "synced demo_config (demo_moment 0) idle_world = idle_world" by (simp add: no_channel_synced)
  show ?thesis
    unfolding begin_platform_vpn_start_for_intent_def try_in_simps Let_def s
    by (simp add: journal_now_def path opening_ops a [simplified] j [simplified] u [simplified] on_journal_def
        persist_cases(1) opening_channel)
qed

lemma start_opens_attempt_witness:
  "\<exists>w. begin_platform_vpn_start_for_intent demo_config demo_moment (Ok demo_issuer) 1 idle_world = (w, Ok ''1-1'')
     \<and> journal_view (cf_journals demo_config) (wd_journal w) = Some (JPresent opened_journal)
     \<and> held_exactly demo_config opened_lease (mo_handle (demo_moment 2)) (wd_issuer_lease w)"
proof -
  obtain w where w: "begin_platform_vpn_start_for_intent demo_config demo_moment (Ok demo_issuer) 1 idle_world = (w, Ok ''1-1'')"
    using idle_begin by blast
  have fits: "fits (cf_journals demo_config) (JPresent r)" for r
    by (simp add: fits_def demo_config_def doc_codec_def max_journal_bytes_def)
  have "in_platform_vpn_issuer_lease (synced demo_config (demo_moment 0) idle_world) \<noteq> Some (mo_handle (demo_moment 2))"
    by (simp add: no_channel_synced)
  from start_opens_attempt [OF demo_journals_read_back w fits this]
  have "\<exists>issuer. Ok demo_issuer = Ok issuer
      \<and> journal_view (cf_journals demo_config) (wd_journal w)
        = Some (JPresent \<lparr>oj_attempt_id = ''1-1'', oj_issuer = issuer, oj_extension = None, oj_phase = Pending\<rparr>)
      \<and> held_exactly demo_config (platform_owner_lease_record ''1-1'' issuer Issuer) (mo_handle (demo_moment 2)) (wd_issuer_lease w)"
    by blast
  then show ?thesis using w by (auto simp: opened_journal_def opened_lease_def platform_owner_lease_record_def)
qed

subsection \<open>A live Extension\<close>

text \<open>The Extension lease is locked by a descriptor that this process does not own.\<close>

definition foreign_lease :: "nat \<Rightarrow> ('b, 'm) world \<Rightarrow> bool" where
  "foreign_lease h w \<longleftrightarrow> (\<exists>b. wd_extension_lease w = LeaseFile b (Some h)) \<and> in_platform_vpn_extension_lease w \<noteq> Some h"

lemma foreign_leases: "leases_of v = leases_of w \<Longrightarrow> foreign_lease h v = foreign_lease h w"
  by (simp add: foreign_lease_def leases_of_def)

lemma foreign_drop: "foreign_lease h w \<Longrightarrow> foreign_lease h (drop_leases w)"
  by (auto simp: foreign_lease_def drop_leases_def drop_extension_lease_def drop_issuer_lease_def split: option.split)

lemma foreign_fold: "foreign_lease h w \<Longrightarrow> foreign_lease h (fold_frame mo ui r w)"
proof -
  assume w: "foreign_lease h w"
  let ?p = "take_attachment r True (take_outcome r True (take_flags ui r True w))"
  have p: "foreign_lease h ?p" using w foreign_leases [of ?p w] by (simp add: take_attachment_parts take_outcome_parts take_flags_parts)
  have t: "foreign_lease h (take_phase ui r True w)"
    using p foreign_drop [OF p] by (simp add: take_phase_def drop_finished_leases_def)
  have "leases_of (fold_frame mo ui r w) = leases_of (take_phase ui r True w)"
    by (simp add: fold_frame_def Let_def connected_at_parts notify_parts take_lifecycle_parts settle_failure_parts)
  then show ?thesis using t foreign_leases by blast
qed

lemma foreign_frame: "foreign_lease h w \<Longrightarrow> foreign_lease h (apply_matching_frame cf mo ui adopted r w)"
  using frame_outcomes [of cf mo ui adopted r w] foreign_fold foreign_leases trip_watchdog_parts(2) beat_state_parts by metis

lemma foreign_envelope:
  assumes "foreign_lease h w" "apply_platform_envelope_locked cf mo ui ex env w = (w', ack)"
  shows "foreign_lease h w'"
  using assms(2)
proof (rule envelope_cases)
  fix v assume v: "leases_of v = leases_of w"
    and w': "w' = v \<and> (\<forall>r. pe_state env = Some r \<longrightarrow> ps_start_attempt_id r \<noteq> in_platform_start_attempt_id w
           \<and> (ui \<or> ex \<noteq> Some (ps_start_attempt_id r)) \<or> ps_start_attempt_id r = [])
       \<or> (\<exists>r. pe_state env = Some r \<and> ps_start_attempt_id r = in_platform_start_attempt_id w \<and> ps_start_attempt_id r \<noteq> []
            \<and> w' = apply_matching_frame cf mo ui False r v)
       \<or> (\<exists>r. pe_state env = Some r \<and> \<not> ui \<and> ex = Some (ps_start_attempt_id r) \<and> ps_start_attempt_id r \<noteq> []
            \<and> ps_start_attempt_id r \<noteq> in_platform_start_attempt_id w
            \<and> w' = apply_matching_frame cf mo ui True r (adopt_attempt r v))"
  have fv: "foreign_lease h v" using assms(1) v foreign_leases by blast
  have fa: "foreign_lease h (adopt_attempt r v)" for r using fv foreign_leases adopt_parts(3) by blast
  show ?thesis using w' fv fa foreign_frame by blast
qed

lemma foreign_sync:
  assumes "foreign_lease h w"
  shows "foreign_lease h (synced cf mo w)" "foreign_lease h (fst (sync_platform_for_binding_locked cf mo a w))"
proof -
  have env: "foreign_lease h (fst (apply_platform_envelope_locked cf mo ui ex env w))" for ui ex env
    using foreign_envelope [OF assms] by (cases "apply_platform_envelope_locked cf mo ui ex env w") simp
  have diag: "foreign_lease h (push_diag_locked mo l m w)" for l m using assms foreign_leases push_diag_parts(4) by blast
  show "foreign_lease h (synced cf mo w)"
    using assms env diag by (simp add: synced_def sync_platform_locked_def sync_platform_locked_with_adoption_def split: option.split sum.split)
  have bind: "foreign_lease h (fst (case apply_platform_envelope_locked cf mo ui ex e w of (v, ack) \<Rightarrow> (v, Ok ack :: (str, bool) result)))"
    for ui ex e using env by (simp add: split_beta)
  show "foreign_lease h (fst (sync_platform_for_binding_locked cf mo a w))"
    unfolding sync_platform_for_binding_locked_def
    by (cases "en_ipc w") (auto simp: assms bind try_in_def split: option.split sum.split)
qed

text \<open>Such a lease is never observed as released.\<close>

lemma held_not_released:
  "observe_owner_lease_exact c p io r (LeaseFile b (Some h)) \<noteq> Ok Released"
  by (auto simp: observe_owner_lease_exact_def open_owner_lease_def try_lock_owner_lease_def and_then_Ok try_io_Ok split: flock_outcome.splits if_splits)

lemma ownership_blocked:
  assumes "oj_phase j = Attached" "oj_extension j = Some x" "me \<noteq> x" "foreign_lease h u"
  shows "wd_journal (fst (take_ownership cf ev a me j u)) = wd_journal u"
proof -
  have "observe_lease cf mo (platform_owner_lease_record a x Extension) u \<noteq> Ok Released" for mo
    using assms(4) by (auto simp: foreign_lease_def observe_lease_def platform_owner_lease_record_def held_not_released)
  then show ?thesis
    using assms(1-3) by (auto simp: take_ownership_def Let_def observed_free_def try_in_def split: sum.split lease_observation.split)
qed

lemma foreign_reopen: "foreign_lease h w \<Longrightarrow> foreign_lease h (reopen_connected mo a w)"
proof -
  assume w: "foreign_lease h w"
  have "leases_of (reopen_connected mo a w) = leases_of w"
    unfolding reopen_connected_def by (simp add: push_diag_parts(4)) (simp add: leases_of_def)
  then show "foreign_lease h (reopen_connected mo a w)" using w foreign_leases by blast
qed

text \<open>The journal names an attached Extension whose lease is locked, and not by this process.\<close>

definition live_owner :: "('b, 'm) config \<Rightarrow> owner_journal \<Rightarrow> process_identity \<Rightarrow> nat \<Rightarrow> ('b, 'm) world \<Rightarrow> bool" where
  "live_owner cf j x h w \<longleftrightarrow> journal_view (cf_journals cf) (wd_journal w) = Some (JPresent j)
     \<and> oj_phase j = Attached \<and> oj_extension j = Some x \<and> foreign_lease h w"

lemma bind_blocked:
  assumes w: "live_owner cf j x h w" and me: "me \<noteq> x"
  shows "wd_journal (fst (bind_platform_vpn_start cf ev (Ok me) a w)) = wd_journal w"
proof -
  obtain s r where s: "sync_platform_for_binding_locked cf (ev 0) a w = (s, r)" by (rule prod.exhaust)
  have js: "wd_journal s = wd_journal w" using s by (metis fst_conv journal_keeps)
  have fs: "foreign_lease h s" using foreign_sync(2) [of h w cf "ev 0" a] w s by (simp add: live_owner_def)
  let ?u = "reopen_connected (ev 0) a s"
  have u: "wd_journal ?u = wd_journal w" "foreign_lease h ?u" using js fs by (simp_all add: journal_keeps foreign_reopen)
  let ?k = "\<lambda>lease w. let w = (case lease of None \<Rightarrow> w | Some h \<Rightarrow> keep_extension h w);
             w = synced cf (ev 5) w
         in if in_platform_start_attempt_id w \<noteq> a then
              (w, Err (''platform VPN start attempt '' @ a @ '' was superseded after owner attachment''))
            else bind_in (announce_owner cf (ev 6) a me w) (\<lambda>_ w. (w, Ok (owner_text me)))"
  have k: "wd_journal (fst (?k lease v)) = wd_journal v" for lease v by (simp add: journal_keeps Let_def split: option.split)
  have own: "wd_journal (fst (bind_in (take_ownership cf ev a me j' ?u) ?k)) = wd_journal w"
    if now: "and_then (journal_now cf (ev 1) ?u) (journal_of_attempt a) = Ok j'" for j'
  proof -
    obtain found where found: "journal_now cf (ev 1) ?u = Ok found" "journal_of_attempt a found = Ok j'"
      using now by (auto simp: and_then_Ok)
    have "j' = j" using journal_now_view [OF found(1)] found(2) u(1) w
      by (auto simp: journal_of_attempt_def live_owner_def split: if_splits)
    then have "wd_journal (fst (take_ownership cf ev a me j' ?u)) = wd_journal w"
      using ownership_blocked [of j x me h ?u cf ev a] w me u by (simp add: live_owner_def)
    then show ?thesis by (rule bind_in_keeps) (rule trans [OF k])
  qed
  show ?thesis
    unfolding bind_platform_vpn_start_def s try_in_simps
    using js u(1) own by (cases r) (auto simp: Let_def try_in_def split: sum.split)
qed

text \<open>A call that is neither the owner's own nor the deletion after a proof that the owner is gone.\<close>

fun spares :: "process_identity \<Rightarrow> call \<Rightarrow> bool" where
  "spares x (Owner (BindStart me a)) \<longleftrightarrow> me \<noteq> Ok x"
| "spares x (Owner (CompleteCleanup me a)) \<longleftrightarrow> me \<noteq> Ok x"
| "spares x (Owner (RecoveryDelete a y)) \<longleftrightarrow> y \<noteq> Some x"
| "spares x _ \<longleftrightarrow> True"

lemma spared_spec:
  assumes "oj_phase j = Attached" "oj_extension j = Some x" "may_do c op" "spec_op op (JPresent j) = Some (v', ans)"
    "spares x c" "\<And>me a. c \<noteq> Owner (BindStart me a)"
  shows "v' = JPresent j"
  using assms by (cases "(c, op)" rule: may_do.cases) (auto split: if_splits)

lemma live_owner_kept:
  assumes w: "live_owner cf j x h w" and rb: "reads_back (cf_journals cf)" and c: "spares x c"
  shows "wd_journal (perform cf ev c w) = wd_journal w"
proof (cases "\<exists>me a. c = Owner (BindStart me a)")
  case True
  then obtain me a where ca: "c = Owner (BindStart me a)" by blast
  show ?thesis
  proof (cases me)
    case (Inl e)
    then show ?thesis by (simp add: ca bind_platform_vpn_start_def)
  next
    case (Inr y)
    then show ?thesis using bind_blocked [OF w, of y ev a] c by (simp add: ca)
  qed
next
  case False
  have v: "journal_view (cf_journals cf) (wd_journal w) = Some (JPresent j)" "oj_phase j = Attached" "oj_extension j = Some x"
    using w by (simp_all add: live_owner_def)
  have "fst (run_op (cf_journals cf) p io tmp op (wd_journal w)) = wd_journal w" if op: "may_do c op" for p io tmp op
    by (rule run_quiet [OF v(1) rb]) (rule spared_spec [OF v(2,3) op _ c], assumption, use False in blast)
  then show ?thesis using perform_moves [of cf c w ev] by (auto simp: journal_moves_def)
qed

text \<open>
  The recovery after a confirmed stop keeps to the same rule: while the others leave the owner alive, no turn of it
  removes the journal.
\<close>

lemma recovery_proof_owner:
  assumes "live_owner cf j x h w" "recovery_proof cf mo home a fence j w = Ok (y, prf, reason)"
  shows "prf \<noteq> Proven"
  using assms
  by (auto simp: live_owner_def foreign_lease_def recovery_proof_def and_then_Ok held_not_released elim: proof_of.elims)

definition owner_stays :: "('b, 'm) config \<Rightarrow> owner_journal \<Rightarrow> process_identity \<Rightarrow> nat \<Rightarrow> 'b slot \<Rightarrow> ('b, 'm) world \<Rightarrow> bool" where
  "owner_stays cf j x h s w \<longleftrightarrow> live_owner cf j x h w \<and> wd_journal w = s"

lemma owner_stays_synced: "owner_stays cf j x h s w \<Longrightarrow> owner_stays cf j x h s (synced cf mo w)"
  using foreign_sync(1) by (auto simp: owner_stays_def live_owner_def journal_keeps)

lemma recovery_turn_owner:
  assumes w: "owner_stays cf j x h s w" and others: "\<And>k v. owner_stays cf j x h s v \<Longrightarrow> owner_stays cf j x h s (others k v)"
  shows "owner_stays cf j x h s (fst (recovery_turn cf ev others d a w))"
proof -
  let ?w = "synced cf (ev 0) w"
  have s0: "owner_stays cf j x h s (others 0 ?w)" using owner_stays_synced [OF w] others by blast
  have "journal_view (cf_journals cf) (wd_journal (others 0 ?w)) = Some (JPresent j)"
    using s0 by (auto simp: owner_stays_def live_owner_def)
  then have found: "v = JPresent j" if "journal_read (cf_journals cf) p io (wd_journal (others 0 ?w)) = Ok v" for v p io
    using that read_view by (fastforce simp: journal_read_def and_then_Ok)
  have s2: "owner_stays cf j x h s (others 2 (others 0 ?w))" using s0 others by blast
  have "recovery_proof cf mo home fence a' j (others 2 (others 0 ?w)) \<noteq> Ok (y, Proven, reason)" for mo home fence a' y reason
    using s2 recovery_proof_owner unfolding owner_stays_def by blast
  then show ?thesis
    unfolding recovery_turn_def Let_def
    using owner_stays_synced [OF w] s0 s2 others [OF s2]
    by (auto simp: try_in_def dest!: found split: sum.split cleanup_recovery_proof.split)
qed

lemma recovery_loop_owner:
  assumes "\<And>i k v. owner_stays cf j x h s v \<Longrightarrow> owner_stays cf j x h s (others i k v)"
  shows "owner_stays cf j x h s w \<Longrightarrow> owner_stays cf j x h s (fst (recovery_loop cf ev others d a i fuel w))"
proof (induction fuel arbitrary: i w)
  case (Suc fuel)
  obtain v r where v: "recovery_turn cf (ev i) (others i) d a w = (v, r)" by (rule prod.exhaust)
  have "owner_stays cf j x h s (fst (recovery_turn cf (ev i) (others i) d a w))"
    using Suc.prems assms by (rule recovery_turn_owner)
  then have "owner_stays cf j x h s v" using v by simp
  then show ?case using v Suc.IH by (cases r) (auto split: option.split)
qed simp

subsection \<open>The end of a recovery\<close>

text \<open>A turn that goes on found the owner alive before the deadline, unless someone else wrote the journal meanwhile.\<close>

lemma delete_found:
  assumes v: "journal_view c s = Some (JPresent j)" and a: "oj_attempt_id j = a" and y: "y = oj_extension j"
  shows "snd (delete_exact c p io a y s) \<noteq> Ok False"
proof -
  have "validate_record j = Ok ()" using v by (rule view_valid)
  then have "spec_op (OpDelete a y) (JPresent j) = Some (JMissing, True)"
    using a y by (auto simp: validate_record_iff split: option.splits)
  then show ?thesis using delete_refines [OF v, of a y p io] by (auto simp: refines_def agrees_def)
qed

lemma recovery_proof_expected:
  "recovery_proof cf mo home a fence j w = Ok (y, prf, reason) \<Longrightarrow> y = oj_extension j"
  by (cases "oj_phase j"; cases "oj_extension j") (auto simp: recovery_proof_def Let_def and_then_Ok split: if_splits)

definition waits :: "bool \<Rightarrow> 's \<times> (str, 'a option) result \<Rightarrow> bool" where
  "waits p r \<longleftrightarrow> (snd r = Ok None \<longrightarrow> p)"

lemma waits_through:
  "(\<And>x. r = Ok x \<Longrightarrow> waits p (k x)) \<Longrightarrow> waits p (try_in w r k)"
  "(\<And>x. snd r2 = Ok x \<Longrightarrow> waits p (k2 x (fst r2))) \<Longrightarrow> waits p (bind_in r2 k2)"
  "(b \<Longrightarrow> waits p y) \<Longrightarrow> (\<not> b \<Longrightarrow> waits p z) \<Longrightarrow> waits p (if b then y else z)"
proof -
  show "(\<And>x. r = Ok x \<Longrightarrow> waits p (k x)) \<Longrightarrow> waits p (try_in w r k)" by (cases r) (simp_all add: waits_def)
  show "(\<And>x. snd r2 = Ok x \<Longrightarrow> waits p (k2 x (fst r2))) \<Longrightarrow> waits p (bind_in r2 k2)"
    by (cases r2; cases "snd r2") (simp_all add: waits_def)
qed simp

lemma recovery_turn_waits:
  assumes others: "\<And>k v. wd_journal (others k v) = wd_journal v"
  shows "waits (mo_instant (ev 6) < d) (recovery_turn cf ev others d a w)"
proof -
  have found: "snd (bind_in (on_journal (delete_exact (cf_journals cf) p io (oj_attempt_id j) (oj_extension j)) v)
      (\<lambda>deleted w. if \<not> deleted then (w, Ok None) else bind_in (r w) (\<lambda>b w. (w, Ok (Some b))))) \<noteq> Ok (None :: bool option)"
    if "journal_view (cf_journals cf) (wd_journal v) = Some (JPresent j)" for p io j v and r :: "('a, 'b) world \<Rightarrow> ('a, 'b) world \<times> (str, bool) result"
  proof -
    obtain v' x where x: "on_journal (delete_exact (cf_journals cf) p io (oj_attempt_id j) (oj_extension j)) v = (v', x)"
      by (rule prod.exhaust)
    have "x \<noteq> Ok False" using delete_found [OF that refl refl, of p io] x by (auto simp: on_journal_def split: prod.splits)
    then show ?thesis unfolding x by (cases x; cases "r v'"; cases "snd (r v')") auto
  qed
  show ?thesis
    unfolding recovery_turn_def Let_def
    apply (rule waits_through(3), simp add: waits_def)
    apply (rule waits_through(1))
    subgoal premises read for v
    proof (cases v)
      case JMissing
      then show ?thesis by (simp add: waits_def)
    next
      case (JPresent j)
      have "journal_view (cf_journals cf) (wd_journal (others 0 (synced cf (ev 0) w))) = Some (JPresent j)"
        using read JPresent by (auto simp: journal_read_def and_then_Ok intro: read_view)
      then have view: "journal_view (cf_journals cf) (wd_journal (others 3 (others 2 (others 0 (synced cf (ev 0) w))))) = Some (JPresent j)"
        by (simp add: others)
      show ?thesis
        unfolding JPresent journal_read.case
        apply (rule waits_through(3), simp add: waits_def)
        apply (rule waits_through(1))
        using found [OF view] by (auto simp: waits_def dest!: recovery_proof_expected split: cleanup_recovery_proof.splits)
    qed
    done
qed

text \<open>The clock passes the deadline after 300 waits of 100 ms.\<close>

lemma recovery_loop_ends:
  assumes others: "\<And>i k v. wd_journal (others i k v) = wd_journal v"
    and clock: "\<And>i. start + i * platform_os_stop_recovery_poll_interval \<le> mo_instant (ev i 6)"
  shows "300 < i + fuel \<Longrightarrow> i \<le> 300
    \<Longrightarrow> snd (recovery_loop cf ev others (start + platform_os_stop_recovery_deadline) a i fuel w) \<noteq> Ok None"
proof (induction fuel arbitrary: i w)
  case (Suc fuel)
  let ?d = "start + platform_os_stop_recovery_deadline"
  obtain v r where v: "recovery_turn cf (ev i) (others i) ?d a w = (v, r)" by (rule prod.exhaust)
  have turn: "mo_instant (ev i 6) < ?d" if "r = Ok None"
    using recovery_turn_waits [of "others i" "ev i" ?d cf a w] others that v by (simp add: waits_def)
  have "i < 300" if "r = Ok None"
    using turn [OF that] clock [of i] by (simp add: platform_os_stop_recovery_deadline_def platform_os_stop_recovery_poll_interval_def)
  then show ?case
    using v Suc.IH [of "i + 1" v] Suc.prems by (cases r) (auto split: option.split)
qed simp

text \<open>
  C0: A live Extension is not displaced. While the journal names an attached Extension whose lease is locked by a
  descriptor of another process, no call of a handler changes the journal, other than the Extension's own binding and
  cleanup and a deletion that follows the proof that the owner is gone; and the recovery after a confirmed stop, however
  long it runs beside processes that leave this owner alone, never comes to that proof.
\<close>

theorem live_owner_protected:
  assumes owner: "live_owner cf j x h w" and codec: "reads_back (cf_journals cf)" and call: "spares x c"
    and others: "\<And>i k v. owner_stays cf j x h (wd_journal w) v \<Longrightarrow> owner_stays cf j x h (wd_journal w) (others i k v)"
  shows "wd_journal (perform cf ev c w) = wd_journal w
    \<and> wd_journal (fst (recover_platform_vpn_cleanup_after_confirmed_stop cf evs others start fuel a w)) = wd_journal w"
proof
  show "wd_journal (perform cf ev c w) = wd_journal w" using owner codec call by (rule live_owner_kept)
  have w: "owner_stays cf j x h (wd_journal w) w" using owner by (simp add: owner_stays_def)
  then show "wd_journal (fst (recover_platform_vpn_cleanup_after_confirmed_stop cf evs others start fuel a w)) = wd_journal w"
    using recovery_loop_owner [where others = others, OF others w]
    by (simp add: recover_platform_vpn_cleanup_after_confirmed_stop_def owner_stays_def)
qed

text \<open>
  C0: The recovery after a confirmed stop comes to an end. Nobody else writing the journal, and the clock moving on by at
  least the poll interval of 100 ms from turn to turn, 301 turns of its loop are enough for it to answer or to report an
  error: an owner that stays alive is given up at the deadline of 30 s, and a journal that was found is deleted or the
  deletion fails.
\<close>

theorem recovery_terminates:
  assumes others: "\<And>i k v. wd_journal (others i k v) = wd_journal v"
    and clock: "\<And>i. start + i * platform_os_stop_recovery_poll_interval \<le> mo_instant (ev i 6)"
    and fuel: "300 < fuel"
  shows "(\<exists>b. snd (recover_platform_vpn_cleanup_after_confirmed_stop cf ev others start fuel a w) = Ok (Some b))
    \<or> (\<exists>e. snd (recover_platform_vpn_cleanup_after_confirmed_stop cf ev others start fuel a w) = Err e)"
proof -
  let ?r = "recover_platform_vpn_cleanup_after_confirmed_stop cf ev others start fuel a w"
  have "snd (recovery_loop cf ev others (start + platform_os_stop_recovery_deadline) a 0 fuel w) \<noteq> Ok None"
    by (rule recovery_loop_ends) (use others clock fuel in auto)
  then have "snd ?r \<noteq> Ok None" by (simp add: recover_platform_vpn_cleanup_after_confirmed_stop_def)
  then show ?thesis by (cases "snd ?r") auto
qed

text \<open>An Extension that was attached, its lease locked by its own descriptor 7.\<close>

definition attached_world :: "(demo_doc, nat \<Rightarrow> byte) world" where
  "attached_world = fresh_world\<lparr>in_home := ''/data'', wd_journal := journal_file demo_attached,
     wd_extension_lease := LeaseFile (DocLease (to_stored_lease (platform_owner_lease_record ''a1'' demo_extension Extension))) (Some 7)\<rparr>"

lemma attached_live: "live_owner demo_config demo_attached demo_extension 7 attached_world"
proof -
  have "journal_view (cf_journals demo_config) (journal_file demo_attached) = Some (JPresent demo_attached)"
    by (simp add: journal_view_def journal_file_def demo_config_def doc_codec_def max_journal_bytes_def) code_simp
  then show ?thesis
    by (simp add: live_owner_def foreign_lease_def attached_world_def demo_attached_def fresh_world_simps)
qed

lemma live_owner_protected_witness:
  "wd_journal (perform demo_config demo_moment (Owner (BindStart (Ok demo_issuer) ''a1'')) attached_world) = wd_journal attached_world
   \<and> wd_journal (fst (recover_platform_vpn_cleanup_after_confirmed_stop demo_config (\<lambda>_. demo_moment) (\<lambda>_ _ v. v) 0 3 ''a1'' attached_world))
      = wd_journal attached_world"
proof -
  have "spares demo_extension (Owner (BindStart (Ok demo_issuer) ''a1''))" by (simp add: demo_issuer_def demo_extension_def)
  from live_owner_protected [OF attached_live demo_journals_read_back this, where others = "\<lambda>_ _ v. v"]
  show ?thesis .
qed

text \<open>Its recovery under a clock that shows one poll interval per turn.\<close>

lemma recovery_terminates_witness:
  "\<exists>r. snd (recover_platform_vpn_cleanup_after_confirmed_stop demo_config
       (\<lambda>i _. demo_moment (i * platform_os_stop_recovery_poll_interval)) (\<lambda>_ _ v. v) 0 301 ''a1'' attached_world) = r \<and> r \<noteq> Ok None"
proof -
  have "0 + i * platform_os_stop_recovery_poll_interval \<le> mo_instant (demo_moment (i * platform_os_stop_recovery_poll_interval))" for i
    by (simp add: demo_moment_def)
  from recovery_terminates [where ev = "\<lambda>i _. demo_moment (i * platform_os_stop_recovery_poll_interval)" and start = 0
      and others = "\<lambda>_ _ v. v" and fuel = 301 and cf = demo_config and a = "''a1''" and w = attached_world, OF refl this]
  show ?thesis by auto
qed

end
