(* ===== verification/Oc_Form.thy ===== *)
theory Oc_Form
  imports Oc_Auth "HOL-Library.Word"
begin

unbundle bit_operations_syntax

text \<open>
  \<open>crates/hopenconnect_core/src/native_session.rs\<close>, the authentication handler: what the callback that OpenConnect
  calls for every form of the headend does with it.

  The form belongs to the \<open>anyconnect\<close> crate. What its accessors show is the record \<open>server_form\<close>; what its setters
  answer, and the options as the second enumeration of them shows, are arguments (\<open>form_calls\<close>). The person in front
  of the UI is the function \<open>ask\<close> from a challenge to the reply \<open>AuthInteraction::wait_for_reply\<close> returns with;
  without an interaction it is \<open>None\<close>. The \<open>Debug\<close> form of a text is an argument too: it depends on the Unicode tables
  of the standard library.
\<close>

definition utf8 :: "nat list \<Rightarrow> str" where
  "utf8 bytes = map char_of bytes"

subsection \<open>The form as the library shows it\<close>

datatype form_option_kind = FText | FPassword | FSelect | FHidden | FToken | FSsoToken | FSsoUser | FUnknown int

record form_option =
  fo_name :: "str option"
  fo_label :: "str option"
  fo_kind :: form_option_kind
  fo_ignored :: bool
  fo_auth_group :: bool
  fo_second_auth :: bool
  fo_value :: "str option"
  fo_choices :: "auth_field_choice list"

record server_form =
  sf_id :: "str option"
  sf_banner :: "str option"
  sf_message :: "str option"
  sf_error :: "str option"
  sf_method :: "str option"
  sf_options :: "form_option list"
  sf_groups :: "auth_field_choice list"
  sf_selection :: int

record form_calls =
  fc_select_group :: "nat \<Rightarrow> (str, unit) result"
  fc_set :: "nat \<Rightarrow> bool \<Rightarrow> str \<Rightarrow> (str, unit) result"
  fc_options :: "form_option list"
  fc_debug :: "str \<Rightarrow> str"

datatype form_result = FormSubmit | FormCancelled | FormError | FormNewGroup

subsection \<open>The memory of a session\<close>

record field_fingerprint =
  ff_option_index :: nat
  ff_option_digest :: str

record form_fingerprint =
  fp_form_id :: "str option"
  fp_options :: "field_fingerprint list"

definition from_fields :: "str option \<Rightarrow> auth_field list \<Rightarrow> form_fingerprint" where
  "from_fields form_id fs =
     \<lparr>fp_form_id = form_id,
      fp_options = map (\<lambda>f. \<lparr>ff_option_index = fk_option_index (af_key f), ff_option_digest = fk_option_digest (af_key f)\<rparr>) fs\<rparr>"

record form_state =
  st_auth_group_set :: bool
  st_consecutive_empty_forms :: nat
  st_automatically_submitted :: "form_fingerprint list"
  st_hidden_follow_up :: "str option"

definition form_state_default :: form_state where
  "form_state_default = \<lparr>st_auth_group_set = False, st_consecutive_empty_forms = 0, st_automatically_submitted = [],
     st_hidden_follow_up = None\<rparr>"

definition take_auth_group_refresh :: "bool \<Rightarrow> form_state \<Rightarrow> form_state \<times> bool" where
  "take_auth_group_refresh selection_changed st =
     (if st_auth_group_set st then (st, False) else (st\<lparr>st_auth_group_set := True\<rparr>, selection_changed))"

definition accept_form :: "bool \<Rightarrow> form_state \<Rightarrow> form_state \<times> bool" where
  "accept_form has_active_input st =
     (if has_active_input then (st\<lparr>st_consecutive_empty_forms := 0\<rparr>, True)
      else let n = min (st_consecutive_empty_forms st + 1) 255
           in (st\<lparr>st_consecutive_empty_forms := n\<rparr>, n < 3))"

definition was_automatically_submitted :: "form_fingerprint \<Rightarrow> form_state \<Rightarrow> bool" where
  "was_automatically_submitted fp st \<longleftrightarrow> fp \<in> set (st_automatically_submitted st)"

definition record_submission :: "form_fingerprint \<Rightarrow> bool \<Rightarrow> form_state \<Rightarrow> form_state" where
  "record_submission fp automatic st =
     (if automatic \<and> \<not> was_automatically_submitted fp st
      then st\<lparr>st_automatically_submitted := st_automatically_submitted st @ [fp]\<rparr> else st)"

definition record_follow_up_submission :: "auth_form_role \<Rightarrow> bool \<Rightarrow> str option \<Rightarrow> form_state \<Rightarrow> form_state" where
  "record_follow_up_submission role has_active_input form_id st =
     (if role = Challenge
      then st\<lparr>st_hidden_follow_up :=
                (if has_active_input then None else Some (case form_id of None \<Rightarrow> ''<missing>'' | Some i \<Rightarrow> i))\<rparr>
      else st)"

subsection \<open>The options as fields\<close>

definition protocol_owns_auth_value :: "form_option_kind \<Rightarrow> bool" where
  "protocol_owns_auth_value k \<longleftrightarrow> k = FToken \<or> k = FSsoToken \<or> k = FSsoUser"

text \<open>\<open>None\<close> where the source says \<open>unreachable!\<close>.\<close>

fun field_kind_of :: "form_option_kind \<Rightarrow> auth_field_kind option" where
  "field_kind_of FText = Some KText"
| "field_kind_of FPassword = Some KPassword"
| "field_kind_of FSelect = Some KSelect"
| "field_kind_of FHidden = Some KHidden"
| "field_kind_of (FUnknown _) = Some KUnknown"
| "field_kind_of _ = None"

fun kind_as_u8 :: "auth_field_kind \<Rightarrow> nat" where
  "kind_as_u8 KText = 0"
| "kind_as_u8 KPassword = 1"
| "kind_as_u8 KSelect = 2"
| "kind_as_u8 KToken = 3"
| "kind_as_u8 KHidden = 4"
| "kind_as_u8 KUnknown = 5"

definition fnv_offset :: "64 word" where "fnv_offset = 0xcbf29ce484222325"
definition fnv_prime :: "64 word" where "fnv_prime = 0x100000001b3"

definition to_le_bytes_u64 :: "nat \<Rightarrow> nat list" where
  "to_le_bytes_u64 n = map (\<lambda>i. n div 256 ^ i mod 256) [0..<8]"

definition digest_update :: "64 word \<Rightarrow> nat list \<Rightarrow> 64 word" where
  "digest_update h bytes =
     foldl (\<lambda>h b. (h XOR word_of_nat b) * fnv_prime) h (to_le_bytes_u64 (length bytes) @ bytes)"

definition text_bytes :: "str \<Rightarrow> nat list" where
  "text_bytes s = map of_char s"

definition show_hex16 :: "64 word \<Rightarrow> str" where
  "show_hex16 h = (let s = show_hex (unat h) in replicate (16 - length s) (CHR ''0'') @ s)"

definition auth_option_digest :: "str \<Rightarrow> str \<Rightarrow> auth_field_kind \<Rightarrow> auth_field_choice list \<Rightarrow> bool \<Rightarrow> str" where
  "auth_option_digest name label kind choices second_auth =
     (let h = digest_update fnv_offset (text_bytes name);
          h = digest_update h (text_bytes label);
          h = digest_update h [kind_as_u8 kind];
          h = digest_update h [of_bool second_auth]
      in show_hex16 (foldl (\<lambda>h c. digest_update (digest_update h (text_bytes (ch_name c))) (text_bytes (ch_label c))) h choices))"

definition max_u32 :: nat where "max_u32 = 4294967295"

definition option_index :: "nat \<Rightarrow> nat" where
  "option_index i = min i max_u32"

definition option_choices :: "form_option \<Rightarrow> auth_field_choice list" where
  "option_choices opt =
     map (\<lambda>c. \<lparr>ch_name = ch_name c, ch_label = (if ch_label c = [] then ch_name c else ch_label c)\<rparr>) (fo_choices opt)"

definition field_of_option :: "str option \<Rightarrow> nat \<Rightarrow> form_option \<Rightarrow> auth_field option" where
  "field_of_option form_id i opt =
     (if fo_ignored opt \<or> fo_auth_group opt then None
      else if protocol_owns_auth_value (fo_kind opt) then None
      else case field_kind_of (fo_kind opt) of
        None \<Rightarrow> None
      | Some kind \<Rightarrow>
          (let name = (case fo_name opt of None \<Rightarrow> [] | Some n \<Rightarrow> n);
               label = (case fo_label opt of None \<Rightarrow> name | Some l \<Rightarrow> if trim l = [] then name else l);
               value = (case fo_value opt of None \<Rightarrow> [] | Some v \<Rightarrow> v);
               choices = option_choices opt
           in Some \<lparr>af_key = \<lparr>fk_form_id = form_id, fk_option_index = option_index i,
                              fk_option_digest = auth_option_digest name label kind choices (fo_second_auth opt)\<rparr>,
                    af_name = name, af_label = label, af_kind = kind, af_value = value, af_choices = choices,
                    af_auth_group = False, af_second_auth = fo_second_auth opt,
                    af_required = (kind \<noteq> KHidden \<and> trim value = [])\<rparr>))"

definition snapshot_form_fields :: "form_option list \<Rightarrow> str option \<Rightarrow> auth_field list" where
  "snapshot_form_fields options form_id = filter_map (\<lambda>(i, opt). field_of_option form_id i opt) (enumerate 0 options)"

definition is_active_input :: "form_option \<Rightarrow> bool" where
  "is_active_input opt \<longleftrightarrow> \<not> fo_ignored opt \<and> \<not> fo_auth_group opt
     \<and> (case fo_kind opt of FText \<Rightarrow> True | FPassword \<Rightarrow> True | FSelect \<Rightarrow> True | FToken \<Rightarrow> True | FUnknown _ \<Rightarrow> True | _ \<Rightarrow> False)"

definition form_has_active_input :: "form_option list \<Rightarrow> bool" where
  "form_has_active_input options \<longleftrightarrow> list_ex is_active_input options"

subsection \<open>The configured group\<close>

fun position :: "('a \<Rightarrow> bool) \<Rightarrow> 'a list \<Rightarrow> nat option" where
  "position P [] = None"
| "position P (x # xs) = (if P x then Some 0 else map_option Suc (position P xs))"

definition configured_auth_group_index :: "str \<Rightarrow> auth_field_choice list \<Rightarrow> nat option" where
  "configured_auth_group_index configured choices =
     (let configured = trim configured
      in if configured = [] then None
         else case position (\<lambda>c. ch_name c = configured) choices of
                Some i \<Rightarrow> Some i
              | None \<Rightarrow> position (\<lambda>c. trim (ch_label c) = configured) choices)"

text \<open>An early result with its message, or to go on; a selection the form refuses changes nothing.\<close>

definition apply_configured_auth_group ::
    "server_form \<Rightarrow> form_calls \<Rightarrow> str \<Rightarrow> form_state \<Rightarrow> form_state \<times> (form_result \<times> str option) option" where
  "apply_configured_auth_group form calls configured st =
     (let choices = sf_groups form
      in if choices = [] then (st, None)
         else if trim configured = [] then (st, None)
         else case configured_auth_group_index configured choices of
           None \<Rightarrow>
             (st, Some (FormError, Some (''configured authentication group '' @ fc_debug calls configured
                @ '' is not offered by the server; available groups: ''
                @ join '', '' (map (\<lambda>c. ch_label c @ '' ('' @ ch_name c @ '')'') choices))))
         | Some selection \<Rightarrow>
             (case fc_select_group calls selection of
                Err e \<Rightarrow>
                  (st, Some (FormError, Some (''failed to apply configured authentication group '' @ fc_debug calls configured
                     @ '': '' @ e)))
              | Ok _ \<Rightarrow>
                  (case take_auth_group_refresh (sf_selection form \<noteq> int selection) st of
                     (st, True) \<Rightarrow> (st, Some (FormNewGroup, None))
                   | (st, False) \<Rightarrow> (st, None))))"

subsection \<open>Writing the answers\<close>

text \<open>
  The loop over the enumerated options with the index of the next field: the values set before it ended, and that index,
  or the option that refused its value.
\<close>

fun write_options ::
    "form_calls \<Rightarrow> auth_field list \<Rightarrow> str option list \<Rightarrow> nat \<Rightarrow> nat \<Rightarrow> form_option list
       \<Rightarrow> (nat \<times> str) list \<times> (str, nat) result" where
  "write_options calls fs values i k [] = ([], Ok k)"
| "write_options calls fs values i k (opt # opts) =
     (if length fs \<le> k then ([], Ok k)
      else if fk_option_index (af_key (fs ! k)) \<noteq> option_index i then write_options calls fs values (i + 1) k opts
      else if fo_kind opt = FHidden \<or> fo_ignored opt \<or> fo_auth_group opt then
        write_options calls fs values (i + 1) (k + 1) opts
      else case (if k < length values then values ! k else None) of
        None \<Rightarrow> write_options calls fs values (i + 1) (k + 1) opts
      | Some v \<Rightarrow>
          (case fc_set calls i (fo_kind opt = FSelect) v of
             Err e \<Rightarrow> ([], Err (''failed to set authentication field '' @ (case fo_name opt of None \<Rightarrow> [] | Some n \<Rightarrow> n)
                                @ '': '' @ e))
           | Ok _ \<Rightarrow> (let (written, r) = write_options calls fs values (i + 1) (k + 1) opts in ((i, v) # written, r))))"

subsection \<open>The handler\<close>

record form_outcome =
  fx_result :: form_result
  fx_error :: "str option"
  fx_state :: form_state
  fx_written :: "(nat \<times> str) list"
  fx_asked :: "auth_challenge option"

abbreviation failed_form :: "str \<Rightarrow> form_state \<Rightarrow> (nat \<times> str) list \<Rightarrow> auth_challenge option \<Rightarrow> form_outcome" where
  "failed_form e st ws asked \<equiv> \<lparr>fx_result = FormError, fx_error = Some e, fx_state = st, fx_written = ws, fx_asked = asked\<rparr>"

abbreviation cancelled_form :: "form_state \<Rightarrow> auth_challenge option \<Rightarrow> form_outcome" where
  "cancelled_form st asked \<equiv> \<lparr>fx_result = FormCancelled, fx_error = None, fx_state = st, fx_written = [], fx_asked = asked\<rparr>"

definition replay_text :: "(str \<Rightarrow> str) \<Rightarrow> str option \<Rightarrow> str option \<Rightarrow> str" where
  "replay_text debug hidden_follow_up server_error =
     (case hidden_follow_up of
        Some form \<Rightarrow>
          utf8 [0xE6, 0x9C, 0x8D, 0xE5, 0x8A, 0xA1, 0xE5, 0x99, 0xA8, 0xE5, 0x9C, 0xA8, 0xE4, 0xBA, 0x8C, 0xE6, 0xAC, 0xA1, 0xE8, 0xAE, 0xA4, 0xE8, 0xAF, 0x81, 0xE8, 0xA1, 0xA8, 0xE5, 0x8D, 0x95] @ '' '' @ debug form
          @ '' '' @ utf8 [0xE4, 0xB8, 0xAD, 0xE5, 0x8F, 0xAA, 0xE6, 0x8F, 0x90, 0xE4, 0xBE, 0x9B, 0xE4, 0xBA, 0x86, 0xE9,
          0x9A, 0x90, 0xE8, 0x97, 0x8F, 0xE5, 0xAD, 0x97, 0xE6, 0xAE, 0xB5, 0xEF, 0xBC, 0x8C, 0xE6, 0xB2, 0xA1, 0xE6,
          0x9C, 0x89, 0xE6, 0x8F, 0x90, 0xE4, 0xBE, 0x9B, 0xE5, 0x8F, 0xAF, 0xE8, 0xA7, 0x81, 0xE7, 0x9A, 0x84, 0xE9,
          0xAA, 0x8C, 0xE8, 0xAF, 0x81, 0xE7, 0xA0, 0x81] @ '' option'' @ utf8 [0xEF, 0xBC, 0x8C, 0xE9, 0x9A, 0x8F,
          0xE5, 0x90, 0x8E, 0xE5, 0x8F, 0x88, 0xE8, 0xBF, 0x94, 0xE5, 0x9B, 0x9E] @ '' main'' @ utf8 [0xEF, 0xBC, 0x9B,
          0xE5, 0xB7, 0xB2, 0xE5, 0x81, 0x9C, 0xE6, 0xAD, 0xA2, 0xE9, 0x87, 0x8D, 0xE6, 0x94, 0xBE, 0xE7, 0x99, 0xBB,
          0xE5, 0xBD, 0x95, 0xE5, 0xAF, 0x86, 0xE7, 0xA0, 0x81, 0xE4, 0xBB, 0xA5, 0xE9, 0x81, 0xBF, 0xE5, 0x85, 0x8D,
          0xE5, 0x86, 0x8D, 0xE6, 0xAC, 0xA1, 0xE8, 0xA7, 0xA6, 0xE5, 0x8F, 0x91, 0xE7, 0x9F, 0xAD, 0xE4, 0xBF, 0xA1]
          @ (case server_error of
               None \<Rightarrow> []
             | Some detail \<Rightarrow> if trim detail = [] then [] else utf8 [0xEF, 0xBC, 0x9B, 0xE7, 0xBD, 0x91, 0xE5, 0x85, 0xB3, 0xE5, 0x8E, 0x9F, 0xE5, 0xA7, 0x8B, 0xE5, 0x93, 0x8D, 0xE5, 0xBA, 0x94, 0xEF, 0xBC, 0x9A] @ detail)
      | None \<Rightarrow>
          utf8 [0xE6, 0x9C, 0x8D, 0xE5, 0x8A, 0xA1, 0xE5, 0x99, 0xA8, 0xE5, 0x86, 0x8D, 0xE6, 0xAC, 0xA1, 0xE8, 0xBF,
          0x94, 0xE5, 0x9B, 0x9E, 0xE4, 0xBA, 0x86, 0xE5, 0x90, 0x8C, 0xE4, 0xB8, 0x80, 0xE8, 0xAE, 0xA4, 0xE8, 0xAF,
          0x81, 0xE8, 0xA1, 0xA8, 0xE5, 0x8D, 0x95, 0xEF, 0xBC, 0x8C, 0xE5, 0xB7, 0xB2, 0xE5, 0x81, 0x9C, 0xE6, 0xAD,
          0xA2, 0xE8, 0x87, 0xAA, 0xE5, 0x8A, 0xA8, 0xE6, 0x8F, 0x90, 0xE4, 0xBA, 0xA4, 0xE4, 0xBB, 0xA5, 0xE9, 0x81,
          0xBF, 0xE5, 0x85, 0x8D, 0xE9, 0x87, 0x8D, 0xE5, 0xA4, 0x8D, 0xE5, 0x8F, 0x91, 0xE9, 0x80, 0x81, 0xE7, 0x9F,
          0xAD, 0xE4, 0xBF, 0xA1, 0xEF, 0xBC, 0x9B] @ ''main/password '' @ utf8 [0xE4, 0xBB, 0x8D, 0xE6, 0x8C, 0x89,
          0xE7, 0x99, 0xBB, 0xE5, 0xBD, 0x95, 0xE5, 0xAF, 0x86, 0xE7, 0xA0, 0x81, 0xE5, 0xA4, 0x84, 0xE7, 0x90, 0x86])"

definition unsatisfied_text :: str where
  "unsatisfied_text =
     utf8 [0xE6, 0x9C, 0x8D, 0xE5, 0x8A, 0xA1, 0xE5, 0x99, 0xA8, 0xE8, 0xBF, 0x94, 0xE5, 0x9B, 0x9E, 0xE4, 0xBA,
     0x86, 0xE6, 0x9C, 0xAA, 0xE6, 0xBB, 0xA1, 0xE8, 0xB6, 0xB3, 0xE7, 0x9A, 0x84, 0xE7, 0x99, 0xBB, 0xE5, 0xBD,
     0x95, 0xE8, 0xA1, 0xA8, 0xE5, 0x8D, 0x95, 0xEF, 0xBC, 0x9B, 0xE5, 0x8F, 0xAA, 0xE6, 0x9C, 0x89, 0xE6, 0x98,
     0x8E, 0xE7, 0xA1, 0xAE, 0xE7, 0x9A, 0x84] @ '' challenge option '' @ utf8 [0xE6, 0x89, 0x8D, 0xE5, 0x85, 0x81,
     0xE8, 0xAE, 0xB8, 0xE6, 0x94, 0xB6, 0xE9, 0x9B, 0x86, 0xE9, 0xAA, 0x8C, 0xE8, 0xAF, 0x81, 0xE7, 0xA0, 0x81]"

definition form_challenge :: "server_form \<Rightarrow> auth_field list \<Rightarrow> auth_challenge" where
  "form_challenge form fs =
     \<lparr>ac_id = 0, ac_round = 0, ac_banner = sf_banner form, ac_message = sf_message form, ac_error = sf_error form,
      ac_form_id = sf_id form, ac_method = sf_method form, ac_fields = fs\<rparr>"

text \<open>The values for the fields, from the profile alone or from the reply to a challenge.\<close>

definition form_values ::
    "(auth_challenge \<Rightarrow> auth_challenge_reply) option \<Rightarrow> server_form \<Rightarrow> auth_field list \<Rightarrow> auth_field list \<Rightarrow> bool
       \<Rightarrow> auth_challenge option \<times> (form_result \<times> str option, str option list) result" where
  "form_values ask form fs user_fields automatic =
     (if automatic then
        (None, (case bind_reply_values_by_option fs \<lparr>ar_id = 0, ar_values = [], ar_cancelled = False\<rparr> of
                  Err e \<Rightarrow> Err (FormError, Some (''failed to bind automatic authentication values: '' @ e))
                | Ok vs \<Rightarrow> Ok vs))
      else case ask of
        None \<Rightarrow> (None, Err (FormCancelled, None))
      | Some answer \<Rightarrow>
          if user_fields = [] then (None, Err (FormError, Some unsatisfied_text))
          else
            let challenge = form_challenge form user_fields; reply = answer challenge
            in (Some challenge,
                if ar_cancelled reply then Err (FormCancelled, None)
                else case bind_reply_values_by_option fs reply of
                       Err e \<Rightarrow> Err (FormError, Some (''failed to bind authentication challenge reply: '' @ e))
                     | Ok vs \<Rightarrow> Ok vs))"

definition handle_auth_form ::
    "server_form \<Rightarrow> form_calls \<Rightarrow> auth_credentials \<Rightarrow> (auth_challenge \<Rightarrow> auth_challenge_reply) option \<Rightarrow> form_state
       \<Rightarrow> form_outcome" where
  "handle_auth_form form calls creds ask st =
     (case apply_configured_auth_group form calls (cr_group creds) st of
        (st, Some (result, e)) \<Rightarrow>
          \<lparr>fx_result = result, fx_error = e, fx_state = st, fx_written = [], fx_asked = None\<rparr>
      | (st, None) \<Rightarrow>
          (let active = form_has_active_input (sf_options form)
           in case accept_form active st of
             (st, False) \<Rightarrow> cancelled_form st None
           | (st, True) \<Rightarrow>
               (let role = for_anyconnect (sf_id form);
                    (fs, applied) = apply_credentials_to_fields (snapshot_form_fields (sf_options form) (sf_id form)) creds role;
                    user_fields = fields_for_user_input fs applied;
                    fingerprint = from_fields (sf_id form) fs;
                    automatic = (can_autofill_without_ui fs \<and> user_fields = [])
                in if automatic \<and> was_automatically_submitted fingerprint st then
                     failed_form (replay_text (fc_debug calls) (st_hidden_follow_up st) (sf_error form)) st [] None
                   else case form_values ask form fs user_fields automatic of
                     (asked, Err (result, e)) \<Rightarrow>
                       \<lparr>fx_result = result, fx_error = e, fx_state = st, fx_written = [], fx_asked = asked\<rparr>
                   | (asked, Ok vs) \<Rightarrow>
                       (case write_options calls fs vs 0 0 (fc_options calls) of
                          (written, Err e) \<Rightarrow> failed_form e st written asked
                        | (written, Ok k) \<Rightarrow>
                            if k \<noteq> length fs then
                              failed_form ''server authentication options changed while binding the reply'' st written asked
                            else
                              \<lparr>fx_result = FormSubmit, fx_error = None,
                               fx_state = record_submission fingerprint automatic
                                            (record_follow_up_submission role active (sf_id form) st),
                               fx_written = written, fx_asked = asked\<rparr>))))"

end
