(* ===== verification/Oc_Form_Laws.thy ===== *)
theory Oc_Form_Laws
  imports Oc_Form Oc_Auth_Laws
begin

text \<open>
  The authentication handler over a whole session of forms: no form is submitted twice without the user, the loop over
  forms ends when nobody answers, and a submission writes each value to the option it belongs to.
\<close>

subsection \<open>Fields and identities\<close>

text \<open>The fields of a form with the profile's credentials in them, and its identity, which the values do not enter.\<close>

definition form_fields :: "auth_credentials \<Rightarrow> server_form \<Rightarrow> auth_field list" where
  "form_fields creds form =
     fst (apply_credentials_to_fields (snapshot_form_fields (sf_options form) (sf_id form)) creds (for_anyconnect (sf_id form)))"

definition form_identity :: "server_form \<Rightarrow> form_fingerprint" where
  "form_identity form = from_fields (sf_id form) (snapshot_form_fields (sf_options form) (sf_id form))"

lemma filled_kept [simp]:
  "af_key (filled creds role b f) = af_key f" "af_kind (filled creds role b f) = af_kind f"
  by (simp_all add: filled_def)

lemma form_fields_kept:
  "map (\<lambda>f. (af_key f, af_kind f)) (form_fields creds form)
     = map (\<lambda>f. (af_key f, af_kind f)) (snapshot_form_fields (sf_options form) (sf_id form))"
  by (simp add: form_fields_def apply_credentials_to_fields_def apply_go_eq comp_def) (rule nth_equalityI, simp_all)

lemma form_fields_keys: "map af_key (form_fields creds form) = map af_key (snapshot_form_fields (sf_options form) (sf_id form))"
  using arg_cong [OF form_fields_kept [of creds form], of "map fst"] by (simp add: comp_def)

lemma form_fields_identity: "from_fields (sf_id form) (form_fields creds form) = form_identity form"
proof -
  have k: "from_fields i fs = \<lparr>fp_form_id = i, fp_options =
      map (\<lambda>k. \<lparr>ff_option_index = fk_option_index k, ff_option_digest = fk_option_digest k\<rparr>) (map af_key fs)\<rparr>" for i fs
    by (simp add: from_fields_def comp_def)
  show ?thesis unfolding form_identity_def k form_fields_keys ..
qed

definition same_but_values :: "server_form \<Rightarrow> server_form \<Rightarrow> bool" where
  "same_but_values f g \<longleftrightarrow> sf_id f = sf_id g
     \<and> map (fo_value_update (\<lambda>_. None)) (sf_options f) = map (fo_value_update (\<lambda>_. None)) (sf_options g)"

lemma field_key_valueless:
  "map_option af_key (field_of_option i n (fo_value_update (\<lambda>_. None) opt)) = map_option af_key (field_of_option i n opt)"
  by (simp add: field_of_option_def option_choices_def Let_def split: option.split)

lemma filter_map_key: "map g (filter_map f xs) = filter_map (\<lambda>x. map_option g (f x)) xs"
  by (induction xs) (simp_all add: filter_map_def split: option.split)

lemma snapshot_keys_valueless:
  "map af_key (snapshot_form_fields (map (fo_value_update (\<lambda>_. None)) opts) i) = map af_key (snapshot_form_fields opts i)"
proof -
  have "filter_map (\<lambda>(n, opt). map_option af_key (field_of_option i n opt)) (enumerate m (map (fo_value_update (\<lambda>_. None)) opts))
      = filter_map (\<lambda>(n, opt). map_option af_key (field_of_option i n opt)) (enumerate m opts)" for m
    by (induction opts arbitrary: m) (simp_all add: filter_map_def field_key_valueless split: option.split)
  from this [of 0] show ?thesis by (simp add: snapshot_form_fields_def filter_map_key case_prod_unfold)
qed

lemma identity_valueless: "same_but_values f g \<Longrightarrow> form_identity f = form_identity g"
proof -
  assume s: "same_but_values f g"
  have k: "form_identity h = \<lparr>fp_form_id = sf_id h, fp_options =
      map (\<lambda>k. \<lparr>ff_option_index = fk_option_index k, ff_option_digest = fk_option_digest k\<rparr>)
        (map af_key (snapshot_form_fields (map (fo_value_update (\<lambda>_. None)) (sf_options h)) (sf_id h)))\<rparr>" for h
    by (simp add: snapshot_keys_valueless form_identity_def from_fields_def comp_def)
  show ?thesis unfolding k using s by (simp add: same_but_values_def)
qed

subsection \<open>One form\<close>

text \<open>The ways the handler can end.\<close>

lemma handle_cases:
  assumes out: "handle_auth_form form calls creds ask st = out"
  obtains (group) st1 r e where "apply_configured_auth_group form calls (cr_group creds) st = (st1, Some (r, e))"
      "fx_state out = st1" "fx_result out = r" "fx_written out = []"
  | (cancelled) st1 st2 where "apply_configured_auth_group form calls (cr_group creds) st = (st1, None)"
      "accept_form (form_has_active_input (sf_options form)) st1 = (st2, False)" "fx_state out = st2" "fx_result out = FormCancelled"
  | (refused) st1 st2 where "apply_configured_auth_group form calls (cr_group creds) st = (st1, None)"
      "accept_form (form_has_active_input (sf_options form)) st1 = (st2, True)" "fx_state out = st2"
      "fx_result out \<noteq> FormSubmit" "fx_result out \<noteq> FormNewGroup"
  | (submitted) st1 st2 automatic vs where "apply_configured_auth_group form calls (cr_group creds) st = (st1, None)"
      "accept_form (form_has_active_input (sf_options form)) st1 = (st2, True)" "fx_result out = FormSubmit"
      "automatic \<Longrightarrow> \<not> was_automatically_submitted (form_identity form) st2" "automatic \<longleftrightarrow> fx_asked out = None"
      "fx_state out = record_submission (form_identity form) automatic
         (record_follow_up_submission (for_anyconnect (sf_id form)) (form_has_active_input (sf_options form)) (sf_id form) st2)"
      "bind_reply_values_by_option (form_fields creds form)
         (case fx_asked out of None \<Rightarrow> \<lparr>ar_id = 0, ar_values = [], ar_cancelled = False\<rparr> | Some c \<Rightarrow> the ask c) = Ok vs"
      "write_options calls (form_fields creds form) vs 0 0 (fc_options calls) = (fx_written out, Ok (length (form_fields creds form)))"
      "fx_asked out \<noteq> None \<Longrightarrow> ask \<noteq> None"
proof (cases "apply_configured_auth_group form calls (cr_group creds) st")
  case (Pair st1 early)
  show ?thesis
  proof (cases early)
    case (Some re)
    then show ?thesis using out Pair by (cases re) (rule group, auto simp: handle_auth_form_def)
  next
    case None
    note g = Pair [unfolded None]
    obtain st2 ok where a: "accept_form (form_has_active_input (sf_options form)) st1 = (st2, ok)" by (rule prod.exhaust)
    show ?thesis
    proof (cases ok)
      case False
      then show ?thesis using out g a by (intro cancelled) (auto simp: handle_auth_form_def)
    next
      case True
      then have a: "accept_form (form_has_active_input (sf_options form)) st1 = (st2, True)" using a by simp
      let ?fs = "form_fields creds form"
      obtain applied where f: "apply_credentials_to_fields (snapshot_form_fields (sf_options form) (sf_id form)) creds
          (for_anyconnect (sf_id form)) = (?fs, applied)"
        unfolding form_fields_def by (metis prod.collapse)
      let ?user = "fields_for_user_input ?fs applied"
      let ?auto = "can_autofill_without_ui ?fs \<and> ?user = []"
      note o = out [unfolded handle_auth_form_def g prod.case option.case Let_def a bool.case f form_fields_identity]
      show ?thesis
      proof (cases "?auto \<and> was_automatically_submitted (form_identity form) st2")
        case True
        then show ?thesis using o by (intro refused [OF g a]) auto
      next
        case False
        obtain asked vals where v: "form_values ask form ?fs ?user ?auto = (asked, vals)" by (rule prod.exhaust)
        note o = o [unfolded if_not_P [OF False] v prod.case]
        have asked: "asked = None \<longleftrightarrow> ?auto" if "vals = Ok vs" for vs
          using v that by (auto simp: form_values_def Let_def split: option.splits if_splits)
        have bound: "bind_reply_values_by_option ?fs (case asked of None \<Rightarrow> \<lparr>ar_id = 0, ar_values = [], ar_cancelled = False\<rparr>
            | Some c \<Rightarrow> the ask c) = Ok vs \<and> (asked \<noteq> None \<longrightarrow> ask \<noteq> None)" if "vals = Ok vs" for vs
          using v that by (auto simp: form_values_def Let_def split: option.splits if_splits sum.splits)
        have early: "r \<noteq> FormSubmit \<and> r \<noteq> FormNewGroup" if "vals = Err (r, e)" for r e
          using v that by (auto simp: form_values_def Let_def split: option.splits if_splits sum.splits)
        show ?thesis
        proof (cases vals)
          case (Inl re)
          then show ?thesis using o early by (cases re) (intro refused [OF g a], auto)
        next
          case (Inr vs)
          obtain ws w where w: "write_options calls ?fs vs 0 0 (fc_options calls) = (ws, w)" by (rule prod.exhaust)
          note o = o [unfolded Inr sum.case w prod.case]
          show ?thesis
          proof (cases "w = Ok (length ?fs)")
            case True
            then have out: "out = \<lparr>fx_result = FormSubmit, fx_error = None,
                fx_state = record_submission (form_identity form) ?auto
                  (record_follow_up_submission (for_anyconnect (sf_id form)) (form_has_active_input (sf_options form)) (sf_id form) st2),
                fx_written = ws, fx_asked = asked\<rparr>" using o by simp
            show ?thesis
              by (rule submitted [OF g a, of ?auto vs]) (use out False asked [OF Inr] bound [OF Inr] w True in auto)
          next
            case False
            then show ?thesis using o by (intro refused [OF g a]) (auto split: sum.splits)
          qed
        qed
      qed
    qed
  qed
qed

subsection \<open>A session of forms\<close>

type_synonym form_visit = "server_form \<times> form_calls \<times> (auth_challenge \<Rightarrow> auth_challenge_reply) option"

fun form_session :: "auth_credentials \<Rightarrow> form_visit list \<Rightarrow> form_state \<Rightarrow> form_outcome list" where
  "form_session creds [] st = []"
| "form_session creds ((form, calls, ask) # visits) st =
     (let out = handle_auth_form form calls creds ask st in out # form_session creds visits (fx_state out))"

text \<open>Submitted without asking anyone.\<close>

definition automatic :: "form_outcome \<Rightarrow> bool" where
  "automatic out \<longleftrightarrow> fx_result out = FormSubmit \<and> fx_asked out = None"

lemma form_session_length [simp]: "length (form_session creds visits st) = length visits"
  by (induction visits arbitrary: st) (auto simp: Let_def)

lemma form_session_append:
  "\<exists>st'. form_session creds (xs @ ys) st = form_session creds xs st @ form_session creds ys st'"
  by (induction xs arbitrary: st) (auto simp: Let_def)

text \<open>What the memory of the session keeps of one form.\<close>

lemma submitted_parts:
  "set (st_automatically_submitted (record_submission fp b st)) = (if b then insert fp (set (st_automatically_submitted st)) else set (st_automatically_submitted st))"
  "st_automatically_submitted (record_follow_up_submission role a i st) = st_automatically_submitted st"
  "st_consecutive_empty_forms (record_submission fp b st) = st_consecutive_empty_forms st"
  "st_consecutive_empty_forms (record_follow_up_submission role a i st) = st_consecutive_empty_forms st"
  "st_auth_group_set (record_submission fp b st) = st_auth_group_set st"
  "st_auth_group_set (record_follow_up_submission role a i st) = st_auth_group_set st"
  by (auto simp: record_submission_def record_follow_up_submission_def was_automatically_submitted_def)

lemma accept_parts:
  assumes "accept_form active st = (st', ok)"
  shows "st_automatically_submitted st' = st_automatically_submitted st" "st_auth_group_set st' = st_auth_group_set st"
    "ok \<Longrightarrow> \<not> active \<Longrightarrow> st_consecutive_empty_forms st < 2 \<and> st_consecutive_empty_forms st' = Suc (st_consecutive_empty_forms st)"
  using assms by (auto simp: accept_form_def Let_def split: if_splits)

lemma group_parts:
  assumes "apply_configured_auth_group form calls g st = (st', early)"
  shows "st_automatically_submitted st' = st_automatically_submitted st"
    "st_consecutive_empty_forms st' = st_consecutive_empty_forms st"
    "st_auth_group_set st \<Longrightarrow> st_auth_group_set st'"
    "early = Some (FormNewGroup, e) \<Longrightarrow> \<not> st_auth_group_set st \<and> st_auth_group_set st'"
    "early \<noteq> Some (FormSubmit, e)"
  using assms
  by (auto simp: apply_configured_auth_group_def take_auth_group_refresh_def Let_def split: if_splits option.splits sum.splits prod.splits bool.splits)

lemma handle_memory:
  assumes out: "handle_auth_form form calls creds ask st = out"
  shows "set (st_automatically_submitted st) \<subseteq> set (st_automatically_submitted (fx_state out))"
    "automatic out \<Longrightarrow> form_identity form \<notin> set (st_automatically_submitted st)"
    "automatic out \<Longrightarrow> form_identity form \<in> set (st_automatically_submitted (fx_state out))"
    "st_auth_group_set st \<Longrightarrow> st_auth_group_set (fx_state out)"
    "fx_result out = FormNewGroup \<Longrightarrow> \<not> st_auth_group_set st \<and> st_auth_group_set (fx_state out)"
    "fx_result out = FormSubmit \<Longrightarrow> \<not> form_has_active_input (sf_options form)
       \<Longrightarrow> st_consecutive_empty_forms st < 2 \<and> st_consecutive_empty_forms (fx_state out) = Suc (st_consecutive_empty_forms st)"
proof -
  have "set (st_automatically_submitted st) \<subseteq> set (st_automatically_submitted (fx_state out))
    \<and> (automatic out \<longrightarrow> form_identity form \<notin> set (st_automatically_submitted st)
         \<and> form_identity form \<in> set (st_automatically_submitted (fx_state out)))
    \<and> (st_auth_group_set st \<longrightarrow> st_auth_group_set (fx_state out))
    \<and> (fx_result out = FormNewGroup \<longrightarrow> \<not> st_auth_group_set st \<and> st_auth_group_set (fx_state out))
    \<and> (fx_result out = FormSubmit \<longrightarrow> \<not> form_has_active_input (sf_options form)
         \<longrightarrow> st_consecutive_empty_forms st < 2 \<and> st_consecutive_empty_forms (fx_state out) = Suc (st_consecutive_empty_forms st))"
    using out
  proof (cases rule: handle_cases)
    case (group st1 r e)
    then show ?thesis using group_parts [OF group(1)] by (auto simp: automatic_def)
  next
    case (cancelled st1 st2)
    then show ?thesis using group_parts [OF cancelled(1)] accept_parts [OF cancelled(2)] by (auto simp: automatic_def)
  next
    case (refused st1 st2)
    then show ?thesis using group_parts [OF refused(1)] accept_parts [OF refused(2)] by (auto simp: automatic_def)
  next
    case (submitted st1 st2 a vs)
    then show ?thesis using group_parts [OF submitted(1)] accept_parts [OF submitted(2)]
      by (auto simp: automatic_def submitted_parts was_automatically_submitted_def)
  qed
  then show "set (st_automatically_submitted st) \<subseteq> set (st_automatically_submitted (fx_state out))"
    "automatic out \<Longrightarrow> form_identity form \<notin> set (st_automatically_submitted st)"
    "automatic out \<Longrightarrow> form_identity form \<in> set (st_automatically_submitted (fx_state out))"
    "st_auth_group_set st \<Longrightarrow> st_auth_group_set (fx_state out)"
    "fx_result out = FormNewGroup \<Longrightarrow> \<not> st_auth_group_set st \<and> st_auth_group_set (fx_state out)"
    "fx_result out = FormSubmit \<Longrightarrow> \<not> form_has_active_input (sf_options form)
       \<Longrightarrow> st_consecutive_empty_forms st < 2 \<and> st_consecutive_empty_forms (fx_state out) = Suc (st_consecutive_empty_forms st)"
    by blast+
qed

text \<open>Over a session: what was submitted automatically never is again.\<close>

lemma later_not_submitted:
  "fp \<in> set (st_automatically_submitted st) \<Longrightarrow> k < length visits \<Longrightarrow> form_identity (fst (visits ! k)) = fp
     \<Longrightarrow> \<not> automatic (form_session creds visits st ! k)"
proof (induction creds visits st arbitrary: k rule: form_session.induct)
  case (2 creds form calls ask visits st)
  let ?out = "handle_auth_form form calls creds ask st"
  note m = handle_memory(1,2) [OF refl [of ?out]]
  show ?case using 2 m by (cases k) (auto simp: Let_def)
qed simp

lemma session_submits_once:
  "i < j \<Longrightarrow> j < length visits \<Longrightarrow> automatic (form_session creds visits st ! i)
     \<Longrightarrow> form_identity (fst (visits ! i)) = form_identity (fst (visits ! j)) \<Longrightarrow> \<not> automatic (form_session creds visits st ! j)"
proof (induction creds visits st arbitrary: i j rule: form_session.induct)
  case (2 creds form calls ask visits st)
  let ?out = "handle_auth_form form calls creds ask st"
  obtain k where j: "j = Suc k" using 2(2) by (cases j) auto
  show ?case
  proof (cases i)
    case 0
    then have "form_identity form \<in> set (st_automatically_submitted (fx_state ?out))"
      using handle_memory(3) [OF refl [of ?out]] 2(4) by (simp add: Let_def)
    then show ?thesis using later_not_submitted [of "form_identity form" "fx_state ?out" k visits creds] 2(3,5) 0 j
      by (simp add: Let_def)
  next
    case (Suc n)
    then show ?thesis using 2(1) [OF refl, of n k] 2(2-) j by (simp add: Let_def)
  qed
qed simp

lemma session_counts:
  "length (filter automatic (form_session creds visits st))
     \<le> card (form_identity ` fst ` set visits - set (st_automatically_submitted st))
   \<and> length (filter (\<lambda>out. fx_result out = FormNewGroup) (form_session creds visits st)) \<le> of_bool (\<not> st_auth_group_set st)"
proof (induction creds visits st rule: form_session.induct)
  case (2 creds form calls ask visits st)
  let ?out = "handle_auth_form form calls creds ask st"
  let ?ids = "form_identity ` fst ` set visits" and ?old = "set (st_automatically_submitted st)"
    and ?new = "set (st_automatically_submitted (fx_state ?out))"
  note m = handle_memory [OF refl [of ?out]]
  have IH: "length (filter automatic (form_session creds visits (fx_state ?out))) \<le> card (?ids - ?new)"
    "length (filter (\<lambda>out. fx_result out = FormNewGroup) (form_session creds visits (fx_state ?out)))
       \<le> of_bool (\<not> st_auth_group_set (fx_state ?out))" using 2 by blast+
  have fin: "finite (insert (form_identity form) ?ids - ?old)" by simp
  have "length (filter automatic (?out # form_session creds visits (fx_state ?out))) \<le> card (insert (form_identity form) ?ids - ?old)"
  proof (cases "automatic ?out")
    case True
    have "?ids - ?new \<subset> insert (form_identity form) ?ids - ?old" using m(1-3) True by blast
    then have "card (?ids - ?new) < card (insert (form_identity form) ?ids - ?old)" using fin by (rule psubset_card_mono [rotated])
    then show ?thesis using IH(1) True by simp
  next
    case False
    have "card (?ids - ?new) \<le> card (insert (form_identity form) ?ids - ?old)" by (rule card_mono [OF fin]) (use m(1) in blast)
    then show ?thesis using IH(1) False by simp
  qed
  moreover have "length (filter (\<lambda>out. fx_result out = FormNewGroup) (?out # form_session creds visits (fx_state ?out)))
      \<le> of_bool (\<not> st_auth_group_set st)"
    using IH(2) m(4,5) by (auto simp: of_bool_def split: if_splits)
  ultimately show ?case by (simp add: Let_def)
qed simp

definition visit_state :: "auth_credentials \<Rightarrow> form_visit list \<Rightarrow> form_state \<Rightarrow> nat \<Rightarrow> form_state" where
  "visit_state creds visits st k =
     foldl (\<lambda>st (form, calls, ask). fx_state (handle_auth_form form calls creds ask st)) st (take k visits)"

lemma session_nth:
  "k < length visits \<Longrightarrow> form_session creds visits st ! k
     = handle_auth_form (fst (visits ! k)) (fst (snd (visits ! k))) creds (snd (snd (visits ! k))) (visit_state creds visits st k)"
  by (induction creds visits st arbitrary: k rule: form_session.induct)
    (auto simp: Let_def nth_Cons' visit_state_def take_Cons' split: if_splits)

lemma visit_state_Suc:
  "k < length visits \<Longrightarrow> visit_state creds visits st (Suc k) = fx_state (form_session creds visits st ! k)"
  by (simp add: visit_state_def take_Suc_conv_app_nth session_nth split_beta)

lemma empty_submissions:
  assumes "k + 2 < length visits" "\<And>n. n \<in> {k, k + 1, k + 2} \<Longrightarrow> \<not> form_has_active_input (sf_options (fst (visits ! n)))"
  shows "\<exists>n \<in> {k, k + 1, k + 2}. fx_result (form_session creds visits st ! n) \<noteq> FormSubmit"
proof (rule ccontr)
  let ?c = "\<lambda>n. st_consecutive_empty_forms (visit_state creds visits st n)"
  assume "\<not> ?thesis"
  then have sub: "fx_result (form_session creds visits st ! n) = FormSubmit" if "n \<in> {k, k + 1, k + 2}" for n using that by blast
  have step: "?c n < 2 \<and> ?c (Suc n) = Suc (?c n)" if n: "n \<in> {k, k + 1, k + 2}" for n
  proof -
    have l: "n < length visits" using n assms(1) by auto
    show ?thesis
      using handle_memory(6) [OF session_nth [OF l, of creds st, symmetric] sub [OF n] assms(2) [OF n]] visit_state_Suc [OF l, of creds st]
      by simp
  qed
  show False using step [of k] step [of "k + 1"] step [of "k + 2"] by simp
qed

subsection \<open>What a submission writes\<close>

text \<open>The options that are fields of the form.\<close>

definition shown :: "form_option \<Rightarrow> bool" where
  "shown opt \<longleftrightarrow> \<not> fo_ignored opt \<and> \<not> fo_auth_group opt \<and> \<not> protocol_owns_auth_value (fo_kind opt)"

lemma field_of_shown:
  "field_of_option i n opt = (if shown opt then field_of_option i n opt else None)"
  "shown opt \<Longrightarrow> \<exists>f. field_of_option i n opt = Some f \<and> fk_option_index (af_key f) = option_index n
     \<and> (af_kind f = KHidden \<longleftrightarrow> fo_kind opt = FHidden)"
  by (cases "fo_kind opt"; auto simp: field_of_option_def shown_def protocol_owns_auth_value_def Let_def)+

text \<open>The fields from the \<open>n\<close>-th option on, as the loop over the options expects them.\<close>

fun fields_match :: "nat \<Rightarrow> form_option list \<Rightarrow> auth_field list \<Rightarrow> bool" where
  "fields_match n [] fs \<longleftrightarrow> fs = []"
| "fields_match n (opt # opts) fs \<longleftrightarrow>
     (if shown opt then (case fs of [] \<Rightarrow> False
        | f # gs \<Rightarrow> fk_option_index (af_key f) = option_index n \<and> (af_kind f = KHidden \<longleftrightarrow> fo_kind opt = FHidden) \<and> fields_match (n + 1) opts gs)
      else fields_match (n + 1) opts fs)"

lemma snapshot_match:
  "fields_match n opts (filter_map (\<lambda>(i, opt). field_of_option form_id i opt) (enumerate n opts))"
proof (induction opts arbitrary: n)
  case (Cons opt opts)
  show ?case
    using Cons.IH [of "Suc n"] field_of_shown(1) [of form_id n opt] field_of_shown(2) [of opt form_id n]
    by (cases "shown opt") (auto simp: filter_map_def)
qed (simp add: filter_map_def)

lemma match_kept:
  "map (\<lambda>f. (af_key f, af_kind f)) gs = map (\<lambda>f. (af_key f, af_kind f)) fs \<Longrightarrow> fields_match n opts fs \<Longrightarrow> fields_match n opts gs"
proof (induction opts arbitrary: n fs gs)
  case (Cons opt opts)
  show ?case
  proof (cases "shown opt")
    case True
    then obtain f fs' g gs' where "fs = f # fs'" "gs = g # gs'" using Cons.prems by (cases fs; cases gs) auto
    then show ?thesis using Cons.prems Cons.IH [of gs' fs' "n + 1"] True by simp
  next
    case False
    then show ?thesis using Cons.prems Cons.IH [of gs fs "n + 1"] by simp
  qed
qed simp

lemma later_index: "fields_match m opts fs \<Longrightarrow> n < m \<Longrightarrow> m + length opts \<le> Suc max_u32 \<Longrightarrow> f \<in> set fs \<Longrightarrow> fk_option_index (af_key f) \<noteq> option_index n"
proof (induction m opts fs rule: fields_match.induct)
  case (2 m opt opts fs)
  then show ?case by (cases fs) (auto simp: option_index_def split: if_splits)
qed simp

definition written_values :: "auth_field list \<Rightarrow> str option list \<Rightarrow> (nat \<times> str) list" where
  "written_values fs vs = filter_map (\<lambda>(f, v). if af_kind f = KHidden then None else map_option (Pair (fk_option_index (af_key f))) v) (zip fs vs)"

lemma written_Cons:
  "written_values (f # fs) (v # vs) = (case (if af_kind f = KHidden then None else v) of
     None \<Rightarrow> written_values fs vs | Some x \<Rightarrow> (fk_option_index (af_key f), x) # written_values fs vs)"
  by (simp add: written_values_def filter_map_def split: option.split)

lemma write_options_match:
  "fields_match n opts (drop k fs) \<Longrightarrow> n + length opts \<le> Suc max_u32 \<Longrightarrow> k \<le> length fs \<Longrightarrow> length vs = length fs
     \<Longrightarrow> write_options calls fs vs n k opts = (ws, Ok j) \<Longrightarrow> ws = written_values (drop k fs) (drop k vs) \<and> j = length fs"
proof (induction opts arbitrary: n k ws)
  case Nil
  then show ?case by (auto simp: written_values_def filter_map_def)
next
  case (Cons opt opts)
  show ?case
  proof (cases "k < length fs")
    case False
    then show ?thesis using Cons.prems by (auto simp: written_values_def filter_map_def)
  next
    case k: True
    have dk: "drop k fs = fs ! k # drop (Suc k) fs" "drop k vs = vs ! k # drop (Suc k) vs"
      using k Cons.prems(4) by (simp_all add: Cons_nth_drop_Suc)
    show ?thesis
    proof (cases "shown opt")
      case True
      have m: "fk_option_index (af_key (fs ! k)) = option_index n" "af_kind (fs ! k) = KHidden \<longleftrightarrow> fo_kind opt = FHidden"
        "fields_match (Suc n) opts (drop (Suc k) fs)"
        using Cons.prems(1) True by (simp_all add: dk)
      have i: "option_index n = n" using Cons.prems(2) by (simp add: option_index_def)
      note IH = Cons.IH [OF m(3) _ _ Cons.prems(4)]
      show ?thesis
        using Cons.prems(2-) k m(1,2) True IH
        by (auto simp: dk written_Cons i shown_def split: option.splits sum.splits if_splits prod.splits)
    next
      case False
      have m: "fields_match (Suc n) opts (drop k fs)" using Cons.prems(1) False by simp
      have "fk_option_index (af_key (fs ! k)) \<noteq> option_index n"
        by (rule later_index [OF m]) (use Cons.prems(2) dk in auto)
      then show ?thesis using Cons.IH [OF m] Cons.prems(2-) k by simp
    qed
  qed
qed

lemma match_distinct:
  "fields_match m opts fs \<Longrightarrow> m + length opts \<le> Suc max_u32 \<Longrightarrow> distinct (map af_key fs)"
proof (induction m opts fs rule: fields_match.induct)
  case (2 m opt opts fs)
  show ?case
  proof (cases "shown opt")
    case True
    then obtain f gs where f: "fs = f # gs" "fk_option_index (af_key f) = option_index m" "fields_match (m + 1) opts gs"
      using 2(3) by (cases fs) auto
    have "fk_option_index (af_key g) \<noteq> option_index m" if "g \<in> set gs" for g
      by (rule later_index [OF f(3) _ _ that]) (use 2(4) in auto)
    then have "af_key f \<notin> af_key ` set gs" using f(2) by (metis (no_types, lifting) imageE)
    then show ?thesis using 2(1) [OF True f(1)] 2(4) f by simp
  qed (use 2 in simp)
qed simp

lemma match_options:
  "fields_match m opts fs \<Longrightarrow> f \<in> set fs \<Longrightarrow> m + length opts \<le> Suc max_u32
     \<Longrightarrow> m \<le> fk_option_index (af_key f) \<and> fk_option_index (af_key f) < m + length opts
       \<and> shown (opts ! (fk_option_index (af_key f) - m)) \<and> (af_kind f = KHidden \<longleftrightarrow> fo_kind (opts ! (fk_option_index (af_key f) - m)) = FHidden)"
proof (induction m opts fs rule: fields_match.induct)
  case (2 m opt opts fs)
  show ?case
  proof (cases "shown opt")
    case True
    then obtain g gs where g: "fs = g # gs" "fk_option_index (af_key g) = option_index m" "af_kind g = KHidden \<longleftrightarrow> fo_kind opt = FHidden"
      "fields_match (m + 1) opts gs" using 2(3) by (cases fs) auto
    have i: "option_index m = m" using 2(5) by (simp add: option_index_def)
    show ?thesis
    proof (cases "f = g")
      case True
      then show ?thesis using g i \<open>shown opt\<close> by simp
    next
      case False
      then show ?thesis using 2(1) [OF True g(1,4)] 2(4,5) g(1) by (auto simp: nth_Cons')
    qed
  next
    case False
    then show ?thesis using 2 by (auto simp: nth_Cons')
  qed
qed simp

lemma form_fields_match: "fields_match 0 (sf_options form) (form_fields creds form)"
  by (rule match_kept [OF form_fields_kept]) (simp add: snapshot_form_fields_def snapshot_match)

subsection \<open>Properties\<close>

text \<open>
  C0: A form is never submitted twice without the user. When the handler submitted a form of a session with the profile's
  values alone, no later form of that session that has the same id and the same options is submitted so again,
  whatever values the server put into its options and whatever else was asked and answered in between.
\<close>

theorem no_form_replayed:
  assumes "i < j" "j < length visits" "same_but_values (fst (visits ! i)) (fst (visits ! j))"
    "automatic (form_session creds visits form_state_default ! i)"
  shows "\<not> automatic (form_session creds visits form_state_default ! j)"
  using assms(1,2,4) identity_valueless [OF assms(3)] by (rule session_submits_once)

text \<open>
  C0: The exchange of forms ends when nobody answers. In a session at most as many forms are submitted without the
  user as it has different forms, a refreshed group list is asked for at most once, and of three forms
  in a row without an active input at least one is not submitted.
\<close>

theorem forms_without_user_end:
  assumes "k + 2 < length visits" "\<And>n. n \<in> {k, k + 1, k + 2} \<Longrightarrow> \<not> form_has_active_input (sf_options (fst (visits ! n)))"
  shows "length (filter automatic (form_session creds visits form_state_default)) \<le> card (form_identity ` fst ` set visits)
    \<and> length (filter (\<lambda>out. fx_result out = FormNewGroup) (form_session creds visits form_state_default)) \<le> 1
    \<and> (\<exists>n \<in> {k, k + 1, k + 2}. fx_result (form_session creds visits form_state_default ! n) \<noteq> FormSubmit)"
  using session_counts [of creds visits form_state_default] empty_submissions [OF assms]
  by (simp add: form_state_default_def)

text \<open>
  C0: What a submission writes. When the handler submits a form whose options did not change under it, it has
  set exactly the options that have a value: the user's answer with the option's key or else the value from the profile or
  the server, each on its own option, in the order of the form; never a hidden option, one that OpenConnect
  ignores, a group selector, or one whose value the protocol owns.
\<close>

theorem submission_writes_exact:
  assumes out: "handle_auth_form form calls creds ask st = out" and sub: "fx_result out = FormSubmit"
    and same: "fc_options calls = sf_options form" and len: "length (sf_options form) \<le> Suc max_u32"
  shows "fx_written out = filter_map (\<lambda>f. if af_kind f = KHidden then None
        else map_option (Pair (fk_option_index (af_key f)))
          (bound_value (case fx_asked out of None \<Rightarrow> [] | Some c \<Rightarrow> ar_values (the ask c)) f)) (form_fields creds form)
    \<and> (\<forall>(i, v) \<in> set (fx_written out). i < length (sf_options form) \<and> shown (sf_options form ! i)
          \<and> fo_kind (sf_options form ! i) \<noteq> FHidden)"
proof -
  let ?fs = "form_fields creds form"
  let ?answers = "case fx_asked out of None \<Rightarrow> [] | Some c \<Rightarrow> ar_values (the ask c)"
  have l: "0 + length (sf_options form) \<le> Suc max_u32" using len by simp
  have dist: "distinct (map af_key ?fs)" using form_fields_match l by (rule match_distinct)
  have written: "fx_written out = written_values ?fs (map (bound_value ?answers) ?fs)"
    using out
  proof (cases rule: handle_cases)
    case (group st1 r e)
    then show ?thesis using group_parts(5) [OF group(1), of e] sub by auto
  next
    case (submitted st1 st2 automatic vs)
    have "vs = map (bound_value ?answers) ?fs"
      using submitted(7) bind_go_left [of ?fs ?answers] bind_go_values [OF dist, of ?answers]
      by (cases "fx_asked out") (auto simp: bind_reply_values_by_option_def split: prod.splits if_splits)
    then show ?thesis
      using write_options_match [of 0 "fc_options calls" 0 ?fs vs calls "fx_written out" "length ?fs"] submitted(8) same form_fields_match l
      by simp
  qed (use sub in auto)
  have zip: "written_values fs (map g fs) = filter_map (\<lambda>f. if af_kind f = KHidden then None
      else map_option (Pair (fk_option_index (af_key f))) (g f)) fs" for fs g
    by (induction fs) (auto simp: written_Cons filter_map_def written_values_def split: option.split)
  have "i < length (sf_options form) \<and> shown (sf_options form ! i) \<and> fo_kind (sf_options form ! i) \<noteq> FHidden"
    if iv: "(i, v) \<in> set (fx_written out)" for i v
  proof -
    obtain f where "f \<in> set ?fs" "af_kind f \<noteq> KHidden" "i = fk_option_index (af_key f)"
      using iv unfolding written zip by (auto simp: set_filter_map split: if_splits)
    then show ?thesis using match_options [OF form_fields_match _ l] by fastforce
  qed
  then show ?thesis using written zip by auto
qed

subsection \<open>Concrete instances\<close>

text \<open>A login form with a password, the same form with the password echoed, and one of hidden options only.\<close>

definition demo_option :: "form_option_kind \<Rightarrow> str option \<Rightarrow> form_option" where
  "demo_option k v = \<lparr>fo_name = Some ''password'', fo_label = Some ''Password'', fo_kind = k, fo_ignored = False,
     fo_auth_group = False, fo_second_auth = False, fo_value = v, fo_choices = []\<rparr>"

definition demo_form :: "str \<Rightarrow> form_option list \<Rightarrow> server_form" where
  "demo_form i opts = \<lparr>sf_id = Some i, sf_banner = None, sf_message = None, sf_error = None, sf_method = None,
     sf_options = opts, sf_groups = [], sf_selection = 0\<rparr>"

definition demo_calls :: "form_option list \<Rightarrow> form_calls" where
  "demo_calls opts = \<lparr>fc_select_group = (\<lambda>_. Ok ()), fc_set = (\<lambda>_ _ _. Ok ()), fc_options = opts, fc_debug = quoted\<rparr>"

definition demo_creds :: auth_credentials where
  "demo_creds = \<lparr>cr_username = ''ada'', cr_password = ''pw'', cr_group = []\<rparr>"

definition demo_visit :: "str \<Rightarrow> form_option list \<Rightarrow> form_visit" where
  "demo_visit i opts = (demo_form i opts, demo_calls opts, None)"

lemmas demo_form_simps = demo_form_def demo_calls_def demo_creds_def demo_option_def demo_visit_def

lemma demo_trim: "trim ''pw'' = ''pw''" "trim [] = []" "trim ''Password'' = ''Password''"
  by code_simp+

lemma demo_login:
  "fx_result (handle_auth_form (demo_form ''main'' [demo_option FPassword None]) (demo_calls [demo_option FPassword None]) demo_creds None
     form_state_default) = FormSubmit"
  "fx_asked (handle_auth_form (demo_form ''main'' [demo_option FPassword None]) (demo_calls [demo_option FPassword None]) demo_creds None
     form_state_default) = None"
  by (simp_all add: handle_auth_form_def apply_configured_auth_group_def accept_form_def form_has_active_input_def is_active_input_def
      for_anyconnect_def snapshot_form_fields_def field_of_option_def protocol_owns_auth_value_def option_index_def max_u32_def
      option_choices_def apply_credentials_to_fields_def accepts_configured_username_def fields_for_user_input_def
      can_autofill_without_ui_def form_values_def bind_reply_values_by_option_def was_automatically_submitted_def
      form_state_default_def demo_form_simps demo_trim starts_with_def to_ascii_lowercase_def Let_def)

lemma no_form_replayed_witness:
  "\<not> automatic (form_session demo_creds [demo_visit ''main'' [demo_option FPassword None],
     demo_visit ''challenge'' [demo_option FHidden None], demo_visit ''main'' [demo_option FPassword (Some ''echo'')]] form_state_default ! 2)"
proof -
  let ?vs = "[demo_visit ''main'' [demo_option FPassword None],
     demo_visit ''challenge'' [demo_option FHidden None], demo_visit ''main'' [demo_option FPassword (Some ''echo'')]]"
  have same: "same_but_values (fst (?vs ! 0)) (fst (?vs ! 2))" by (simp add: same_but_values_def demo_visit_def demo_form_def demo_option_def)
  have first: "automatic (form_session demo_creds ?vs form_state_default ! 0)"
    using demo_login by (simp add: demo_visit_def automatic_def Let_def)
  have l: "(0 :: nat) < 2" "2 < length ?vs" by simp_all
  show ?thesis using no_form_replayed [OF l same first] .
qed

lemma forms_without_user_end_witness:
  "\<exists>n \<in> {0, 1, 2}. fx_result (form_session demo_creds [demo_visit ''a'' [demo_option FHidden None],
     demo_visit ''b'' [demo_option FHidden None], demo_visit ''c'' [demo_option FHidden None]] form_state_default ! n) \<noteq> FormSubmit"
proof -
  let ?vs = "[demo_visit ''a'' [demo_option FHidden None], demo_visit ''b'' [demo_option FHidden None], demo_visit ''c'' [demo_option FHidden None]]"
  have "\<not> form_has_active_input (sf_options (fst (?vs ! n)))" if "n \<in> {0, 0 + 1, 0 + 2}" for n
    using that by (auto simp: demo_form_simps form_has_active_input_def is_active_input_def)
  from forms_without_user_end [of 0 ?vs demo_creds, OF _ this] show ?thesis unfolding add_0 by simp
qed

lemma submission_writes_exact_witness:
  "\<exists>out. handle_auth_form (demo_form ''main'' [demo_option FPassword None]) (demo_calls [demo_option FPassword None]) demo_creds None
       form_state_default = out
     \<and> fx_written out = filter_map (\<lambda>f. if af_kind f = KHidden then None else map_option (Pair (fk_option_index (af_key f))) (bound_value [] f))
         (form_fields demo_creds (demo_form ''main'' [demo_option FPassword None]))"
proof -
  have l: "length (sf_options (demo_form ''main'' [demo_option FPassword None])) \<le> Suc max_u32"
    "fc_options (demo_calls [demo_option FPassword None]) = sf_options (demo_form ''main'' [demo_option FPassword None])"
    by (simp_all add: demo_form_simps)
  from submission_writes_exact [OF refl demo_login(1) l(2) l(1)] show ?thesis
    unfolding demo_login(2) option.case by blast
qed

end
