(* ===== verification/Oc_Identity.thy ===== *)
theory Oc_Identity
  imports Oc_Prelude
begin

text \<open>
  \<open>crates/hopenconnect_core/src/client_identity.rs\<close>: how the application identifies itself to a headend. The identity
  a process was configured with is an argument of what uses it; the version of the package, fixed when it is built, is
  the argument \<open>version\<close>.
\<close>

subsection \<open>Characters of a text\<close>

definition is_continuation :: "char \<Rightarrow> bool" where
  "is_continuation c \<longleftrightarrow> 0x80 \<le> cp c \<and> cp c < 0xC0"

function utf8_chars :: "str \<Rightarrow> str list" where
  "utf8_chars [] = []"
| "utf8_chars (c # s) = (c # takeWhile is_continuation s) # utf8_chars (dropWhile is_continuation s)"
  by pat_completeness auto
termination by (relation "measure length") (auto simp: le_imp_less_Suc length_dropWhile_le)

definition take_chars :: "nat \<Rightarrow> str \<Rightarrow> str" where
  "take_chars n s = concat (take n (utf8_chars s))"

text \<open>\<open>char::is_control\<close>: U+0000 to U+001F, U+007F to U+009F.\<close>

definition is_control_char :: "str \<Rightarrow> bool" where
  "is_control_char ch \<longleftrightarrow>
     (case ch of
        [c] \<Rightarrow> cp c < 32 \<or> cp c = 127
      | [a, b] \<Rightarrow> cp a = 0xC2 \<and> 0x80 \<le> cp b \<and> cp b \<le> 0x9F
      | _ \<Rightarrow> False)"

definition is_ascii_alphanumeric :: "char \<Rightarrow> bool" where
  "is_ascii_alphanumeric c \<longleftrightarrow> is_ascii_digit c \<or> is_ascii_upper c \<or> 97 \<le> cp c \<and> cp c \<le> 122"

subsection \<open>Sanitising\<close>

definition sanitized_header_component :: "str \<Rightarrow> str" where
  "sanitized_header_component raw =
     take_chars 96 (join '' '' (split_whitespace
       (concat (map (\<lambda>ch. if is_control_char ch \<or> ch \<in> {''('', '')'', '';'', ''<'', ''>''} then '' '' else ch) (utf8_chars raw)))))"

definition sanitized_version :: "str \<Rightarrow> str" where
  "sanitized_version raw = take 64 (filter (\<lambda>c. is_ascii_alphanumeric c \<or> c \<in> set ''.-_+'') (trim raw))"

definition sanitized_identifier :: "str \<Rightarrow> str" where
  "sanitized_identifier raw = take 128 (filter (\<lambda>c. is_ascii_alphanumeric c \<or> c \<in> set ''.-_:'') (trim raw))"

subsection \<open>The identity of the platform\<close>

definition openharmony_reported_os :: str where "openharmony_reported_os = ''OpenHarmony''"
definition anyconnect_user_agent_prefix :: str where "anyconnect_user_agent_prefix = ''AnyConnect OpenHarmony''"

record platform_identity =
  id_os_version :: str
  id_device_type :: str
  id_app_version :: str
  id_unique_id :: str

record mobile_identity =
  mi_platform_version :: str
  mi_device_type :: str
  mi_unique_id :: str

definition platform_identity_default :: "str \<Rightarrow> platform_identity" where
  "platform_identity_default version =
     \<lparr>id_os_version = [], id_device_type = [], id_app_version = version, id_unique_id = []\<rparr>"

definition openharmony_version :: "str \<Rightarrow> str option" where
  "openharmony_version os_full_name =
     (let n = length openharmony_reported_os
      in if n \<le> length os_full_name \<and> eq_ignore_ascii_case (take n os_full_name) openharmony_reported_os then
           Some (drop_ws (ws_or_pat (\<lambda>c. c \<in> set ''-_/'')) (drop n os_full_name))
         else if os_full_name = [] then None
         else Some os_full_name)"

definition from_platform :: "str \<Rightarrow> str \<Rightarrow> str \<Rightarrow> str \<Rightarrow> str \<Rightarrow> str \<Rightarrow> str \<Rightarrow> platform_identity" where
  "from_platform version os_full_name display_version sdk_api_version device_type app_version unique_id =
     (let os_full_name = sanitized_header_component os_full_name;
          display_version = sanitized_header_component display_version;
          sdk_api_version = sanitized_header_component sdk_api_version;
          device_type = sanitized_header_component device_type;
          app_version = sanitized_version app_version;
          unique_id = sanitized_identifier unique_id;
          os_version = (case openharmony_version os_full_name of
              Some v \<Rightarrow> if v \<noteq> [] then v
                        else if display_version \<noteq> [] then display_version
                        else if sdk_api_version \<noteq> [] then ''API '' @ sdk_api_version else []
            | None \<Rightarrow> if display_version \<noteq> [] then display_version
                      else if sdk_api_version \<noteq> [] then ''API '' @ sdk_api_version else [])
      in \<lparr>id_os_version = os_version, id_device_type = device_type,
          id_app_version = (if app_version = [] then version else app_version), id_unique_id = unique_id\<rparr>)"

definition user_agent :: "platform_identity \<Rightarrow> str" where
  "user_agent i = anyconnect_user_agent_prefix @ '' '' @ id_app_version i"

definition client_version :: "platform_identity \<Rightarrow> str" where
  "client_version i = id_app_version i"

definition mobile_identity :: "platform_identity \<Rightarrow> mobile_identity" where
  "mobile_identity i =
     \<lparr>mi_platform_version = (if id_os_version i = [] then ''unknown'' else id_os_version i),
      mi_device_type = (if id_device_type i = [] then openharmony_reported_os else id_device_type i),
      mi_unique_id = id_unique_id i\<rparr>"

definition openconnect_reported_os :: "str \<Rightarrow> str" where
  "openconnect_reported_os configured =
     (let configured = trim configured
      in if configured = [] \<or> eq_ignore_ascii_case configured openharmony_reported_os then openharmony_reported_os
         else configured)"

subsection \<open>What the headend can read\<close>

text \<open>The version of an identity is a non-empty text of graphic ASCII characters when that of the package is.\<close>

definition identity_ok_text :: "str \<Rightarrow> bool" where
  "identity_ok_text v \<longleftrightarrow> v \<noteq> [] \<and> list_all plain v"

lemma alphanumeric_plain: "is_ascii_alphanumeric c \<Longrightarrow> plain c"
  by (auto simp: is_ascii_alphanumeric_def is_ascii_digit_def is_ascii_upper_def plain_def)

lemma sanitized_version_plain: "list_all plain (sanitized_version raw)"
proof -
  have "plain c" if "c \<in> set (sanitized_version raw)" for c
    using that by (auto simp: sanitized_version_def plain_def cp_def dest!: in_set_takeD alphanumeric_plain)
  then show ?thesis by (simp add: list_all_iff)
qed

lemma identity_version:
  assumes "identity_ok_text version"
  shows "identity_ok_text (id_app_version (from_platform version a b c d e f))"
    "identity_ok_text (id_app_version (platform_identity_default version))"
  using assms sanitized_version_plain [of e]
  by (auto simp: from_platform_def platform_identity_default_def identity_ok_text_def Let_def)

end
