(* ===== verification/Oc_Native.thy ===== *)
theory Oc_Native
  imports Oc_Engine Oc_Identity Oc_Form
begin

text \<open>
  \<open>crates/hopenconnect_core/src/native_session.rs\<close> but the authentication handler: the settings of an OpenConnect
  client, the cookie-only session the UI hands over, the failover between gateways and the rebuilding of the session in the
  Extension. The client is the \<open>anyconnect\<close> crate's; what its calls answer is the record \<open>client_library\<close>, with
  the texts of its errors.
\<close>

subsection \<open>What the profile configures\<close>

definition wants_external_browser :: "connection_profile \<Rightarrow> bool" where
  "wants_external_browser p \<longleftrightarrow> pf_external_browser_auth p \<or> pf_auth_method p = Saml"

definition peer_cert_decision :: "bool \<Rightarrow> str \<Rightarrow> str option \<Rightarrow> bool" where
  "peer_cert_decision accept_untrusted reason fingerprint = accept_untrusted"

definition effective_user_agent :: "platform_identity \<Rightarrow> connection_profile \<Rightarrow> str" where
  "effective_user_agent i p = (let configured = trim (pf_user_agent p) in if configured = [] then user_agent i else configured)"

definition effective_client_version :: "platform_identity \<Rightarrow> connection_profile \<Rightarrow> str" where
  "effective_client_version i p =
     (let configured = trim (pf_client_version p) in if configured = [] then client_version i else configured)"

definition effective_reported_os :: "connection_profile \<Rightarrow> str" where
  "effective_reported_os p =
     (let configured = trim (pf_reported_os p) in if configured = [] then openharmony_reported_os else configured)"

definition server_certificate_hashes :: "str \<Rightarrow> str list" where
  "server_certificate_hashes raw =
     filter (\<lambda>s. s \<noteq> []) (map trim (split_pat (ws_or_pat (\<lambda>c. c = CHR '','' \<or> c = CHR '';'')) raw))"

definition should_use_system_trust :: "str \<Rightarrow> bool \<Rightarrow> bool" where
  "should_use_system_trust server_cert_hash accept_untrusted \<longleftrightarrow>
     server_certificate_hashes server_cert_hash = [] \<and> \<not> accept_untrusted"

definition accepts_untrusted :: "connection_profile \<Rightarrow> bool" where
  "accepts_untrusted p \<longleftrightarrow> \<not> pf_strict_certificate_trust p \<and> \<not> pf_block_untrusted_servers p"

datatype config_write_result = ConfigAccepted | ConfigError

text \<open>\<open>home\<close> is the environment variable, \<open>write\<close> the private write of the file.\<close>

definition persist_server_config :: "str option \<Rightarrow> (str \<Rightarrow> (str, unit) result) \<Rightarrow> config_write_result" where
  "persist_server_config home write =
     (case home of
        None \<Rightarrow> ConfigAccepted
      | Some h \<Rightarrow> (case write (h @ ''/anyconnect-server-profile.xml'') of Err _ \<Rightarrow> ConfigError | Ok _ \<Rightarrow> ConfigAccepted))"

subsection \<open>The settings of a client\<close>

datatype text_setting =
  ExactUserAgent | ClientVersion | ReportedOs | Sni | CaFile | KeyPassword | SecondaryKeyPassword | HttpProxy | CsdWrapper

datatype flag_setting = ExternalAuthAllowed | XmlPost | PerfectForwardSecrecy | DtlsDisabled | SystemTrust | InsecureCrypto

datatype client_setting =
  SetText text_setting str
| SetFlag flag_setting bool
| SetMobileInfo str str str
| SetDpdMinimum nat
| SetRequestedMtu nat
| SetClientCertificate str str
| SetSecondaryCertificate str str
| SetTokenMode software_token "str option"

definition set_text :: "text_setting \<Rightarrow> str \<Rightarrow> client_setting list" where
  "set_text k s = (if trim s = [] then [] else [SetText k (trim s)])"

definition certificate_setting :: "(str \<Rightarrow> str \<Rightarrow> client_setting) \<Rightarrow> str \<Rightarrow> str \<Rightarrow> client_setting list" where
  "certificate_setting k certificate private_key =
     (if trim certificate = [] then []
      else [k (trim certificate) (if trim private_key = [] then trim certificate else trim private_key)])"

definition mobile_settings :: "platform_identity \<Rightarrow> connection_profile \<Rightarrow> client_setting list" where
  "mobile_settings i p =
     (let os = openconnect_reported_os (effective_reported_os p)
      in if os = openharmony_reported_os then
           (let m = mobile_identity i; unique = (if mi_unique_id m = [] then trim (pf_id p) else mi_unique_id m)
            in if unique = [] then [] else [SetMobileInfo (mi_platform_version m) (mi_device_type m) unique])
         else if os = ''android'' \<or> os = ''apple-ios'' then
           (if trim (pf_id p) = [] then [] else [SetMobileInfo ''1.0'' os (trim (pf_id p))])
         else [])"

definition token_settings :: "connection_profile \<Rightarrow> client_setting list" where
  "token_settings p =
     (let secret = (if pf_token_string p = [] then None else Some (pf_token_string p))
      in case pf_software_token p of
           SecurId \<Rightarrow> [SetTokenMode SecurId secret]
         | Totp \<Rightarrow> [SetTokenMode Totp secret]
         | Disabled \<Rightarrow> [])"

text \<open>The calls \<open>apply_openconnect_prefs\<close> makes, in order.\<close>

definition openconnect_prefs :: "platform_identity \<Rightarrow> connection_profile \<Rightarrow> bool \<Rightarrow> (str, client_setting list) result" where
  "openconnect_prefs i p accept_untrusted =
     (if pf_fips_mode p then
        Err ''FIPS mode is unavailable: this build has no validated OpenSSL FIPS provider''
      else Ok (
        [SetText ExactUserAgent (effective_user_agent i p), SetText ClientVersion (effective_client_version i p),
         SetText ReportedOs (openconnect_reported_os (effective_reported_os p))]
        @ mobile_settings i p
        @ set_text Sni (pf_sni p)
        @ [SetFlag ExternalAuthAllowed (wants_external_browser p), SetFlag XmlPost (\<not> pf_disable_xml_post p),
           SetFlag PerfectForwardSecrecy (pf_require_pfs p)]
        @ (if pf_dpd_seconds p > 0 then [SetDpdMinimum (pf_dpd_seconds p)] else [])
        @ (if pf_mtu p > 0 then [SetRequestedMtu (pf_mtu p)] else [])
        @ (if pf_use_dtls p then [] else [SetFlag DtlsDisabled True])
        @ set_text CaFile (pf_ca_certificate p)
        @ certificate_setting SetClientCertificate (pf_certificate p) (pf_private_key p)
        @ set_text KeyPassword (pf_key_password p)
        @ certificate_setting SetSecondaryCertificate (pf_secondary_certificate p) (pf_secondary_private_key p)
        @ set_text SecondaryKeyPassword (pf_secondary_key_password p)
        @ set_text HttpProxy (pf_http_proxy p)
        @ set_text CsdWrapper (pf_csd_wrapper p)
        @ token_settings p
        @ [SetFlag SystemTrust (should_use_system_trust (pf_server_cert_hash p) accept_untrusted),
           SetFlag InsecureCrypto (pf_allow_insecure_crypto p)]))"

text \<open>The setters without a result cannot fail.\<close>

fun fallible_setting :: "client_setting \<Rightarrow> bool" where
  "fallible_setting (SetFlag k _) \<longleftrightarrow> k = DtlsDisabled \<or> k = InsecureCrypto"
| "fallible_setting _ \<longleftrightarrow> True"

fun run_settings :: "(client_setting \<Rightarrow> (str, unit) result) \<Rightarrow> client_setting list \<Rightarrow> (str, unit) result" where
  "run_settings call [] = Ok ()"
| "run_settings call (s # ss) =
     (case (if fallible_setting s then call s else Ok ()) of Err e \<Rightarrow> Err e | Ok _ \<Rightarrow> run_settings call ss)"

subsection \<open>The library\<close>

record network_config =
  nc_address :: "str option"
  nc_netmask :: "str option"
  nc_address_v6 :: "str option"
  nc_netmask_v6 :: "str option"
  nc_gateway :: "str option"
  nc_dns :: "str list"
  nc_mtu :: int
  nc_split_includes :: "str list"
  nc_split_excludes :: "str list"
  nc_domain :: "str option"
  nc_split_dns :: "str list"

text \<open>What the builder is given.\<close>

record client_plan =
  cl_url :: str
  cl_protocol :: str
  cl_user_agent :: str
  cl_pins :: "str list"
  cl_external_browser :: bool

record client_library =
  lib_build :: "client_plan \<Rightarrow> (str, nat) result"
  lib_command :: "(str, unit) result"
  lib_set_group :: "str option \<Rightarrow> (str, unit) result"
  lib_setting :: "client_setting \<Rightarrow> (str, unit) result"
  lib_obtain_cookie :: "(str, unit) result"
  lib_form_error :: "str option"
  lib_cookie :: "str option"
  lib_set_cookie :: "str \<Rightarrow> (str, unit) result"
  lib_make_cstp :: "(str, unit) result"
  lib_network :: "(str, network_config) result"

text \<open>\<open>From<anyconnect::Error>\<close>.\<close>

definition native_call :: "(str, 'a) result \<Rightarrow> (str, 'a) result" where
  "native_call r = (case r of Err e \<Rightarrow> Err (''anyconnect: '' @ e) | Ok x \<Rightarrow> Ok x)"

definition apply_openconnect_prefs ::
    "platform_identity \<Rightarrow> client_library \<Rightarrow> connection_profile \<Rightarrow> bool \<Rightarrow> (str, unit) result" where
  "apply_openconnect_prefs i lib p accept_untrusted =
     and_then (openconnect_prefs i p accept_untrusted) (\<lambda>settings. native_call (run_settings (lib_setting lib) settings))"

subsection \<open>Authentication in the UI\<close>

definition skipped_progress :: "str list" where
  "skipped_progress = [''content-security-policy'', ''cross-origin-opener-policy'', ''x-frame-options'',
     ''strict-transport-security'', ''x-content-type-options'', ''x-xss-protection'', ''cache-control'', ''pragma:'',
     ''connection:'', ''date:'', ''transfer-encoding'', ''http body'']"

text \<open>\<open>progress\<close> is the text of the progress log, when there is one.\<close>

definition last_progress_lines_interesting :: "str option \<Rightarrow> nat \<Rightarrow> str option" where
  "last_progress_lines_interesting progress n =
     Option.bind progress (\<lambda>text_of.
       let ls = filter (\<lambda>l. l \<noteq> [] \<and> \<not> list_ex (contains_text (to_ascii_lowercase l)) skipped_progress)
                  (map trim (split_char (CHR 0x0A) text_of))
       in if ls = [] then None else Some (join ('' '' @ utf8 [0xC2, 0xB7] @ '' '') (drop (length ls - n) ls)))"

definition cancelled_text :: str where
  "cancelled_text =
     utf8 [0xE8, 0xAE, 0xA4, 0xE8, 0xAF, 0x81, 0xE5, 0xB7, 0xB2, 0xE5, 0x8F, 0x96, 0xE6, 0xB6, 0x88, 0xEF, 0xBC,
     0x88, 0xE6, 0x9C, 0xAA, 0xE6, 0x8F, 0x90, 0xE4, 0xBA, 0xA4, 0xE5, 0x8A, 0xA8, 0xE6, 0x80, 0x81, 0xE5, 0x8F,
     0xA3, 0xE4, 0xBB, 0xA4] @ ''/'' @ utf8 [0xE9, 0xAA, 0x8C, 0xE8, 0xAF, 0x81, 0xE7, 0xA0, 0x81, 0xEF, 0xBC,
     0x8C, 0xE6, 0x88, 0x96, 0xE8, 0xBF, 0x9E, 0xE6, 0x8E, 0xA5, 0xE8, 0xBF, 0x87, 0xE7, 0xA8, 0x8B, 0xE4, 0xB8,
     0xAD, 0xE7, 0x82, 0xB9, 0xE4, 0xBA, 0x86, 0xE5, 0x8F, 0x96, 0xE6, 0xB6, 0x88, 0xEF, 0xBC, 0x89]"

definition authentication_failure :: "client_library \<Rightarrow> str option \<Rightarrow> bool \<Rightarrow> str \<Rightarrow> str" where
  "authentication_failure lib progress accept_untrusted msg =
     (case lib_form_error lib of
        Some detail \<Rightarrow> detail
      | None \<Rightarrow>
          if contains_text msg ''status 1'' then cancelled_text
          else msg
            @ (if accept_untrusted then [] else '' (tip: disable strict certificate trust for self-signed lab servers)'')
            @ (case last_progress_lines_interesting progress 6 of
                 Some tail \<Rightarrow> '' | '' @ tail
               | None \<Rightarrow>
                   if contains_text msg ''status -5'' \<or> contains_text msg ''status -EIO''
                   then '' [EIO: login form never reached '' @ utf8 [0xE2, 0x80, 0x94] @ '' check network/TLS/server URL]''
                   else []))"

definition auth_plan :: "platform_identity \<Rightarrow> connection_profile \<Rightarrow> client_plan" where
  "auth_plan i p = \<lparr>cl_url = server_url p, cl_protocol = as_openconnect (pf_protocol p), cl_user_agent = effective_user_agent i p,
     cl_pins = server_certificate_hashes (trim (pf_server_cert_hash p)), cl_external_browser = wants_external_browser p\<rparr>"

definition placeholder_network :: "connection_profile \<Rightarrow> network_snapshot" where
  "placeholder_network p = network_default\<lparr>net_gateway := Some (pf_server p),
     net_mtu := (if pf_mtu p > 0 then as_i32 (pf_mtu p) else 1400)\<rparr>"

definition handoff_options :: "platform_identity \<Rightarrow> connection_profile \<Rightarrow> str option \<Rightarrow> vpn_options" where
  "handoff_options i p cookie =
     apply_force_global ((from_network (placeholder_network p) p)\<lparr>
       vo_addresses := [], vo_routes := [], vo_dns_addresses := [],
       vo_cookie := cookie, vo_server := Some (server_url p), vo_accept_untrusted := accepts_untrusted p,
       vo_force_global := pf_force_global p, vo_use_dtls := pf_use_dtls p, vo_reported_os := effective_reported_os p,
       vo_sni := pf_sni p, vo_require_pfs := pf_require_pfs p, vo_disable_xml_post := pf_disable_xml_post p,
       vo_dpd_seconds := pf_dpd_seconds p, vo_vpn_protocol := as_openconnect (pf_protocol p),
       vo_user_agent := effective_user_agent i p, vo_client_version := effective_client_version i p,
       vo_allow_insecure_crypto := pf_allow_insecure_crypto p, vo_fips_mode := pf_fips_mode p,
       vo_external_auth_allowed := wants_external_browser p, vo_mobile_unique_id := pf_id p\<rparr>)"

definition authenticate ::
    "platform_identity \<Rightarrow> client_library \<Rightarrow> str option \<Rightarrow> connection_profile \<Rightarrow> (str, pending_session) result" where
  "authenticate i lib progress p =
     (if server_url p = [] then Err ''server address is empty''
      else
        and_then (native_call (lib_build lib (auth_plan i p))) (\<lambda>_.
        and_then (if wants_external_browser p then native_call (lib_command lib) else Ok ()) (\<lambda>_.
        and_then (native_call (lib_set_group lib (nonempty_trim (pf_group p)))) (\<lambda>_.
        and_then (apply_openconnect_prefs i lib p (accepts_untrusted p)) (\<lambda>_.
          case lib_obtain_cookie lib of
            Err msg \<Rightarrow> Err (authentication_failure lib progress (accepts_untrusted p) msg)
          | Ok _ \<Rightarrow>
              (case lib_cookie lib of
                 None \<Rightarrow> Err ''obtain_cookie succeeded but cookie is empty''
               | Some cookie \<Rightarrow>
                   if cookie = [] then Err ''obtain_cookie succeeded but cookie is empty''
                   else Ok \<lparr>pn_client = None, pn_network = placeholder_network p,
                            pn_options = handoff_options i p (Some cookie)\<rparr>))))))"

text \<open>\<open>captured\<close>: the groups of the last form the handler was shown and the one that is selected.\<close>

definition discover_auth_groups ::
    "platform_identity \<Rightarrow> client_library \<Rightarrow> (auth_field_choice list \<times> auth_field_choice option) option \<Rightarrow> connection_profile
       \<Rightarrow> (str, auth_group_discovery) result" where
  "discover_auth_groups i lib captured p =
     (if server_url p = [] then Err ''server address is empty''
      else
        and_then (native_call (lib_build lib ((auth_plan i p)\<lparr>cl_external_browser := False\<rparr>))) (\<lambda>_.
        and_then (apply_openconnect_prefs i lib p (accepts_untrusted p)) (\<lambda>_.
        and_then (native_call (lib_set_group lib None)) (\<lambda>_.
          case captured of
            Some (groups, selected) \<Rightarrow> Ok \<lparr>gd_selected = map_option ch_name selected, gd_groups = groups\<rparr>
          | None \<Rightarrow>
              (case lib_obtain_cookie lib of
                 Err e \<Rightarrow> Err (''failed to fetch authentication groups from '' @ server_url p @ '': '' @ e)
               | Ok _ \<Rightarrow> Ok \<lparr>gd_selected = None, gd_groups = []\<rparr>)))))"

subsection \<open>Failover\<close>

definition normalize_server_url :: "str \<Rightarrow> str" where
  "normalize_server_url server =
     (let server = trim server in if server = [] then [] else if has_scheme server then server else ''https://'' @ server)"

definition is_failover_eligible :: "str \<Rightarrow> bool" where
  "is_failover_eligible message \<longleftrightarrow>
     (let lower = to_ascii_lowercase message
      in \<not> (contains_text lower ''cancel'' \<or> contains_text lower (utf8 [0xE8, 0xAE, 0xA4, 0xE8, 0xAF, 0x81, 0xE5, 0xB7, 0xB2, 0xE5, 0x8F, 0x96, 0xE6, 0xB6, 0x88])
             \<or> contains_text lower ''credential'' \<or> contains_text lower ''password'' \<or> contains_text lower ''status 1'')
         \<and> list_ex (contains_text lower) [''connect'', ''network'', ''resolve'', ''dns'', ''timeout'', ''timed out'',
              ''unreachable'', ''refused'', ''tls'', ''ssl'', ''status -5'', ''eio''])"

definition resume_candidates :: "vpn_options \<Rightarrow> (str, str list) result" where
  "resume_candidates options =
     (case map_option normalize_server_url (vo_server options) of
        None \<Rightarrow> Err ''VPN options missing server for session resume''
      | Some primary \<Rightarrow>
          if primary = [] then Err ''VPN options missing server for session resume''
          else Ok (foldl (\<lambda>cs backup. let b = normalize_server_url backup
                                    in if b \<noteq> [] \<and> \<not> list_ex (\<lambda>c. c = b) cs then cs @ [b] else cs)
                     [primary] (vo_backup_servers options)))"

text \<open>\<open>None\<close> is the arithmetic panic of the route arithmetic, which cannot happen.\<close>

fun try_candidates ::
    "(vpn_options \<Rightarrow> (str, 's) result option) \<Rightarrow> vpn_options \<Rightarrow> str list \<Rightarrow> str list \<Rightarrow> (str, 's) result option" where
  "try_candidates once options failures [] =
     Some (Err (''all eligible AnyConnect gateways failed: '' @ join '' | '' failures))"
| "try_candidates once options failures (server # servers) =
     (case once (options\<lparr>vo_server := Some server\<rparr>) of
        None \<Rightarrow> None
      | Some (Ok session) \<Rightarrow> Some (Ok session)
      | Some (Err message) \<Rightarrow>
          (let failures = failures @ [server @ '': '' @ message]
           in if servers = [] \<or> \<not> is_failover_eligible message
              then Some (Err (''all eligible AnyConnect gateways failed: '' @ join '' | '' failures))
              else try_candidates once options failures servers))"

definition resume_from_options ::
    "(vpn_options \<Rightarrow> (str, 's) result option) \<Rightarrow> vpn_options \<Rightarrow> (str, 's) result option" where
  "resume_from_options once options =
     (case resume_candidates options of
        Err e \<Rightarrow> Some (Err e)
      | Ok servers \<Rightarrow> try_candidates once options [] servers)"

subsection \<open>Resuming in the Extension\<close>

definition resume_profile :: "vpn_options \<Rightarrow> connection_profile" where
  "resume_profile options = new_draft\<lparr>
     pf_id := vo_mobile_unique_id options,
     pf_group := (case vo_group options of None \<Rightarrow> [] | Some g \<Rightarrow> g),
     pf_backup_servers := join [CHR 0x0A] (vo_backup_servers options),
     pf_use_dtls := vo_use_dtls options, pf_reported_os := vo_reported_os options, pf_sni := vo_sni options,
     pf_require_pfs := vo_require_pfs options, pf_disable_xml_post := vo_disable_xml_post options,
     pf_dpd_seconds := vo_dpd_seconds options, pf_certificate := vo_certificate options,
     pf_private_key := vo_private_key options, pf_secondary_certificate := vo_secondary_certificate options,
     pf_secondary_private_key := vo_secondary_private_key options, pf_ca_certificate := vo_ca_certificate options,
     pf_key_password := vo_key_password options, pf_secondary_key_password := vo_secondary_key_password options,
     pf_http_proxy := vo_http_proxy options, pf_server_cert_hash := vo_server_cert_hash options,
     pf_csd_wrapper := vo_csd_wrapper options, pf_software_token := vo_software_token options,
     pf_token_string := vo_token_string options, pf_mtu := vo_mtu options, pf_user_agent := vo_user_agent options,
     pf_client_version := vo_client_version options, pf_allow_insecure_crypto := vo_allow_insecure_crypto options,
     pf_fips_mode := vo_fips_mode options, pf_external_browser_auth := vo_external_auth_allowed options\<rparr>"

definition route_profile :: "vpn_options \<Rightarrow> connection_profile" where
  "route_profile options = new_draft\<lparr>
     pf_mtu := vo_mtu options, pf_allow_local_lan := vo_allow_local_lan options \<or> vo_allow_bypass options,
     pf_force_global := vo_force_global options, pf_split_tunnel_mode := vo_split_tunnel_mode options,
     pf_split_tunnel_networks := vo_split_tunnel_networks options\<rparr>"

definition network_snapshot_from_openconnect :: "network_config \<Rightarrow> connection_profile \<Rightarrow> network_snapshot" where
  "network_snapshot_from_openconnect n p =
     \<lparr>net_address = nc_address n, net_netmask = nc_netmask n, net_address_v6 = nc_address_v6 n, net_netmask_v6 = nc_netmask_v6 n,
      net_gateway = nc_gateway n, net_dns = nc_dns n,
      net_mtu = (if nc_mtu n > 0 then nc_mtu n else if pf_mtu p > 0 then as_i32 (pf_mtu p) else 1400),
      net_routes = nc_split_includes n, net_split_excludes = nc_split_excludes n, net_domain = nc_domain n,
      net_split_dns = nc_split_dns n\<rparr>"

definition resume_network :: "vpn_options \<Rightarrow> network_snapshot \<Rightarrow> network_snapshot" where
  "resume_network options live =
     (if net_address live \<noteq> None then live
      else case vo_addresses options of
        [] \<Rightarrow> live
      | a # _ \<Rightarrow>
          \<lparr>net_address = Some (split_first (CHR ''/'') a), net_netmask = None, net_address_v6 = None, net_netmask_v6 = None,
           net_gateway = vo_server options, net_dns = vo_dns_addresses options, net_mtu = as_i32 (vo_mtu options),
           net_routes = vo_routes options, net_split_excludes = [], net_domain = None,
           net_split_dns = vo_search_domains options\<rparr>)"

definition first_of :: "'a option \<Rightarrow> 'a option \<Rightarrow> 'a option" where
  "first_of x y = (case x of None \<Rightarrow> y | Some _ \<Rightarrow> x)"

definition resumed_options :: "vpn_options \<Rightarrow> network_snapshot \<Rightarrow> str option \<Rightarrow> vpn_options" where
  "resumed_options options network cookie =
     (let filled = from_network network (route_profile options);
          filled = filled\<lparr>vo_cookie := first_of cookie (vo_cookie options), vo_server := first_of (vo_server options) (vo_server filled),
                      vo_username := first_of (vo_username options) (vo_username filled),
                      vo_password := first_of (vo_password options) (vo_password filled),
                      vo_group := first_of (vo_group options) (vo_group filled),
                      vo_accept_untrusted := vo_accept_untrusted options,
                      vo_force_global := vo_force_global options \<or> vo_force_global filled\<rparr>
      in push_dns_host_routes (apply_force_global filled))"

definition resume_plan :: "platform_identity \<Rightarrow> vpn_options \<Rightarrow> str \<Rightarrow> client_plan" where
  "resume_plan i options url = \<lparr>cl_url = url,
     cl_protocol = (if trim (vo_vpn_protocol options) = [] then ''anyconnect'' else vo_vpn_protocol options),
     cl_user_agent = (if trim (vo_user_agent options) = [] then user_agent i else vo_user_agent options),
     cl_pins = server_certificate_hashes (trim (vo_server_cert_hash options)),
     cl_external_browser = vo_external_auth_allowed options\<rparr>"

record native_pending = pending_session +
  np_setup_dtls_after_tun :: bool
  np_protect_monitor :: "nat option"

text \<open>\<open>protect\<close> is the outcome of \<open>begin_operation\<close>, \<open>protected\<close> that of \<open>finish_operation\<close> after the connection.\<close>

definition resume_from_options_once ::
    "platform_identity \<Rightarrow> client_library \<Rightarrow> (str, nat option) result \<Rightarrow> (str, unit) result \<Rightarrow> vpn_options
       \<Rightarrow> (str, native_pending) result option" where
  "resume_from_options_once i lib protect protected options =
     (case vo_server options of
        None \<Rightarrow> Some (Err ''VPN options missing server for session resume'')
      | Some url \<Rightarrow>
        if trim url = [] then Some (Err ''VPN options missing server for session resume'')
        else
          let before = and_then protect (\<lambda>monitor.
            case vo_cookie options of
              None \<Rightarrow> Err ''VPN extension did not receive the authenticated cookie''
            | Some cookie \<Rightarrow>
                if trim cookie = [] then Err ''VPN extension did not receive the authenticated cookie''
                else
                  and_then (native_call (lib_build lib (resume_plan i options url))) (\<lambda>client.
                  and_then (if vo_external_auth_allowed options then native_call (lib_command lib) else Ok ()) (\<lambda>_.
                  and_then (apply_openconnect_prefs i lib (resume_profile options) (vo_accept_untrusted options)) (\<lambda>_.
                  and_then (case lib_set_cookie lib cookie of
                              Err e \<Rightarrow> Err (''extension set_cookie failed: '' @ e) | Ok _ \<Rightarrow> Ok ()) (\<lambda>_.
                  and_then protected (\<lambda>_.
                  and_then (case lib_make_cstp lib of
                              Err e \<Rightarrow> Err (''extension make_cstp failed: '' @ e) | Ok _ \<Rightarrow> Ok ()) (\<lambda>_.
                  and_then (native_call (lib_network lib)) (\<lambda>network. Ok (monitor, client, network)))))))))
          in case before of
               Err e \<Rightarrow> Some (Err e)
             | Ok (monitor, client, network) \<Rightarrow>
                 (let snapshot = resume_network options (network_snapshot_from_openconnect network (route_profile options))
                  in map_option (\<lambda>(filled, r).
                       case r of
                         Err e \<Rightarrow> Err e
                       | Ok _ \<Rightarrow> Ok \<lparr>pn_client = Some client, pn_network = snapshot, pn_options = filled,
                                    np_setup_dtls_after_tun = vo_use_dtls options, np_protect_monitor = monitor\<rparr>)
                     (materialize_excluded_routes (resumed_options options snapshot (lib_cookie lib)))))"

subsection \<open>The mainloop\<close>

record mainloop_calls =
  ml_command :: "(str, unit) result"
  ml_setup_tun :: "int \<Rightarrow> (str, unit) result"
  ml_clear_error :: "nat \<Rightarrow> (str, unit) result"
  ml_finish_dtls :: "(str, unit) result"
  ml_spawn :: "(str, nat) result"

definition clear_monitor :: "mainloop_calls \<Rightarrow> nat option \<Rightarrow> (str, unit) result" where
  "clear_monitor calls monitor = (case monitor of None \<Rightarrow> Ok () | Some m \<Rightarrow> ml_clear_error calls m)"

definition spawn_mainloop ::
    "mainloop_calls \<Rightarrow> native_pending \<Rightarrow> int \<Rightarrow> nat \<Rightarrow> str \<Rightarrow> (str, running_session) result" where
  "spawn_mainloop calls pending tun_fd generation attempt =
     (if tun_fd < 0 then Err (''invalid TUN fd -'' @ show_dec (nat (- tun_fd)))
      else case pn_client pending of
        None \<Rightarrow> Err ''spawn_mainloop requires a live Client (cookie-only UI handoff is not attachable)''
      | Some _ \<Rightarrow>
          and_then (native_call (ml_command calls)) (\<lambda>_.
          and_then (native_call (ml_setup_tun calls tun_fd)) (\<lambda>_.
          and_then (if np_setup_dtls_after_tun pending
                    then and_then (clear_monitor calls (np_protect_monitor pending)) (\<lambda>_. ml_finish_dtls calls)
                    else Ok ()) (\<lambda>_.
          and_then (clear_monitor calls (np_protect_monitor pending)) (\<lambda>_.
          case ml_spawn calls of
            Err e \<Rightarrow> Err (''failed to spawn mainloop thread: '' @ e)
          | Ok handle \<Rightarrow> Ok \<lparr>rn_handle = handle, rn_attempt_id = attempt, rn_generation = generation\<rparr>)))))"

text \<open>What the worker reports when the mainloop returns: a socket that was not protected outweighs the loop's own result.\<close>

definition mainloop_result :: "(str, unit) result \<Rightarrow> (str, unit) result \<Rightarrow> (str, unit) result" where
  "mainloop_result run protected = (case protected of Err e \<Rightarrow> Err e | Ok _ \<Rightarrow> native_call run)"

text \<open>Waiting for the worker: \<open>turns\<close> lists, per turn, whether it had finished and the time read after that.\<close>

fun join_wait :: "nat \<Rightarrow> (bool \<times> nat) list \<Rightarrow> bool option" where
  "join_wait deadline [] = None"
| "join_wait deadline ((finished, now) # turns) =
     (if finished then Some True else if deadline \<le> now then Some False else join_wait deadline turns)"

definition join_session :: "nat \<Rightarrow> nat \<Rightarrow> (bool \<times> nat) list \<Rightarrow> (str, unit) result option \<Rightarrow> (str, unit) result option" where
  "join_session start timeout turns worker =
     (case join_wait (start + timeout) turns of
        None \<Rightarrow> None
      | Some False \<Rightarrow> Some (Err (''anyconnect mainloop did not exit within '' @ show_dec (timeout div 1000000) @ '' ms''))
      | Some True \<Rightarrow> Some (case worker of None \<Rightarrow> Err ''anyconnect mainloop thread panicked'' | Some r \<Rightarrow> r))"

text \<open>The statistics shared with the mainloop.\<close>

definition record_statistics :: "nat \<Rightarrow> nat \<Rightarrow> nat \<Rightarrow> nat \<Rightarrow> session_stats \<Rightarrow> session_stats" where
  "record_statistics tx_bytes rx_bytes tx_packets rx_packets st =
     st\<lparr>ss_bytes_sent := tx_bytes, ss_bytes_received := rx_bytes, ss_packets_sent := tx_packets, ss_packets_received := rx_packets\<rparr>"

definition seed_network_meta :: "str \<Rightarrow> str \<Rightarrow> nat \<Rightarrow> session_stats \<Rightarrow> session_stats" where
  "seed_network_meta assigned_ip gateway mtu st =
     st\<lparr>ss_assigned_ip := assigned_ip, ss_gateway := gateway, ss_mtu := mtu\<rparr>"

end
