(* ===== verification/Oc_Native_Laws.thy ===== *)
theory Oc_Native_Laws
  imports Oc_Native Oc_Route_Policy
begin

text \<open>
  The session the UI hands over and the one the Extension rebuilds from it: both clients are configured alike, and gateways
  are tried in order and no further than an error that another gateway can mend.
\<close>

subsection \<open>The same client in both processes\<close>

lemma settled_user_agent:
  assumes "identity_ok_text (id_app_version i)"
  shows "trim (user_agent i) = user_agent i" "user_agent i \<noteq> []"
    "trim (client_version i) = client_version i" "client_version i \<noteq> []"
proof -
  obtain v where v: "id_app_version i = v" "v \<noteq> []" "list_all plain v" using assms by (auto simp: identity_ok_text_def)
  have u: "user_agent i = CHR ''A'' # (''nyConnect OpenHarmony '' @ v)"
    by (simp add: user_agent_def anyconnect_user_agent_prefix_def v)
  have "plain (last (CHR ''A'' # (''nyConnect OpenHarmony '' @ v)))" using v(2,3) by (simp add: list_all_iff)
  then show "trim (user_agent i) = user_agent i" unfolding u by (intro trim_plain_ends) (simp_all add: plain_def cp_def)
  show "user_agent i \<noteq> []" by (simp add: u)
  show "trim (client_version i) = client_version i" "client_version i \<noteq> []"
    using v by (simp_all add: client_version_def trim_plain)
qed

lemma effective_settled:
  assumes "identity_ok_text (id_app_version i)"
  shows "trim (effective_user_agent i p) = effective_user_agent i p" "effective_user_agent i p \<noteq> []"
    "trim (effective_client_version i p) = effective_client_version i p" "effective_client_version i p \<noteq> []"
    "trim (effective_reported_os p) = effective_reported_os p" "effective_reported_os p \<noteq> []"
proof -
  have os: "trim openharmony_reported_os = openharmony_reported_os"
    by (simp add: openharmony_reported_os_def trim_plain plain_def cp_def)
  show "trim (effective_user_agent i p) = effective_user_agent i p" "effective_user_agent i p \<noteq> []"
    "trim (effective_client_version i p) = effective_client_version i p" "effective_client_version i p \<noteq> []"
    "trim (effective_reported_os p) = effective_reported_os p" "effective_reported_os p \<noteq> []"
    using settled_user_agent [OF assms] os
    by (simp_all add: effective_user_agent_def effective_client_version_def effective_reported_os_def openharmony_reported_os_def Let_def)
qed

text \<open>What the hand-over carries of the profile.\<close>

lemma force_kept [simp]:
  "resume_profile (apply_force_global opts) = resume_profile opts"
  "vo_accept_untrusted (apply_force_global opts) = vo_accept_untrusted opts"
  "vo_cookie (apply_force_global opts) = vo_cookie opts" "vo_server (apply_force_global opts) = vo_server opts"
  "resume_plan i (apply_force_global opts) url = resume_plan i opts url"
  "vo_addresses (apply_force_global opts) = vo_addresses opts"
  by (simp_all add: apply_force_global_def push_dns_host_routes_def normalize_routes_def resume_profile_def resume_plan_def Let_def)

definition carried :: "vpn_options \<Rightarrow> connection_profile \<Rightarrow> bool" where
  "carried opts p \<longleftrightarrow> vo_ca_certificate opts = pf_ca_certificate p \<and> vo_certificate opts = pf_certificate p
     \<and> vo_private_key opts = pf_private_key p \<and> vo_secondary_certificate opts = pf_secondary_certificate p
     \<and> vo_secondary_private_key opts = pf_secondary_private_key p \<and> vo_key_password opts = pf_key_password p
     \<and> vo_secondary_key_password opts = pf_secondary_key_password p \<and> vo_http_proxy opts = pf_http_proxy p
     \<and> vo_server_cert_hash opts = pf_server_cert_hash p \<and> vo_csd_wrapper opts = pf_csd_wrapper p
     \<and> vo_software_token opts = pf_software_token p \<and> vo_token_string opts = pf_token_string p"

lemma from_network_carried: "carried (from_network net p) p"
  by (simp add: carried_def from_network_def normalize_routes_def push_dns_host_routes_def Let_def split: prod.split)

definition is_requested_mtu :: "client_setting \<Rightarrow> bool" where
  "is_requested_mtu s \<longleftrightarrow> (\<exists>n. s = SetRequestedMtu n)"

lemma no_mtu_setting:
  "filter (\<lambda>s. \<not> is_requested_mtu s) (set_text k t) = set_text k t"
  "filter (\<lambda>s. \<not> is_requested_mtu s) (mobile_settings i p) = mobile_settings i p"
  "filter (\<lambda>s. \<not> is_requested_mtu s) (token_settings p) = token_settings p"
  "filter (\<lambda>s. \<not> is_requested_mtu s) (certificate_setting SetClientCertificate a b) = certificate_setting SetClientCertificate a b"
  "filter (\<lambda>s. \<not> is_requested_mtu s) (certificate_setting SetSecondaryCertificate a b) = certificate_setting SetSecondaryCertificate a b"
  by (simp_all add: set_text_def mobile_settings_def token_settings_def certificate_setting_def is_requested_mtu_def Let_def
      split: software_token.split)

text \<open>The profile the Extension works with, field by field.\<close>

lemma resumed_fields:
  fixes i p c defines "q \<equiv> resume_profile (handoff_options i p c)"
  shows "pf_user_agent q = effective_user_agent i p" "pf_client_version q = effective_client_version i p"
    "pf_reported_os q = effective_reported_os p" "pf_external_browser_auth q = wants_external_browser p" "pf_auth_method q = Password"
    "pf_id q = pf_id p" "pf_sni q = pf_sni p" "pf_require_pfs q = pf_require_pfs p" "pf_disable_xml_post q = pf_disable_xml_post p"
    "pf_dpd_seconds q = pf_dpd_seconds p" "pf_use_dtls q = pf_use_dtls p" "pf_fips_mode q = pf_fips_mode p"
    "pf_allow_insecure_crypto q = pf_allow_insecure_crypto p"
  by (simp_all add: q_def handoff_options_def) (simp_all add: resume_profile_def new_draft_def)

lemma resumed_carried:
  fixes i p c defines "q \<equiv> resume_profile (handoff_options i p c)"
  shows "pf_ca_certificate q = pf_ca_certificate p" "pf_certificate q = pf_certificate p" "pf_private_key q = pf_private_key p"
    "pf_secondary_certificate q = pf_secondary_certificate p" "pf_secondary_private_key q = pf_secondary_private_key p"
    "pf_key_password q = pf_key_password p" "pf_secondary_key_password q = pf_secondary_key_password p"
    "pf_http_proxy q = pf_http_proxy p" "pf_server_cert_hash q = pf_server_cert_hash p" "pf_csd_wrapper q = pf_csd_wrapper p"
    "pf_software_token q = pf_software_token p" "pf_token_string q = pf_token_string p"
  using from_network_carried [of "placeholder_network p" p]
  by (simp_all add: q_def handoff_options_def) (simp_all add: resume_profile_def carried_def)

lemma resumed_identity:
  assumes "identity_ok_text (id_app_version i)"
  shows "effective_user_agent i (resume_profile (handoff_options i p c)) = effective_user_agent i p"
    "effective_client_version i (resume_profile (handoff_options i p c)) = effective_client_version i p"
    "effective_reported_os (resume_profile (handoff_options i p c)) = effective_reported_os p"
    "wants_external_browser (resume_profile (handoff_options i p c)) = wants_external_browser p"
proof -
  have fix_ua: "effective_user_agent i q = pf_user_agent q" if "trim (pf_user_agent q) = pf_user_agent q" "pf_user_agent q \<noteq> []" for q
    using that by (simp add: effective_user_agent_def)
  have fix_cv: "effective_client_version i q = pf_client_version q"
    if "trim (pf_client_version q) = pf_client_version q" "pf_client_version q \<noteq> []" for q
    using that by (simp add: effective_client_version_def)
  have fix_os: "effective_reported_os q = pf_reported_os q" if "trim (pf_reported_os q) = pf_reported_os q" "pf_reported_os q \<noteq> []" for q
    using that by (simp add: effective_reported_os_def)
  note e = effective_settled [OF assms, of p]
  show "effective_user_agent i (resume_profile (handoff_options i p c)) = effective_user_agent i p"
    "effective_client_version i (resume_profile (handoff_options i p c)) = effective_client_version i p"
    "effective_reported_os (resume_profile (handoff_options i p c)) = effective_reported_os p"
    "wants_external_browser (resume_profile (handoff_options i p c)) = wants_external_browser p"
    using e by (simp_all add: fix_ua fix_cv fix_os resumed_fields) (simp add: wants_external_browser_def [of "resume_profile _"] resumed_fields)
qed

lemma same_prefs:
  assumes "identity_ok_text (id_app_version i)"
  shows "map_sum id (filter (\<lambda>s. \<not> is_requested_mtu s)) (openconnect_prefs i (resume_profile (handoff_options i p c)) b)
    = map_sum id (filter (\<lambda>s. \<not> is_requested_mtu s)) (openconnect_prefs i p b)"
proof -
  let ?q = "resume_profile (handoff_options i p c)"
  have m: "mobile_settings i ?q = mobile_settings i p"
    by (simp add: mobile_settings_def resumed_identity [OF assms] resumed_fields Let_def cong: if_cong)
  have t: "token_settings ?q = token_settings p" by (simp add: token_settings_def resumed_carried)
  have n: "filter (\<lambda>s. \<not> is_requested_mtu s) (if b then [SetRequestedMtu n] else []) = []" for b n by (simp add: is_requested_mtu_def)
  have k: "\<not> is_requested_mtu (SetText k1 t1)" "\<not> is_requested_mtu (SetFlag k2 b2)" "\<not> is_requested_mtu (SetDpdMinimum d)"
    "is_requested_mtu (SetRequestedMtu d)" for k1 t1 k2 b2 d
    by (simp_all add: is_requested_mtu_def)
  show ?thesis
    by (simp add: openconnect_prefs_def resumed_identity [OF assms] resumed_fields resumed_carried m t n k no_mtu_setting
        if_distrib [of "filter _"] cong: if_cong)
qed

lemma same_plan:
  assumes "identity_ok_text (id_app_version i)"
  shows "resume_plan i (handoff_options i p c) (server_url p) = auth_plan i p"
proof -
  have "trim (as_openconnect k) = as_openconnect k \<and> as_openconnect k \<noteq> []" for k by (cases k) (simp_all, code_simp+)
  then show ?thesis
    using effective_settled [OF assms, of p] from_network_carried [of "placeholder_network p" p]
    by (simp add: handoff_options_def) (simp add: resume_plan_def auth_plan_def carried_def)
qed

subsection \<open>Failover\<close>

lemma candidates_fold:
  assumes "cs \<noteq> []" "distinct cs"
  shows "foldl (\<lambda>cs backup. let b = normalize_server_url backup in if b \<noteq> [] \<and> \<not> list_ex (\<lambda>c. c = b) cs then cs @ [b] else cs) cs bs = rs
    \<Longrightarrow> hd rs = hd cs \<and> distinct rs \<and> set rs = set cs \<union> (normalize_server_url ` set bs - {[]})"
  using assms
proof (induction bs arbitrary: cs)
  case (Cons b bs)
  let ?c = "let x = normalize_server_url b in if x \<noteq> [] \<and> \<not> list_ex (\<lambda>c. c = x) cs then cs @ [x] else cs"
  have c: "hd ?c = hd cs" "distinct ?c" "set ?c = set cs \<union> ({normalize_server_url b} - {[]})" "?c \<noteq> []"
    using Cons.prems(2,3) by (auto simp: Let_def list_ex_iff)
  have "hd rs = hd ?c \<and> distinct rs \<and> set rs = set ?c \<union> (normalize_server_url ` set bs - {[]})"
    by (rule Cons.IH) (use Cons.prems(1) c in simp_all)
  then show ?case using c(1,3) by auto
qed auto

lemma first_hit:
  fixes P Q :: "nat \<Rightarrow> bool"
  shows "(\<exists>k < Suc n. P k \<and> (\<forall>j < k. Q j)) \<longleftrightarrow> P 0 \<or> Q 0 \<and> (\<exists>k < n. P (Suc k) \<and> (\<forall>j < k. Q (Suc j)))"
proof
  assume "\<exists>k < Suc n. P k \<and> (\<forall>j < k. Q j)"
  then obtain k where k: "k < Suc n" "P k" "\<forall>j < k. Q j" by blast
  show "P 0 \<or> Q 0 \<and> (\<exists>k < n. P (Suc k) \<and> (\<forall>j < k. Q (Suc j)))"
    using k by (cases k) auto
next
  assume "P 0 \<or> Q 0 \<and> (\<exists>k < n. P (Suc k) \<and> (\<forall>j < k. Q (Suc j)))"
  then show "\<exists>k < Suc n. P k \<and> (\<forall>j < k. Q j)"
  proof
    assume "Q 0 \<and> (\<exists>k < n. P (Suc k) \<and> (\<forall>j < k. Q (Suc j)))"
    then obtain k where k: "Q 0" "k < n" "P (Suc k)" "\<forall>j < k. Q (Suc j)" by blast
    have "Q j" if "j < Suc k" for j using k that by (cases j) auto
    then show ?thesis using k by blast
  qed auto
qed

lemma try_candidates_Ok:
  "try_candidates once options failures servers = Some (Ok session) \<longleftrightarrow>
     (\<exists>k < length servers. once (options\<lparr>vo_server := Some (servers ! k)\<rparr>) = Some (Ok session)
        \<and> (\<forall>j < k. \<exists>m. once (options\<lparr>vo_server := Some (servers ! j)\<rparr>) = Some (Err m) \<and> is_failover_eligible m))"
proof (induction servers arbitrary: failures)
  case (Cons server servers)
  let ?o = "\<lambda>s. once (options\<lparr>vo_server := Some s\<rparr>)"
  have split: "(\<exists>k < length (server # servers). ?o ((server # servers) ! k) = Some (Ok session)
        \<and> (\<forall>j < k. \<exists>m. ?o ((server # servers) ! j) = Some (Err m) \<and> is_failover_eligible m))
     \<longleftrightarrow> ?o server = Some (Ok session) \<or> (\<exists>m. ?o server = Some (Err m) \<and> is_failover_eligible m)
        \<and> (\<exists>k < length servers. ?o (servers ! k) = Some (Ok session)
            \<and> (\<forall>j < k. \<exists>m. ?o (servers ! j) = Some (Err m) \<and> is_failover_eligible m))"
    using first_hit [of "length servers" "\<lambda>k. ?o ((server # servers) ! k) = Some (Ok session)"
      "\<lambda>j. \<exists>m. ?o ((server # servers) ! j) = Some (Err m) \<and> is_failover_eligible m"] by simp
  show ?case unfolding split using Cons.IH by (auto simp: Let_def split: option.split sum.split)
qed simp

subsection \<open>Properties\<close>


text \<open>
  C0: Gateways are tried in order. The candidates are the primary server and then the backups, as URLs, none empty and none twice; the
  resumption succeeds exactly when some candidate connects after every one before it failed with an
  error another gateway can mend, so a rejected credential or a cancelled login is not repeated elsewhere.
\<close>

theorem failover_order:
  assumes "resume_candidates options = Ok servers" "vo_server options = Some primary"
  shows "hd servers = normalize_server_url primary \<and> distinct servers
    \<and> set servers = normalize_server_url ` set (primary # vo_backup_servers options) - {[]}
    \<and> (resume_from_options once options = Some (Ok session) \<longleftrightarrow>
        (\<exists>k < length servers. once (options\<lparr>vo_server := Some (servers ! k)\<rparr>) = Some (Ok session)
          \<and> (\<forall>j < k. \<exists>m. once (options\<lparr>vo_server := Some (servers ! j)\<rparr>) = Some (Err m) \<and> is_failover_eligible m)))"
proof -
  have ne: "normalize_server_url primary \<noteq> []"
    and fold: "foldl (\<lambda>cs backup. let b = normalize_server_url backup in if b \<noteq> [] \<and> \<not> list_ex (\<lambda>c. c = b) cs then cs @ [b] else cs)
      [normalize_server_url primary] (vo_backup_servers options) = servers"
    using assms by (auto simp: resume_candidates_def split: if_splits)
  have "hd servers = normalize_server_url primary \<and> distinct servers
      \<and> set servers = normalize_server_url ` set (primary # vo_backup_servers options) - {[]}"
    using candidates_fold [OF _ _ fold] ne by auto
  moreover have "resume_from_options once options = try_candidates once options [] servers"
    using assms(1) by (simp add: resume_from_options_def)
  ultimately show ?thesis using try_candidates_Ok by simp
qed

subsection \<open>Concrete instances\<close>

definition demo_library :: client_library where
  "demo_library = \<lparr>lib_build = (\<lambda>_. Ok 1), lib_command = Ok (), lib_set_group = (\<lambda>_. Ok ()), lib_setting = (\<lambda>_. Ok ()),
     lib_obtain_cookie = Ok (), lib_form_error = None, lib_cookie = Some ''cookie'', lib_set_cookie = (\<lambda>_. Ok ()),
     lib_make_cstp = Ok (), lib_network = Err ''''\<rparr>"

definition demo_identity :: platform_identity where
  "demo_identity = from_platform ''1.0.1'' ''OpenHarmony-6.0.0.46'' ''6.0'' ''20'' ''phone'' ''1.2.3'' ''odid''"

lemma demo_identity_ok: "identity_ok_text (id_app_version demo_identity)"
  unfolding demo_identity_def by (rule identity_version) (simp add: identity_ok_text_def plain_def cp_def)

definition demo_login_profile :: connection_profile where
  "demo_login_profile = new_draft\<lparr>pf_id := ''p1'', pf_server := ''vpn.example.com'', pf_username := ''ada'', pf_certificate := ''/c.pem'',
     pf_strict_certificate_trust := True\<rparr>"

lemma demo_authenticated: "\<exists>session. authenticate demo_identity demo_library None demo_login_profile = Ok session"
proof -
  have url: "server_url demo_login_profile \<noteq> []"
    by (simp add: demo_login_profile_def server_url_def Let_def) code_simp
  have fips: "\<not> pf_fips_mode demo_login_profile" "\<not> wants_external_browser demo_login_profile"
    by (simp_all add: demo_login_profile_def new_draft_def wants_external_browser_def)
  have run: "run_settings (\<lambda>_. Ok ()) ss = Ok ()" for ss by (induction ss) (simp_all split: sum.split)
  show ?thesis
    using url fips by (simp add: authenticate_def apply_openconnect_prefs_def openconnect_prefs_def native_call_def demo_library_def run)
qed


definition demo_gateways :: vpn_options where
  "demo_gateways = vpn_options_default\<lparr>vo_server := Some ''a.example'', vo_backup_servers := [''b.example'', ''https://a.example'']\<rparr>"

definition demo_once :: "vpn_options \<Rightarrow> (str, nat) result option" where
  "demo_once options = (if vo_server options = Some ''https://b.example'' then Some (Ok 7) else Some (Err ''connect timed out''))"

lemma demo_candidates: "resume_candidates demo_gateways = Ok [''https://a.example'', ''https://b.example'']"
  by code_simp

lemma failover_order_witness:
  "resume_from_options demo_once demo_gateways = Some (Ok 7)"
proof -
  have p: "vo_server demo_gateways = Some ''a.example''" by (simp add: demo_gateways_def)
  have e: "is_failover_eligible ''connect timed out''" by code_simp
  have "\<exists>k < length [''https://a.example'', ''https://b.example''].
      demo_once (demo_gateways\<lparr>vo_server := Some ([''https://a.example'', ''https://b.example''] ! k)\<rparr>) = Some (Ok 7)
      \<and> (\<forall>j < k. \<exists>m. demo_once (demo_gateways\<lparr>vo_server := Some ([''https://a.example'', ''https://b.example''] ! j)\<rparr>) = Some (Err m)
          \<and> is_failover_eligible m)"
    by (rule exI [of _ 1]) (simp add: demo_once_def e)
  then show ?thesis using failover_order [OF demo_candidates p, of demo_once 7] by blast
qed

end
