(* ===== verification/Oc_Protect.thy ===== *)
theory Oc_Protect
  imports Oc_Connection
begin

text \<open>
  \<open>crates/hopenconnect_core/src/platform_protect.rs\<close> and \<open>platform_browser.rs\<close>: keeping the sockets of OpenConnect out of
  the tunnel, and opening the browser of a login.

  A registration is shared: the registry, the monitors of running operations and callbacks that have not returned all point to it. It
  is an entry of a list that only grows, and a monitor is its index. The callback runs outside every lock and may take seconds: choosing
  the registration and its return are two steps, with anything in between.
\<close>

subsection \<open>Registrations\<close>

record protect_registration =
  rg_generation :: nat
  rg_error :: "str option"

record protect_registry =
  rr_current :: "nat option"
  rr_next :: nat
  rr_registrations :: "protect_registration list"

definition protect_init :: protect_registry where
  "protect_init = \<lparr>rr_current = None, rr_next = 1, rr_registrations = []\<rparr>"

definition set_error :: "nat \<Rightarrow> str option \<Rightarrow> protect_registry \<Rightarrow> protect_registry" where
  "set_error m e r = r\<lparr>rr_registrations := (rr_registrations r)[m := (rr_registrations r ! m)\<lparr>rg_error := e\<rparr>]\<rparr>"

text \<open>\<open>handler\<close>: whether a callback is installed or the registry cleared.\<close>

definition set_handler :: "bool \<Rightarrow> protect_registry \<Rightarrow> protect_registry \<times> nat" where
  "set_handler handler r =
     (let generation = rr_next r; r = r\<lparr>rr_next := wrapping_succ (rr_next r)\<rparr>
      in (if handler
          then r\<lparr>rr_current := Some (length (rr_registrations r)),
                 rr_registrations := rr_registrations r @ [\<lparr>rg_generation = generation, rg_error = None\<rparr>]\<rparr>
          else r\<lparr>rr_current := None\<rparr>, generation))"

text \<open>The registration whose callback a new socket is passed to, and the return of a callback.\<close>

definition invoke_target :: "int \<Rightarrow> protect_registry \<Rightarrow> nat option" where
  "invoke_target fd r = (if fd < 0 then None else rr_current r)"

definition monitor_invoke :: "nat \<Rightarrow> int \<Rightarrow> (str, unit) result \<Rightarrow> protect_registry \<Rightarrow> protect_registry" where
  "monitor_invoke m fd returned r =
     (if fd < 0 then r else case returned of Err e \<Rightarrow> set_error m (Some e) r | Ok _ \<Rightarrow> r)"

definition begin_operation :: "bool \<Rightarrow> protect_registry \<Rightarrow> protect_registry \<times> (str, nat option) result" where
  "begin_operation ohos r =
     (case rr_current r of
        None \<Rightarrow> (r, if ohos then Err ''platform socket protect handler is not registered'' else Ok None)
      | Some m \<Rightarrow> (set_error m None r, Ok (Some m)))"

definition clear_error :: "nat \<Rightarrow> protect_registry \<Rightarrow> protect_registry" where
  "clear_error m r = set_error m None r"

definition take_error :: "nat \<Rightarrow> protect_registry \<Rightarrow> protect_registry \<times> (str, unit) result" where
  "take_error m r =
     (let g = rr_registrations r ! m
      in (set_error m None r,
          case rg_error g of
            Some e \<Rightarrow> Err (''platform socket protection failed (registration '' @ show_dec (rg_generation g) @ ''): '' @ e)
          | None \<Rightarrow> Ok ()))"

definition finish_operation :: "nat option \<Rightarrow> protect_registry \<Rightarrow> protect_registry \<times> (str, unit) result" where
  "finish_operation monitor r = (case monitor of None \<Rightarrow> (r, Ok ()) | Some m \<Rightarrow> take_error m r)"

subsection \<open>The browser\<close>

text \<open>\<open>handler\<close> is the answer of the handler of this process, when there is one; \<open>queue\<close> publishes the request.\<close>

definition open_browser :: "(str \<Rightarrow> bool) option \<Rightarrow> (str \<Rightarrow> 's \<Rightarrow> 's \<times> (str, unit) result) \<Rightarrow> str \<Rightarrow> 's \<Rightarrow> 's \<times> bool" where
  "open_browser handler queue uri s =
     (if trim uri = [] then (s, False)
      else case handler of
        Some h \<Rightarrow> (s, h uri)
      | None \<Rightarrow> (case queue uri s of (s, r) \<Rightarrow> (s, r = Ok ())))"

subsection \<open>Histories\<close>

datatype protect_event =
  SetHandler bool
| Began bool
| Returned nat int "(str, unit) result"
| Finished nat
| Cleared nat

primrec protect_step :: "protect_event \<Rightarrow> protect_registry \<Rightarrow> protect_registry" where
  "protect_step (SetHandler h) r = fst (set_handler h r)"
| "protect_step (Began ohos) r = fst (begin_operation ohos r)"
| "protect_step (Returned m fd x) r = monitor_invoke m fd x r"
| "protect_step (Finished m) r = fst (finish_operation (Some m) r)"
| "protect_step (Cleared m) r = clear_error m r"

fun protect_run :: "protect_event list \<Rightarrow> protect_registry \<Rightarrow> protect_registry" where
  "protect_run [] r = r"
| "protect_run (e # es) r = protect_run es (protect_step e r)"

text \<open>An event that concerns the registration \<open>m\<close>: its own callback failed, or its error was taken away.\<close>

fun concerns :: "nat \<Rightarrow> protect_registry \<Rightarrow> protect_event \<Rightarrow> bool" where
  "concerns m r (SetHandler h) \<longleftrightarrow> False"
| "concerns m r (Began ohos) \<longleftrightarrow> rr_current r = Some m"
| "concerns m r (Returned k fd x) \<longleftrightarrow> k = m \<and> 0 \<le> fd \<and> (\<exists>e. x = Err e)"
| "concerns m r (Finished k) \<longleftrightarrow> k = m"
| "concerns m r (Cleared k) \<longleftrightarrow> k = m"

fun undisturbed :: "nat \<Rightarrow> protect_event list \<Rightarrow> protect_registry \<Rightarrow> bool" where
  "undisturbed m [] r \<longleftrightarrow> True"
| "undisturbed m (e # es) r \<longleftrightarrow> \<not> concerns m r e \<and> undisturbed m es (protect_step e r)"

definition error_of :: "nat \<Rightarrow> protect_registry \<Rightarrow> str option" where
  "error_of m r = rg_error (rr_registrations r ! m)"

definition generation_of :: "nat \<Rightarrow> protect_registry \<Rightarrow> nat" where
  "generation_of m r = rg_generation (rr_registrations r ! m)"

lemma set_error_parts [simp]:
  "length (rr_registrations (set_error k e r)) = length (rr_registrations r)"
  "rr_current (set_error k e r) = rr_current r"
  "m < length (rr_registrations r) \<Longrightarrow> error_of m (set_error k e r) = (if k = m then e else error_of m r)"
  "m < length (rr_registrations r) \<Longrightarrow> generation_of m (set_error k e r) = generation_of m r"
  by (cases "k = m"; simp add: set_error_def error_of_def generation_of_def)+

lemmas protect_defs = set_handler_def begin_operation_def monitor_invoke_def finish_operation_def clear_error_def take_error_def Let_def

lemma step_length: "length (rr_registrations r) \<le> length (rr_registrations (protect_step e r))"
  by (cases e) (auto simp: protect_defs split: option.split sum.split)

lemma step_keeps:
  "m < length (rr_registrations r) \<Longrightarrow> generation_of m (protect_step e r) = generation_of m r"
  "m < length (rr_registrations r) \<Longrightarrow> \<not> concerns m r e \<Longrightarrow> error_of m (protect_step e r) = error_of m r"
proof -
  have new: "m < length (rr_registrations r) \<Longrightarrow> error_of m (fst (set_handler h r)) = error_of m r
      \<and> generation_of m (fst (set_handler h r)) = generation_of m r" for h
    by (simp add: set_handler_def error_of_def generation_of_def nth_append Let_def)
  show "m < length (rr_registrations r) \<Longrightarrow> generation_of m (protect_step e r) = generation_of m r"
    using new by (cases e) (auto simp: begin_operation_def monitor_invoke_def finish_operation_def clear_error_def take_error_def Let_def
        split: option.split sum.split)
  show "m < length (rr_registrations r) \<Longrightarrow> \<not> concerns m r e \<Longrightarrow> error_of m (protect_step e r) = error_of m r"
    using new by (cases e) (auto simp: begin_operation_def monitor_invoke_def finish_operation_def clear_error_def take_error_def Let_def
        split: option.split sum.split)
qed

lemma run_keeps:
  "m < length (rr_registrations r) \<Longrightarrow> undisturbed m es r
     \<Longrightarrow> error_of m (protect_run es r) = error_of m r \<and> generation_of m (protect_run es r) = generation_of m r"
proof (induction es arbitrary: r)
  case (Cons e es)
  have "m < length (rr_registrations (protect_step e r))" using Cons.prems(1) step_length [of r e] by simp
  then show ?case using Cons step_keeps [of m r e] by simp
qed simp

lemma finish_reports:
  "snd (finish_operation (Some m) r) = (case error_of m r of
     Some e \<Rightarrow> Err (''platform socket protection failed (registration '' @ show_dec (generation_of m r) @ ''): '' @ e)
   | None \<Rightarrow> Ok ())"
  by (simp add: finish_operation_def take_error_def Let_def error_of_def generation_of_def split: option.split)

subsection \<open>Properties\<close>

text \<open>
  C0: The sockets of one connection are judged by its own registration. An operation that ends reports the failure of a
  callback of the registration it captured, with that registration's number, and one that saw no such failure since it began reports
  none, whatever handlers were installed or cleared meanwhile and whatever the callbacks of other registrations returned,
  early or late.
\<close>

theorem protect_error_isolated:
  assumes m: "m < length (rr_registrations r)" and fd: "0 \<le> fd"
    and failed: "undisturbed m es (protect_step (Returned m fd (Err e)) r)"
    and clean: "begin_operation ohos r = (r', Ok (Some m))" "undisturbed m es' r'"
  shows "snd (finish_operation (Some m) (protect_run es (protect_step (Returned m fd (Err e)) r)))
      = Err (''platform socket protection failed (registration '' @ show_dec (rg_generation (rr_registrations r ! m)) @ ''): '' @ e)
    \<and> snd (finish_operation (Some m) (protect_run es' r')) = Ok ()"
proof -
  let ?f = "protect_step (Returned m fd (Err e)) r"
  have l: "m < length (rr_registrations ?f)" using m step_length [of r "Returned m fd (Err e)"] by (rule less_le_trans)
  have f: "error_of m ?f = Some e" using m fd by (simp add: monitor_invoke_def)
  have g: "generation_of m ?f = generation_of m r" using m by (rule step_keeps)
  have r': "r' = set_error m None r" using clean(1) by (auto simp: begin_operation_def split: option.splits if_splits)
  have "error_of m r' = None" "m < length (rr_registrations r')" using m by (simp_all add: r')
  then show ?thesis
    using run_keeps [OF l failed] f g run_keeps [OF _ clean(2)] unfolding finish_reports by (simp add: generation_of_def)
qed

text \<open>A callback of an old registration returns late, while the next registration is used.\<close>

lemma protect_error_isolated_witness:
  "snd (finish_operation (Some 1) (protect_run [Returned 0 7 (Err ''late''), SetHandler True]
     (fst (begin_operation True (protect_run [SetHandler True, Began True, SetHandler True] protect_init))))) = Ok ()"
proof -
  let ?r = "protect_run [SetHandler True, Began True, SetHandler True] protect_init"
  have r: "1 < length (rr_registrations ?r)" "undisturbed 1 [] (protect_step (Returned 1 7 (Err ''e'')) ?r)"
    "begin_operation True ?r = (fst (begin_operation True ?r), Ok (Some 1))"
    "undisturbed 1 [Returned 0 7 (Err ''late''), SetHandler True] (fst (begin_operation True ?r))"
    by (simp_all add: protect_init_def set_handler_def begin_operation_def set_error_def wrapping_succ_def Let_def)
  have fd: "(0 :: int) \<le> 7" by simp
  show ?thesis using protect_error_isolated [OF r(1) fd r(2) r(3) r(4)] by blast
qed

end
