(* ===== verification/Oc_Display.thy ===== *)
theory Oc_Display
  imports Oc_Routes
begin

text \<open>
  The pure helpers of the UI crate: its locale (\<open>locale.rs\<close>), the text shown to the user and the figures of the
  statistics (\<open>model.rs\<close>), the filter of the log page (\<open>log_filter.rs\<close>), the identities of its rows
  (\<open>virtual_identity.rs\<close>) and a connection as a QR code (\<open>connection_qr.rs\<close>).
\<close>

subsection \<open>Locale\<close>

datatype ui_locale = ZhCn | En

definition locale_from_tag :: "str \<Rightarrow> ui_locale" where
  "locale_from_tag tag = (if starts_with (to_ascii_lowercase tag) ''zh'' then ZhCn else En)"

fun language_tag :: "ui_locale \<Rightarrow> str" where
  "language_tag ZhCn = ''zh-CN''"
| "language_tag En = ''en-US''"

subsection \<open>Display text\<close>

text \<open>The matches of the needle from left to right; case folding keeps the bytes' positions.\<close>

fun replace_vpn :: "str \<Rightarrow> str" where
  "replace_vpn (a # b # c # s) =
     (if to_ascii_lowercase [a, b, c] = ''vpn'' then ''connection'' @ replace_vpn s else a # replace_vpn (b # c # s))"
| "replace_vpn s = s"

definition sanitize_display_text :: "str \<Rightarrow> str" where
  "sanitize_display_text s = (if contains_text (to_ascii_lowercase s) ''vpn'' then replace_vpn s else s)"

definition two_digits :: "nat \<Rightarrow> str" where
  "two_digits n = (if n < 10 then ''0'' @ show_dec n else show_dec n)"

definition format_duration :: "nat \<Rightarrow> str" where
  "format_duration seconds =
     (let hours = seconds div 3600; minutes = seconds mod 3600 div 60; secs = seconds mod 60
      in if hours > 0 then two_digits hours @ '':'' @ two_digits minutes @ '':'' @ two_digits secs
         else two_digits minutes @ '':'' @ two_digits secs)"

subsection \<open>The log page\<close>

datatype log_level_filter = AllLevels | InfoLevel | WarningLevel | ErrorLevel | DebugLevel

fun filter_level :: "log_level_filter \<Rightarrow> str option" where
  "filter_level AllLevels = None"
| "filter_level InfoLevel = Some ''info''"
| "filter_level WarningLevel = Some ''warning''"
| "filter_level ErrorLevel = Some ''error''"
| "filter_level DebugLevel = Some ''debug''"

definition normalize_log_query :: "str \<Rightarrow> str" where
  "normalize_log_query query = to_ascii_lowercase (trim query)"

definition matches_log_filter_normalized :: "diagnostic_entry \<Rightarrow> log_level_filter \<Rightarrow> str \<Rightarrow> bool" where
  "matches_log_filter_normalized log f query \<longleftrightarrow>
     (case filter_level f of
        None \<Rightarrow> True
      | Some level \<Rightarrow>
          (if f = WarningLevel
           then eq_ignore_ascii_case (de_level log) ''warning'' \<or> eq_ignore_ascii_case (de_level log) ''warn''
           else eq_ignore_ascii_case (de_level log) level))
     \<and> (query = []
        \<or> contains_text (to_ascii_lowercase (de_level log)) query
        \<or> contains_text (to_ascii_lowercase (de_message log)) query
        \<or> contains_text (to_ascii_lowercase (de_timestamp log)) query)"

text \<open>\<open>counts\<close> is the hash map of the occurrences so far.\<close>

fun occurrence_go :: "('a \<Rightarrow> nat) \<Rightarrow> 'a list \<Rightarrow> ('a \<times> nat) list" where
  "occurrence_go counts [] = []"
| "occurrence_go counts (x # xs) = (x, counts x) # occurrence_go (counts(x := counts x + 1)) xs"

definition occurrence_ids :: "'a list \<Rightarrow> ('a \<times> nat) list" where
  "occurrence_ids xs = occurrence_go (\<lambda>_. 0) xs"

subsection \<open>A connection as a QR code\<close>

definition qr_format :: str where "qr_format = ''h-openconnect.connection''"
definition qr_version :: nat where "qr_version = 1"
definition max_scanned_bytes :: nat where "max_scanned_bytes = 8 * 1024"

record qr_payload =
  qr_payload_format :: str
  qr_payload_version :: nat
  qr_payload_profile :: connection_profile

text \<open>\<open>c\<close> is \<open>serde_json\<close> on the payload.\<close>

definition encode_connection_qr :: "(str, qr_payload) codec \<Rightarrow> connection_profile \<Rightarrow> (str, str) result" where
  "encode_connection_qr c profile =
     and_then (validate profile) (\<lambda>_.
       case encode c \<lparr>qr_payload_format = qr_format, qr_payload_version = qr_version,
                      qr_payload_profile = profile\<lparr>pf_id := []\<rparr>\<rparr> of
         Err _ \<Rightarrow> Err ''could not encode the connection QR code''
       | Ok code \<Rightarrow> Ok code)"

text \<open>The byte order mark in UTF-8.\<close>

definition byte_order_mark :: str where
  "byte_order_mark = map char_of [0xEF, 0xBB, 0xBF :: nat]"

function drop_marks :: "str \<Rightarrow> str" where
  "drop_marks s = (if prefix byte_order_mark s then drop_marks (drop 3 s) else s)"
  by pat_completeness auto
termination
  by (relation "measure length") (auto simp: byte_order_mark_def dest: prefix_length_le)

declare drop_marks.simps [simp del]

definition decode_connection_qr :: "(str, qr_payload) codec \<Rightarrow> str \<Rightarrow> (str, connection_profile) result" where
  "decode_connection_qr c scanned =
     (let scanned = trim (drop_marks scanned)
      in if length scanned > max_scanned_bytes then Err ''connection QR code is too large''
         else case decode c scanned of
           Err _ \<Rightarrow> Err ''QR code does not contain an H-OpenConnect connection''
         | Ok payload \<Rightarrow>
             if qr_payload_format payload \<noteq> qr_format \<or> qr_payload_version payload \<noteq> qr_version then
               Err ''unsupported H-OpenConnect connection QR version''
             else
               let profile = (qr_payload_profile payload)\<lparr>pf_id := []\<rparr>
               in and_then (validate profile) (\<lambda>_. Ok profile))"

end
