(* ===== verification/Oc_Ui.thy ===== *)
theory Oc_Ui
  imports Oc_Display Oc_Auth Oc_Logs
begin

text \<open>
  The state of the UI and its reducer (\<open>crates/hopenconnect_ui/src/state.rs\<close>, \<open>state/tasks.rs\<close>): every action,
  with the engine it calls and the tasks it starts.

  The engine is the record \<open>engine_calls\<close> over the engine's state \<open>'w\<close>; \<open>Oc_Ui_Engine\<close> fills it with the
  model's own operations. The message catalogue (\<open>arkit\<close>), the clock, the environment and the bridge to the
  platform are the record \<open>host_calls\<close>. Messages are named by their keys in \<open>locales/*.ftl\<close>. Errors
  are their texts. A started future is a value of \<open>ui_task\<close>, and \<open>completes\<close> says with which actions it ends.
\<close>

subsection \<open>Preferences\<close>

datatype language_preference = LangSystem | LangZhCn | LangEn

fun resolve_language :: "language_preference \<Rightarrow> ui_locale \<Rightarrow> ui_locale" where
  "resolve_language LangSystem system_locale = system_locale"
| "resolve_language LangZhCn _ = ZhCn"
| "resolve_language LangEn _ = En"

fun language_as_str :: "language_preference \<Rightarrow> str" where
  "language_as_str LangSystem = ''system''"
| "language_as_str LangZhCn = ''zh-CN''"
| "language_as_str LangEn = ''en''"

definition language_from_str :: "str \<Rightarrow> language_preference" where
  "language_from_str value = (if value = ''zh-CN'' then LangZhCn else if value = ''en'' then LangEn else LangSystem)"

datatype theme_preference = ThemeSystem | ThemeLight | ThemeDark

fun platform_color_mode :: "theme_preference \<Rightarrow> int" where
  "platform_color_mode ThemeSystem = - 1"
| "platform_color_mode ThemeDark = 0"
| "platform_color_mode ThemeLight = 1"

fun theme_as_str :: "theme_preference \<Rightarrow> str" where
  "theme_as_str ThemeSystem = ''system''"
| "theme_as_str ThemeLight = ''light''"
| "theme_as_str ThemeDark = ''dark''"

definition theme_from_str :: "str \<Rightarrow> theme_preference" where
  "theme_from_str value = (if value = ''light'' then ThemeLight else if value = ''dark'' then ThemeDark else ThemeSystem)"

subsection \<open>State\<close>

record feedback_toast =
  ft_id :: nat
  ft_message :: str

record ui_state =
  ui_locale_now :: ui_locale
  ui_system_locale :: ui_locale
  ui_language :: language_preference
  ui_theme :: theme_preference
  ui_system_dark :: bool
  ui_snapshot :: session_snapshot
  ui_editor_open :: bool
  ui_editor_advanced :: bool
  ui_draft :: connection_profile
  ui_qr_scan_pending :: bool
  ui_qr_export_pending :: bool
  ui_group_choices :: "auth_field_choice list"
  ui_group_loading :: bool
  ui_group_error :: "str option"
  ui_log_recording :: log_recording_status
  ui_log_recording_pending :: bool
  ui_log_export_pending :: "str option"
  ui_log_delete_pending :: "str option"
  ui_toasts :: "feedback_toast list"
  ui_next_toast_id :: nat
  ui_dry_run :: bool
  ui_challenge_values :: "auth_field_key \<Rightarrow> str option"
  ui_challenge_seed_id :: "nat option"
  ui_user_disconnect :: bool
  ui_last_lifecycle :: connection_lifecycle

definition theme_dark :: "ui_state \<Rightarrow> bool" where
  "theme_dark s = (case ui_theme s of ThemeSystem \<Rightarrow> ui_system_dark s | ThemeLight \<Rightarrow> False | ThemeDark \<Rightarrow> True)"

definition active_connection :: "ui_state \<Rightarrow> connection_profile option" where
  "active_connection s =
     (case sn_active_connection_id (ui_snapshot s) of
        None \<Rightarrow> None
      | Some i \<Rightarrow> find (\<lambda>p. pf_id p = i) (sn_connections (ui_snapshot s)))"

subsection \<open>What the UI calls\<close>

record 'w engine_calls =
  ec_snapshot :: "'w \<Rightarrow> 'w \<times> (str, session_snapshot) result"
  ec_log_status :: "'w \<Rightarrow> 'w \<times> (str, log_recording_status) result"
  ec_set_appearance :: "str \<Rightarrow> str \<Rightarrow> 'w \<Rightarrow> 'w \<times> (str, unit) result"
  ec_select :: "str \<Rightarrow> 'w \<Rightarrow> 'w \<times> (str, unit) result"
  ec_upsert :: "connection_profile \<Rightarrow> 'w \<Rightarrow> 'w \<times> (str, unit) result"
  ec_delete :: "str \<Rightarrow> 'w \<Rightarrow> 'w \<times> (str, unit) result"
  ec_tick :: "'w \<Rightarrow> 'w"
  ec_submit :: "auth_challenge_reply \<Rightarrow> 'w \<Rightarrow> 'w \<times> (str, unit) result"
  ec_cancel_auth :: "'w \<Rightarrow> 'w"
  ec_take_browser :: "'w \<Rightarrow> 'w \<times> str option"
  ec_clear_browser :: "'w \<Rightarrow> 'w"

record host_calls =
  ho_translate :: "ui_locale \<Rightarrow> str \<Rightarrow> str"
  ho_env :: "str \<Rightarrow> str option"
  ho_open_browser :: "str \<Rightarrow> (str, unit) result"
  ho_millis :: nat
  ho_nanos :: nat
  ho_payload :: "(str, qr_payload) codec"

definition first_env :: "host_calls \<Rightarrow> str \<Rightarrow> str \<Rightarrow> str option" where
  "first_env h name other = (case ho_env h name of None \<Rightarrow> ho_env h other | Some v \<Rightarrow> Some v)"

definition detect_system_locale :: "host_calls \<Rightarrow> ui_locale" where
  "detect_system_locale h =
     (case first_env h ''HOPENCONNECT_UI_LOCALE'' ''HMETA_UI_LOCALE'' of None \<Rightarrow> ZhCn | Some v \<Rightarrow> locale_from_tag v)"

text \<open>\<open>parse::<i32>\<close> gives 0 on an optional sign and zeros.\<close>

definition parses_to_zero :: "str \<Rightarrow> bool" where
  "parses_to_zero v \<longleftrightarrow>
     (let ds = (case v of [] \<Rightarrow> [] | c # r \<Rightarrow> if c = CHR ''+'' \<or> c = CHR ''-'' then r else v)
      in ds \<noteq> [] \<and> list_all (\<lambda>c. c = CHR ''0'') ds)"

definition detect_system_dark :: "host_calls \<Rightarrow> bool" where
  "detect_system_dark h =
     (case first_env h ''HOPENCONNECT_SYSTEM_COLOR_MODE'' ''HMETA_SYSTEM_COLOR_MODE'' of
        None \<Rightarrow> False | Some v \<Rightarrow> parses_to_zero v)"

definition dry_run_from_env :: "host_calls \<Rightarrow> bool" where
  "dry_run_from_env h =
     (case ho_env h ''HOPENCONNECT_DRY_RUN'' of None \<Rightarrow> False | Some v \<Rightarrow> v = ''1'' \<or> eq_ignore_ascii_case v ''true'')"

subsection \<open>Helpers of the state\<close>

text \<open>\<open>State::new\<close>: the answers of the engine are arguments, its version the build's.\<close>

definition unavailable_snapshot :: "str \<Rightarrow> session_snapshot" where
  "unavailable_snapshot version = \<lparr>sn_lifecycle = Disconnected, sn_active_connection_id = None, sn_connections = [],
     sn_stats = session_stats_default, sn_network = network_default, sn_last_error = None, sn_diagnostics = [],
     sn_app_version = version, sn_sdk_ready = False, sn_anyconnect_version = None, sn_backend = ''unavailable'',
     sn_pending_auth = None\<rparr>"

definition or_default :: "'a \<Rightarrow> (str, 'a) result \<Rightarrow> 'a" where
  "or_default d r = (case r of Err _ \<Rightarrow> d | Ok x \<Rightarrow> x)"

definition ui_new ::
    "host_calls \<Rightarrow> str \<Rightarrow> (str, session_snapshot) result \<Rightarrow> (str, log_recording_status) result \<Rightarrow> (str, str \<times> str) result \<Rightarrow> ui_state" where
  "ui_new h version snap logs appearance =
     (let system_locale = detect_system_locale h;
          snap = or_default (unavailable_snapshot version) snap;
          (language, theme) = (case appearance of Err _ \<Rightarrow> (LangSystem, ThemeSystem)
                               | Ok (l, t) \<Rightarrow> (language_from_str l, theme_from_str t))
      in \<lparr>ui_locale_now = resolve_language language system_locale, ui_system_locale = system_locale, ui_language = language,
          ui_theme = theme, ui_system_dark = detect_system_dark h, ui_snapshot = snap, ui_editor_open = False,
          ui_editor_advanced = False, ui_draft = new_draft, ui_qr_scan_pending = False, ui_qr_export_pending = False,
          ui_group_choices = [], ui_group_loading = False, ui_group_error = None,
          ui_log_recording = or_default \<lparr>ls_enabled = False, ls_archives = []\<rparr> logs, ui_log_recording_pending = False,
          ui_log_export_pending = None, ui_log_delete_pending = None, ui_toasts = [], ui_next_toast_id = 0,
          ui_dry_run = dry_run_from_env h, ui_challenge_values = Map.empty, ui_challenge_seed_id = None,
          ui_user_disconnect = False, ui_last_lifecycle = sn_lifecycle snap\<rparr>)"

definition is_hidden_field :: "auth_field \<Rightarrow> bool" where
  "is_hidden_field f \<longleftrightarrow> af_kind f = KHidden"

definition seed_challenge_draft :: "ui_state \<Rightarrow> ui_state" where
  "seed_challenge_draft s =
     (case sn_pending_auth (ui_snapshot s) of
        Some challenge \<Rightarrow>
          if ui_challenge_seed_id s \<noteq> Some (ac_id challenge) then
            s\<lparr>ui_challenge_values := map_of (rev (map (\<lambda>f. (af_key f, af_value f))
                                        (filter (\<lambda>f. \<not> is_hidden_field f) (ac_fields challenge)))),
              ui_challenge_seed_id := Some (ac_id challenge)\<rparr>
          else s
      | None \<Rightarrow> s\<lparr>ui_challenge_values := Map.empty, ui_challenge_seed_id := None\<rparr>)"

definition sync_engine :: "'w engine_calls \<Rightarrow> 'w \<times> ui_state \<Rightarrow> 'w \<times> ui_state" where
  "sync_engine ec ws =
     (let (w, s) = ws;
          (w, snap) = ec_snapshot ec w;
          s = (case snap of Err _ \<Rightarrow> s | Ok x \<Rightarrow> seed_challenge_draft (s\<lparr>ui_snapshot := x\<rparr>));
          (w, status) = ec_log_status ec w
      in (w, case status of Err _ \<Rightarrow> s | Ok x \<Rightarrow> s\<lparr>ui_log_recording := x\<rparr>))"

text \<open>The list is cut before the new toast is added.\<close>

definition push_toast :: "str \<Rightarrow> ui_state \<Rightarrow> ui_state" where
  "push_toast message s =
     (let trimmed = trim (sanitize_display_text message)
      in if trimmed = [] then s
         else let i = min (ui_next_toast_id s + 1) max_u64
              in s\<lparr>ui_next_toast_id := i,
                   ui_toasts := drop (length (ui_toasts s) - 1) (ui_toasts s) @ [\<lparr>ft_id = i, ft_message = trimmed\<rparr>]\<rparr>)"

definition push_message :: "host_calls \<Rightarrow> str \<Rightarrow> ui_state \<Rightarrow> ui_state" where
  "push_message h key s = push_toast (ho_translate h (ui_locale_now s) key) s"

subsection \<open>Actions and tasks\<close>

datatype session_outcome = UiConnected session_stats | UiDisconnected | UiPlatformStartRequested

record recording_change =
  rc_snapshot :: session_snapshot
  rc_status :: log_recording_status

record archive_delete =
  ad_file_name :: str
  ad_status :: log_recording_status

datatype cert_file_kind = CertFile | KeyFile | CaFileKind

datatype draft_more =
  DSecondaryCertificate | DSecondaryPrivateKey | DSecondaryKeyPassword | DServerCertHash | DTrustedApplications
| DBlockedApplications | DCsdWrapper | DUserAgent | DClientVersion

datatype draft_text =
  DName | DGroup | DUsername | DPassword | DCertificate | DBackupServers | DReportedOs | DSni | DTokenString
| DSplitNetworks | DPrivateKey | DCaCertificate | DKeyPassword | DHttpProxy | DMore draft_more

datatype draft_flag =
  DStrictTrust | DBlockUntrusted | DAllowLocalLan | DForceGlobal | DConnectOnDemand | DExternalBrowser | DFips
| DInsecureCrypto | DFavorite | DUseDtls | DRequirePfs | DDisableXmlPost

datatype draft_edit =
  SetDraftText draft_text str
| SetDraftFlag draft_flag bool
| SetDraftProtocol protocol_kind
| SetDraftAuthMethod auth_method
| SetDraftMtu str
| SetDraftDpdSeconds str
| SetDraftSoftwareToken software_token
| SetDraftSplitTunnelMode split_tunnel_mode

datatype session_action =
  Bootstrap
| SetLanguagePreference language_preference
| SetThemePreference theme_preference
| ToggleConnect
| ConnectionFinished "(str, session_outcome) result"
| TickSession
| SetChallengeField auth_field_key str
| SubmitChallenge
| CancelChallenge
| DismissToast nat

datatype editor_action =
  OpenEditor "str option"
| SetDraftServer str
| EditDraft draft_edit
| DiscoverGroups str
| GroupsDiscovered str "(str, auth_group_discovery) result"
| SetEditorShowAdvanced bool
| PickCertFile cert_file_kind
| CertFilePicked cert_file_kind "(str, str) result"
| SaveDraft

datatype list_action =
  SelectConnection str
| ScanConnectionQr
| ConnectionQrScanned "(str, str) result"
| ExportConnectionQr str "nat list"
| ConnectionQrExported "(str, unit) result"
| DeleteConnection str
| ToggleFavorite str
| OpenExternalUrl str
| ExternalUrlOpened "(str, unit) result"

datatype log_action =
  ToggleLogRecording
| LogRecordingChanged "(str, recording_change) result"
| ExportLogArchive str
| LogArchiveExported "(str, str) result"
| DeleteLogArchive str
| LogArchiveDeleted "(str, archive_delete) result"

datatype ui_action =
  Session session_action
| Editor editor_action
| Connections list_action
| Logs log_action

datatype ui_task =
  TickAfter nat
| ConnectTask connection_profile bool
| DisconnectTask bool
| DiscoverAfterDelay str
| DiscoverTask str connection_profile
| PickTask cert_file_kind
| ScanTask
| ExportQrTask str "nat list"
| OpenUrlTask str
| RecordingTask bool
| ExportLogTask str
| DeleteLogTask str

text \<open>The closure each future is mapped with.\<close>

fun completes :: "ui_task \<Rightarrow> ui_action \<Rightarrow> bool" where
  "completes (TickAfter _) a \<longleftrightarrow> a = Session TickSession"
| "completes (ConnectTask _ _) a \<longleftrightarrow> (case a of Session (ConnectionFinished _) \<Rightarrow> True | _ \<Rightarrow> False)"
| "completes (DisconnectTask _) a \<longleftrightarrow> (case a of Session (ConnectionFinished _) \<Rightarrow> True | _ \<Rightarrow> False)"
| "completes (DiscoverAfterDelay server) a \<longleftrightarrow> a = Editor (DiscoverGroups server)"
| "completes (DiscoverTask server _) a \<longleftrightarrow> (case a of Editor (GroupsDiscovered s _) \<Rightarrow> s = server | _ \<Rightarrow> False)"
| "completes (PickTask kind) a \<longleftrightarrow> (case a of Editor (CertFilePicked k _) \<Rightarrow> k = kind | _ \<Rightarrow> False)"
| "completes ScanTask a \<longleftrightarrow> (case a of Connections (ConnectionQrScanned _) \<Rightarrow> True | _ \<Rightarrow> False)"
| "completes (ExportQrTask _ _) a \<longleftrightarrow> (case a of Connections (ConnectionQrExported _) \<Rightarrow> True | _ \<Rightarrow> False)"
| "completes (OpenUrlTask _) a \<longleftrightarrow> (case a of Connections (ExternalUrlOpened _) \<Rightarrow> True | _ \<Rightarrow> False)"
| "completes (RecordingTask _) a \<longleftrightarrow> (case a of Logs (LogRecordingChanged _) \<Rightarrow> True | _ \<Rightarrow> False)"
| "completes (ExportLogTask _) a \<longleftrightarrow> (case a of Logs (LogArchiveExported _) \<Rightarrow> True | _ \<Rightarrow> False)"
| "completes (DeleteLogTask _) a \<longleftrightarrow> (case a of Logs (LogArchiveDeleted _) \<Rightarrow> True | _ \<Rightarrow> False)"

subsection \<open>The editor\<close>

primrec set_draft_more :: "draft_more \<Rightarrow> str \<Rightarrow> connection_profile \<Rightarrow> connection_profile" where
  "set_draft_more DSecondaryCertificate v p = p\<lparr>pf_secondary_certificate := v\<rparr>"
| "set_draft_more DSecondaryPrivateKey v p = p\<lparr>pf_secondary_private_key := v\<rparr>"
| "set_draft_more DSecondaryKeyPassword v p = p\<lparr>pf_secondary_key_password := v\<rparr>"
| "set_draft_more DServerCertHash v p = p\<lparr>pf_server_cert_hash := v\<rparr>"
| "set_draft_more DTrustedApplications v p = p\<lparr>pf_trusted_applications := v\<rparr>"
| "set_draft_more DBlockedApplications v p = p\<lparr>pf_blocked_applications := v\<rparr>"
| "set_draft_more DCsdWrapper v p = p\<lparr>pf_csd_wrapper := v\<rparr>"
| "set_draft_more DUserAgent v p = p\<lparr>pf_user_agent := v\<rparr>"
| "set_draft_more DClientVersion v p = p\<lparr>pf_client_version := v\<rparr>"

fun set_draft_text :: "draft_text \<Rightarrow> str \<Rightarrow> connection_profile \<Rightarrow> connection_profile" where
  "set_draft_text DName v p = p\<lparr>pf_name := v\<rparr>"
| "set_draft_text DGroup v p = p\<lparr>pf_group := v\<rparr>"
| "set_draft_text DUsername v p = p\<lparr>pf_username := v\<rparr>"
| "set_draft_text DPassword v p = p\<lparr>pf_password := v\<rparr>"
| "set_draft_text DCertificate v p = p\<lparr>pf_certificate := v\<rparr>"
| "set_draft_text DBackupServers v p = p\<lparr>pf_backup_servers := v\<rparr>"
| "set_draft_text DReportedOs v p = p\<lparr>pf_reported_os := v\<rparr>"
| "set_draft_text DSni v p = p\<lparr>pf_sni := v\<rparr>"
| "set_draft_text DTokenString v p = p\<lparr>pf_token_string := v\<rparr>"
| "set_draft_text DSplitNetworks v p = p\<lparr>pf_split_tunnel_networks := v\<rparr>"
| "set_draft_text DPrivateKey v p = p\<lparr>pf_private_key := v\<rparr>"
| "set_draft_text DCaCertificate v p = p\<lparr>pf_ca_certificate := v\<rparr>"
| "set_draft_text DKeyPassword v p = p\<lparr>pf_key_password := v\<rparr>"
| "set_draft_text DHttpProxy v p = p\<lparr>pf_http_proxy := v\<rparr>"
| "set_draft_text (DMore k) v p = set_draft_more k v p"

primrec set_draft_flag :: "draft_flag \<Rightarrow> bool \<Rightarrow> connection_profile \<Rightarrow> connection_profile" where
  "set_draft_flag DStrictTrust v p = p\<lparr>pf_strict_certificate_trust := v\<rparr>"
| "set_draft_flag DBlockUntrusted v p = p\<lparr>pf_block_untrusted_servers := v\<rparr>"
| "set_draft_flag DAllowLocalLan v p = p\<lparr>pf_allow_local_lan := v\<rparr>"
| "set_draft_flag DForceGlobal v p = p\<lparr>pf_force_global := v\<rparr>"
| "set_draft_flag DConnectOnDemand v p = p\<lparr>pf_connect_on_demand := v\<rparr>"
| "set_draft_flag DExternalBrowser v p = p\<lparr>pf_external_browser_auth := v\<rparr>"
| "set_draft_flag DFips v p = p\<lparr>pf_fips_mode := v\<rparr>"
| "set_draft_flag DInsecureCrypto v p = p\<lparr>pf_allow_insecure_crypto := v\<rparr>"
| "set_draft_flag DFavorite v p = p\<lparr>pf_favorite := v\<rparr>"
| "set_draft_flag DUseDtls v p = p\<lparr>pf_use_dtls := v\<rparr>"
| "set_draft_flag DRequirePfs v p = p\<lparr>pf_require_pfs := v\<rparr>"
| "set_draft_flag DDisableXmlPost v p = p\<lparr>pf_disable_xml_post := v\<rparr>"

definition parsed_or_zero :: "str \<Rightarrow> nat" where
  "parsed_or_zero v = (case parse_u32 v of None \<Rightarrow> 0 | Some n \<Rightarrow> n)"

fun edit_draft :: "draft_edit \<Rightarrow> connection_profile \<Rightarrow> connection_profile" where
  "edit_draft (SetDraftText k v) p = set_draft_text k v p"
| "edit_draft (SetDraftFlag k v) p = set_draft_flag k v p"
| "edit_draft (SetDraftProtocol v) p = p\<lparr>pf_protocol := v\<rparr>"
| "edit_draft (SetDraftAuthMethod v) p =
     (if v = Saml then p\<lparr>pf_auth_method := v, pf_external_browser_auth := True\<rparr> else p\<lparr>pf_auth_method := v\<rparr>)"
| "edit_draft (SetDraftMtu v) p =
     p\<lparr>pf_mtu := (if trim v = [] \<or> eq_ignore_ascii_case (trim v) ''auto'' then 0 else parsed_or_zero (trim v))\<rparr>"
| "edit_draft (SetDraftDpdSeconds v) p = p\<lparr>pf_dpd_seconds := parsed_or_zero (trim v)\<rparr>"
| "edit_draft (SetDraftSoftwareToken v) p = p\<lparr>pf_software_token := v\<rparr>"
| "edit_draft (SetDraftSplitTunnelMode v) p = p\<lparr>pf_split_tunnel_mode := v\<rparr>"

definition server_looks_ready :: "str \<Rightarrow> bool" where
  "server_looks_ready server \<longleftrightarrow>
     (let server = trim server
      in 3 \<le> length server \<and> \<not> any_whitespace server \<and> last server \<noteq> CHR ''.'' \<and> last server \<noteq> CHR ''/'')"

text \<open>The pause before the groups of a server are asked for.\<close>

definition offer_discovery :: "ui_state \<Rightarrow> ui_state \<times> ui_task list" where
  "offer_discovery s =
     (let s = s\<lparr>ui_group_choices := [], ui_group_loading := False, ui_group_error := None\<rparr>;
          server = trim (pf_server (ui_draft s))
      in (s, if ui_dry_run s \<or> \<not> server_looks_ready server then [] else [DiscoverAfterDelay server]))"

text \<open>\<open>dedup_by\<close>: an element equal to the one kept before it is dropped.\<close>

fun dedup_names :: "auth_field_choice list \<Rightarrow> auth_field_choice list" where
  "dedup_names (a # b # cs) = (if ch_name b = ch_name a then dedup_names (a # cs) else a # dedup_names (b # cs))"
| "dedup_names cs = cs"

definition offered_groups :: "auth_group_discovery \<Rightarrow> auth_field_choice list" where
  "offered_groups d = dedup_names (filter (\<lambda>g. trim (ch_name g) \<noteq> []) (gd_groups d))"

definition fallback_group :: "str option \<Rightarrow> auth_field_choice list \<Rightarrow> auth_field_choice option" where
  "fallback_group selected groups =
     (case Option.bind selected (\<lambda>name. find (\<lambda>g. ch_name g = name) groups) of
        Some g \<Rightarrow> Some g
      | None \<Rightarrow> (case groups of [] \<Rightarrow> None | g # _ \<Rightarrow> Some g))"

definition groups_discovered :: "host_calls \<Rightarrow> str \<Rightarrow> (str, auth_group_discovery) result \<Rightarrow> ui_state \<Rightarrow> ui_state" where
  "groups_discovered h server result s =
     (if \<not> ui_editor_open s \<or> trim (pf_server (ui_draft s)) \<noteq> server then s
      else
        let s = s\<lparr>ui_group_loading := False\<rparr>
        in case result of
             Ok discovery \<Rightarrow>
               (let groups = offered_groups discovery; requested = trim (pf_group (ui_draft s))
                in case find (\<lambda>g. ch_name g = requested \<or> trim (ch_label g) = requested) groups of
                     Some g \<Rightarrow> s\<lparr>ui_draft := (ui_draft s)\<lparr>pf_group := ch_name g\<rparr>, ui_group_choices := groups, ui_group_error := None\<rparr>
                   | None \<Rightarrow>
                       (case fallback_group (gd_selected discovery) groups of
                          None \<Rightarrow> s\<lparr>ui_group_choices := groups, ui_group_error := None\<rparr>
                        | Some g \<Rightarrow>
                            s\<lparr>ui_draft := (ui_draft s)\<lparr>pf_group := ch_name g\<rparr>, ui_group_choices := groups,
                              ui_group_error := (if requested = [] then None
                                                 else Some (ho_translate h (ui_locale_now s) ''toast-group-fallback''))\<rparr>))
           | Err e \<Rightarrow> s\<lparr>ui_group_choices := [],
                        ui_group_error := Some (ho_translate h (ui_locale_now s) ''toast-group-fetch-failed'' @ '': '' @ e)\<rparr>)"

subsection \<open>The session\<close>

definition start_connect :: "'w engine_calls \<Rightarrow> host_calls \<Rightarrow> 'w \<times> ui_state \<Rightarrow> ('w \<times> ui_state) \<times> ui_task list" where
  "start_connect ec h ws =
     (let (w, s) = ws
      in case active_connection s of
           None \<Rightarrow> ((w, push_message h ''no-connection'' s), [])
         | Some active \<Rightarrow>
             if trim (pf_server active) = [] then ((w, push_message h ''form-required'' s), [])
             else if \<not> ui_dry_run s \<and> pf_auth_method active \<in> {Password, PasswordAndCertificate} \<and> trim (pf_password active) = []
             then ((w, push_message h ''toast-enter-password'' s), [])
             else if \<not> ui_dry_run s \<and> pf_auth_method active \<in> {Certificate, PasswordAndCertificate} \<and> trim (pf_certificate active) = []
             then ((w, push_message h ''toast-select-cert'' s), [])
             else
               ((ec_clear_browser ec w,
                 s\<lparr>ui_user_disconnect := False,
                   ui_snapshot := (ui_snapshot s)\<lparr>sn_lifecycle := Connecting, sn_last_error := None, sn_stats := session_stats_default\<rparr>,
                   ui_challenge_values := Map.empty, ui_challenge_seed_id := None, ui_last_lifecycle := Connecting\<rparr>),
                [ConnectTask active (ui_dry_run s)]))"

definition set_appearance :: "'w engine_calls \<Rightarrow> 'w \<times> ui_state \<Rightarrow> 'w \<times> ui_state" where
  "set_appearance ec ws =
     (let (w, s) = ws
      in case ec_set_appearance ec (language_as_str (ui_language s)) (theme_as_str (ui_theme s)) w of
           (w, Err e) \<Rightarrow> (w, push_toast e s)
         | (w, Ok _) \<Rightarrow> (w, s))"

text \<open>\<open>x\<close> is the Chinese word for a cancellation.\<close>

definition cancellation_word :: str where
  "cancellation_word = map char_of [0xE5, 0x8F, 0x96, 0xE6, 0xB6, 0x88 :: nat]"

definition connection_finished ::
    "'w engine_calls \<Rightarrow> host_calls \<Rightarrow> (str, session_outcome) result \<Rightarrow> 'w \<times> ui_state \<Rightarrow> 'w \<times> ui_state" where
  "connection_finished ec h result ws =
     (let (w, s) = sync_engine ec ws
      in (w, case result of
               Ok (UiConnected stats) \<Rightarrow>
                 push_message h ''feedback-connected'' (s\<lparr>ui_snapshot := (ui_snapshot s)\<lparr>sn_stats := stats\<rparr>\<rparr>)
             | Ok UiPlatformStartRequested \<Rightarrow> s
             | Ok UiDisconnected \<Rightarrow> push_message h ''feedback-disconnected'' s
             | Err message \<Rightarrow>
                 (let s = s\<lparr>ui_snapshot := (ui_snapshot s)\<lparr>sn_lifecycle := Failed, sn_last_error := Some message\<rparr>\<rparr>
                  in if contains_text message cancellation_word \<or> contains_text message ''cancel'' then push_toast message s
                     else push_message h ''feedback-failed'' s)))"

definition detect_system :: "host_calls \<Rightarrow> ui_state \<Rightarrow> ui_state" where
  "detect_system h s =
     (let system_locale = detect_system_locale h;
          s = (if system_locale \<noteq> ui_system_locale s
               then s\<lparr>ui_system_locale := system_locale, ui_locale_now := resolve_language (ui_language s) system_locale\<rparr> else s)
      in s\<lparr>ui_system_dark := detect_system_dark h\<rparr>)"

definition open_requested_browser :: "'w engine_calls \<Rightarrow> host_calls \<Rightarrow> 'w \<times> ui_state \<Rightarrow> 'w \<times> ui_state" where
  "open_requested_browser ec h ws =
     (let (w, s) = ws
      in case ec_take_browser ec w of
           (w, None) \<Rightarrow> (w, s)
         | (w, Some uri) \<Rightarrow>
             (w, case ho_open_browser h uri of
                   Ok _ \<Rightarrow> s
                 | Err e \<Rightarrow> push_toast (ho_translate h (ui_locale_now s) ''toast-open-browser-failed'' @ '': '' @ e) s))"

definition fast_poll :: "session_snapshot \<Rightarrow> bool" where
  "fast_poll snap \<longleftrightarrow> sn_pending_auth snap \<noteq> None \<or> sn_lifecycle snap \<in> {Connecting, Authenticating, Establishing}"

definition tick_session :: "'w engine_calls \<Rightarrow> host_calls \<Rightarrow> 'w \<times> ui_state \<Rightarrow> ('w \<times> ui_state) \<times> ui_task list" where
  "tick_session ec h ws =
     (let (w, s) = ws;
          (w, s) = open_requested_browser ec h (w, detect_system h s);
          prev = ui_last_lifecycle s;
          (w, s) = sync_engine ec (ec_tick ec w, s);
          now = sn_lifecycle (ui_snapshot s);
          want_reconnect = should_auto_reconnect_to prev now (ui_user_disconnect s) (ui_dry_run s)
            (case active_connection s of None \<Rightarrow> False | Some p \<Rightarrow> pf_connect_on_demand p);
          s = s\<lparr>ui_last_lifecycle := now\<rparr>
      in if want_reconnect then
           (case start_connect ec h (w, s) of (ws, tasks) \<Rightarrow> (ws, tasks @ [TickAfter 250]))
         else ((w, s), [TickAfter (if fast_poll (ui_snapshot s) then 250 else 1000)]))"

text \<open>The value typed for a field, and the first required one without a value.\<close>

definition missing_required :: "ui_state \<Rightarrow> auth_challenge \<Rightarrow> bool" where
  "missing_required s challenge \<longleftrightarrow>
     list_ex (\<lambda>f. \<not> is_hidden_field f \<and> af_required f
        \<and> trim (case ui_challenge_values s (af_key f) of None \<Rightarrow> [] | Some v \<Rightarrow> v) = []) (ac_fields challenge)"

definition challenge_reply :: "ui_state \<Rightarrow> auth_challenge \<Rightarrow> auth_challenge_reply" where
  "challenge_reply s challenge = \<lparr>ar_id = ac_id challenge,
     ar_values = filter_map (\<lambda>f. case ui_challenge_values s (af_key f) of
         None \<Rightarrow> None
       | Some v \<Rightarrow> if trim v = [] then None else Some \<lparr>fv_key = af_key f, fv_value = v\<rparr>) (ac_fields challenge),
     ar_cancelled = False\<rparr>"

definition submit_challenge :: "'w engine_calls \<Rightarrow> host_calls \<Rightarrow> 'w \<times> ui_state \<Rightarrow> 'w \<times> ui_state" where
  "submit_challenge ec h ws =
     (let (w, s) = ws
      in case sn_pending_auth (ui_snapshot s) of
           None \<Rightarrow> (w, push_message h ''toast-no-auth-form'' s)
         | Some challenge \<Rightarrow>
             if missing_required s challenge then (w, push_message h ''toast-enter-otp'' s)
             else
               let reply = challenge_reply s challenge
               in if ar_values reply = [] then (w, push_message h ''toast-enter-otp'' s)
                  else case ec_submit ec reply w of
                    (w, Err e) \<Rightarrow> (w, push_toast e s)
                  | (w, Ok _) \<Rightarrow>
                      (let s = s\<lparr>ui_challenge_values := Map.empty, ui_challenge_seed_id := None,
                                 ui_snapshot := (ui_snapshot s)\<lparr>sn_pending_auth := None\<rparr>\<rparr>
                       in case ec_snapshot ec w of
                            (w, Err _) \<Rightarrow> (w, s)
                          | (w, Ok snap) \<Rightarrow> (w, s\<lparr>ui_snapshot := snap\<lparr>sn_pending_auth := None\<rparr>\<rparr>)))"

definition cancel_challenge :: "'w engine_calls \<Rightarrow> 'w \<times> ui_state \<Rightarrow> 'w \<times> ui_state" where
  "cancel_challenge ec ws =
     (let (w, s) = ws
      in (ec_cancel_auth ec w,
          s\<lparr>ui_user_disconnect := True, ui_challenge_values := Map.empty, ui_challenge_seed_id := None,
            ui_snapshot := (ui_snapshot s)\<lparr>sn_pending_auth := None\<rparr>\<rparr>))"

definition toggle_connect :: "'w engine_calls \<Rightarrow> host_calls \<Rightarrow> 'w \<times> ui_state \<Rightarrow> ('w \<times> ui_state) \<times> ui_task list" where
  "toggle_connect ec h ws =
     (let (w, s) = ws
      in if is_busy (sn_lifecycle (ui_snapshot s)) then ((w, s), [])
         else if is_active (sn_lifecycle (ui_snapshot s)) then
           ((w, s\<lparr>ui_user_disconnect := True,
                  ui_snapshot := (ui_snapshot s)\<lparr>sn_lifecycle := Disconnecting, sn_last_error := None\<rparr>\<rparr>),
            [DisconnectTask (ui_dry_run s)])
         else start_connect ec h (w, s\<lparr>ui_user_disconnect := False\<rparr>))"

fun reduce_session ::
    "'w engine_calls \<Rightarrow> host_calls \<Rightarrow> session_action \<Rightarrow> 'w \<times> ui_state \<Rightarrow> ('w \<times> ui_state) \<times> ui_task list" where
  "reduce_session ec h Bootstrap ws = (sync_engine ec ws, [TickAfter 1000])"
| "reduce_session ec h (SetLanguagePreference p) (w, s) =
     (set_appearance ec (w, s\<lparr>ui_language := p, ui_locale_now := resolve_language p (ui_system_locale s)\<rparr>), [])"
| "reduce_session ec h (SetThemePreference p) (w, s) = (set_appearance ec (w, s\<lparr>ui_theme := p\<rparr>), [])"
| "reduce_session ec h ToggleConnect ws = toggle_connect ec h ws"
| "reduce_session ec h (ConnectionFinished result) ws = (connection_finished ec h result ws, [])"
| "reduce_session ec h TickSession ws = tick_session ec h ws"
| "reduce_session ec h (SetChallengeField k v) (w, s) =
     ((w, s\<lparr>ui_challenge_values := (ui_challenge_values s)(k := Some v)\<rparr>), [])"
| "reduce_session ec h SubmitChallenge ws = (submit_challenge ec h ws, [])"
| "reduce_session ec h CancelChallenge ws = (cancel_challenge ec ws, [])"
| "reduce_session ec h (DismissToast i) (w, s) = ((w, s\<lparr>ui_toasts := filter (\<lambda>t. ft_id t \<noteq> i) (ui_toasts s)\<rparr>), [])"

subsection \<open>The editor's actions\<close>

definition save_draft :: "'w engine_calls \<Rightarrow> host_calls \<Rightarrow> 'w \<times> ui_state \<Rightarrow> 'w \<times> ui_state" where
  "save_draft ec h ws =
     (let (w, s) = ws; name = trim (pf_name (ui_draft s)); server = trim (pf_server (ui_draft s))
      in if name = [] \<or> server = [] then (w, push_message h ''form-required'' s)
         else
           let draft = (ui_draft s)\<lparr>pf_name := name, pf_server := server\<rparr>;
               draft = (if pf_id draft = [] then draft\<lparr>pf_id := ''conn-'' @ show_dec (ho_millis h)\<rparr> else draft);
               s = s\<lparr>ui_draft := draft\<rparr>
           in case ec_upsert ec draft w of
                (w, Ok _) \<Rightarrow> sync_engine ec (w, s\<lparr>ui_editor_open := False, ui_draft := new_draft\<rparr>)
              | (w, Err e) \<Rightarrow> (w, push_toast e s))"

definition cert_file_picked :: "cert_file_kind \<Rightarrow> (str, str) result \<Rightarrow> ui_state \<Rightarrow> ui_state" where
  "cert_file_picked kind result s =
     (case result of
        Ok path \<Rightarrow>
          s\<lparr>ui_draft := (case kind of
              CertFile \<Rightarrow> (ui_draft s)\<lparr>pf_certificate := path\<rparr>
            | KeyFile \<Rightarrow> (ui_draft s)\<lparr>pf_private_key := path\<rparr>
            | CaFileKind \<Rightarrow> (ui_draft s)\<lparr>pf_ca_certificate := path\<rparr>)\<rparr>
      | Err e \<Rightarrow> if contains_text e ''cancelled'' then s else push_toast e s)"

definition open_editor :: "str option \<Rightarrow> ui_state \<Rightarrow> ui_state \<times> ui_task list" where
  "open_editor i s =
     offer_discovery (s\<lparr>ui_editor_open := True, ui_editor_advanced := False,
       ui_draft := (case i of
           None \<Rightarrow> new_draft
         | Some i \<Rightarrow> (case find (\<lambda>p. pf_id p = i) (sn_connections (ui_snapshot s)) of None \<Rightarrow> new_draft | Some p \<Rightarrow> p))\<rparr>)"

definition discover_groups_now :: "str \<Rightarrow> ui_state \<Rightarrow> ui_state \<times> ui_task list" where
  "discover_groups_now server s =
     (if \<not> ui_editor_open s \<or> trim (pf_server (ui_draft s)) \<noteq> server \<or> \<not> server_looks_ready server then (s, [])
      else (s\<lparr>ui_group_loading := True, ui_group_error := None\<rparr>, [DiscoverTask server (ui_draft s)]))"

fun reduce_editor ::
    "'w engine_calls \<Rightarrow> host_calls \<Rightarrow> editor_action \<Rightarrow> 'w \<times> ui_state \<Rightarrow> ('w \<times> ui_state) \<times> ui_task list" where
  "reduce_editor ec h (OpenEditor i) (w, s) = (case open_editor i s of (s, ts) \<Rightarrow> ((w, s), ts))"
| "reduce_editor ec h (SetDraftServer v) (w, s) =
     (case offer_discovery (s\<lparr>ui_draft := (ui_draft s)\<lparr>pf_server := v\<rparr>\<rparr>) of (s, ts) \<Rightarrow> ((w, s), ts))"
| "reduce_editor ec h (EditDraft e) (w, s) = ((w, s\<lparr>ui_draft := edit_draft e (ui_draft s)\<rparr>), [])"
| "reduce_editor ec h (DiscoverGroups server) (w, s) = (case discover_groups_now server s of (s, ts) \<Rightarrow> ((w, s), ts))"
| "reduce_editor ec h (GroupsDiscovered server result) (w, s) = ((w, groups_discovered h server result s), [])"
| "reduce_editor ec h (SetEditorShowAdvanced v) (w, s) = ((w, s\<lparr>ui_editor_advanced := v\<rparr>), [])"
| "reduce_editor ec h (PickCertFile kind) ws = (ws, [PickTask kind])"
| "reduce_editor ec h (CertFilePicked kind result) (w, s) = ((w, cert_file_picked kind result s), [])"
| "reduce_editor ec h SaveDraft ws = (save_draft ec h ws, [])"

subsection \<open>The connection list\<close>

text \<open>
  \<open>new_imported_connection_id\<close>: the loop over the suffixes with fuel; one more turn than there are ids always
  suffices (\<open>imported_id_found\<close>), so the empty answer does not occur.
\<close>

definition imported_candidate :: "nat \<Rightarrow> nat \<Rightarrow> str" where
  "imported_candidate nanos k = ''conn-qr-'' @ show_dec nanos @ ''-'' @ show_dec k"

fun imported_id :: "nat \<Rightarrow> connection_profile list \<Rightarrow> nat \<Rightarrow> nat \<Rightarrow> str option" where
  "imported_id 0 existing nanos k = None"
| "imported_id (Suc fuel) existing nanos k =
     (if list_ex (\<lambda>p. pf_id p = imported_candidate nanos k) existing
      then imported_id fuel existing nanos (min (k + 1) 4294967295)
      else Some (imported_candidate nanos k))"

definition new_imported_connection_id :: "nat \<Rightarrow> connection_profile list \<Rightarrow> str option" where
  "new_imported_connection_id nanos existing = imported_id (length existing + 1) existing nanos 0"

definition import_profile :: "'w engine_calls \<Rightarrow> host_calls \<Rightarrow> connection_profile \<Rightarrow> 'w \<times> ui_state \<Rightarrow> 'w \<times> ui_state" where
  "import_profile ec h profile ws =
     (let (w, s) = ws
      in case new_imported_connection_id (ho_nanos h) (sn_connections (ui_snapshot s)) of
           None \<Rightarrow> (w, s)
         | Some i \<Rightarrow>
             (case ec_upsert ec (profile\<lparr>pf_id := i\<rparr>) w of
                (w, Err e) \<Rightarrow> (w, push_toast e s)
              | (w, Ok _) \<Rightarrow>
                  (let (w, s) = sync_engine ec (w, s)
                   in (w, push_toast (ho_translate h (ui_locale_now s) ''conn-qr-added-prefix'' @ '' '' @ pf_name profile) s))))"

definition connection_qr_scanned ::
    "'w engine_calls \<Rightarrow> host_calls \<Rightarrow> (str, str) result \<Rightarrow> 'w \<times> ui_state \<Rightarrow> 'w \<times> ui_state" where
  "connection_qr_scanned ec h result ws =
     (let (w, s) = ws; s = s\<lparr>ui_qr_scan_pending := False\<rparr>
      in case result of
           Err e \<Rightarrow> (w, push_toast (ho_translate h (ui_locale_now s) ''conn-qr-scan-failed-prefix'' @ '' '' @ e) s)
         | Ok content \<Rightarrow>
             if content = [] then (w, s)
             else case decode_connection_qr (ho_payload h) content of
               Err _ \<Rightarrow> (w, push_message h ''conn-qr-invalid'' s)
             | Ok profile \<Rightarrow> import_profile ec h profile (w, s))"

definition toggle_favorite :: "'w engine_calls \<Rightarrow> str \<Rightarrow> 'w \<times> ui_state \<Rightarrow> 'w \<times> ui_state" where
  "toggle_favorite ec i ws =
     (let (w, s) = ws
      in case find (\<lambda>p. pf_id p = i) (sn_connections (ui_snapshot s)) of
           None \<Rightarrow> (w, s)
         | Some p \<Rightarrow> sync_engine ec (fst (ec_upsert ec (p\<lparr>pf_favorite := \<not> pf_favorite p\<rparr>) w), s))"

definition push_prefixed :: "host_calls \<Rightarrow> str \<Rightarrow> str \<Rightarrow> ui_state \<Rightarrow> ui_state" where
  "push_prefixed h key e s = push_toast (ho_translate h (ui_locale_now s) key @ e) s"

fun reduce_list ::
    "'w engine_calls \<Rightarrow> host_calls \<Rightarrow> list_action \<Rightarrow> 'w \<times> ui_state \<Rightarrow> ('w \<times> ui_state) \<times> ui_task list" where
  "reduce_list ec h (SelectConnection i) (w, s) =
     ((case ec_select ec i w of
         (w, Ok _) \<Rightarrow> sync_engine ec (w, s)
       | (w, Err e) \<Rightarrow> (w, push_toast e s)), [])"
| "reduce_list ec h ScanConnectionQr (w, s) =
     (if ui_qr_scan_pending s then ((w, s), []) else ((w, s\<lparr>ui_qr_scan_pending := True\<rparr>), [ScanTask]))"
| "reduce_list ec h (ConnectionQrScanned result) ws = (connection_qr_scanned ec h result ws, [])"
| "reduce_list ec h (ExportConnectionQr name png) (w, s) =
     (if ui_qr_export_pending s then ((w, s), [])
      else ((w, s\<lparr>ui_qr_export_pending := True\<rparr>), [ExportQrTask name png]))"
| "reduce_list ec h (ConnectionQrExported result) (w, s) =
     ((w, (let s = s\<lparr>ui_qr_export_pending := False\<rparr>
           in case result of
                Ok _ \<Rightarrow> push_message h ''conn-qr-saved'' s
              | Err e \<Rightarrow> push_toast (ho_translate h (ui_locale_now s) ''conn-qr-save-failed-prefix'' @ '' '' @ e) s)), [])"
| "reduce_list ec h (DeleteConnection i) (w, s) =
     ((case ec_delete ec i w of
         (w, Ok _) \<Rightarrow> sync_engine ec (w, push_message h ''feedback-deleted'' s)
       | (w, Err e) \<Rightarrow> (w, push_toast e s)), [])"
| "reduce_list ec h (ToggleFavorite i) ws = (toggle_favorite ec i ws, [])"
| "reduce_list ec h (OpenExternalUrl url) ws = (ws, [OpenUrlTask url])"
| "reduce_list ec h (ExternalUrlOpened result) (w, s) =
     ((w, case result of Ok _ \<Rightarrow> s | Err e \<Rightarrow> push_prefixed h ''toast-open-link-failed-prefix'' e s), [])"

subsection \<open>Log recording\<close>

definition archive_busy :: "ui_state \<Rightarrow> bool" where
  "archive_busy s \<longleftrightarrow> ui_log_export_pending s \<noteq> None \<or> ui_log_delete_pending s \<noteq> None"

fun reduce_log :: "host_calls \<Rightarrow> log_action \<Rightarrow> ui_state \<Rightarrow> ui_state \<times> ui_task list" where
  "reduce_log h ToggleLogRecording s =
     (if ui_log_recording_pending s then (s, [])
      else (s\<lparr>ui_log_recording_pending := True\<rparr>, [RecordingTask (\<not> ls_enabled (ui_log_recording s))]))"
| "reduce_log h (LogRecordingChanged result) s =
     ((let s = s\<lparr>ui_log_recording_pending := False\<rparr>
       in case result of
            Ok c \<Rightarrow>
              (let s = s\<lparr>ui_snapshot := rc_snapshot c, ui_log_recording := rc_status c\<rparr>
               in push_message h (if ls_enabled (ui_log_recording s) then ''toast-log-started'' else ''toast-log-stopped'') s)
          | Err e \<Rightarrow> push_prefixed h ''toast-log-toggle-failed-prefix'' e s), [])"
| "reduce_log h (ExportLogArchive file) s =
     (if archive_busy s then (s, []) else (s\<lparr>ui_log_export_pending := Some file\<rparr>, [ExportLogTask file]))"
| "reduce_log h (LogArchiveExported result) s =
     ((let s = s\<lparr>ui_log_export_pending := None\<rparr>
       in case result of
            Ok file \<Rightarrow> push_prefixed h ''toast-log-exported-prefix'' file s
          | Err e \<Rightarrow> push_prefixed h ''toast-log-export-failed-prefix'' e s), [])"
| "reduce_log h (DeleteLogArchive file) s =
     (if archive_busy s then (s, []) else (s\<lparr>ui_log_delete_pending := Some file\<rparr>, [DeleteLogTask file]))"
| "reduce_log h (LogArchiveDeleted result) s =
     ((let s = s\<lparr>ui_log_delete_pending := None\<rparr>
       in case result of
            Ok d \<Rightarrow> push_prefixed h ''toast-log-deleted-prefix'' (ad_file_name d) (s\<lparr>ui_log_recording := ad_status d\<rparr>)
          | Err e \<Rightarrow> push_prefixed h ''toast-log-delete-failed-prefix'' e s), [])"

subsection \<open>The reducer\<close>

fun reduce ::
    "'w engine_calls \<Rightarrow> host_calls \<Rightarrow> ui_action \<Rightarrow> 'w \<times> ui_state \<Rightarrow> ('w \<times> ui_state) \<times> ui_task list" where
  "reduce ec h (Session a) ws = reduce_session ec h a ws"
| "reduce ec h (Editor a) ws = reduce_editor ec h a ws"
| "reduce ec h (Connections a) ws = reduce_list ec h a ws"
| "reduce ec h (Logs a) (w, s) = (case reduce_log h a s of (s, ts) \<Rightarrow> ((w, s), ts))"

end
