(* ===== verification/Oc_Ui_Laws.thy ===== *)
theory Oc_Ui_Laws
  imports Oc_Ui "HOL-Library.Multiset"
begin

text \<open>
  What the UI keeps. The text it shows never names the word its vocabulary avoids; the list of toasts stays short. The
  reducer beside its outstanding futures is a transition system (\<open>ui_step\<close>): any action of the views, the completion
  of any outstanding task, any change of the engine in between. Along every run one poll timer exists, each guarded task
  runs once, and a connection the user ended is not brought back by a tick.
\<close>

subsection \<open>Display text\<close>

fun vpn_free :: "str \<Rightarrow> bool" where
  "vpn_free (a # b # c # s) \<longleftrightarrow> to_ascii_lowercase [a, b, c] \<noteq> ''vpn'' \<and> vpn_free (b # c # s)"
| "vpn_free s \<longleftrightarrow> True"

lemma contains_sublist: "contains_text s p \<longleftrightarrow> sublist p s"
  by (fastforce simp: contains_text_def list_ex_iff in_set_suffixes sublist_def suffix_def prefix_def)

lemma vpn_free_iff: "vpn_free s \<longleftrightarrow> \<not> contains_text (to_ascii_lowercase s) ''vpn''"
proof (induction s rule: vpn_free.induct)
  case (1 a b c s)
  have "sublist ''vpn'' (map ascii_lower (a # b # c # s)) \<longleftrightarrow>
      map ascii_lower [a, b, c] = ''vpn'' \<or> sublist ''vpn'' (map ascii_lower (b # c # s))"
    by (auto simp: sublist_Cons_right)
  then show ?case using 1 by (simp add: contains_sublist to_ascii_lowercase_def)
qed (auto simp: contains_sublist to_ascii_lowercase_def sublist_Cons_right)

lemma vpn_free_sublist:
  assumes "sublist t s" "vpn_free s"
  shows "vpn_free t"
  using assms unfolding vpn_free_iff contains_sublist to_ascii_lowercase_def
  by (meson map_mono_sublist sublist_order.order_trans)

lemma vpn_free_connection: "vpn_free s \<Longrightarrow> vpn_free (''connection'' @ s)"
  by (cases s rule: vpn_free.cases) (simp_all add: to_ascii_lowercase_def ascii_lower_def is_ascii_upper_def cp_def)

lemma replace_vpn_head: "(\<exists>r. replace_vpn (b # s) = CHR ''c'' # r) \<or> (\<exists>r. replace_vpn (b # s) = b # r \<and> (s = [] \<or> r = replace_vpn s))"
  by (cases "b # s" rule: replace_vpn.cases) auto

lemma replace_vpn_free: "vpn_free (replace_vpn s)"
proof (induction s rule: replace_vpn.induct)
  case (1 a b c s)
  show ?case
  proof (cases "to_ascii_lowercase [a, b, c] = ''vpn''")
    case True
    then show ?thesis using 1 vpn_free_connection by simp
  next
    case False
    have free: "vpn_free (replace_vpn (b # c # s))" using 1 False by simp
    have c: "ascii_lower (CHR ''c'') = CHR ''c''" by (simp add: ascii_lower_def is_ascii_upper_def cp_def)
    have "to_ascii_lowercase [a, x, y] \<noteq> ''vpn''" if r: "replace_vpn (b # c # s) = x # y # r" for x y r
    proof
      assume v: "to_ascii_lowercase [a, x, y] = ''vpn''"
      then have "x \<noteq> CHR ''c''" "y \<noteq> CHR ''c''" using c by (auto simp: to_ascii_lowercase_def)
      then have "x = b" "y = c" using r replace_vpn_head [of b "c # s"] replace_vpn_head [of c s] by auto
      then show False using v False by simp
    qed
    then show ?thesis using free False by (cases "replace_vpn (b # c # s)" rule: vpn_free.cases) (auto split: list.split)
  qed
qed auto

lemma sanitized_free: "vpn_free (sanitize_display_text s)"
  using replace_vpn_free [of s] by (simp add: sanitize_display_text_def vpn_free_iff)

lemma trim_sublist: "sublist (trim s) s"
proof -
  have "suffix (trim_start s) s" by (simp add: trim_start_def drop_ws_suffix)
  moreover have "prefix (trim s) (trim_start s)"
    unfolding trim_def trim_end_def using drop_ws_suffix [of ws_rlen "rev (trim_start s)"] by (metis rev_rev_ident suffix_to_prefix)
  ultimately show ?thesis by (meson prefix_imp_sublist suffix_imp_sublist sublist_order.order_trans)
qed

subsection \<open>Toasts\<close>

text \<open>Ids grow from the oldest to the newest until the counter saturates.\<close>

definition toasts_ok :: "feedback_toast list \<Rightarrow> nat \<Rightarrow> bool" where
  "toasts_ok ts n \<longleftrightarrow> length ts \<le> 2 \<and> n \<le> max_u64
     \<and> (\<forall>t \<in> set ts. ft_message t \<noteq> [] \<and> trim (ft_message t) = ft_message t \<and> vpn_free (ft_message t) \<and> ft_id t \<le> n)
     \<and> (n < max_u64 \<longrightarrow> sorted_wrt (\<lambda>a b. ft_id a < ft_id b) ts)"

abbreviation ui_toasts_ok :: "ui_state \<Rightarrow> bool" where
  "ui_toasts_ok s \<equiv> toasts_ok (ui_toasts s) (ui_next_toast_id s)"

lemma toasts_ok_push:
  assumes ok: "toasts_ok ts n" and m: "m \<noteq> []" "trim m = m" "vpn_free m"
  shows "toasts_ok (drop (length ts - 1) ts @ [\<lparr>ft_id = min (n + 1) max_u64, ft_message = m\<rparr>]) (min (n + 1) max_u64)"
proof (cases ts rule: rev_cases)
  case Nil
  then show ?thesis using m by (simp add: toasts_ok_def)
next
  case (snoc ts' t)
  then have "drop (length ts - 1) ts = [t]" by simp
  moreover have "ft_id t \<le> min n max_u64" and "ft_message t \<noteq> [] \<and> trim (ft_message t) = ft_message t \<and> vpn_free (ft_message t)"
    using ok snoc by (auto simp: toasts_ok_def)
  ultimately show ?thesis using m by (auto simp: toasts_ok_def)
qed

lemma push_toast_ok [simp]: "ui_toasts_ok s \<Longrightarrow> ui_toasts_ok (push_toast m s)"
  using toasts_ok_push [of "ui_toasts s" "ui_next_toast_id s" "trim (sanitize_display_text m)"]
    vpn_free_sublist [OF trim_sublist sanitized_free]
  by (auto simp: push_toast_def Let_def)

lemma push_message_ok [simp]: "ui_toasts_ok s \<Longrightarrow> ui_toasts_ok (push_message h k s)"
  "ui_toasts_ok s \<Longrightarrow> ui_toasts_ok (push_prefixed h k e s)"
  by (simp_all add: push_message_def push_prefixed_def)

lemma dismissed_ok: "toasts_ok ts n \<Longrightarrow> toasts_ok (filter P ts) n"
  by (auto simp: toasts_ok_def sorted_wrt_filter intro: le_trans [OF length_filter_le])

text \<open>What a toast, and taking the engine's state over, leave alone.\<close>

lemma push_toast_keeps [simp]:
  "ui_user_disconnect (push_toast m s) = ui_user_disconnect s"
  "ui_snapshot (push_toast m s) = ui_snapshot s"
  "ui_draft (push_toast m s) = ui_draft s"
  "ui_qr_scan_pending (push_toast m s) = ui_qr_scan_pending s"
  "ui_log_recording_pending (push_toast m s) = ui_log_recording_pending s"
  "ui_log_export_pending (push_toast m s) = ui_log_export_pending s"
  "ui_log_delete_pending (push_toast m s) = ui_log_delete_pending s"
  by (simp_all add: push_toast_def Let_def)

lemma push_message_keeps [simp]:
  "ui_user_disconnect (push_message h k s) = ui_user_disconnect s"
  "ui_snapshot (push_message h k s) = ui_snapshot s"
  "ui_qr_scan_pending (push_message h k s) = ui_qr_scan_pending s"
  "ui_log_recording_pending (push_message h k s) = ui_log_recording_pending s"
  "ui_log_export_pending (push_message h k s) = ui_log_export_pending s"
  "ui_log_delete_pending (push_message h k s) = ui_log_delete_pending s"
  "ui_user_disconnect (push_prefixed h k e s) = ui_user_disconnect s"
  "ui_qr_scan_pending (push_prefixed h k e s) = ui_qr_scan_pending s"
  "ui_log_recording_pending (push_prefixed h k e s) = ui_log_recording_pending s"
  "ui_log_export_pending (push_prefixed h k e s) = ui_log_export_pending s"
  "ui_log_delete_pending (push_prefixed h k e s) = ui_log_delete_pending s"
  by (simp_all add: push_message_def push_prefixed_def)

lemma seed_keeps [simp]:
  "ui_toasts (seed_challenge_draft s) = ui_toasts s"
  "ui_next_toast_id (seed_challenge_draft s) = ui_next_toast_id s"
  "ui_user_disconnect (seed_challenge_draft s) = ui_user_disconnect s"
  "ui_draft (seed_challenge_draft s) = ui_draft s"
  "ui_qr_scan_pending (seed_challenge_draft s) = ui_qr_scan_pending s"
  "ui_log_recording_pending (seed_challenge_draft s) = ui_log_recording_pending s"
  "ui_log_export_pending (seed_challenge_draft s) = ui_log_export_pending s"
  "ui_log_delete_pending (seed_challenge_draft s) = ui_log_delete_pending s"
  by (auto simp: seed_challenge_draft_def split: option.split)

lemma sync_keeps [simp]:
  "ui_toasts (snd (sync_engine ec ws)) = ui_toasts (snd ws)"
  "ui_next_toast_id (snd (sync_engine ec ws)) = ui_next_toast_id (snd ws)"
  "ui_user_disconnect (snd (sync_engine ec ws)) = ui_user_disconnect (snd ws)"
  "ui_draft (snd (sync_engine ec ws)) = ui_draft (snd ws)"
  "ui_qr_scan_pending (snd (sync_engine ec ws)) = ui_qr_scan_pending (snd ws)"
  "ui_log_recording_pending (snd (sync_engine ec ws)) = ui_log_recording_pending (snd ws)"
  "ui_log_export_pending (snd (sync_engine ec ws)) = ui_log_export_pending (snd ws)"
  "ui_log_delete_pending (snd (sync_engine ec ws)) = ui_log_delete_pending (snd ws)"
  by (auto simp: sync_engine_def split: prod.split sum.split)

text \<open>The flags that guard a task, and what an operation that touches none of them has in common.\<close>

definition pending_flags :: "ui_state \<Rightarrow> bool \<times> bool \<times> str option \<times> str option" where
  "pending_flags s = (ui_qr_scan_pending s, ui_log_recording_pending s, ui_log_export_pending s, ui_log_delete_pending s)"

definition mild :: "ui_state \<Rightarrow> ui_state \<Rightarrow> bool" where
  "mild s s' \<longleftrightarrow> pending_flags s' = pending_flags s
     \<and> (ui_user_disconnect s \<longrightarrow> ui_user_disconnect s') \<and> (ui_toasts_ok s \<longrightarrow> ui_toasts_ok s')"

lemma mild_refl [simp]: "mild s s"
  by (simp add: mild_def)

lemma mild_trans: "mild s t \<Longrightarrow> mild t u \<Longrightarrow> mild s u"
  by (simp add: mild_def)

lemma mild_push [simp]:
  "mild s t \<Longrightarrow> mild s (push_toast m t)" "mild s t \<Longrightarrow> mild s (push_message h k t)" "mild s t \<Longrightarrow> mild s (push_prefixed h k e t)"
  by (simp_all add: mild_def pending_flags_def)

lemma mild_sync [simp]: "mild s (snd ws) \<Longrightarrow> mild s (snd (sync_engine ec ws))"
  by (simp add: mild_def pending_flags_def)

lemma mild_same [intro]:
  assumes "pending_flags s' = pending_flags s" "ui_user_disconnect s' \<longleftrightarrow> ui_user_disconnect s" "ui_toasts s' = ui_toasts s"
    "ui_next_toast_id s' = ui_next_toast_id s"
  shows "mild s s'"
  using assms by (simp add: mild_def)

lemma mild_fields [simp]:
  "mild s (t\<lparr>ui_snapshot := x\<rparr>) \<longleftrightarrow> mild s t"
  "mild s (t\<lparr>ui_draft := d\<rparr>) \<longleftrightarrow> mild s t"
  "mild s (t\<lparr>ui_last_lifecycle := l\<rparr>) \<longleftrightarrow> mild s t"
  "mild s (t\<lparr>ui_challenge_values := v\<rparr>) \<longleftrightarrow> mild s t"
  "mild s (t\<lparr>ui_challenge_seed_id := c\<rparr>) \<longleftrightarrow> mild s t"
  "mild s (t\<lparr>ui_system_locale := sl\<rparr>) \<longleftrightarrow> mild s t"
  "mild s (t\<lparr>ui_locale_now := sl\<rparr>) \<longleftrightarrow> mild s t"
  "mild s (t\<lparr>ui_system_dark := b\<rparr>) \<longleftrightarrow> mild s t"
  "mild s (t\<lparr>ui_language := lang\<rparr>) \<longleftrightarrow> mild s t"
  "mild s (t\<lparr>ui_theme := theme\<rparr>) \<longleftrightarrow> mild s t"
  "mild s (t\<lparr>ui_editor_open := b\<rparr>) \<longleftrightarrow> mild s t"
  "mild s (t\<lparr>ui_editor_advanced := b\<rparr>) \<longleftrightarrow> mild s t"
  "mild s (t\<lparr>ui_group_choices := g\<rparr>) \<longleftrightarrow> mild s t"
  "mild s (t\<lparr>ui_group_loading := b\<rparr>) \<longleftrightarrow> mild s t"
  "mild s (t\<lparr>ui_group_error := e\<rparr>) \<longleftrightarrow> mild s t"
  "mild s (t\<lparr>ui_qr_export_pending := b\<rparr>) \<longleftrightarrow> mild s t"
  "mild s (t\<lparr>ui_log_recording := r\<rparr>) \<longleftrightarrow> mild s t"
  by (simp_all add: mild_def pending_flags_def)

lemma mild_ended [simp]: "mild s t \<Longrightarrow> mild s (t\<lparr>ui_user_disconnect := True\<rparr>)"
  by (simp add: mild_def pending_flags_def)

lemma mild_dismiss: "mild s (s\<lparr>ui_toasts := filter P (ui_toasts s)\<rparr>)"
  by (simp add: mild_def pending_flags_def dismissed_ok)

lemma sync_engine_pair [simp]: "sync_engine ec ws = (w, t) \<Longrightarrow> mild s (snd ws) \<Longrightarrow> mild s t"
  by (metis mild_sync snd_conv)

lemma set_appearance_mild [simp]: "mild s (snd ws) \<Longrightarrow> mild s (snd (set_appearance ec ws))"
  by (auto simp: set_appearance_def split: prod.split sum.split)

lemma connection_finished_mild [simp]: "mild s (snd ws) \<Longrightarrow> mild s (snd (connection_finished ec h result ws))"
  by (auto simp: connection_finished_def Let_def split: prod.split sum.split session_outcome.split)

lemma detect_system_mild [simp]: "mild s t \<Longrightarrow> mild s (detect_system h t)"
  by (simp add: detect_system_def Let_def)

lemma open_requested_browser_mild [simp]: "mild s (snd ws) \<Longrightarrow> mild s (snd (open_requested_browser ec h ws))"
  by (auto simp: open_requested_browser_def split: prod.split sum.split option.split)

lemma submit_challenge_mild [simp]: "mild s (snd ws) \<Longrightarrow> mild s (snd (submit_challenge ec h ws))"
  by (auto simp: submit_challenge_def Let_def split: prod.split sum.split option.split)

lemma cancel_challenge_mild [simp]: "mild s (snd ws) \<Longrightarrow> mild s (snd (cancel_challenge ec ws))"
  by (auto simp: cancel_challenge_def split: prod.split)

subsection \<open>One action\<close>

lemma start_connect_mild:
  assumes "\<not> ui_user_disconnect t" "mild s t"
  shows "mild s (snd (fst (start_connect ec h (w, t))))"
  using assms by (auto simp: start_connect_def Let_def mild_def pending_flags_def split: option.split)

lemma start_connect_tasks:
  "snd (start_connect ec h ws) = [] \<or> (\<exists>p dry. snd (start_connect ec h ws) = [ConnectTask p dry])"
  by (auto simp: start_connect_def Let_def split: prod.split option.split)

text \<open>A tick starts exactly one timer, and a connection only when the user did not end the last one.\<close>

lemma tick_session_cases:
  obtains (plain) w' s' n where "tick_session ec h (w, s) = ((w', s'), [TickAfter n])" "mild s s'"
  | (reconnect) w' t where "tick_session ec h (w, s) =
      (fst (start_connect ec h (w', t)), snd (start_connect ec h (w', t)) @ [TickAfter 250])" "\<not> ui_user_disconnect t" "mild s t"
proof -
  obtain w1 s1 where b: "open_requested_browser ec h (w, detect_system h s) = (w1, s1)" by fastforce
  obtain w2 s2 where y: "sync_engine ec (ec_tick ec w1, s1) = (w2, s2)" by fastforce
  have "mild s (snd (open_requested_browser ec h (w, detect_system h s)))" by simp
  then have m: "mild s s1" using b by simp
  have "mild s (snd (sync_engine ec (ec_tick ec w1, s1)))" using m by simp
  then have m2: "mild s s2" using y by simp
  let ?s = "s2\<lparr>ui_last_lifecycle := sn_lifecycle (ui_snapshot s2)\<rparr>"
  let ?want = "should_auto_reconnect_to (ui_last_lifecycle s1) (sn_lifecycle (ui_snapshot s2)) (ui_user_disconnect s2) (ui_dry_run s2)
            (case active_connection s2 of None \<Rightarrow> False | Some p \<Rightarrow> pf_connect_on_demand p)"
  show thesis
  proof (cases ?want)
    case True
    then have "\<not> ui_user_disconnect ?s" by (simp add: should_auto_reconnect_to_def)
    moreover have "tick_session ec h (w, s) = (fst (start_connect ec h (w2, ?s)), snd (start_connect ec h (w2, ?s)) @ [TickAfter 250])"
      using True b y by (simp add: tick_session_def Let_def split: prod.split)
    ultimately show thesis using m2 reconnect by simp
  next
    case False
    then show thesis using b y m2 plain by (simp add: tick_session_def Let_def)
  qed
qed

lemma tick_session_mild: "mild s (snd (fst (tick_session ec h (w, s))))"
  by (rule tick_session_cases [of ec h w s]) (auto simp: start_connect_mild)

lemma toggle_connect_keeps:
  assumes "toggle_connect ec h (w, s) = ((w', s'), ts)"
  shows "pending_flags s' = pending_flags s" "ui_toasts_ok s \<longrightarrow> ui_toasts_ok s'"
proof -
  let ?t = "s\<lparr>ui_user_disconnect := False\<rparr>"
  have t: "pending_flags ?t = pending_flags s" by (simp add: pending_flags_def)
  have "pending_flags s' = pending_flags s \<and> (ui_toasts_ok s \<longrightarrow> ui_toasts_ok s')"
    using assms start_connect_mild [of ?t ?t ec h w] t
    by (auto simp: toggle_connect_def mild_def pending_flags_def split: if_splits)
  then show "pending_flags s' = pending_flags s" "ui_toasts_ok s \<longrightarrow> ui_toasts_ok s'" by simp_all
qed

text \<open>Tasks that no flag guards.\<close>

fun editor_task :: "ui_task \<Rightarrow> bool" where
  "editor_task (DiscoverAfterDelay _) \<longleftrightarrow> True"
| "editor_task (DiscoverTask _ _) \<longleftrightarrow> True"
| "editor_task (PickTask _) \<longleftrightarrow> True"
| "editor_task _ \<longleftrightarrow> False"

lemma offer_discovery_facts [simp]:
  "mild s t \<Longrightarrow> mild s (fst (offer_discovery t))" "list_all editor_task (snd (offer_discovery t))"
  by (simp_all add: offer_discovery_def Let_def)

lemma discover_groups_facts [simp]:
  "mild s t \<Longrightarrow> mild s (fst (discover_groups_now server t))" "list_all editor_task (snd (discover_groups_now server t))"
  by (simp_all add: discover_groups_now_def)

lemma groups_discovered_mild [simp]: "mild s t \<Longrightarrow> mild s (groups_discovered h server result t)"
  by (auto simp: groups_discovered_def Let_def split: sum.split option.split)

lemma save_draft_mild [simp]: "mild s (snd ws) \<Longrightarrow> mild s (snd (save_draft ec h ws))"
  by (auto simp: save_draft_def Let_def split: prod.split sum.split)

lemma import_profile_mild [simp]: "mild s (snd ws) \<Longrightarrow> mild s (snd (import_profile ec h p ws))"
  by (auto simp: import_profile_def Let_def split: prod.split sum.split option.split)

lemma toggle_favorite_mild [simp]: "mild s (snd ws) \<Longrightarrow> mild s (snd (toggle_favorite ec i ws))"
  by (auto simp: toggle_favorite_def split: prod.split option.split)

lemma cert_file_picked_mild [simp]: "mild s t \<Longrightarrow> mild s (cert_file_picked kind result t)"
  by (auto simp: cert_file_picked_def split: sum.split cert_file_kind.split)

lemma connection_qr_scanned_mild:
  "mild (s\<lparr>ui_qr_scan_pending := False\<rparr>) (snd (connection_qr_scanned ec h result (w, s)))"
  by (auto simp: connection_qr_scanned_def Let_def split: sum.split)

lemma reduce_editor_facts:
  shows "mild s (snd (fst (reduce_editor ec h a (w, s))))" "list_all editor_task (snd (reduce_editor ec h a (w, s)))"
proof -
  have "mild s (snd (fst (reduce_editor ec h a (w, s)))) \<and> list_all editor_task (snd (reduce_editor ec h a (w, s)))"
    by (cases a) (simp_all add: case_prod_unfold open_editor_def)
  then show "mild s (snd (fst (reduce_editor ec h a (w, s))))" "list_all editor_task (snd (reduce_editor ec h a (w, s)))"
    by simp_all
qed

subsection \<open>The UI beside its tasks\<close>

text \<open>
  The actions the views dispatch. A failed barcode image is reported as a failed export (\<open>ConnectionQrExported\<close>)
  by the view itself.
\<close>

fun user_action :: "ui_action \<Rightarrow> bool" where
  "user_action (Session a) \<longleftrightarrow> (case a of Bootstrap \<Rightarrow> False | ConnectionFinished _ \<Rightarrow> False | TickSession \<Rightarrow> False | _ \<Rightarrow> True)"
| "user_action (Editor a) \<longleftrightarrow>
     (case a of DiscoverGroups _ \<Rightarrow> False | GroupsDiscovered _ _ \<Rightarrow> False | CertFilePicked _ _ \<Rightarrow> False | _ \<Rightarrow> True)"
| "user_action (Connections a) \<longleftrightarrow>
     (case a of ConnectionQrScanned _ \<Rightarrow> False | ExternalUrlOpened _ \<Rightarrow> False | ConnectionQrExported r \<Rightarrow> isl r | _ \<Rightarrow> True)"
| "user_action (Logs a) \<longleftrightarrow>
     (case a of LogRecordingChanged _ \<Rightarrow> False | LogArchiveExported _ \<Rightarrow> False | LogArchiveDeleted _ \<Rightarrow> False | _ \<Rightarrow> True)"

type_synonym 'w ui_config = "'w \<times> ui_state \<times> ui_task multiset"

text \<open>
  A step, labelled with the action it handles: of the views, or the end of an outstanding task. Without a label the
  engine changes. What the engine and the host answer may differ from step to step.
\<close>

inductive ui_step :: "ui_action option \<Rightarrow> 'w ui_config \<Rightarrow> 'w ui_config \<Rightarrow> bool" where
  ui_user: "user_action a \<Longrightarrow> reduce ec h a (w, s) = ((w', s'), ts) \<Longrightarrow> ui_step (Some a) (w, s, out) (w', s', out + mset ts)"
| ui_done: "t \<in># out \<Longrightarrow> completes t a \<Longrightarrow> reduce ec h a (w, s) = ((w', s'), ts) \<Longrightarrow>
    ui_step (Some a) (w, s, out) (w', s', out - {#t#} + mset ts)"
| ui_engine: "ui_step None (w, s, out) (w', s, out)"

inductive ui_path :: "'w ui_config \<Rightarrow> ui_action option list \<Rightarrow> 'w ui_config \<Rightarrow> bool" where
  ui_stop: "ui_path c [] c"
| ui_next: "ui_path c ls c' \<Longrightarrow> ui_step l c' c'' \<Longrightarrow> ui_path c (ls @ [l]) c''"

text \<open>The state after \<open>Bootstrap\<close>.\<close>

definition ui_started :: "'w ui_config \<Rightarrow> bool" where
  "ui_started c \<longleftrightarrow> (\<exists>ec h version snap logs appearance w w' s' ts.
     reduce ec h (Session Bootstrap) (w, ui_new h version snap logs appearance) = ((w', s'), ts) \<and> c = (w', s', mset ts))"

definition is_timer :: "ui_task \<Rightarrow> bool" where
  "is_timer t \<longleftrightarrow> (case t of TickAfter _ \<Rightarrow> True | _ \<Rightarrow> False)"

definition is_connect :: "ui_task \<Rightarrow> bool" where
  "is_connect t \<longleftrightarrow> (case t of ConnectTask _ _ \<Rightarrow> True | _ \<Rightarrow> False)"

lemma task_kinds [simp]:
  "is_timer (TickAfter n)" "\<not> is_timer (ConnectTask p dry)" "\<not> is_timer (DisconnectTask dry)" "\<not> is_timer (DiscoverAfterDelay x)"
  "\<not> is_timer (DiscoverTask x p)" "\<not> is_timer (PickTask k)" "\<not> is_timer ScanTask" "\<not> is_timer (ExportQrTask x b)"
  "\<not> is_timer (OpenUrlTask x)" "\<not> is_timer (RecordingTask e)" "\<not> is_timer (ExportLogTask x)" "\<not> is_timer (DeleteLogTask x)"
  "\<not> is_connect (TickAfter n)" "is_connect (ConnectTask p dry)" "\<not> is_connect (DisconnectTask dry)" "\<not> is_connect (DiscoverAfterDelay x)"
  "\<not> is_connect (DiscoverTask x p)" "\<not> is_connect (PickTask k)" "\<not> is_connect ScanTask" "\<not> is_connect (ExportQrTask x b)"
  "\<not> is_connect (OpenUrlTask x)" "\<not> is_connect (RecordingTask e)" "\<not> is_connect (ExportLogTask x)" "\<not> is_connect (DeleteLogTask x)"
  by (simp_all add: is_timer_def is_connect_def)

text \<open>The tasks the flags stand for; that a recording switches on or off is not kept in a flag.\<close>

fun guard_key :: "ui_task \<Rightarrow> ui_task option" where
  "guard_key ScanTask = Some ScanTask"
| "guard_key (RecordingTask _) = Some (RecordingTask True)"
| "guard_key (ExportLogTask f) = Some (ExportLogTask f)"
| "guard_key (DeleteLogTask f) = Some (DeleteLogTask f)"
| "guard_key _ = None"

definition guarded :: "ui_task multiset \<Rightarrow> ui_task multiset" where
  "guarded out = image_mset (\<lambda>t. the (guard_key t)) (filter_mset (\<lambda>t. guard_key t \<noteq> None) out)"

definition flag_tasks :: "ui_state \<Rightarrow> ui_task multiset" where
  "flag_tasks s = (if ui_qr_scan_pending s then {#ScanTask#} else {#})
     + (if ui_log_recording_pending s then {#RecordingTask True#} else {#})
     + (case ui_log_export_pending s of None \<Rightarrow> {#} | Some f \<Rightarrow> {#ExportLogTask f#})
     + (case ui_log_delete_pending s of None \<Rightarrow> {#} | Some f \<Rightarrow> {#DeleteLogTask f#})"

definition one_archive_task :: "ui_state \<Rightarrow> bool" where
  "one_archive_task s \<longleftrightarrow> ui_log_export_pending s = None \<or> ui_log_delete_pending s = None"

lemma guarded_simps [simp]:
  "guarded {#} = {#}" "guarded (a + b) = guarded a + guarded b"
  "guarded (add_mset t a) = (case guard_key t of None \<Rightarrow> guarded a | Some k \<Rightarrow> add_mset k (guarded a))"
  by (auto simp: guarded_def split: option.split)

lemma guarded_remove: "t \<in># out \<Longrightarrow> guarded out = guarded {#t#} + guarded (out - {#t#})"
  by (metis guarded_simps(2) insert_DiffM add_mset_add_single add.commute)

lemma flag_tasks_same: "pending_flags s' = pending_flags s \<Longrightarrow> flag_tasks s' = flag_tasks s \<and> (one_archive_task s' \<longleftrightarrow> one_archive_task s)"
  by (simp add: pending_flags_def flag_tasks_def one_archive_task_def)

lemma editor_tasks_unguarded: "list_all editor_task ts \<Longrightarrow> guarded (mset ts) = {#} \<and> filter_mset is_timer (mset ts) = {#} \<and> filter_mset is_connect (mset ts) = {#}"
proof (induction ts)
  case (Cons t ts)
  then show ?case by (cases t) auto
qed simp

lemma session_tasks:
  "guarded (mset (snd (reduce_session ec h a (w, s)))) = {#}"
  "size (filter_mset is_timer (mset (snd (reduce_session ec h a (w, s))))) = (if a = TickSession \<or> a = Bootstrap then 1 else 0)"
proof -
  have c: "guarded (mset (snd (start_connect ec h ws))) = {#} \<and> filter_mset is_timer (mset (snd (start_connect ec h ws))) = {#}"
    for ws :: "'a \<times> ui_state" using start_connect_tasks [of ec h ws] by auto
  have t: "guarded (mset (snd (tick_session ec h (w, s)))) = {#} \<and> size (filter_mset is_timer (mset (snd (tick_session ec h (w, s))))) = 1"
    by (rule tick_session_cases [of ec h w s]) (auto simp: c)
  show "guarded (mset (snd (reduce_session ec h a (w, s)))) = {#}"
    "size (filter_mset is_timer (mset (snd (reduce_session ec h a (w, s))))) = (if a = TickSession \<or> a = Bootstrap then 1 else 0)"
    using c t by (cases a; simp add: toggle_connect_def)+
qed

lemma session_keeps:
  "pending_flags (snd (fst (reduce_session ec h a (w, s)))) = pending_flags s"
  "ui_toasts_ok s \<Longrightarrow> ui_toasts_ok (snd (fst (reduce_session ec h a (w, s))))"
proof -
  have m: "mild s (snd (fst (reduce_session ec h a (w, s))))" if "a \<noteq> ToggleConnect"
    using that by (cases a) (auto simp: tick_session_mild mild_dismiss)
  then have "pending_flags (snd (fst (reduce_session ec h a (w, s)))) = pending_flags s
      \<and> (ui_toasts_ok s \<longrightarrow> ui_toasts_ok (snd (fst (reduce_session ec h a (w, s)))))"
    using toggle_connect_keeps [of ec h w s] by (cases "a = ToggleConnect") (auto simp: mild_def, (metis prod.collapse)+)
  then show "pending_flags (snd (fst (reduce_session ec h a (w, s)))) = pending_flags s"
    "ui_toasts_ok s \<Longrightarrow> ui_toasts_ok (snd (fst (reduce_session ec h a (w, s))))" by simp_all
qed

lemma editor_keeps:
  "pending_flags (snd (fst (reduce_editor ec h a (w, s)))) = pending_flags s"
  "ui_toasts_ok s \<Longrightarrow> ui_toasts_ok (snd (fst (reduce_editor ec h a (w, s))))"
  using reduce_editor_facts(1) [of s ec h a w] by (simp_all add: mild_def)

lemma list_mild:
  assumes "a \<noteq> ScanConnectionQr" "\<nexists>r. a = ConnectionQrScanned r"
  shows "mild s (snd (fst (reduce_list ec h a (w, s))))" "guarded (mset (snd (reduce_list ec h a (w, s)))) = {#}"
  using assms by (cases a; auto simp: case_prod_unfold Let_def split: sum.split)+

lemma scan_flags:
  "flag_tasks (snd (fst (reduce_list ec h ScanConnectionQr (w, s)))) =
     guarded (mset (snd (reduce_list ec h ScanConnectionQr (w, s)))) + flag_tasks s"
  "one_archive_task (snd (fst (reduce_list ec h ScanConnectionQr (w, s)))) \<longleftrightarrow> one_archive_task s"
  "pending_flags (snd (fst (reduce_list ec h (ConnectionQrScanned r) (w, s)))) = pending_flags (s\<lparr>ui_qr_scan_pending := False\<rparr>)"
  using connection_qr_scanned_mild [of s ec h r w] by (auto simp: flag_tasks_def one_archive_task_def mild_def)

lemma list_timers: "filter_mset is_timer (mset (snd (reduce_list ec h a (w, s)))) = {#}"
  by (cases a) auto

lemma log_flags:
  "user_action (Logs a) \<Longrightarrow> flag_tasks (fst (reduce_log h a s)) = guarded (mset (snd (reduce_log h a s))) + flag_tasks s"
  "user_action (Logs a) \<Longrightarrow> one_archive_task s \<Longrightarrow> one_archive_task (fst (reduce_log h a s))"
  by (cases a; auto simp: flag_tasks_def one_archive_task_def archive_busy_def split: option.split)+

lemma log_timers: "filter_mset is_timer (mset (snd (reduce_log h a s))) = {#}"
  by (cases a) auto

lemma log_toasts: "ui_toasts_ok s \<Longrightarrow> ui_toasts_ok (fst (reduce_log h a s))"
  by (cases a) (auto simp: Let_def split: sum.split)

lemma list_toasts: "ui_toasts_ok s \<Longrightarrow> ui_toasts_ok (snd (fst (reduce_list ec h a (w, s))))"
  using list_mild(1) [of a s ec h w] connection_qr_scanned_mild [of s ec h _ w] by (cases a) (auto simp: mild_def)

text \<open>The flag of a task that ends is set; handling its end resets the flag.\<close>

lemma log_done:
  assumes "completes t (Logs a)" "guarded {#t#} \<subseteq># flag_tasks s" "one_archive_task s"
  shows "flag_tasks s = guarded {#t#} + flag_tasks (fst (reduce_log h a s))" "snd (reduce_log h a s) = []"
    "one_archive_task (fst (reduce_log h a s))"
  using assms
  by (cases t; cases a; auto simp: flag_tasks_def one_archive_task_def Let_def push_prefixed_def push_message_def
      split: sum.split option.splits if_splits)+

lemma list_done:
  assumes "completes t (Connections a)" "guarded {#t#} \<subseteq># flag_tasks s"
  shows "flag_tasks s = guarded {#t#} + flag_tasks (snd (fst (reduce_list ec h a (w, s))))"
    "guarded (mset (snd (reduce_list ec h a (w, s)))) = {#}"
    "one_archive_task s \<Longrightarrow> one_archive_task (snd (fst (reduce_list ec h a (w, s))))"
proof -
  have "flag_tasks s = guarded {#t#} + flag_tasks (snd (fst (reduce_list ec h a (w, s))))
      \<and> guarded (mset (snd (reduce_list ec h a (w, s)))) = {#}
      \<and> (one_archive_task s \<longrightarrow> one_archive_task (snd (fst (reduce_list ec h a (w, s)))))"
  proof (cases "\<exists>r. a = ConnectionQrScanned r")
    case True
    then obtain r where a: "a = ConnectionQrScanned r" by blast
    then have t: "t = ScanTask" using assms(1) by (cases t) auto
    then have "ui_qr_scan_pending s" using assms(2) by (auto simp: flag_tasks_def split: if_splits option.splits)
    then show ?thesis using flag_tasks_same [OF scan_flags(3) [of ec h r w s]] a t
      by (simp add: flag_tasks_def one_archive_task_def)
  next
    case False
    moreover have "a \<noteq> ScanConnectionQr" "guarded {#t#} = {#}" using assms(1) False by (cases t; cases a; auto)+
    ultimately show ?thesis using list_mild(1) [of a s ec h w] list_mild(2) [of a ec h w s]
        flag_tasks_same [of "snd (fst (reduce_list ec h a (w, s)))" s] by (simp add: mild_def)
  qed
  then show "flag_tasks s = guarded {#t#} + flag_tasks (snd (fst (reduce_list ec h a (w, s))))"
    "guarded (mset (snd (reduce_list ec h a (w, s)))) = {#}"
    "one_archive_task s \<Longrightarrow> one_archive_task (snd (fst (reduce_list ec h a (w, s))))" by simp_all
qed

text \<open>The account of one action: what the flags stand for, and the timers.\<close>

lemma user_account:
  assumes "user_action a" "reduce ec h a (w, s) = ((w', s'), ts)" "one_archive_task s"
  shows "flag_tasks s' = guarded (mset ts) + flag_tasks s" "filter_mset is_timer (mset ts) = {#}" "one_archive_task s'"
proof -
  have "flag_tasks s' = guarded (mset ts) + flag_tasks s \<and> filter_mset is_timer (mset ts) = {#} \<and> one_archive_task s'"
  proof (cases a)
    case (Session b)
    have "size (filter_mset is_timer (mset ts)) = 0"
      using session_tasks(2) [of ec h b w s] Session assms by (auto split: session_action.splits)
    then show ?thesis using session_tasks(1) [of ec h b w s] flag_tasks_same [OF session_keeps(1) [of ec h b w s]] Session assms by auto
  next
    case (Editor b)
    then show ?thesis
      using editor_tasks_unguarded [OF reduce_editor_facts(2) [of ec h b w s]] flag_tasks_same [OF editor_keeps(1) [of ec h b w s]] assms
      by auto
  next
    case (Connections b)
    have not_scanned: "\<nexists>r. b = ConnectionQrScanned r" using assms(1) Connections by auto
    show ?thesis
    proof (cases "b = ScanConnectionQr")
      case True
      then show ?thesis using scan_flags(1,2) [of ec h w s] list_timers [of ec h b w s] Connections assms by auto
    next
      case False
      then show ?thesis
        using list_mild(1) [OF False not_scanned, of s ec h w] list_mild(2) [OF False not_scanned, of ec h w s] list_timers [of ec h b w s] flag_tasks_same [of s' s] Connections assms
        by (auto simp: mild_def)
    qed
  next
    case (Logs b)
    then show ?thesis using log_flags(1) [of b h s] log_flags(2) [of b s h] log_timers [of h b s] assms by (auto simp: case_prod_unfold)
  qed
  then show "flag_tasks s' = guarded (mset ts) + flag_tasks s" "filter_mset is_timer (mset ts) = {#}" "one_archive_task s'"
    by simp_all
qed

lemma done_account:
  assumes c: "completes t a" and r: "reduce ec h a (w, s) = ((w', s'), ts)" and f: "guarded {#t#} \<subseteq># flag_tasks s"
    and one: "one_archive_task s"
  shows "guarded {#t#} + flag_tasks s' = guarded (mset ts) + flag_tasks s"
    "size (filter_mset is_timer (mset ts)) = size (filter_mset is_timer {#t#})" "one_archive_task s'"
proof -
  have "guarded {#t#} + flag_tasks s' = guarded (mset ts) + flag_tasks s
      \<and> size (filter_mset is_timer (mset ts)) = size (filter_mset is_timer {#t#}) \<and> one_archive_task s'"
  proof (cases a)
    case (Session b)
    have "guarded {#t#} = {#}" and timer: "size (filter_mset is_timer {#t#}) = (if b = TickSession \<or> b = Bootstrap then 1 else 0)"
      using c Session by (cases t; auto split: session_action.splits)+
    then show ?thesis using session_tasks [of ec h b w s] flag_tasks_same [OF session_keeps(1) [of ec h b w s]] Session r one
      by auto
  next
    case (Editor b)
    have "guarded {#t#} = {#}" "filter_mset is_timer {#t#} = {#}" using c Editor by (cases t; auto split: editor_action.splits)+
    then show ?thesis
      using editor_tasks_unguarded [OF reduce_editor_facts(2) [of ec h b w s]] flag_tasks_same [OF editor_keeps(1) [of ec h b w s]] Editor r one
      by auto
  next
    case (Connections b)
    have "filter_mset is_timer {#t#} = {#}" using c Connections by (cases t) auto
    then show ?thesis using list_done [of t b s ec h w] list_timers [of ec h b w s] Connections c r f one by auto
  next
    case (Logs b)
    have "filter_mset is_timer {#t#} = {#}" using c Logs by (cases t) auto
    then show ?thesis using log_done [of t b s h] Logs c r f one by (auto simp: case_prod_unfold)
  qed
  then show "guarded {#t#} + flag_tasks s' = guarded (mset ts) + flag_tasks s"
    "size (filter_mset is_timer (mset ts)) = size (filter_mset is_timer {#t#})" "one_archive_task s'" by simp_all
qed

lemma reduce_toasts: "reduce ec h a (w, s) = ((w', s'), ts) \<Longrightarrow> ui_toasts_ok s \<Longrightarrow> ui_toasts_ok s'"
  using session_keeps(2) [of s ec h _ w] editor_keeps(2) [of s ec h _ w] list_toasts [of s ec h _ w] log_toasts [of s h]
  by (cases a) (auto simp: case_prod_unfold, (metis fst_conv snd_conv)+)

lemma ended_session:
  assumes "a \<noteq> ToggleConnect" "ui_user_disconnect s"
  shows "ui_user_disconnect (snd (fst (reduce_session ec h a (w, s))))"
    "filter_mset is_connect (mset (snd (reduce_session ec h a (w, s)))) = {#}"
proof -
  have t: "filter_mset is_connect (mset (snd (tick_session ec h (w, s)))) = {#}"
    by (rule tick_session_cases [of ec h w s]) (use assms(2) in \<open>auto simp: mild_def\<close>)
  have "mild s (snd (fst (reduce_session ec h a (w, s))))"
    using assms(1) by (cases a) (auto simp: tick_session_mild mild_dismiss)
  then show "ui_user_disconnect (snd (fst (reduce_session ec h a (w, s))))" using assms(2) by (simp add: mild_def)
  show "filter_mset is_connect (mset (snd (reduce_session ec h a (w, s)))) = {#}" using assms(1) t by (cases a) auto
qed

lemma ended_list:
  "ui_user_disconnect s \<Longrightarrow> ui_user_disconnect (snd (fst (reduce_list ec h a (w, s))))"
  "filter_mset is_connect (mset (snd (reduce_list ec h a (w, s)))) = {#}"
proof -
  show "ui_user_disconnect s \<Longrightarrow> ui_user_disconnect (snd (fst (reduce_list ec h a (w, s))))"
    using list_mild(1) [of a s ec h w] connection_qr_scanned_mild [of s ec h _ w] by (cases a) (auto simp: mild_def)
  show "filter_mset is_connect (mset (snd (reduce_list ec h a (w, s)))) = {#}" by (cases a) auto
qed

lemma ended_log:
  "ui_user_disconnect (fst (reduce_log h a s)) = ui_user_disconnect s" "filter_mset is_connect (mset (snd (reduce_log h a s))) = {#}"
  by (cases a; auto simp: Let_def split: sum.split)+

lemma reduce_ended:
  assumes "a \<noteq> Session ToggleConnect" "ui_user_disconnect s" "reduce ec h a (w, s) = ((w', s'), ts)"
  shows "ui_user_disconnect s'" "filter_mset is_connect (mset ts) = {#}"
proof -
  have "ui_user_disconnect s' \<and> filter_mset is_connect (mset ts) = {#}"
  proof (cases a)
    case (Session b)
    then show ?thesis using ended_session [of b s ec h w] assms by auto
  next
    case (Editor b)
    then show ?thesis
      using reduce_editor_facts(1) [of s ec h b w] editor_tasks_unguarded [OF reduce_editor_facts(2) [of ec h b w s]] assms
      by (auto simp: mild_def)
  next
    case (Connections b)
    then show ?thesis using ended_list(1) [of s ec h b w] ended_list(2) [of ec h b w s] assms by auto
  next
    case (Logs b)
    then show ?thesis using ended_log [of h b s] assms by (auto simp: case_prod_unfold)
  qed
  then show "ui_user_disconnect s'" "filter_mset is_connect (mset ts) = {#}" by simp_all
qed

subsection \<open>Runs\<close>

definition tasks_accounted :: "'w ui_config \<Rightarrow> bool" where
  "tasks_accounted c \<longleftrightarrow> (case c of (w, s, out) \<Rightarrow>
     guarded out = flag_tasks s \<and> size (filter_mset is_timer out) = 1 \<and> one_archive_task s)"

lemma started_accounted:
  assumes "ui_started c"
  shows "tasks_accounted c" "case c of (w, s, out) \<Rightarrow> ui_toasts_ok s"
proof -
  have new: "flag_tasks (ui_new h v snap logs app) = {#} \<and> one_archive_task (ui_new h v snap logs app) \<and> ui_toasts_ok (ui_new h v snap logs app)"
    for h v snap logs app
    by (simp add: ui_new_def Let_def case_prod_unfold flag_tasks_def one_archive_task_def toasts_ok_def)
  obtain ec h v snap logs app w w' s' ts
    where r: "reduce ec h (Session Bootstrap) (w, ui_new h v snap logs app) = ((w', s'), ts)" and c: "c = (w', s', mset ts)"
    using assms unfolding ui_started_def by blast
  have m: "mild (ui_new h v snap logs app) s'" and ts: "ts = [TickAfter 1000]"
    using r mild_sync [of "ui_new h v snap logs app" "(w, ui_new h v snap logs app)" ec] by auto
  show "tasks_accounted c"
    using m ts new [of h v snap logs app] flag_tasks_same [of s' "ui_new h v snap logs app"] by (simp add: c tasks_accounted_def mild_def)
  show "case c of (w, s, out) \<Rightarrow> ui_toasts_ok s" using m new [of h v snap logs app] by (simp add: c mild_def)
qed

lemma step_accounted: "ui_step l c c' \<Longrightarrow> tasks_accounted c \<Longrightarrow> tasks_accounted c'"
proof (induction rule: ui_step.induct)
  case (ui_user a ec h w s w' s' ts out)
  then show ?case using user_account [of a ec h w s w' s' ts] by (auto simp: tasks_accounted_def add.commute)
next
  case (ui_done t out a ec h w s w' s' ts)
  have "guarded {#t#} \<subseteq># flag_tasks s"
    using ui_done guarded_remove [of t out] by (auto simp: tasks_accounted_def) (metis mset_subset_eq_add_left)
  note account = done_account [OF ui_done.hyps(2,3) this]
  have one: "one_archive_task s" using ui_done by (simp add: tasks_accounted_def)
  have "size (filter_mset is_timer out) = size (filter_mset is_timer {#t#}) + size (filter_mset is_timer (out - {#t#}))"
    using ui_done.hyps(1) by (metis filter_union_mset insert_DiffM add_mset_add_single add.commute size_union)
  moreover have "guarded {#t#} + guarded (out - {#t#} + mset ts) = guarded {#t#} + flag_tasks s'"
  proof -
    have "guarded {#t#} + guarded (out - {#t#} + mset ts) = guarded out + guarded (mset ts)"
      unfolding guarded_remove [OF ui_done.hyps(1)] guarded_simps(2) by (rule add.assoc [symmetric])
    also have "\<dots> = guarded (mset ts) + flag_tasks s" using ui_done.prems by (simp only: tasks_accounted_def split_conv add.commute)
    also have "\<dots> = guarded {#t#} + flag_tasks s'" using account(1) [OF one] by (rule sym)
    finally show ?thesis .
  qed
  then have "guarded (out - {#t#} + mset ts) = flag_tasks s'" by (rule add_left_imp_eq)
  ultimately show ?case using account [OF one] ui_done.prems by (simp add: tasks_accounted_def)
next
  case (ui_engine w s out w')
  then show ?case by (simp add: tasks_accounted_def)
qed

lemma path_accounted: "ui_path c ls c' \<Longrightarrow> tasks_accounted c \<Longrightarrow> tasks_accounted c'"
  by (induction rule: ui_path.induct) (blast intro: step_accounted)+

definition shown_ok :: "'w ui_config \<Rightarrow> bool" where
  "shown_ok c \<longleftrightarrow> (case c of (w, s, out) \<Rightarrow> ui_toasts_ok s)"

lemma step_toasts: "ui_step l c c' \<Longrightarrow> shown_ok c \<Longrightarrow> shown_ok c'"
  by (induction rule: ui_step.induct) (auto simp: shown_ok_def dest: reduce_toasts)

lemma path_toasts: "ui_path c ls c' \<Longrightarrow> shown_ok c \<Longrightarrow> shown_ok c'"
  by (induction rule: ui_path.induct) (blast intro: step_toasts)+

lemma run_toasts: "ui_started start \<Longrightarrow> ui_path start ls (w, s, out) \<Longrightarrow> ui_toasts_ok s"
  using path_toasts started_accounted(2) unfolding shown_ok_def by fastforce

lemma no_new_connect:
  assumes "filter_mset is_connect (mset ts) = {#}"
  shows "filter_mset is_connect (out + mset ts) \<subseteq># filter_mset is_connect out"
    "filter_mset is_connect (out - {#t#} + mset ts) \<subseteq># filter_mset is_connect out"
  unfolding filter_union_mset assms by (simp_all only: add_0_right subset_mset.order_refl multiset_filter_mono diff_subset_eq_self)

lemma ended_step:
  assumes "ui_step l (w, s, out) (w', s', out')" "ui_user_disconnect s" "l \<noteq> Some (Session ToggleConnect)"
  shows "ui_user_disconnect s' \<and> filter_mset is_connect out' \<subseteq># filter_mset is_connect out"
  using assms(1)
proof (cases rule: ui_step.cases)
  case (ui_user a ec h ts)
  then show ?thesis using reduce_ended [of a s ec h w w' s' ts] no_new_connect(1) assms(2,3) by blast
next
  case (ui_done t a ec h ts)
  then show ?thesis using reduce_ended [of a s ec h w w' s' ts] no_new_connect(2) assms(2,3) by blast
qed (use assms(2) in auto)

lemma ended_path:
  assumes "ui_path c ls c'" "case c of (w, s, out) \<Rightarrow> ui_user_disconnect s" "Some (Session ToggleConnect) \<notin> set ls"
  shows "case c' of (w', s', out') \<Rightarrow> ui_user_disconnect s' \<and> (case c of (w, s, out) \<Rightarrow> filter_mset is_connect out' \<subseteq># filter_mset is_connect out)"
  using assms
proof (induction rule: ui_path.induct)
  case (ui_next c ls c' l c'')
  obtain w s out w1 s1 out1 w2 s2 out2 where c: "c = (w, s, out)" "c' = (w1, s1, out1)" "c'' = (w2, s2, out2)"
    by (metis prod_cases3)
  have "ui_user_disconnect s1 \<and> filter_mset is_connect out1 \<subseteq># filter_mset is_connect out" using ui_next by (simp add: c)
  moreover have "ui_user_disconnect s2 \<and> filter_mset is_connect out2 \<subseteq># filter_mset is_connect out1"
    using ended_step [of l w1 s1 out1 w2 s2 out2] ui_next calculation by (auto simp: c)
  ultimately show ?case by (auto simp: c intro: subset_mset.order_trans)
qed (auto split: prod.split)

lemma ending_action:
  assumes "reduce ec h (Session a) (w, s) = ((w', s'), ts)"
    "a = CancelChallenge \<or> a = ToggleConnect \<and> sn_lifecycle (ui_snapshot s) = Connected"
  shows "ui_user_disconnect s'" "filter_mset is_connect (mset ts) = {#}"
  using assms by (auto simp: cancel_challenge_def toggle_connect_def is_busy_def is_active_def)

subsection \<open>Properties\<close>


text \<open>At any moment at most two toasts are shown; each has a text that is not blank, has no blank ends and does not
  name the word the product avoids, in any letter case and also not where a replacement meets its surroundings; their
  ids grow from the oldest to the newest while the counter has not saturated.\<close>

theorem toasts_shown:
  assumes "ui_started start" "ui_path start ls (w, s, out)"
  shows "length (ui_toasts s) \<le> 2
    \<and> (\<forall>t \<in> set (ui_toasts s). ft_message t \<noteq> [] \<and> trim (ft_message t) = ft_message t
          \<and> \<not> contains_text (to_ascii_lowercase (ft_message t)) ''vpn'')
    \<and> (ui_next_toast_id s < max_u64 \<longrightarrow> sorted_wrt (\<lambda>a b. ft_id a < ft_id b) (ui_toasts s))"
  using run_toasts [OF assms] by (simp_all add: toasts_ok_def vpn_free_iff)

text \<open>C37: after the user ended a connection, or cancelled its authentication, no tick and no other event starts a
  connection until the user presses the button again, whatever lifecycles the engine reports.\<close>

theorem user_end_final:
  assumes "ui_step (Some (Session a)) (w, s, out) (w1, s1, out1)"
    "a = CancelChallenge \<or> a = ToggleConnect \<and> sn_lifecycle (ui_snapshot s) = Connected"
    "ui_path (w1, s1, out1) ls (w', s', out')" "Some (Session ToggleConnect) \<notin> set ls"
  shows "filter_mset is_connect out' \<subseteq># filter_mset is_connect out"
proof -
  have "ui_user_disconnect s1 \<and> filter_mset is_connect out1 \<subseteq># filter_mset is_connect out"
    using assms(1)
  proof (cases rule: ui_step.cases)
    case (ui_user ec h ts)
    then show ?thesis using ending_action [OF ui_user(3) assms(2)] no_new_connect(1) [of ts out] by (simp only:)
  next
    case (ui_done t ec h ts)
    then show ?thesis using ending_action [OF ui_done(4) assms(2)] no_new_connect(2) [of ts out t] by (simp only:)
  qed
  moreover have "filter_mset is_connect out' \<subseteq># filter_mset is_connect out1"
    using ended_path [OF assms(3) _ assms(4)] calculation by simp
  ultimately show ?thesis by (auto intro: subset_mset.order_trans)
qed

subsection \<open>Witnesses\<close>

text \<open>An engine that always shows the same session, and a host without answers.\<close>

definition demo_calls :: "session_snapshot \<Rightarrow> unit engine_calls" where
  "demo_calls snap = \<lparr>ec_snapshot = (\<lambda>w. (w, Ok snap)), ec_log_status = (\<lambda>w. (w, Err [])), ec_set_appearance = (\<lambda>_ _ w. (w, Ok ())),
     ec_select = (\<lambda>_ w. (w, Ok ())), ec_upsert = (\<lambda>_ w. (w, Ok ())), ec_delete = (\<lambda>_ w. (w, Ok ())), ec_tick = id,
     ec_submit = (\<lambda>_ w. (w, Ok ())), ec_cancel_auth = id, ec_take_browser = (\<lambda>w. (w, None)), ec_clear_browser = id\<rparr>"

definition demo_host :: host_calls where
  "demo_host = \<lparr>ho_translate = (\<lambda>_ key. key), ho_env = (\<lambda>_. None), ho_open_browser = (\<lambda>_. Ok ()), ho_millis = 0, ho_nanos = 0,
     ho_payload = \<lparr>encode = (\<lambda>_. Err []), decode = (\<lambda>_. Err []), byte_len = length, no_bytes = []\<rparr>\<rparr>"

definition demo_connection :: connection_profile where
  "demo_connection = new_draft\<lparr>pf_id := ''c'', pf_name := ''n'', pf_server := ''s'', pf_connect_on_demand := True\<rparr>"

definition demo_down :: session_snapshot where
  "demo_down = (unavailable_snapshot ''1.0'')\<lparr>sn_connections := [demo_connection], sn_active_connection_id := Some ''c''\<rparr>"
definition demo_up :: session_snapshot where "demo_up = demo_down\<lparr>sn_lifecycle := Connected\<rparr>"

definition demo_ui :: ui_state where
  "demo_ui = (ui_new demo_host ''1.0'' (Ok demo_up) (Err []) (Err []))"

definition demo_started :: "unit ui_config" where
  "demo_started = ((), demo_ui, {#TickAfter 1000#})"

lemmas demo_ui_simps = demo_calls_def demo_host_def demo_down_def demo_up_def demo_ui_def ui_new_def unavailable_snapshot_def
  or_default_def detect_system_locale_def detect_system_dark_def dry_run_from_env_def first_env_def sync_engine_def
  seed_challenge_draft_def

lemma demo_bootstrap: "ui_started demo_started"
proof -
  have "reduce (demo_calls demo_up) demo_host (Session Bootstrap) ((), demo_ui) = (((), demo_ui), [TickAfter 1000])"
    by (simp add: demo_ui_simps)
  then show ?thesis unfolding ui_started_def demo_started_def demo_ui_def
    by (intro exI [of _ "demo_calls demo_up"] exI [of _ demo_host] exI [of _ "''1.0''"] exI [of _ "Ok demo_up"]
        exI [of _ "Err []"] exI conjI) auto
qed

lemma user_path:
  assumes "user_action a" "reduce ec h a (w, s) = ((w', s'), ts)"
  shows "ui_path (w, s, out) [Some a] (w', s', out + mset ts)"
  using ui_next [OF ui_stop ui_user [OF assms]] by simp

lemma demo_scan:
  "ui_path demo_started [Some (Connections ScanConnectionQr)]
     ((), demo_ui\<lparr>ui_qr_scan_pending := True\<rparr>, {#TickAfter 1000#} + mset [ScanTask])"
  unfolding demo_started_def
  by (rule user_path [of _ "demo_calls demo_up" demo_host]) (simp_all add: demo_ui_simps)


lemma demo_toast:
  "ui_path demo_started [Some (Session SubmitChallenge)]
     ((), push_toast ''toast-no-auth-form'' demo_ui, {#TickAfter 1000#} + mset [])"
  unfolding demo_started_def
  by (rule user_path [of _ "demo_calls demo_up" demo_host])
    (simp_all add: demo_ui_simps submit_challenge_def push_message_def)

lemma toasts_shown_witness:
  "length (ui_toasts (push_toast ''toast-no-auth-form'' demo_ui)) \<le> 2"
  by (rule toasts_shown [OF demo_bootstrap demo_toast, THEN conjunct1])

text \<open>The user disconnects; the next tick finds the session down, with a profile that would be reconnected.\<close>

definition demo_pressed :: ui_state where
  "demo_pressed = demo_ui\<lparr>ui_user_disconnect := True,
     ui_snapshot := demo_up\<lparr>sn_lifecycle := Disconnecting, sn_last_error := None\<rparr>\<rparr>"

lemma demo_press:
  "ui_step (Some (Session ToggleConnect)) demo_started ((), demo_pressed, {#TickAfter 1000#} + mset [DisconnectTask False])"
  unfolding demo_started_def
  by (rule ui_user [of _ "demo_calls demo_up" demo_host])
    (simp_all add: demo_ui_simps demo_pressed_def toggle_connect_def is_busy_def is_active_def)

lemma demo_tick:
  "ui_path ((), demo_pressed, {#TickAfter 1000#} + mset [DisconnectTask False]) ([] @ [Some (Session TickSession)])
     ((), demo_pressed\<lparr>ui_snapshot := demo_down, ui_last_lifecycle := Disconnected\<rparr>,
      {#TickAfter 1000#} + mset [DisconnectTask False] - {#TickAfter 1000#} + mset [TickAfter 1000])"
  by (rule ui_next [OF ui_stop ui_done [of _ _ _ "demo_calls demo_down" demo_host]])
    (simp_all add: demo_ui_simps demo_pressed_def tick_session_def detect_system_def open_requested_browser_def
      should_auto_reconnect_to_def active_connection_def demo_connection_def fast_poll_def Let_def)

lemma user_end_final_witness:
  "filter_mset is_connect ({#TickAfter 1000#} + mset [DisconnectTask False] - {#TickAfter 1000#} + mset [TickAfter 1000])
     \<subseteq># filter_mset is_connect {#TickAfter 1000#}"
  by (rule user_end_final [OF demo_press [unfolded demo_started_def] _ demo_tick]) (simp_all add: demo_ui_simps)

end
