(* ===== verification/Oc_Ui_Engine.thy ===== *)
theory Oc_Ui_Engine
  imports Oc_Ui_Laws Oc_Profile_Laws Oc_Auth_Laws Oc_Settled
begin

text \<open>
  The UI on the model's engine: the futures that connect and disconnect (\<open>state/tasks.rs\<close>), the record of calls filled
  with the engine's operations, and what holds of both together. What the reducer relies on is the locale
  \<open>connection_list\<close>; the engine's operations interpret it.
\<close>

subsection \<open>Connecting and disconnecting\<close>

text \<open>What the two futures call: the operations of the engine, the encoding of the options, and the bridge to ArkTS.\<close>

record 'w connect_calls =
  cc_prepare :: "connect_request \<Rightarrow> 'w \<Rightarrow> 'w \<times> (str, vpn_options) result"
  cc_encode :: "vpn_options \<Rightarrow> (str, str) result"
  cc_request_start :: "str \<Rightarrow> (str, unit) result"
  cc_request_stop :: "(str, unit) result"
  cc_set_running :: "bool \<Rightarrow> 'w \<Rightarrow> 'w"
  cc_set_failed :: "str \<Rightarrow> 'w \<Rightarrow> 'w"
  cc_snapshot :: "'w \<Rightarrow> 'w \<times> (str, session_snapshot) result"
  cc_disconnect :: "'w \<Rightarrow> 'w \<times> (str, unit) result"

definition engine_connect ::
    "'w connect_calls \<Rightarrow> connection_profile \<Rightarrow> bool \<Rightarrow> 'w \<Rightarrow> 'w \<times> (str, session_outcome) result" where
  "engine_connect cc profile dry_run w =
     bind_in (cc_prepare cc \<lparr>cr_profile = profile, cr_dry_run = dry_run\<rparr> w) (\<lambda>options w.
     try_in w (cc_encode cc options) (\<lambda>options_json.
       case cc_request_start cc options_json of
         Ok _ \<Rightarrow> (w, Ok UiPlatformStartRequested)
       | Err e \<Rightarrow>
           if dry_run then
             bind_in (cc_snapshot cc (cc_set_running cc True w)) (\<lambda>snap w. (w, Ok (UiConnected (sn_stats snap))))
           else (cc_set_failed cc e w, Err (e @ '' (connection callback missing '' @ map char_of [0xE2, 0x80, 0x94 :: nat]
                                            @ '' real connect needs platform shell)''))))"

definition engine_disconnect :: "'w connect_calls \<Rightarrow> bool \<Rightarrow> 'w \<Rightarrow> 'w \<times> (str, session_outcome) result" where
  "engine_disconnect cc dry_run w =
     (case cc_request_stop cc of
        Ok _ \<Rightarrow> bind_in (cc_disconnect cc w) (\<lambda>_ w. (w, Ok UiDisconnected))
      | Err e \<Rightarrow>
          if dry_run then bind_in (cc_disconnect cc w) (\<lambda>_ w. (cc_set_running cc False w, Ok UiDisconnected))
          else (cc_set_running cc False (fst (cc_disconnect cc w)), Err e))"

subsection \<open>The other futures\<close>

definition set_log_recording_and_snapshot ::
    "('w \<Rightarrow> 'w \<times> (str, log_recording_status) result) \<Rightarrow> ('w \<Rightarrow> 'w \<times> (str, session_snapshot) result) \<Rightarrow> 'w
       \<Rightarrow> 'w \<times> (str, recording_change) result" where
  "set_log_recording_and_snapshot switch_recording snap w =
     bind_in (switch_recording w) (\<lambda>status w. bind_in (snap w) (\<lambda>x w. (w, Ok \<lparr>rc_snapshot = x, rc_status = status\<rparr>)))"

definition export_log_archive :: "(str \<Rightarrow> (str, str) result) \<Rightarrow> (str \<Rightarrow> str \<Rightarrow> (str, unit) result) \<Rightarrow> str \<Rightarrow> (str, str) result" where
  "export_log_archive read_file export_log file =
     and_then (read_file file) (\<lambda>content. and_then (export_log file content) (\<lambda>_. Ok file))"

definition delete_log_archive_task ::
    "(str \<Rightarrow> 'w \<Rightarrow> 'w \<times> (str, log_recording_status) result) \<Rightarrow> str \<Rightarrow> 'w \<Rightarrow> 'w \<times> (str, archive_delete) result" where
  "delete_log_archive_task delete file w =
     bind_in (delete file w) (\<lambda>status w. (w, Ok \<lparr>ad_file_name = file, ad_status = status\<rparr>))"

subsection \<open>The engine's operations as the calls of the UI\<close>

record ('b, 'm) engine_moments =
  em_ev :: "nat \<Rightarrow> moment"
  em_takes :: "captured_log \<Rightarrow> bool"
  em_between :: "('b, 'm) world \<Rightarrow> ('b, 'm) world"
  em_reports :: "native_report \<times> native_report"
  em_log_status :: "(str, log_recording_status) result"

definition model_calls :: "('b, 'm) config \<Rightarrow> ('b, 'm) engine_moments \<Rightarrow> ('b, 'm) world engine_calls" where
  "model_calls cf em =
     \<lparr>ec_snapshot = (\<lambda>w. case snapshot cf (em_ev em) (em_takes em) w of (w, s) \<Rightarrow> (w, Ok s)),
      ec_log_status = (\<lambda>w. (w, em_log_status em)),
      ec_set_appearance = set_appearance_preferences cf (em_ev em 0),
      ec_select = select_profile cf (em_ev em 0),
      ec_upsert = upsert_profile cf (em_ev em 0),
      ec_delete = delete_profile cf (em_ev em 0),
      ec_tick = (\<lambda>w. fst (tick cf (em_ev em) (em_between em) (em_reports em) w)),
      ec_submit = submit_auth_challenge,
      ec_cancel_auth = cancel_auth_challenge,
      ec_take_browser = (\<lambda>w. case take_platform_browser_open_request cf (em_ev em 0) w of
          (w, Ok (Some request)) \<Rightarrow> (w, Some (br_uri request)) | (w, _) \<Rightarrow> (w, None)),
      ec_clear_browser = (\<lambda>w. fst (clear_platform_browser_open_request cf (em_ev em 0) w))\<rparr>"

subsection \<open>What the reducer needs of the connection list\<close>

text \<open>
  \<open>shown\<close> is the engine's list. A snapshot shows it and leaves it; a profile with an id of its own is put in front of it
  or, when it is refused, not at all.
\<close>

locale connection_list =
  fixes ec :: "'w engine_calls" and shown :: "'w \<Rightarrow> connection_profile list"
  assumes snapshot_shows: "ec_snapshot ec w = (w', Ok snap) \<Longrightarrow> sn_connections snap = shown w'"
    and snapshot_leaves: "shown (fst (ec_snapshot ec w)) = shown w"
    and status_leaves: "shown (fst (ec_log_status ec w)) = shown w"
    and upsert_new: "pf_id p \<notin> pf_id ` set (shown w) \<Longrightarrow> shown (fst (ec_upsert ec p w)) \<in> {shown w, p # shown w}"
    and upsert_ok: "pf_id p \<notin> pf_id ` set (shown w) \<Longrightarrow> snd (ec_upsert ec p w) = Ok () \<Longrightarrow> shown (fst (ec_upsert ec p w)) = p # shown w"
begin

lemma sync_list: "shown (fst (sync_engine ec ws)) = shown (fst ws)"
proof -
  obtain w s where ws: "ws = (w, s)" by fastforce
  obtain w1 snap where s: "ec_snapshot ec w = (w1, snap)" by fastforce
  have "shown w1 = shown w" using snapshot_leaves [of w] s by simp
  then show ?thesis using s status_leaves [of w1] by (simp add: ws sync_engine_def Let_def case_prod_unfold)
qed

lemma import_list:
  assumes i: "new_imported_connection_id (ho_nanos h) (sn_connections (ui_snapshot s)) = Some i"
    and fresh: "i \<notin> pf_id ` set (shown w)" and r: "import_profile ec h p (w, s) = (w', s')"
  shows "shown w' \<in> {shown w, p\<lparr>pf_id := i\<rparr> # shown w}"
    "snd (ec_upsert ec (p\<lparr>pf_id := i\<rparr>) w) = Ok () \<Longrightarrow> shown w' = p\<lparr>pf_id := i\<rparr> # shown w"
proof -
  let ?p = "p\<lparr>pf_id := i\<rparr>"
  obtain w1 x where u: "ec_upsert ec ?p w = (w1, x)" by fastforce
  have "pf_id ?p = i" by simp
  then have new: "shown w1 \<in> {shown w, ?p # shown w}" "x = Ok () \<Longrightarrow> shown w1 = ?p # shown w"
    using upsert_new [of ?p w] upsert_ok [of ?p w] fresh u by simp_all
  have "shown w' = shown w1"
  proof (cases x)
    case (Inl e)
    then show ?thesis using r u i by (auto simp: import_profile_def)
  next
    case (Inr ok)
    then have "w' = fst (sync_engine ec (w1, s))" using r u i by (auto simp: import_profile_def Let_def case_prod_unfold)
    then show ?thesis using sync_list [of "(w1, s)"] by simp
  qed
  then show "shown w' \<in> {shown w, ?p # shown w}" "snd (ec_upsert ec ?p w) = Ok () \<Longrightarrow> shown w' = ?p # shown w"
    using new u by auto
qed

end

subsection \<open>The engine's list\<close>

text \<open>Taking over a frame of the other process, and refreshing the figures, leave the connections alone.\<close>

named_theorems list_kept \<open>blocks that leave the connection list alone\<close>

lemma blocks_list [list_kept]:
  "connections_of (push_diag_locked mo l m w) = connections_of w"
  "connections_of (set_lifecycle_locked lc e w) = connections_of w"
  "connections_of (set_stats st w) = connections_of w"
  "connections_of (notify_platform_start_locked w) = connections_of w"
  by (simp_all add: push_diag_locked_def set_lifecycle_locked_def set_stats_def notify_platform_start_locked_def Let_def)

lemma lease_list [list_kept]: "connections_of (drop_leases w) = connections_of w"
  by (simp add: drop_leases_def drop_issuer_lease_def drop_extension_lease_def split: option.split)

lemma stats_list [list_kept]: "connections_of (merge_running_stats remote w) = connections_of w"
  by (simp add: merge_running_stats_def Let_def list_kept)

lemma heartbeat_list [list_kept]:
  "connections_of (fst (heartbeat_watchdog_expired now ui r mt a w)) = connections_of w"
  by (simp add: heartbeat_watchdog_expired_def Let_def)

lemma revision_list [list_kept]:
  "connections_of (note_revision mo remote w) = connections_of w"
  "connections_of (release_client ui remote w) = connections_of w"
  by (simp_all add: note_revision_def release_client_def)

lemma phase_list [list_kept]:
  "connections_of (take_flags ui remote mt w) = connections_of w"
  "connections_of (take_outcome remote mt w) = connections_of w"
  "connections_of (take_attachment remote mt w) = connections_of w"
  "connections_of (settle_failure remote b w) = connections_of w"
  by (simp_all add: take_flags_def take_outcome_def take_attachment_def settle_failure_def)

lemma adopt_list [list_kept]: "connections_of (adopt_attempt remote w) = connections_of w"
  by (simp add: adopt_attempt_def Let_def list_kept)

lemma calls_list [list_kept]:
  "connections_of (fst (persist_platform_locked cf mo w)) = connections_of w"
  "connections_of (persist_ignored cf mo w) = connections_of w"
  using persist_ignored_snapshot [of cf mo w] by (simp_all add: persist_ignored_def)

lemma lifecycle_list [list_kept]: "connections_of (take_lifecycle now remote mt wa r st w) = connections_of w"
  by (simp add: take_lifecycle_def Let_def list_kept)

lemma take_phase_list [list_kept]: "connections_of (take_phase ui remote mt w) = connections_of w"
  by (simp add: take_phase_def drop_finished_leases_def list_kept)

lemma fold_list [list_kept]: "connections_of (fold_frame mo ui remote w) = connections_of w"
  by (simp add: fold_frame_def Let_def list_kept)

lemma trip_list [list_kept]: "connections_of (trip_watchdog cf mo w) = connections_of w"
  by (simp add: trip_watchdog_def list_kept)

lemma matching_list [list_kept]: "connections_of (apply_matching_frame cf mo ui adopted remote w) = connections_of w"
  by (rule apply_frame_cases [of cf mo ui adopted remote w]) (simp_all add: list_kept)

lemma envelope_list [list_kept]: "connections_of (fst (apply_platform_envelope_locked cf mo ui expected env w)) = connections_of w"
proof -
  obtain w' ack where e: "apply_platform_envelope_locked cf mo ui expected env w = (w', ack)" by (metis prod.exhaust)
  from e have "connections_of w' = connections_of w"
  proof (rule envelope_cases)
    fix v
    assume "(v, ack) = (if ui then (w, False) else acknowledge_platform_browser_request_locked (pe_browser_request_ack env) w)"
    then have v: "in_snapshot v = in_snapshot w" using acknowledge_parts(6) by (metis prod.inject)
    show ?thesis if "w' = v \<and> (\<forall>r. pe_state env = Some r \<longrightarrow> ps_start_attempt_id r \<noteq> in_platform_start_attempt_id w
             \<and> (ui \<or> expected \<noteq> Some (ps_start_attempt_id r)) \<or> ps_start_attempt_id r = [])
       \<or> (\<exists>r. pe_state env = Some r \<and> ps_start_attempt_id r = in_platform_start_attempt_id w \<and> ps_start_attempt_id r \<noteq> []
            \<and> w' = apply_matching_frame cf mo ui False r v)
       \<or> (\<exists>r. pe_state env = Some r \<and> \<not> ui \<and> expected = Some (ps_start_attempt_id r) \<and> ps_start_attempt_id r \<noteq> []
            \<and> ps_start_attempt_id r \<noteq> in_platform_start_attempt_id w
            \<and> w' = apply_matching_frame cf mo ui True r (adopt_attempt r v))"
      using that v by (auto simp: list_kept)
  qed
  then show ?thesis using e by simp
qed

lemma synced_list [list_kept]: "connections_of (synced cf mo w) = connections_of w"
  by (simp add: synced_def sync_platform_locked_def sync_platform_locked_with_adoption_def list_kept case_prod_unfold
      split: option.split sum.split)

lemma snapshot_list:
  "connections_of (fst (snapshot cf ev takes w)) = connections_of w"
  "sn_connections (snd (snapshot cf ev takes w)) = connections_of w"
  by (simp_all add: snapshot_def Let_def set_pending_auth_def set_diagnostics_def refresh_stats_locked_def list_kept split: option.split)

lemma upsert_fresh:
  assumes "pf_id p \<notin> pf_id ` set (connections_of w)"
  shows "connections_of (fst (upsert_profile cf mo p w)) \<in> {connections_of w, p # connections_of w}"
    "snd (upsert_profile cf mo p w) = Ok () \<Longrightarrow> connections_of (fst (upsert_profile cf mo p w)) = p # connections_of w"
proof -
  have new: "\<not> has_profile (pf_id p) (connections_of w)" using assms by (simp add: has_profile_ids)
  show "connections_of (fst (upsert_profile cf mo p w)) \<in> {connections_of w, p # connections_of w}"
    using upsert_list(1) [of cf mo p w] new by (auto simp: list_after_def Let_def split: if_splits)
  assume ok: "snd (upsert_profile cf mo p w) = Ok ()"
  then have "validate p = Ok ()" by (cases "validate p") (simp_all add: upsert_profile_def)
  moreover from this have "\<not> (active_id w = Some (pf_id p) \<and> session_busy w)"
    using ok by (auto simp: upsert_profile_def Let_def split: if_splits)
  ultimately show "connections_of (fst (upsert_profile cf mo p w)) = p # connections_of w"
    using upsert_list(1) [of cf mo p w] new by (auto simp: list_after_def Let_def)
qed

interpretation engine_list: connection_list "model_calls cf em" "\<lambda>w. connections_of w" for cf em
proof (unfold_locales, goal_cases)
  case (1 w w' snap)
  then show ?case using snapshot_list [of cf "em_ev em" "em_takes em" w] by (auto simp: model_calls_def split: prod.splits)
next
  case (2 w)
  then show ?case using snapshot_list(1) [of cf "em_ev em" "em_takes em" w] by (simp add: model_calls_def case_prod_unfold)
next
  case (3 w)
  then show ?case by (simp add: model_calls_def)
next
  case (4 p w)
  then show ?case using upsert_fresh(1) by (simp add: model_calls_def)
next
  case (5 p w)
  then show ?case using upsert_fresh(2) [of p w cf "em_ev em 0"] by (simp add: model_calls_def)
qed

subsection \<open>A new id is always found\<close>

lemma show_dec_inj: "show_dec a = show_dec b \<Longrightarrow> a = b"
  by (drule arg_cong [where f = "digits_val 10"]) (simp add: digits_val_show del: show_radix.simps)

lemma candidate_inj: "imported_candidate nanos a = imported_candidate nanos b \<Longrightarrow> a = b"
  by (auto simp: imported_candidate_def dest: show_dec_inj)

lemma imported_id_fresh: "imported_id n ps nanos k = Some i \<Longrightarrow> i \<notin> pf_id ` set ps"
  by (induction n ps nanos k rule: imported_id.induct) (auto simp: list_ex_iff split: if_splits)

lemma imported_id_taken:
  "imported_id n ps nanos k = None \<Longrightarrow> k + n \<le> 4294967296 \<Longrightarrow> imported_candidate nanos ` {k..<k + n} \<subseteq> pf_id ` set ps"
proof (induction n ps nanos k rule: imported_id.induct)
  case (2 n ps nanos k)
  then have "list_ex (\<lambda>p. pf_id p = imported_candidate nanos k) ps" by (simp split: if_splits)
  then obtain p where "p \<in> set ps" "pf_id p = imported_candidate nanos k" by (auto simp only: list_ex_iff)
  then have here: "imported_candidate nanos k \<in> pf_id ` set ps" by (rule rev_image_eqI [OF _ sym])
  show ?case
  proof (cases n)
    case 0
    then show ?thesis using here by simp
  next
    case (Suc m)
    then have "min (k + 1) 4294967295 = k + 1" using 2 by simp
    then have "imported_candidate nanos ` {k + 1..<k + 1 + n} \<subseteq> pf_id ` set ps" using 2 by (simp split: if_splits)
    moreover have "{k..<k + Suc n} = insert k {k + 1..<k + 1 + n}" by auto
    ultimately show ?thesis using here by simp
  qed
qed simp

lemma imported_id_found:
  assumes "length ps < 4294967296"
  obtains i where "new_imported_connection_id nanos ps = Some i" "i \<notin> pf_id ` set ps"
proof (cases "new_imported_connection_id nanos ps")
  case None
  then have "imported_candidate nanos ` {0..<length ps + 1} \<subseteq> pf_id ` set ps"
    using imported_id_taken [of "length ps + 1" ps nanos 0] assms by (simp add: new_imported_connection_id_def)
  then have "card (imported_candidate nanos ` {0..<length ps + 1}) \<le> length ps"
    by (meson card_image_le card_length card_mono finite_imageI finite_set le_trans)
  then show thesis using card_image [of "imported_candidate nanos" "{0..<length ps + 1}"] by (auto simp: inj_on_def dest: candidate_inj)
next
  case (Some i)
  show thesis
    by (rule that [OF Some], rule imported_id_fresh [OF Some [unfolded new_imported_connection_id_def]])
qed

subsection \<open>A scanned connection\<close>

lemma validate_id [simp]: "validate (p\<lparr>pf_id := i\<rparr>) = validate p"
  by (simp add: validate_def server_url_def Let_def split: option.split)

text \<open>JSON text is an object between braces: neither the marks nor the blanks around a scan are part of it.\<close>

lemma object_text: "drop_marks (CHR ''{'' # m @ ''}'') = CHR ''{'' # m @ ''}''" "trim (CHR ''{'' # m @ ''}'') = CHR ''{'' # m @ ''}''"
proof -
  have "\<not> prefix byte_order_mark (CHR ''{'' # m @ ''}'')" by (simp add: byte_order_mark_def char_of_def)
  then show "drop_marks (CHR ''{'' # m @ ''}'') = CHR ''{'' # m @ ''}''" by (subst drop_marks.simps) (rule if_not_P)
  show "trim (CHR ''{'' # m @ ''}'') = CHR ''{'' # m @ ''}''"
    using trim_plain_ends [of "CHR ''{''" "m @ ''}''"] by (simp add: plain_def cp_def)
qed

lemma decode_encoded:
  assumes "encode_connection_qr c q = Ok code" and "\<And>x t. encode c x = Ok t \<Longrightarrow> decode c t = Ok x"
    and "code = CHR ''{'' # m @ ''}''" and "length code \<le> max_scanned_bytes"
  shows "decode_connection_qr c code = Ok (q\<lparr>pf_id := []\<rparr>)"
proof -
  let ?payload = "\<lparr>qr_payload_format = qr_format, qr_payload_version = qr_version, qr_payload_profile = q\<lparr>pf_id := []\<rparr>\<rparr>"
  have "validate q = Ok ()" "encode c ?payload = Ok code"
    using assms(1) by (auto simp: encode_connection_qr_def and_then_def split: sum.splits)
  then show ?thesis using assms(2) [of ?payload code] assms(3,4) by (simp add: decode_connection_qr_def object_text)
qed

lemma decoded_valid: "decode_connection_qr c scanned = Ok p \<Longrightarrow> validate p = Ok ()"
  by (auto simp: decode_connection_qr_def Let_def and_then_def split: sum.splits if_splits)

text \<open>The engine's connections after the scanner came back with a text.\<close>

definition after_scan ::
    "('b, 'm) config \<Rightarrow> ('b, 'm) engine_moments \<Rightarrow> host_calls \<Rightarrow> ('b, 'm) world \<times> ui_state \<Rightarrow> str \<Rightarrow> connection_profile list" where
  "after_scan cf em h ws content =
     connections_of (fst (fst (reduce (model_calls cf em) h (Connections (ConnectionQrScanned (Ok content))) ws)))"

lemma scanned_list:
  assumes known: "pf_id ` set (connections_of w) \<subseteq> pf_id ` set (sn_connections (ui_snapshot s))"
    and few: "length (sn_connections (ui_snapshot s)) < 4294967296"
    and p: "decode_connection_qr (ho_payload h) content = Ok p" "content \<noteq> []"
  obtains i where "i \<notin> pf_id ` set (connections_of w)"
    "connections_of (fst (connection_qr_scanned (model_calls cf em) h (Ok content) (w, s)))
       \<in> {connections_of w, p\<lparr>pf_id := i\<rparr> # connections_of w}"
    "snd (upsert_profile cf (em_ev em 0) (p\<lparr>pf_id := i\<rparr>) w) = Ok () \<Longrightarrow>
       connections_of (fst (connection_qr_scanned (model_calls cf em) h (Ok content) (w, s))) = p\<lparr>pf_id := i\<rparr> # connections_of w"
proof -
  obtain i where i: "new_imported_connection_id (ho_nanos h) (sn_connections (ui_snapshot s)) = Some i"
      "i \<notin> pf_id ` set (sn_connections (ui_snapshot s))"
    using imported_id_found [OF few] by blast
  let ?s = "s\<lparr>ui_qr_scan_pending := False\<rparr>"
  obtain w' s' where r: "import_profile (model_calls cf em) h p (w, ?s) = (w', s')" by fastforce
  have "connection_qr_scanned (model_calls cf em) h (Ok content) (w, s) = (w', s')"
    using r p by (simp add: connection_qr_scanned_def)
  moreover have "i \<notin> pf_id ` set (connections_of w)" using i known by blast
  moreover have "new_imported_connection_id (ho_nanos h) (sn_connections (ui_snapshot ?s)) = Some i" using i by simp
  ultimately show thesis
    using that [of i] engine_list.import_list [OF _ _ r, of i] by (simp add: model_calls_def)
qed

lemma after_scan_eq:
  "after_scan cf em h (w, s) t = connections_of (fst (connection_qr_scanned (model_calls cf em) h (Ok t) (w, s)))"
  unfolding after_scan_def by simp

lemma scan_valid:
  assumes "pf_id ` set (connections_of w) \<subseteq> pf_id ` set (sn_connections (ui_snapshot s))"
    and "length (sn_connections (ui_snapshot s)) < 4294967296"
  shows "after_scan cf em h (w, s) content = connections_of w
     \<or> (\<exists>p i. validate (p\<lparr>pf_id := i\<rparr>) = Ok () \<and> i \<notin> pf_id ` set (connections_of w)
            \<and> after_scan cf em h (w, s) content = p\<lparr>pf_id := i\<rparr> # connections_of w)"
proof (cases "content = []")
  case True
  then show ?thesis by (simp add: after_scan_eq connection_qr_scanned_def)
next
  case False
  show ?thesis
  proof (cases "decode_connection_qr (ho_payload h) content")
    case (Inl e)
    then show ?thesis by (simp add: after_scan_eq connection_qr_scanned_def Let_def)
  next
    case (Inr p)
    obtain i where "i \<notin> pf_id ` set (connections_of w)"
        "after_scan cf em h (w, s) content \<in> {connections_of w, p\<lparr>pf_id := i\<rparr> # connections_of w}"
      by (rule scanned_list [OF assms Inr False, of cf em]) (auto simp: after_scan_eq)
    then show ?thesis using decoded_valid [OF Inr] by auto
  qed
qed

lemma scan_encoded:
  assumes "pf_id ` set (connections_of w) \<subseteq> pf_id ` set (sn_connections (ui_snapshot s))"
    and "length (sn_connections (ui_snapshot s)) < 4294967296"
    and code: "encode_connection_qr (ho_payload h) q = Ok content" "content = CHR ''{'' # m @ ''}''" "length content \<le> max_scanned_bytes"
      "\<And>x t. encode (ho_payload h) x = Ok t \<Longrightarrow> decode (ho_payload h) t = Ok x"
  shows "\<exists>i. i \<notin> pf_id ` set (connections_of w)
     \<and> after_scan cf em h (w, s) content \<in> {connections_of w, q\<lparr>pf_id := i\<rparr> # connections_of w}
     \<and> (snd (upsert_profile cf (em_ev em 0) (q\<lparr>pf_id := i\<rparr>) w) = Ok ()
          \<longrightarrow> after_scan cf em h (w, s) content = q\<lparr>pf_id := i\<rparr> # connections_of w)"
proof -
  have p: "decode_connection_qr (ho_payload h) content = Ok (q\<lparr>pf_id := []\<rparr>)" using decode_encoded [OF code(1,4,2,3)] by simp
  have "content \<noteq> []" using code(2) by simp
  show ?thesis unfolding after_scan_eq by (rule scanned_list [OF assms(1,2) p \<open>content \<noteq> []\<close>, of cf em]) auto
qed

text \<open>C38: What a scanned code does to the engine's connections, when the list on screen names all of them and is shorter
  than 2^32: nothing, or a profile that is valid and has an id no connection has goes in front of them, the others
  untouched. When the code is the text made from a connection, the profile is that connection with the new id, and it
  is there whenever the engine accepts it.\<close>

theorem scanned_connection_added:
  assumes "pf_id ` set (connections_of w) \<subseteq> pf_id ` set (sn_connections (ui_snapshot s))"
    and "length (sn_connections (ui_snapshot s)) < 4294967296"
  shows "(after_scan cf em h (w, s) content = connections_of w
       \<or> (\<exists>p i. validate (p\<lparr>pf_id := i\<rparr>) = Ok () \<and> i \<notin> pf_id ` set (connections_of w)
              \<and> after_scan cf em h (w, s) content = p\<lparr>pf_id := i\<rparr> # connections_of w))
     \<and> (encode_connection_qr (ho_payload h) q = Ok content \<and> (\<exists>m. content = CHR ''{'' # m @ ''}'')
          \<and> length content \<le> max_scanned_bytes \<and> (\<forall>x t. encode (ho_payload h) x = Ok t \<longrightarrow> decode (ho_payload h) t = Ok x)
        \<longrightarrow> (\<exists>i. i \<notin> pf_id ` set (connections_of w)
              \<and> after_scan cf em h (w, s) content \<in> {connections_of w, q\<lparr>pf_id := i\<rparr> # connections_of w}
              \<and> (snd (upsert_profile cf (em_ev em 0) (q\<lparr>pf_id := i\<rparr>) w) = Ok ()
                   \<longrightarrow> after_scan cf em h (w, s) content = q\<lparr>pf_id := i\<rparr> # connections_of w)))"
proof (intro conjI impI)
  show "after_scan cf em h (w, s) content = connections_of w
       \<or> (\<exists>p i. validate (p\<lparr>pf_id := i\<rparr>) = Ok () \<and> i \<notin> pf_id ` set (connections_of w)
              \<and> after_scan cf em h (w, s) content = p\<lparr>pf_id := i\<rparr> # connections_of w)"
    by (rule scan_valid [OF assms])
qed (use scan_encoded [OF assms] in blast)

text \<open>A first start: nothing saved, nothing on screen, and the code of \<open>demo_profile\<close>.\<close>

definition demo_payload :: qr_payload where
  "demo_payload = \<lparr>qr_payload_format = qr_format, qr_payload_version = qr_version, qr_payload_profile = Oc_Profile_Laws.demo_profile\<lparr>pf_id := []\<rparr>\<rparr>"

definition demo_scan_host :: host_calls where
  "demo_scan_host = demo_host\<lparr>ho_payload := \<lparr>encode = (\<lambda>x. if x = demo_payload then Ok (CHR ''{'' # ''q'' @ ''}'') else Err []),
     decode = (\<lambda>t. Ok demo_payload), byte_len = length, no_bytes = []\<rparr>\<rparr>"

definition demo_moments :: "(demo_doc, nat \<Rightarrow> byte) engine_moments" where
  "demo_moments = (let report = \<lparr>nr_protect_error = None, nr_finished = False, nr_joined = Ok (), nr_traffic = session_stats_default\<rparr>
     in \<lparr>em_ev = demo_moment, em_takes = (\<lambda>_. False), em_between = id, em_reports = (report, report), em_log_status = Err []\<rparr>)"

lemma upsert_unsaved:
  assumes "validate p = Ok ()" "in_store w = None" "\<not> session_busy w"
  shows "snd (upsert_profile cf mo p w) = Ok ()"
proof -
  have "snd (persist_profiles cf mo v) = Ok ()" if "in_store v = None" for v
    using that by (simp add: persist_profiles_def save_connections_def persist_preferences_locked_def)
  then show ?thesis using assms
    by (simp add: upsert_profile_def Let_def bind_in_def case_prod_unfold set_connections_def set_active_def split: option.split sum.split)
qed

lemma fresh_fields: "in_store fresh_world = None" "\<not> session_busy fresh_world" "connections_of fresh_world = []"
  by (simp_all add: fresh_world_simps session_busy_def seed_snapshot_def is_busy_def is_active_def)

lemma demo_accepted: "snd (upsert_profile demo_config (em_ev demo_moments 0) (Oc_Profile_Laws.demo_profile\<lparr>pf_id := i\<rparr>) fresh_world) = Ok ()"
  by (rule upsert_unsaved) (simp_all add: demo_profile_valid fresh_fields)

lemma scanned_connection_added_witness:
  "\<exists>i. after_scan demo_config demo_moments demo_scan_host (fresh_world, demo_ui) (CHR ''{'' # ''q'' @ ''}'')
         = [Oc_Profile_Laws.demo_profile\<lparr>pf_id := i\<rparr>]"
proof -
  have known: "pf_id ` set (connections_of fresh_world) \<subseteq> pf_id ` set (sn_connections (ui_snapshot demo_ui))"
    by (simp add: fresh_fields)
  have few: "length (sn_connections (ui_snapshot demo_ui)) < 4294967296" by (simp add: demo_ui_simps)
  have code: "encode_connection_qr (ho_payload demo_scan_host) Oc_Profile_Laws.demo_profile = Ok (CHR ''{'' # ''q'' @ ''}'')"
    by (simp add: encode_connection_qr_def demo_profile_valid demo_scan_host_def demo_payload_def)
  have "\<forall>x t. encode (ho_payload demo_scan_host) x = Ok t \<longrightarrow> decode (ho_payload demo_scan_host) t = Ok x"
    by (simp add: demo_scan_host_def)
  moreover have "length (CHR ''{'' # ''q'' @ ''}'') \<le> max_scanned_bytes" by (simp add: max_scanned_bytes_def)
  moreover have "\<exists>m. CHR ''{'' # ''q'' @ ''}'' = CHR ''{'' # m @ ''}''" by blast
  ultimately obtain i where
    "snd (upsert_profile demo_config (em_ev demo_moments 0) (Oc_Profile_Laws.demo_profile\<lparr>pf_id := i\<rparr>) fresh_world) = Ok ()
       \<longrightarrow> after_scan demo_config demo_moments demo_scan_host (fresh_world, demo_ui) (CHR ''{'' # ''q'' @ ''}'')
             = Oc_Profile_Laws.demo_profile\<lparr>pf_id := i\<rparr> # connections_of fresh_world"
    using scanned_connection_added [OF known few, THEN conjunct2, of demo_scan_host Oc_Profile_Laws.demo_profile
        "CHR ''{'' # ''q'' @ ''}''" demo_config demo_moments] code by blast
  then show ?thesis using demo_accepted by (auto simp: fresh_fields)
qed

end
