(* ===== verification/Oc_Ui_Reply.thy ===== *)
theory Oc_Ui_Reply
  imports Oc_Ui_Laws Oc_Form_Laws
begin

text \<open>
  From the keyboard to the server's form: the fields of a prompt, the answers the reducer collects for them
  (\<open>Action::SubmitChallenge\<close> of \<open>state.rs\<close>) and the values the form handler binds (\<open>native_session.rs\<close>). Two components
  that only share the challenge agree on which answer belongs to which option.
\<close>

text \<open>What the user typed into a field; blanks count as nothing.\<close>

definition typed :: "ui_state \<Rightarrow> auth_field \<Rightarrow> str option" where
  "typed s f = (case ui_challenge_values s (af_key f) of None \<Rightarrow> None | Some v \<Rightarrow> if trim v = [] then None else Some v)"

definition answer_of :: "ui_state \<Rightarrow> auth_field \<Rightarrow> auth_field_value option" where
  "answer_of s f = map_option (\<lambda>v. \<lparr>fv_key = af_key f, fv_value = v\<rparr>) (typed s f)"

lemma reply_values: "ar_values (challenge_reply s challenge) = filter_map (answer_of s) (ac_fields challenge)"
  unfolding challenge_reply_def answer_of_def typed_def
  by (auto intro!: arg_cong2 [of _ _ _ _ filter_map] split: option.split)

lemma reply_keys: "map fv_key (filter_map (answer_of s) fs) = map af_key (filter (\<lambda>f. typed s f \<noteq> None) fs)"
  by (induction fs) (auto simp: answer_of_def split: option.split)

lemma reply_lookup:
  "map_of (map (\<lambda>a. (fv_key a, fv_value a)) (filter_map (answer_of s) fs)) k =
     (case find (\<lambda>f. af_key f = k \<and> typed s f \<noteq> None) fs of None \<Rightarrow> None | Some f \<Rightarrow> typed s f)"
  by (induction fs) (auto simp: answer_of_def split: option.split)

lemma typed_key: "af_key f = af_key g \<Longrightarrow> typed s f = typed s g"
  by (simp add: typed_def)

lemma bound_typed:
  "bound_value (filter_map (answer_of s) gs) f =
     (if af_key f \<in> af_key ` set gs \<and> typed s f \<noteq> None then typed s f else own_value f)"
proof (cases "find (\<lambda>g. af_key g = af_key f \<and> typed s g \<noteq> None) gs")
  case None
  then have "\<not> (af_key f \<in> af_key ` set gs \<and> typed s f \<noteq> None)"
    unfolding find_None_iff using typed_key by (metis imageE)
  then have "bound_value (filter_map (answer_of s) gs) f = own_value f \<and> \<not> (af_key f \<in> af_key ` set gs \<and> typed s f \<noteq> None)"
    unfolding bound_value_def reply_lookup None by simp
  then show ?thesis by metis
next
  case (Some g)
  then have g: "g \<in> set gs" "af_key g = af_key f" "typed s g \<noteq> None" by (auto simp: find_Some_iff)
  then have "af_key f \<in> af_key ` set gs" by (metis imageI)
  moreover have "typed s g = typed s f" using g(2) by (rule typed_key)
  ultimately show ?thesis using Some g by (auto simp: bound_value_def reply_lookup)
qed

lemma user_fields_subseq: "subseq (fields_for_user_input fs a) fs"
proof -
  have "subseq (map snd (filter P (enumerate n xs))) xs" for P :: "nat \<times> auth_field \<Rightarrow> bool" and n xs
    by (induction xs arbitrary: n) auto
  then show ?thesis by (simp add: fields_for_user_input_def)
qed

lemma form_keys_distinct: "length (sf_options form) \<le> Suc max_u32 \<Longrightarrow> distinct (map af_key (form_fields creds form))"
  by (rule match_distinct [OF form_fields_match]) simp

text \<open>C39: Whatever form the server sends and whatever the user typed, the reply the UI submits for the prompt of that
  form is never refused as stale or out of order: every option of the form gets the text typed into its own field, and an
  option the prompt did not show, or that was left blank, keeps the value it had. When the UI lets the reply
  through, every required field it shows has text that is not blank.\<close>

theorem submitted_reply_binds:
  assumes asked: "ac_fields challenge = fields_for_user_input (form_fields creds form) applied"
    and len: "length (sf_options form) \<le> Suc max_u32"
  shows "bind_reply_values_by_option (form_fields creds form) (challenge_reply s challenge) =
      Ok (map (\<lambda>f. if f \<in> set (ac_fields challenge) \<and> typed s f \<noteq> None then typed s f
                   else if af_value f \<noteq> [] then Some (af_value f) else None) (form_fields creds form))
    \<and> (\<not> missing_required s challenge \<longrightarrow> (\<forall>f \<in> set (ac_fields challenge). af_required f \<and> \<not> is_hidden_field f
          \<longrightarrow> (\<exists>v. typed s f = Some v \<and> trim v \<noteq> [])))"
proof (intro conjI impI ballI)
  let ?fs = "form_fields creds form" and ?gs = "ac_fields challenge"
  let ?answers = "filter_map (answer_of s) ?gs"
  have dist: "distinct (map af_key ?fs)" by (rule form_keys_distinct [OF len])
  have sub: "subseq ?gs ?fs" unfolding asked by (rule user_fields_subseq)
  have "subseq (filter (\<lambda>f. typed s f \<noteq> None) ?gs) ?fs"
    using sub subseq_filter_left by (meson subseq_order.order_trans)
  then have keys: "subseq (map fv_key ?answers) (map af_key ?fs)" unfolding reply_keys by (rule subseq_map)
  have "bound_value ?answers f = (if f \<in> set ?gs \<and> typed s f \<noteq> None then typed s f else own_value f)" if "f \<in> set ?fs" for f
  proof -
    have "af_key f \<in> af_key ` set ?gs \<longleftrightarrow> f \<in> set ?gs"
      using that dist list_emb_set [OF sub] by (auto simp: distinct_map inj_on_def)
    then show ?thesis unfolding bound_typed by simp
  qed
  then have "map (bound_value ?answers) ?fs = map (\<lambda>f. if f \<in> set ?gs \<and> typed s f \<noteq> None then typed s f else own_value f) ?fs"
    by simp
  moreover have "snd (bind_go ?fs ?answers) = []" "fst (bind_go ?fs ?answers) = map (bound_value ?answers) ?fs"
    using bind_go_left keys bind_go_values [OF dist keys] by blast+
  ultimately show "bind_reply_values_by_option ?fs (challenge_reply s challenge) =
      Ok (map (\<lambda>f. if f \<in> set ?gs \<and> typed s f \<noteq> None then typed s f
                   else if af_value f \<noteq> [] then Some (af_value f) else None) ?fs)"
    by (simp add: bind_reply_values_by_option_def reply_values case_prod_unfold own_value_def)
  show "\<exists>v. typed s f = Some v \<and> trim v \<noteq> []"
    if "\<not> missing_required s challenge" "f \<in> set ?gs" "af_required f \<and> \<not> is_hidden_field f" for f
    using that by (auto simp: missing_required_def typed_def list_ex_iff split: option.splits)
qed

text \<open>A second factor: one password option, and six digits in its field.\<close>

definition demo_otp :: server_form where
  "demo_otp = demo_form ''challenge'' [demo_option FPassword None]"

definition demo_asks :: credential_application where
  "demo_asks = \<lparr>ca_profile_owned = [], ca_user_owned = [0]\<rparr>"

definition demo_typing :: ui_state where
  "demo_typing = demo_ui\<lparr>ui_challenge_values := (\<lambda>_. Some ''123456'')\<rparr>"

definition demo_prompt :: auth_challenge where
  "demo_prompt = demo_challenge\<lparr>ac_fields := fields_for_user_input (form_fields demo_creds demo_otp) demo_asks\<rparr>"

lemma demo_otp_field: "\<exists>f. form_fields demo_creds demo_otp = [f] \<and> fields_for_user_input (form_fields demo_creds demo_otp) demo_asks = [f]"
  by (simp add: demo_otp_def demo_asks_def form_fields_def demo_form_simps apply_credentials_to_fields_def for_anyconnect_def
      snapshot_form_fields_def field_of_option_def protocol_owns_auth_value_def fields_for_user_input_def Let_def)

lemma submitted_reply_binds_witness:
  "bind_reply_values_by_option (form_fields demo_creds demo_otp) (challenge_reply demo_typing demo_prompt) = Ok [Some ''123456'']"
proof -
  obtain f where f: "form_fields demo_creds demo_otp = [f]" "fields_for_user_input (form_fields demo_creds demo_otp) demo_asks = [f]"
    using demo_otp_field by blast
  have "typed demo_typing f = Some ''123456''" by (simp add: typed_def demo_typing_def trim_plain plain_def cp_def)
  moreover have "ac_fields demo_prompt = fields_for_user_input (form_fields demo_creds demo_otp) demo_asks"
    by (simp add: demo_prompt_def)
  ultimately show ?thesis using submitted_reply_binds [of demo_prompt demo_creds demo_otp demo_asks demo_typing] f
    by (simp add: demo_otp_def demo_form_simps)
qed

end
