(* ===== verification/Oc_Handoff.thy ===== *)
theory Oc_Handoff
  imports Oc_Ipc_Laws
begin

text \<open>
  The one-time transfer of the two descriptors and the request to the VPN process (\<open>vpn_handoff.rs\<close>): a listening
  socket named by a random token, one frame with the descriptors beside it, written and read in whatever pieces the
  kernel chooses. A system call is a value of \<open>sys_call\<close>; a call list is what the kernel answers in order, and a
  function that outlives its list is still blocked (\<open>None\<close>).
\<close>

subsection \<open>System calls\<close>

datatype 'a sys_call = Returned 'a | Interrupted | CallFailed str

text \<open>The loops that repeat a call as long as it is interrupted.\<close>

fun retried :: "'a sys_call list \<Rightarrow> ((str, 'a) result \<times> 'a sys_call list) option" where
  "retried [] = None"
| "retried (Interrupted # cs) = retried cs"
| "retried (CallFailed e # cs) = Some (Err e, cs)"
| "retried (Returned x # cs) = Some (Ok x, cs)"

subsection \<open>Tokens and addresses\<close>

record handoff_payload =
  hp_attempt_id :: str
  hp_options_json :: str

record received_handoff =
  rh_payload :: handoff_payload
  rh_ashmem :: int
  rh_notification :: int

definition handoff_magic :: nat where "handoff_magic = 0x484F5646"
definition handoff_header_size :: nat where "handoff_header_size = 12"
definition handoff_max_payload :: nat where "handoff_max_payload = 1024 * 1024"
definition handoff_socket_prefix :: str where "handoff_socket_prefix = ''hopenconnect-vpn-handoff-''"

definition is_ascii_hexdigit :: "char \<Rightarrow> bool" where
  "is_ascii_hexdigit c \<longleftrightarrow> is_ascii_digit c \<or> 65 \<le> cp c \<and> cp c \<le> 70 \<or> 97 \<le> cp c \<and> cp c \<le> 102"

definition hex_byte :: "byte \<Rightarrow> str" where
  "hex_byte b = [digit_char (unat b div 16), digit_char (unat b mod 16)]"

text \<open>\<open>random\<close> is the answer of the random device to a request for 16 bytes.\<close>

definition random_token :: "(str, byte list) result \<Rightarrow> (str, str) result" where
  "random_token random = and_then random (\<lambda>bytes. Ok (concat (map hex_byte bytes)))"

text \<open>The path of a socket address holds 108 bytes; the leading zero byte makes the name abstract.\<close>

definition sun_path_size :: nat where "sun_path_size = 108"

definition handoff_address :: "str \<Rightarrow> (str, str) result" where
  "handoff_address token =
     (if length token \<noteq> 32 \<or> \<not> list_all is_ascii_hexdigit token then Err ''VPN handoff token is invalid''
      else let name = char_of (0 :: nat) # handoff_socket_prefix @ token
           in if length name > sun_path_size then Err ''VPN handoff socket name is too long'' else Ok name)"

subsection \<open>The listener\<close>

text \<open>The slot holds the listening socket, here by the name it is bound to.\<close>

record prepare_calls =
  pc_random :: "(str, byte list) result"
  pc_socket :: "(str, unit) result"
  pc_bind :: "(str, unit) result"
  pc_listen :: "(str, unit) result"
  pc_close_on_exec :: "(str, unit) result"
  pc_nonblocking :: "(str, unit) result"

definition handoff_prepare :: "prepare_calls \<Rightarrow> str \<Rightarrow> str option \<Rightarrow> str option \<times> (str, str) result" where
  "handoff_prepare pc attempt slot =
     (if attempt = [] then (slot, Err ''VPN handoff attempt id is empty'')
      else
      try_in slot (random_token (pc_random pc)) (\<lambda>token.
      try_in slot (handoff_address token) (\<lambda>address.
      try_in slot (pc_socket pc) (\<lambda>_.
      try_in slot (pc_bind pc) (\<lambda>_.
      try_in slot (pc_listen pc) (\<lambda>_.
      try_in slot (pc_close_on_exec pc) (\<lambda>_.
      try_in slot (pc_nonblocking pc) (\<lambda>_. (Some address, Ok token)))))))))"

text \<open>What \<open>poll\<close> answers: readable, some other event with the error last set, nothing in time, interrupted, an error.\<close>

datatype poll_call = Readable | OtherEvent str | TimedOut | PollInterrupted | PollFailed str

fun wait_readable :: "poll_call list \<Rightarrow> (str, unit) result option" where
  "wait_readable [] = None"
| "wait_readable (Readable # cs) = Some (Ok ())"
| "wait_readable (TimedOut # cs) = Some (Err ''VPN Extension did not connect to the handoff socket'')"
| "wait_readable (PollInterrupted # cs) = wait_readable cs"
| "wait_readable (OtherEvent e # cs) = Some (Err e)"
| "wait_readable (PollFailed e # cs) = Some (Err e)"

subsection \<open>Sending\<close>

text \<open>What has been put on the connection: bytes, and the descriptors that travel with the first of them.\<close>

record socket_stream =
  st_bytes :: "byte list"
  st_fds :: "int list"

definition handoff_frame :: "nat \<Rightarrow> byte list \<Rightarrow> byte list" where
  "handoff_frame descriptors payload =
     le_bytes 4 handoff_magic @ le_bytes 4 (length payload) @ le_bytes 4 descriptors @ payload"

text \<open>The answer of a write is how many of the bytes it took, never more than there are.\<close>

fun send_remaining :: "nat sys_call list \<Rightarrow> byte list \<Rightarrow> (byte list \<times> (str, unit) result) option" where
  "send_remaining cs [] = Some ([], Ok ())"
| "send_remaining [] (b # bs) = None"
| "send_remaining (Interrupted # cs) (b # bs) = send_remaining cs (b # bs)"
| "send_remaining (CallFailed e # cs) (b # bs) = Some ([], Err e)"
| "send_remaining (Returned n # cs) (b # bs) =
     (if n = 0 then Some ([], Err ''VPN handoff socket wrote no data'')
      else map_option (map_prod ((@) (take n (b # bs))) id) (send_remaining cs (drop n (b # bs))))"

definition send_frame :: "bool \<Rightarrow> nat sys_call list \<Rightarrow> int list \<Rightarrow> byte list \<Rightarrow> (socket_stream \<times> (str, unit) result) option" where
  "send_frame control cs descriptors payload =
     (let frame = handoff_frame (length descriptors) payload; nothing = \<lparr>st_bytes = [], st_fds = []\<rparr>
      in if \<not> control then Some (nothing, Err ''failed to build VPN handoff control message'')
         else case retried cs of
             None \<Rightarrow> None
           | Some (Err e, cs) \<Rightarrow> Some (nothing, Err e)
           | Some (Ok sent, cs) \<Rightarrow>
               if sent = 0 then Some (nothing, Err ''VPN handoff socket wrote no data'')
               else map_option (\<lambda>(more, r). (\<lparr>st_bytes = take sent frame @ more, st_fds = descriptors\<rparr>, r))
                      (send_remaining cs (drop sent frame)))"

record send_calls =
  sc_poll :: "poll_call list"
  sc_accept :: "unit sys_call list"
  sc_close_on_exec :: "(str, unit) result"
  sc_control :: bool
  sc_send :: "nat sys_call list"

text \<open>The listener leaves its slot before the wait: it is used once.\<close>

definition handoff_send ::
    "(byte list, handoff_payload) codec \<Rightarrow> send_calls \<Rightarrow> int \<Rightarrow> int \<Rightarrow> str \<Rightarrow> str \<Rightarrow> str option
       \<Rightarrow> str option \<times> (socket_stream \<times> (str, unit) result) option" where
  "handoff_send c sc ashmem_fd notification_fd attempt options_json slot =
     (let failed = (\<lambda>e. Some (\<lparr>st_bytes = [], st_fds = []\<rparr>, Err e))
      in if ashmem_fd < 0 \<or> notification_fd < 0 then (slot, failed ''VPN handoff descriptors are invalid'')
         else if slot = None then (None, failed ''VPN handoff is not prepared'')
         else (None,
           case wait_readable (sc_poll sc) of
             None \<Rightarrow> None
           | Some (Err e) \<Rightarrow> failed e
           | Some (Ok _) \<Rightarrow>
               (case retried (sc_accept sc) of
                  None \<Rightarrow> None
                | Some (Err e, _) \<Rightarrow> failed e
                | Some (Ok _, _) \<Rightarrow>
                    (case sc_close_on_exec sc of
                       Err e \<Rightarrow> failed e
                     | Ok _ \<Rightarrow>
                         (case encode c \<lparr>hp_attempt_id = attempt, hp_options_json = options_json\<rparr> of
                            Err e \<Rightarrow> failed e
                          | Ok payload \<Rightarrow>
                              if length payload > handoff_max_payload then failed ''VPN handoff payload is too large''
                              else send_frame (sc_control sc) (sc_send sc) [ashmem_fd, notification_fd] payload)))))"

subsection \<open>Receiving\<close>

text \<open>A control header: whether it carries descriptors, its length with the 16 bytes of the header itself, and the
  numbers that follow it.\<close>

record control_header =
  ch_rights :: bool
  ch_len :: nat
  ch_fds :: "int list"

definition cmsg_base :: nat where "cmsg_base = 16"

fun own_descriptors :: "(int \<Rightarrow> (str, unit) result) \<Rightarrow> int list \<Rightarrow> (str, int list) result" where
  "own_descriptors close_on_exec [] = Ok []"
| "own_descriptors close_on_exec (fd # fds) =
     (if fd \<ge> 0 then and_then (close_on_exec fd) (\<lambda>_. and_then (own_descriptors close_on_exec fds) (\<lambda>rest. Ok (fd # rest)))
      else own_descriptors close_on_exec fds)"

fun receive_descriptors :: "(int \<Rightarrow> (str, unit) result) \<Rightarrow> control_header list \<Rightarrow> (str, int list) result" where
  "receive_descriptors close_on_exec [] = Ok []"
| "receive_descriptors close_on_exec (h # hs) =
     (if ch_rights h then
        if ch_len h < cmsg_base then Err ''VPN handoff control message is malformed''
        else and_then (own_descriptors close_on_exec (take ((ch_len h - cmsg_base) div 4) (ch_fds h))) (\<lambda>mine.
             and_then (receive_descriptors close_on_exec hs) (\<lambda>more. Ok (mine @ more)))
      else receive_descriptors close_on_exec hs)"

text \<open>
  A read of at most \<open>room\<close> bytes takes what the kernel returns of the bytes still on the connection; none when there
  are none. \<open>read_up_to\<close> is the two loops over \<open>receive_more\<close>: it reads until \<open>goal\<close> bytes are there.
\<close>

fun read_up_to :: "nat sys_call list \<Rightarrow> byte list \<Rightarrow> byte list \<Rightarrow> nat
    \<Rightarrow> ((str, byte list) result \<times> nat sys_call list \<times> byte list) option" where
  "read_up_to [] wire got goal = (if goal \<le> length got then Some (Ok got, [], wire) else None)"
| "read_up_to (c # cs) wire got goal =
     (if goal \<le> length got then Some (Ok got, c # cs, wire)
      else case c of
          Interrupted \<Rightarrow> read_up_to cs wire got goal
        | CallFailed e \<Rightarrow> Some (Err e, cs, wire)
        | Returned n \<Rightarrow>
            (let k = min n (min (goal - length got) (length wire))
             in if k = 0 then Some (Err ''VPN handoff frame was truncated'', cs, wire)
                else read_up_to cs (drop k wire) (got @ take k wire) goal))"

definition receive_frame ::
    "(int \<Rightarrow> (str, unit) result) \<Rightarrow> control_header list \<Rightarrow> nat sys_call list \<Rightarrow> byte list
       \<Rightarrow> (str, byte list \<times> int list) result option" where
  "receive_frame close_on_exec headers cs wire =
     (case retried cs of
        None \<Rightarrow> None
      | Some (Err e, cs) \<Rightarrow> Some (Err e)
      | Some (Ok n, cs) \<Rightarrow>
          (let k = min n (min (handoff_header_size + handoff_max_payload) (length wire))
           in if k = 0 then Some (Err ''VPN handoff peer closed before sending data'')
              else case receive_descriptors close_on_exec headers of
                Err e \<Rightarrow> Some (Err e)
              | Ok descriptors \<Rightarrow>
                  (case read_up_to cs (drop k wire) (take k wire) handoff_header_size of
                     None \<Rightarrow> None
                   | Some (Err e, _) \<Rightarrow> Some (Err e)
                   | Some (Ok frame, cs, wire) \<Rightarrow>
                       (let magic = le_val (slice 0 4 frame);
                            payload_len = le_val (slice 4 8 frame);
                            descriptor_count = le_val (slice 8 12 frame)
                        in if magic \<noteq> handoff_magic \<or> payload_len > handoff_max_payload then
                             Some (Err ''VPN handoff frame header is invalid'')
                           else if descriptor_count \<noteq> length descriptors then
                             Some (Err ''VPN handoff descriptor count does not match the frame'')
                           else
                             (case read_up_to cs wire frame (handoff_header_size + payload_len) of
                                None \<Rightarrow> None
                              | Some (Err e, _) \<Rightarrow> Some (Err e)
                              | Some (Ok frame, _) \<Rightarrow> Some (Ok (take payload_len (drop handoff_header_size frame), descriptors)))))))"

record receive_calls =
  rv_socket :: "(str, unit) result"
  rv_close_on_exec :: "(str, unit) result"
  rv_connect :: "(str, unit) result"
  rv_own :: "int \<Rightarrow> (str, unit) result"
  rv_headers :: "control_header list"
  rv_recv :: "nat sys_call list"

definition handoff_receive ::
    "(byte list, handoff_payload) codec \<Rightarrow> receive_calls \<Rightarrow> str \<Rightarrow> byte list \<Rightarrow> (str, received_handoff) result option" where
  "handoff_receive c rv token wire =
     (case and_then (handoff_address token) (\<lambda>address.
           and_then (rv_socket rv) (\<lambda>_. and_then (rv_close_on_exec rv) (\<lambda>_. rv_connect rv))) of
        Err e \<Rightarrow> Some (Err e)
      | Ok _ \<Rightarrow>
          (case receive_frame (rv_own rv) (rv_headers rv) (rv_recv rv) wire of
             None \<Rightarrow> None
           | Some (Err e) \<Rightarrow> Some (Err e)
           | Some (Ok (payload, descriptors)) \<Rightarrow>
               Some (if length descriptors \<noteq> 2 then
                       Err (''VPN handoff carried '' @ show_dec (length descriptors) @ '' descriptors instead of 2'')
                     else and_then (decode c payload) (\<lambda>payload.
                       Ok \<lparr>rh_payload = payload, rh_ashmem = descriptors ! 0, rh_notification = descriptors ! 1\<rparr>))))"

subsection \<open>Whole frames from pieces\<close>

text \<open>A kernel without errors that moves at least one byte whenever it moves any, and how often it does.\<close>

fun steady :: "nat sys_call \<Rightarrow> bool" where
  "steady (Returned n) \<longleftrightarrow> 0 < n"
| "steady Interrupted \<longleftrightarrow> True"
| "steady (CallFailed e) \<longleftrightarrow> False"

definition moves :: "nat sys_call list \<Rightarrow> nat" where
  "moves cs = length (filter (\<lambda>c. c \<noteq> Interrupted) cs)"

lemma moves_simps [simp]: "moves [] = 0" "moves (Interrupted # cs) = moves cs" "moves (Returned n # cs) = Suc (moves cs)"
  "moves (CallFailed e # cs) = Suc (moves cs)"
  by (simp_all add: moves_def)

lemma send_remaining_all: "send_remaining cs bs = Some (rest, Ok ()) \<Longrightarrow> rest = bs"
  by (induction cs bs arbitrary: rest rule: send_remaining.induct) (auto split: if_splits)

lemma send_frame_all:
  "send_frame control cs fds payload = Some (stream, Ok ()) \<Longrightarrow>
     stream = \<lparr>st_bytes = handoff_frame (length fds) payload, st_fds = fds\<rparr>"
  by (auto simp: send_frame_def Let_def split: if_splits option.splits sum.splits dest!: send_remaining_all)

lemma read_step:
  assumes "\<not> goal \<le> length got" "k = min n (min (goal - length got) (length wire))"
  shows "k \<noteq> 0 \<Longrightarrow> read_up_to (Returned n # cs) wire got goal = read_up_to cs (drop k wire) (got @ take k wire) goal"
    "k = 0 \<Longrightarrow> read_up_to (Returned n # cs) wire got goal = Some (Err ''VPN handoff frame was truncated'', cs, wire)"
  using assms by (simp_all only: read_up_to.simps sys_call.case if_False if_True Let_def refl)

lemma read_up_to_Ok:
  "read_up_to cs wire got goal = Some (Ok frame, cs', wire') \<Longrightarrow>
     frame @ wire' = got @ wire \<and> goal \<le> length frame \<and> (length got \<le> goal \<longrightarrow> length frame = goal)
     \<and> (goal \<le> length got \<longrightarrow> frame = got)"
proof (induction cs wire got goal rule: read_up_to.induct)
  case (2 c cs wire got goal)
  show ?case
  proof (cases "goal \<le> length got")
    case False
    show ?thesis
    proof (cases c)
      case (Returned n)
      let ?k = "min n (min (goal - length got) (length wire))"
      have k: "?k \<noteq> 0"
      proof
        assume "?k = 0"
        then show False using 2(3) read_step(2) [OF False refl, of n wire cs] unfolding Returned by (simp del: read_up_to.simps)
      qed
      then have "read_up_to cs (drop ?k wire) (got @ take ?k wire) goal = Some (Ok frame, cs', wire')"
        using 2(3) read_step(1) [OF False refl k, of cs] unfolding Returned by (simp del: read_up_to.simps)
      from 2(1) [OF False Returned refl k this] False show ?thesis by auto
    qed (use 2(2) [OF False] 2(3) False in auto)
  qed (use 2(3) in auto)
qed (auto split: if_splits)

text \<open>Enough moves always fill the frame, whatever the pieces; at most one is spent on each byte.\<close>

lemma read_up_to_enough:
  "list_all steady cs \<Longrightarrow> goal \<le> length got + length wire \<Longrightarrow> goal - length got \<le> moves cs \<Longrightarrow>
     \<exists>frame cs' wire'. read_up_to cs wire got goal = Some (Ok frame, cs', wire')
       \<and> list_all steady cs' \<and> moves cs \<le> moves cs' + (length frame - length got)"
proof (induction cs wire got goal rule: read_up_to.induct)
  case (2 c cs wire got goal)
  show ?case
  proof (cases "goal \<le> length got")
    case False
    show ?thesis
    proof (cases c)
      case (Returned n)
      let ?k = "min n (min (goal - length got) (length wire))"
      have k: "?k \<noteq> 0" using 2(3,4) False Returned by auto
      have "list_all steady cs" "goal \<le> length (got @ take ?k wire) + length (drop ?k wire)"
        "goal - length (got @ take ?k wire) \<le> moves cs"
        using 2(3-5) False Returned k by auto
      from 2(1) [OF False Returned refl k this] obtain frame cs' wire' where
        r: "read_up_to cs (drop ?k wire) (got @ take ?k wire) goal = Some (Ok frame, cs', wire')"
          "list_all steady cs'" "moves cs \<le> moves cs' + (length frame - length (got @ take ?k wire))" by blast
      have "?k \<le> goal - length got" by (rule min.coboundedI2, rule min.cobounded1)
      then have "length (got @ take ?k wire) \<le> goal" using False by auto
      then have "length (got @ take ?k wire) \<le> length frame" using read_up_to_Ok [OF r(1)] by linarith
      moreover have "length (got @ take ?k wire) = length got + ?k" by simp
      moreover have "Suc m \<le> j + (f - g)" if "m \<le> j + (f - t)" "t \<le> f" "t = g + (a :: nat)" "a \<noteq> 0" for m j f t g a
        using that by arith
      ultimately have "moves (c # cs) \<le> moves cs' + (length frame - length got)" using r(3) k unfolding Returned moves_simps by blast
      moreover have "read_up_to (c # cs) wire got goal = Some (Ok frame, cs', wire')"
        using r(1) read_step(1) [OF False refl k, of cs] unfolding Returned by (simp del: read_up_to.simps)
      ultimately show ?thesis using r(2) by blast
    next
      case Interrupted
      then show ?thesis using 2(2) [OF False] 2(3-5) False by auto
    qed (use 2(3) in simp)
  qed (use 2(3) in auto)
qed auto

declare read_up_to.simps [simp del]

lemma retried_steady:
  "list_all steady cs \<Longrightarrow> 0 < moves cs \<Longrightarrow>
     \<exists>n cs'. retried cs = Some (Ok n, cs') \<and> 0 < n \<and> list_all steady cs' \<and> moves cs = Suc (moves cs')"
  by (induction cs rule: retried.induct) auto

lemma le_bytes_val: "le_bytes (length bs) (le_val bs) = bs"
proof (induction bs)
  case (Cons b bs)
  have z: "(256 :: byte) = 0" by simp
  have "unat b < 256" using unsigned_less [of b] by simp
  then have "(unat b + 256 * le_val bs) div 256 = le_val bs" by simp
  moreover have "word_of_nat (unat b + 256 * le_val bs) = b" by (simp add: z)
  ultimately show ?case using Cons by simp
qed simp

lemma header_slices:
  assumes "handoff_header_size \<le> length g"
  shows "g = le_bytes 4 (le_val (slice 0 4 g)) @ le_bytes 4 (le_val (slice 4 8 g)) @ le_bytes 4 (le_val (slice 8 12 g)) @ drop 12 g"
proof -
  have len: "length (slice i (i + 4) g) = 4" if "i + 4 \<le> 12" for i
    using assms that by (simp add: slice_def handoff_header_size_def)
  have "le_bytes 4 (le_val (slice i (i + 4) g)) = slice i (i + 4) g" if "i + 4 \<le> 12" for i
    using le_bytes_val [of "slice i (i + 4) g"] len [OF that] by simp
  from this [of 0] this [of 4] this [of 8] have
    "le_bytes 4 (le_val (slice 0 4 g)) @ le_bytes 4 (le_val (slice 4 8 g)) @ le_bytes 4 (le_val (slice 8 12 g)) @ drop 12 g
       = slice 0 4 g @ slice 4 8 g @ slice 8 12 g @ drop 12 g" by simp
  also have "\<dots> = g"
    using append_take_drop_id [of 4 g] append_take_drop_id [of 4 "drop 4 g"] append_take_drop_id [of 4 "drop 8 g"]
    by (simp add: slice_def)
  finally show ?thesis by simp
qed

lemma sent_slices:
  assumes "g = handoff_frame n payload @ rest \<or> g @ rest = handoff_frame n payload \<and> handoff_header_size \<le> length g"
    and "length payload \<le> handoff_max_payload" "n \<le> 8"
  shows "le_val (slice 0 4 g) = handoff_magic" "le_val (slice 4 8 g) = length payload" "le_val (slice 8 12 g) = n"
proof -
  let ?h = "le_bytes 4 handoff_magic @ le_bytes 4 (length payload) @ le_bytes 4 n"
  have "take 12 g = ?h"
  proof (cases "g = handoff_frame n payload @ rest")
    case True
    then show ?thesis by (simp add: handoff_frame_def)
  next
    case False
    then have g: "g @ rest = handoff_frame n payload" "12 \<le> length g" using assms(1) by (auto simp: handoff_header_size_def)
    then have "take 12 g = take 12 (handoff_frame n payload)" by (metis take_append diff_is_0_eq' take0 append_Nil2)
    then show ?thesis by (simp add: handoff_frame_def)
  qed
  moreover have cut: "slice i j g = slice i j (take 12 g)" if "j \<le> 12" for i j
    using that by (simp add: slice_def drop_take min_def)
  ultimately have "slice 0 4 g = le_bytes 4 handoff_magic" "slice 4 8 g = le_bytes 4 (length payload)" "slice 8 12 g = le_bytes 4 n"
    unfolding cut [of 4 0, simplified] cut [of 8 4, simplified] cut [of 12 8, simplified] by (simp_all add: slice_def)
  then show "le_val (slice 0 4 g) = handoff_magic" "le_val (slice 4 8 g) = length payload" "le_val (slice 8 12 g) = n"
    using assms(2,3) by (simp_all add: le_val_bytes handoff_magic_def handoff_max_payload_def)
qed

text \<open>What a reader accepts is a frame as the sender writes it, with the descriptors it counts.\<close>

lemma receive_frame_Ok:
  assumes "receive_frame own hs cs wire = Some (Ok (p, ds))"
  obtains rest where "wire = handoff_frame (length ds) p @ rest" "length p \<le> handoff_max_payload" "receive_descriptors own hs = Ok ds"
proof -
  obtain n cs1 where n: "retried cs = Some (Ok n, cs1)"
    using assms by (auto simp: receive_frame_def split: option.splits sum.splits)
  define k where "k = min n (min (handoff_header_size + handoff_max_payload) (length wire))"
  note r = assms [unfolded receive_frame_def n option.case prod.case sum.case, folded k_def, unfolded Let_def]
  have k: "k \<noteq> 0" using r by (auto split: if_splits)
  obtain descriptors where d: "receive_descriptors own hs = Ok descriptors"
    using r k by (auto split: sum.splits if_splits)
  note r = r [unfolded if_not_P [OF k] d sum.case]
  obtain g cs2 wire2 where g: "read_up_to cs1 (drop k wire) (take k wire) handoff_header_size = Some (Ok g, cs2, wire2)"
    using r by (auto split: option.splits sum.splits)
  note r = r [unfolded g option.case prod.case sum.case]
  let ?l = "le_val (slice 4 8 g)"
  have ok: "le_val (slice 0 4 g) = handoff_magic" "?l \<le> handoff_max_payload" "le_val (slice 8 12 g) = length descriptors"
    using r by (auto split: if_splits)
  then obtain f cs3 wire3 where f: "read_up_to cs2 wire2 g (handoff_header_size + ?l) = Some (Ok f, cs3, wire3)"
    using r by (auto split: option.splits sum.splits)
  have p: "p = take ?l (drop handoff_header_size f)" "ds = descriptors" using r ok f by auto
  have g': "g @ wire2 = wire" "handoff_header_size \<le> length g" using read_up_to_Ok [OF g] by auto
  have f': "f @ wire3 = g @ wire2" "handoff_header_size + ?l \<le> length f" using read_up_to_Ok [OF f] by auto
  have "f @ wire3 = le_bytes 4 handoff_magic @ le_bytes 4 ?l @ le_bytes 4 (length ds) @ drop 12 g @ wire2"
    using f'(1) header_slices [OF g'(2)] ok p(2) by simp
  moreover have "drop 12 f @ wire3 = drop 12 g @ wire2"
    using arg_cong [OF f'(1), of "drop 12"] f'(2) g'(2) by (simp add: handoff_header_size_def)
  ultimately have w: "wire = le_bytes 4 handoff_magic @ le_bytes 4 ?l @ le_bytes 4 (length ds) @ drop 12 f @ wire3"
    using f'(1) g'(1) by simp
  have l: "length p = ?l" using f'(2) p(1) by (simp add: handoff_header_size_def)
  have "drop 12 f = p @ drop ?l (drop 12 f)"
    using append_take_drop_id [of ?l "drop 12 f"] unfolding p(1) handoff_header_size_def by (rule sym)
  then have "wire = handoff_frame (length ds) p @ (drop ?l (drop 12 f) @ wire3)"
    using w l unfolding handoff_frame_def by (metis append.assoc)
  then show thesis using that l ok(2) d p(2) by simp
qed

text \<open>A frame whose descriptors arrive is accepted, in whatever pieces the kernel hands it over.\<close>

lemma receive_frame_sent:
  assumes ds: "receive_descriptors own hs = Ok ds" "length ds \<le> 8" and p: "length p \<le> handoff_max_payload"
    and cs: "list_all steady cs" "length (handoff_frame (length ds) p) \<le> moves cs"
  shows "receive_frame own hs cs (handoff_frame (length ds) p) = Some (Ok (p, ds))"
proof -
  let ?wire = "handoff_frame (length ds) p"
  have L: "length ?wire = handoff_header_size + length p" by (simp add: handoff_frame_def handoff_header_size_def)
  have pos: "0 < moves cs" using cs(2) L by (simp add: handoff_header_size_def)
  obtain n cs1 where n: "retried cs = Some (Ok n, cs1)" "0 < n" "list_all steady cs1" "moves cs = Suc (moves cs1)"
    using retried_steady [OF cs(1) pos] by blast
  define k where "k = min n (min (handoff_header_size + handoff_max_payload) (length ?wire))"
  have k: "k \<noteq> 0" "k \<le> length ?wire" using n(2) L by (auto simp: k_def handoff_header_size_def)
  have a: "handoff_header_size \<le> length (take k ?wire) + length (drop k ?wire)"
    "handoff_header_size - length (take k ?wire) \<le> moves cs1" using L k cs(2) n(4) by auto
  obtain g cs2 wire2 where g: "read_up_to cs1 (drop k ?wire) (take k ?wire) handoff_header_size = Some (Ok g, cs2, wire2)"
      "list_all steady cs2" "moves cs1 \<le> moves cs2 + (length g - length (take k ?wire))"
    using read_up_to_enough [OF n(3) a] by blast
  have g': "g @ wire2 = ?wire" "handoff_header_size \<le> length g" "length (take k ?wire) \<le> length g"
    using read_up_to_Ok [OF g(1)] by auto
  have s: "le_val (slice 0 4 g) = handoff_magic" "le_val (slice 4 8 g) = length p" "le_val (slice 8 12 g) = length ds"
    using sent_slices [OF disjI2 [OF conjI [OF g'(1,2)]] p ds(2)] by blast+
  have b: "handoff_header_size + length p \<le> length g + length wire2" "handoff_header_size + length p - length g \<le> moves cs2"
    using arg_cong [OF g'(1), of length] L g(3) g'(3) k cs(2) n(4) by auto
  obtain f cs3 wire3 where f: "read_up_to cs2 wire2 g (handoff_header_size + length p) = Some (Ok f, cs3, wire3)"
    using read_up_to_enough [OF g(2) b] by blast
  have "f @ wire3 = ?wire" "handoff_header_size + length p \<le> length f" using read_up_to_Ok [OF f] g'(1) by auto
  moreover from this have "length f + length wire3 = length ?wire" by (metis length_append)
  then have "length wire3 = 0" using L calculation(2) by linarith
  ultimately have "f = ?wire" by simp
  then have "take (length p) (drop handoff_header_size f) = p" by (simp add: handoff_frame_def handoff_header_size_def)
  then show ?thesis
    unfolding receive_frame_def n(1) option.case prod.case sum.case Let_def k_def [symmetric] if_not_P [OF k(1)] ds(1) g(1) s f
    using p by simp
qed

subsection \<open>The transfer\<close>

text \<open>The control message of the kernel for descriptors that were sent: one header, with the numbers they have here.\<close>

definition rights_message :: "(int \<Rightarrow> int) \<Rightarrow> int list \<Rightarrow> control_header list" where
  "rights_message dup fds = [\<lparr>ch_rights = True, ch_len = cmsg_base + 4 * length fds, ch_fds = map dup fds\<rparr>]"

lemma rights_received:
  assumes "\<And>fd. 0 \<le> dup fd" "\<And>fd. own fd = Ok ()"
  shows "receive_descriptors own (rights_message dup fds) = Ok (map dup fds)"
proof -
  have "own_descriptors own (map dup fds) = Ok (map dup fds)" by (induction fds) (simp_all add: assms)
  then show ?thesis by (simp add: rights_message_def)
qed

lemma send_ok:
  assumes "handoff_send c sc a n attempt options_json slot = (slot', Some (stream, Ok ()))"
  obtains payload where "encode c \<lparr>hp_attempt_id = attempt, hp_options_json = options_json\<rparr> = Ok payload"
    "length payload \<le> handoff_max_payload" "stream = \<lparr>st_bytes = handoff_frame 2 payload, st_fds = [a, n]\<rparr>" "slot' = None"
  using assms
  by (auto simp: handoff_send_def Let_def numeral_2_eq_2 split: if_splits option.splits sum.splits dest!: send_frame_all)

lemma received_whole:
  assumes "handoff_receive c rv token wire = Some (Ok received)"
  shows "\<exists>payload rest. wire = handoff_frame 2 payload @ rest \<and> length payload \<le> handoff_max_payload
     \<and> decode c payload = Ok (rh_payload received)
     \<and> receive_descriptors (rv_own rv) (rv_headers rv) = Ok [rh_ashmem received, rh_notification received]"
proof -
  obtain q ds where q: "receive_frame (rv_own rv) (rv_headers rv) (rv_recv rv) wire = Some (Ok (q, ds))"
    and two: "length ds = 2" and x: "decode c q = Ok (rh_payload received)" "rh_ashmem received = ds ! 0" "rh_notification received = ds ! 1"
    using assms by (auto simp: handoff_receive_def and_then_Ok split: sum.splits option.splits if_splits)
  obtain rest where "wire = handoff_frame (length ds) q @ rest" "length q \<le> handoff_max_payload"
      "receive_descriptors (rv_own rv) (rv_headers rv) = Ok ds"
    by (rule receive_frame_Ok [OF q])
  moreover have "ds = [ds ! 0, ds ! 1]" using two by (auto simp: length_Suc_conv numeral_2_eq_2)
  ultimately show ?thesis using x two by auto
qed

text \<open>C40: The transfer to the VPN process is exact. What one side has sent without an error, the other side, holding a valid
  token and reading in whatever pieces, interrupted or not, as long as the kernel hands over every byte, returns as the same
  attempt and options with the two descriptors in their places. And whatever arrives, a reader that succeeds has read one
  complete frame of at most one mebibyte, written for exactly the two descriptors it returns. The listener is
  used up by the send.\<close>

theorem handoff_roundtrip:
  assumes sent: "handoff_send c sc a n attempt options_json slot = (slot', Some (stream, Ok ()))"
    and codec: "\<And>x t. encode c x = Ok t \<Longrightarrow> decode c t = Ok x"
    and token: "handoff_address token = Ok address"
    and socket: "rv_socket rv = Ok ()" "rv_close_on_exec rv = Ok ()" "rv_connect rv = Ok ()"
    and rights: "rv_headers rv = rights_message dup (st_fds stream)" "\<And>fd. 0 \<le> dup fd" "\<And>fd. rv_own rv fd = Ok ()"
    and kernel: "list_all steady (rv_recv rv)" "length (st_bytes stream) \<le> moves (rv_recv rv)"
  shows "handoff_receive c rv token (st_bytes stream) =
      Some (Ok \<lparr>rh_payload = \<lparr>hp_attempt_id = attempt, hp_options_json = options_json\<rparr>, rh_ashmem = dup a, rh_notification = dup n\<rparr>)
    \<and> slot' = None
    \<and> (handoff_receive c rv' token' wire = Some (Ok received) \<longrightarrow>
        (\<exists>payload rest. wire = handoff_frame 2 payload @ rest \<and> length payload \<le> handoff_max_payload
           \<and> decode c payload = Ok (rh_payload received)
           \<and> receive_descriptors (rv_own rv') (rv_headers rv') = Ok [rh_ashmem received, rh_notification received]))"
proof (intro conjI impI)
  obtain payload where p: "encode c \<lparr>hp_attempt_id = attempt, hp_options_json = options_json\<rparr> = Ok payload"
    "length payload \<le> handoff_max_payload" "stream = \<lparr>st_bytes = handoff_frame 2 payload, st_fds = [a, n]\<rparr>" "slot' = None"
    by (rule send_ok [OF sent])
  have d: "receive_descriptors (rv_own rv) (rv_headers rv) = Ok [dup a, dup n]"
    using rights_received [of dup "rv_own rv" "st_fds stream"] rights p(3) by simp
  have "receive_frame (rv_own rv) (rv_headers rv) (rv_recv rv) (handoff_frame 2 payload) = Some (Ok (payload, [dup a, dup n]))"
    using receive_frame_sent [OF d _ p(2) kernel(1)] kernel(2) p(3) by (simp add: numeral_2_eq_2)
  then show "handoff_receive c rv token (st_bytes stream) =
      Some (Ok \<lparr>rh_payload = \<lparr>hp_attempt_id = attempt, hp_options_json = options_json\<rparr>, rh_ashmem = dup a, rh_notification = dup n\<rparr>)"
    using codec [OF p(1)] p(3) by (simp add: handoff_receive_def token socket)
  show "slot' = None" by (rule p(4))
qed (rule received_whole)

text \<open>A frame of thirteen bytes, written in two pieces with an interruption between them, read byte by byte.\<close>

definition demo_handoff :: handoff_payload where
  "demo_handoff = \<lparr>hp_attempt_id = ''a'', hp_options_json = ''{}''\<rparr>"

definition demo_handoff_codec :: "(byte list, handoff_payload) codec" where
  "demo_handoff_codec = \<lparr>encode = (\<lambda>x. if x = demo_handoff then Ok [7] else Err []), decode = (\<lambda>_. Ok demo_handoff),
     byte_len = length, no_bytes = []\<rparr>"

definition demo_send :: send_calls where
  "demo_send = \<lparr>sc_poll = [PollInterrupted, Readable], sc_accept = [Returned ()], sc_close_on_exec = Ok (), sc_control = True,
     sc_send = [Returned 5, Interrupted, Returned 100]\<rparr>"

definition demo_stream :: socket_stream where
  "demo_stream = \<lparr>st_bytes = handoff_frame 2 [7], st_fds = [40, 41]\<rparr>"

definition demo_receive :: receive_calls where
  "demo_receive = \<lparr>rv_socket = Ok (), rv_close_on_exec = Ok (), rv_connect = Ok (), rv_own = (\<lambda>_. Ok ()),
     rv_headers = rights_message (\<lambda>fd. if fd = 40 then 5 else 6) (st_fds demo_stream), rv_recv = replicate 13 (Returned 1)\<rparr>"

lemma demo_sent: "handoff_send demo_handoff_codec demo_send 40 41 ''a'' ''{}'' (Some ''s'') = (None, Some (demo_stream, Ok ()))"
  by code_simp

lemma handoff_roundtrip_witness:
  "handoff_receive demo_handoff_codec demo_receive (replicate 32 (CHR ''a'')) (st_bytes demo_stream) =
     Some (Ok \<lparr>rh_payload = demo_handoff, rh_ashmem = 5, rh_notification = 6\<rparr>)"
proof -
  have token: "handoff_address (replicate 32 (CHR ''a'')) = Ok (char_of (0 :: nat) # handoff_socket_prefix @ replicate 32 (CHR ''a''))"
    by code_simp
  have len: "length (st_bytes demo_stream) = 13" by (simp add: demo_stream_def handoff_frame_def)
  have "decode demo_handoff_codec t = Ok x" if "encode demo_handoff_codec x = Ok t" for x t
    using that by (simp add: demo_handoff_codec_def split: if_splits)
  moreover have "list_all steady (rv_recv demo_receive)" "0 \<le> (if fd = 40 then 5 else 6 :: int)" for fd :: int
    by (simp_all add: demo_receive_def list_all_iff)
  ultimately show ?thesis
    using handoff_roundtrip [OF demo_sent _ token, THEN conjunct1, of demo_receive "\<lambda>fd. if fd = 40 then 5 else 6"]
    by (simp add: demo_receive_def len moves_def demo_handoff_def)
qed

end
