(* ===== verification/Oc_Facade.thy ===== *)
theory Oc_Facade
  imports Oc_Handoff Oc_Connection Oc_Profiles
begin

text \<open>
  The surface ArkTS calls (\<open>lib.rs\<close>) and the calls back into ArkTS (\<open>bridge/mod.rs\<close>). Numbers cross the border as decimal
  text, errors with a status; everything else is passed on to the engine. The text of an epoch the engine hands out is
  read back as that epoch (\<open>advanced_epoch_read_back\<close>).
\<close>

subsection \<open>Errors and numbers\<close>

datatype napi_status = GenericFailure | InvalidArg

record napi_error =
  ne_status :: napi_status
  ne_reason :: str

definition to_napi_error :: "str \<Rightarrow> napi_error" where
  "to_napi_error e = \<lparr>ne_status = GenericFailure, ne_reason = e\<rparr>"

definition map_napi :: "(str, 'a) result \<Rightarrow> (napi_error, 'a) result" where
  "map_napi r = map_sum to_napi_error id r"

abbreviation on_engine :: "'w \<times> (str, 'a) result \<Rightarrow> 'w \<times> (napi_error, 'a) result" where
  "on_engine \<equiv> map_prod id map_napi"

definition parse_positive_u64 :: "str \<Rightarrow> str \<Rightarrow> (napi_error, nat) result" where
  "parse_positive_u64 value label =
     (let bad = (\<lambda>text. Err \<lparr>ne_status = InvalidArg, ne_reason = label @ text\<rparr>)
      in if value = [] \<or> \<not> list_all is_ascii_digit value then bad '' must be an unsigned decimal integer''
         else case parse_uint 18446744073709551615 value of
           None \<Rightarrow> bad '' is outside the supported range''
         | Some n \<Rightarrow> if n = 0 then bad '' must be greater than zero'' else Ok n)"

definition epoch_label :: str where "epoch_label = ''VPN intent epoch''"

subsection \<open>Intents and attempts\<close>

definition napi_advance_platform_vpn_intent :: "('b, 'm) world \<Rightarrow> ('b, 'm) world \<times> (napi_error, str) result" where
  "napi_advance_platform_vpn_intent w = on_engine (bind_in (advance_platform_vpn_intent w) (\<lambda>e w. (w, Ok (show_dec e))))"

definition napi_is_platform_vpn_intent_current :: "str \<Rightarrow> ('b, 'm) world \<Rightarrow> (napi_error, bool) result" where
  "napi_is_platform_vpn_intent_current intent w =
     and_then (parse_positive_u64 intent epoch_label) (\<lambda>e. Ok (is_platform_vpn_intent_current e w))"

definition napi_is_platform_vpn_stop_current :: "str \<Rightarrow> str \<Rightarrow> ('b, 'm) world \<Rightarrow> (napi_error, bool) result" where
  "napi_is_platform_vpn_stop_current intent attempt w =
     and_then (parse_positive_u64 intent epoch_label) (\<lambda>e. Ok (is_platform_vpn_stop_current e attempt w))"

definition napi_begin_platform_vpn_os_stop :: "str \<Rightarrow> str \<Rightarrow> ('b, 'm) world \<Rightarrow> ('b, 'm) world \<times> (napi_error, bool) result" where
  "napi_begin_platform_vpn_os_stop intent attempt w =
     try_in w (parse_positive_u64 intent epoch_label) (\<lambda>e. map_prod id Ok (begin_platform_vpn_os_stop e attempt w))"

definition napi_complete_platform_vpn_os_stop :: "str \<Rightarrow> str \<Rightarrow> ('b, 'm) world \<Rightarrow> ('b, 'm) world \<times> (napi_error, bool) result" where
  "napi_complete_platform_vpn_os_stop intent attempt w =
     try_in w (parse_positive_u64 intent epoch_label) (\<lambda>e. map_prod id Ok (complete_platform_vpn_os_stop e attempt w))"

definition napi_fail_platform_vpn_os_stop :: "str \<Rightarrow> str \<Rightarrow> ('b, 'm) world \<Rightarrow> ('b, 'm) world \<times> (napi_error, bool) result" where
  "napi_fail_platform_vpn_os_stop intent attempt w =
     try_in w (parse_positive_u64 intent epoch_label) (\<lambda>e. map_prod id Ok (fail_platform_vpn_os_stop e attempt w))"

definition napi_begin_platform_vpn_start_for_intent ::
    "('b, 'm) config \<Rightarrow> (nat \<Rightarrow> moment) \<Rightarrow> (str, process_identity) result \<Rightarrow> str \<Rightarrow> ('b, 'm) world
       \<Rightarrow> ('b, 'm) world \<times> (napi_error, str) result" where
  "napi_begin_platform_vpn_start_for_intent cf ev identity intent w =
     try_in w (parse_positive_u64 intent epoch_label) (\<lambda>e.
       on_engine (begin_platform_vpn_start_for_intent cf ev identity e w))"

definition napi_claim_current_platform_vpn_stop ::
    "('b, 'm) config \<Rightarrow> (nat \<Rightarrow> moment) \<Rightarrow> str \<Rightarrow> ('b, 'm) world \<Rightarrow> ('b, 'm) world \<times> (napi_error, str) result" where
  "napi_claim_current_platform_vpn_stop cf ev intent w =
     try_in w (parse_positive_u64 intent epoch_label) (\<lambda>e. on_engine (claim_current_platform_vpn_stop cf ev e w))"

fun start_outcome_text :: "start_outcome \<Rightarrow> str" where
  "start_outcome_text OutConnected = ''connected''"
| "start_outcome_text OutFailed = ''failed''"
| "start_outcome_text OutCancelled = ''cancelled''"
| "start_outcome_text OutIdle = ''idle''"
| "start_outcome_text OutPending = ''pending''"

text \<open>One turn of the wait for a start.\<close>

definition napi_start_verdict ::
    "('b, 'm) config \<Rightarrow> (nat \<Rightarrow> moment) \<Rightarrow> str \<Rightarrow> ('b, 'm) world \<Rightarrow> ('b, 'm) world \<times> (napi_error, str option) result" where
  "napi_start_verdict cf ev attempt w =
     on_engine (bind_in (start_verdict cf ev attempt w) (\<lambda>r w. (w, Ok (map_option start_outcome_text r))))"

subsection \<open>The hand-over in the VPN process\<close>

text \<open>
  The received descriptors stay open until the function returns. \<open>mapped\<close> and \<open>m\<close> are what the received region maps to;
  nothing of the engine changes before the request has been checked.
\<close>

definition receive_and_attach ::
    "('b, 'm) config \<Rightarrow> (nat \<Rightarrow> moment) \<Rightarrow> (handoff_payload \<Rightarrow> (str, str) result) \<Rightarrow> (str, received_handoff) result
       \<Rightarrow> (ipc_error, nat) result \<times> (ipc_error, nat) result \<Rightarrow> 'm \<Rightarrow> ('b, 'm) world \<Rightarrow> ('b, 'm) world \<times> (napi_error, str) result" where
  "receive_and_attach cf ev to_text received mapped m w =
     on_engine (try_in w received (\<lambda>x.
       try_in w (validate_platform_vpn_start_request cf ev (rh_ashmem x) (rh_notification x) (fst mapped) m
                   (hp_attempt_id (rh_payload x)) w) (\<lambda>_.
       case attach_platform_shared_memory cf (rh_ashmem x) (rh_notification x) (snd mapped) (w\<lparr>wd_memory := m\<rparr>) of
         (_, Err e) \<Rightarrow> (w, Err e)
       | (w, Ok _) \<Rightarrow> (w, to_text (rh_payload x)))))"

definition prepare_vpn ::
    "(connect_request \<Rightarrow> ('b, 'm) world \<Rightarrow> ('b, 'm) world \<times> (str, vpn_options) result) \<Rightarrow> (vpn_options \<Rightarrow> (str, str) result)
       \<Rightarrow> bool \<Rightarrow> ('b, 'm) world \<Rightarrow> ('b, 'm) world \<times> (napi_error, str) result" where
  "prepare_vpn prepare to_text dry_run w =
     (case active_profile w of
        None \<Rightarrow> (w, Err (to_napi_error ''no active profile''))
      | Some profile \<Rightarrow>
          on_engine (bind_in (prepare \<lparr>cr_profile = profile, cr_dry_run = dry_run\<rparr> w) (\<lambda>options w. (w, to_text options))))"

definition napi_submit_auth_challenge ::
    "(str \<Rightarrow> (str, auth_challenge_reply) result) \<Rightarrow> str \<Rightarrow> ('b, 'm) world \<Rightarrow> ('b, 'm) world \<times> (napi_error, unit) result" where
  "napi_submit_auth_challenge from_text reply_json w =
     on_engine (try_in w (from_text reply_json) (\<lambda>reply. submit_auth_challenge reply w))"

subsection \<open>Calls into ArkTS\<close>

text \<open>The session of the Ability, the answer of a call, and whether a reply came within the ten seconds of a blocking call.\<close>

record 'r bridge_calls =
  bc_bridge :: "(str, unit) result"
  bc_answer :: "(str, 'r) result"
  bc_in_time :: bool

definition call_async :: "'r bridge_calls \<Rightarrow> (str, 'r) result" where
  "call_async bc = and_then (bc_bridge bc) (\<lambda>_. bc_answer bc)"

text \<open>The answer of a queued call is dropped.\<close>

definition spawn_call :: "'r bridge_calls \<Rightarrow> (str, unit) result" where
  "spawn_call bc = and_then (bc_bridge bc) (\<lambda>_. Ok ())"

definition request_start_vpn :: "'r bridge_calls \<Rightarrow> (str, unit) result" where
  "request_start_vpn bc = and_then (bc_bridge bc) (\<lambda>_. Ok ())"

definition request_stop_vpn :: "'r bridge_calls \<Rightarrow> (str, unit) result" where
  "request_stop_vpn bc = and_then (bc_bridge bc) (\<lambda>_. Ok ())"

definition accepted :: "bool \<Rightarrow> (str, unit) result" where
  "accepted b = (if b then Ok () else Err ''URL plugin rejected the open request'')"

definition open_external_browser :: "bool bridge_calls \<Rightarrow> str \<Rightarrow> (str, unit) result" where
  "open_external_browser bc uri = (if trim uri = [] then Err ''empty browser uri'' else spawn_call bc)"

definition open_external_browser_blocking :: "bool bridge_calls \<Rightarrow> str \<Rightarrow> (str, unit) result" where
  "open_external_browser_blocking bc uri =
     (if trim uri = [] then Err ''empty browser uri''
      else and_then (bc_bridge bc) (\<lambda>_.
        if bc_in_time bc then and_then (bc_answer bc) accepted else Err ''timed out waiting for the system browser''))"

definition open_external_url :: "bool bridge_calls \<Rightarrow> str \<Rightarrow> (str, unit) result" where
  "open_external_url bc url = (if trim url = [] then Err ''empty external URL'' else and_then (call_async bc) accepted)"

definition pick_cert_file :: "str bridge_calls \<Rightarrow> (str, str) result" where
  "pick_cert_file bc =
     and_then (call_async bc) (\<lambda>response.
       let path = trim response in if path = [] then Err ''file selection cancelled'' else Ok path)"

subsection \<open>What crosses the border\<close>

lemma parse_positive_iff:
  "parse_positive_u64 v l = Ok n \<longleftrightarrow> v \<noteq> [] \<and> list_all is_ascii_digit v \<and> n = digits_val 10 v \<and> 0 < n \<and> n \<le> 18446744073709551615"
proof -
  have "parse_uint 18446744073709551615 v = (if digits_val 10 v > 18446744073709551615 then None else Some (digits_val 10 v))"
    if "v \<noteq> []" "list_all is_ascii_digit v"
  proof -
    have "v \<noteq> CHR ''+'' # r" for r using that(2) by (auto simp: is_ascii_digit_def cp_def)
    then have "(case v of CHR ''+'' # r \<Rightarrow> r | _ \<Rightarrow> v) = v" by (auto split: list.splits char.splits bool.splits)
    then show ?thesis using that by (simp add: parse_uint_def Let_def)
  qed
  then show ?thesis by (auto simp: parse_positive_u64_def Let_def split: if_splits option.splits)
qed

lemma parse_shown: "0 < n \<Longrightarrow> n \<le> 18446744073709551615 \<Longrightarrow> parse_positive_u64 (show_dec n) l = Ok n"
  using show_dec_digits [of _ n] show_radix_not_Nil [of 10 n] digits_val_show [of 10 n]
  by (auto simp: parse_positive_iff list_all_iff simp del: show_radix.simps)

text \<open>An epoch that went out as text is current when it comes back, until another one goes out.\<close>

lemma advanced_epoch_read_back:
  assumes "napi_advance_platform_vpn_intent w = (w', Ok t)"
  shows "napi_is_platform_vpn_intent_current t w' = Ok True"
proof -
  let ?e = "in_platform_vpn_intent_epoch w + 1"
  have e: "?e \<le> max_u64" "w' = w\<lparr>in_platform_vpn_intent_epoch := ?e\<rparr>" "t = show_dec ?e"
    using assms by (auto simp: napi_advance_platform_vpn_intent_def map_napi_def advance_platform_vpn_intent_def Let_def
        simp del: show_radix.simps split: if_splits)
  then have "parse_positive_u64 t epoch_label = Ok ?e" using parse_shown [of ?e epoch_label] by (simp add: max_u64_def del: show_radix.simps)
  then show ?thesis using e by (simp add: napi_is_platform_vpn_intent_current_def is_platform_vpn_intent_current_def)
qed

text \<open>A request that is not received, or not the current one, changes nothing.\<close>

lemma refused_handoff_leaves:
  assumes "received = Err e \<or> (\<exists>x. received = Ok x \<and>
      (\<exists>e. validate_platform_vpn_start_request cf ev (rh_ashmem x) (rh_notification x) (fst mapped) m (hp_attempt_id (rh_payload x)) w = Err e))"
  shows "fst (receive_and_attach cf ev to_text received mapped m w) = w" "isl (snd (receive_and_attach cf ev to_text received mapped m w))"
  using assms by (auto simp: receive_and_attach_def map_napi_def)

end
