(* ===== verification/Oc_Await.thy ===== *)
theory Oc_Await
  imports Oc_Engine_Laws Oc_Settled
begin

text \<open>
  The two asynchronous waiters of \<open>engine/platform.rs\<close> as loops over what wakes them, and why they end: when the
  deadline passes the start is failed, and the next look at the state finds it over.
\<close>

subsection \<open>The loops\<close>

text \<open>
  What the \<open>select!\<close> of a waiter can return: a change (of the watch channel, of the shared memory, or the passing of its
  second), an error of one of them, or the deadline. The list of wakes is the fuel; \<open>None\<close> is still waiting. The lock
  is free while a waiter sleeps: \<open>others i\<close> is what everybody else does during sleep \<open>i\<close>.
\<close>

datatype wake = Woken | WakeFailed str | DeadlineReached

fun start_waiting ::
    "('b, 'm) config \<Rightarrow> (nat \<Rightarrow> nat \<Rightarrow> moment) \<Rightarrow> (nat \<Rightarrow> ('b, 'm) world \<Rightarrow> ('b, 'm) world) \<Rightarrow> str \<Rightarrow> nat \<Rightarrow> wake list
       \<Rightarrow> ('b, 'm) world \<Rightarrow> ('b, 'm) world \<times> (str, start_outcome option) result" where
  "start_waiting cf ev others attempt i [] w = start_verdict cf (ev i) attempt w"
| "start_waiting cf ev others attempt i (e # es) w =
     bind_in (start_verdict cf (ev i) attempt w) (\<lambda>verdict w.
       case verdict of
         Some outcome \<Rightarrow> (w, Ok (Some outcome))
       | None \<Rightarrow>
           (let w = others i w
            in case e of
                Woken \<Rightarrow> start_waiting cf ev others attempt (i + 1) es w
              | WakeFailed message \<Rightarrow> (w, Err message)
              | DeadlineReached \<Rightarrow>
                  bind_in (fail_platform_vpn_start cf (\<lambda>k. ev i (k + 2)) attempt
                             ''VPN extension did not reach a terminal state before the startup deadline'' w)
                    (\<lambda>_ w. start_waiting cf ev others attempt (i + 1) es w)))"

definition await_platform_vpn_start_with_deadline ::
    "('b, 'm) config \<Rightarrow> (nat \<Rightarrow> nat \<Rightarrow> moment) \<Rightarrow> (nat \<Rightarrow> ('b, 'm) world \<Rightarrow> ('b, 'm) world) \<Rightarrow> str \<Rightarrow> wake list
       \<Rightarrow> ('b, 'm) world \<Rightarrow> ('b, 'm) world \<times> (str, start_outcome option) result" where
  "await_platform_vpn_start_with_deadline cf ev others attempt es w =
     (if attempt = [] then (w, Err ''platform VPN start attempt id is empty'')
      else start_waiting cf ev others attempt 0 es w)"

fun stop_waiting ::
    "('b, 'm) config \<Rightarrow> (nat \<Rightarrow> nat \<Rightarrow> moment) \<Rightarrow> (nat \<Rightarrow> ('b, 'm) world \<Rightarrow> ('b, 'm) world) \<Rightarrow> str \<Rightarrow> nat \<Rightarrow> wake list
       \<Rightarrow> ('b, 'm) world \<Rightarrow> ('b, 'm) world \<times> (str, bool option) result" where
  "stop_waiting cf ev others attempt i [] w =
     (let w = synced cf (ev i 0) w in (w, Ok (stop_verdict attempt w)))"
| "stop_waiting cf ev others attempt i (e # es) w =
     (let w = synced cf (ev i 0) w
      in case stop_verdict attempt w of
           Some b \<Rightarrow> (w, Ok (Some b))
         | None \<Rightarrow>
             (let w = others i w
              in case e of
                  Woken \<Rightarrow> stop_waiting cf ev others attempt (i + 1) es w
                | WakeFailed message \<Rightarrow> (w, Err message)
                | DeadlineReached \<Rightarrow>
                    (w, Err (''platform VPN attempt '' @ attempt @ '' did not stop before the cleanup deadline''))))"

definition await_platform_vpn_stop ::
    "('b, 'm) config \<Rightarrow> (nat \<Rightarrow> nat \<Rightarrow> moment) \<Rightarrow> (nat \<Rightarrow> ('b, 'm) world \<Rightarrow> ('b, 'm) world) \<Rightarrow> str \<Rightarrow> wake list
       \<Rightarrow> ('b, 'm) world \<Rightarrow> ('b, 'm) world \<times> (str, bool option) result" where
  "await_platform_vpn_stop cf ev others attempt es w =
     (if attempt = [] then (w, Ok (Some True)) else stop_waiting cf ev others attempt 0 es w)"

text \<open>
  The waits themselves. Without shared memory one sleeps and the other returns at once; otherwise each is a blocking task
  (\<open>joined\<close>, which the runtime may fail to join) whose result is what the channel answered.
\<close>

definition blocking_wait :: "(str, (ipc_error, bool) result) result \<Rightarrow> (str, bool) result" where
  "blocking_wait joined =
     (case joined of
        Inl e \<Rightarrow> Err (''platform subscription task failed: '' @ e)
      | Inr waited \<Rightarrow> platform_ipc_error waited)"

definition wait_for_platform_change :: "(str, (ipc_error, bool) result) result \<Rightarrow> ('b, 'm) world \<Rightarrow> (str, bool) result" where
  "wait_for_platform_change joined w = (case en_ipc w of None \<Rightarrow> Ok False | Some _ \<Rightarrow> blocking_wait joined)"

definition wait_for_platform_change_event :: "(str, (ipc_error, bool) result) result \<Rightarrow> ('b, 'm) world \<Rightarrow> (str, bool) result" where
  "wait_for_platform_change_event joined w = (case en_ipc w of None \<Rightarrow> Ok False | Some _ \<Rightarrow> blocking_wait joined)"

text \<open>What the three branches of the waiter's \<open>select!\<close> return, as a wake.\<close>

definition changed_wake :: "(str, bool) result \<Rightarrow> wake" where
  "changed_wake changed = (case changed of Inl e \<Rightarrow> WakeFailed e | Inr _ \<Rightarrow> Woken)"

lemma silent_without_channel: "en_ipc w = None \<Longrightarrow> changed_wake (wait_for_platform_change joined w) = Woken"
  by (simp add: changed_wake_def wait_for_platform_change_def)

subsection \<open>An attempt that is over stays over\<close>

definition start_over :: "str \<Rightarrow> ('b, 'm) world \<Rightarrow> bool" where
  "start_over attempt w \<longleftrightarrow> in_platform_start_attempt_id w \<noteq> attempt \<or> in_platform_start_outcome w \<noteq> OutPending"

lemma start_over_phase: "phase_of v = phase_of w \<Longrightarrow> start_over attempt v = start_over attempt w"
  by (simp add: start_over_def phase_of_def)

lemma start_over_synced:
  assumes "start_over attempt w"
  shows "start_over attempt (synced cf mo w)"
proof (cases "en_ipc w")
  case None
  then show ?thesis using assms by (simp add: synced_def sync_platform_locked_def sync_platform_locked_with_adoption_def)
next
  case (Some i)
  show ?thesis
  proof (cases "read_sibling cf i w")
    case (Inl e)
    have "phase_of (synced cf mo w) = phase_of w"
      using Some Inl by (simp add: synced_def sync_platform_locked_def sync_platform_locked_with_adoption_def push_diag_parts)
    then show ?thesis using assms start_over_phase by blast
  next
    case (Inr found)
    show ?thesis
    proof (cases found)
      case None
      then show ?thesis using assms Some Inr
        by (simp add: synced_def sync_platform_locked_def sync_platform_locked_with_adoption_def)
    next
      case env: (Some env)
      obtain w' ack where e: "apply_platform_envelope_locked cf mo (is_ui i) None env w = (w', ack)" by (metis prod.exhaust)
      have s: "synced cf mo w = w'"
        using Some Inr env e by (simp add: synced_def sync_platform_locked_def sync_platform_locked_with_adoption_def)
      show ?thesis
      proof (rule envelope_cases [OF e])
        fix v
        assume v: "phase_of v = phase_of w"
          and step: "w' = v \<and> (\<forall>r. pe_state env = Some r \<longrightarrow> ps_start_attempt_id r \<noteq> in_platform_start_attempt_id w
                \<and> (is_ui i \<or> None \<noteq> Some (ps_start_attempt_id r)) \<or> ps_start_attempt_id r = [])
            \<or> (\<exists>r. pe_state env = Some r \<and> ps_start_attempt_id r = in_platform_start_attempt_id w \<and> ps_start_attempt_id r \<noteq> []
                 \<and> w' = apply_matching_frame cf mo (is_ui i) False r v)
            \<or> (\<exists>r. pe_state env = Some r \<and> \<not> is_ui i \<and> None = Some (ps_start_attempt_id r) \<and> ps_start_attempt_id r \<noteq> []
                 \<and> ps_start_attempt_id r \<noteq> in_platform_start_attempt_id w
                 \<and> w' = apply_matching_frame cf mo (is_ui i) True r (adopt_attempt r v))"
        have "w' = v \<or> (\<exists>r. w' = apply_matching_frame cf mo (is_ui i) False r v)" using step by blast
        moreover have "start_over attempt v" using assms start_over_phase [OF v] by simp
        ultimately show ?thesis
          using phase_step_matching [of _ v cf mo "is_ui i" False] unfolding s by (auto simp: start_over_def phase_step_def)
      qed
    qed
  qed
qed

lemma start_over_verdict: "start_over attempt w \<Longrightarrow> snd (start_verdict cf ev attempt w) \<noteq> Ok None"
  using start_over_synced [of attempt w cf "ev 0"]
  by (auto simp: start_verdict_def Let_def start_over_def platform_start_event_locked_def bind_in_def
      split: start_outcome.splits prod.splits sum.splits)

lemma deadline_ends:
  assumes "fail_platform_vpn_start cf ev attempt e w = (w', Ok b)" "attempt \<noteq> []"
  shows "start_over attempt w'"
proof -
  let ?s = "synced cf (ev 0) w"
  show ?thesis
  proof (cases "platform_start_is_pending_locked attempt ?s")
    case False
    then have "w' = ?s" using assms(1) by (simp add: fail_platform_vpn_start_def fail_platform_vpn_start_if_def Let_def)
    then show ?thesis using False assms(2) by (auto simp: platform_start_is_pending_locked_def start_over_def)
  next
    case True
    obtain u session where u: "apply_platform_vpn_failed_locked (ev 2) e ?s = (u, session)" by (metis prod.exhaust)
    define v where "v = u\<lparr>in_platform_start_outcome := OutFailed\<rparr>"
    define v' where "v' = (if in_platform_vpn_cleanup_complete v then drop_leases v else v)"
    have "bind_in (persist_platform_locked cf (ev 3) v') (\<lambda>_ w. (stop_session session w, Ok True)) = (w', Ok b)"
      using assms(1) True u by (simp add: fail_platform_vpn_start_def fail_platform_vpn_start_if_def Let_def bind_in_def v_def v'_def
          split: if_splits)
    then obtain x y where x: "persist_platform_locked cf (ev 3) v' = (x, Ok y)" "w' = stop_session session x"
      by (auto elim!: bind_in_Ok)
    have "phase_of x = phase_of v'" using persist_parts(1) [of cf "ev 3" v'] x(1) by simp
    then have "in_platform_start_outcome x = in_platform_start_outcome v'" by (simp add: phase_of_def)
    moreover have "in_platform_start_outcome v' = OutFailed"
      by (simp add: v'_def v_def drop_leases_def drop_issuer_lease_def drop_extension_lease_def split: option.split)
    ultimately show ?thesis using x(2) by (simp add: start_over_def stop_session_def split: option.split)
  qed
qed

lemma verdict_answers:
  assumes "snd (start_verdict cf ev attempt w) = Ok r"
  shows "r = None \<or> r = Some OutConnected"
  using assms by (auto simp: start_verdict_def Let_def bind_in_def split: start_outcome.splits prod.splits sum.splits if_splits)

lemma over_answers:
  assumes "start_over attempt w"
  shows "snd (start_waiting cf ev others attempt i es w) \<noteq> Ok None"
proof (cases es)
  case Nil
  then show ?thesis using start_over_verdict [OF assms] by simp
next
  case (Cons e es')
  obtain v r where v: "start_verdict cf (ev i) attempt w = (v, r)" by (metis prod.exhaust)
  then have "r \<noteq> Ok None" using start_over_verdict [OF assms, of cf "ev i"] by simp
  then show ?thesis using Cons v by (cases r) (auto split: option.split)
qed

lemma deadline_answers:
  assumes "attempt \<noteq> []" "\<And>i v. start_over attempt v \<Longrightarrow> start_over attempt (others i v)" "DeadlineReached \<in> set es"
  shows "snd (start_waiting cf ev others attempt i es w) \<noteq> Ok None"
  using assms(3)
proof (induction es arbitrary: i w)
  case Nil
  then show ?case by simp
next
  case (Cons e es)
  obtain v r where v: "start_verdict cf (ev i) attempt w = (v, r)" by (metis prod.exhaust)
  show ?case
  proof (cases "r = Ok None \<and> e = DeadlineReached")
    case False
    then show ?thesis using v Cons by (cases r) (auto simp: Let_def split: option.split wake.split)
  next
    case True
    obtain u q where u: "fail_platform_vpn_start cf (\<lambda>k. ev i (k + 2)) attempt
        ''VPN extension did not reach a terminal state before the startup deadline'' (others i v) = (u, q)"
      by (metis prod.exhaust)
    show ?thesis
    proof (cases q)
      case (Inl m)
      then show ?thesis using v u True by simp
    next
      case (Inr b)
      then have "start_over attempt u" using deadline_ends [OF _ assms(1)] u by blast
      then show ?thesis using v u True Inr over_answers by simp
    qed
  qed
qed

lemma only_connected_succeeds:
  "snd (start_waiting cf ev others attempt i es w) = Ok r \<Longrightarrow> r = None \<or> r = Some OutConnected"
proof (induction es arbitrary: i w)
  case Nil
  then show ?case using verdict_answers [of cf "ev i" attempt w r] by simp
next
  case (Cons e es)
  obtain v q where v: "start_verdict cf (ev i) attempt w = (v, q)" by (metis prod.exhaust)
  show ?case
  proof (cases q)
    case (Inl m)
    then show ?thesis using v Cons.prems by simp
  next
    case (Inr x)
    then have x: "x = None \<or> x = Some OutConnected" using v verdict_answers [of cf "ev i" attempt w x] by simp
    show ?thesis
    proof (cases x)
      case None
      then show ?thesis using v Inr Cons
        by (cases e) (auto simp: Let_def bind_in_def split: prod.splits sum.splits)
    next
      case (Some y)
      then show ?thesis using x v Inr Cons.prems by simp
    qed
  qed
qed

lemma stop_deadline_answers:
  "DeadlineReached \<in> set es \<Longrightarrow> snd (stop_waiting cf ev others attempt i es w) \<noteq> Ok None"
  by (induction es arbitrary: i w) (auto simp: Let_def split: option.split wake.split)

lemma stop_answer_true:
  "stop_waiting cf ev others attempt i es w = (w', Ok (Some b)) \<Longrightarrow> stop_verdict attempt w' = Some b"
proof (induction es arbitrary: i w)
  case Nil
  then show ?case by (auto simp: Let_def)
next
  case (Cons e es)
  then show ?case by (cases e) (auto simp: Let_def split: option.splits)
qed

lemma stop_verdict_exact:
  "stop_verdict attempt w = Some b \<Longrightarrow>
     \<not> b \<and> in_platform_start_attempt_id w \<noteq> attempt
     \<or> b \<and> in_platform_start_attempt_id w = attempt \<and> terminal (in_platform_start_outcome w)
       \<and> in_platform_vpn_cleanup_complete w \<and> \<not> in_platform_vpn_running w \<and> \<not> in_platform_vpn_starting w"
  by (auto simp: stop_verdict_def split: if_splits)

text \<open>C0: Both waiters answer once their deadline passes, whatever wakes them before and whatever the other holders of the
  mutex do meanwhile, provided these do not revive an attempt that is over. The wait for a start answers
  \<open>Connected\<close> or an error, nothing else; the wait for a stop answers \<open>true\<close> only in a state in which the tunnel of
  the attempt neither runs nor starts, its cleanup is complete and its outcome is a failure or a cancellation.\<close>

theorem waiters_answer:
  assumes "attempt \<noteq> []" "DeadlineReached \<in> set es"
    and "\<And>i v. start_over attempt v \<Longrightarrow> start_over attempt (others i v)"
    and "await_platform_vpn_start_with_deadline cf ev others attempt es w = (u, r)"
    and "await_platform_vpn_stop cf ev' others' attempt es w = (v, q)"
  shows "(r = Ok (Some OutConnected) \<or> (\<exists>message. r = Err message))
    \<and> ((\<exists>message. q = Err message)
      \<or> q = Ok (Some False) \<and> in_platform_start_attempt_id v \<noteq> attempt
      \<or> q = Ok (Some True) \<and> in_platform_start_attempt_id v = attempt \<and> terminal (in_platform_start_outcome v)
          \<and> in_platform_vpn_cleanup_complete v \<and> \<not> in_platform_vpn_running v \<and> \<not> in_platform_vpn_starting v)"
proof
  have "snd (start_waiting cf ev others attempt 0 es w) \<noteq> Ok None"
    by (rule deadline_answers) (use assms in auto)
  moreover have "snd (start_waiting cf ev others attempt 0 es w) = r"
    using assms(1,4) by (simp add: await_platform_vpn_start_with_deadline_def)
  ultimately have "snd (start_waiting cf ev others attempt 0 es w) = r \<and> r \<noteq> Ok None" by simp
  then show "r = Ok (Some OutConnected) \<or> (\<exists>message. r = Err message)"
    using only_connected_succeeds [of cf ev others attempt 0 es w] by (cases r) auto
next
  have s: "stop_waiting cf ev' others' attempt 0 es w = (v, q)" using assms(1,5) by (simp add: await_platform_vpn_stop_def)
  then have "q \<noteq> Ok None"
    using stop_deadline_answers [where cf = cf and ev = ev' and others = others' and attempt = attempt and i = 0 and w = w, OF assms(2)] by simp
  show "(\<exists>message. q = Err message)
      \<or> q = Ok (Some False) \<and> in_platform_start_attempt_id v \<noteq> attempt
      \<or> q = Ok (Some True) \<and> in_platform_start_attempt_id v = attempt \<and> terminal (in_platform_start_outcome v)
          \<and> in_platform_vpn_cleanup_complete v \<and> \<not> in_platform_vpn_running v \<and> \<not> in_platform_vpn_starting v"
  proof (cases q)
    case (Inl message)
    then show ?thesis by simp
  next
    case (Inr found)
    with \<open>q \<noteq> Ok None\<close> obtain b where "q = Ok (Some b)" by (cases found) auto
    moreover from this have "stop_verdict attempt v = Some b" using s stop_answer_true by blast
    ultimately show ?thesis using stop_verdict_exact by blast
  qed
qed

text \<open>An attempt nobody attaches to: without the deadline it waits on, with it both waiters answer.\<close>

definition waiting_world :: "(demo_doc, nat \<Rightarrow> byte) world" where
  "waiting_world = fresh_world\<lparr>in_platform_start_attempt_id := ''a1'', in_platform_start_outcome := OutPending,
     in_platform_vpn_starting := True\<rparr>"

lemma waiters_answer_witness:
  "\<exists>u r v q. await_platform_vpn_start_with_deadline demo_config (\<lambda>_ _. demo_moment 0) (\<lambda>_ v. v) ''a1'' [Woken, DeadlineReached]
        waiting_world = (u, r)
    \<and> await_platform_vpn_stop demo_config (\<lambda>_ _. demo_moment 0) (\<lambda>_ v. v) ''a1'' [Woken, DeadlineReached] waiting_world = (v, q)
    \<and> (r = Ok (Some OutConnected) \<or> (\<exists>message. r = Err message)) \<and> q \<noteq> Ok None"
proof -
  obtain u r v q where a: "await_platform_vpn_start_with_deadline demo_config (\<lambda>_ _. demo_moment 0) (\<lambda>_ v. v) ''a1''
      [Woken, DeadlineReached] waiting_world = (u, r)"
    "await_platform_vpn_stop demo_config (\<lambda>_ _. demo_moment 0) (\<lambda>_ v. v) ''a1'' [Woken, DeadlineReached] waiting_world = (v, q)"
    by (metis prod.exhaust)
  then show ?thesis using waiters_answer [OF _ _ _ a] by auto
qed

end
