(* ===== verification/Oc_Notify.thy ===== *)
theory Oc_Notify
  imports Oc_Ipc
begin

text \<open>
  The notification socket of \<open>platform_ipc.rs\<close> (\<open>SocketNotification\<close>): how one process tells the other that it wrote a
  frame, and how a waiter is cancelled. What the kernel answers to a call is an argument; a list of answers that is
  exhausted stands for \<open>EWOULDBLOCK\<close>. The result of \<open>notify\<close> is the outcome of waking the peer that \<open>publish\<close> in
  \<open>Oc_Ipc\<close> takes. Descriptors are numbers, and the descriptor is also the identity of its \<open>Arc\<close>.
\<close>

subsection \<open>The socket of one process\<close>

text \<open>
  \<open>sn_wakes\<close> is the number of bytes in the cancellation pair; its buffer holds \<open>cap\<close> of them and a send to a full buffer is
  lost, as the code ignores its outcome.
\<close>

record socket_notification =
  sk_listener :: bool
  sk_connection :: "nat option"
  sk_wakes :: nat
  sk_cancel_pending :: bool

definition socket_notification_new :: "bool \<Rightarrow> socket_notification" where
  "socket_notification_new listening =
     \<lparr>sk_listener = listening, sk_connection = None, sk_wakes = 0, sk_cancel_pending = False\<rparr>"

definition wake_local_waiter :: "nat \<Rightarrow> socket_notification \<Rightarrow> socket_notification" where
  "wake_local_waiter cap n = n\<lparr>sk_wakes := min cap (sk_wakes n + 1)\<rparr>"

text \<open>The pair is read in pieces of 64 bytes until it is empty; an interrupted read is repeated.\<close>

fun drained_wakes :: "nat \<Rightarrow> nat" where
  "drained_wakes n = (if n = 0 then 0 else drained_wakes (n - 64))"

declare drained_wakes.simps [simp del]

definition drain_cancel_fd :: "socket_notification \<Rightarrow> socket_notification" where
  "drain_cancel_fd n = n\<lparr>sk_wakes := drained_wakes (sk_wakes n)\<rparr>"

lemma drained_wakes_0 [simp]: "drained_wakes n = 0"
  by (induction n rule: drained_wakes.induct) (subst drained_wakes.simps, simp)

text \<open>
  The process that created the region listens; it takes every connection that is queued, so the last one is the
  current one. The other process connects once.
\<close>

datatype accept_call = Accepted nat "(str, unit) result" | AcceptInterrupted | AcceptWouldBlock | AcceptFailed str

fun accept_all :: "nat \<Rightarrow> accept_call list \<Rightarrow> socket_notification \<Rightarrow> socket_notification \<times> (ipc_error, unit) result" where
  "accept_all cap [] n = (n, Ok ())"
| "accept_all cap (Accepted fd nonblocking # cs) n =
     (case nonblocking of
        Inl e \<Rightarrow> (n, Err (Notification e))
      | Inr _ \<Rightarrow> accept_all cap cs (wake_local_waiter cap (n\<lparr>sk_connection := Some fd\<rparr>)))"
| "accept_all cap (AcceptInterrupted # cs) n = accept_all cap cs n"
| "accept_all cap (AcceptWouldBlock # cs) n = (n, Ok ())"
| "accept_all cap (AcceptFailed e # cs) n = (n, Err (Notification e))"

definition notification_connection ::
    "nat \<Rightarrow> accept_call list \<Rightarrow> (str, nat) result \<Rightarrow> socket_notification
       \<Rightarrow> socket_notification \<times> (ipc_error, nat option) result" where
  "notification_connection cap accepts connected n =
     (if sk_listener n then
        (case accept_all cap accepts n of
           (n, Inl e) \<Rightarrow> (n, Err e)
         | (n, Inr _) \<Rightarrow> (n, Ok (sk_connection n)))
      else case sk_connection n of
          Some fd \<Rightarrow> (n, Ok (Some fd))
        | None \<Rightarrow>
            (case connected of
               Inl e \<Rightarrow> (n, Err (Notification e))
             | Inr fd \<Rightarrow> (n\<lparr>sk_connection := Some fd\<rparr>, Ok (Some fd))))"

definition clear_connection :: "nat \<Rightarrow> socket_notification \<Rightarrow> socket_notification" where
  "clear_connection expected n = (if sk_connection n = Some expected then n\<lparr>sk_connection := None\<rparr> else n)"

text \<open>Telling the peer. A peer that has gone is no failure of the process that listens.\<close>

datatype send_call = Sent | SendInterrupted | SendWouldBlock | SendPeerGone str | SendFailed str

fun send_notification :: "nat \<Rightarrow> send_call list \<Rightarrow> socket_notification \<Rightarrow> socket_notification \<times> (ipc_error, unit) result" where
  "send_notification fd [] n = (n, Ok ())"
| "send_notification fd (Sent # cs) n = (n, Ok ())"
| "send_notification fd (SendInterrupted # cs) n = send_notification fd cs n"
| "send_notification fd (SendWouldBlock # cs) n = (n, Ok ())"
| "send_notification fd (SendPeerGone e # cs) n =
     (if sk_listener n then (clear_connection fd n, Ok ()) else (n, Err (Notification e)))"
| "send_notification fd (SendFailed e # cs) n = (n, Err (Notification e))"

definition notify ::
    "nat \<Rightarrow> accept_call list \<Rightarrow> (str, nat) result \<Rightarrow> send_call list \<Rightarrow> socket_notification
       \<Rightarrow> socket_notification \<times> (ipc_error, unit) result" where
  "notify cap accepts connected sends n =
     (case notification_connection cap accepts connected n of
        (n, Inl e) \<Rightarrow> (n, Err e)
      | (n, Inr None) \<Rightarrow> (n, Ok ())
      | (n, Inr (Some fd)) \<Rightarrow> send_notification fd sends n)"

text \<open>Taking notifications: whether any came, and whether the peer closed.\<close>

datatype recv_call = Received | PeerClosed | ConnectionReset | RecvInterrupted | RecvWouldBlock | RecvFailed str

fun drain_notifications :: "bool \<Rightarrow> recv_call list \<Rightarrow> (ipc_error, bool \<times> bool) result" where
  "drain_notifications changed [] = Ok (changed, False)"
| "drain_notifications changed (Received # cs) = drain_notifications True cs"
| "drain_notifications changed (PeerClosed # cs) = Ok (changed, True)"
| "drain_notifications changed (ConnectionReset # cs) = Ok (changed, True)"
| "drain_notifications changed (RecvInterrupted # cs) = drain_notifications changed cs"
| "drain_notifications changed (RecvWouldBlock # cs) = Ok (changed, False)"
| "drain_notifications changed (RecvFailed e # cs) = Err (Notification e)"

subsection \<open>The waiter\<close>

text \<open>
  \<open>wait_internal\<close> as a machine: one step is what it does between two points at which another thread can change what
  it sees of the cancellation. Only one waiter is inside at a time (\<open>subscription\<close>).
\<close>

datatype wait_at =
    AtEntry
  | AtLoop
  | AtPoll "nat option"
  | AtDrain
  | AtCheck
  | AtLastDrain
  | Answer "(ipc_error, bool) result"

record waiter =
  wt_timeout :: "nat option"
  wt_cancellable :: bool
  wt_at :: wait_at

text \<open>In milliseconds, as \<open>poll\<close> takes it; negative is for ever.\<close>

definition timeout_ms :: "nat option \<Rightarrow> int" where
  "timeout_ms timeout = (case timeout of None \<Rightarrow> - 1 | Some ms \<Rightarrow> int (min ms 2147483647))"

text \<open>What \<open>poll\<close> reports of the connection and the listener; of the cancellation pair it reports whether there are bytes.\<close>

datatype poll_answer = Polled bool bool | PollIntr | PollError str

record wait_calls =
  wc_accepts :: "accept_call list"
  wc_connected :: "(str, nat) result"
  wc_poll :: poll_answer
  wc_recvs :: "recv_call list"

definition connection_ready ::
    "nat \<Rightarrow> recv_call list \<Rightarrow> socket_notification \<Rightarrow> socket_notification \<times> wait_at" where
  "connection_ready fd recvs n =
     (case drain_notifications False recvs of
        Inl e \<Rightarrow> (n, Answer (Err e))
      | Inr (changed, closed) \<Rightarrow>
          if closed then
            (let n = clear_connection fd n
             in if \<not> sk_listener n then (n, Answer (Err (Notification ''platform notification peer closed'')))
                else (n, Answer (Ok True)))
          else if changed then (n, Answer (Ok True))
          else (n, AtLoop))"

definition polled ::
    "nat \<Rightarrow> wait_calls \<Rightarrow> nat option \<Rightarrow> nat option \<Rightarrow> socket_notification \<Rightarrow> socket_notification \<times> wait_at" where
  "polled cap calls timeout current n =
     (case wc_poll calls of
        PollError e \<Rightarrow> (n, Answer (Err (Notification e)))
      | PollIntr \<Rightarrow> (n, AtLoop)
      | Polled connection_event listener_event \<Rightarrow>
          if sk_wakes n > 0 then (n, AtDrain)
          else if sk_listener n \<and> listener_event then
            (case notification_connection cap (wc_accepts calls) (wc_connected calls) n of
               (n, Inl e) \<Rightarrow> (n, Answer (Err e))
             | (n, Inr _) \<Rightarrow> (n, Answer (Ok True)))
          else
            (case current of
               Some fd \<Rightarrow>
                 if connection_event then connection_ready fd (wc_recvs calls) n
                 else if timeout_ms timeout < 0 then (n, AtPoll current) else (n, Answer (Ok False))
             | None \<Rightarrow> if timeout_ms timeout < 0 then (n, AtPoll current) else (n, Answer (Ok False))))"

definition wait_turn :: "nat \<Rightarrow> wait_calls \<Rightarrow> socket_notification \<times> waiter \<Rightarrow> socket_notification \<times> waiter" where
  "wait_turn cap calls s =
     (case s of (n, w) \<Rightarrow>
        let goto = (\<lambda>(n, at). (n, w\<lparr>wt_at := at\<rparr>))
        in case wt_at w of
             AtEntry \<Rightarrow>
               if wt_cancellable w \<and> sk_cancel_pending n then goto (n\<lparr>sk_cancel_pending := False\<rparr>, AtLastDrain)
               else goto (n, AtLoop)
           | AtLastDrain \<Rightarrow> goto (drain_cancel_fd n, Answer (Ok False))
           | AtLoop \<Rightarrow>
               (case notification_connection cap (wc_accepts calls) (wc_connected calls) n of
                  (n, Inl e) \<Rightarrow> goto (n, Answer (Err e))
                | (n, Inr current) \<Rightarrow> goto (n, AtPoll current))
           | AtPoll current \<Rightarrow> goto (polled cap calls (wt_timeout w) current n)
           | AtDrain \<Rightarrow> goto (drain_cancel_fd n, AtCheck)
           | AtCheck \<Rightarrow>
               if wt_cancellable w \<and> sk_cancel_pending n
               then goto (n\<lparr>sk_cancel_pending := False\<rparr>, Answer (Ok False))
               else goto (n, AtLoop)
           | Answer r \<Rightarrow> (n, w))"

text \<open>The two public calls, and the call that cancels: it raises the flag, then wakes, unless the flag is already up.\<close>

definition wait_for_change_start :: "nat \<Rightarrow> waiter" where
  "wait_for_change_start timeout = \<lparr>wt_timeout = Some timeout, wt_cancellable = False, wt_at = AtEntry\<rparr>"

definition wait_event_cancellable_start :: waiter where
  "wait_event_cancellable_start = \<lparr>wt_timeout = None, wt_cancellable = True, wt_at = AtEntry\<rparr>"

definition cancel_waits_swap :: "socket_notification \<Rightarrow> socket_notification \<times> bool" where
  "cancel_waits_swap n = (n\<lparr>sk_cancel_pending := True\<rparr>, \<not> sk_cancel_pending n)"

subsection \<open>All threads of a process together\<close>

text \<open>
  The waiter that is inside, the callers of \<open>cancel_waits\<close> between their flag and their byte (\<open>ns_sending\<close>), and how many
  cancellations raised the flag and how many cancellable waits were turned away so far.
\<close>

record notify_system =
  ns_socket :: socket_notification
  ns_waiter :: "waiter option"
  ns_sending :: nat
  ns_raised :: nat
  ns_turned_away :: nat

definition notify_start :: "bool \<Rightarrow> notify_system" where
  "notify_start listening =
     \<lparr>ns_socket = socket_notification_new listening, ns_waiter = None, ns_sending = 0, ns_raised = 0, ns_turned_away = 0\<rparr>"

inductive notify_step :: "nat \<Rightarrow> notify_system \<Rightarrow> notify_system \<Rightarrow> bool" for cap where
  subscribe_timed: "ns_waiter s = None \<Longrightarrow> notify_step cap s (s\<lparr>ns_waiter := Some (wait_for_change_start timeout)\<rparr>)"
| subscribe_event: "ns_waiter s = None \<Longrightarrow> notify_step cap s (s\<lparr>ns_waiter := Some wait_event_cancellable_start\<rparr>)"
| turn: "\<lbrakk> ns_waiter s = Some w; wait_turn cap calls (ns_socket s, w) = (n, w') \<rbrakk>
    \<Longrightarrow> notify_step cap s (s\<lparr>ns_socket := n, ns_waiter := Some w'\<rparr>)"
| leave: "\<lbrakk> ns_waiter s = Some w; wt_at w = Answer r \<rbrakk>
    \<Longrightarrow> notify_step cap s (s\<lparr>ns_waiter := None,
          ns_turned_away := ns_turned_away s + (if wt_cancellable w \<and> r = Ok False then 1 else 0)\<rparr>)"
| cancel_flag: "cancel_waits_swap (ns_socket s) = (n, first)
    \<Longrightarrow> notify_step cap s (s\<lparr>ns_socket := n, ns_sending := ns_sending s + (if first then 1 else 0),
          ns_raised := ns_raised s + (if first then 1 else 0)\<rparr>)"
| cancel_wake: "ns_sending s > 0
    \<Longrightarrow> notify_step cap s (s\<lparr>ns_socket := wake_local_waiter cap (ns_socket s), ns_sending := ns_sending s - 1\<rparr>)"
| publisher: "notify cap accepts connected sends (ns_socket s) = (n, r) \<Longrightarrow> notify_step cap s (s\<lparr>ns_socket := n\<rparr>)"

subsection \<open>What one call keeps\<close>

lemma drain_values [simp]:
  "sk_wakes (drain_cancel_fd n) = 0" "sk_cancel_pending (drain_cancel_fd n) = sk_cancel_pending n"
  by (simp_all add: drain_cancel_fd_def)

lemma wake_values [simp]: "sk_cancel_pending (wake_local_waiter cap n) = sk_cancel_pending n"
  by (simp add: wake_local_waiter_def)

lemma wake_wakes: "0 < cap \<Longrightarrow> 0 < sk_wakes (wake_local_waiter cap n)"
  by (simp add: wake_local_waiter_def)

lemma clear_values [simp]:
  "sk_cancel_pending (clear_connection fd n) = sk_cancel_pending n" "sk_wakes (clear_connection fd n) = sk_wakes n"
  by (simp_all add: clear_connection_def)

text \<open>Apart from the waiter nobody lowers the flag or empties the pair.\<close>

definition awake_kept :: "nat \<Rightarrow> socket_notification \<Rightarrow> socket_notification \<Rightarrow> bool" where
  "awake_kept cap n n' \<longleftrightarrow> sk_cancel_pending n' = sk_cancel_pending n \<and> (0 < cap \<longrightarrow> 0 < sk_wakes n \<longrightarrow> 0 < sk_wakes n')"

lemma awake_kept_refl [simp]: "awake_kept cap n n"
  by (simp add: awake_kept_def)

lemma awake_accept: "awake_kept cap n (fst (accept_all cap cs n))"
proof (induction cap cs n rule: accept_all.induct)
  case (2 cap fd nonblocking cs n)
  then show ?case by (auto simp: awake_kept_def wake_wakes split: sum.split)
qed (simp_all add: awake_kept_def)

lemma awake_connection: "notification_connection cap accepts connected n = (n', r) \<Longrightarrow> awake_kept cap n n'"
  using awake_accept [of cap n accepts]
  by (auto simp: notification_connection_def awake_kept_def split: if_splits prod.splits sum.splits option.splits)

lemma awake_send: "awake_kept cap n (fst (send_notification fd cs n))"
  by (induction fd cs n rule: send_notification.induct) (auto simp: awake_kept_def)

lemma awake_notify: "notify cap accepts connected sends n = (n', r) \<Longrightarrow> awake_kept cap n n'"
  using awake_connection [of cap accepts connected n] awake_send [of cap _ _ sends]
  by (auto simp: notify_def awake_kept_def split: prod.splits sum.splits option.splits) (metis fst_conv)+

lemma awake_polled:
  assumes "polled cap calls timeout current n = (n', at)"
  shows "awake_kept cap n n'" "at \<noteq> AtEntry" "at \<noteq> AtCheck" "at \<noteq> AtLastDrain"
    "timeout = None \<Longrightarrow> at \<noteq> Answer (Ok False)"
  using assms awake_connection [of cap "wc_accepts calls" "wc_connected calls" n]
  by (auto simp: polled_def connection_ready_def Let_def timeout_ms_def awake_kept_def
      split: poll_answer.splits if_splits prod.splits sum.splits option.splits)

subsection \<open>The invariant of a process\<close>

definition untimed :: "waiter \<Rightarrow> bool" where
  "untimed w \<longleftrightarrow> (wt_cancellable w \<longrightarrow> wt_timeout w = None)"

text \<open>A cancellable waiter that has looked at the flag and is about to poll: a raised flag has left a byte to poll.\<close>

definition before_poll :: "wait_at \<Rightarrow> bool" where
  "before_poll at \<longleftrightarrow> at = AtLoop \<or> (\<exists>current. at = AtPoll current)"

definition awake :: "socket_notification \<Rightarrow> waiter \<Rightarrow> bool" where
  "awake n w \<longleftrightarrow> (wt_cancellable w \<longrightarrow> before_poll (wt_at w) \<longrightarrow> sk_cancel_pending n \<longrightarrow> 0 < sk_wakes n)"

text \<open>The cancellations a waiter has taken but not yet returned with.\<close>

definition taken :: "waiter \<Rightarrow> nat" where
  "taken w = (if wt_cancellable w \<and> (wt_at w = AtLastDrain \<or> wt_at w = Answer (Ok False)) then 1 else 0)"

definition raised_flag :: "socket_notification \<Rightarrow> nat" where
  "raised_flag n = (if sk_cancel_pending n then 1 else 0)"

lemma turn_keeps:
  assumes "wait_turn cap calls (n, w) = (n', w')" "untimed w" "0 < cap"
  shows "untimed w' \<and> (awake n w \<longrightarrow> awake n' w') \<and> taken w' + raised_flag n' = taken w + raised_flag n
    \<and> wt_cancellable w' = wt_cancellable w"
proof (cases "wt_at w")
  case AtEntry
  then show ?thesis using assms
    by (auto simp: wait_turn_def Let_def untimed_def awake_def before_poll_def taken_def raised_flag_def split: if_splits)
next
  case AtLoop
  obtain m r where m: "notification_connection cap (wc_accepts calls) (wc_connected calls) n = (m, r)" by (metis prod.exhaust)
  have "awake_kept cap n m" by (rule awake_connection [OF m])
  then show ?thesis using assms AtLoop m
    by (cases r) (auto simp: wait_turn_def Let_def untimed_def awake_def before_poll_def taken_def raised_flag_def awake_kept_def)
next
  case (AtPoll current)
  obtain m at where m: "polled cap calls (wt_timeout w) current n = (m, at)" by (metis prod.exhaust)
  show ?thesis using assms AtPoll m awake_polled [OF m]
    by (auto simp: wait_turn_def Let_def untimed_def awake_def before_poll_def taken_def raised_flag_def awake_kept_def)
next
  case (Answer r)
  then show ?thesis using assms by (simp add: wait_turn_def Let_def)
qed (use assms in \<open>auto simp: wait_turn_def Let_def untimed_def awake_def before_poll_def taken_def raised_flag_def split: if_splits\<close>)

definition notify_sound :: "notify_system \<Rightarrow> bool" where
  "notify_sound s \<longleftrightarrow>
     (case ns_waiter s of
        None \<Rightarrow> ns_raised s = ns_turned_away s + raised_flag (ns_socket s)
      | Some w \<Rightarrow> untimed w \<and> (ns_sending s = 0 \<longrightarrow> awake (ns_socket s) w)
          \<and> ns_raised s = ns_turned_away s + taken w + raised_flag (ns_socket s))"

lemma sound_step: "notify_step cap s s' \<Longrightarrow> 0 < cap \<Longrightarrow> notify_sound s \<Longrightarrow> notify_sound s'"
proof (induction rule: notify_step.induct)
  case (turn s w calls n w')
  then show ?case using turn_keeps [of cap calls "ns_socket s" w n w'] by (auto simp: notify_sound_def)
next
  case (cancel_flag s n first)
  then show ?case
    by (auto simp: notify_sound_def cancel_waits_swap_def raised_flag_def awake_def split: option.splits)
next
  case (cancel_wake s)
  then show ?case
    by (auto simp: notify_sound_def raised_flag_def awake_def wake_wakes split: option.splits)
next
  case (publisher accepts connected sends s n r)
  then show ?case using awake_notify [of cap accepts connected sends "ns_socket s" n r]
    by (auto simp: notify_sound_def raised_flag_def awake_def awake_kept_def split: option.splits)
next
  case (leave s w r)
  then show ?case by (auto simp: notify_sound_def taken_def)
qed (auto simp: notify_sound_def untimed_def awake_def before_poll_def taken_def
    wait_for_change_start_def wait_event_cancellable_start_def)

lemma sound_reachable:
  assumes "0 < cap" "rtranclp (notify_step cap) (notify_start listening) s"
  shows "notify_sound s"
  using assms(2)
proof (induction rule: rtranclp_induct)
  case base
  then show ?case by (simp add: notify_sound_def notify_start_def raised_flag_def socket_notification_new_def)
next
  case (step y z)
  then show ?case using sound_step assms(1) by blast
qed

subsection \<open>A raised flag ends the wait\<close>

definition waiter_runs ::
    "nat \<Rightarrow> wait_calls list \<Rightarrow> socket_notification \<times> waiter \<Rightarrow> socket_notification \<times> waiter" where
  "waiter_runs cap calls s = foldl (\<lambda>s c. wait_turn cap c s) s calls"

text \<open>How many turns a cancelled waiter is away from its answer.\<close>

fun turns_left :: "wait_at \<Rightarrow> nat" where
  "turns_left AtLoop = 4"
| "turns_left (AtPoll current) = 3"
| "turns_left AtEntry = 2"
| "turns_left AtDrain = 2"
| "turns_left AtLastDrain = 1"
| "turns_left AtCheck = 1"
| "turns_left (Answer r) = 0"

definition cancelled :: "socket_notification \<Rightarrow> waiter \<Rightarrow> bool" where
  "cancelled n w \<longleftrightarrow> wt_at w \<noteq> Answer (Ok True) \<and> ((\<nexists>r. wt_at w = Answer r) \<longrightarrow>
     wt_cancellable w \<and> (wt_at w = AtLastDrain \<or> sk_cancel_pending n) \<and> (before_poll (wt_at w) \<longrightarrow> 0 < sk_wakes n))"

lemma cancelled_turn:
  assumes "wait_turn cap calls (n, w) = (n', w')" "cancelled n w" "wc_poll calls \<noteq> PollIntr" "0 < cap"
  shows "cancelled n' w' \<and> turns_left (wt_at w') \<le> turns_left (wt_at w) - 1"
proof (cases "wt_at w")
  case AtLoop
  obtain m r where m: "notification_connection cap (wc_accepts calls) (wc_connected calls) n = (m, r)" by (metis prod.exhaust)
  have "awake_kept cap n m" by (rule awake_connection [OF m])
  then show ?thesis using assms AtLoop m
    by (cases r) (auto simp: wait_turn_def Let_def cancelled_def before_poll_def awake_kept_def)
next
  case (AtPoll current)
  then show ?thesis using assms
    by (cases "wc_poll calls") (auto simp: wait_turn_def Let_def cancelled_def before_poll_def polled_def)
qed (use assms in \<open>auto simp: wait_turn_def Let_def cancelled_def before_poll_def split: if_splits\<close>)

lemma cancelled_runs:
  assumes "cancelled n w" "\<And>c. c \<in> set calls \<Longrightarrow> wc_poll c \<noteq> PollIntr" "0 < cap"
    "waiter_runs cap calls (n, w) = (n', w')"
  shows "cancelled n' w' \<and> turns_left (wt_at w') \<le> turns_left (wt_at w) - length calls"
  using assms(1,2,4)
proof (induction calls arbitrary: n w)
  case Nil
  then show ?case by (simp add: waiter_runs_def)
next
  case (Cons c cs)
  obtain m v where m: "wait_turn cap c (n, w) = (m, v)" by (metis prod.exhaust)
  have v: "cancelled m v \<and> turns_left (wt_at v) \<le> turns_left (wt_at w) - 1"
    using cancelled_turn [OF m] Cons.prems assms(3) by simp
  have "waiter_runs cap cs (m, v) = (n', w')" using Cons.prems(3) m by (simp add: waiter_runs_def)
  then have "cancelled n' w' \<and> turns_left (wt_at w') \<le> turns_left (wt_at v) - length cs"
    using Cons.IH [of m v] Cons.prems v by simp
  then show ?case using v by auto
qed

lemma turns_over: "turns_left at = 0 \<Longrightarrow> \<exists>r. at = Answer r"
  by (cases at) auto

lemma four_turns: "turns_left at \<le> 4"
  by (cases at) auto

text \<open>C22: No cancellation is lost and none counts twice. In every state that the threads of a process can reach, in any
  interleaving of waits, cancellations, wake-ups and publications, with any answers of the kernel: the cancellations that
  raised the flag are those that turned a wait away, plus the one a waiter is about to return with, plus the one
  that is still up. And once the flag is up and its caller has sent its byte, the cancellable waiter inside returns within
  four steps of its own (polls that a signal interrupts apart), whatever else is to be read, and it does not report a change.\<close>

theorem cancel_not_lost:
  assumes "0 < cap" "rtranclp (notify_step cap) (notify_start listening) s" "ns_waiter s = Some w"
    and "length calls = 4" "\<And>c. c \<in> set calls \<Longrightarrow> wc_poll c \<noteq> PollIntr"
  shows "ns_raised s = ns_turned_away s + taken w + raised_flag (ns_socket s)
    \<and> (wt_cancellable w \<and> sk_cancel_pending (ns_socket s) \<and> ns_sending s = 0 \<and> wt_at w \<noteq> Answer (Ok True) \<longrightarrow>
        (\<exists>n v r. waiter_runs cap calls (ns_socket s, w) = (n, v) \<and> wt_at v = Answer r \<and> r \<noteq> Ok True))"
proof (intro conjI impI)
  have sound: "notify_sound s" by (rule sound_reachable [OF assms(1,2)])
  then show "ns_raised s = ns_turned_away s + taken w + raised_flag (ns_socket s)"
    using assms(3) by (simp add: notify_sound_def)
  assume pending: "wt_cancellable w \<and> sk_cancel_pending (ns_socket s) \<and> ns_sending s = 0 \<and> wt_at w \<noteq> Answer (Ok True)"
  then have start: "cancelled (ns_socket s) w"
    using sound assms(3) by (auto simp: notify_sound_def cancelled_def awake_def)
  obtain n v where run: "waiter_runs cap calls (ns_socket s, w) = (n, v)" by (metis prod.exhaust)
  have over: "cancelled n v \<and> turns_left (wt_at v) \<le> turns_left (wt_at w) - length calls"
    by (rule cancelled_runs [OF start assms(5,1) run])
  then have "turns_left (wt_at v) = 0" using assms(4) four_turns [of "wt_at w"] by simp
  then obtain r where r: "wt_at v = Answer r" using turns_over by blast
  moreover have "r \<noteq> Ok True" using over r by (simp add: cancelled_def)
  ultimately show "\<exists>n v r. waiter_runs cap calls (ns_socket s, w) = (n, v) \<and> wt_at v = Answer r \<and> r \<noteq> Ok True"
    using run by blast
qed

text \<open>A waiter parked in \<open>poll\<close>, with nothing to read, and a cancellation beside it.\<close>

definition quiet_calls :: wait_calls where
  "quiet_calls = \<lparr>wc_accepts = [], wc_connected = Err ''refused'', wc_poll = Polled False False, wc_recvs = []\<rparr>"

definition parked_waiter :: waiter where
  "parked_waiter = wait_event_cancellable_start\<lparr>wt_at := AtPoll None\<rparr>"

definition cancelled_system :: notify_system where
  "cancelled_system = (notify_start True)\<lparr>ns_waiter := Some parked_waiter, ns_raised := 1,
     ns_socket := \<lparr>sk_listener = True, sk_connection = None, sk_wakes = 1, sk_cancel_pending = True\<rparr>\<rparr>"

lemma quiet_blocks: "wait_turn cap quiet_calls (socket_notification_new True, parked_waiter)
    = (socket_notification_new True, parked_waiter)"
  by (simp add: wait_turn_def parked_waiter_def wait_event_cancellable_start_def socket_notification_new_def quiet_calls_def
      polled_def timeout_ms_def)

lemma cancelled_system_reachable: "rtranclp (notify_step 8) (notify_start True) cancelled_system"
proof -
  let ?s0 = "notify_start True"
  let ?s1 = "?s0\<lparr>ns_waiter := Some wait_event_cancellable_start\<rparr>"
  let ?w = "wait_event_cancellable_start\<lparr>wt_at := AtLoop\<rparr>"
  let ?s2 = "?s1\<lparr>ns_socket := socket_notification_new True, ns_waiter := Some ?w\<rparr>"
  let ?s3 = "?s2\<lparr>ns_socket := socket_notification_new True, ns_waiter := Some parked_waiter\<rparr>"
  let ?s4 = "?s3\<lparr>ns_socket := (socket_notification_new True)\<lparr>sk_cancel_pending := True\<rparr>, ns_sending := 1, ns_raised := 1\<rparr>"
  have "notify_step 8 ?s0 ?s1" by (rule subscribe_event) (simp add: notify_start_def)
  moreover have "notify_step 8 ?s1 ?s2"
    by (rule turn [where calls = quiet_calls and w = wait_event_cancellable_start])
      (simp_all add: notify_start_def wait_turn_def wait_event_cancellable_start_def socket_notification_new_def)
  moreover have "notify_step 8 ?s2 ?s3"
    by (rule turn [where calls = quiet_calls and w = ?w])
      (simp_all add: wait_turn_def wait_event_cancellable_start_def socket_notification_new_def parked_waiter_def
        quiet_calls_def notification_connection_def)
  moreover have "notify_step 8 ?s3 ?s4"
    using cancel_flag [of ?s3 "(socket_notification_new True)\<lparr>sk_cancel_pending := True\<rparr>" True 8]
    by (simp add: cancel_waits_swap_def socket_notification_new_def notify_start_def)
  moreover have "notify_step 8 ?s4 cancelled_system"
    using cancel_wake [of ?s4 8]
    by (simp add: cancelled_system_def wake_local_waiter_def notify_start_def socket_notification_new_def)
  ultimately show ?thesis by (meson converse_rtranclp_into_rtranclp rtranclp.rtrancl_refl)
qed

lemma cancel_not_lost_witness:
  "\<exists>n v r. waiter_runs 8 (replicate 4 quiet_calls) (ns_socket cancelled_system, parked_waiter) = (n, v) \<and> wt_at v = Answer r \<and> r \<noteq> Ok True"
proof -
  have "wc_poll c \<noteq> PollIntr" if "c \<in> set (replicate 4 quiet_calls)" for c using that by (auto simp: quiet_calls_def)
  from cancel_not_lost [OF _ cancelled_system_reachable, of parked_waiter "replicate 4 quiet_calls", OF _ _ _ this]
  show ?thesis by (simp add: cancelled_system_def notify_start_def parked_waiter_def wait_event_cancellable_start_def)
qed

end
