(* ===== verification/Oc_Limits.thy ===== *)
theory Oc_Limits
  imports Oc_Vpn_Options Oc_Ipc_Laws Oc_Auth Oc_Ui
begin

text \<open>
  Corners of the modelled code whose behaviour differs from what its comments or its other parts lead one to expect, each
  stated as it is.
\<close>

text \<open>\<open>VpnOptions::from_network\<close>: with resolvers of the uplink no resolver and no search domain of the headend is passed on.\<close>

lemma uplink_dns_withholds:
  assumes "pf_split_tunnel_mode p = OnUplinkDns" "\<not> pf_force_global p"
    and "filter_map (\<lambda>s. normalize_route_cidr (trim s)) (split_networks (pf_split_tunnel_networks p)) \<noteq> []"
  shows "vo_dns_addresses (from_network net p) = []"
proof -
  obtain rs where "route_policy net p = (rs, [], False)" using assms by (simp add: route_policy_def)
  then show ?thesis by (rule from_network_eq(5))
qed

text \<open>\<open>PlatformIpc::publish\<close>: a frame that is too large leaves the region alone but uses up its generation, so the frame after
  it is written over the slot of the latest one, not over the older one.\<close>

lemma oversized_frame_skips:
  assumes "encode c envelope = Ok content" "length content > snd (lane_layout (ipc_role i)) - frame_header_size"
    "ipc_next_generation i < u64_max"
  shows "publish am c notified envelope (i, m) =
        ((i\<lparr>ipc_next_generation := ipc_next_generation i + 1\<rparr>, m),
         Err (FrameTooLarge (length content) (snd (lane_layout (ipc_role i)) - frame_header_size)))
    \<and> slot_offset role (g + 2) = slot_offset role g"
  using assms by (simp_all add: publish_def write_frame_def Let_def slot_offset_def slot_count_def)

text \<open>\<open>PlatformIpc::publish_snapshot\<close>: when the first of the two frames that scrub a payload is written but the peer cannot be
  notified, the second frame is not written; the slot of the previous frame is left for the next publication.\<close>

lemma scrub_stops_unnotified:
  assumes "publish am c (Err e) envelope ((fst im)\<lparr>ipc_published := envelope\<rparr>, snd im) = (im', Err e)"
    and "replace_snapshot (ipc_published (fst im)) state handoff browser ack = (envelope, True)"
  shows "publish_snapshot am c (Err e) notified state handoff browser ack im = (im', Err e)"
  using assms by (simp add: publish_snapshot_def seq_in_def)

text \<open>The choice of a group after a discovery: a label that equals the configured name wins over a later group of that name.\<close>

lemma label_shadows_name:
  assumes "ui_editor_open s" "trim (pf_server (ui_draft s)) = server"
    and "offered_groups discovery = g # gs" "trim (ch_label g) = trim (pf_group (ui_draft s))"
  shows "pf_group (ui_draft (groups_discovered h server (Ok discovery) s)) = ch_name g"
  using assms by (simp add: groups_discovered_def Let_def)

text \<open>\<open>AuthInteraction::wait_for_reply\<close>: a worker that saw the abort takes away whatever challenge is pending by then, also one
  that another worker raised after a new session began.\<close>

lemma stale_worker_drops:
  assumes "au_aborted s"
  shows "worker_step (TimedOut ch c, s) = (GivingUp ch c, s)
    \<and> \<not> au_aborted (begin_session s) \<and> au_pending (snd (worker_step (GivingUp ch c, s'))) = None"
  using assms by (simp add: begin_session_def cancel_slot_def close_channel_def send_def Let_def split: option.split)

end
