(* ===== verification/Oc_Recording.thy ===== *)
theory Oc_Recording
  imports Oc_Log_Laws Oc_Store Oc_Form
begin

text \<open>
  Switching the recording of logs (\<open>log_recording.rs\<close>), the list of archives, and the tracing layer that captures runtime
  events (\<open>engine/logging.rs\<close>). An event is its target, its level and its fields with their printed values.
\<close>

subsection \<open>The marker\<close>

text \<open>
  The marker file holds the time at which the recording began. Its content is the state; the calls are: making the
  directory, building the appender, writing the temporary file, renaming it, and removing the marker. The
  time is read before the temporary file is named.
\<close>

record marker_calls =
  mk_directory :: "(str, unit) result"
  mk_appender :: "(str, unit) result"
  mk_write :: write_calls
  mk_rename :: "(str, unit) result"
  mk_remove :: "(str, unit) result"

definition io_call :: "(str, 'a) result \<Rightarrow> (str, 'a) result" where
  "io_call r = (case r of Inl e \<Rightarrow> Err (''io: '' @ e) | Inr x \<Rightarrow> Ok x)"

definition remove_marker :: "(str, unit) result \<Rightarrow> str option \<Rightarrow> str option \<times> (str, unit) result" where
  "remove_marker removed marker =
     (if marker \<noteq> None then try_in marker (io_call removed) (\<lambda>_. (None, Ok ())) else (marker, Ok ()))"

definition reset_recording :: "(str, unit) result \<Rightarrow> str option \<Rightarrow> str option \<times> (str, unit) result" where
  "reset_recording removed marker = remove_marker removed marker"

definition set_recording_enabled :: "marker_calls \<Rightarrow> nat \<Rightarrow> bool \<Rightarrow> str option \<Rightarrow> str option \<times> (str, unit) result" where
  "set_recording_enabled calls now enabled marker =
     try_in marker (io_call (mk_directory calls)) (\<lambda>_.
       if enabled then
         try_in marker (mk_appender calls) (\<lambda>_.
         try_in marker (snd (write_atomic_private (mk_write calls) (show_dec now) None)) (\<lambda>_.
         try_in marker (io_call (mk_rename calls)) (\<lambda>_. (Some (show_dec now), Ok ()))))
       else remove_marker (mk_remove calls) marker)"

text \<open>Failing leaves the recording as it was; succeeding makes it what was asked for.\<close>

lemma recording_switched:
  assumes "set_recording_enabled calls now enabled marker = (marker', r)"
  shows "(r = Ok () \<longrightarrow> marker' = (if enabled then Some (show_dec now) else None)) \<and> (r \<noteq> Ok () \<longrightarrow> marker' = marker)"
  using assms
  by (auto simp: set_recording_enabled_def remove_marker_def try_in_def split: sum.splits if_splits)

text \<open>
  The marker written is the session the buffers find: it is not empty, and it parses to the time of the switch, so the
  runtime buffer keeps exactly what was captured since.
\<close>

lemma trim_show_dec: "trim (show_dec n) = show_dec n"
  by (rule trim_plain) (auto simp: list_all_iff plain_def is_ascii_digit_def dest!: show_dec_digits)

lemma marker_of_start: "active_session_id (Some (show_dec now)) = Some (show_dec now)"
  by (simp add: active_session_id_def trim_show_dec)

lemma trim_persisted_kept: "set (trim_persisted n cs) \<subseteq> set cs"
  by (induction n cs rule: trim_persisted.induct) auto

lemma recording_starts:
  assumes "set_recording_enabled calls now True marker = (marker', Ok ())" "now \<le> max_u128" "li_marker io = marker'"
    and "rl_session_id b \<noteq> Some (show_dec now)"
  shows "set (rl_entries (runtime_sync io takes b)) \<subseteq> {c \<in> set (rl_entries b). now \<le> cl_captured_at c}
    \<and> (\<not> li_build io \<longrightarrow> set (rl_entries (runtime_sync io takes b)) = {c \<in> set (rl_entries b). now \<le> cl_captured_at c})"
proof -
  have "marker' = Some (show_dec now)" using recording_switched [OF assms(1)] by simp
  then have sid: "active_session_id (li_marker io) = Some (show_dec now)" by (simp add: assms(3) marker_of_start)
  have started: "parse_uint max_u128 (show_dec now) = Some now" by (rule parse_uint_show [OF assms(2)])
  have fresh: "Some (show_dec now) \<noteq> rl_session_id b" using assms(4) by simp
  show ?thesis
    unfolding runtime_sync_def sid Let_def using fresh started
    by (auto split: prod.split dest!: trim_persisted_kept [THEN subsetD])
qed

subsection \<open>The archives\<close>

definition log_files :: "(str, dir_entry) result list \<Rightarrow> str set" where
  "log_files es = {dr_name d | d n m. Inr d \<in> set es \<and> is_log_file_name (dr_name d) \<and> dr_metadata d = Ok (True, n, m)}"

lemma log_files_Cons:
  "log_files (Inr d # es) =
     (if is_log_file_name (dr_name d) \<and> (\<exists>n m. dr_metadata d = Ok (True, n, m)) then {dr_name d} else {}) \<union> log_files es"
  by (auto simp: log_files_def)

lemma collected: "collect_archives es = Ok archives \<Longrightarrow> la_file_name ` set archives = log_files es"
proof (induction es arbitrary: archives)
  case Nil
  then show ?case by (simp add: log_files_def)
next
  case (Cons x es)
  then obtain d where x: "x = Inr d" by (cases x) auto
  show ?case using Cons unfolding x log_files_Cons
    by (auto simp: and_then_Ok split: if_splits sum.splits prod.splits) (metis imageI)
qed

text \<open>What the list shows: exactly the log files of the directory, the latest first.\<close>

lemma archives_listed:
  assumes "list_archives (Some (Ok es)) = Ok archives"
  shows "la_file_name ` set archives = log_files es
    \<and> sorted_wrt (\<lambda>a b. (la_date b, la_file_name b) \<le> (la_date a, la_file_name a)) archives"
proof -
  obtain found where found: "collect_archives es = Ok found" "archives = sort_archives found"
    using assms by (auto simp: list_archives_def and_then_Ok)
  have "sorted (map (\<lambda>a. (la_date a, la_file_name a)) (sort_key (\<lambda>a. (la_date a, la_file_name a)) (rev found)))"
    by (rule sorted_sort_key)
  then show ?thesis using collected [OF found(1)]
    by (simp add: found(2) sort_archives_def sorted_map sorted_wrt_rev)
qed

text \<open>The engine's calls (\<open>engine/profiles.rs\<close>); \<open>directory\<close> is the directory after the removal.\<close>

definition delete_log_archive ::
    "str option \<Rightarrow> nat \<times> nat \<times> nat \<Rightarrow> str option \<Rightarrow> (str, (str, dir_entry) result list) result option \<Rightarrow> str
       \<Rightarrow> (str, log_recording_status) result" where
  "delete_log_archive marker today removed directory name =
     and_then (delete_archive marker today removed name) (\<lambda>_. recording_status marker today directory)"

text \<open>The file that is being recorded to cannot be deleted: it is the one the status marks as active.\<close>

lemma active_archive_kept:
  assumes "recording_status marker today directory = Ok status" "a \<in> set (ls_archives status)" "la_active a"
  shows "\<exists>e. delete_log_archive marker today removed directory' (la_file_name a) = Err e"
  using assms by (auto simp: recording_status_def Let_def and_then_Ok delete_log_archive_def delete_archive_def)

subsection \<open>The tracing layer\<close>

datatype trace_level = TraceLevel | DebugLevel | InfoLevel | WarnLevel | ErrorLevel

text \<open>A value is recorded as text, or as what its debug formatting prints.\<close>

datatype field_value = DebugValue str | StrValue str

record log_message_visitor =
  mv_message :: "str option"
  mv_fields :: "str list"

definition trim_quotes :: "str \<Rightarrow> str" where
  "trim_quotes s = rev (dropWhile (\<lambda>c. c = CHR 0x22) (rev (dropWhile (\<lambda>c. c = CHR 0x22) s)))"

fun record_field :: "str \<times> field_value \<Rightarrow> log_message_visitor \<Rightarrow> log_message_visitor" where
  "record_field (name, DebugValue v) visitor =
     (if name = ''message'' then visitor\<lparr>mv_message := Some (trim_quotes v)\<rparr>
      else visitor\<lparr>mv_fields := mv_fields visitor @ [name @ ''='' @ v]\<rparr>)"
| "record_field (name, StrValue v) visitor =
     (if name = ''message'' then visitor\<lparr>mv_message := Some v\<rparr>
      else visitor\<lparr>mv_fields := mv_fields visitor @ [name @ ''='' @ v]\<rparr>)"

definition visitor_finish :: "str \<Rightarrow> log_message_visitor \<Rightarrow> str" where
  "visitor_finish fallback visitor =
     (let message = (case mv_message visitor of None \<Rightarrow> fallback | Some m \<Rightarrow> m)
      in if mv_fields visitor = [] then message
         else message @ '' '' @ utf8 [0xC2, 0xB7] @ '' '' @ join '', '' (mv_fields visitor))"

fun trace_level_name :: "trace_level \<Rightarrow> str" where
  "trace_level_name TraceLevel = ''debug''"
| "trace_level_name DebugLevel = ''debug''"
| "trace_level_name InfoLevel = ''info''"
| "trace_level_name WarnLevel = ''warning''"
| "trace_level_name ErrorLevel = ''error''"

definition on_event ::
    "nat \<Rightarrow> str \<Rightarrow> str \<Rightarrow> trace_level \<Rightarrow> (str \<times> field_value) list \<Rightarrow> runtime_log \<Rightarrow> runtime_log" where
  "on_event now timestamp target level values logs =
     (if \<not> is_vpn_log_target target then logs
      else
        let visitor = fold record_field values \<lparr>mv_message = None, mv_fields = []\<rparr>
        in runtime_capture now
             \<lparr>de_level = trace_level_name level, de_message = visitor_finish target visitor, de_timestamp = timestamp\<rparr> logs)"

text \<open>No event can make the buffer exceed its bound, and the entry of a captured event names its target or its message.\<close>

lemma on_event_bounded:
  "length (rl_entries logs) \<le> max_pending_runtime_logs
    \<Longrightarrow> length (rl_entries (on_event now timestamp target level values logs)) \<le> max_pending_runtime_logs"
  by (auto simp: on_event_def runtime_capture_def Let_def max_pending_runtime_logs_def)

end
