(* ===== verification/Spec2Isabelle.thy ===== *)
theory Spec2Isabelle
  imports Oc_Vpn_Options Oc_Owner_Laws Oc_Ipc_Laws Oc_Auth_Laws Oc_Log_Laws Oc_Engine_Laws Oc_Profile_Laws
    Oc_Attempt_Laws Oc_Form_Laws Oc_Native_Laws Oc_Protect Oc_Ui_Engine Oc_Ui_Reply Oc_Facade Oc_Await Oc_Notify
    Oc_Limits Oc_Recording
begin

text \<open>
  A verification library for H-OpenConnect, an AnyConnect-compatible VPN client for HarmonyOS. It models the Rust code of
  \<open>crates/hopenconnect_core/src\<close> (the core) and of \<open>crates/hopenconnect_ui/src\<close> (the UI). This header is the
  guide to it; every theory opens with a shorter text on what it holds.

  \<^bold>\<open>The program.\<close> The client runs in two processes. The UI process edits connection profiles, authenticates with the headend
  (\<open>native_session.rs\<close>, with the forms of the server shown through \<open>auth_bridge.rs\<close>) and starts the system's VPN Extension.
  The Extension process rebuilds the authenticated session, creates the tunnel from the options of \<open>model.rs\<close> and runs the
  mainloop. Both run the same \<open>SessionEngine\<close> (\<open>engine.rs\<close> and the files below \<open>engine/\<close>) and are tied together by four
  things: the shared memory of \<open>platform_ipc.rs\<close>, through which each publishes what \<open>platform_state.rs\<close> declares; its
  notification socket; the owner journal and the leases of \<open>platform_owner.rs\<close>, which survive a crash and say which
  process owns an attempt; and the one-time hand-off of descriptors of \<open>vpn_handoff.rs\<close>. The UI itself is a reducer
  (\<open>state.rs\<close>, \<open>state/tasks.rs\<close>) behind the N-API facade of \<open>lib.rs\<close>.

  \<^bold>\<open>How the code is modelled.\<close> A struct is a record, an enum a datatype, a function a definition of the same name. What a
  mutex protects is one record, and a function that takes the mutex is a function from that record to the record and a
  result \<open>Ok\<close> or \<open>Err\<close> (\<open>Oc_Prelude\<close>: \<open>and_then\<close>, \<open>bind_in\<close>, \<open>try_in\<close> are the operator \<open>?\<close>). An operation that releases
  the mutex is cut into its sections, and what others do between them is an argument. Addresses, prefixes, checksums and
  shared memory are machine words; counters that wrap or saturate are natural numbers with the bound written out. Clocks,
  random bytes, and what system calls, the platform, the \<open>anyconnect\<close> and \<open>serde_json\<close> crates and the
  message catalogue answer are arguments (\<open>moment\<close>, \<open>codec\<close>, \<open>ashmem\<close>, records of calls); the only laws assumed
  of them are that a document read back is the document written, and that mapped memory reads what was written.

  \<^bold>\<open>The theories, in the order in which they build on each other.\<close>

  \<^item> \<open>Oc_Prelude\<close>: results, text, numbers in text, list lemmas, \<open>codec\<close>. \<open>Oc_Net\<close>: \<open>std::net\<close> addresses, parsed
    and printed. \<open>Oc_Prefix\<close>: \<open>IpPrefix\<close>, with the locale \<open>prefix_algebra\<close> that both address families and the type of
    the code interpret.
  \<^item> \<open>Oc_Model\<close>, \<open>Oc_Routes\<close>: \<open>model.rs\<close>. \<open>Oc_Route_Laws\<close>, \<open>Oc_Route_Policy\<close>, \<open>Oc_Vpn_Options\<close>: the route policy against
    longest-prefix routing; which traffic a full tunnel and a custom split carry.
  \<^item> \<open>Oc_Owner\<close>, \<open>Oc_Owner_Laws\<close>: \<open>platform_owner.rs\<close>; every operation on the journal refines a compare-and-swap
    specification under every pattern of failing system calls, and a lease excludes every other.
  \<^item> \<open>Oc_Platform_State\<close>, \<open>Oc_Ipc\<close>, \<open>Oc_Ipc_Laws\<close>: \<open>platform_state.rs\<close>, and the frames of \<open>platform_ipc.rs\<close>; a reader beside a
    writer sees the old frame or the new one, and a scrubbed payload is gone from both slots. \<open>Oc_Notify\<close>: its
    notification socket with all threads of a process; no cancellation of a wait is lost.
  \<^item> \<open>Oc_Auth\<close>, \<open>Oc_Auth_Laws\<close>: \<open>auth_bridge.rs\<close>; which worker gets which answer, in any interleaving, and which option which value.
  \<^item> \<open>Oc_Logs\<close>, \<open>Oc_Log_Laws\<close>: \<open>log_recording.rs\<close> and \<open>engine/logging.rs\<close>. \<open>Oc_Store\<close>: \<open>store.rs\<close> and \<open>private_fs.rs\<close>.
    \<open>Oc_Recording\<close>: the marker that switches the recording, the list of archives, and the layer that captures events.
  \<^item> \<open>Oc_Engine\<close>: the state of the engine (\<open>world\<close>: the record behind its mutex and what is outside the process), the
    publication of the own lane and the handling of a frame of the other process. \<open>Oc_Platform\<close>: the coordinator,
    \<open>engine/platform.rs\<close>. \<open>Oc_Connection\<close>: \<open>engine/connection.rs\<close>. \<open>Oc_Profiles\<close>: \<open>engine/profiles.rs\<close>. \<open>Oc_Calls\<close>: all handlers as the
    steps of one process, and two processes beside each other. \<open>Oc_Engine_Parts\<close>, \<open>Oc_Settled\<close>: which parts of the
    state each block leaves alone (\<open>settled\<close>, \<open>fence_keeps\<close> and the parts lemmas carry the proofs that follow).
  \<^item> \<open>Oc_Engine_Laws\<close>: the transition a frame makes, the heartbeat watchdog, and the way of a published state into the other process.
    \<open>Oc_Coordinator_Laws\<close>: whole histories of calls, with the locales \<open>kept_by\<close> (what every call of a process keeps) and
    \<open>shared_fact\<close> (what every call of either process keeps): the fence between stop and start, superseded intents,
    claimed stops. \<open>Oc_Attempt_Laws\<close>: opening an attempt, protecting a live owner, the end of the recovery. \<open>Oc_Await\<close>: the
    two asynchronous waiters and why they end. \<open>Oc_Profile_Laws\<close>: the connection list, its live entry, and restarts.
    \<open>Oc_Samples\<close>: the concrete worlds of the witnesses.
  \<^item> \<open>Oc_Form\<close>, \<open>Oc_Form_Laws\<close>: the authentication handler of \<open>native_session.rs\<close>; no form is replayed, and runs of forms without a
    person end. \<open>Oc_Identity\<close>: \<open>client_identity.rs\<close>. \<open>Oc_Native\<close>, \<open>Oc_Native_Laws\<close>: the rest of \<open>native_session.rs\<close>; the Extension
    rebuilds the client of the UI, and gateways are tried in order. \<open>Oc_Protect\<close>: \<open>platform_protect.rs\<close>, \<open>platform_browser.rs\<close>.
  \<^item> \<open>Oc_Display\<close>, \<open>Oc_Ui\<close>: \<open>locale.rs\<close>, \<open>model.rs\<close>, \<open>log_filter.rs\<close>, \<open>virtual_identity.rs\<close>, \<open>connection_qr.rs\<close>, \<open>state.rs\<close>, \<open>state/tasks.rs\<close> of the UI:
    every action over records of the calls it makes. \<open>Oc_Ui_Laws\<close>: the reducer beside its outstanding futures. \<open>Oc_Ui_Engine\<close>: the
    record of engine calls filled with the engine of this library, with the locale \<open>connection_list\<close> between both.
    \<open>Oc_Ui_Reply\<close>: from the typed text to the option of the server. \<open>Oc_Handoff\<close>: \<open>vpn_handoff.rs\<close>. \<open>Oc_Facade\<close>: \<open>lib.rs\<close>, \<open>bridge/mod.rs\<close>.
  \<^item> \<open>Oc_Limits\<close>: corners in which the code does not do what a comment or another part of it leads one to expect.

  \<^bold>\<open>Bounds and fuel.\<close> The recovery after a confirmed stop is a loop with a deadline: with a clock that advances by the poll
  interval it needs at most 301 turns (its timeout divided by the interval, and one), and \<open>recovery_terminates\<close> proves
  that 301 are enough. Reading a frame makes three attempts, as the code does. The search for a free imported id has
  one more turn than there are profiles, and one of so many candidates is free. Loops over system calls
  (interrupted reads and writes, the accept loop, the waiters) recurse over the list of what the kernel answers; where
  such a list can run out before the loop does, the result is \<open>None\<close>, and the theorems say how many answers suffice; in
  \<open>Oc_Notify\<close> an exhausted list is \<open>EWOULDBLOCK\<close>, and four turns end a cancelled wait.
  All other recursions are structural or have a termination proof.

  \<^bold>\<open>Not modelled.\<close> The views of the UI (\<open>view/\<close>) and the plugin declarations (\<open>bridge/\<close> but for \<open>mod.rs\<close>): rendering, and types for
  macros. The catalogue, \<open>time_format.rs\<close>, \<open>socket_protect.rs\<close>, \<open>error.rs\<close> and \<open>lib.rs\<close> of the core: generated code and
  glue. Permissions of files, creating sockets and setting their flags: system calls without a decision. The rolling file of
  the log and the subscriber registry: library calls. The number formatting of \<open>format_bytes\<close>. Derived serialisation. Poisoned mutexes: no
  block under a mutex panics. ArkTS, scripts and tests.
\<close>

end
